(* ===== verification/Prelude.thy ===== *)
theory Prelude imports Complex_Main "HOL-Library.Sublist" begin

text \<open>
  Shared vocabulary of the development: the Python exceptions the models raise, Python
  string operations on \<open>string\<close>, dictionaries as association lists in insertion order,
  and the generic list and option lemmas the component theories rely on.

  A Python \<open>str\<close> is a \<open>string\<close> wherever the code only compares, splits, joins or
  slices it; where the code depends on code points and bytes (theory \<open>Utf8\<close> and the PII
  theories) a text is a list of code points instead.
\<close>

named_theorems handler_simps "unfolding equations of the request handlers' sub-steps"
named_theorems dict_simps "lookup after update for Python dictionaries"

section \<open>Exceptions and results\<close>

text \<open>
  A Python call returns a value or raises; the model returns a value of the sum type
  \<open>'e + 'a\<close>, with \<open>Inl\<close> for the raised exception.
\<close>

datatype py_error =
    AssertionError
  | TypeError
  | KeyError
  | AttributeError
  | ValueError string
  | UnicodeDecodeError
  | UnicodeEncodeError
  | RuntimeError string
  | OtherException string

text \<open>Sequencing: an exception of the first part is the outcome of the whole.\<close>

definition ebind :: "'e + 'a \<Rightarrow> ('a \<Rightarrow> 'e + 'b) \<Rightarrow> 'e + 'b" where
  "ebind m f = (case m of Inl e \<Rightarrow> Inl e | Inr a \<Rightarrow> f a)"

definition eassert :: "bool \<Rightarrow> 'e \<Rightarrow> 'e + unit" where
  "eassert b e = (if b then Inr () else Inl e)"

fun emap :: "('a \<Rightarrow> 'e + 'b) \<Rightarrow> 'a list \<Rightarrow> 'e + 'b list" where
  \<comment> \<open>a loop that appends one result per element and stops at the first exception\<close>
  "emap f [] = Inr []"
| "emap f (x # xs) =
     (case f x of Inl e \<Rightarrow> Inl e
      | Inr y \<Rightarrow> (case emap f xs of Inl e \<Rightarrow> Inl e | Inr ys \<Rightarrow> Inr (y # ys)))"

fun emap_from :: "(nat \<Rightarrow> 'a \<Rightarrow> 'e + 'b) \<Rightarrow> nat \<Rightarrow> 'a list \<Rightarrow> 'e + 'b list" where
  \<comment> \<open>the same with \<open>enumerate\<close>\<close>
  "emap_from f i [] = Inr []"
| "emap_from f i (x # xs) =
     ebind (f i x) (\<lambda>y. ebind (emap_from f (Suc i) xs) (\<lambda>ys. Inr (y # ys)))"

section \<open>Python strings\<close>

definition py_startswith :: "string \<Rightarrow> string \<Rightarrow> bool" where
  "py_startswith s p \<longleftrightarrow> take (length p) s = p"

definition py_is_space :: "char \<Rightarrow> bool" where
  \<comment> \<open>ASCII white space as \<open>str.strip\<close> and \<open>str.split\<close> treat it\<close>
  "py_is_space c \<longleftrightarrow>
     (let n = of_char c :: nat in n = 32 \<or> (9 \<le> n \<and> n \<le> 13) \<or> (28 \<le> n \<and> n \<le> 31))"

definition py_strip :: "string \<Rightarrow> string" where
  "py_strip s = rev (dropWhile py_is_space (rev (dropWhile py_is_space s)))"

fun py_join :: "string \<Rightarrow> string list \<Rightarrow> string" where
  "py_join sep [] = []"
| "py_join sep [x] = x"
| "py_join sep (x # y # xs) = x @ sep @ py_join sep (y # xs)"

text \<open>\<open>str.split()\<close> with no argument: the maximal runs of non-space characters.\<close>

fun py_split_ws_aux :: "string \<Rightarrow> string \<Rightarrow> string list" where
  "py_split_ws_aux acc [] = (if acc = [] then [] else [rev acc])"
| "py_split_ws_aux acc (c # cs) =
     (if py_is_space c
      then (if acc = [] then [] else [rev acc]) @ py_split_ws_aux [] cs
      else py_split_ws_aux (c # acc) cs)"

definition py_split_ws :: "string \<Rightarrow> string list" where
  "py_split_ws s = py_split_ws_aux [] s"

definition py_lower_char :: "char \<Rightarrow> char" where
  "py_lower_char c =
     (let n = of_char c :: nat in if 65 \<le> n \<and> n \<le> 90 then char_of (n + 32) else c)"

definition py_lower :: "string \<Rightarrow> string" where
  "py_lower s = map py_lower_char s"

definition py_upper :: "string \<Rightarrow> string" where
  "py_upper s =
     map (\<lambda>c. let n = of_char c :: nat in if 97 \<le> n \<and> n \<le> 122 then char_of (n - 32) else c) s"

text \<open>\<open>str.split(sep)\<close> for a one-character separator.\<close>

fun py_split_on :: "char \<Rightarrow> string \<Rightarrow> string list" where
  "py_split_on sep [] = [[]]"
| "py_split_on sep (c # cs) =
     (if c = sep then [] # py_split_on sep cs
      else (case py_split_on sep cs of p # ps \<Rightarrow> (c # p) # ps | [] \<Rightarrow> [[c]]))"

text \<open>Truth of an optional string in a condition: \<open>None\<close> and the empty string are false.\<close>

definition truthy_str :: "string option \<Rightarrow> bool" where
  "truthy_str s \<longleftrightarrow> (case s of None \<Rightarrow> False | Some t \<Rightarrow> t \<noteq> [])"

text \<open>\<open>secrets.compare_digest\<close> on two strings: a \<open>TypeError\<close> unless both are ASCII.\<close>

definition is_ascii :: "string \<Rightarrow> bool" where
  "is_ascii s \<longleftrightarrow> list_all (\<lambda>c. (of_char c :: nat) < 128) s"

definition compare_digest :: "string \<Rightarrow> string \<Rightarrow> py_error + bool" where
  "compare_digest a b = (if is_ascii a \<and> is_ascii b then Inr (a = b) else Inl TypeError)"

text \<open>
  The check at the head of every internal endpoint:
  \<open>not x_internal_token or not secrets.compare_digest(x_internal_token, expected)\<close> refuses.
\<close>

definition token_accepted :: "string option \<Rightarrow> string \<Rightarrow> py_error + bool" where
  "token_accepted given expected =
     (if \<not> truthy_str given then Inr False else compare_digest (the given) expected)"

text \<open>The slice \<open>xs[a:b]\<close> for natural bounds.\<close>

definition slice :: "nat \<Rightarrow> nat \<Rightarrow> 'a list \<Rightarrow> 'a list" where
  "slice a b xs = drop a (take b xs)"

section \<open>Dictionaries\<close>

text \<open>
  A Python \<open>dict\<close> whose order is observable (it is printed, iterated or merged) is an
  association list with distinct keys in insertion order; updating an existing key keeps
  its position.
\<close>

type_synonym 'v dict = "(string \<times> 'v) list"

fun dict_set :: "string \<Rightarrow> 'v \<Rightarrow> 'v dict \<Rightarrow> 'v dict" where
  "dict_set k v [] = [(k, v)]"
| "dict_set k v ((k', v') # d) = (if k = k' then (k, v) # d else (k', v') # dict_set k v d)"

definition dict_update :: "'v dict \<Rightarrow> 'v dict \<Rightarrow> 'v dict" where
  \<comment> \<open>\<open>d.update(e)\<close>, and \<open>{**d, **e}\<close>\<close>
  "dict_update d e = fold (\<lambda>(k, v). dict_set k v) e d"

definition dict_pop :: "string \<Rightarrow> 'v dict \<Rightarrow> 'v dict" where
  \<comment> \<open>\<open>d.pop(k, None)\<close>\<close>
  "dict_pop k d = filter (\<lambda>(k', v). k' \<noteq> k) d"

definition dict_get_or :: "'v dict \<Rightarrow> string \<Rightarrow> 'v \<Rightarrow> 'v" where
  "dict_get_or d k v = (case map_of d k of None \<Rightarrow> v | Some w \<Rightarrow> w)"

section \<open>Lemmas\<close>

lemma ebind_simps [simp]: "ebind (Inl e) f = Inl e" "ebind (Inr a) f = f a"
  by (simp_all add: ebind_def)

lemma ebind_eq_Inr: "ebind m f = Inr b \<longleftrightarrow> (\<exists>a. m = Inr a \<and> f a = Inr b)"
  by (cases m) auto

lemma ebind_eq_Inl: "ebind m f = Inl e \<longleftrightarrow> m = Inl e \<or> (\<exists>a. m = Inr a \<and> f a = Inl e)"
  by (cases m) auto

lemma eassert_eq_Inr [simp]: "eassert b e = Inr u \<longleftrightarrow> b"
  by (simp add: eassert_def)

lemma token_accepted_iff:
  "token_accepted given expected = Inr True \<longleftrightarrow>
     given = Some expected \<and> expected \<noteq> [] \<and> is_ascii expected"
  by (cases given) (auto simp: token_accepted_def truthy_str_def compare_digest_def)

lemma emap_Inr_length: "emap f xs = Inr ys \<Longrightarrow> length ys = length xs"
  by (induction xs arbitrary: ys) (auto split: sum.splits)

lemma emap_Inr_iff: "emap f xs = Inr ys \<longleftrightarrow> map f xs = map Inr ys"
proof (induction xs arbitrary: ys)
  case (Cons x xs)
  then show ?case
    by (cases ys; cases "f x"; cases "emap f xs") auto
qed auto

lemma emap_from_map:
  "emap_from f i xs = Inr ys \<Longrightarrow> (\<And>i x y. x \<in> set xs \<Longrightarrow> f i x = Inr y \<Longrightarrow> g x = h y) \<Longrightarrow> map g xs = map h ys"
  by (induction xs arbitrary: i ys) (auto simp: ebind_eq_Inr)

lemma emap_from_length: "emap_from f i xs = Inr ys \<Longrightarrow> length ys = length xs"
  by (induction xs arbitrary: i ys) (auto simp: ebind_eq_Inr)

lemma py_startswith_append [simp]: "py_startswith (p @ s) p"
  by (simp add: py_startswith_def)

lemma py_startswith_iff: "py_startswith s p \<longleftrightarrow> (\<exists>t. s = p @ t)"
  by (metis append_take_drop_id append_eq_conv_conj py_startswith_def)

lemma map_of_dict_set [simp, dict_simps]: "map_of (dict_set k v d) = (map_of d)(k \<mapsto> v)"
  by (induction k v d rule: dict_set.induct) auto

lemma keys_dict_set [simp]: "fst ` set (dict_set k v d) = insert k (fst ` set d)"
  by (induction k v d rule: dict_set.induct) auto

lemma distinct_dict_set [simp]:
  "distinct (map fst d) \<Longrightarrow> distinct (map fst (dict_set k v d))"
proof (induction k v d rule: dict_set.induct)
  case (2 k v k' v' d)
  have "k' \<notin> fst ` set (dict_set k v d)" if "k \<noteq> k'"
    using 2(2) that by (simp only: keys_dict_set) simp
  then show ?case using 2 by auto
qed simp

lemma in_keys_iff: "k \<in> fst ` set d \<longleftrightarrow> map_of d k \<noteq> None"
  by (simp add: map_of_eq_None_iff)

lemma map_of_dict_update [dict_simps]: "map_of (dict_update d e) = map_of d ++ map_of (rev e)"
proof (induction e arbitrary: d)
  case Nil
  then show ?case by (simp add: dict_update_def)
next
  case (Cons x e)
  obtain k v where x: "x = (k, v)" by force
  have "map_of (dict_update d (x # e)) = map_of (dict_update (dict_set k v d) e)"
    by (simp add: dict_update_def x)
  also have "\<dots> = (map_of d)(k \<mapsto> v) ++ map_of (rev e)"
    by (simp only: Cons.IH map_of_dict_set)
  finally show ?case
    by (simp add: x map_add_assoc fun_eq_iff map_add_def split: option.splits)
qed

lemma map_of_dict_pop [simp, dict_simps]: "map_of (dict_pop k d) = (map_of d)(k := None)"
  by (induction d) (auto simp: dict_pop_def fun_eq_iff)

lemma concat_snoc [simp]: "concat (xs @ [x]) = concat xs @ x"
  by simp

lemma length_slice: "a \<le> b \<Longrightarrow> b \<le> length xs \<Longrightarrow> length (slice a b xs) = b - a"
  by (simp add: slice_def)

lemma slice_append: "a \<le> b \<Longrightarrow> b \<le> length xs \<Longrightarrow> slice a b xs = take (b - a) (drop a xs)"
  by (simp add: slice_def drop_take)

lemma slice_slice: "i + k \<le> hi \<Longrightarrow> take k (slice i hi xs) = slice i (i + k) xs"
  by (simp add: slice_def take_drop min_def add.commute)

lemma take_slice: "a \<le> b \<Longrightarrow> take a xs @ slice a b xs = take b xs"
  using append_take_drop_id [of a "take b xs"] by (simp add: slice_def min_def)

lemma slice_join:
  assumes "a \<le> b" "b \<le> c"
  shows "slice a b xs @ slice b c xs = slice a c xs"
proof -
  have "slice a c xs = drop a (take b xs @ slice b c xs)"
    using take_slice [OF assms(2), of xs] by (simp add: slice_def)
  also have "\<dots> = slice a b xs @ drop (a - min (length xs) b) (slice b c xs)"
    by (simp add: slice_def)
  also have "drop (a - min (length xs) b) (slice b c xs) = slice b c xs"
    using assms by (cases "b \<le> length xs") (auto simp: slice_def)
  finally show ?thesis by simp
qed

lemma slice_self [simp]: "slice a a xs = []"
  by (simp add: slice_def)

lemma in_set_map_filter: "y \<in> set (map f (filter P xs)) \<longleftrightarrow> (\<exists>x\<in>set xs. P x \<and> f x = y)"
  by auto

lemma sum_list_length_concat: "sum_list (map length xs) = length (concat xs)"
  by (induction xs) auto

lemma take_drop_slice: "a \<le> b \<Longrightarrow> b \<le> length xs \<Longrightarrow> take a xs @ take (b - a) (drop a xs) = take b xs"
  by (metis le_add_diff_inverse take_add)

end
