(* ===== verification/Transition.thy ===== *)
theory Transition imports Prelude begin

text \<open>
  The two interfaces through which the components that run as state machines state their
  invariants: a property every step preserves, and one that also holds initially. Each machine of
  the development (breaker, scan slots, rate limiter, partitions, erasures) interprets them.
\<close>

locale step_invariant =
  fixes step :: "'s \<Rightarrow> 's \<Rightarrow> bool"
    and inv :: "'s \<Rightarrow> bool"
  assumes preserved: "inv s \<Longrightarrow> step s s' \<Longrightarrow> inv s'"
begin

lemma inv_steps: "step\<^sup>*\<^sup>* s s' \<Longrightarrow> inv s \<Longrightarrow> inv s'"
  by (induction rule: rtranclp_induct) (auto intro: preserved)

end

locale initialised_invariant = step_invariant step inv
  for step :: "'s \<Rightarrow> 's \<Rightarrow> bool" and inv :: "'s \<Rightarrow> bool" +
  fixes init :: 's
  assumes inv_init: "inv init"
begin

lemma inv_reachable: "step\<^sup>*\<^sup>* init s \<Longrightarrow> inv s"
  by (rule inv_steps [OF _ inv_init])

lemma inv_reachable_step: "step\<^sup>*\<^sup>* init s \<Longrightarrow> step s s' \<Longrightarrow> inv s'"
  by (rule preserved [OF inv_reachable])

end

end
