(* ===== verification/CircuitBreaker.thy ===== *)
theory CircuitBreaker imports Transition begin

text \<open>
  \<open>mcpproxy/app/circuit_breaker.py\<close>: the per-replica breaker around the OPA sidecar. First the
  class itself, one definition per method, with the value of \<open>time.monotonic()\<close> as an
  argument; then the breaker shared by concurrent requests, as a step relation: a request touches
  it twice, once before it awaits the sidecar (admission) and once after (settlement), and both
  touches are synchronous.
\<close>

section \<open>The class\<close>

definition FAILURE_THRESHOLD :: nat where
  "FAILURE_THRESHOLD = 5"

definition COOLDOWN_SECONDS :: rat where
  "COOLDOWN_SECONDS = 30"

datatype circuit_state = CLOSED | OPEN | HALF_OPEN

record breaker =
  cb_state :: circuit_state
  failure_count :: nat
  opened_at :: "rat option"

definition new_breaker :: breaker where
  "new_breaker = \<lparr>cb_state = CLOSED, failure_count = 0, opened_at = None\<rparr>"

definition is_closed :: "breaker \<Rightarrow> bool" where
  "is_closed b \<longleftrightarrow> cb_state b = CLOSED"

definition record_success :: "breaker \<Rightarrow> breaker" where
  "record_success b = b\<lparr>cb_state := CLOSED, failure_count := 0, opened_at := None\<rparr>"

definition trip :: "rat \<Rightarrow> breaker \<Rightarrow> breaker" where
  "trip now b = b\<lparr>cb_state := OPEN, opened_at := Some now\<rparr>"

definition record_failure :: "rat \<Rightarrow> breaker \<Rightarrow> breaker" where
  "record_failure now b =
     (let b' = b\<lparr>failure_count := failure_count b + 1\<rparr>
      in if failure_count b' \<ge> FAILURE_THRESHOLD then trip now b' else b')"

definition try_start_probe :: "rat \<Rightarrow> breaker \<Rightarrow> py_error + (bool \<times> breaker)" where
  "try_start_probe now b =
     (if cb_state b \<noteq> OPEN then Inr (False, b)
      else case opened_at b of
        None \<Rightarrow> Inl AssertionError
      | Some t \<Rightarrow>
          if now - t < COOLDOWN_SECONDS then Inr (False, b)
          else Inr (True, b\<lparr>cb_state := HALF_OPEN\<rparr>))"

definition record_probe_failure :: "rat \<Rightarrow> breaker \<Rightarrow> breaker" where
  "record_probe_failure now b = trip now b"

section \<open>Admission and settlement of one request\<close>

text \<open>
  \<open>mcpproxy/app/main.py\<close>, \<open>call\<close>: the two synchronous blocks around the awaited check.
  The outcome of the check is an answer (allow or deny), an \<open>OpaCheckError\<close>, or another
  exception, which the handler does not catch.
\<close>

datatype admission = Sidecar | Probe | Bypass

definition admit :: "rat \<Rightarrow> breaker \<Rightarrow> py_error + (admission \<times> breaker)" where
  "admit now b =
     (if is_closed b then Inr (Sidecar, b)
      else case try_start_probe now b of
        Inl e \<Rightarrow> Inl e
      | Inr (started, b') \<Rightarrow> Inr (if started then Probe else Bypass, b'))"

datatype check_outcome = Answered bool | CheckFailed | CheckRaised py_error

definition settle :: "rat \<Rightarrow> bool \<Rightarrow> check_outcome \<Rightarrow> breaker \<Rightarrow> breaker" where
  "settle now is_probe out b =
     (case out of
        Answered allowed \<Rightarrow> record_success b
      | CheckFailed \<Rightarrow> (if is_probe then record_probe_failure now b else record_failure now b)
      | CheckRaised e \<Rightarrow> b)"

section \<open>The breaker under concurrent requests\<close>

text \<open>
  \<open>inflight\<close> holds, for every request that is awaiting the sidecar, its number and whether it is
  a probe; \<open>probes\<close> lists the start times of all probes so far, latest first.
\<close>

record replica =
  cb :: breaker
  clock :: rat
  next_id :: nat
  inflight :: "(nat \<times> bool) list"
  probes :: "rat list"

definition new_replica :: replica where
  "new_replica = \<lparr>cb = new_breaker, clock = 0, next_id = 0, inflight = [], probes = []\<rparr>"

inductive replica_step :: "replica \<Rightarrow> replica \<Rightarrow> bool" where
  tick: "0 \<le> dt \<Longrightarrow> replica_step r (r\<lparr>clock := clock r + dt\<rparr>)"
| arrive:
    "admit (clock r) (cb r) = Inr (a, b) \<Longrightarrow>
     replica_step r
       (r\<lparr>cb := b, next_id := Suc (next_id r),
          inflight := (if a = Bypass then inflight r else (next_id r, a = Probe) # inflight r),
          probes := (if a = Probe then clock r # probes r else probes r)\<rparr>)"
| finish:
    "(i, p) \<in> set (inflight r) \<Longrightarrow>
     replica_step r
       (r\<lparr>cb := settle (clock r) p out (cb r), inflight := remove1 (i, p) (inflight r)\<rparr>)"

inductive_cases replica_stepE: "replica_step r r'"

definition replica_reachable :: "replica \<Rightarrow> bool" where
  "replica_reachable r \<longleftrightarrow> replica_step\<^sup>*\<^sup>* new_replica r"

section \<open>The class: lemmas\<close>

text \<open>What the class guarantees between calls, whatever order its methods are called in.\<close>

definition breaker_wf :: "breaker \<Rightarrow> bool" where
  "breaker_wf b \<longleftrightarrow>
     (case cb_state b of
        CLOSED \<Rightarrow> failure_count b < FAILURE_THRESHOLD \<and> opened_at b = None
      | _ \<Rightarrow> opened_at b \<noteq> None)"

lemmas breaker_defs = new_breaker_def is_closed_def record_success_def trip_def record_failure_def
  try_start_probe_def record_probe_failure_def

lemma breaker_wf_new [simp]: "breaker_wf new_breaker"
  by (simp add: breaker_wf_def breaker_defs FAILURE_THRESHOLD_def)

lemma breaker_wf_success [simp]: "breaker_wf (record_success b)"
  by (simp add: breaker_wf_def breaker_defs FAILURE_THRESHOLD_def)

lemma breaker_wf_trip [simp]: "breaker_wf (trip now b)"
  by (simp add: breaker_wf_def breaker_defs)

lemma breaker_wf_failure: "breaker_wf b \<Longrightarrow> breaker_wf (record_failure now b)"
  by (auto simp: breaker_wf_def breaker_defs Let_def split: circuit_state.splits)

lemma breaker_wf_settle: "breaker_wf b \<Longrightarrow> breaker_wf (settle now p out b)"
  by (auto simp: settle_def record_probe_failure_def breaker_wf_failure split: check_outcome.splits)

lemma breaker_wf_admit: "breaker_wf b \<Longrightarrow> admit now b = Inr (a, b') \<Longrightarrow> breaker_wf b'"
  by (auto simp: admit_def breaker_wf_def is_closed_def try_start_probe_def
      split: if_splits option.splits circuit_state.splits)

lemma admit_total: "breaker_wf b \<Longrightarrow> \<exists>a b'. admit now b = Inr (a, b')"
  by (auto simp: admit_def breaker_wf_def is_closed_def try_start_probe_def
      split: option.splits circuit_state.splits)

lemma admit_cases:
  assumes "admit now b = Inr (a, b')"
  obtains (sidecar) "a = Sidecar" "b' = b" "cb_state b = CLOSED"
  | (probe) t where "a = Probe" "b' = b\<lparr>cb_state := HALF_OPEN\<rparr>" "cb_state b = OPEN"
      "opened_at b = Some t" "t + COOLDOWN_SECONDS \<le> now"
  | (bypass) "a = Bypass" "b' = b" "cb_state b \<noteq> CLOSED"
  using assms
  by (fastforce simp: admit_def is_closed_def try_start_probe_def
      split: if_splits option.splits)

section \<open>Concurrent requests: lemmas\<close>

definition replica_inv :: "replica \<Rightarrow> bool" where
  "replica_inv r \<longleftrightarrow>
     breaker_wf (cb r) \<and>
     (\<forall>p\<in>set (probes r). p \<le> clock r) \<and>
     sorted_wrt (\<lambda>late early. early + COOLDOWN_SECONDS \<le> late) (probes r) \<and>
     (cb_state (cb r) = OPEN \<longrightarrow> (\<exists>t. opened_at (cb r) = Some t \<and> (\<forall>p\<in>set (probes r). p \<le> t)))"

lemma replica_inv_settle:
  assumes "replica_inv r"
  shows "replica_inv (r\<lparr>cb := settle (clock r) p out (cb r), inflight := xs\<rparr>)"
  using assms breaker_wf_settle [of "cb r" "clock r" p out]
  by (auto simp: replica_inv_def settle_def breaker_defs Let_def
      split: check_outcome.splits if_splits)

lemma replica_inv_admit:
  assumes "replica_inv r" "admit (clock r) (cb r) = Inr (a, b)"
  shows "replica_inv
    (r\<lparr>cb := b, next_id := n, inflight := xs,
       probes := (if a = Probe then clock r # probes r else probes r)\<rparr>)"
proof -
  have wf: "breaker_wf b"
    using assms by (auto simp: replica_inv_def intro: breaker_wf_admit)
  show ?thesis
    using assms(2)
  proof (cases rule: admit_cases)
    case (probe t)
    then have "\<forall>p\<in>set (probes r). p \<le> t"
      using assms(1) by (auto simp: replica_inv_def)
    then show ?thesis
      using probe assms(1) wf by (auto simp: replica_inv_def)
  qed (use assms(1) wf in \<open>auto simp: replica_inv_def\<close>)
qed

lemma replica_inv_step: "replica_inv r \<Longrightarrow> replica_step r r' \<Longrightarrow> replica_inv r'"
proof (erule replica_stepE)
  fix dt :: rat assume "replica_inv r" "0 \<le> dt" "r' = r\<lparr>clock := clock r + dt\<rparr>"
  then show "replica_inv r'" by (auto simp: replica_inv_def)
qed (simp_all add: replica_inv_settle replica_inv_admit)

interpretation cb_machine: initialised_invariant replica_step replica_inv new_replica
proof unfold_locales
  show "replica_inv new_replica"
    by (simp add: replica_inv_def new_replica_def) (simp add: new_breaker_def)
qed (rule replica_inv_step)

text \<open>A half-open breaker whose probe is gone: no step leaves this set of states.\<close>

definition replica_stuck :: "replica \<Rightarrow> bool" where
  "replica_stuck r \<longleftrightarrow> cb_state (cb r) = HALF_OPEN \<and> inflight r = []"

lemma replica_stuck_admit:
  "cb_state b = HALF_OPEN \<Longrightarrow> admit now b = Inr (Bypass, b)"
  by (simp add: admit_def is_closed_def try_start_probe_def)

interpretation cb_stuck: step_invariant replica_step replica_stuck
proof unfold_locales
  fix r r'
  assume "replica_stuck r" "replica_step r r'"
  then show "replica_stuck r'"
    by (auto elim!: replica_stepE simp: replica_stuck_def replica_stuck_admit)
qed

section \<open>Consecutive failures\<close>

text \<open>The reference for the counter: how many failures end the history of answered checks.\<close>

fun trailing_failures :: "bool list \<Rightarrow> nat" where
  \<comment> \<open>latest outcome first; \<open>True\<close> is a failed check\<close>
  "trailing_failures (True # h) = Suc (trailing_failures h)"
| "trailing_failures _ = 0"

definition settle_all :: "rat \<Rightarrow> check_outcome list \<Rightarrow> breaker \<Rightarrow> breaker" where
  "settle_all now outs b = fold (settle now False) outs b"

fun failure_history :: "check_outcome list \<Rightarrow> bool list \<Rightarrow> bool list" where
  "failure_history [] h = h"
| "failure_history (Answered b # os) h = failure_history os (False # h)"
| "failure_history (CheckFailed # os) h = failure_history os (True # h)"
| "failure_history (CheckRaised e # os) h = failure_history os h"

lemma settle_count:
  "failure_count b = trailing_failures h \<Longrightarrow>
   failure_count (settle now False (Answered a) b) = 0 \<and>
   failure_count (settle now False CheckFailed b) = Suc (trailing_failures h) \<and>
   failure_count (settle now False (CheckRaised e) b) = trailing_failures h"
  by (simp add: settle_def breaker_defs Let_def)

lemma settle_all_count:
  "failure_count b = trailing_failures h \<Longrightarrow>
   failure_count (settle_all now outs b) = trailing_failures (failure_history outs h)"
  by (induction outs h arbitrary: b rule: failure_history.induct)
    (simp_all add: settle_all_def settle_count)

lemma settle_state:
  "cb_state (settle now False out b) =
     (case out of
        Answered a \<Rightarrow> CLOSED
      | CheckFailed \<Rightarrow> (if failure_count b + 1 \<ge> FAILURE_THRESHOLD then OPEN else cb_state b)
      | CheckRaised e \<Rightarrow> cb_state b)"
  by (simp add: settle_def breaker_defs Let_def split: check_outcome.splits)

lemma settle_all_closed:
  assumes "(cb_state b = CLOSED) = (failure_count b < FAILURE_THRESHOLD)" "cb_state b \<noteq> HALF_OPEN"
  shows "cb_state (settle_all now outs b) =
    (if failure_count (settle_all now outs b) < FAILURE_THRESHOLD then CLOSED else OPEN)"
  using assms
proof (induction outs arbitrary: b)
  case Nil
  then show ?case by (cases "cb_state b") (auto simp: settle_all_def)
next
  case (Cons out outs)
  have "(cb_state (settle now False out b) = CLOSED) =
        (failure_count (settle now False out b) < FAILURE_THRESHOLD)"
    "cb_state (settle now False out b) \<noteq> HALF_OPEN"
    using Cons.prems
    by (auto simp: settle_def breaker_defs Let_def FAILURE_THRESHOLD_def
        split: check_outcome.splits)
  from Cons.IH [OF this] show ?case by (simp add: settle_all_def)
qed

section \<open>Schedules\<close>

text \<open>An executable schedule of the machine, for concrete runs.\<close>

datatype replica_action = Tick rat | Arrive | Finish nat check_outcome

fun replica_exec :: "replica_action \<Rightarrow> replica \<Rightarrow> replica option" where
  "replica_exec (Tick dt) r = (if 0 \<le> dt then Some (r\<lparr>clock := clock r + dt\<rparr>) else None)"
| "replica_exec Arrive r =
     (case admit (clock r) (cb r) of
        Inl e \<Rightarrow> None
      | Inr (a, b) \<Rightarrow> Some
          (r\<lparr>cb := b, next_id := Suc (next_id r),
             inflight := (if a = Bypass then inflight r else (next_id r, a = Probe) # inflight r),
             probes := (if a = Probe then clock r # probes r else probes r)\<rparr>))"
| "replica_exec (Finish i out) r =
     (case map_of (inflight r) i of
        None \<Rightarrow> None
      | Some p \<Rightarrow> Some
          (r\<lparr>cb := settle (clock r) p out (cb r), inflight := remove1 (i, p) (inflight r)\<rparr>))"

fun replica_run :: "replica_action list \<Rightarrow> replica \<Rightarrow> replica option" where
  "replica_run [] r = Some r"
| "replica_run (a # as) r = (case replica_exec a r of None \<Rightarrow> None | Some r' \<Rightarrow> replica_run as r')"

lemma replica_exec_step: "replica_exec a r = Some r' \<Longrightarrow> replica_step r r'"
  by (cases a) (auto split: if_splits sum.splits option.splits dest: map_of_SomeD
      intro: replica_step.intros)

lemma replica_run_steps: "replica_run as r = Some r' \<Longrightarrow> replica_step\<^sup>*\<^sup>* r r'"
proof (induction as arbitrary: r)
  case (Cons a as)
  then show ?case
    by (auto split: option.splits dest!: replica_exec_step intro: converse_rtranclp_into_rtranclp)
qed simp

lemma replica_run_reachable: "replica_run as new_replica = Some r \<Longrightarrow> replica_reachable r"
  by (simp add: replica_reachable_def replica_run_steps)

text \<open>An outage: five failures, a failed probe after the cooldown, a second probe in flight.\<close>

definition outage :: "replica_action list" where
  "outage =
     concat (map (\<lambda>i. [Arrive, Finish i CheckFailed]) [0..<5]) @
     [Tick 30, Arrive, Finish 5 CheckFailed, Tick 29, Arrive, Tick 1, Arrive]"

definition outage_end :: replica where
  "outage_end =
     \<lparr>cb = \<lparr>cb_state = HALF_OPEN, failure_count = 5, opened_at = Some 30\<rparr>,
      clock = 60, next_id = 8, inflight = [(7, True)], probes = [60, 30]\<rparr>"

lemma outage_run: "replica_run outage new_replica = Some outage_end"
  by code_simp

section \<open>Properties\<close>

text \<open>
  C22. Under any interleaving of concurrent requests the breaker keeps its invariant: closed means
  fewer than five counted failures and no opening time, otherwise the opening time is known, so the
  assertion in \<open>try_start_probe\<close> never fails and every request is admitted; and any two probes
  start at least a cooldown apart.
\<close>

theorem breaker_interleaving_safe:
  assumes "replica_reachable r"
  shows "breaker_wf (cb r) \<and> (\<exists>a b. admit (clock r) (cb r) = Inr (a, b)) \<and>
    (\<forall>i j. i < j \<and> j < length (probes r) \<longrightarrow>
       probes r ! j + COOLDOWN_SECONDS \<le> probes r ! i)"
proof -
  have inv: "replica_inv r"
    using assms unfolding replica_reachable_def by (rule cb_machine.inv_reachable)
  then have "breaker_wf (cb r)" by (simp add: replica_inv_def)
  moreover from inv have "\<forall>i j. i < j \<and> j < length (probes r) \<longrightarrow>
      probes r ! j + COOLDOWN_SECONDS \<le> probes r ! i"
    by (auto simp: replica_inv_def sorted_wrt_iff_nth_less)
  ultimately show ?thesis using admit_total by blast
qed

theorem breaker_interleaving_safe_witness:
  "probes outage_end ! 1 + COOLDOWN_SECONDS \<le> probes outage_end ! 0"
proof -
  have "(0::nat) < 1 \<and> 1 < length (probes outage_end) \<longrightarrow>
      probes outage_end ! 1 + COOLDOWN_SECONDS \<le> probes outage_end ! 0"
    using breaker_interleaving_safe [OF replica_run_reachable [OF outage_run]] by blast
  then show ?thesis by (simp add: outage_end_def)
qed

text \<open>
  The breaker opens after five consecutive failed checks and not before: after any sequence of
  settled checks it is open exactly if the last five answered checks failed. A deny is an answer,
  and a check that raised another exception is not counted.
\<close>

theorem breaker_trips_on_five_consecutive:
  "cb_state (settle_all now outs new_breaker) =
     (if trailing_failures (failure_history outs []) < FAILURE_THRESHOLD then CLOSED else OPEN)"
proof -
  have "failure_count (settle_all now outs new_breaker) = trailing_failures (failure_history outs [])"
    by (rule settle_all_count) (simp add: new_breaker_def)
  moreover have "cb_state (settle_all now outs new_breaker) =
      (if failure_count (settle_all now outs new_breaker) < FAILURE_THRESHOLD then CLOSED else OPEN)"
    by (rule settle_all_closed) (simp_all add: new_breaker_def FAILURE_THRESHOLD_def)
  ultimately show ?thesis by simp
qed

text \<open>
  A probe that ends with an exception other than \<open>OpaCheckError\<close> disables the sidecar for the
  rest of the replica's life: once it is the last request in flight and is settled that way, in
  every later state the breaker is half-open and every request bypasses the sidecar.
\<close>

theorem crashed_probe_disables_sidecar:
  assumes "cb_state (cb r) = HALF_OPEN" "inflight r = [(i, True)]"
    and "r' = r\<lparr>cb := settle (clock r) True (CheckRaised e) (cb r), inflight := []\<rparr>"
    and "replica_step\<^sup>*\<^sup>* r' s"
  shows "replica_step r r' \<and> cb_state (cb s) = HALF_OPEN \<and> admit now (cb s) = Inr (Bypass, cb s)"
proof -
  have "replica_stuck r'"
    using assms(1,3) by (simp add: replica_stuck_def settle_def)
  then have "replica_stuck s" by (rule cb_stuck.inv_steps [OF assms(4)])
  moreover have "replica_step r r'"
    using finish [of i True r "CheckRaised e"] assms(2,3) by simp
  ultimately show ?thesis by (simp add: replica_stuck_def replica_stuck_admit)
qed

theorem crashed_probe_disables_sidecar_witness:
  "\<exists>r s. replica_reachable r \<and> replica_step r s \<and>
     admit (clock s + 1000000) (cb s) = Inr (Bypass, cb s)"
proof -
  let ?s = "outage_end\<lparr>cb := settle (clock outage_end) True (CheckRaised TypeError) (cb outage_end),
      inflight := []\<rparr>"
  have "replica_step outage_end ?s \<and> cb_state (cb ?s) = HALF_OPEN \<and>
      admit (clock ?s + 1000000) (cb ?s) = Inr (Bypass, cb ?s)"
    by (rule crashed_probe_disables_sidecar [of _ 7 _ TypeError]) (simp_all add: outage_end_def)
  then show ?thesis using replica_run_reachable [OF outage_run] by blast
qed

end
