(* ===== verification/Utf8.thy ===== *)
theory Utf8 imports Prelude begin

text \<open>
  Strict UTF-8 as \<open>str.encode("utf-8")\<close> and \<open>bytes.decode("utf-8")\<close> compute it. A text is
  the list of its code points, a byte string the list of its bytes (both \<open>nat\<close>). Encoding
  fails on a surrogate; decoding fails on truncated, overlong, surrogate and out-of-range
  sequences. The lemmas are the round trips and the facts about cutting an encoding at a byte
  that does not continue a character, on which the chunked DLP scan relies.
\<close>

unbundle bit_operations_syntax

type_synonym utext = "nat list"
type_synonym bytes = "nat list"

section \<open>Definitions\<close>

definition is_surrogate :: "nat \<Rightarrow> bool" where
  "is_surrogate c \<longleftrightarrow> 0xD800 \<le> c \<and> c \<le> 0xDFFF"

definition scalar_value :: "nat \<Rightarrow> bool" where
  "scalar_value c \<longleftrightarrow> c \<le> 0x10FFFF \<and> \<not> is_surrogate c"

definition utf8_char :: "nat \<Rightarrow> bytes" where
  "utf8_char c =
     (if c < 0x80 then [c]
      else if c < 0x800 then [192 + c div 64, 128 + c mod 64]
      else if c < 0x10000 then [224 + c div 4096, 128 + c div 64 mod 64, 128 + c mod 64]
      else [240 + c div 262144, 128 + c div 4096 mod 64, 128 + c div 64 mod 64, 128 + c mod 64])"

definition utf8_bytes :: "utext \<Rightarrow> bytes" where
  "utf8_bytes cs = concat (map utf8_char cs)"

definition utf8_encode :: "utext \<Rightarrow> bytes option" where
  "utf8_encode cs = (if list_all scalar_value cs then Some (utf8_bytes cs) else None)"

text \<open>A byte with the two top bits \<open>10\<close>: the code tests \<open>b & 0xC0 == 0x80\<close>.\<close>

definition is_continuation :: "nat \<Rightarrow> bool" where
  "is_continuation b \<longleftrightarrow> b AND 0xC0 = 0x80"

definition cont_byte :: "nat \<Rightarrow> bool" where
  "cont_byte b \<longleftrightarrow> 128 \<le> b \<and> b < 192"

fun utf8_decode :: "bytes \<Rightarrow> utext option" where
  "utf8_decode [] = Some []"
| "utf8_decode (b # bs) =
     (if b < 128 then map_option ((#) b) (utf8_decode bs)
      else if b < 194 then None
      else if b < 224 then
        (case bs of
           b1 # r \<Rightarrow>
             (if cont_byte b1 then map_option ((#) ((b - 192) * 64 + (b1 - 128))) (utf8_decode r)
              else None)
         | _ \<Rightarrow> None)
      else if b < 240 then
        (case bs of
           b1 # b2 # r \<Rightarrow>
             (let c = (b - 224) * 4096 + (b1 - 128) * 64 + (b2 - 128) in
              if cont_byte b1 \<and> cont_byte b2 \<and> 0x800 \<le> c \<and> \<not> is_surrogate c
              then map_option ((#) c) (utf8_decode r) else None)
         | _ \<Rightarrow> None)
      else if b < 245 then
        (case bs of
           b1 # b2 # b3 # r \<Rightarrow>
             (let c = (b - 240) * 262144 + (b1 - 128) * 4096 + (b2 - 128) * 64 + (b3 - 128) in
              if cont_byte b1 \<and> cont_byte b2 \<and> cont_byte b3 \<and> 0x10000 \<le> c \<and> c \<le> 0x10FFFF
              then map_option ((#) c) (utf8_decode r) else None)
         | _ \<Rightarrow> None)
      else None)"

section \<open>Lemmas\<close>

lemma and_192_nat: "(b::nat) AND 192 = (b div 64 mod 4) * 64"
proof -
  have "b AND 192 = push_bit 6 (take_bit 2 (drop_bit 6 b))"
  proof (rule bit_eqI)
    fix n
    have m: "(192::nat) = push_bit 6 (mask 2)" by (simp add: push_bit_eq_mult mask_eq_exp_minus_1)
    show "bit (b AND 192) n \<longleftrightarrow> bit (push_bit 6 (take_bit 2 (drop_bit 6 b))) n"
      unfolding m
      by (auto simp: bit_and_iff bit_push_bit_iff bit_take_bit_iff bit_drop_bit_eq bit_mask_iff)
  qed
  then show ?thesis
    by (simp add: push_bit_eq_mult take_bit_eq_mod drop_bit_eq_div)
qed

lemma is_continuation_iff:
  assumes "b < 256"
  shows "is_continuation b \<longleftrightarrow> cont_byte b"
proof -
  have "b div 64 mod 4 = b div 64" using assms by simp
  then have "is_continuation b \<longleftrightarrow> b div 64 = 2"
    by (simp add: is_continuation_def and_192_nat)
  also have "\<dots> \<longleftrightarrow> cont_byte b" by (auto simp: cont_byte_def)
  finally show ?thesis .
qed

lemma base64_digits2: "(c::nat) div 4096 * 4096 + c div 64 mod 64 * 64 + c mod 64 = c"
proof -
  have "c div 4096 = c div 64 div 64" by (simp add: div_mult2_eq [symmetric])
  moreover have "c div 64 div 64 * 64 + c div 64 mod 64 = c div 64"
    by (rule div_mult_mod_eq)
  moreover have "c div 64 * 64 + c mod 64 = c" by (rule div_mult_mod_eq)
  ultimately show ?thesis by linarith
qed

lemma base64_digits3:
  "(c::nat) div 262144 * 262144 + c div 4096 mod 64 * 4096 + c div 64 mod 64 * 64 + c mod 64 = c"
proof -
  have "c div 262144 = c div 4096 div 64" by (simp add: div_mult2_eq [symmetric])
  moreover have "c div 4096 div 64 * 64 + c div 4096 mod 64 = c div 4096"
    by (rule div_mult_mod_eq)
  ultimately have "c div 262144 * 262144 + c div 4096 mod 64 * 4096 = c div 4096 * 4096" by linarith
  then show ?thesis using base64_digits2 [of c] by linarith
qed

lemma utf8_char_nonempty [simp]: "utf8_char c \<noteq> []"
  by (simp add: utf8_char_def)

lemma length_utf8_char: "1 \<le> length (utf8_char c) \<and> length (utf8_char c) \<le> 4"
  by (simp add: utf8_char_def)

lemma utf8_char_bytes: "c \<le> 0x10FFFF \<Longrightarrow> b \<in> set (utf8_char c) \<Longrightarrow> b < 256"
  by (auto simp: utf8_char_def split: if_splits)

lemma utf8_char_head: "c \<le> 0x10FFFF \<Longrightarrow> \<not> cont_byte (hd (utf8_char c))"
  by (auto simp: utf8_char_def cont_byte_def)

lemma utf8_char_tail: "b \<in> set (tl (utf8_char c)) \<Longrightarrow> cont_byte b"
  by (auto simp: utf8_char_def cont_byte_def split: if_splits)

lemma utf8_bytes_simps [simp]:
  "utf8_bytes [] = []"
  "utf8_bytes (c # cs) = utf8_char c @ utf8_bytes cs"
  "utf8_bytes (cs @ ds) = utf8_bytes cs @ utf8_bytes ds"
  by (simp_all add: utf8_bytes_def)

lemma utf8_bytes_eq_Nil [simp]: "utf8_bytes cs = [] \<longleftrightarrow> cs = []"
  by (cases cs) auto

lemma utf8_decode_char:
  assumes "scalar_value c"
  shows "utf8_decode (utf8_char c @ bs) = map_option ((#) c) (utf8_decode bs)"
proof -
  have c: "c \<le> 0x10FFFF" "\<not> is_surrogate c"
    using assms by (auto simp: scalar_value_def)
  consider "c < 0x80" | "0x80 \<le> c" "c < 0x800" | "0x800 \<le> c" "c < 0x10000" | "0x10000 \<le> c"
    by linarith
  then show ?thesis
  proof cases
    case 1
    then show ?thesis by (simp add: utf8_char_def)
  next
    case 2
    have "c div 64 * 64 + c mod 64 = c" by simp
    with 2 show ?thesis
      by (simp add: utf8_char_def cont_byte_def) (auto simp: div_less_iff_less_mult)
  next
    case 3
    define q r t where "q = c div 4096" "r = c div 64 mod 64" "t = c mod 64"
    have b: "q < 16" "r < 64" "t < 64"
      using 3 by (auto simp: q_r_t_def)
    have eq: "q * 4096 + r * 64 + t = c"
      using base64_digits2 [of c] by (simp add: q_r_t_def)
    have u: "utf8_char c = [224 + q, 128 + r, 128 + t]"
      using 3 by (simp add: utf8_char_def q_r_t_def)
    have k: "cont_byte (128 + r)" "cont_byte (128 + t)"
      using b by (simp_all add: cont_byte_def)
    have h: "\<not> 224 + q < 128" "\<not> 224 + q < 194" "\<not> 224 + q < 224" "224 + q < 240"
      using b by simp_all
    show ?thesis
      unfolding u append_Cons append_Nil
      by (subst utf8_decode.simps(2)) (simp only: h k if_True if_False list.case Let_def
          diff_add_inverse eq simp_thms 3 c)
  next
    case 4
    define p q r t where "p = c div 262144" "q = c div 4096 mod 64" "r = c div 64 mod 64" "t = c mod 64"
    have b: "p < 5" "q < 64" "r < 64" "t < 64"
      using c by (auto simp: p_q_r_t_def)
    have eq': "p * 262144 + q * 4096 + r * 64 + t = c"
      using base64_digits3 [of c] by (simp add: p_q_r_t_def)
    have u: "utf8_char c = [240 + p, 128 + q, 128 + r, 128 + t]"
      using 4 by (simp add: utf8_char_def p_q_r_t_def)
    have k: "cont_byte (128 + q)" "cont_byte (128 + r)" "cont_byte (128 + t)"
      using b by (simp_all add: cont_byte_def)
    have h: "\<not> 240 + p < 128" "\<not> 240 + p < 194" "\<not> 240 + p < 224" "\<not> 240 + p < 240" "240 + p < 245"
      using b by simp_all
    show ?thesis
      unfolding u append_Cons append_Nil
      by (subst utf8_decode.simps(2)) (simp only: h k if_True if_False list.case Let_def
          diff_add_inverse eq' simp_thms 4 c)
  qed
qed

lemma utf8_decode_bytes [simp]:
  "list_all scalar_value cs \<Longrightarrow> utf8_decode (utf8_bytes cs) = Some cs"
  by (induction cs) (simp_all add: utf8_decode_char)

lemma utf8_decode_encode: "utf8_encode cs = Some bs \<Longrightarrow> utf8_decode bs = Some cs"
  by (auto simp: utf8_encode_def split: if_splits)

lemma utf8_char_1: "c < 128 \<Longrightarrow> utf8_char c = [c] \<and> scalar_value c"
  by (simp add: utf8_char_def scalar_value_def is_surrogate_def)

lemma cont_byteD: "cont_byte b \<Longrightarrow> \<exists>q<64. b = 128 + q"
  by (rule exI [of _ "b - 128"]) (auto simp: cont_byte_def)

lemma utf8_char_2:
  assumes "194 \<le> b" "b < 224" "cont_byte b1"
    and "c = (b - 192) * 64 + (b1 - 128)"
  shows "utf8_char c = [b, b1] \<and> scalar_value c"
proof -
  obtain q where q: "b1 = 128 + q" "q < 64" using assms(3) by (auto dest: cont_byteD)
  define p where "p = b - 192"
  have p: "b = 192 + p" "2 \<le> p" "p < 32" using assms(1,2) by (auto simp: p_def)
  have c: "c = p * 64 + q" using assms(4) q p by simp
  have "128 \<le> c" "c < 2048" "c div 64 = p" "c mod 64 = q" using c p q by auto
  then show ?thesis
    using p q by (simp add: utf8_char_def scalar_value_def is_surrogate_def)
qed

lemma base64_step: "r < 64 \<Longrightarrow> (x * 64 + r) div 64 = x \<and> (x * 64 + r) mod 64 = (r::nat)"
  by simp

lemma utf8_char_3:
  assumes "224 \<le> b" "b < 240" "cont_byte b1" "cont_byte b2"
    and "c = (b - 224) * 4096 + (b1 - 128) * 64 + (b2 - 128)" "0x800 \<le> c" "\<not> is_surrogate c"
  shows "utf8_char c = [b, b1, b2] \<and> scalar_value c"
proof -
  obtain q where q: "b1 = 128 + q" "q < 64" using assms(3) by (auto dest: cont_byteD)
  obtain r where r: "b2 = 128 + r" "r < 64" using assms(4) by (auto dest: cont_byteD)
  define p where "p = b - 224"
  have p: "b = 224 + p" "p < 16" using assms(1,2) by (auto simp: p_def)
  have c: "c = (p * 64 + q) * 64 + r" using assms(5) q p r by simp
  have d: "c div 64 = p * 64 + q" "c mod 64 = r" using base64_step [OF r(2)] unfolding c by blast+
  have "c div 4096 = c div 64 div 64" by (simp add: div_mult2_eq [symmetric])
  then have e: "c div 4096 = p" "c div 64 mod 64 = q"
    using base64_step [OF q(2)] unfolding d by simp_all
  have "c < 65536" using c p q r by simp
  then show ?thesis
    using p q r d e assms(6,7) by (simp add: utf8_char_def scalar_value_def)
qed

lemma utf8_char_4:
  assumes "240 \<le> b" "cont_byte b1" "cont_byte b2" "cont_byte b3"
    and "c = (b - 240) * 262144 + (b1 - 128) * 4096 + (b2 - 128) * 64 + (b3 - 128)"
    and "0x10000 \<le> c" "c \<le> 0x10FFFF"
  shows "utf8_char c = [b, b1, b2, b3] \<and> scalar_value c"
proof -
  obtain q where q: "b1 = 128 + q" "q < 64" using assms(2) by (auto dest: cont_byteD)
  obtain r where r: "b2 = 128 + r" "r < 64" using assms(3) by (auto dest: cont_byteD)
  obtain t where t: "b3 = 128 + t" "t < 64" using assms(4) by (auto dest: cont_byteD)
  define p where "p = b - 240"
  have p: "b = 240 + p" using assms(1) by (auto simp: p_def)
  have c: "c = ((p * 64 + q) * 64 + r) * 64 + t" using assms(5) q p r t by simp
  have d: "c div 64 = (p * 64 + q) * 64 + r" "c mod 64 = t" using base64_step [OF t(2)] unfolding c by blast+
  have "c div 4096 = c div 64 div 64" by (simp add: div_mult2_eq [symmetric])
  then have e: "c div 4096 = p * 64 + q" "c div 64 mod 64 = r"
    using base64_step [OF r(2), of "p * 64 + q"] d by (simp_all only:)
  have "c div 262144 = c div 4096 div 64" by (simp add: div_mult2_eq [symmetric])
  then have f: "c div 262144 = p" "c div 4096 mod 64 = q" using e q by auto
  show ?thesis
    using p q r t d e f assms(6,7)
    by (simp add: utf8_char_def scalar_value_def is_surrogate_def)
qed

lemma utf8_decode_sound:
  "utf8_decode bs = Some cs \<Longrightarrow> list_all scalar_value cs \<and> utf8_bytes cs = bs"
proof (induction bs arbitrary: cs rule: length_induct)
  case (1 bs)
  show ?case
  proof (cases bs)
    case Nil
    then show ?thesis using 1 by simp
  next
    case (Cons b r)
    have IH: "list_all scalar_value ds \<and> utf8_bytes ds = r'"
      if "utf8_decode r' = Some ds" "length r' < length bs" for r' ds
      using 1 that by blast
    consider "b < 128" | "194 \<le> b" "b < 224" | "224 \<le> b" "b < 240" | "240 \<le> b" "b < 245"
      | "128 \<le> b" "b < 194 \<or> 245 \<le> b" by linarith
    then show ?thesis
    proof cases
      case 1
      then obtain ds where "cs = b # ds" "utf8_decode r = Some ds"
        using \<open>utf8_decode bs = Some cs\<close> Cons by auto
      then show ?thesis
        using IH [of r ds] utf8_char_1 [OF 1] Cons by auto
    next
      case 2
      then obtain b1 r' ds where "r = b1 # r'" "cont_byte b1" "utf8_decode r' = Some ds"
          "cs = ((b - 192) * 64 + (b1 - 128)) # ds"
        using \<open>utf8_decode bs = Some cs\<close> Cons
        by (auto split: list.splits if_splits)
      then show ?thesis
        using IH [of r' ds] utf8_char_2 [OF 2 \<open>cont_byte b1\<close> refl] Cons by auto
    next
      case 3
      then obtain b1 b2 r' ds c where "r = b1 # b2 # r'" "cont_byte b1" "cont_byte b2"
          "c = (b - 224) * 4096 + (b1 - 128) * 64 + (b2 - 128)" "0x800 \<le> c" "\<not> is_surrogate c"
          "utf8_decode r' = Some ds" "cs = c # ds"
        using \<open>utf8_decode bs = Some cs\<close> Cons
        by (auto simp: Let_def split: list.splits if_splits)
      then show ?thesis
        using IH [of r' ds] utf8_char_3 [of b b1 b2 c] 3 Cons by auto
    next
      case 4
      then obtain b1 b2 b3 r' ds c where "r = b1 # b2 # b3 # r'"
          "cont_byte b1" "cont_byte b2" "cont_byte b3"
          "c = (b - 240) * 262144 + (b1 - 128) * 4096 + (b2 - 128) * 64 + (b3 - 128)"
          "0x10000 \<le> c" "c \<le> 0x10FFFF" "utf8_decode r' = Some ds" "cs = c # ds"
        using \<open>utf8_decode bs = Some cs\<close> Cons
        by (auto simp: Let_def split: list.splits if_splits)
      then show ?thesis
        using IH [of r' ds] utf8_char_4 [of b b1 b2 b3 c] 4 Cons by auto
    next
      case 5
      then show ?thesis using \<open>utf8_decode bs = Some cs\<close> Cons
        by (auto split: if_splits)
    qed
  qed
qed

lemma utf8_encode_decode: "utf8_decode bs = Some cs \<longleftrightarrow> utf8_encode cs = Some bs"
proof
  assume "utf8_decode bs = Some cs"
  then show "utf8_encode cs = Some bs"
    using utf8_decode_sound [of bs cs] by (simp only: utf8_encode_def if_True simp_thms)
qed (rule utf8_decode_encode)

text \<open>
  Cutting an encoding where the next byte does not continue a character cuts between two
  characters.
\<close>

lemma utf8_bytes_cut:
  assumes "list_all (\<lambda>c. c \<le> 0x10FFFF) cs" "k \<le> length (utf8_bytes cs)"
    and "k = length (utf8_bytes cs) \<or> \<not> cont_byte (utf8_bytes cs ! k)"
  shows "\<exists>m\<le>length cs. k = length (utf8_bytes (take m cs))"
  using assms
proof (induction cs arbitrary: k)
  case Nil
  then show ?case by simp
next
  case (Cons c cs)
  let ?n = "length (utf8_char c)"
  show ?case
  proof (cases "k < ?n")
    case True
    have "k = 0"
    proof (rule ccontr)
      assume "k \<noteq> 0"
      then have "utf8_char c ! k \<in> set (tl (utf8_char c))"
        using True \<open>k \<noteq> 0\<close> by (cases "utf8_char c"; cases k) auto
      then have "cont_byte (utf8_char c ! k)" by (rule utf8_char_tail)
      then show False using Cons.prems True by (auto simp: nth_append)
    qed
    then show ?thesis by (intro exI [of _ 0]) simp
  next
    case False
    then have "\<exists>m\<le>length cs. k - ?n = length (utf8_bytes (take m cs))"
      using Cons.prems by (intro Cons.IH) (auto simp: nth_append)
    then obtain m where "m \<le> length cs" "k - ?n = length (utf8_bytes (take m cs))" by blast
    then show ?thesis
      using False by (intro exI [of _ "Suc m"]) auto
  qed
qed

lemma utf8_bytes_split: "utf8_bytes cs = utf8_bytes (take m cs) @ utf8_bytes (drop m cs)"
  by (simp flip: utf8_bytes_simps(3))

lemma utf8_bytes_take:
  "take (length (utf8_bytes (take m cs))) (utf8_bytes cs) = utf8_bytes (take m cs)"
  using utf8_bytes_split [of cs m] by (metis append_eq_conv_conj)

lemma utf8_bytes_drop:
  "drop (length (utf8_bytes (take m cs))) (utf8_bytes cs) = utf8_bytes (drop m cs)"
  using utf8_bytes_split [of cs m] by (metis append_eq_conv_conj)

end
