(* ===== verification/ToolTransport.thy ===== *)
theory ToolTransport imports Utf8 begin

text \<open>
  \<open>mcpproxy/app/transport.py\<close>: buffering a downstream tool response under a byte cap and a
  wall-clock cap. The asynchronous byte iterator is a \<open>chunk_stream\<close>: each event carries
  the time, since the start of \<open>asyncio.wait_for\<close>, at which the iterator yields it; a
  stream that stalls yields nothing more.
\<close>

definition MAX_TOOL_RESPONSE_BYTES :: nat where
  "MAX_TOOL_RESPONSE_BYTES = 1 * 1024 * 1024"

definition TOOL_RESPONSE_TIMEOUT_SECONDS :: rat where
  "TOOL_RESPONSE_TIMEOUT_SECONDS = 10"

datatype transport_error =
    ToolResponseTooLargeError
  | ToolResponseTimeoutError
  | StreamError py_error  \<comment> \<open>raised by the iterator itself\<close>

datatype chunk_stream =
    Chunk rat bytes chunk_stream
  | StreamEnd rat
  | StreamRaise rat py_error
  | StreamStall

text \<open>The coroutine \<open>_consume\<close> under the deadline of \<open>wait_for\<close>; \<open>buffer\<close> is the bytearray so far.\<close>

fun consume :: "nat \<Rightarrow> rat \<Rightarrow> bytes \<Rightarrow> chunk_stream \<Rightarrow> transport_error + bytes" where
  "consume max_bytes deadline buffer (Chunk t chunk rest) =
     (if deadline \<le> t then Inl ToolResponseTimeoutError
      else if length buffer + length chunk > max_bytes then Inl ToolResponseTooLargeError
      else consume max_bytes deadline (buffer @ chunk) rest)"
| "consume max_bytes deadline buffer (StreamEnd t) =
     (if deadline \<le> t then Inl ToolResponseTimeoutError else Inr buffer)"
| "consume max_bytes deadline buffer (StreamRaise t e) =
     (if deadline \<le> t then Inl ToolResponseTimeoutError else Inl (StreamError e))"
| "consume max_bytes deadline buffer StreamStall = Inl ToolResponseTimeoutError"

definition buffer_tool_response :: "nat \<Rightarrow> rat \<Rightarrow> chunk_stream \<Rightarrow> transport_error + bytes" where
  "buffer_tool_response max_bytes timeout_seconds chunks = consume max_bytes timeout_seconds [] chunks"

section \<open>What a stream delivers\<close>

fun stream_bytes :: "chunk_stream \<Rightarrow> bytes" where
  "stream_bytes (Chunk t c r) = c @ stream_bytes r"
| "stream_bytes _ = []"

fun completes_before :: "rat \<Rightarrow> chunk_stream \<Rightarrow> bool" where
  "completes_before d (Chunk t c r) = (t < d \<and> completes_before d r)"
| "completes_before d (StreamEnd t) = (t < d)"
| "completes_before d _ = False"

section \<open>Lemmas\<close>

lemma consume_eq_Inr:
  "length buf \<le> m \<Longrightarrow>
   consume m d buf s = Inr bs \<longleftrightarrow>
     completes_before d s \<and> bs = buf @ stream_bytes s \<and> length bs \<le> m"
  by (induction m d buf s rule: consume.induct) auto

lemma buffer_tool_response_iff:
  "buffer_tool_response m d s = Inr bs \<longleftrightarrow>
     completes_before d s \<and> bs = stream_bytes s \<and> length bs \<le> m"
  by (simp add: buffer_tool_response_def consume_eq_Inr)

text \<open>
  \<open>buffer_tool_response\<close> returns a byte string exactly when the whole stream arrives before the
  deadline and its total size is within the cap; the result is then the concatenation of the
  chunks, so it does not depend on how the response was cut into chunks.
\<close>

theorem buffer_tool_response_correct:
  "buffer_tool_response m d s = Inr bs \<longleftrightarrow>
     completes_before d s \<and> bs = stream_bytes s \<and> length bs \<le> m"
  by (rule buffer_tool_response_iff)

end
