(* ===== verification/Json.thy ===== *)
theory Json imports Prelude begin

text \<open>
  JSON values as Python's \<open>json\<close> module delivers them, and the operations the code applies
  to a value whose shape it does not know yet: \<open>isinstance\<close>, \<open>.get\<close>, truth value,
  membership and subscription. Integers are unbounded; a float is a rational number, since the
  code only passes floats on or compares them.
\<close>

datatype json =
    JNull
  | JBool bool
  | JInt int
  | JFloat rat
  | JStr string
  | JList "json list"
  | JObj "(string \<times> json) list"

type_synonym json_object = "json dict"

abbreviation jobj_empty :: json where
  "jobj_empty \<equiv> JObj []"

text \<open>Truth value of a JSON value in a Python condition, \<open>bool(v)\<close>.\<close>

fun json_truthy :: "json \<Rightarrow> bool" where
  "json_truthy JNull = False"
| "json_truthy (JBool b) = b"
| "json_truthy (JInt i) = (i \<noteq> 0)"
| "json_truthy (JFloat r) = (r \<noteq> 0)"
| "json_truthy (JStr s) = (s \<noteq> [])"
| "json_truthy (JList xs) = (xs \<noteq> [])"
| "json_truthy (JObj kvs) = (kvs \<noteq> [])"

text \<open>\<open>d.get(k)\<close> and \<open>d.get(k, default)\<close> on a dictionary.\<close>

definition jget :: "json_object \<Rightarrow> string \<Rightarrow> json" where
  "jget d k = dict_get_or d k JNull"

definition jget_or :: "json_object \<Rightarrow> string \<Rightarrow> json \<Rightarrow> json" where
  "jget_or d k v = dict_get_or d k v"

text \<open>\<open>isinstance(v, dict)\<close> followed by a use as a dictionary: the dictionary, or the empty one.\<close>

fun as_obj :: "json \<Rightarrow> json_object" where
  "as_obj (JObj d) = d"
| "as_obj _ = []"

fun is_obj :: "json \<Rightarrow> bool" where
  "is_obj (JObj _) = True"
| "is_obj _ = False"

fun as_str :: "json \<Rightarrow> string option" where
  "as_str (JStr s) = Some s"
| "as_str _ = None"

text \<open>
  \<open>isinstance(v, int) and not isinstance(v, bool)\<close>: Python's \<open>bool\<close> is a subclass of
  \<open>int\<close>, which is why the code excludes it by hand.
\<close>

fun as_int :: "json \<Rightarrow> int option" where
  "as_int (JInt i) = Some i"
| "as_int _ = None"

text \<open>
  The expression \<open>k in v\<close>: key membership in a dictionary, element membership in a list,
  substring test on a string, and a \<open>TypeError\<close> on anything else.
\<close>

fun py_in :: "string \<Rightarrow> json \<Rightarrow> py_error + bool" where
  "py_in k (JObj d) = Inr (k \<in> fst ` set d)"
| "py_in k (JList xs) = Inr (JStr k \<in> set xs)"
| "py_in k (JStr s) = Inr (sublist k s)"
| "py_in k _ = Inl TypeError"

text \<open>The expression \<open>v[k]\<close> for a string \<open>k\<close>.\<close>

fun py_subscript :: "json \<Rightarrow> string \<Rightarrow> py_error + json" where
  "py_subscript (JObj d) k = (case map_of d k of None \<Rightarrow> Inl KeyError | Some v \<Rightarrow> Inr v)"
| "py_subscript _ k = Inl TypeError"

text \<open>The call \<open>v.get(k, default)\<close> on a value of unknown shape.\<close>

fun py_dot_get :: "json \<Rightarrow> string \<Rightarrow> json \<Rightarrow> py_error + json" where
  "py_dot_get (JObj d) k v = Inr (jget_or d k v)"
| "py_dot_get _ k v = Inl AttributeError"

section \<open>Lemmas\<close>

lemma jget_Some [simp]: "map_of d k = Some v \<Longrightarrow> jget d k = v"
  by (simp add: jget_def dict_get_or_def)

lemma jget_None [simp]: "map_of d k = None \<Longrightarrow> jget d k = JNull"
  by (simp add: jget_def dict_get_or_def)

lemma jget_dict_set [simp]: "jget (dict_set k v d) k' = (if k' = k then v else jget d k')"
  by (simp add: jget_def dict_get_or_def)

lemma is_obj_iff: "is_obj v \<longleftrightarrow> (\<exists>d. v = JObj d)"
  by (cases v) auto

lemma as_int_iff: "as_int v = Some i \<longleftrightarrow> v = JInt i"
  by (cases v) auto

lemma as_str_iff: "as_str v = Some s \<longleftrightarrow> v = JStr s"
  by (cases v) auto

end
