(* ===== verification/McpCall.thy ===== *)
theory McpCall imports CircuitBreaker ToolTransport Json begin

text \<open>
  \<open>mcpproxy/app/main.py\<close>, \<open>opa_client.py\<close> and \<open>governance_client.py\<close>: the tool-call
  endpoint of the MCP reverse proxy. The replies of the services it calls are fields of the
  record \<open>mcp_env\<close>; what it sends them is recorded as a list of effects, in order.
\<close>

section \<open>Environment, effects and responses\<close>

datatype opa_reply =
    OpaTransport          \<comment> \<open>post, status check or JSON parsing raised\<close>
  | OpaData json

datatype dlp_reply =
    DlpTransport          \<comment> \<open>post or status check raised\<close>
  | DlpBadJson py_error   \<comment> \<open>\<open>resp.json()\<close> raised\<close>
  | DlpData json

datatype downstream_reply =
    DownstreamRaises py_error           \<comment> \<open>opening the stream raised\<close>
  | DownstreamStream chunk_stream string \<comment> \<open>the body and its content type\<close>

datatype decision = Allow | Block

datatype mcp_effect =
    EffOpaCheck json json json json   \<comment> \<open>principal, actor, tool, context\<close>
  | EffDownstream json
  | EffDlpScan utext
  | EffAudit json json string decision \<comment> \<open>tenant, user, event type, decision\<close>

datatype mcp_response =
    Forbidden string
  | PolicyViolation
  | BadGateway
  | ToolResult bytes string

record mcp_settings =
  governance_internal_token :: string
  breakglass_tool_allowlist :: "string list"

record mcp_env =
  nfc :: "string \<Rightarrow> string"       \<comment> \<open>\<open>unicodedata.normalize("NFC", s)\<close>\<close>
  fmt :: "json \<Rightarrow> string"         \<comment> \<open>formatting of a value in an f-string\<close>
  admit_time :: rat
  settle_time :: rat
  opa :: opa_reply
  downstream :: downstream_reply
  dlp :: dlp_reply
  audit_ok :: bool

section \<open>Clients\<close>

datatype opa_error = OpaCheckError | OpaOther py_error

definition check_tool_call :: "opa_reply \<Rightarrow> opa_error + bool" where
  "check_tool_call reply =
     (case reply of
        OpaTransport \<Rightarrow> Inl OpaCheckError
      | OpaData d \<Rightarrow>
          (case py_in ''result'' d of
             Inl e \<Rightarrow> Inl (OpaOther e)
           | Inr False \<Rightarrow> Inl OpaCheckError
           | Inr True \<Rightarrow>
               (case py_subscript d ''result'' of
                  Inl e \<Rightarrow> Inl (OpaOther e)
                | Inr v \<Rightarrow> Inr (json_truthy v))))"

datatype scan_error = DlpScanError | ScanOther py_error

record dlp_scan_result =
  pii_findings :: json
  data_classification :: json
  redacted_text :: json

definition scan_for_pii :: "dlp_reply \<Rightarrow> scan_error + dlp_scan_result" where
  "scan_for_pii reply =
     (case reply of
        DlpTransport \<Rightarrow> Inl DlpScanError
      | DlpBadJson e \<Rightarrow> Inl (ScanOther e)
      | DlpData (JObj d) \<Rightarrow>
          Inr \<lparr>pii_findings = jget_or d ''pii_findings'' (JList []),
               data_classification = jget_or d ''data_classification'' (JStr []),
               redacted_text = jget_or d ''redacted_text'' (JStr [])\<rparr>
      | DlpData v \<Rightarrow> Inl (ScanOther AttributeError))"

text \<open>
  \<open>_send_audit_event\<close>: the event is posted; a failure is logged and swallowed, so whether the
  write worked does not reach the caller.
\<close>

definition send_audit_event :: "json \<Rightarrow> json \<Rightarrow> string \<Rightarrow> decision \<Rightarrow> mcp_effect list" where
  "send_audit_event tenant user ty d = [EffAudit tenant user ty d]"

section \<open>The handler\<close>

definition fstring_part :: "(json \<Rightarrow> string) \<Rightarrow> json \<Rightarrow> string" where
  "fstring_part f v = (case v of JStr s \<Rightarrow> s | _ \<Rightarrow> f v)"

definition breakglass_allowed :: "mcp_settings \<Rightarrow> (json \<Rightarrow> string) \<Rightarrow> json \<Rightarrow> py_error + bool" where
  "breakglass_allowed cfg f tool =
     ebind (py_dot_get tool ''server'' (JStr [])) (\<lambda>s.
     ebind (py_dot_get tool ''name'' (JStr [])) (\<lambda>n.
       Inr (fstring_part f s @ '':'' @ fstring_part f n \<in> set (breakglass_tool_allowlist cfg))))"

definition normalize_context :: "(string \<Rightarrow> string) \<Rightarrow> json \<Rightarrow> py_error + json" where
  "normalize_context nf context =
     (case context of
        JObj d \<Rightarrow>
          (case jget d ''resource'' of
             JStr r \<Rightarrow>
               (if nf r = r then Inr context
                else Inr (JObj (dict_set ''resource'' (JStr (nf r)) d)))
           | _ \<Rightarrow> Inr context)
      | _ \<Rightarrow> Inl AttributeError)"

record mcp_request =
  principal :: json
  tenant_id :: json
  user_id :: json
  actor :: json
  tool :: json
  rq_context :: json
  rq_body :: json

definition parse_body :: "(string \<Rightarrow> string) \<Rightarrow> json \<Rightarrow> py_error + mcp_request" where
  "parse_body nf body =
     ebind (py_dot_get body ''principal'' jobj_empty) (\<lambda>pr.
     ebind (py_dot_get pr ''tenant_id'' (JStr [])) (\<lambda>tid.
     ebind (py_dot_get pr ''user_id'' (JStr [])) (\<lambda>uid.
     ebind (py_dot_get body ''tool'' jobj_empty) (\<lambda>tl.
     ebind (py_dot_get body ''context'' JNull) (\<lambda>cx.
     ebind (normalize_context nf (if json_truthy cx then cx else jobj_empty)) (\<lambda>cx'.
     ebind (py_dot_get body ''actor'' jobj_empty) (\<lambda>ac.
       Inr \<lparr>principal = pr, tenant_id = tid, user_id = uid, actor = ac, tool = tl,
            rq_context = cx', rq_body = body\<rparr>)))))))"

text \<open>
  The decision: whether the call may proceed and whether the break-glass list decided. The
  breaker is returned also when the handler raises, since it outlives the request.
\<close>

record verdict =
  allowed :: bool
  used_breakglass :: bool

definition by_breakglass :: "mcp_settings \<Rightarrow> mcp_env \<Rightarrow> mcp_request \<Rightarrow> py_error + verdict" where
  "by_breakglass cfg env rq =
     ebind (breakglass_allowed cfg (fmt env) (tool rq)) (\<lambda>ok.
       Inr \<lparr>allowed = ok, used_breakglass = True\<rparr>)"

definition decide ::
  "mcp_settings \<Rightarrow> mcp_env \<Rightarrow> breaker \<Rightarrow> mcp_request \<Rightarrow>
   (py_error + verdict) \<times> breaker \<times> mcp_effect list" where
  "decide cfg env b rq =
     (case admit (admit_time env) b of
        Inl e \<Rightarrow> (Inl e, b, [])
      | Inr (Bypass, b') \<Rightarrow> (by_breakglass cfg env rq, b', [])
      | Inr (a, b') \<Rightarrow>
          (let check = [EffOpaCheck (principal rq) (actor rq) (tool rq) (rq_context rq)];
               is_probe = (a = Probe)
           in case check_tool_call (opa env) of
                Inr ok \<Rightarrow>
                  (Inr \<lparr>allowed = ok, used_breakglass = False\<rparr>,
                   settle (settle_time env) is_probe (Answered ok) b', check)
              | Inl OpaCheckError \<Rightarrow>
                  (if is_probe then by_breakglass cfg env rq
                   else Inr \<lparr>allowed = False, used_breakglass = False\<rparr>,
                   settle (settle_time env) is_probe CheckFailed b', check)
              | Inl (OpaOther e) \<Rightarrow>
                  (Inl e, settle (settle_time env) is_probe (CheckRaised e) b', check)))"

text \<open>Forwarding: buffer the downstream response, scan it, answer.\<close>

definition blocked :: "mcp_request \<Rightarrow> mcp_effect list" where
  "blocked rq = send_audit_event (tenant_id rq) (user_id rq) ''dlp_blocked'' Block"

definition scan_and_answer ::
  "mcp_env \<Rightarrow> bool \<Rightarrow> mcp_request \<Rightarrow> bytes \<Rightarrow> string \<Rightarrow> (py_error + mcp_response) \<times> mcp_effect list" where
  "scan_and_answer env bg rq buffered content_type =
     (case utf8_decode buffered of
        None \<Rightarrow> (Inr BadGateway, blocked rq)
      | Some t \<Rightarrow>
          (case scan_for_pii (dlp env) of
             Inl DlpScanError \<Rightarrow> (Inr BadGateway, EffDlpScan t # blocked rq)
           | Inl (ScanOther e) \<Rightarrow>
               (if e = UnicodeDecodeError then (Inr BadGateway, EffDlpScan t # blocked rq)
                else (Inl e, [EffDlpScan t]))
           | Inr res \<Rightarrow>
               (if json_truthy (pii_findings res)
                then (Inr BadGateway, EffDlpScan t # blocked rq)
                else (Inr (ToolResult buffered content_type),
                      EffDlpScan t #
                      send_audit_event (tenant_id rq) (user_id rq)
                        (if bg then ''breakglass_tool_call'' else ''mcp_tool_call'') Allow))))"

definition forward ::
  "mcp_env \<Rightarrow> bool \<Rightarrow> mcp_request \<Rightarrow> (py_error + mcp_response) \<times> mcp_effect list" where
  "forward env bg rq =
     (case downstream env of
        DownstreamRaises e \<Rightarrow> (Inl e, [EffDownstream (rq_body rq)])
      | DownstreamStream s content_type \<Rightarrow>
          (case buffer_tool_response MAX_TOOL_RESPONSE_BYTES TOOL_RESPONSE_TIMEOUT_SECONDS s of
             Inl (StreamError e) \<Rightarrow> (Inl e, [EffDownstream (rq_body rq)])
           | Inl _ \<Rightarrow> (Inr BadGateway, EffDownstream (rq_body rq) # blocked rq)
           | Inr buffered \<Rightarrow>
               (case scan_and_answer env bg rq buffered content_type of
                  (res, effs) \<Rightarrow> (res, EffDownstream (rq_body rq) # effs))))"

definition mcp_call ::
  "mcp_settings \<Rightarrow> mcp_env \<Rightarrow> breaker \<Rightarrow> string option \<Rightarrow> json \<Rightarrow>
   (py_error + mcp_response) \<times> breaker \<times> mcp_effect list" where
  "mcp_call cfg env b token body =
     (case token_accepted token (governance_internal_token cfg) of
        Inl e \<Rightarrow> (Inl e, b, [])
      | Inr False \<Rightarrow> (Inr (Forbidden ''Invalid or missing X-Internal-Token''), b, [])
      | Inr True \<Rightarrow>
          (case parse_body (nfc env) body of
             Inl e \<Rightarrow> (Inl e, b, [])
           | Inr rq \<Rightarrow>
               (case decide cfg env b rq of
                  (Inl e, b', effs) \<Rightarrow> (Inl e, b', effs)
                | (Inr v, b', effs) \<Rightarrow>
                    (if \<not> allowed v
                     then (Inr PolicyViolation, b',
                           effs @ send_audit_event (tenant_id rq) (user_id rq)
                             (if used_breakglass v then ''breakglass_denied'' else ''policy_denied'')
                             Block)
                     else case forward env (used_breakglass v) rq of
                       (res, effs') \<Rightarrow> (res, b', effs @ effs')))))"

section \<open>Lemmas\<close>

fun is_audit :: "mcp_effect \<Rightarrow> bool" where
  "is_audit (EffAudit _ _ _ _) = True"
| "is_audit _ = False"

fun is_downstream :: "mcp_effect \<Rightarrow> bool" where
  "is_downstream (EffDownstream _) = True"
| "is_downstream _ = False"

lemma check_tool_call_answer:
  "check_tool_call r = Inr ok \<longleftrightarrow>
     (\<exists>d v. r = OpaData (JObj d) \<and> map_of d ''result'' = Some v \<and> ok = json_truthy v)"
proof (cases r)
  case (OpaData d)
  then show ?thesis
    by (cases d) (auto simp: check_tool_call_def in_keys_iff split: option.splits bool.splits)
qed (simp add: check_tool_call_def)

lemma decide_effects:
  "decide cfg env b rq = (res, b', effs) \<Longrightarrow>
   effs = [] \<or> effs = [EffOpaCheck (principal rq) (actor rq) (tool rq) (rq_context rq)]"
  by (auto simp: decide_def Let_def split: sum.splits prod.splits admission.splits opa_error.splits)

lemma decide_wf:
  "breaker_wf b \<Longrightarrow> decide cfg env b rq = (res, b', effs) \<Longrightarrow> breaker_wf b'"
  by (auto simp: decide_def Let_def breaker_wf_settle dest: breaker_wf_admit
      split: sum.splits prod.splits admission.splits opa_error.splits)

lemma decide_allowed:
  assumes "decide cfg env b rq = (Inr v, b', effs)" "allowed v"
  shows "(\<not> used_breakglass v \<and> check_tool_call (opa env) = Inr True) \<or>
         (used_breakglass v \<and> \<not> is_closed b \<and> breakglass_allowed cfg (fmt env) (tool rq) = Inr True)"
proof -
  obtain a b1 where a: "admit (admit_time env) b = Inr (a, b1)"
    using assms(1) by (auto simp: decide_def split: sum.splits)
  from a have "a = Sidecar \<or> \<not> is_closed b"
    by (cases rule: admit_cases) (auto simp: is_closed_def)
  then show ?thesis
    using assms a
    by (auto simp: decide_def Let_def by_breakglass_def ebind_eq_Inr
        split: admission.splits sum.splits opa_error.splits if_splits)
qed

lemma forward_cases:
  assumes "forward env bg rq = (res, effs)"
  obtains (raised) e where "res = Inl e" "\<forall>x\<in>set effs. \<not> is_audit x"
  | (blocked) pre where "res = Inr BadGateway" "effs = pre @ blocked rq" "\<forall>x\<in>set pre. \<not> is_audit x"
  | (sent) s ct bs t r where "res = Inr (ToolResult bs ct)"
      "downstream env = DownstreamStream s ct"
      "buffer_tool_response MAX_TOOL_RESPONSE_BYTES TOOL_RESPONSE_TIMEOUT_SECONDS s = Inr bs"
      "utf8_decode bs = Some t" "scan_for_pii (dlp env) = Inr r" "\<not> json_truthy (pii_findings r)"
      "effs = [EffDownstream (rq_body rq), EffDlpScan t,
               EffAudit (tenant_id rq) (user_id rq)
                 (if bg then ''breakglass_tool_call'' else ''mcp_tool_call'') Allow]"
proof (cases "downstream env")
  case (DownstreamRaises e)
  then show thesis using assms raised by (auto simp: forward_def)
next
  case (DownstreamStream s ct)
  show thesis
  proof (cases "buffer_tool_response MAX_TOOL_RESPONSE_BYTES TOOL_RESPONSE_TIMEOUT_SECONDS s")
    case (Inl e)
    then show thesis
      using assms DownstreamStream raised blocked [of "[EffDownstream (rq_body rq)]"]
      by (cases e) (auto simp: forward_def)
  next
    case (Inr bs)
    obtain res' effs' where sa: "scan_and_answer env bg rq bs ct = (res', effs')" by force
    then have eq: "res = res'" "effs = EffDownstream (rq_body rq) # effs'"
      using assms DownstreamStream Inr by (auto simp: forward_def)
    show thesis
    proof (cases "utf8_decode bs")
      case None
      then show thesis
        using sa eq blocked [of "[EffDownstream (rq_body rq)]"]
        by (auto simp: scan_and_answer_def)
    next
      case (Some t)
      let ?pre = "[EffDownstream (rq_body rq), EffDlpScan t]"
      show thesis
      proof (cases "scan_for_pii (dlp env)")
        case (Inl e)
        then show thesis
          using sa eq Some raised blocked [of ?pre]
          by (cases e) (auto simp: scan_and_answer_def split: if_splits)
      next
        case r: (Inr r)
        then show thesis
          using sa eq Some blocked [of ?pre] sent [OF _ DownstreamStream Inr Some r]
          by (cases "json_truthy (pii_findings r)")
            (auto simp: scan_and_answer_def send_audit_event_def)
      qed
    qed
  qed
qed

lemma forward_no_check: "forward env bg rq = (res, effs) \<Longrightarrow> e \<in> set effs \<Longrightarrow> is_downstream e \<Longrightarrow>
  e = EffDownstream (rq_body rq)"
  by (auto simp: forward_def scan_and_answer_def blocked_def send_audit_event_def
      split: downstream_reply.splits sum.splits transport_error.splits option.splits
        scan_error.splits prod.splits if_splits)

lemma mcp_call_cases:
  assumes "mcp_call cfg env b tok body = (res, b', effs)"
  obtains (refused) "res = Inr (Forbidden ''Invalid or missing X-Internal-Token'')" "b' = b" "effs = []"
  | (raised) e where "res = Inl e" "\<forall>x\<in>set effs. \<not> is_downstream x"
  | (denied) rq v pre where "tok = Some (governance_internal_token cfg)"
      "parse_body (nfc env) body = Inr rq" "decide cfg env b rq = (Inr v, b', pre)" "\<not> allowed v"
      "res = Inr PolicyViolation"
      "effs = pre @ [EffAudit (tenant_id rq) (user_id rq)
         (if used_breakglass v then ''breakglass_denied'' else ''policy_denied'') Block]"
  | (forwarded) rq v pre post where "tok = Some (governance_internal_token cfg)"
      "parse_body (nfc env) body = Inr rq" "decide cfg env b rq = (Inr v, b', pre)" "allowed v"
      "forward env (used_breakglass v) rq = (res, post)" "effs = pre @ post"
proof (cases "token_accepted tok (governance_internal_token cfg) = Inr True")
  case False
  then show thesis
    using assms refused raised by (auto simp: mcp_call_def split: if_splits sum.splits bool.splits)
next
  case tok: True
  then have t: "tok = Some (governance_internal_token cfg)"
    by (simp add: token_accepted_iff)
  show thesis
  proof (cases "parse_body (nfc env) body")
    case (Inl e)
    then show thesis using assms tok raised by (auto simp: mcp_call_def)
  next
    case (Inr rq)
    obtain dres b1 pre where d: "decide cfg env b rq = (dres, b1, pre)" by (metis prod_cases3)
    have pre: "\<forall>x\<in>set pre. \<not> is_downstream x" using decide_effects [OF d] by auto
    show thesis
    proof (cases dres)
      case (Inl e)
      then show thesis using assms tok Inr d raised pre by (auto simp: mcp_call_def)
    next
      case v: (Inr v)
      obtain fres post where f: "forward env (used_breakglass v) rq = (fres, post)" by force
      show thesis
        using assms tok Inr d v f denied [OF t Inr, of v pre] forwarded [OF t Inr, of v pre post]
        by (cases "allowed v") (auto simp: mcp_call_def send_audit_event_def)
    qed
  qed
qed

section \<open>A concrete call\<close>

definition demo_settings :: mcp_settings where
  "demo_settings = \<lparr>governance_internal_token = ''tok'',
     breakglass_tool_allowlist = [''github-mcp:list_prs'']\<rparr>"

definition demo_body :: json where
  "demo_body = JObj
     [(''principal'', JObj [(''tenant_id'', JStr ''t''), (''user_id'', JStr ''u'')]),
      (''tool'', JObj [(''server'', JStr ''github-mcp''), (''name'', JStr ''list_prs'')])]"

definition demo_env :: "opa_reply \<Rightarrow> mcp_env" where
  "demo_env reply = \<lparr>nfc = id, fmt = (\<lambda>v. []), admit_time = 100, settle_time = 101, opa = reply,
     downstream = DownstreamStream (Chunk 1 [104] (Chunk 2 [105] (StreamEnd 3))) ''text'',
     dlp = DlpData (JObj [(''pii_findings'', JList [])]), audit_ok = True\<rparr>"

lemma demo_allowed:
  "mcp_call demo_settings (demo_env (OpaData (JObj [(''result'', JBool True)]))) new_breaker
     (Some ''tok'') demo_body =
   (Inr (ToolResult [104, 105] ''text''), new_breaker,
    [EffOpaCheck (JObj [(''tenant_id'', JStr ''t''), (''user_id'', JStr ''u'')]) (JObj [])
       (JObj [(''server'', JStr ''github-mcp''), (''name'', JStr ''list_prs'')]) (JObj []),
     EffDownstream demo_body, EffDlpScan [104, 105],
     EffAudit (JStr ''t'') (JStr ''u'') ''mcp_tool_call'' Allow])"
  by (simp add: mcp_call_def demo_settings_def demo_env_def demo_body_def token_accepted_def truthy_str_def
      compare_digest_def is_ascii_def parse_body_def jget_or_def dict_get_or_def
      normalize_context_def decide_def admit_def is_closed_def new_breaker_def settle_def
      record_success_def check_tool_call_def forward_def buffer_tool_response_def
      MAX_TOOL_RESPONSE_BYTES_def TOOL_RESPONSE_TIMEOUT_SECONDS_def scan_and_answer_def
      scan_for_pii_def send_audit_event_def)

section \<open>Properties\<close>

text \<open>
  C7. The downstream tool is contacted only for a caller holding the internal token, with the
  caller's own body, and only after the sidecar answered with a true \<open>result\<close> or, when the breaker
  was not closed, for a tool on the break-glass list.
\<close>

theorem mcp_call_fail_closed:
  assumes "mcp_call cfg env b tok body = (res, b', effs)" "EffDownstream x \<in> set effs"
  shows "tok = Some (governance_internal_token cfg) \<and> x = body \<and>
    (check_tool_call (opa env) = Inr True \<or>
     (\<not> is_closed b \<and>
      (\<exists>rq. parse_body (nfc env) body = Inr rq \<and>
            breakglass_allowed cfg (fmt env) (tool rq) = Inr True)))"
  using assms(1)
proof (cases rule: mcp_call_cases)
  case (forwarded rq v pre post)
  have "EffDownstream x \<in> set post"
    using assms(2) forwarded(6) decide_effects [OF forwarded(3)] by auto
  then have "x = rq_body rq" using forward_no_check [OF forwarded(5)] by fastforce
  moreover have "rq_body rq = body"
    using forwarded(2) by (auto simp: parse_body_def ebind_eq_Inr)
  ultimately show ?thesis
    using forwarded decide_allowed [OF forwarded(3,4)] by auto
next
  case (denied rq v pre)
  then show ?thesis using assms(2) decide_effects [OF denied(3)] by auto
qed (use assms(2) in auto)

theorem mcp_call_fail_closed_witness:
  "check_tool_call (opa (demo_env (OpaData (JObj [(''result'', JBool True)])))) = Inr True"
  using mcp_call_fail_closed [OF demo_allowed, of demo_body]
  by (simp add: is_closed_def new_breaker_def)

text \<open>
  A tool result reaches the caller only as the complete downstream body, received within ten
  seconds, at most 1 MiB, valid UTF-8, and scanned without findings; the allow is audited last.
\<close>

theorem mcp_call_result_scanned:
  assumes "mcp_call cfg env b tok body = (Inr (ToolResult bs ct), b', effs)"
  shows "\<exists>s t r. downstream env = DownstreamStream s ct \<and> bs = stream_bytes s \<and>
    completes_before TOOL_RESPONSE_TIMEOUT_SECONDS s \<and> length bs \<le> MAX_TOOL_RESPONSE_BYTES \<and>
    utf8_encode t = Some bs \<and> EffDlpScan t \<in> set effs \<and>
    scan_for_pii (dlp env) = Inr r \<and> \<not> json_truthy (pii_findings r)"
  using assms
proof (cases rule: mcp_call_cases)
  case (forwarded rq v pre post)
  from forwarded(5) show ?thesis
  proof (cases rule: forward_cases)
    case (sent s ct' bs' t r)
    then show ?thesis
      using forwarded(6) by (auto simp: buffer_tool_response_iff utf8_encode_decode)
  qed simp_all
qed simp_all

theorem mcp_call_result_scanned_witness:
  "(\<exists>s ct. downstream (demo_env (OpaData (JObj [(''result'', JBool True)]))) = DownstreamStream s ct
      \<and> [104, 105] = stream_bytes s)"
  using mcp_call_result_scanned [OF demo_allowed] by blast

text \<open>
  C24. Every request that is answered, other than by the token check, ends with exactly one audit
  event, sent after all other effects; its decision is \<open>Allow\<close> exactly if the tool result is
  returned, and the event type says whether the break-glass list decided.
\<close>

theorem mcp_call_audited_once:
  assumes "mcp_call cfg env b tok body = (Inr resp, b', effs)" "\<forall>m. resp \<noteq> Forbidden m"
  shows "\<exists>pre t u ty d. effs = pre @ [EffAudit t u ty d] \<and> (\<forall>x\<in>set pre. \<not> is_audit x) \<and>
    (d = Allow \<longleftrightarrow> (\<exists>bs ct. resp = ToolResult bs ct)) \<and>
    (resp = PolicyViolation \<longrightarrow> ty \<in> {''policy_denied'', ''breakglass_denied''}) \<and>
    (resp = BadGateway \<longrightarrow> ty = ''dlp_blocked'')"
  using assms(1)
proof (cases rule: mcp_call_cases)
  case (denied rq v pre)
  then show ?thesis using decide_effects [OF denied(3)]
    by (intro exI [of _ pre] exI [of _ "tenant_id rq"] exI [of _ "user_id rq"]
        exI [of _ "if used_breakglass v then ''breakglass_denied'' else ''policy_denied''"]
        exI [of _ Block]) auto
next
  case (forwarded rq v pre post)
  have pre: "\<forall>x\<in>set pre. \<not> is_audit x" using decide_effects [OF forwarded(3)] by auto
  from forwarded(5) show ?thesis
  proof (cases rule: forward_cases)
    case (blocked pre')
    then show ?thesis using pre forwarded(6)
      by (intro exI [of _ "pre @ pre'"] exI [of _ "tenant_id rq"] exI [of _ "user_id rq"]
          exI [of _ "''dlp_blocked''"] exI [of _ Block])
        (auto simp: blocked_def send_audit_event_def)
  next
    case (sent s ct bs t r)
    then show ?thesis using pre forwarded(6)
      by (intro exI [of _ "pre @ [EffDownstream (rq_body rq), EffDlpScan t]"]
          exI [of _ "tenant_id rq"] exI [of _ "user_id rq"]
          exI [of _ "if used_breakglass v then ''breakglass_tool_call'' else ''mcp_tool_call''"]
          exI [of _ Allow]) auto
  qed simp
qed (use assms(2) in auto)

theorem mcp_call_audited_once_witness:
  "\<exists>pre t u ty.
     [EffOpaCheck (JObj [(''tenant_id'', JStr ''t''), (''user_id'', JStr ''u'')]) (JObj [])
       (JObj [(''server'', JStr ''github-mcp''), (''name'', JStr ''list_prs'')]) (JObj []),
      EffDownstream demo_body, EffDlpScan [104, 105],
      EffAudit (JStr ''t'') (JStr ''u'') ''mcp_tool_call'' Allow] = pre @ [EffAudit t u ty Allow] \<and>
     (\<forall>x\<in>set pre. \<not> is_audit x)"
  using mcp_call_audited_once [OF demo_allowed] by auto

text \<open>
  When the sidecar cannot be asked, the call is denied while the breaker is closed, and the
  failure is counted; nothing is sent downstream. While the breaker is not closed and no probe is
  due, the sidecar is not asked and the break-glass list decides.
\<close>

theorem mcp_call_sidecar_down:
  assumes "parse_body (nfc env) body = Inr rq" "is_ascii (governance_internal_token cfg)"
    and "governance_internal_token cfg \<noteq> []" "check_tool_call (opa env) = Inl OpaCheckError"
  shows "(is_closed b \<longrightarrow>
     mcp_call cfg env b (Some (governance_internal_token cfg)) body =
       (Inr PolicyViolation, record_failure (settle_time env) b,
        [EffOpaCheck (principal rq) (actor rq) (tool rq) (rq_context rq),
         EffAudit (tenant_id rq) (user_id rq) ''policy_denied'' Block]))
   \<and> (admit (admit_time env) b = Inr (Bypass, b) \<and>
      breakglass_allowed cfg (fmt env) (tool rq) = Inr False \<longrightarrow>
     mcp_call cfg env b (Some (governance_internal_token cfg)) body =
       (Inr PolicyViolation, b,
        [EffAudit (tenant_id rq) (user_id rq) ''breakglass_denied'' Block]))"
  using assms
  by (simp add: mcp_call_def token_accepted_def truthy_str_def compare_digest_def decide_def admit_def settle_def
      send_audit_event_def by_breakglass_def)

theorem mcp_call_sidecar_down_witness:
  "\<exists>rq. parse_body id demo_body = Inr rq \<and>
     fst (mcp_call demo_settings (demo_env OpaTransport) new_breaker (Some ''tok'') demo_body)
       = Inr PolicyViolation"
proof -
  obtain rq where rq: "parse_body (nfc (demo_env OpaTransport)) demo_body = Inr rq"
    by (simp add: parse_body_def demo_body_def demo_env_def jget_or_def dict_get_or_def
        normalize_context_def)
  show ?thesis
    using mcp_call_sidecar_down [of "demo_env OpaTransport" demo_body rq demo_settings new_breaker] rq
    by (simp add: demo_settings_def demo_env_def is_ascii_def check_tool_call_def is_closed_def
        new_breaker_def)
qed



end
