(* ===== verification/PiiPools.thy ===== *)
theory PiiPools imports Transition begin

text \<open>
  \<open>governance/app/pii.py\<close>, the class-aware scheduling of scan slots. \<open>asyncio.Semaphore\<close> is
  modelled with its waiter queue: releasing hands the permit to the first waiter not yet woken, and
  a woken waiter stays in the queue until its coroutine resumes. Requests arrive, resume, release
  and may be cancelled while they wait; each of these runs between two awaits.
\<close>

section \<open>Semaphores\<close>

record sem =
  sem_value :: nat
  sem_waiters :: "(nat \<times> bool) list"  \<comment> \<open>task, and whether its future is already set\<close>

definition new_sem :: "nat \<Rightarrow> sem" where
  "new_sem n = \<lparr>sem_value = n, sem_waiters = []\<rparr>"

definition sem_locked :: "sem \<Rightarrow> bool" where
  "sem_locked s \<longleftrightarrow> sem_value s = 0 \<or> sem_waiters s \<noteq> []"

definition sem_take :: "sem \<Rightarrow> sem" where
  "sem_take s = s\<lparr>sem_value := sem_value s - 1\<rparr>"

definition sem_enqueue :: "nat \<Rightarrow> sem \<Rightarrow> sem" where
  "sem_enqueue i s = s\<lparr>sem_waiters := sem_waiters s @ [(i, False)]\<rparr>"

fun wake_first :: "(nat \<times> bool) list \<Rightarrow> (nat \<times> bool) list option" where
  "wake_first [] = None"
| "wake_first ((i, woken) # ws) =
     (if woken then map_option ((#) (i, woken)) (wake_first ws) else Some ((i, True) # ws))"

definition wake_up_next :: "sem \<Rightarrow> bool \<times> sem" where
  "wake_up_next s =
     (case wake_first (sem_waiters s) of
        None \<Rightarrow> (False, s)
      | Some ws \<Rightarrow> (True, s\<lparr>sem_value := sem_value s - 1, sem_waiters := ws\<rparr>))"

definition sem_release :: "sem \<Rightarrow> sem" where
  "sem_release s = snd (wake_up_next (s\<lparr>sem_value := sem_value s + 1\<rparr>))"

text \<open>The loop in the \<open>finally\<close> clause of \<open>acquire\<close>; each round takes one permit.\<close>

fun wake_while :: "nat \<Rightarrow> sem \<Rightarrow> sem" where
  "wake_while 0 s = s"
| "wake_while (Suc n) s =
     (if sem_value s > 0 then (case wake_up_next s of (True, s') \<Rightarrow> wake_while n s' | (False, s') \<Rightarrow> s')
      else s)"

definition sem_resume :: "nat \<Rightarrow> sem \<Rightarrow> sem" where
  "sem_resume i s =
     (let s' = s\<lparr>sem_waiters := remove1 (i, True) (sem_waiters s)\<rparr> in wake_while (sem_value s') s')"

definition sem_cancel :: "nat \<Rightarrow> bool \<Rightarrow> sem \<Rightarrow> sem" where
  "sem_cancel i woken s =
     (let s' = s\<lparr>sem_value := (if woken then sem_value s + 1 else sem_value s),
                 sem_waiters := remove1 (i, woken) (sem_waiters s)\<rparr>
      in wake_while (sem_value s') s')"

definition woken_count :: "sem \<Rightarrow> nat" where
  "woken_count s = length (filter snd (sem_waiters s))"

definition sleeping :: "sem \<Rightarrow> nat list" where
  "sleeping s = map fst (filter (\<lambda>w. \<not> snd w) (sem_waiters s))"

text \<open>
  The contract of a fair semaphore, as its clients use it: \<open>free\<close> permits plus permits handed to
  woken tasks form a ledger; if somebody sleeps while a permit is free, then a woken task is about
  to resume and will pass the permit on; and tasks are woken in the order in which they queued.
\<close>

locale fair_semaphore =
  fixes locked :: "'s \<Rightarrow> bool"
    and take_permit :: "'s \<Rightarrow> 's"
    and enqueue :: "nat \<Rightarrow> 's \<Rightarrow> 's"
    and release :: "'s \<Rightarrow> 's"
    and resume :: "nat \<Rightarrow> 's \<Rightarrow> 's"
    and cancel :: "nat \<Rightarrow> bool \<Rightarrow> 's \<Rightarrow> 's"
    and waiting :: "nat \<Rightarrow> bool \<Rightarrow> 's \<Rightarrow> bool"
    and free :: "'s \<Rightarrow> nat"
    and handed :: "'s \<Rightarrow> nat"
    and sleepers :: "'s \<Rightarrow> nat list"
  assumes locked_iff: "locked s \<longleftrightarrow> free s = 0 \<or> sleepers s \<noteq> [] \<or> 0 < handed s"
    and take_law: "0 < free s \<Longrightarrow>
      free (take_permit s) + 1 = free s \<and> handed (take_permit s) = handed s \<and>
      sleepers (take_permit s) = sleepers s"
    and enqueue_law: "free (enqueue i s) = free s \<and> handed (enqueue i s) = handed s \<and>
      sleepers (enqueue i s) = sleepers s @ [i]"
    and release_law: "free (release s) + handed (release s) = free s + handed s + 1 \<and>
      sleepers (release s) = tl (sleepers s) \<and>
      (sleepers s = [] \<or> 0 < handed (release s))"
    and resume_law: "waiting i True s \<Longrightarrow>
      free (resume i s) + handed (resume i s) + 1 = free s + handed s \<and>
      sleepers (resume i s) = drop (free s) (sleepers s) \<and>
      (sleepers (resume i s) = [] \<or> free (resume i s) = 0)"
    and cancel_law: "waiting i w s \<Longrightarrow>
      free (cancel i w s) + handed (cancel i w s) = free s + handed s \<and>
      (sleepers (cancel i w s) = [] \<or> free (cancel i w s) = 0)"
begin

text \<open>\<open>ok n k s\<close>: a semaphore of \<open>n\<close> permits of which \<open>k\<close> are held by running tasks.\<close>

definition ok :: "nat \<Rightarrow> nat \<Rightarrow> 's \<Rightarrow> bool" where
  "ok n k s \<longleftrightarrow> free s + handed s + k = n \<and> (sleepers s = [] \<or> free s = 0 \<or> 0 < handed s)"

lemma ok_take: "ok n k s \<Longrightarrow> \<not> locked s \<Longrightarrow> ok n (Suc k) (take_permit s)"
  using take_law [of s] locked_iff [of s] by (auto simp: ok_def)

lemma ok_enqueue: "ok n k s \<Longrightarrow> locked s \<Longrightarrow> ok n k (enqueue i s)"
  using enqueue_law [of i s] locked_iff [of s] by (auto simp: ok_def)

lemma ok_release: "ok n (Suc k) s \<Longrightarrow> ok n k (release s)"
  using release_law [of s] by (cases "sleepers s") (auto simp: ok_def)

lemma ok_resume: "ok n k s \<Longrightarrow> waiting i True s \<Longrightarrow> ok n (Suc k) (resume i s)"
  using resume_law [of i s] by (auto simp: ok_def)

lemma ok_cancel: "ok n k s \<Longrightarrow> waiting i w s \<Longrightarrow> ok n k (cancel i w s)"
  using cancel_law [of i w s] by (auto simp: ok_def)

lemma ok_held_bound: "ok n k s \<Longrightarrow> k \<le> n"
  by (auto simp: ok_def)

lemma ok_unlocked: "ok n k s \<Longrightarrow> k < n \<Longrightarrow> sleepers s = [] \<Longrightarrow> handed s = 0 \<Longrightarrow> \<not> locked s"
  by (auto simp: ok_def locked_iff)

text \<open>A task that sleeps behind \<open>m\<close> others is woken by the \<open>m + 1\<close>-st release, not earlier.\<close>

lemma release_n: "sleepers ((release ^^ m) s) = drop m (sleepers s)"
  by (induction m) (simp_all add: release_law drop_Suc tl_drop)

end

section \<open>The semaphore is fair\<close>

lemma wake_first_None: "wake_first ws = None \<longleftrightarrow> list_all snd ws"
  by (induction ws rule: wake_first.induct) auto

lemma wake_first_Some:
  "wake_first ws = Some ws' \<Longrightarrow>
   length (filter snd ws') = Suc (length (filter snd ws)) \<and>
   map fst (filter (\<lambda>w. \<not> snd w) ws') = tl (map fst (filter (\<lambda>w. \<not> snd w) ws)) \<and>
   filter (\<lambda>w. \<not> snd w) ws \<noteq> []"
  by (induction ws arbitrary: ws' rule: wake_first.induct) (auto split: if_splits)

lemma sleeping_Nil: "sleeping s = [] \<longleftrightarrow> list_all snd (sem_waiters s)"
  by (auto simp: sleeping_def filter_empty_conv list_all_iff)

lemma wake_up_next_False:
  "wake_up_next s = (False, s') \<Longrightarrow> s' = s \<and> sleeping s = []"
  by (auto simp: wake_up_next_def sleeping_Nil wake_first_None split: option.splits)

lemma wake_up_next_True:
  assumes "wake_up_next s = (True, s')" "0 < sem_value s"
  shows "sem_value s' + 1 = sem_value s \<and> woken_count s' = Suc (woken_count s) \<and>
    sleeping s' = tl (sleeping s) \<and> sleeping s \<noteq> []"
proof -
  obtain ws where ws: "wake_first (sem_waiters s) = Some ws"
      "s' = s\<lparr>sem_value := sem_value s - 1, sem_waiters := ws\<rparr>"
    using assms(1) by (auto simp: wake_up_next_def split: option.splits)
  show ?thesis
    using wake_first_Some [OF ws(1)] ws(2) assms(2) by (auto simp: woken_count_def sleeping_def)
qed

lemma wake_while_law:
  "sem_value s \<le> n \<Longrightarrow>
   sem_value (wake_while n s) + woken_count (wake_while n s) = sem_value s + woken_count s \<and>
   sleeping (wake_while n s) = drop (sem_value s) (sleeping s) \<and>
   (sleeping (wake_while n s) = [] \<or> sem_value (wake_while n s) = 0)"
proof (induction n s rule: wake_while.induct)
  case (2 n s)
  show ?case
  proof (cases "0 < sem_value s")
    case True
    obtain b s' where w: "wake_up_next s = (b, s')" by force
    show ?thesis
    proof (cases b)
      case T: True
      have "wake_up_next s = (True, s')" using w T by simp
      note l = wake_up_next_True [OF this True]
      have v: "sem_value s = Suc (sem_value s')" and c: "woken_count s' = Suc (woken_count s)"
        and sl: "sleeping s' = tl (sleeping s)" using l by simp_all
      have "wake_while (Suc n) s = wake_while n s'" using True w T by simp
      moreover have "sem_value s' \<le> n" using 2(2) v by simp
      note i = 2(1) [OF True w [symmetric] eqTrueI [OF T] this]
      ultimately show ?thesis
        unfolding v drop_Suc sl [symmetric] add_Suc c [symmetric]
        using i c by (simp only: add_Suc_right add_Suc simp_thms)
    next
      case False
      then show ?thesis using w True wake_up_next_False [of s s'] by simp
    qed
  qed simp
qed simp

lemma sem_release_law:
  "sem_value (sem_release s) + woken_count (sem_release s) = sem_value s + woken_count s + 1 \<and>
   sleeping (sem_release s) = tl (sleeping s) \<and> (sleeping s = [] \<or> 0 < woken_count (sem_release s))"
proof -
  let ?s = "s\<lparr>sem_value := sem_value s + 1\<rparr>"
  obtain b s' where w: "wake_up_next ?s = (b, s')" by force
  have eq: "sleeping ?s = sleeping s" "woken_count ?s = woken_count s"
    by (simp_all add: sleeping_def woken_count_def)
  show ?thesis
  proof (cases b)
    case True
    then show ?thesis using wake_up_next_True [of ?s s'] w eq by (simp add: sem_release_def)
  next
    case False
    then show ?thesis using wake_up_next_False [of ?s s'] w eq by (auto simp: sem_release_def)
  qed
qed

lemma remove1_woken:
  assumes "(i, True) \<in> set ws"
  shows "Suc (length (filter snd (remove1 (i, True) ws))) = length (filter snd ws) \<and>
    filter (\<lambda>w. \<not> snd w) (remove1 (i, True) ws) = filter (\<lambda>w. \<not> snd w) ws"
  using assms by (induction ws) auto

lemma remove1_sleeping:
  "length (filter snd (remove1 (i, False) ws)) = length (filter snd ws)"
  by (induction ws) auto

definition in_queue :: "nat \<Rightarrow> bool \<Rightarrow> sem \<Rightarrow> bool" where
  "in_queue i w s \<longleftrightarrow> (i, w) \<in> set (sem_waiters s)"

interpretation asem: fair_semaphore sem_locked sem_take sem_enqueue sem_release sem_resume
  sem_cancel in_queue sem_value woken_count sleeping
proof unfold_locales
  fix s i w
  show "sem_locked s \<longleftrightarrow> sem_value s = 0 \<or> sleeping s \<noteq> [] \<or> 0 < woken_count s"
  proof -
    have "sem_waiters s = [] \<longleftrightarrow> sleeping s = [] \<and> woken_count s = 0"
      by (cases "sem_waiters s") (auto simp: sleeping_def woken_count_def)
    then show ?thesis by (auto simp: sem_locked_def)
  qed
  show "0 < sem_value s \<Longrightarrow> sem_value (sem_take s) + 1 = sem_value s \<and>
      woken_count (sem_take s) = woken_count s \<and> sleeping (sem_take s) = sleeping s"
    by (simp add: sem_take_def woken_count_def sleeping_def)
  show "sem_value (sem_enqueue i s) = sem_value s \<and> woken_count (sem_enqueue i s) = woken_count s \<and>
      sleeping (sem_enqueue i s) = sleeping s @ [i]"
    by (simp add: sem_enqueue_def woken_count_def sleeping_def)
  show "sem_value (sem_release s) + woken_count (sem_release s) = sem_value s + woken_count s + 1 \<and>
      sleeping (sem_release s) = tl (sleeping s) \<and> (sleeping s = [] \<or> 0 < woken_count (sem_release s))"
    by (rule sem_release_law)
  show "in_queue i True s \<Longrightarrow>
      sem_value (sem_resume i s) + woken_count (sem_resume i s) + 1 = sem_value s + woken_count s \<and>
      sleeping (sem_resume i s) = drop (sem_value s) (sleeping s) \<and>
      (sleeping (sem_resume i s) = [] \<or> sem_value (sem_resume i s) = 0)"
    using wake_while_law [of "s\<lparr>sem_waiters := remove1 (i, True) (sem_waiters s)\<rparr>" "sem_value s"]
      remove1_woken [of i "sem_waiters s"]
    by (auto simp: sem_resume_def in_queue_def woken_count_def sleeping_def Let_def)
  show "in_queue i w s \<Longrightarrow>
      sem_value (sem_cancel i w s) + woken_count (sem_cancel i w s) = sem_value s + woken_count s \<and>
      (sleeping (sem_cancel i w s) = [] \<or> sem_value (sem_cancel i w s) = 0)"
    using wake_while_law [of "s\<lparr>sem_value := (if w then sem_value s + 1 else sem_value s),
        sem_waiters := remove1 (i, w) (sem_waiters s)\<rparr>" "if w then sem_value s + 1 else sem_value s"]
      remove1_woken [of i "sem_waiters s"] remove1_sleeping [of i "sem_waiters s"]
    by (cases w) (auto simp: sem_cancel_def in_queue_def woken_count_def Let_def)
qed

section \<open>The pools\<close>

text \<open>The loop \<open>while home > 0 and 2 * home > total: home -= 1\<close>.\<close>

function shrink_home :: "int \<Rightarrow> int \<Rightarrow> int" where
  "shrink_home n home = (if home > 0 \<and> 2 * home > n then shrink_home n (home - 1) else home)"
  by auto

termination shrink_home
  by (relation "measure (\<lambda>(n, home). nat home)") auto

declare shrink_home.simps [simp del]

definition split_pool_sizes :: "int \<Rightarrow> int \<times> int \<times> int" where
  "split_pool_sizes n =
     (if n \<le> 1 then (0, 0, n)
      else let home = shrink_home n (max 1 (n div 4)) in (home, home, n - 2 * home))"

datatype pool = InteractivePool | BulkPool | SharedPool
datatype request_class = InteractiveClass | BulkClass

record pools =
  pool_size :: "pool \<Rightarrow> nat"
  pool_sem :: "pool \<Rightarrow> sem"
  held :: "(nat \<times> pool) list"  \<comment> \<open>running scans and the pool each releases to\<close>
  next_task :: nat

definition get_pools :: "nat \<Rightarrow> pools" where
  "get_pools workers =
     (case split_pool_sizes (int workers) of (interactive_size, bulk_size, shared_size) \<Rightarrow>
        let size = (\<lambda>q. case q of InteractivePool \<Rightarrow> nat interactive_size
                       | BulkPool \<Rightarrow> nat bulk_size | SharedPool \<Rightarrow> nat shared_size)
        in \<lparr>pool_size = size, pool_sem = (\<lambda>q. new_sem (size q)), held = [], next_task = 0\<rparr>)"

definition can_acquire_immediately :: "sem \<Rightarrow> bool" where
  "can_acquire_immediately s \<longleftrightarrow> \<not> sem_locked s"

fun home_pool :: "request_class \<Rightarrow> pool" where
  "home_pool BulkClass = BulkPool"
| "home_pool InteractiveClass = InteractivePool"

fun other_pool :: "request_class \<Rightarrow> pool" where
  "other_pool BulkClass = InteractivePool"
| "other_pool InteractiveClass = BulkPool"

definition choose_pool :: "request_class \<Rightarrow> pools \<Rightarrow> pool option" where
  "choose_pool c p =
     (if can_acquire_immediately (pool_sem p (home_pool c)) then Some (home_pool c)
      else if can_acquire_immediately (pool_sem p SharedPool) then Some SharedPool
      else if can_acquire_immediately (pool_sem p (other_pool c)) then Some (other_pool c)
      else None)"

definition blocking_target :: "request_class \<Rightarrow> pools \<Rightarrow> pool" where
  "blocking_target c p = (if pool_size p (home_pool c) > 0 then home_pool c else SharedPool)"

definition on_pool :: "pool \<Rightarrow> (sem \<Rightarrow> sem) \<Rightarrow> pools \<Rightarrow> pools" where
  "on_pool q f p = p\<lparr>pool_sem := (pool_sem p)(q := f (pool_sem p q))\<rparr>"

text \<open>
  The entry of \<open>_acquire_scan_slot\<close> up to its first suspension: either a slot is held, or the task
  sleeps on its blocking target.
\<close>

definition acquire_scan_slot :: "request_class \<Rightarrow> pools \<Rightarrow> pools" where
  "acquire_scan_slot c p =
     (let i = next_task p; p' = p\<lparr>next_task := Suc i\<rparr> in
      case choose_pool c p of
        Some q \<Rightarrow> (on_pool q sem_take p')\<lparr>held := (i, q) # held p\<rparr>
      | None \<Rightarrow> on_pool (blocking_target c p) (sem_enqueue i) p')"

definition release_scan_slot :: "nat \<Rightarrow> pool \<Rightarrow> pools \<Rightarrow> pools" where
  "release_scan_slot i q p = (on_pool q sem_release p)\<lparr>held := remove1 (i, q) (held p)\<rparr>"

inductive pool_step :: "pools \<Rightarrow> pools \<Rightarrow> bool" where
  arrives: "pool_step p (acquire_scan_slot c p)"
| resumes:
    "in_queue i True (pool_sem p q) \<Longrightarrow>
     pool_step p ((on_pool q (sem_resume i) p)\<lparr>held := (i, q) # held p\<rparr>)"
| releases: "(i, q) \<in> set (held p) \<Longrightarrow> pool_step p (release_scan_slot i q p)"
| cancelled: "in_queue i w (pool_sem p q) \<Longrightarrow> pool_step p (on_pool q (sem_cancel i w) p)"

inductive_cases pool_stepE: "pool_step p p'"

definition held_in :: "pools \<Rightarrow> pool \<Rightarrow> nat" where
  "held_in p q = length (filter (\<lambda>h. snd h = q) (held p))"

definition pools_inv :: "pools \<Rightarrow> bool" where
  "pools_inv p \<longleftrightarrow> (\<forall>q. asem.ok (pool_size p q) (held_in p q) (pool_sem p q))"

section \<open>Lemmas\<close>

lemma shrink_home_id: "2 * home \<le> n \<Longrightarrow> shrink_home n home = home"
  by (subst shrink_home.simps) simp

lemma split_pool_sizes_eq:
  "split_pool_sizes n = (if n \<le> 1 then (0, 0, n)
     else (max 1 (n div 4), max 1 (n div 4), n - 2 * max 1 (n div 4)))"
proof -
  have "2 * max 1 (n div 4) \<le> n" if "\<not> n \<le> 1" using that by (simp add: max_def) linarith
  then show ?thesis by (simp add: split_pool_sizes_def shrink_home_id Let_def)
qed

lemma all_pools: "(\<forall>q. P q) \<longleftrightarrow> P InteractivePool \<and> P BulkPool \<and> P SharedPool"
  by (metis pool.exhaust)

lemma on_pool_simps [simp]:
  "pool_size (on_pool q f p) = pool_size p"
  "held (on_pool q f p) = held p"
  "pool_sem (on_pool q f p) = (pool_sem p)(q := f (pool_sem p q))"
  by (simp_all add: on_pool_def)

lemma held_in_simps [simp]:
  "held_in (p\<lparr>held := (i, q) # hs\<rparr>) q' = (if q' = q then Suc (held_in (p\<lparr>held := hs\<rparr>) q') else held_in (p\<lparr>held := hs\<rparr>) q')"
  "held_in (on_pool q f p) q' = held_in p q'"
  "held_in (p\<lparr>next_task := n\<rparr>) q' = held_in p q'"
  by (auto simp: held_in_def)

lemma held_in_self: "held_in (p'\<lparr>held := held p\<rparr>) q = held_in p q"
  by (simp add: held_in_def)

lemma held_in_remove1:
  "(i, q) \<in> set hs \<Longrightarrow>
   length (filter (\<lambda>h. snd h = q') hs) =
     length (filter (\<lambda>h. snd h = q') (remove1 (i, q) hs)) + (if q' = q then 1 else 0)"
  by (induction hs) auto

lemma new_sem_ok: "asem.ok n 0 (new_sem n)"
  by (simp add: asem.ok_def new_sem_def sleeping_def woken_count_def)

lemma pools_inv_init: "pools_inv (get_pools n)"
  by (simp add: pools_inv_def get_pools_def Let_def held_in_def new_sem_ok split: prod.splits)

lemma choose_pool_Some:
  "choose_pool c p = Some q \<Longrightarrow> \<not> sem_locked (pool_sem p q)"
  by (auto simp: choose_pool_def can_acquire_immediately_def split: if_splits)

lemma choose_pool_None: "choose_pool c p = None \<longleftrightarrow> (\<forall>q. sem_locked (pool_sem p q))"
  by (cases c) (auto simp: choose_pool_def can_acquire_immediately_def all_pools)

lemma pools_inv_acquire: "pools_inv p \<Longrightarrow> pools_inv (acquire_scan_slot c p)"
proof (cases "choose_pool c p")
  case None
  then have "\<forall>q. sem_locked (pool_sem p q)" by (simp add: choose_pool_None)
  moreover assume "pools_inv p"
  ultimately show ?thesis
    using None by (auto simp: pools_inv_def acquire_scan_slot_def Let_def asem.ok_enqueue)
next
  case (Some q)
  moreover assume "pools_inv p"
  ultimately show ?thesis
    using choose_pool_Some [OF Some]
    by (auto simp: pools_inv_def acquire_scan_slot_def Let_def asem.ok_take held_in_self)
qed

lemma pools_inv_step: "pools_inv p \<Longrightarrow> pool_step p p' \<Longrightarrow> pools_inv p'"
proof (erule pool_stepE)
  fix i q assume a: "pools_inv p" "(i, q) \<in> set (held p)" "p' = release_scan_slot i q p"
  let ?h = "\<lambda>q'. length (filter (\<lambda>h. snd h = q') (remove1 (i, q) (held p)))"
  have "held_in p q' = (if q' = q then Suc (?h q') else ?h q')" for q'
    using held_in_remove1 [OF a(2)] by (simp add: held_in_def)
  then have "\<forall>q'. asem.ok (pool_size p q') (if q' = q then Suc (?h q') else ?h q') (pool_sem p q')"
    using a(1) by (simp add: pools_inv_def)
  then show "pools_inv p'"
    unfolding a(3) pools_inv_def release_scan_slot_def
    by (auto simp: held_in_def intro!: asem.ok_release split: if_splits)
next
  fix c assume "pools_inv p" "p' = acquire_scan_slot c p"
  then show "pools_inv p'" by (simp add: pools_inv_acquire)
qed (auto simp: pools_inv_def asem.ok_resume asem.ok_cancel held_in_self)

interpretation pool_machine: initialised_invariant pool_step pools_inv "get_pools n" for n
  by unfold_locales (auto intro: pools_inv_init pools_inv_step)

lemma pool_size_step: "pool_step p p' \<Longrightarrow> pool_size p' = pool_size p"
  by (erule pool_stepE)
    (auto simp: acquire_scan_slot_def release_scan_slot_def Let_def split: option.splits)

interpretation pool_sizes: step_invariant pool_step "\<lambda>p. pool_size p = sz" for sz
  by unfold_locales (simp add: pool_size_step)

lemma held_total: "length (held p) = held_in p InteractivePool + held_in p BulkPool + held_in p SharedPool"
proof -
  have "length hs = length (filter (\<lambda>h. snd h = InteractivePool) hs) +
      length (filter (\<lambda>h. snd h = BulkPool) hs) + length (filter (\<lambda>h. snd h = SharedPool) hs)"
    for hs :: "(nat \<times> pool) list"
  proof (induction hs)
    case (Cons h hs)
    show ?case using Cons.IH by (cases "snd h") simp_all
  qed simp
  then show ?thesis unfolding held_in_def .
qed

lemma get_pools_sizes:
  "pool_size (get_pools n) =
     (\<lambda>q. case q of
        SharedPool \<Rightarrow> (if n \<le> 1 then n else n - 2 * max 1 (n div 4))
      | _ \<Rightarrow> (if n \<le> 1 then 0 else max 1 (n div 4)))"
proof (rule ext)
  fix q
  have m: "max 1 (int n div 4) = int (max 1 (n div 4))" by (simp add: zdiv_int)
  show "pool_size (get_pools n) q = (case q of
        SharedPool \<Rightarrow> (if n \<le> 1 then n else n - 2 * max 1 (n div 4))
      | _ \<Rightarrow> (if n \<le> 1 then 0 else max 1 (n div 4)))"
    unfolding get_pools_def split_pool_sizes_eq m by (cases "n \<le> 1"; cases q) (simp_all add: Let_def)
qed

lemma get_pools_size:
  "pool_size (get_pools n) InteractivePool + pool_size (get_pools n) BulkPool +
   pool_size (get_pools n) SharedPool = n"
proof -
  have "2 * max 1 (n div 4) \<le> n" if "\<not> n \<le> 1" using that by (simp add: max_def) linarith
  then show ?thesis by (simp add: get_pools_sizes)
qed

lemma pools_inv_held: "pools_inv p \<Longrightarrow> held_in p q \<le> pool_size p q"
  unfolding pools_inv_def by (blast intro: asem.ok_held_bound)

lemma reachable_pools:
  assumes "pool_step\<^sup>*\<^sup>* (get_pools n) p"
  shows "pools_inv p \<and> pool_size p = pool_size (get_pools n)"
  using pool_machine.inv_reachable [OF assms] pool_sizes.inv_steps [OF assms refl] by simp

definition nobody_waits :: "pools \<Rightarrow> bool" where
  "nobody_waits p \<longleftrightarrow> (\<forall>q. sem_waiters (pool_sem p q) = [])"

lemma nobody_waits_free:
  assumes "pools_inv p" "nobody_waits p" "held_in p q < pool_size p q"
  shows "\<not> sem_locked (pool_sem p q)"
  using assms
  by (intro asem.ok_unlocked [of "pool_size p q" "held_in p q"])
    (auto simp: pools_inv_def nobody_waits_def sleeping_def woken_count_def)

text \<open>Eight bulk scans occupy a pool of eight, then two interactive requests queue.\<close>

definition burst :: pools where
  "burst = (acquire_scan_slot InteractiveClass ^^ 2) ((acquire_scan_slot BulkClass ^^ 8) (get_pools 8))"

lemma arrivals_reachable: "pool_step\<^sup>*\<^sup>* p ((acquire_scan_slot c ^^ k) p)"
  by (induction k) (auto intro: rtranclp.rtrancl_into_rtrancl arrives)

lemma burst_reachable: "pool_step\<^sup>*\<^sup>* (get_pools 8) burst"
  unfolding burst_def by (rule rtranclp_trans [OF arrivals_reachable arrivals_reachable])

lemma burst_state:
  "sleeping (pool_sem burst InteractivePool) = [8, 9] \<and> length (held burst) = 8"
proof -
  have "pool_size (get_pools 8) = (\<lambda>q. case q of SharedPool \<Rightarrow> 4 | _ \<Rightarrow> 2)"
    by (auto simp: get_pools_sizes fun_eq_iff split: pool.splits)
  moreover have "get_pools 8 = \<lparr>pool_size = pool_size (get_pools 8),
      pool_sem = (\<lambda>q. new_sem (pool_size (get_pools 8) q)), held = [], next_task = 0\<rparr>"
    by (simp add: get_pools_def Let_def split: prod.splits)
  ultimately have "get_pools 8 = \<lparr>pool_size = (\<lambda>q. case q of SharedPool \<Rightarrow> 4 | _ \<Rightarrow> 2),
      pool_sem = (\<lambda>q. new_sem (case q of SharedPool \<Rightarrow> 4 | _ \<Rightarrow> 2)), held = [], next_task = 0\<rparr>"
    by simp
  then show ?thesis
    by (simp add: burst_def eval_nat_numeral acquire_scan_slot_def choose_pool_def Let_def
        can_acquire_immediately_def sem_locked_def sem_take_def sem_enqueue_def on_pool_def
        new_sem_def blocking_target_def sleeping_def)
qed

section \<open>Properties\<close>

text \<open>
  The split of the executor's slots: for two slots or more both classes get the same reserved
  minimum of at least one slot, and the three pools add up to the total.
\<close>

theorem split_pool_sizes_sum:
  "case split_pool_sizes n of (i, b, s) \<Rightarrow>
     i + b + s = n \<and> i = b \<and> (i = 0 \<longleftrightarrow> n \<le> 1) \<and> (0 \<le> s \<longleftrightarrow> 0 \<le> n)"
  by (auto simp: split_pool_sizes_eq max_def)

text \<open>
  C36. However requests arrive, wait, are cancelled, resume and finish, no pool ever runs more scans
  than its size, so at most \<open>n\<close> scans run at once on an executor of \<open>n\<close> workers.
\<close>

theorem scan_slots_bounded:
  assumes "pool_step\<^sup>*\<^sup>* (get_pools n) p"
  shows "held_in p q \<le> pool_size p q \<and> length (held p) \<le> n"
proof -
  have inv: "pools_inv p" and sz: "pool_size p = pool_size (get_pools n)"
    using reachable_pools [OF assms] by simp_all
  have "length (held p) \<le> pool_size p InteractivePool + pool_size p BulkPool + pool_size p SharedPool"
    unfolding held_total by (intro add_mono pools_inv_held [OF inv])
  then show ?thesis using pools_inv_held [OF inv] get_pools_size [of n] sz by simp
qed

text \<open>
  No slot is wasted: in a reachable state in which nobody waits and fewer than \<open>n\<close> scans run,
  a request of either class starts at once. A single busy class therefore reaches all \<open>n\<close> slots.
\<close>

theorem scan_slots_work_conserving:
  assumes "pool_step\<^sup>*\<^sup>* (get_pools n) p" "nobody_waits p" "length (held p) < n"
  shows "\<exists>q. held (acquire_scan_slot c p) = (next_task p, q) # held p \<and>
    nobody_waits (acquire_scan_slot c p)"
proof -
  have inv: "pools_inv p" and sz: "pool_size p = pool_size (get_pools n)"
    using reachable_pools [OF assms(1)] by simp_all
  have "\<exists>q. held_in p q < pool_size p q"
    using assms(3) get_pools_size [of n] sz pools_inv_held [OF inv] held_total [of p]
    by (metis add_mono_thms_linordered_semiring(1) linorder_not_le)
  then have "choose_pool c p \<noteq> None"
    using nobody_waits_free [OF inv assms(2)] by (auto simp: choose_pool_None)
  then obtain q where "choose_pool c p = Some q" by auto
  then show ?thesis
    using assms(2) by (auto simp: acquire_scan_slot_def Let_def nobody_waits_def sem_take_def)
qed

theorem scan_slots_bounded_witness: "length (held burst) \<le> 8"
  using scan_slots_bounded [OF burst_reachable, of SharedPool] by simp

theorem scan_slots_work_conserving_witness:
  "\<exists>q. held (acquire_scan_slot BulkClass (get_pools 8)) = [(next_task (get_pools 8), q)]"
proof -
  have "nobody_waits (get_pools 8)" "held (get_pools 8) = []"
    by (simp_all add: nobody_waits_def get_pools_def new_sem_def Let_def split: prod.splits)
  then show ?thesis
    using scan_slots_work_conserving [of 8 "get_pools 8" BulkClass] by auto
qed

text \<open>
  A request that queues on a pool behind \<open>m\<close> others is woken by the \<open>m + 1\<close>-st release of that
  pool and by no earlier one, and while somebody sleeps on a pool no arriving request of either
  class is given a slot of it.
\<close>

theorem scan_slot_wait_bound:
  assumes "sleeping (pool_sem p q) = before @ i # after" "distinct (before @ i # after)"
  shows "(i \<in> set (sleeping ((sem_release ^^ k) (pool_sem p q))) \<longleftrightarrow> k \<le> length before) \<and>
    (\<forall>c. choose_pool c p \<noteq> Some q)"
proof -
  have "i \<in> set (drop k (before @ i # after)) \<longleftrightarrow> k \<le> length before"
    using assms(2) by (auto dest: in_set_dropD simp: Suc_diff_le drop_Cons' split: if_splits)
  moreover have "sem_locked (pool_sem p q)" using assms(1) by (simp add: asem.locked_iff)
  ultimately show ?thesis
    using choose_pool_Some [of _ p q] by (auto simp: asem.release_n assms(1))
qed

theorem scan_slot_wait_bound_witness:
  "9 \<in> set (sleeping ((sem_release ^^ 1) (pool_sem burst InteractivePool)))"
proof -
  have "sleeping (pool_sem burst InteractivePool) = [8] @ 9 # []" using burst_state by simp
  from scan_slot_wait_bound [OF this, of 1] show ?thesis by simp
qed

end
