(* ===== verification/GatewayHttp.thy ===== *)
theory GatewayHttp imports Json begin

text \<open>
  The HTTP vocabulary of the gateway: \<open>proxy/app/headers.py\<close>, the exceptions handlers raise, the
  body-size middleware (\<open>proxy/app/middleware.py\<close>, and its twin in \<open>governance/app/main.py\<close>), and
  provider routing (\<open>proxy/app/routing.py\<close>).
\<close>

section \<open>Integers as text\<close>

fun digits_of :: "nat \<Rightarrow> string" where
  "digits_of n = (if n < 10 then [char_of (48 + n)] else digits_of (n div 10) @ [char_of (48 + n mod 10)])"

declare digits_of.simps [simp del]

definition py_str_int :: "int \<Rightarrow> string" where
  "py_str_int i = (if i < 0 then ''-'' @ digits_of (nat (- i)) else digits_of (nat i))"

text \<open>\<open>int(s)\<close> on decimal text: surrounding space, a sign, digits with single underscores between them.\<close>

definition digit_value :: "char \<Rightarrow> nat option" where
  "digit_value c = (let n = of_char c :: nat in if 48 \<le> n \<and> n \<le> 57 then Some (n - 48) else None)"

fun read_digits :: "nat \<Rightarrow> string \<Rightarrow> nat option" where
  "read_digits acc [] = Some acc"
| "read_digits acc (c # cs) =
     (if c = CHR ''_'' then
        (case cs of [] \<Rightarrow> None | d # _ \<Rightarrow> (if d = CHR ''_'' then None else read_digits acc cs))
      else (case digit_value c of None \<Rightarrow> None | Some v \<Rightarrow> read_digits (10 * acc + v) cs))"

definition read_nat :: "string \<Rightarrow> nat option" where
  "read_nat s = (case s of [] \<Rightarrow> None | c # _ \<Rightarrow> (if c = CHR ''_'' then None else read_digits 0 s))"

definition py_int :: "string \<Rightarrow> py_error + int" where
  "py_int s =
     (let t = py_strip s;
          (neg, body) = (case t of c # cs \<Rightarrow>
             (if c = CHR ''-'' then (True, cs) else if c = CHR ''+'' then (False, cs) else (False, t))
           | [] \<Rightarrow> (False, []))
      in (case read_nat body of
            None \<Rightarrow> Inl (ValueError ''invalid literal for int() with base 10'')
          | Some n \<Rightarrow> Inr (if neg then - int n else int n)))"

text \<open>\<open>str(v)\<close>, and \<open>v\<close> in an f-string: \<open>fmt\<close> prints what is not a string already.\<close>

definition py_str_json :: "(json \<Rightarrow> string) \<Rightarrow> json \<Rightarrow> string" where
  "py_str_json fmt v = (case v of JStr s \<Rightarrow> s | _ \<Rightarrow> fmt v)"

section \<open>Exceptions and envelopes\<close>

text \<open>\<open>HTTPException\<close>: status, detail, headers. Any other exception ends in a 500 of the framework.\<close>

record http_exception =
  he_status :: nat
  he_detail :: json
  he_headers :: json_object  \<comment> \<open>name to value; the code does not check that a value is text\<close>

datatype gateway_error =
    HttpError http_exception
  | PolicyBlocked http_exception  \<comment> \<open>\<open>_PolicyBlockedError\<close>, a subclass of \<open>HTTPException\<close>\<close>
  | Unhandled py_error

definition error_envelope_full ::
    "string \<Rightarrow> string \<Rightarrow> json list \<Rightarrow> string list \<Rightarrow> string list \<Rightarrow> json_object option \<Rightarrow> json" where
  "error_envelope_full error_type message violations required_roles approved details =
     JObj [(''error'', JObj (
       [(''type'', JStr error_type), (''message'', JStr message), (''violations'', JList violations)] @
       (if required_roles = [] then [] else [(''required_roles'', JList (map JStr required_roles))]) @
       (if approved = [] then []
        else [(''approved_providers_for_classification'', JList (map JStr approved))]) @
       (case details of None \<Rightarrow> [] | Some d \<Rightarrow> [(''details'', JObj d)])))]"

definition error_envelope :: "string \<Rightarrow> string \<Rightarrow> json" where
  "error_envelope t m = error_envelope_full t m [] [] [] None"

definition http_error :: "nat \<Rightarrow> string \<Rightarrow> string \<Rightarrow> gateway_error" where
  "http_error st t m = HttpError \<lparr>he_status = st, he_detail = error_envelope t m, he_headers = []\<rparr>"

definition str_headers :: "string dict \<Rightarrow> json_object" where
  "str_headers h = map (\<lambda>(k, v). (k, JStr v)) h"

definition http_error_with :: "nat \<Rightarrow> json \<Rightarrow> json_object \<Rightarrow> gateway_error" where
  "http_error_with st d h = HttpError \<lparr>he_status = st, he_detail = d, he_headers = h\<rparr>"

fun error_status :: "gateway_error \<Rightarrow> nat" where
  "error_status (HttpError e) = he_status e"
| "error_status (PolicyBlocked e) = he_status e"
| "error_status (Unhandled _) = 500"

definition rate_limit_headers :: "int \<Rightarrow> int \<Rightarrow> string \<Rightarrow> string dict" where
  \<comment> \<open>the last argument is the formatted reset time\<close>
  "rate_limit_headers limit remaining reset_at =
     [(''x-ratelimit-limit-requests'', py_str_int limit),
      (''x-ratelimit-remaining-requests'', py_str_int remaining),
      (''x-ratelimit-reset-requests'', reset_at)]"

definition retry_headers :: "int \<Rightarrow> string dict" where
  "retry_headers retry_after_seconds =
     [(''Retry-After'', py_str_int retry_after_seconds),
      (''retry-after-ms'', py_str_int (retry_after_seconds * 1000))]"

text \<open>\<open>",".join\<close> raises a \<open>TypeError\<close> on an element that is no string.\<close>

definition join_strs :: "string \<Rightarrow> json list \<Rightarrow> py_error + string" where
  "join_strs sep xs =
     (if list_all (\<lambda>x. as_str x \<noteq> None) xs then Inr (py_join sep (map (\<lambda>x. the (as_str x)) xs))
      else Inl TypeError)"

definition pii_headers :: "json list \<Rightarrow> string \<Rightarrow> py_error + string dict" where
  "pii_headers pii_types notification_mode =
     (if notification_mode = ''silent'' then Inr []
      else ebind (join_strs '','' pii_types) (\<lambda>ts.
        Inr [(''x-gateway-pii-redacted'', ''true''), (''x-gateway-pii-types'', ts)]))"

section \<open>The body-size middleware\<close>

definition MAX_BODY_SIZE :: nat where
  "MAX_BODY_SIZE = 1 * 1024 * 1024"

datatype 'b body_verdict = TooLarge | CallNext "'b list"

fun read_body :: "nat \<Rightarrow> 'b list \<Rightarrow> 'b list list \<Rightarrow> 'b body_verdict" where
  "read_body cap body [] = CallNext body"
| "read_body cap body (chunk # rest) =
     (if length (body @ chunk) > cap then TooLarge else read_body cap (body @ chunk) rest)"

definition body_size_dispatch :: "string option \<Rightarrow> 'b list list \<Rightarrow> py_error + 'b body_verdict" where
  "body_size_dispatch content_length chunks =
     (if truthy_str content_length
      then ebind (py_int (the content_length)) (\<lambda>n.
        if n > int MAX_BODY_SIZE then Inr TooLarge else Inr (read_body MAX_BODY_SIZE [] chunks))
      else Inr (read_body MAX_BODY_SIZE [] chunks))"

section \<open>Routing\<close>

definition PREFIX_MAP :: "(string \<times> string) list" where
  "PREFIX_MAP =
     [(''gpt-'', ''openai''), (''o1-'', ''openai''), (''o3-'', ''openai''), (''o4-'', ''openai''),
      (''claude-'', ''anthropic''), (''gemini-'', ''gemini''), (''llama-'', ''ollama''),
      (''mistral-'', ''ollama''), (''phi-'', ''ollama''), (''qwen-'', ''ollama'')]"

definition load_models_yaml :: "json_object \<Rightarrow> json" where
  \<comment> \<open>on the mapping \<open>yaml.safe_load\<close> returns\<close>
  "load_models_yaml data = jget_or data ''models'' (JList [])"

fun route_by_config :: "string \<Rightarrow> json_object list \<Rightarrow> (py_error + json) option" where
  "route_by_config model_id [] = None"
| "route_by_config model_id (entry # rest) =
     (if jget entry ''id'' = JStr model_id
      then Some (case map_of entry ''provider'' of None \<Rightarrow> Inl KeyError | Some v \<Rightarrow> Inr v)
      else route_by_config model_id rest)"

fun route_by_prefix :: "string \<Rightarrow> string \<Rightarrow> (string \<times> string) list \<Rightarrow> string option" where
  "route_by_prefix model_id dflt [] = None"
| "route_by_prefix model_id dflt ((pre, provider) # rest) =
     (if py_startswith model_id pre
      then Some (if provider = ''gemini'' \<and> dflt = ''gemini-vertex'' then dflt else provider)
      else route_by_prefix model_id dflt rest)"

definition requested_override :: "string dict \<Rightarrow> string" where
  "requested_override headers = py_strip (dict_get_or headers ''x-gateway-provider'' [])"

definition override_role :: "string \<Rightarrow> string" where
  "override_role provider = ''gateway:provider_override:'' @ provider"

text \<open>The caller's roles are a JSON value: they come from a token's claims unchecked.\<close>

definition resolve_provider ::
    "string \<Rightarrow> string dict \<Rightarrow> json \<Rightarrow> string \<Rightarrow> json_object list \<Rightarrow> py_error + (json \<times> string)" where
  "resolve_provider model_id request_headers caller_roles dflt models_config =
     (let ovr = requested_override request_headers in
      if ovr \<noteq> [] then
        ebind (py_in (override_role ovr) caller_roles) (\<lambda>has_role.
          if has_role then Inr (JStr ovr, ''header_override'') else Inr (JStr [], ''override_denied''))
      else case route_by_config model_id models_config of
        Some r \<Rightarrow> ebind r (\<lambda>provider. Inr (provider, ''models_yaml''))
      | None \<Rightarrow>
          (case route_by_prefix model_id dflt PREFIX_MAP of
             Some provider \<Rightarrow> Inr (JStr provider, ''prefix_inference'')
           | None \<Rightarrow>
               if dflt \<noteq> [] then Inr (JStr dflt, ''tenant_default'')
               else Inr (JStr [], ''model_not_found'')))"

section \<open>Lemmas\<close>

lemma read_body_iff:
  "length body \<le> cap \<Longrightarrow>
   read_body cap body chunks =
     (if length (body @ concat chunks) \<le> cap then CallNext (body @ concat chunks) else TooLarge)"
  by (induction cap body chunks rule: read_body.induct) auto

lemma body_size_dispatch_eq:
  "body_size_dispatch content_length chunks =
     ebind (if truthy_str content_length then py_int (the content_length) else Inr 0) (\<lambda>n.
       Inr (if n \<le> int MAX_BODY_SIZE \<and> length (concat chunks) \<le> MAX_BODY_SIZE
            then CallNext (concat chunks) else TooLarge))"
  by (auto simp: body_size_dispatch_def read_body_iff fun_eq_iff MAX_BODY_SIZE_def
      intro!: arg_cong2 [where f = ebind])

lemma route_by_config_None:
  "route_by_config m es = None \<longleftrightarrow> (\<forall>e\<in>set es. jget e ''id'' \<noteq> JStr m)"
  by (induction es) auto

lemma route_by_config_Inr:
  "route_by_config m es = Some (Inr p) \<Longrightarrow>
     \<exists>e\<in>set es. jget e ''id'' = JStr m \<and> map_of e ''provider'' = Some p"
  by (induction es) (auto split: if_splits option.splits)

lemma route_by_prefix_Some:
  "route_by_prefix m d ps = Some p \<Longrightarrow>
     \<exists>(pre, q)\<in>set ps. py_startswith m pre \<and> (p = q \<or> p = d \<and> q = ''gemini'' \<and> d = ''gemini-vertex'')"
  by (induction m d ps rule: route_by_prefix.induct) (auto split: if_splits)

lemma resolve_provider_method:
  "resolve_provider m h r d es = Inr (p, meth) \<Longrightarrow>
     meth \<in> {''header_override'', ''override_denied'', ''models_yaml'', ''prefix_inference'',
            ''tenant_default'', ''model_not_found''}"
  by (auto simp: resolve_provider_def Let_def ebind_eq_Inr split: if_splits option.splits)

lemma override_needs_role:
  "resolve_provider m h r d es = Inr (p, ''header_override'') \<longleftrightarrow>
     requested_override h \<noteq> [] \<and> py_in (override_role (requested_override h)) r = Inr True \<and>
     p = JStr (requested_override h)"
  by (auto simp: resolve_provider_def Let_def ebind_eq_Inr split: if_splits option.splits)

section \<open>Properties\<close>

text \<open>
  The provider of a request: the override header is honoured exactly for a caller who holds the role
  naming that very provider and is refused otherwise, whatever the model; without the header the
  provider comes from the first entry of the model table with that id, or the model's name prefix, or
  the tenant's default, in this order; and a request is unroutable exactly when none of them applies.
\<close>

theorem resolve_provider_correct:
  "(resolve_provider m h r d es = Inr (p, ''header_override'')) =
     (requested_override h \<noteq> [] \<and> py_in (override_role (requested_override h)) r = Inr True \<and>
      p = JStr (requested_override h)) \<and>
   (resolve_provider m h r d es = Inr (p, ''override_denied'')) =
     (requested_override h \<noteq> [] \<and> py_in (override_role (requested_override h)) r = Inr False \<and> p = JStr []) \<and>
   (resolve_provider m h r d es = Inr (p, ''models_yaml'')) =
     (requested_override h = [] \<and> route_by_config m es = Some (Inr p)) \<and>
   (resolve_provider m h r d es = Inr (p, ''prefix_inference'')) =
     (requested_override h = [] \<and> (\<forall>e\<in>set es. jget e ''id'' \<noteq> JStr m) \<and>
      (\<exists>q. route_by_prefix m d PREFIX_MAP = Some q \<and> p = JStr q)) \<and>
   (resolve_provider m h r d es = Inr (p, ''model_not_found'')) =
     (requested_override h = [] \<and> (\<forall>e\<in>set es. jget e ''id'' \<noteq> JStr m) \<and>
      route_by_prefix m d PREFIX_MAP = None \<and> d = [] \<and> p = JStr [])"
  using override_needs_role [of m h r d es p]
  by (auto simp: resolve_provider_def Let_def ebind_eq_Inr route_by_config_None [symmetric]
      split: if_splits option.splits sum.splits)

theorem resolve_provider_correct_witness:
  "resolve_provider ''gpt-4o'' [(''x-gateway-provider'', '' ollama '')]
     (JList [JStr ''gateway:provider_override:ollama'']) [] [] = Inr (JStr ''ollama'', ''header_override'')"
  using resolve_provider_correct [of "''gpt-4o''" "[(''x-gateway-provider'', '' ollama '')]"
      "JList [JStr ''gateway:provider_override:ollama'']" "[]" "[]" "JStr ''ollama''"]
  by (simp add: requested_override_def override_role_def dict_get_or_def py_strip_def py_is_space_def)

end
