(* ===== verification/Usage.thy ===== *)
theory Usage imports Utf8 Json begin

text \<open>
  Usage accounting of the gateway: \<open>proxy/app/providers/usage.py\<close> (token counts of a response),
  \<open>stream_usage.py\<close> (the same for a stream, watched while it is passed on), and \<open>usage_log.py\<close>
  (pricing and the usage row). Decoding an event's bytes into lines
  (\<open>decode("utf-8", errors="replace").splitlines()\<close>) and \<open>json.loads\<close> are parameters.
\<close>

section \<open>Token counts\<close>

record usage_metrics =
  prompt_tokens :: int
  completion_tokens :: int
  total_tokens :: int

definition usage_zero :: usage_metrics where
  "usage_zero = \<lparr>prompt_tokens = 0, completion_tokens = 0, total_tokens = 0\<rparr>"

definition usage_object :: "json \<Rightarrow> json_object" where
  "usage_object v = (case v of JObj d \<Rightarrow> d | _ \<Rightarrow> [])"

definition token_count :: "json \<Rightarrow> int" where
  "token_count v = (case v of JInt i \<Rightarrow> i | _ \<Rightarrow> 0)"

definition extract_usage :: "string \<Rightarrow> json \<Rightarrow> usage_metrics" where
  "extract_usage provider response_json =
     (case response_json of
        JObj r \<Rightarrow>
          (if provider \<in> {''openai'', ''ollama'', ''generic''} then
             let usage = usage_object (jget r ''usage'');
                 prompt = token_count (jget_or usage ''prompt_tokens'' (jget_or usage ''input_tokens'' (JInt 0)));
                 completion = token_count (jget_or usage ''completion_tokens'' (jget_or usage ''output_tokens'' (JInt 0)));
                 reported = token_count (jget_or usage ''total_tokens'' (JInt 0))
             in \<lparr>prompt_tokens = prompt, completion_tokens = completion,
                 total_tokens = max reported (prompt + completion)\<rparr>
           else if provider = ''anthropic'' then
             let usage = usage_object (jget r ''usage'');
                 prompt = token_count (jget_or usage ''input_tokens'' (JInt 0));
                 completion = token_count (jget_or usage ''output_tokens'' (JInt 0))
             in \<lparr>prompt_tokens = prompt, completion_tokens = completion, total_tokens = prompt + completion\<rparr>
           else if provider = ''gemini'' then
             let usage = usage_object (jget r ''usageMetadata'');
                 prompt = token_count (jget_or usage ''promptTokenCount'' (JInt 0));
                 completion = token_count (jget_or usage ''candidatesTokenCount'' (JInt 0));
                 reported = token_count (jget_or usage ''totalTokenCount'' (JInt 0))
             in \<lparr>prompt_tokens = prompt, completion_tokens = completion,
                 total_tokens = max reported (prompt + completion)\<rparr>
           else usage_zero)
      | _ \<Rightarrow> usage_zero)"

section \<open>Streams\<close>

datatype wire_protocol = OpenaiChat | OpenaiResponses | AnthropicMessages

datatype load_result =
    Loaded json
  | Malformed       \<comment> \<open>\<open>json.JSONDecodeError\<close>\<close>
  | LoadRaises      \<comment> \<open>any other exception\<close>

record sse_lib =
  event_lines :: "bytes \<Rightarrow> string list"
  json_loads :: "string \<Rightarrow> load_result"

record usage_state =
  us_prompt :: int
  us_completion :: int

definition to_usage :: "usage_state \<Rightarrow> usage_metrics" where
  "to_usage s = \<lparr>prompt_tokens = us_prompt s, completion_tokens = us_completion s,
                 total_tokens = us_prompt s + us_completion s\<rparr>"

definition apply_event :: "wire_protocol \<Rightarrow> string \<Rightarrow> json_object \<Rightarrow> usage_state \<Rightarrow> usage_state" where
  "apply_event protocol provider event s =
     (case protocol of
        AnthropicMessages \<Rightarrow>
          (if jget event ''type'' = JStr ''message_start'' then
             (case jget (as_obj (jget event ''message'')) ''usage'' of
                JObj u \<Rightarrow> s\<lparr>us_prompt := token_count (jget u ''input_tokens'')\<rparr>
              | _ \<Rightarrow> s)
           else if jget event ''type'' = JStr ''message_delta'' then
             (case jget event ''usage'' of
                JObj u \<Rightarrow> s\<lparr>us_completion := token_count (jget u ''output_tokens'')\<rparr>
              | _ \<Rightarrow> s)
           else s)
      | OpenaiResponses \<Rightarrow>
          (case jget (as_obj (jget event ''response'')) ''usage'' of
             JObj u \<Rightarrow>
               (let e = extract_usage ''openai'' (JObj [(''usage'', JObj u)]) in
                \<lparr>us_prompt = prompt_tokens e, us_completion = completion_tokens e\<rparr>)
           | _ \<Rightarrow> s)
      | OpenaiChat \<Rightarrow>
          (case jget event ''usage'' of
             JObj u \<Rightarrow>
               (let e = extract_usage provider (JObj event) in
                \<lparr>us_prompt = prompt_tokens e, us_completion = completion_tokens e\<rparr>)
           | _ \<Rightarrow> s))"

text \<open>The first blank line of the buffer: \<open>buffer.split(b"\<newline>\<newline>", 1)\<close> when there is one.\<close>

fun split_blank :: "bytes \<Rightarrow> (bytes \<times> bytes) option" where
  "split_blank [] = None"
| "split_blank [b] = None"
| "split_blank (b # c # r) =
     (if b = 10 \<and> c = 10 then Some ([], r)
      else map_option (\<lambda>(e, rest). (b # e, rest)) (split_blank (c # r)))"

text \<open>
  The lines of one event. An exception other than a decoding error of the JSON leaves the loop; the
  flag tells the caller, which drops the rest of the event and stops looking for more in this chunk.
\<close>

fun apply_lines ::
    "sse_lib \<Rightarrow> wire_protocol \<Rightarrow> string \<Rightarrow> string list \<Rightarrow> usage_state \<Rightarrow> usage_state \<times> bool" where
  "apply_lines lib protocol provider [] s = (s, False)"
| "apply_lines lib protocol provider (line # lines) s =
     (if \<not> py_startswith line ''data:'' then apply_lines lib protocol provider lines s
      else
        let data_str = py_strip (drop 5 line) in
        if data_str = [] \<or> data_str = ''[DONE]'' then apply_lines lib protocol provider lines s
        else (case json_loads lib data_str of
                LoadRaises \<Rightarrow> (s, True)
              | Loaded (JObj event) \<Rightarrow>
                  apply_lines lib protocol provider lines (apply_event protocol provider event s)
              | _ \<Rightarrow> apply_lines lib protocol provider lines s))"

lemma split_blank_length: "split_blank b = Some (e, r) \<Longrightarrow> length r < length b"
  by (induction b arbitrary: e rule: split_blank.induct) (auto split: if_splits)

function drain ::
    "sse_lib \<Rightarrow> wire_protocol \<Rightarrow> string \<Rightarrow> usage_state \<Rightarrow> bytes \<Rightarrow> usage_state \<times> bytes" where
  "drain lib protocol provider s buffer =
     (case split_blank buffer of
        None \<Rightarrow> (s, buffer)
      | Some (event_bytes, rest) \<Rightarrow>
          (case apply_lines lib protocol provider (event_lines lib event_bytes) s of
             (s', True) \<Rightarrow> (s', rest)
           | (s', False) \<Rightarrow> drain lib protocol provider s' rest))"
  by pat_completeness auto
termination
  by (relation "measure (\<lambda>(l, p, q, s, b). length b)") (auto dest: split_blank_length)

declare drain.simps [simp del]

datatype stream_chunk = TextChunk utext | BytesChunk bytes

text \<open>A text chunk with a surrogate cannot be encoded: the chunk is passed on but not examined.\<close>

definition absorb_chunk ::
    "sse_lib \<Rightarrow> wire_protocol \<Rightarrow> string \<Rightarrow> usage_state \<times> bytes \<Rightarrow> stream_chunk \<Rightarrow> usage_state \<times> bytes" where
  "absorb_chunk lib protocol provider sb chunk =
     (let (s, buffer) = sb in
      case (case chunk of TextChunk t \<Rightarrow> utf8_encode t | BytesChunk b \<Rightarrow> Some b) of
        None \<Rightarrow> (s, buffer)
      | Some b \<Rightarrow> drain lib protocol provider s (buffer @ b))"

text \<open>
  \<open>capture_stream_usage\<close>: the chunks the client receives and the single argument of
  \<open>on_complete\<close>, which the \<open>finally\<close> clause calls however the stream ends, the client
  closing it after any chunk included.
\<close>

definition capture_stream_usage ::
    "sse_lib \<Rightarrow> wire_protocol \<Rightarrow> string \<Rightarrow> stream_chunk list \<Rightarrow> stream_chunk list \<times> usage_metrics" where
  "capture_stream_usage lib protocol provider chunks =
     (chunks, to_usage (fst (fold (\<lambda>c sb. absorb_chunk lib protocol provider sb c) chunks
                                  (\<lparr>us_prompt = 0, us_completion = 0\<rparr>, []))))"

section \<open>Pricing and the usage row\<close>

record pricing_row =
  pr_model_id :: string
  pr_input_rate :: rat
  pr_output_rate :: rat
  pr_effective_from :: int  \<comment> \<open>a date, as a day number\<close>

text \<open>\<open>ORDER BY effective_from DESC LIMIT 1\<close>; \<open>(model_id, effective_from)\<close> is unique.\<close>

fun latest_price :: "pricing_row list \<Rightarrow> pricing_row option" where
  "latest_price [] = None"
| "latest_price (p # ps) =
     (case latest_price ps of
        None \<Rightarrow> Some p
      | Some q \<Rightarrow> if pr_effective_from q < pr_effective_from p then Some p else Some q)"

definition resolve_cost :: "pricing_row list \<Rightarrow> string \<Rightarrow> usage_metrics \<Rightarrow> int \<Rightarrow> rat option" where
  "resolve_cost pricing model_id usage day =
     (case latest_price (filter (\<lambda>p. pr_model_id p = model_id \<and> pr_effective_from p \<le> day) pricing) of
        None \<Rightarrow> None
      | Some p \<Rightarrow> Some (pr_input_rate p * of_int (prompt_tokens usage) +
                         pr_output_rate p * of_int (completion_tokens usage)))"

record usage_row =
  ur_day :: int
  ur_tenant_id :: json
  ur_api_key_prefix :: string
  ur_user_id :: json
  ur_model_id :: string
  ur_status :: string
  ur_usage :: usage_metrics
  ur_cost_usd :: "rat option"
  ur_latency_ms :: int

text \<open>
  \<open>write_usage_log\<close>: one row, or none when the insert fails (\<open>ok\<close> tells); it never raises. The
  column check on the status is part of the insert.
\<close>

definition write_usage_log :: "bool \<Rightarrow> string option \<Rightarrow> usage_row \<Rightarrow> usage_row list \<Rightarrow> usage_row list" where
  "write_usage_log ok api_key_prefix row rows =
     (if ok \<and> ur_status row \<in> {''allowed'', ''blocked'', ''errored''}
      then rows @ [row\<lparr>ur_api_key_prefix := (case api_key_prefix of None \<Rightarrow> [] | Some p \<Rightarrow> p)\<rparr>]
      else rows)"

section \<open>Lemmas\<close>

lemma split_blank_append:
  "split_blank b = Some (e, r) \<Longrightarrow> split_blank (b @ c) = Some (e, r @ c)"
  by (induction b arbitrary: e rule: split_blank.induct) (auto split: if_splits)

lemma startswith_data: "py_startswith (CHR ''d'' # CHR ''a'' # CHR ''t'' # CHR ''a'' # CHR '':'' # s) ''data:''"
  by (simp add: py_startswith_def)

lemma apply_lines_no_raise:
  "(\<And>d. json_loads lib d \<noteq> LoadRaises) \<Longrightarrow> \<not> snd (apply_lines lib p q ls s)"
  by (induction lib p q ls s rule: apply_lines.induct) (auto simp: Let_def split: load_result.splits json.splits)

text \<open>Draining a buffer that grows later is draining what is there first.\<close>

lemma drain_append:
  assumes "\<And>d. json_loads lib d \<noteq> LoadRaises"
  shows "drain lib p q s (b @ c) =
    (case drain lib p q s b of (s', r) \<Rightarrow> drain lib p q s' (r @ c))"
  using assms
proof (induction lib p q s b rule: drain.induct)
  case (1 lib p q s b)
  show ?case
  proof (cases "split_blank b")
    case None
    then show ?thesis by (simp add: drain.simps [of lib p q s b])
  next
    case (Some er)
    then obtain e r where er: "split_blank b = Some (e, r)" by (cases er) auto
    obtain s' where s': "apply_lines lib p q (event_lines lib e) s = (s', False)"
      using apply_lines_no_raise [of lib p q "event_lines lib e" s] 1(2) by (metis (full_types) prod.collapse)
    show ?thesis
      using 1(1) [OF er refl s' [symmetric] refl 1(2)]
      by (simp add: drain.simps [of lib p q s b] drain.simps [of lib p q s "b @ c"] er
          split_blank_append [OF er] s')
  qed
qed

lemma drain_rest:
  assumes "\<And>d. json_loads lib d \<noteq> LoadRaises"
  shows "split_blank (snd (drain lib p q s b)) = None"
  using assms
proof (induction lib p q s b rule: drain.induct)
  case (1 lib p q s b)
  show ?case
  proof (cases "split_blank b")
    case None
    then show ?thesis by (simp add: drain.simps [of lib p q s b])
  next
    case (Some er)
    then obtain e r where er: "split_blank b = Some (e, r)" by (cases er) auto
    obtain s' where s': "apply_lines lib p q (event_lines lib e) s = (s', False)"
      using apply_lines_no_raise [of lib p q "event_lines lib e" s] 1(2) by (metis (full_types) prod.collapse)
    show ?thesis
      using 1(1) [OF er refl s' [symmetric] refl 1(2)]
      by (simp add: drain.simps [of lib p q s b] er s')
  qed
qed

definition chunk_bytes :: "stream_chunk \<Rightarrow> bytes" where
  "chunk_bytes c = (case c of BytesChunk b \<Rightarrow> b | TextChunk t \<Rightarrow> (case utf8_encode t of None \<Rightarrow> [] | Some b \<Rightarrow> b))"

lemma absorb_chunk_eq:
  assumes "\<And>d. json_loads lib d \<noteq> LoadRaises" "split_blank buf = None"
  shows "absorb_chunk lib p q (s, buf) c = drain lib p q s (buf @ chunk_bytes c)"
  using assms(2)
  by (auto simp: absorb_chunk_def chunk_bytes_def drain.simps [of lib p q s buf]
      split: stream_chunk.splits option.splits)

lemma fold_absorb:
  assumes "\<And>d. json_loads lib d \<noteq> LoadRaises"
  shows "split_blank buf = None \<Longrightarrow>
    fold (\<lambda>c sb. absorb_chunk lib p q sb c) chunks (s, buf) =
      drain lib p q s (buf @ concat (map chunk_bytes chunks))"
proof (induction chunks arbitrary: s buf)
  case Nil
  then show ?case by (simp add: drain.simps [of lib p q s buf])
next
  case (Cons c cs)
  obtain s' r where d: "drain lib p q s (buf @ chunk_bytes c) = (s', r)" by force
  then have "split_blank r = None" using drain_rest [OF assms, of p q s "buf @ chunk_bytes c"] by simp
  then have "fold (\<lambda>c sb. absorb_chunk lib p q sb c) (c # cs) (s, buf) =
      drain lib p q s' (r @ concat (map chunk_bytes cs))"
    using absorb_chunk_eq [OF assms Cons.prems] Cons.IH [of r s'] by (simp add: d)
  also have "\<dots> = drain lib p q s ((buf @ chunk_bytes c) @ concat (map chunk_bytes cs))"
    by (subst drain_append [OF assms]) (simp add: d)
  finally show ?case by simp
qed

lemma capture_stream_usage_eq:
  assumes "\<And>d. json_loads lib d \<noteq> LoadRaises"
  shows "capture_stream_usage lib p q chunks =
    (chunks, to_usage (fst (drain lib p q \<lparr>us_prompt = 0, us_completion = 0\<rparr> (concat (map chunk_bytes chunks)))))"
  using fold_absorb [OF assms, of "[]"] by (simp add: capture_stream_usage_def)

lemma split_blank_None: "split_blank b = None \<longleftrightarrow> \<not> (\<exists>x y. b = x @ [10, 10] @ y)"
proof (induction b rule: split_blank.induct)
  case (3 b c r)
  show ?case
  proof (cases "b = 10 \<and> c = 10")
    case True
    then show ?thesis by (auto intro: exI [of _ "[]"])
  next
    case False
    have "(\<exists>x y. b # c # r = x @ [10, 10] @ y) \<longleftrightarrow> (\<exists>x y. c # r = x @ [10, 10] @ y)" (is "?l = ?r")
    proof
      assume ?l
      then obtain x y where xy: "b # c # r = x @ [10, 10] @ y" by blast
      then show ?r using False by (cases x) auto
    next
      assume ?r
      then show ?l by (metis append_Cons)
    qed
    moreover have "split_blank (b # c # r) = None \<longleftrightarrow> split_blank (c # r) = None"
      using False by auto
    ultimately show ?thesis using 3 [OF False] by (simp only:)
  qed
qed (auto simp: append_eq_Cons_conv Cons_eq_append_conv)

lemma latest_price_max:
  "latest_price ps = Some p \<Longrightarrow> p \<in> set ps \<and> (\<forall>q\<in>set ps. pr_effective_from q \<le> pr_effective_from p)"
proof (induction ps arbitrary: p)
  case (Cons a ps)
  show ?case
  proof (cases "latest_price ps")
    case None
    then show ?thesis using Cons.prems by (cases ps) (auto split: option.splits if_splits)
  next
    case (Some q)
    then show ?thesis using Cons.IH [OF Some] Cons.prems by (fastforce split: if_splits)
  qed
qed simp

lemma latest_price_None: "latest_price ps = None \<longleftrightarrow> ps = []"
  by (cases ps) (auto split: option.splits)

lemma latest_price_filter_in:
  "latest_price (filter P ps) = Some p \<Longrightarrow> p \<in> set ps \<and> P p"
  using latest_price_max [of "filter P ps" p] by simp

section \<open>Properties\<close>

text \<open>
  Usage capture does not depend on how the provider's bytes are cut into chunks, nor on whether a
  chunk is text or bytes, and it passes the chunks on unchanged (\<open>json.loads\<close> raising nothing but
  decoding errors).
\<close>

theorem stream_usage_chunking:
  assumes "\<And>d. json_loads lib d \<noteq> LoadRaises"
    and "concat (map chunk_bytes chunks) = concat (map chunk_bytes chunks')"
  shows "snd (capture_stream_usage lib p q chunks) = snd (capture_stream_usage lib p q chunks') \<and>
    fst (capture_stream_usage lib p q chunks) = chunks"
  by (simp add: capture_stream_usage_eq [OF assms(1)] assms(2))

text \<open>
  A stream whose bytes contain no two adjacent line feeds, as one whose lines end in carriage return
  and line feed, is recorded as having used no tokens at all, whatever usage its events report.
\<close>

theorem stream_usage_needs_bare_newlines:
  assumes "\<And>x y. concat (map chunk_bytes chunks) \<noteq> x @ [10, 10] @ y"
    and "\<And>d. json_loads lib d \<noteq> LoadRaises"
  shows "snd (capture_stream_usage lib p q chunks) = usage_zero"
proof -
  have "split_blank (concat (map chunk_bytes chunks)) = None" using assms(1) by (simp add: split_blank_None)
  then show ?thesis
    by (simp add: capture_stream_usage_eq [OF assms(2)] drain.simps to_usage_def usage_zero_def)
qed

text \<open>
  A recorded cost is final: it is computed from the price in force on the day of the request, the
  newest one not after it, and a price added later for a later day does not change it.
\<close>

theorem resolve_cost_historical:
  assumes "day < pr_effective_from new"
  shows "resolve_cost (xs @ new # ys) m u day = resolve_cost (xs @ ys) m u day \<and>
    (resolve_cost ps m u day = None \<longleftrightarrow> \<not> (\<exists>p\<in>set ps. pr_model_id p = m \<and> pr_effective_from p \<le> day)) \<and>
    (\<forall>c. resolve_cost ps m u day = Some c \<longrightarrow>
       (\<exists>p\<in>set ps. pr_model_id p = m \<and> pr_effective_from p \<le> day \<and>
          (\<forall>q\<in>set ps. pr_model_id q = m \<and> pr_effective_from q \<le> day \<longrightarrow>
             pr_effective_from q \<le> pr_effective_from p) \<and>
          c = pr_input_rate p * of_int (prompt_tokens u) + pr_output_rate p * of_int (completion_tokens u)))"
proof (intro conjI allI impI)
  show "resolve_cost (xs @ new # ys) m u day = resolve_cost (xs @ ys) m u day"
    using assms by (simp add: resolve_cost_def)
  show "(resolve_cost ps m u day = None) = (\<not> (\<exists>p\<in>set ps. pr_model_id p = m \<and> pr_effective_from p \<le> day))"
    by (auto simp: resolve_cost_def latest_price_None filter_empty_conv split: option.splits
        dest: latest_price_filter_in)
next
  fix c
  let ?P = "\<lambda>p. pr_model_id p = m \<and> pr_effective_from p \<le> day"
  assume "resolve_cost ps m u day = Some c"
  then obtain p where p: "latest_price (filter ?P ps) = Some p"
    "c = pr_input_rate p * of_int (prompt_tokens u) + pr_output_rate p * of_int (completion_tokens u)"
    by (auto simp: resolve_cost_def split: option.splits)
  show "\<exists>p\<in>set ps. pr_model_id p = m \<and> pr_effective_from p \<le> day \<and>
      (\<forall>q\<in>set ps. pr_model_id q = m \<and> pr_effective_from q \<le> day \<longrightarrow> pr_effective_from q \<le> pr_effective_from p) \<and>
      c = pr_input_rate p * of_int (prompt_tokens u) + pr_output_rate p * of_int (completion_tokens u)"
    using latest_price_max [OF p(1)] p(2) by auto
qed

section \<open>Witnesses\<close>

definition wit_sse :: sse_lib where
  "wit_sse = \<lparr>event_lines = (\<lambda>b. [''data:u'']),
              json_loads = (\<lambda>d. if d = ''u'' then Loaded (JObj [(''usage'', JObj [(''prompt_tokens'', JInt 7)])])
                                else Malformed)\<rparr>"

lemma wit_sse_loads: "json_loads wit_sse d \<noteq> LoadRaises"
  by (simp add: wit_sse_def)

theorem stream_usage_chunking_witness:
  "snd (capture_stream_usage wit_sse OpenaiChat ''openai'' [BytesChunk [120, 10], TextChunk [10]]) =
   snd (capture_stream_usage wit_sse OpenaiChat ''openai'' [BytesChunk [120, 10, 10]]) \<and>
   prompt_tokens (snd (capture_stream_usage wit_sse OpenaiChat ''openai'' [BytesChunk [120, 10, 10]])) = 7"
proof -
  have "concat (map chunk_bytes [BytesChunk [120, 10], TextChunk [10]]) =
      concat (map chunk_bytes [BytesChunk [120, 10, 10]])"
    by (simp add: chunk_bytes_def utf8_encode_def utf8_bytes_def utf8_char_def scalar_value_def is_surrogate_def)
  from stream_usage_chunking [of wit_sse, OF wit_sse_loads this, of OpenaiChat "''openai''"]
  show ?thesis
    by (simp add: capture_stream_usage_def absorb_chunk_def drain.simps wit_sse_def startswith_data
        py_strip_def py_is_space_def apply_event_def extract_usage_def usage_object_def token_count_def
        jget_def jget_or_def dict_get_or_def to_usage_def)
qed

theorem stream_usage_needs_bare_newlines_witness:
  "snd (capture_stream_usage wit_sse OpenaiChat ''openai'' [BytesChunk [120, 13, 10, 13, 10]]) = usage_zero"
proof (rule stream_usage_needs_bare_newlines)
  show "concat (map chunk_bytes [BytesChunk [120, 13, 10, 13, 10]]) \<noteq> x @ [10, 10] @ y" for x y
    using split_blank_None [of "[120, 13, 10, 13, 10]"] by (auto simp: chunk_bytes_def)
qed (rule wit_sse_loads)

theorem resolve_cost_historical_witness:
  "resolve_cost ([] @ \<lparr>pr_model_id = ''m'', pr_input_rate = 9, pr_output_rate = 9, pr_effective_from = 20\<rparr> #
      [\<lparr>pr_model_id = ''m'', pr_input_rate = 1, pr_output_rate = 2, pr_effective_from = 5\<rparr>])
     ''m'' \<lparr>prompt_tokens = 3, completion_tokens = 4, total_tokens = 7\<rparr> 10 = Some 11"
  using resolve_cost_historical [of 10 "\<lparr>pr_model_id = ''m'', pr_input_rate = 9, pr_output_rate = 9, pr_effective_from = 20\<rparr>"
      "[]" "[\<lparr>pr_model_id = ''m'', pr_input_rate = 1, pr_output_rate = 2, pr_effective_from = 5\<rparr>]" "''m''"
      "\<lparr>prompt_tokens = 3, completion_tokens = 4, total_tokens = 7\<rparr>"]
  by (simp add: resolve_cost_def)

end
