(* ===== verification/Dto.thy ===== *)
theory Dto imports Json begin

text \<open>
  The conventions of the typed request models (\<open>pydantic\<close> classes with \<open>extra="forbid"\<close>)
  shared by the payload theories. A model is a record or a datatype with the class's fields; a field with
  default \<open>None\<close> is a \<open>field\<close>, which keeps apart the three things \<open>model_dump\<close> keeps apart:
  not in \<open>model_fields_set\<close>, given as \<open>null\<close>, given with a value. A \<open>Literal\<close> is the
  string of the wire format, its admissible values are part of the model's validity predicate.
  Validation itself (JSON to model) is the library's and is not modelled; dumping is.
\<close>

datatype 'a field = Unset | Null | Val 'a

fun fval :: "'a field \<Rightarrow> 'a option" where
  "fval (Val v) = Some v"
| "fval _ = None"

definition all_field :: "('a \<Rightarrow> bool) \<Rightarrow> 'a field \<Rightarrow> bool" where
  "all_field P f = (case fval f of None \<Rightarrow> True | Some v \<Rightarrow> P v)"

text \<open>One entry of \<open>model_dump(exclude_unset=True)\<close> and of \<open>model_dump(exclude_none=True)\<close>.\<close>

fun dump_set :: "string \<Rightarrow> ('a \<Rightarrow> json) \<Rightarrow> 'a field \<Rightarrow> json_object" where
  "dump_set k enc Unset = []"
| "dump_set k enc Null = [(k, JNull)]"
| "dump_set k enc (Val v) = [(k, enc v)]"

fun dump_some :: "string \<Rightarrow> ('a \<Rightarrow> json) \<Rightarrow> 'a field \<Rightarrow> json_object" where
  "dump_some k enc (Val v) = [(k, enc v)]"
| "dump_some k enc _ = []"

definition jstrs :: "string list \<Rightarrow> json" where
  "jstrs ss = JList (map JStr ss)"

section \<open>Lemmas\<close>

lemma fval_eq_Some: "fval f = Some v \<longleftrightarrow> f = Val v"
  by (cases f) auto

lemma keys_dump_set: "fst ` set (dump_set k enc f) = (if f = Unset then {} else {k})"
  by (cases f) auto

lemma keys_dump_some: "fst ` set (dump_some k enc f) = (if fval f = None then {} else {k})"
  by (cases f) auto

lemma map_of_dump_set:
  "map_of (dump_set k enc f) k' =
     (if k' = k then (case f of Unset \<Rightarrow> None | Null \<Rightarrow> Some JNull | Val v \<Rightarrow> Some (enc v)) else None)"
  by (cases f) auto

lemma map_of_dump_some:
  "map_of (dump_some k enc f) k' = (if k' = k then map_option enc (fval f) else None)"
  by (cases f) auto

end
