(* ===== verification/Difflib.thy ===== *)
theory Difflib imports Prelude begin

text \<open>
  The part of Python's \<open>difflib\<close> the gateway relies on: \<open>SequenceMatcher(None, a, b,
  autojunk=False).get_opcodes()\<close>. A longest match is the longest common block of the two ranges,
  the one that starts earliest in \<open>a\<close> and then earliest in \<open>b\<close>; the blocks found recursively on both
  sides, with adjacent ones merged, give the edit operations. The lemmas show that the operations
  are a contiguous edit script from \<open>a\<close> to \<open>b\<close>.
\<close>

section \<open>Definitions\<close>

fun common_prefix :: "'a list \<Rightarrow> 'a list \<Rightarrow> nat" where
  "common_prefix (x # xs) (y # ys) = (if x = y then Suc (common_prefix xs ys) else 0)"
| "common_prefix _ _ = 0"

type_synonym block = "nat \<times> nat \<times> nat"

fun better :: "'a list \<Rightarrow> 'a list \<Rightarrow> nat \<Rightarrow> nat \<Rightarrow> nat \<times> nat \<Rightarrow> block \<Rightarrow> block" where
  "better a b ahi bhi (i, j) (bi, bj, bk) =
     (let k = common_prefix (slice i ahi a) (slice j bhi b) in if k > bk then (i, j, k) else (bi, bj, bk))"

definition find_longest_match :: "'a list \<Rightarrow> 'a list \<Rightarrow> nat \<Rightarrow> nat \<Rightarrow> nat \<Rightarrow> nat \<Rightarrow> block" where
  "find_longest_match a b alo ahi blo bhi =
     fold (better a b ahi bhi) (List.product [alo..<ahi] [blo..<bhi]) (alo, blo, 0)"

definition block_in :: "'a list \<Rightarrow> 'a list \<Rightarrow> nat \<Rightarrow> nat \<Rightarrow> nat \<Rightarrow> nat \<Rightarrow> block \<Rightarrow> bool" where
  "block_in a b alo ahi blo bhi blk \<longleftrightarrow>
     (case blk of (i, j, k) \<Rightarrow>
        0 < k \<longrightarrow> alo \<le> i \<and> i + k \<le> ahi \<and> blo \<le> j \<and> j + k \<le> bhi \<and>
          i + k \<le> length a \<and> j + k \<le> length b \<and> slice i (i + k) a = slice j (j + k) b)"

lemma common_prefix_take:
  "common_prefix xs ys \<le> length xs \<and> common_prefix xs ys \<le> length ys \<and>
   take (common_prefix xs ys) xs = take (common_prefix xs ys) ys"
  by (induction xs ys rule: common_prefix.induct) auto

lemma block_in_better:
  assumes "alo \<le> i" "i < ahi" "blo \<le> j" "j < bhi" "block_in a b alo ahi blo bhi blk"
  shows "block_in a b alo ahi blo bhi (better a b ahi bhi (i, j) blk)"
proof -
  let ?k = "common_prefix (slice i ahi a) (slice j bhi b)"
  have k: "?k \<le> length (slice i ahi a)" "?k \<le> length (slice j bhi b)"
    "take ?k (slice i ahi a) = take ?k (slice j bhi b)"
    using common_prefix_take by blast+
  have "i + ?k \<le> ahi" "j + ?k \<le> bhi" using k assms by (auto simp: slice_def)
  moreover have "0 < ?k \<Longrightarrow> i + ?k \<le> length a \<and> j + ?k \<le> length b"
    using k by (auto simp: slice_def)
  ultimately have "block_in a b alo ahi blo bhi (i, j, ?k)"
    using assms k(3) by (simp add: block_in_def slice_slice)
  then show ?thesis using assms(5) by (cases blk) (simp add: Let_def)
qed

lemma find_longest_match_in:
  "block_in a b alo ahi blo bhi (find_longest_match a b alo ahi blo bhi)"
proof -
  have "block_in a b alo ahi blo bhi (fold (better a b ahi bhi) ps blk)"
    if "\<forall>(i, j)\<in>set ps. alo \<le> i \<and> i < ahi \<and> blo \<le> j \<and> j < bhi" "block_in a b alo ahi blo bhi blk" for ps blk
    using that
  proof (induction ps arbitrary: blk)
    case (Cons p ps)
    obtain i j where "p = (i, j)" by force
    then show ?case using Cons.prems block_in_better [of alo i ahi blo j bhi a b blk]
      by (simp del: better.simps) (rule Cons.IH; simp)
  qed simp
  then show ?thesis unfolding find_longest_match_def by (auto simp: block_in_def)
qed

lemma match_progress:
  "(i, j, k) = find_longest_match a b alo ahi blo bhi \<Longrightarrow> k \<noteq> 0 \<Longrightarrow> alo \<le> i \<and> i < ahi \<and> ahi - (i + k) < ahi - alo"
  using find_longest_match_in [of a b alo ahi blo bhi] by (auto simp: block_in_def)

function matching_blocks_rec :: "'a list \<Rightarrow> 'a list \<Rightarrow> nat \<Rightarrow> nat \<Rightarrow> nat \<Rightarrow> nat \<Rightarrow> block list" where
  "matching_blocks_rec a b alo ahi blo bhi =
     (case find_longest_match a b alo ahi blo bhi of (i, j, k) \<Rightarrow>
        if k = 0 then []
        else matching_blocks_rec a b alo i blo j @ [(i, j, k)] @ matching_blocks_rec a b (i + k) ahi (j + k) bhi)"
  by pat_completeness auto

termination matching_blocks_rec
proof (relation "measure (\<lambda>(a, b, alo, ahi, blo, bhi). ahi - alo)", goal_cases)
  case 2
  then show ?case using match_progress by fastforce
next
  case 3
  then show ?case using match_progress by fastforce
qed simp

declare matching_blocks_rec.simps [simp del]

fun merge_blocks :: "block list \<Rightarrow> block list" where
  "merge_blocks ((i1, j1, k1) # (i2, j2, k2) # bs) =
     (if i1 + k1 = i2 \<and> j1 + k1 = j2 then merge_blocks ((i1, j1, k1 + k2) # bs)
      else (i1, j1, k1) # merge_blocks ((i2, j2, k2) # bs))"
| "merge_blocks bs = bs"

datatype op_tag = Equal | Replace | Delete | Insert

type_synonym opcode = "op_tag \<times> nat \<times> nat \<times> nat \<times> nat"

definition gap_op :: "nat \<Rightarrow> nat \<Rightarrow> nat \<Rightarrow> nat \<Rightarrow> opcode list" where
  "gap_op i ai j bj =
     (if i < ai \<and> j < bj then [(Replace, i, ai, j, bj)]
      else if i < ai then [(Delete, i, ai, j, bj)]
      else if j < bj then [(Insert, i, ai, j, bj)] else [])"

fun opcodes_from :: "nat \<Rightarrow> nat \<Rightarrow> block list \<Rightarrow> opcode list" where
  "opcodes_from i j [] = []"
| "opcodes_from i j ((ai, bj, n) # bs) =
     gap_op i ai j bj @ (if n > 0 then [(Equal, ai, ai + n, bj, bj + n)] else []) @
     opcodes_from (ai + n) (bj + n) bs"

definition get_opcodes :: "'a list \<Rightarrow> 'a list \<Rightarrow> opcode list" where
  "get_opcodes a b =
     opcodes_from 0 0
       (merge_blocks (matching_blocks_rec a b 0 (length a) 0 (length b)) @ [(length a, length b, 0)])"

section \<open>Edit scripts\<close>

fun edit_script :: "'a list \<Rightarrow> 'a list \<Rightarrow> nat \<Rightarrow> nat \<Rightarrow> opcode list \<Rightarrow> bool" where
  "edit_script a b i j [] \<longleftrightarrow> i = length a \<and> j = length b"
| "edit_script a b i j ((tag, i1, i2, j1, j2) # ops) \<longleftrightarrow>
     i1 = i \<and> j1 = j \<and> i \<le> i2 \<and> j \<le> j2 \<and> i2 \<le> length a \<and> j2 \<le> length b \<and>
     (tag = Equal \<longrightarrow> i < i2 \<and> slice i i2 a = slice j j2 b) \<and>
     (tag = Replace \<longrightarrow> i < i2 \<and> j < j2) \<and> (tag = Delete \<longrightarrow> i < i2 \<and> j = j2) \<and>
     (tag = Insert \<longrightarrow> i = i2 \<and> j < j2) \<and> edit_script a b i2 j2 ops"

text \<open>Blocks in order between two positions.\<close>

fun chain :: "'a list \<Rightarrow> 'a list \<Rightarrow> nat \<Rightarrow> nat \<Rightarrow> nat \<Rightarrow> nat \<Rightarrow> block list \<Rightarrow> bool" where
  "chain a b i j ahi bhi [] \<longleftrightarrow> i \<le> ahi \<and> j \<le> bhi"
| "chain a b i j ahi bhi ((i1, j1, k) # bs) \<longleftrightarrow>
     i \<le> i1 \<and> j \<le> j1 \<and> i1 + k \<le> length a \<and> j1 + k \<le> length b \<and> 0 < k \<and>
     slice i1 (i1 + k) a = slice j1 (j1 + k) b \<and> chain a b (i1 + k) (j1 + k) ahi bhi bs"

lemma chain_append:
  "chain a b i j m n xs \<Longrightarrow> chain a b m n ahi bhi ys \<Longrightarrow> m \<le> ahi \<Longrightarrow> n \<le> bhi \<Longrightarrow>
   chain a b i j ahi bhi (xs @ ys)"
proof (induction a b i j m n xs rule: chain.induct)
  case (1 a b i j m n)
  then show ?case by (cases ys) auto
qed auto

lemma chain_rec:
  "alo \<le> ahi \<Longrightarrow> blo \<le> bhi \<Longrightarrow> chain a b alo blo ahi bhi (matching_blocks_rec a b alo ahi blo bhi)"
proof (induction a b alo ahi blo bhi rule: matching_blocks_rec.induct)
  case (1 a b alo ahi blo bhi)
  obtain i j k where f: "find_longest_match a b alo ahi blo bhi = (i, j, k)" by (metis prod_cases3)
  have in_: "block_in a b alo ahi blo bhi (i, j, k)" using find_longest_match_in f by metis
  show ?case
  proof (cases "k = 0")
    case True
    then show ?thesis using f 1 by (subst matching_blocks_rec.simps) simp
  next
    case False
    then have k: "alo \<le> i" "i + k \<le> ahi" "blo \<le> j" "j + k \<le> bhi" "i + k \<le> length a" "j + k \<le> length b"
      "slice i (i + k) a = slice j (j + k) b" using in_ by (simp_all add: block_in_def)
    have l: "chain a b alo blo i j (matching_blocks_rec a b alo i blo j)"
      using 1(1) [OF f [symmetric] refl False] k by simp
    have r: "chain a b (i + k) (j + k) ahi bhi (matching_blocks_rec a b (i + k) ahi (j + k) bhi)"
      using 1(2) [OF f [symmetric] refl False] k by simp
    have "chain a b alo blo ahi bhi
        (matching_blocks_rec a b alo i blo j @ (i, j, k) # matching_blocks_rec a b (i + k) ahi (j + k) bhi)"
      using k False r by (intro chain_append [OF l]) simp_all
    then show ?thesis using f False by (subst matching_blocks_rec.simps) simp
  qed
qed

lemma chain_merge:
  "chain a b i j ahi bhi bs \<Longrightarrow> chain a b i j ahi bhi (merge_blocks bs)"
proof (induction bs arbitrary: i j rule: merge_blocks.induct)
  case (1 i1 j1 k1 i2 j2 k2 bs)
  show ?case
  proof (cases "i1 + k1 = i2 \<and> j1 + k1 = j2")
    case True
    have "slice i1 (i2 + k2) a = slice j1 (j2 + k2) b"
      using 1(3) True slice_join [of i1 i2 "i2 + k2" a] slice_join [of j1 j2 "j2 + k2" b] by auto
    then show ?thesis
      using 1(1) [OF True, of i j] 1(3) True by (auto simp: add.assoc)
  next
    case False
    then show ?thesis using 1 by auto
  qed
qed auto

lemma gap_op_script:
  assumes "i \<le> ai" "j \<le> bj" "ai \<le> length a" "bj \<le> length b" "edit_script a b ai bj ops"
  shows "edit_script a b i j (gap_op i ai j bj @ ops)"
  using assms by (auto simp: gap_op_def)

lemma opcodes_from_script:
  "chain a b i j (length a) (length b) bs \<Longrightarrow>
   edit_script a b i j (opcodes_from i j (bs @ [(length a, length b, 0)]))"
proof (induction bs arbitrary: i j)
  case Nil
  then show ?case using gap_op_script [of i "length a" j "length b" a b "[]"] by simp
next
  case (Cons blk bs)
  obtain i1 j1 k where blk: "blk = (i1, j1, k)" by (metis prod_cases3)
  have "edit_script a b i1 j1 ((Equal, i1, i1 + k, j1, j1 + k) #
      opcodes_from (i1 + k) (j1 + k) (bs @ [(length a, length b, 0)]))"
    using Cons blk by auto
  then show ?case
    using Cons.prems blk by (auto intro!: gap_op_script)
qed

lemma get_opcodes_script: "edit_script a b 0 0 (get_opcodes a b)"
  unfolding get_opcodes_def
  by (intro opcodes_from_script chain_merge chain_rec) simp_all

end
