(* ===== verification/Redistribute.thy ===== *)
theory Redistribute imports Difflib begin

text \<open>
  \<open>proxy/app/protocol_types.py\<close>, \<open>redistribute_redacted_text\<close>: the redacted form of the joined text is
  cut back into the text leaves of a request. A text is a list over any alphabet.
\<close>

section \<open>Definitions\<close>

fun boundaries_from :: "nat \<Rightarrow> 'a list list \<Rightarrow> (nat \<times> nat) list" where
  "boundaries_from cursor [] = []"
| "boundaries_from cursor (leaf # leaves) =
     (cursor, cursor + length leaf) # boundaries_from (cursor + length leaf) leaves"

fun leaf_search :: "nat \<Rightarrow> nat \<Rightarrow> (nat \<times> nat) list \<Rightarrow> nat option" where
  "leaf_search index position [] = None"
| "leaf_search index position ((start, stop) # bs) =
     (if start \<le> position \<and> position < stop then Some index else leaf_search (Suc index) position bs)"

definition leaf_for_position :: "(nat \<times> nat) list \<Rightarrow> nat \<Rightarrow> nat" where
  "leaf_for_position bs position =
     (case leaf_search 0 position bs of Some index \<Rightarrow> index | None \<Rightarrow> length bs - 1)"

definition append_at :: "nat \<Rightarrow> 'a list \<Rightarrow> 'a list list \<Rightarrow> 'a list list" where
  "append_at index t output = output[index := output ! index @ t]"

text \<open>The inner loop over the leaves, for an operation that is not an insertion.\<close>

fun write_leaves ::
  "op_tag \<Rightarrow> nat \<Rightarrow> nat \<Rightarrow> 'a list \<Rightarrow> nat \<Rightarrow> bool \<Rightarrow> (nat \<times> nat) list \<Rightarrow> 'a list list \<Rightarrow> 'a list list" where
  "write_leaves tag o1 o2 replacement index written [] output = output"
| "write_leaves tag o1 o2 replacement index written ((leaf_start, leaf_end) # bs) output =
     (let overlap_start = max o1 leaf_start; overlap_end = min o2 leaf_end in
      if overlap_start \<ge> overlap_end
      then write_leaves tag o1 o2 replacement (Suc index) written bs output
      else if tag = Equal
      then write_leaves tag o1 o2 replacement (Suc index) written bs
             (append_at index
                (take (overlap_end - overlap_start) (drop (overlap_start - o1) replacement)) output)
      else if tag = Replace \<and> \<not> written
      then write_leaves tag o1 o2 replacement (Suc index) True bs (append_at index replacement output)
      else write_leaves tag o1 o2 replacement (Suc index) written bs output)"

fun apply_op ::
  "(nat \<times> nat) list \<Rightarrow> 'a list \<Rightarrow> opcode \<Rightarrow> 'a list list \<Rightarrow> 'a list list" where
  "apply_op bs redacted (tag, o1, o2, r1, r2) output =
     (let replacement = slice r1 r2 redacted in
      if tag = Insert then append_at (leaf_for_position bs o1) replacement output
      else write_leaves tag o1 o2 replacement 0 False bs output)"

definition redistribute_redacted_text :: "'a list list \<Rightarrow> 'a list \<Rightarrow> 'a list list" where
  "redistribute_redacted_text leaves redacted =
     (if leaves = [] then []
      else let original = concat leaves in
        if original = redacted then leaves
        else fold (apply_op (boundaries_from 0 leaves) redacted) (get_opcodes original redacted)
               (map (\<lambda>_. []) leaves))"

section \<open>Lemmas: boundaries\<close>

lemma length_boundaries [simp]: "length (boundaries_from c ls) = length ls"
  by (induction ls arbitrary: c) auto

lemma append_at_simps [simp]: "length (append_at m t out) = length out"
  by (simp add: append_at_def)

text \<open>\<open>blank_after m out\<close>: no leaf after index \<open>m\<close> has been written.\<close>

definition blank_after :: "nat \<Rightarrow> 'a list list \<Rightarrow> bool" where
  "blank_after m out \<longleftrightarrow> (\<forall>k. m < k \<and> k < length out \<longrightarrow> out ! k = [])"

lemma blank_after_mono: "blank_after m out \<Longrightarrow> m \<le> m' \<Longrightarrow> blank_after m' out"
  by (auto simp: blank_after_def)

lemma blank_after_append: "blank_after m out \<Longrightarrow> m \<le> k \<Longrightarrow> blank_after k (append_at k t out)"
  by (auto simp: blank_after_def append_at_def nth_list_update)

lemma concat_blank: "(\<forall>x\<in>set xs. x = []) \<Longrightarrow> concat xs = []"
  by (induction xs) auto

lemma concat_append_at:
  assumes "blank_after m out" "m \<le> k" "k < length out"
  shows "concat (append_at k t out) = concat out @ t"
proof -
  have out: "out = take k out @ out ! k # drop (Suc k) out"
    using assms(3) by (simp add: id_take_nth_drop)
  have "\<forall>x\<in>set (drop (Suc k) out). x = []"
    using assms by (auto simp: blank_after_def in_set_conv_nth)
  then have tl: "concat (drop (Suc k) out) = []" by (rule concat_blank)
  have "append_at k t out = take k out @ (out ! k @ t) # drop (Suc k) out"
    using assms(3) by (simp add: append_at_def upd_conv_take_nth_drop)
  then have "concat (append_at k t out) = concat (take k out) @ out ! k @ t" using tl by simp
  moreover have "concat out = concat (take k out) @ out ! k" using tl by (subst out) simp
  ultimately show ?thesis by simp
qed

text \<open>\<open>starts_at c bs\<close>: a contiguous sequence of intervals starting at \<open>c\<close>.\<close>

fun tiles :: "nat \<Rightarrow> nat \<Rightarrow> (nat \<times> nat) list \<Rightarrow> bool" where
  "tiles c d [] \<longleftrightarrow> c = d"
| "tiles c d ((s, e) # bs) \<longleftrightarrow> s = c \<and> c \<le> e \<and> tiles e d bs"

lemma tiles_boundaries: "tiles c (c + length (concat ls)) (boundaries_from c ls)"
  by (induction ls arbitrary: c) (simp_all add: add.assoc [symmetric])

lemma tiles_le: "tiles c d bs \<Longrightarrow> c \<le> d"
  by (induction c d bs rule: tiles.induct) auto

lemma leaf_search_Some:
  assumes "tiles c d bs" "leaf_search m p bs = Some k"
  shows "m \<le> k \<and> k < m + length bs \<and> fst (bs ! (k - m)) \<le> p \<and> p < snd (bs ! (k - m)) \<and> c \<le> p \<and> p < d"
  using assms
proof (induction bs arbitrary: m c)
  case (Cons x bs)
  obtain s e where x: "x = (s, e)" by force
  show ?case
  proof (cases "s \<le> p \<and> p < e")
    case True
    then show ?thesis using Cons.prems x tiles_le [of e d bs] by auto
  next
    case False
    then have "Suc m \<le> k \<and> k < Suc m + length bs \<and> fst (bs ! (k - Suc m)) \<le> p \<and> p < snd (bs ! (k - Suc m)) \<and> e \<le> p \<and> p < d"
      using Cons.prems x by (intro Cons.IH) auto
    then show ?thesis using Cons.prems x by (auto simp: nth_Cons' Suc_diff_le)
  qed
qed simp

lemma leaf_search_None: "tiles c d bs \<Longrightarrow> leaf_search m p bs = None \<Longrightarrow> p < c \<or> d \<le> p"
proof (induction bs arbitrary: m c)
  case (Cons x bs)
  obtain s e where x: "x = (s, e)" by force
  then have "p < e \<or> d \<le> p" using Cons by (auto split: if_splits)
  then show ?case using Cons.prems x by (auto split: if_splits)
qed (simp add: not_less, linarith)

lemma leaf_for_position_less: "bs \<noteq> [] \<Longrightarrow> tiles c d bs \<Longrightarrow> leaf_for_position bs p < length bs"
  using leaf_search_Some [of c d bs 0 p] by (auto simp: leaf_for_position_def split: option.splits)

lemma tiles_nth:
  "tiles c d bs \<Longrightarrow> k < length bs \<Longrightarrow> c \<le> fst (bs ! k) \<and> fst (bs ! k) \<le> snd (bs ! k) \<and> snd (bs ! k) \<le> d"
proof (induction bs arbitrary: c k)
  case (Cons x bs)
  obtain s e where x: "x = (s, e)" by force
  have t: "tiles e d bs" "s = c" "c \<le> e" using Cons.prems x by auto
  show ?case
  proof (cases k)
    case 0
    then show ?thesis using x t tiles_le [OF t(1)] by simp
  next
    case (Suc k')
    then show ?thesis using Cons.IH [OF t(1), of k'] Cons.prems t by auto
  qed
qed simp

lemma tiles_less:
  "tiles c d bs \<Longrightarrow> k < k' \<Longrightarrow> k' < length bs \<Longrightarrow> snd (bs ! k) \<le> fst (bs ! k')"
proof (induction bs arbitrary: c k k')
  case (Cons x bs)
  obtain s e where x: "x = (s, e)" by force
  have t: "tiles e d bs" using Cons.prems x by simp
  obtain j where k': "k' = Suc j" using Cons.prems by (cases k') auto
  show ?case
  proof (cases k)
    case 0
    then show ?thesis using x k' tiles_nth [OF t, of j] Cons.prems by simp
  next
    case (Suc i)
    then show ?thesis using x k' Cons.IH [OF t, of i j] Cons.prems by simp
  qed
qed simp

section \<open>Lemmas: one operation\<close>

text \<open>\<open>fresh p m bs out\<close>: the leaves that start after position \<open>p\<close> have not been written.\<close>

definition fresh :: "nat \<Rightarrow> nat \<Rightarrow> (nat \<times> nat) list \<Rightarrow> 'a list list \<Rightarrow> bool" where
  "fresh p m bs out \<longleftrightarrow> (\<forall>k<length bs. p < fst (bs ! k) \<longrightarrow> out ! (m + k) = [])"

lemma fresh_tail: "fresh p m (x # bs) out \<Longrightarrow> fresh p (Suc m) bs out"
  by (fastforce simp: fresh_def)

lemma fresh_tail_append: "fresh p m (x # bs) out \<Longrightarrow> fresh p (Suc m) bs (append_at m t out)"
  by (fastforce simp: fresh_def append_at_def)

lemma fresh_blank:
  assumes "fresh p m ((s, e) # bs) out" "tiles c d ((s, e) # bs)" "p < e"
    and "length out = m + length ((s, e) # bs)"
  shows "blank_after m out"
  unfolding blank_after_def
proof (intro allI impI)
  fix k assume k: "m < k \<and> k < length out"
  then obtain j where j: "k = m + Suc j" using less_iff_Suc_add by auto
  have "p < fst (((s, e) # bs) ! Suc j)"
    using tiles_less [OF assms(2), of 0 "Suc j"] k j assms(3,4) by simp
  then show "out ! k = []"
    using assms(1,4) k j unfolding fresh_def by (metis add_less_cancel_left)
qed

lemma length_write_leaves [simp]: "length (write_leaves tag o1 o2 r m w bs out) = length out"
  by (induction tag o1 o2 r m w bs out rule: write_leaves.induct) (auto simp: Let_def)

lemma write_equal:
  assumes "tiles c d bs" "o1 \<le> o2" "o2 \<le> d" "length r = o2 - o1"
    and "length out = m + length bs" "fresh o1 m bs out"
  shows "concat (write_leaves Equal o1 o2 r m w bs out) = concat out @ drop (min o2 (max o1 c) - o1) r"
  using assms
proof (induction bs arbitrary: c m w out)
  case Nil
  then show ?case by (simp add: max_def min_def)
next
  case (Cons x bs)
  obtain s e where x: "x = (s, e)" by force
  have t: "tiles e d bs" "s = c" "c \<le> e" using Cons.prems(1) x by auto
  let ?os = "max o1 c" and ?oe = "min o2 e"
  show ?case
  proof (cases "?os \<ge> ?oe")
    case True
    have "concat (write_leaves Equal o1 o2 r (Suc m) w bs out) = concat out @ drop (min o2 (max o1 e) - o1) r"
      using Cons.prems x by (intro Cons.IH [OF t(1)] fresh_tail [OF Cons.prems(6)]) auto
    moreover have "min o2 (max o1 e) = min o2 (max o1 c)"
      using True t(3) Cons.prems(2) by (auto simp: min_def max_def split: if_splits)
    ultimately show ?thesis using True x t by (simp add: Let_def)
  next
    case False
    let ?p = "take (?oe - ?os) (drop (?os - o1) r)"
    have "blank_after m out"
      using fresh_blank [OF _ _ _ Cons.prems(5) [unfolded x], of o1 c d] Cons.prems x False by auto
    then have c: "concat (append_at m ?p out) = concat out @ ?p"
      using Cons.prems(5) by (intro concat_append_at) auto
    have "concat (write_leaves Equal o1 o2 r (Suc m) w bs (append_at m ?p out)) =
        concat (append_at m ?p out) @ drop (min o2 (max o1 e) - o1) r"
      using Cons.prems x by (intro Cons.IH [OF t(1)] fresh_tail_append [OF Cons.prems(6)]) auto
    also have "\<dots> = concat out @ ?p @ drop (?oe - o1) r"
      using c False by (simp add: max_def min_def split: if_splits)
    also have "?p @ drop (?oe - o1) r = drop (?os - o1) r"
    proof -
      have "drop (?oe - o1) r = drop (?oe - ?os) (drop (?os - o1) r)"
        using False by (simp add: max_def min_def split: if_splits)
      then show ?thesis by (simp only: append_take_drop_id)
    qed
    finally have "concat (write_leaves Equal o1 o2 r (Suc m) w bs (append_at m ?p out)) =
        concat out @ drop (?os - o1) r" .
    moreover have "min o2 (max o1 c) = ?os" using False by (auto simp: min_def max_def split: if_splits)
    ultimately show ?thesis using False x t by (simp add: Let_def)
  qed
qed

lemma write_replace_written:
  "write_leaves Replace o1 o2 r m True bs out = out"
  by (induction bs arbitrary: m) (auto simp: Let_def)

lemma write_delete: "write_leaves Delete o1 o2 r m w bs out = out"
  by (induction bs arbitrary: m) (auto simp: Let_def)

lemma write_replace:
  assumes "tiles c d bs" "c \<le> o1" "o1 < o2" "o2 \<le> d"
    and "length out = m + length bs" "fresh o1 m bs out"
  shows "concat (write_leaves Replace o1 o2 r m False bs out) = concat out @ r"
  using assms
proof (induction bs arbitrary: c m)
  case (Cons x bs)
  obtain s e where x: "x = (s, e)" by force
  have t: "tiles e d bs" "s = c" "c \<le> e" using Cons.prems(1) x by auto
  show ?case
  proof (cases "e \<le> o1")
    case True
    then show ?thesis
      using Cons.prems x t fresh_tail [OF Cons.prems(6)] Cons.IH [OF t(1), of "Suc m"] by (simp add: Let_def)
  next
    case False
    then have "blank_after m out"
      using fresh_blank [OF _ _ _ Cons.prems(5) [unfolded x], of o1 c d] Cons.prems x by auto
    then have "concat (append_at m r out) = concat out @ r"
      using Cons.prems(5) by (intro concat_append_at) auto
    moreover have "\<not> max o1 c \<ge> min o2 e" using False Cons.prems by auto
    ultimately show ?thesis using x t by (simp add: Let_def write_replace_written)
  qed
qed simp

lemma append_at_other: "j \<noteq> m \<Longrightarrow> append_at m t out ! j = out ! j"
  by (simp add: append_at_def)

lemma write_leaves_after:
  "(\<And>k. k < length bs \<Longrightarrow> j = m + k \<Longrightarrow> o2 \<le> fst (bs ! k)) \<Longrightarrow>
   write_leaves tag o1 o2 r m w bs out ! j = out ! j"
proof (induction bs arbitrary: m w out)
  case (Cons x bs)
  obtain s e where x: "x = (s, e)" by force
  have IH: "write_leaves tag o1 o2 r (Suc m) w' bs out' ! j = out' ! j" for w' out'
    by (rule Cons.IH) (use Cons.prems [of "Suc k" for k] in auto)
  have "j = m \<Longrightarrow> o2 \<le> s" using Cons.prems [of 0] x by simp
  then have "\<not> max o1 s \<ge> min o2 e \<Longrightarrow> j \<noteq> m" by auto
  then show ?case using x IH by (auto simp: Let_def append_at_other)
qed simp

section \<open>Lemmas: an edit script\<close>

lemma apply_op_step:
  assumes "tiles 0 (length original) bs" "bs \<noteq> []" "length out = length bs" "fresh i 0 bs out"
    and "edit_script original redacted i j ((tag, i1, i2, j1, j2) # ops)"
  shows "concat (apply_op bs redacted (tag, i1, i2, j1, j2) out) = concat out @ slice j j2 redacted \<and>
    fresh i2 0 bs (apply_op bs redacted (tag, i1, i2, j1, j2) out) \<and>
    length (apply_op bs redacted (tag, i1, i2, j1, j2) out) = length bs"
proof -
  have e: "i1 = i" "j1 = j" "i \<le> i2" "j \<le> j2" "i2 \<le> length original" "j2 \<le> length redacted"
    using assms(5) by auto
  let ?r = "slice j j2 redacted"
  have lr: "length ?r = j2 - j" using e by (simp add: length_slice)
  have later: "fresh i2 0 bs (write_leaves tag i i2 ?r 0 False bs out)"
    unfolding fresh_def
  proof (intro allI impI)
    fix k assume k: "k < length bs" "i2 < fst (bs ! k)"
    have "write_leaves tag i i2 ?r 0 False bs out ! (0 + k) = out ! (0 + k)"
      by (rule write_leaves_after) (use k in auto)
    moreover have "out ! (0 + k) = []" using assms(4) k e(3) by (simp add: fresh_def)
    ultimately show "write_leaves tag i i2 ?r 0 False bs out ! (0 + k) = []" by simp
  qed
  show ?thesis
  proof (cases tag)
    case Equal
    have "length ?r = i2 - i" using assms(5) Equal e lr length_slice [of i i2 original] by auto
    then have "concat (write_leaves Equal i i2 ?r 0 False bs out) = concat out @ drop (min i2 (max i 0) - i) ?r"
      using assms e by (intro write_equal) auto
    then show ?thesis using Equal e later assms(3) by simp
  next
    case Replace
    have "concat (write_leaves Replace i i2 ?r 0 False bs out) = concat out @ ?r"
      using assms e Replace by (intro write_replace) auto
    then show ?thesis using Replace e later assms(3) by simp
  next
    case Delete
    then show ?thesis using assms(5) e later assms(3) by (simp add: write_delete)
  next
    case Insert
    let ?m = "leaf_for_position bs i"
    have m: "?m < length bs" by (rule leaf_for_position_less [OF assms(2,1)])
    have i2: "i2 = i" using assms(5) Insert by simp
    have starts: "i < fst (bs ! k)" if "?m < k" "k < length bs" for k
    proof (cases "leaf_search 0 i bs")
      case None
      then show ?thesis using that by (simp add: leaf_for_position_def)
    next
      case (Some x)
      then show ?thesis
        using that leaf_search_Some [OF assms(1) Some] tiles_less [OF assms(1), of x k]
        by (auto simp: leaf_for_position_def)
    qed
    have "blank_after ?m out"
      using starts assms(3,4) by (auto simp: blank_after_def fresh_def)
    then have "concat (append_at ?m ?r out) = concat out @ ?r"
      using m assms(3) by (intro concat_append_at) auto
    moreover have le: "fst (bs ! ?m) \<le> i"
    proof (cases "leaf_search 0 i bs")
      case None
      then have "length original \<le> i" using leaf_search_None [OF assms(1)] by blast
      then show ?thesis using tiles_nth [OF assms(1) m] by simp
    next
      case (Some x)
      then show ?thesis using leaf_search_Some [OF assms(1) Some] by (simp add: leaf_for_position_def)
    qed
    have ne: "k \<noteq> ?m" if "i < fst (bs ! k)" for k using that le by auto
    then have "fresh i 0 bs (append_at ?m ?r out)"
      using assms(4) by (simp add: fresh_def append_at_other)
    ultimately show ?thesis using Insert e i2 assms(3) by simp
  qed
qed

lemma apply_ops:
  assumes "tiles 0 (length original) bs" "bs \<noteq> []" "length out = length bs" "fresh i 0 bs out"
    and "edit_script original redacted i j ops" "concat out = take j redacted"
  shows "concat (fold (apply_op bs redacted) ops out) = redacted \<and>
    length (fold (apply_op bs redacted) ops out) = length bs"
  using assms(3-6)
proof (induction ops arbitrary: i j out)
  case Nil
  then show ?case by simp
next
  case (Cons op ops)
  obtain tag i1 i2 j1 j2 where op: "op = (tag, i1, i2, j1, j2)" by (metis prod_cases5)
  note s = apply_op_step [OF assms(1,2) Cons.prems(1,2) Cons.prems(3) [unfolded op]]
  have "edit_script original redacted i2 j2 ops" "j \<le> j2" using Cons.prems(3) op by auto
  moreover have "concat (apply_op bs redacted op out) = take j2 redacted"
    using s op Cons.prems(4) take_slice [OF \<open>j \<le> j2\<close>, of redacted] by simp
  ultimately show ?case
    using Cons.IH [of "apply_op bs redacted op out" i2 j2] s op by simp
qed

lemma redistribute_length: "length (redistribute_redacted_text leaves redacted) = length leaves"
  and redistribute_concat: "leaves \<noteq> [] \<Longrightarrow> concat (redistribute_redacted_text leaves redacted) = redacted"
proof -
  let ?bs = "boundaries_from 0 leaves"
  have "concat (fold (apply_op ?bs redacted) (get_opcodes (concat leaves) redacted) (map (\<lambda>_. []) leaves)) = redacted
    \<and> length (fold (apply_op ?bs redacted) (get_opcodes (concat leaves) redacted) (map (\<lambda>_. []) leaves)) = length ?bs"
    if "leaves \<noteq> []"
  proof (rule apply_ops)
    show "tiles 0 (length (concat leaves)) ?bs" using tiles_boundaries [of 0 leaves] by simp
    show "?bs \<noteq> []" using that by (cases leaves) auto
    show "fresh 0 0 ?bs (map (\<lambda>_. []) leaves)" by (simp add: fresh_def)
    show "edit_script (concat leaves) redacted 0 0 (get_opcodes (concat leaves) redacted)"
      by (rule get_opcodes_script)
    show "concat (map (\<lambda>_. []) leaves) = take 0 redacted" by (simp add: concat_blank)
  qed simp
  then show "length (redistribute_redacted_text leaves redacted) = length leaves"
    and "leaves \<noteq> [] \<Longrightarrow> concat (redistribute_redacted_text leaves redacted) = redacted"
    by (auto simp: redistribute_redacted_text_def Let_def)
qed

lemma redistribute_same: "redistribute_redacted_text leaves (concat leaves) = leaves"
  by (simp add: redistribute_redacted_text_def)

section \<open>Properties\<close>

text \<open>
  Redistribution neither loses nor duplicates text: it returns one leaf for each original leaf,
  and, when there is a leaf at all, the leaves joined are exactly the redacted text; a text that was
  not redacted leaves every leaf as it was.
\<close>

theorem redistribute_redacted_text_correct:
  "length (redistribute_redacted_text leaves redacted) = length leaves \<and>
   concat (redistribute_redacted_text leaves redacted) = (if leaves = [] then [] else redacted) \<and>
   redistribute_redacted_text leaves (concat leaves) = leaves"
  using redistribute_length [of leaves redacted] redistribute_concat [of leaves redacted]
    redistribute_same [of leaves]
  by (cases "leaves = []") (simp_all add: redistribute_redacted_text_def)

end
