(* ===== verification/GatewayPayload.thy ===== *)
theory GatewayPayload imports Redistribute begin

text \<open>
  The interface \<open>GatewayPayload\<close> of \<open>proxy/app/protocol_types.py\<close>, as governance uses it: a
  payload has governed text leaves, its governance text is what they join to, and
  \<open>with_redacted_text\<close> writes a redacted text back into them. \<open>frame\<close> is everything of the
  payload that is not governed text. Each wire protocol's payload is an interpretation.
\<close>

locale gateway_payload =
  fixes leaves :: "'p \<Rightarrow> string list"
    and governance_text :: "'p \<Rightarrow> string"
    and redact :: "'p \<Rightarrow> string \<Rightarrow> 'p"
    and frame :: "'p \<Rightarrow> 'f"
  assumes text_of_leaves: "governance_text p = concat (leaves p)"
    and leaves_redact: "leaves (redact p r) = redistribute_redacted_text (leaves p) r"
    and frame_redact: "frame (redact p r) = frame p"
begin

lemma text_redact: "governance_text (redact p r) = (if leaves p = [] then [] else r)"
proof (cases "leaves p = []")
  case True
  then show ?thesis
    using redistribute_length [of "leaves p" r] by (simp add: text_of_leaves leaves_redact)
next
  case False
  then show ?thesis
    using redistribute_concat [OF False, of r] by (simp add: text_of_leaves leaves_redact)
qed

lemma leaf_count: "length (leaves (redact p r)) = length (leaves p)"
  by (simp add: leaves_redact redistribute_length)

lemma redact_own_text: "leaves (redact p (governance_text p)) = leaves p"
  by (simp add: leaves_redact text_of_leaves redistribute_same)

lemma last_redaction_wins:
  "leaves p \<noteq> [] \<Longrightarrow> governance_text (redact (redact p r) s) = s"
  using leaf_count [of p r] by (cases "leaves (redact p r)") (simp_all add: text_redact)

end

end
