(* ===== verification/ChatTypes.thy ===== *)
theory ChatTypes imports Dto GatewayPayload begin

text \<open>
  The OpenAI Chat Completions request of \<open>proxy/app/protocol_types.py\<close>: the typed content parts,
  messages, tools and options, their validators, \<open>to_json\<close>, and \<open>OpenAIChatPayload\<close> with its
  governed leaves. The type tag of a part is stored only where the model's default makes it optional
  in the input.
\<close>

section \<open>Content parts\<close>

record cache_breakpoint =
  cb_mode :: string

record text_part =
  tp_type :: "string field"
  tp_text :: string
  tp_breakpoint :: "cache_breakpoint field"

record refusal_part =
  rp_refusal :: string

record image_url_ref =
  iu_url :: string
  iu_detail :: "string field"

record image_part =
  ip_image_url :: image_url_ref
  ip_breakpoint :: "cache_breakpoint field"

record input_audio =
  ia_data :: string
  ia_format :: string

record file_reference =
  fr_file_data :: "string field"
  fr_file_id :: "string field"
  fr_filename :: "string field"

record file_part =
  fp_file :: file_reference
  fp_breakpoint :: "cache_breakpoint field"

datatype user_part =
    UserText text_part
  | UserImage image_part
  | UserAudio input_audio "cache_breakpoint field"
  | UserFile file_part

datatype assistant_part = AssistantText text_part | AssistantRefusal refusal_part

text \<open>The validator \<open>require_file_source\<close>.\<close>

definition require_file_source :: "file_reference \<Rightarrow> py_error + file_reference" where
  "require_file_source r =
     (if fval (fr_file_data r) = None \<and> fval (fr_file_id r) = None
      then Inl (ValueError ''file requires file_data or file_id'') else Inr r)"

section \<open>Messages\<close>

record function_call =
  fc_arguments :: string
  fc_name :: string

record custom_call =
  cc_input :: string
  cc_name :: string

datatype message_tool_call =
    FunctionToolCall string function_call
  | CustomToolCall string custom_call

datatype 'p content = ContentStr string | ContentParts "'p list"

record instruction_message =  \<comment> \<open>\<open>OpenAIChatDeveloperMessage\<close> and \<open>OpenAIChatSystemMessage\<close>\<close>
  im_content :: "text_part content"
  im_name :: "string field"

record user_message =
  um_content :: "user_part content"
  um_name :: "string field"

record assistant_message =
  am_audio :: "string field"  \<comment> \<open>the \<open>id\<close> of the audio reference\<close>
  am_content :: "assistant_part content field"
  am_function_call :: "function_call field"
  am_name :: "string field"
  am_refusal :: "string field"
  am_tool_calls :: "message_tool_call list field"

record tool_message =
  tm_content :: "text_part content"
  tm_tool_call_id :: string

record function_message =
  fm_content :: "string option"
  fm_name :: string

datatype chat_message =
    DeveloperMessage instruction_message
  | SystemMessage instruction_message
  | UserMessage user_message
  | AssistantMessage assistant_message
  | ToolMessage tool_message
  | FunctionMessage function_message

section \<open>Tools and tool choice\<close>

record function_definition =
  fd_name :: string
  fd_description :: "string field"
  fd_parameters :: "json_object field"
  fd_strict :: "bool field"

record custom_grammar =
  cg_definition :: string
  cg_syntax :: string

datatype custom_format = FormatText | FormatGrammar custom_grammar

record custom_tool_definition =
  ct_name :: string
  ct_description :: "string field"
  ct_format :: "custom_format field"

datatype chat_tool = FunctionTool function_definition | CustomTool custom_tool_definition

record named_function =
  nf_name :: string

record allowed_tool_reference =
  at_type :: string
  at_function :: "named_function field"
  at_custom :: "named_function field"

record allowed_tools =
  al_mode :: string
  al_tools :: "allowed_tool_reference list"

datatype object_tool_choice =
    NamedFunctionChoice named_function
  | NamedCustomChoice named_function
  | AllowedToolChoice allowed_tools

datatype tool_choice = ChoiceMode string | ChoiceObject object_tool_choice

definition require_matching_tool :: "allowed_tool_reference \<Rightarrow> py_error + allowed_tool_reference" where
  "require_matching_tool r =
     (if at_type r = ''function'' \<and> fval (at_function r) \<noteq> None \<and> fval (at_custom r) = None then Inr r
      else if at_type r = ''custom'' \<and> fval (at_custom r) \<noteq> None \<and> fval (at_function r) = None then Inr r
      else Inl (ValueError ''allowed tool reference must match its type''))"

section \<open>Options\<close>

record stream_options =
  so_include_obfuscation :: "bool field"
  so_include_usage :: "bool field"

datatype audio_voice = VoiceName string | VoiceID string

record audio_config =
  ac_format :: string
  ac_voice :: audio_voice

record prediction =
  pr_type :: "string field"
  pr_content :: "text_part content"

record prompt_cache_options =
  pc_mode :: "string field"
  pc_ttl :: "string field"

record moderation_policy =  \<comment> \<open>the \<open>mode\<close> of each \<open>OpenAIChatModerationPolicyMode\<close>\<close>
  mp_input :: "string field"
  mp_output :: "string field"

record moderation_config =
  mc_model :: string
  mc_policy :: "moderation_policy field"

record json_schema_config =
  js_name :: string
  js_description :: "string field"
  js_schema :: "json_object field"
  js_strict :: "bool field"

datatype response_format = RFText | RFJsonObject | RFJsonSchema json_schema_config

record approximate_location =
  lo_city :: "string field"
  lo_country :: "string field"
  lo_region :: "string field"
  lo_timezone :: "string field"

record user_location =
  ul_type :: "string field"
  ul_approximate :: approximate_location

record web_search_options =
  ws_search_context_size :: "string field"
  ws_user_location :: "user_location field"

datatype function_choice = FunctionMode string | FunctionNamed named_function

datatype stop_sequences = StopOne string | StopMany "string list"

section \<open>The request\<close>

record chat_request =
  cr_model :: string
  cr_messages :: "chat_message list"
  cr_audio :: "audio_config field"
  cr_frequency_penalty :: "rat field"
  cr_function_call :: "function_choice field"
  cr_functions :: "function_definition list field"
  cr_logit_bias :: "int dict field"
  cr_logprobs :: "bool field"
  cr_max_completion_tokens :: "int field"
  cr_max_tokens :: "int field"
  cr_metadata :: "string dict field"
  cr_modalities :: "string list field"
  cr_moderation :: "moderation_config field"
  cr_n :: "int field"
  cr_parallel_tool_calls :: "bool field"
  cr_prediction :: "prediction field"
  cr_presence_penalty :: "rat field"
  cr_prompt_cache_key :: "string field"
  cr_prompt_cache_options :: "prompt_cache_options field"
  cr_prompt_cache_retention :: "string field"
  cr_reasoning_effort :: "string field"
  cr_response_format :: "response_format field"
  cr_safety_identifier :: "string field"
  cr_seed :: "int field"
  cr_service_tier :: "string field"
  cr_stop :: "stop_sequences field"
  cr_store :: "bool field"
  cr_stream :: "bool option"  \<comment> \<open>\<open>None\<close>: not given, the default \<open>False\<close>\<close>
  cr_stream_options :: "stream_options field"
  cr_temperature :: "rat field"
  cr_tool_choice :: "tool_choice field"
  cr_tools :: "chat_tool list field"
  cr_top_logprobs :: "int field"
  cr_top_p :: "rat field"
  cr_user :: "string field"
  cr_verbosity :: "string field"
  cr_web_search_options :: "web_search_options field"

definition request_stream :: "chat_request \<Rightarrow> bool" where
  "request_stream r = (cr_stream r = Some True)"

text \<open>The numeric bounds of the \<open>Field\<close> declarations.\<close>

definition field_bounds :: "chat_request \<Rightarrow> bool" where
  "field_bounds r \<longleftrightarrow>
     all_field (\<lambda>x. -2 \<le> x \<and> x \<le> 2) (cr_frequency_penalty r) \<and>
     all_field (\<lambda>x. 1 \<le> x) (cr_max_completion_tokens r) \<and>
     all_field (\<lambda>x. 1 \<le> x) (cr_max_tokens r) \<and>
     all_field (\<lambda>x. 1 \<le> x) (cr_n r) \<and>
     all_field (\<lambda>x. -2 \<le> x \<and> x \<le> 2) (cr_presence_penalty r) \<and>
     all_field (\<lambda>x. 0 \<le> x \<and> x \<le> 2) (cr_temperature r) \<and>
     all_field (\<lambda>x. 0 \<le> x \<and> x \<le> 20) (cr_top_logprobs r) \<and>
     all_field (\<lambda>x. 0 \<le> x \<and> x \<le> 1) (cr_top_p r)"

definition validate_conditional_fields :: "chat_request \<Rightarrow> py_error + chat_request" where
  "validate_conditional_fields r =
     (if fval (cr_stream_options r) \<noteq> None \<and> \<not> request_stream r
      then Inl (ValueError ''stream_options requires stream=true'')
      else if fval (cr_top_logprobs r) \<noteq> None \<and> fval (cr_logprobs r) \<noteq> Some True
      then Inl (ValueError ''top_logprobs requires logprobs=true'')
      else if (case fval (cr_modalities r) of None \<Rightarrow> False | Some ms \<Rightarrow> ''audio'' \<in> set ms)
        \<and> fval (cr_audio r) = None
      then Inl (ValueError ''audio configuration is required for audio output'')
      else Inr r)"

section \<open>Dumping\<close>

fun tagged :: "string \<Rightarrow> json_object \<Rightarrow> json" where
  "tagged t d = JObj ((''type'', JStr t) # d)"

definition dump_breakpoint :: "cache_breakpoint \<Rightarrow> json" where
  "dump_breakpoint b = JObj [(''mode'', JStr (cb_mode b))]"

definition dump_text_part :: "text_part \<Rightarrow> json" where
  "dump_text_part p =
     JObj (dump_set ''type'' JStr (tp_type p) @ [(''text'', JStr (tp_text p))] @
           dump_set ''prompt_cache_breakpoint'' dump_breakpoint (tp_breakpoint p))"

definition dump_image_url :: "image_url_ref \<Rightarrow> json" where
  "dump_image_url i = JObj ((''url'', JStr (iu_url i)) # dump_set ''detail'' JStr (iu_detail i))"

definition dump_file :: "file_reference \<Rightarrow> json" where
  "dump_file f =
     JObj (dump_set ''file_data'' JStr (fr_file_data f) @ dump_set ''file_id'' JStr (fr_file_id f) @
           dump_set ''filename'' JStr (fr_filename f))"

fun dump_user_part :: "user_part \<Rightarrow> json" where
  "dump_user_part (UserText p) = dump_text_part p"
| "dump_user_part (UserImage p) =
     tagged ''image_url'' ((''image_url'', dump_image_url (ip_image_url p)) #
       dump_set ''prompt_cache_breakpoint'' dump_breakpoint (ip_breakpoint p))"
| "dump_user_part (UserAudio a b) =
     tagged ''input_audio''
       ((''input_audio'', JObj [(''data'', JStr (ia_data a)), (''format'', JStr (ia_format a))]) #
        dump_set ''prompt_cache_breakpoint'' dump_breakpoint b)"
| "dump_user_part (UserFile p) =
     tagged ''file'' ((''file'', dump_file (fp_file p)) #
       dump_set ''prompt_cache_breakpoint'' dump_breakpoint (fp_breakpoint p))"

fun dump_assistant_part :: "assistant_part \<Rightarrow> json" where
  "dump_assistant_part (AssistantText p) = dump_text_part p"
| "dump_assistant_part (AssistantRefusal p) = tagged ''refusal'' [(''refusal'', JStr (rp_refusal p))]"

fun dump_content :: "('p \<Rightarrow> json) \<Rightarrow> 'p content \<Rightarrow> json" where
  "dump_content enc (ContentStr s) = JStr s"
| "dump_content enc (ContentParts ps) = JList (map enc ps)"

definition dump_function_call :: "function_call \<Rightarrow> json" where
  "dump_function_call c = JObj [(''arguments'', JStr (fc_arguments c)), (''name'', JStr (fc_name c))]"

fun dump_tool_call :: "message_tool_call \<Rightarrow> json" where
  "dump_tool_call (FunctionToolCall i c) =
     JObj [(''id'', JStr i), (''type'', JStr ''function''), (''function'', dump_function_call c)]"
| "dump_tool_call (CustomToolCall i c) =
     JObj [(''id'', JStr i), (''type'', JStr ''custom''),
           (''custom'', JObj [(''input'', JStr (cc_input c)), (''name'', JStr (cc_name c))])]"

fun dump_message :: "chat_message \<Rightarrow> json" where
  "dump_message (DeveloperMessage m) =
     JObj ([(''role'', JStr ''developer''), (''content'', dump_content dump_text_part (im_content m))] @
           dump_set ''name'' JStr (im_name m))"
| "dump_message (SystemMessage m) =
     JObj ([(''role'', JStr ''system''), (''content'', dump_content dump_text_part (im_content m))] @
           dump_set ''name'' JStr (im_name m))"
| "dump_message (UserMessage m) =
     JObj ([(''role'', JStr ''user''), (''content'', dump_content dump_user_part (um_content m))] @
           dump_set ''name'' JStr (um_name m))"
| "dump_message (AssistantMessage m) =
     JObj ((''role'', JStr ''assistant'') #
           dump_set ''audio'' (\<lambda>i. JObj [(''id'', JStr i)]) (am_audio m) @
           dump_set ''content'' (dump_content dump_assistant_part) (am_content m) @
           dump_set ''function_call'' dump_function_call (am_function_call m) @
           dump_set ''name'' JStr (am_name m) @
           dump_set ''refusal'' JStr (am_refusal m) @
           dump_set ''tool_calls'' (\<lambda>cs. JList (map dump_tool_call cs)) (am_tool_calls m))"
| "dump_message (ToolMessage m) =
     JObj [(''role'', JStr ''tool''), (''content'', dump_content dump_text_part (tm_content m)),
           (''tool_call_id'', JStr (tm_tool_call_id m))]"
| "dump_message (FunctionMessage m) =
     JObj [(''role'', JStr ''function''),
           (''content'', case fm_content m of None \<Rightarrow> JNull | Some s \<Rightarrow> JStr s),
           (''name'', JStr (fm_name m))]"

definition dump_function_definition :: "function_definition \<Rightarrow> json" where
  "dump_function_definition d =
     JObj ((''name'', JStr (fd_name d)) # dump_set ''description'' JStr (fd_description d) @
           dump_set ''parameters'' JObj (fd_parameters d) @ dump_set ''strict'' JBool (fd_strict d))"

fun dump_custom_format :: "custom_format \<Rightarrow> json" where
  "dump_custom_format FormatText = tagged ''text'' []"
| "dump_custom_format (FormatGrammar g) =
     tagged ''grammar'' [(''grammar'', JObj [(''definition'', JStr (cg_definition g)),
                                            (''syntax'', JStr (cg_syntax g))])]"

fun dump_tool :: "chat_tool \<Rightarrow> json" where
  "dump_tool (FunctionTool d) = tagged ''function'' [(''function'', dump_function_definition d)]"
| "dump_tool (CustomTool d) =
     tagged ''custom'' [(''custom'', JObj ((''name'', JStr (ct_name d)) #
       dump_set ''description'' JStr (ct_description d) @
       dump_set ''format'' dump_custom_format (ct_format d)))]"

definition dump_named :: "named_function \<Rightarrow> json" where
  "dump_named n = JObj [(''name'', JStr (nf_name n))]"

definition dump_allowed_tool :: "allowed_tool_reference \<Rightarrow> json" where
  "dump_allowed_tool r =
     JObj ((''type'', JStr (at_type r)) # dump_set ''function'' dump_named (at_function r) @
           dump_set ''custom'' dump_named (at_custom r))"

fun dump_tool_choice :: "tool_choice \<Rightarrow> json" where
  "dump_tool_choice (ChoiceMode s) = JStr s"
| "dump_tool_choice (ChoiceObject (NamedFunctionChoice n)) = tagged ''function'' [(''function'', dump_named n)]"
| "dump_tool_choice (ChoiceObject (NamedCustomChoice n)) = tagged ''custom'' [(''custom'', dump_named n)]"
| "dump_tool_choice (ChoiceObject (AllowedToolChoice a)) =
     tagged ''allowed_tools'' [(''allowed_tools'', JObj [(''mode'', JStr (al_mode a)),
       (''tools'', JList (map dump_allowed_tool (al_tools a)))])]"

definition dump_audio :: "audio_config \<Rightarrow> json" where
  "dump_audio a =
     JObj [(''format'', JStr (ac_format a)),
           (''voice'', case ac_voice a of VoiceName s \<Rightarrow> JStr s | VoiceID i \<Rightarrow> JObj [(''id'', JStr i)])]"

definition dump_prediction :: "prediction \<Rightarrow> json" where
  "dump_prediction p =
     JObj (dump_set ''type'' JStr (pr_type p) @ [(''content'', dump_content dump_text_part (pr_content p))])"

definition dump_moderation :: "moderation_config \<Rightarrow> json" where
  "dump_moderation m =
     JObj ((''model'', JStr (mc_model m)) #
       dump_set ''policy'' (\<lambda>p.
         JObj (dump_set ''input'' (\<lambda>s. JObj [(''mode'', JStr s)]) (mp_input p) @
               dump_set ''output'' (\<lambda>s. JObj [(''mode'', JStr s)]) (mp_output p))) (mc_policy m))"

fun dump_response_format :: "response_format \<Rightarrow> json" where
  "dump_response_format RFText = tagged ''text'' []"
| "dump_response_format RFJsonObject = tagged ''json_object'' []"
| "dump_response_format (RFJsonSchema c) =
     tagged ''json_schema'' [(''json_schema'', JObj ((''name'', JStr (js_name c)) #
       dump_set ''description'' JStr (js_description c) @ dump_set ''schema'' JObj (js_schema c) @
       dump_set ''strict'' JBool (js_strict c)))]"

definition dump_location :: "user_location \<Rightarrow> json" where
  "dump_location u =
     (let a = ul_approximate u in
      JObj (dump_set ''type'' JStr (ul_type u) @
        [(''approximate'', JObj (dump_set ''city'' JStr (lo_city a) @ dump_set ''country'' JStr (lo_country a) @
          dump_set ''region'' JStr (lo_region a) @ dump_set ''timezone'' JStr (lo_timezone a)))]))"

definition dump_web_search :: "web_search_options \<Rightarrow> json" where
  "dump_web_search w =
     JObj (dump_set ''search_context_size'' JStr (ws_search_context_size w) @
           dump_set ''user_location'' dump_location (ws_user_location w))"

definition dump_options :: "chat_request \<Rightarrow> json_object" where
  "dump_options r =
     dump_set ''audio'' dump_audio (cr_audio r) @
     dump_set ''frequency_penalty'' JFloat (cr_frequency_penalty r) @
     dump_set ''function_call'' (\<lambda>c. case c of FunctionMode s \<Rightarrow> JStr s | FunctionNamed n \<Rightarrow> dump_named n)
       (cr_function_call r) @
     dump_set ''functions'' (\<lambda>fs. JList (map dump_function_definition fs)) (cr_functions r) @
     dump_set ''logit_bias'' (\<lambda>d. JObj (map (\<lambda>(k, v). (k, JInt v)) d)) (cr_logit_bias r) @
     dump_set ''logprobs'' JBool (cr_logprobs r) @
     dump_set ''max_completion_tokens'' JInt (cr_max_completion_tokens r) @
     dump_set ''max_tokens'' JInt (cr_max_tokens r) @
     dump_set ''metadata'' (\<lambda>d. JObj (map (\<lambda>(k, v). (k, JStr v)) d)) (cr_metadata r) @
     dump_set ''modalities'' jstrs (cr_modalities r) @
     dump_set ''moderation'' dump_moderation (cr_moderation r) @
     dump_set ''n'' JInt (cr_n r) @
     dump_set ''parallel_tool_calls'' JBool (cr_parallel_tool_calls r) @
     dump_set ''prediction'' dump_prediction (cr_prediction r) @
     dump_set ''presence_penalty'' JFloat (cr_presence_penalty r) @
     dump_set ''prompt_cache_key'' JStr (cr_prompt_cache_key r) @
     dump_set ''prompt_cache_options'' (\<lambda>p. JObj (dump_set ''mode'' JStr (pc_mode p) @
       dump_set ''ttl'' JStr (pc_ttl p))) (cr_prompt_cache_options r) @
     dump_set ''prompt_cache_retention'' JStr (cr_prompt_cache_retention r) @
     dump_set ''reasoning_effort'' JStr (cr_reasoning_effort r) @
     dump_set ''response_format'' dump_response_format (cr_response_format r) @
     dump_set ''safety_identifier'' JStr (cr_safety_identifier r) @
     dump_set ''seed'' JInt (cr_seed r) @
     dump_set ''service_tier'' JStr (cr_service_tier r) @
     dump_set ''stop'' (\<lambda>s. case s of StopOne t \<Rightarrow> JStr t | StopMany ts \<Rightarrow> jstrs ts) (cr_stop r) @
     dump_set ''store'' JBool (cr_store r) @
     (case cr_stream r of None \<Rightarrow> [] | Some b \<Rightarrow> [(''stream'', JBool b)]) @
     dump_set ''stream_options'' (\<lambda>s. JObj (dump_set ''include_obfuscation'' JBool (so_include_obfuscation s) @
       dump_set ''include_usage'' JBool (so_include_usage s))) (cr_stream_options r) @
     dump_set ''temperature'' JFloat (cr_temperature r) @
     dump_set ''tool_choice'' dump_tool_choice (cr_tool_choice r) @
     dump_set ''tools'' (\<lambda>ts. JList (map dump_tool ts)) (cr_tools r) @
     dump_set ''top_logprobs'' JInt (cr_top_logprobs r) @
     dump_set ''top_p'' JFloat (cr_top_p r) @
     dump_set ''user'' JStr (cr_user r) @
     dump_set ''verbosity'' JStr (cr_verbosity r) @
     dump_set ''web_search_options'' dump_web_search (cr_web_search_options r)"

text \<open>\<open>OpenAIChatRequest.to_json\<close>, the keys in the order of the declarations.\<close>

definition to_json :: "chat_request \<Rightarrow> json_object" where
  "to_json r =
     [(''model'', JStr (cr_model r)), (''messages'', JList (map dump_message (cr_messages r)))] @
     dump_options r"

section \<open>The payload\<close>

record governed_leaf =
  gl_message_index :: nat
  gl_part_index :: "nat option"
  gl_text :: string

fun text_leaves :: "nat \<Rightarrow> nat \<Rightarrow> user_part list \<Rightarrow> governed_leaf list" where
  "text_leaves m i [] = []"
| "text_leaves m i (UserText p # ps) =
     \<lparr>gl_message_index = m, gl_part_index = Some i, gl_text = tp_text p\<rparr> # text_leaves m (Suc i) ps"
| "text_leaves m i (p # ps) = text_leaves m (Suc i) ps"

text \<open>\<open>_openai_chat_governed_leaves\<close>: the loop runs from the last message to the first.\<close>

fun governed_leaves_down :: "chat_message list \<Rightarrow> nat \<Rightarrow> governed_leaf list" where
  "governed_leaves_down ms 0 = []"
| "governed_leaves_down ms (Suc i) =
     (case ms ! i of
        UserMessage m \<Rightarrow>
          (case um_content m of
             ContentStr s \<Rightarrow> [\<lparr>gl_message_index = i, gl_part_index = None, gl_text = s\<rparr>]
           | ContentParts ps \<Rightarrow> text_leaves i 0 ps)
      | _ \<Rightarrow> governed_leaves_down ms i)"

definition openai_chat_governed_leaves :: "chat_message list \<Rightarrow> governed_leaf list" where
  "openai_chat_governed_leaves ms = governed_leaves_down ms (length ms)"

record chat_payload =
  cp_request :: chat_request

definition chat_native_providers :: "string list" where
  "chat_native_providers = [''generic'', ''ollama'', ''openai'']"

definition chat_governance_text :: "chat_payload \<Rightarrow> string" where
  "chat_governance_text p = concat (map gl_text (openai_chat_governed_leaves (cr_messages (cp_request p))))"

text \<open>The comprehension that rebuilds the content list from \<open>replacement_by_part\<close>.\<close>

fun replace_parts :: "nat \<Rightarrow> (nat \<Rightarrow> string option) \<Rightarrow> user_part list \<Rightarrow> user_part list" where
  "replace_parts i by_part [] = []"
| "replace_parts i by_part (UserText p # ps) =
     (case by_part i of
        Some t \<Rightarrow> UserText (p\<lparr>tp_text := t\<rparr>)
      | None \<Rightarrow> UserText p) # replace_parts (Suc i) by_part ps"
| "replace_parts i by_part (p # ps) = p # replace_parts (Suc i) by_part ps"

definition replace_user_message :: "governed_leaf list \<Rightarrow> string list \<Rightarrow> user_message \<Rightarrow> user_message" where
  "replace_user_message lvs replacements m =
     (case um_content m of
        ContentStr s \<Rightarrow> m\<lparr>um_content := ContentStr (hd replacements)\<rparr>
      | ContentParts ps \<Rightarrow>
          m\<lparr>um_content := ContentParts
              (replace_parts 0 (map_of (zip (map (\<lambda>l. the (gl_part_index l)) lvs) replacements)) ps)\<rparr>)"

definition chat_with_redacted_text :: "chat_payload \<Rightarrow> string \<Rightarrow> chat_payload" where
  "chat_with_redacted_text p redacted =
     (let messages = cr_messages (cp_request p);
          lvs = openai_chat_governed_leaves messages
      in if lvs = [] then p
         else
           let index = gl_message_index (hd lvs);
               replacements = redistribute_redacted_text (map gl_text lvs) redacted
           in (case messages ! index of
                 UserMessage m \<Rightarrow>
                   \<lparr>cp_request = (cp_request p)\<lparr>cr_messages :=
                      messages[index := UserMessage (replace_user_message lvs replacements m)]\<rparr>\<rparr>
               | _ \<Rightarrow> p))"

definition chat_native_body :: "chat_payload \<Rightarrow> json_object" where
  "chat_native_body p = to_json (cp_request p)"

definition chat_to_chat_body :: "chat_payload \<Rightarrow> json_object" where
  "chat_to_chat_body p = to_json (cp_request p)"

section \<open>Leaves and frame of a payload\<close>

fun last_user :: "chat_message list \<Rightarrow> nat \<Rightarrow> nat option" where
  "last_user ms 0 = None"
| "last_user ms (Suc i) = (case ms ! i of UserMessage m \<Rightarrow> Some i | _ \<Rightarrow> last_user ms i)"

fun as_user :: "chat_message \<Rightarrow> user_message option" where
  "as_user (UserMessage m) = Some m"
| "as_user _ = None"

definition user_leaves :: "nat \<Rightarrow> user_message \<Rightarrow> governed_leaf list" where
  "user_leaves i m =
     (case um_content m of
        ContentStr s \<Rightarrow> [\<lparr>gl_message_index = i, gl_part_index = None, gl_text = s\<rparr>]
      | ContentParts ps \<Rightarrow> text_leaves i 0 ps)"

fun blank_part :: "user_part \<Rightarrow> user_part" where
  "blank_part (UserText p) = UserText (p\<lparr>tp_text := []\<rparr>)"
| "blank_part p = p"

definition blank_user :: "user_message \<Rightarrow> user_message" where
  "blank_user m =
     m\<lparr>um_content := (case um_content m of ContentStr s \<Rightarrow> ContentStr []
                      | ContentParts ps \<Rightarrow> ContentParts (map blank_part ps))\<rparr>"

text \<open>A request without its governed text: the texts of its last user message are blank.\<close>

definition chat_frame :: "chat_payload \<Rightarrow> chat_request" where
  "chat_frame p =
     (let r = cp_request p; ms = cr_messages r in
      case last_user ms (length ms) of
        None \<Rightarrow> r
      | Some i \<Rightarrow> r\<lparr>cr_messages := ms[i := UserMessage (blank_user (the (as_user (ms ! i))))]\<rparr>)"

definition chat_leaves :: "chat_payload \<Rightarrow> string list" where
  "chat_leaves p = map gl_text (openai_chat_governed_leaves (cr_messages (cp_request p)))"

lemma as_user_eq_Some: "as_user x = Some m \<longleftrightarrow> x = UserMessage m"
  by (cases x) auto

lemma last_user_Suc:
  "last_user ms (Suc i) = (case as_user (ms ! i) of Some m \<Rightarrow> Some i | None \<Rightarrow> last_user ms i)"
  by (cases "ms ! i") auto

lemma governed_leaves_Suc:
  "governed_leaves_down ms (Suc i) =
     (case as_user (ms ! i) of Some m \<Rightarrow> user_leaves i m | None \<Rightarrow> governed_leaves_down ms i)"
  by (cases "ms ! i") (auto simp: user_leaves_def)

declare last_user.simps(2) [simp del] governed_leaves_down.simps(2) [simp del]

lemma last_user_Some: "last_user ms n = Some i \<Longrightarrow> i < n \<and> (\<exists>m. ms ! i = UserMessage m)"
  by (induction n) (auto simp: last_user_Suc as_user_eq_Some split: option.splits)

lemma last_user_None: "last_user ms n = None \<Longrightarrow> i < n \<Longrightarrow> as_user (ms ! i) = None"
  by (induction n) (auto simp: last_user_Suc less_Suc_eq split: option.splits)

lemma governed_leaves_last:
  "governed_leaves_down ms n =
     (case last_user ms n of None \<Rightarrow> [] | Some i \<Rightarrow> user_leaves i (the (as_user (ms ! i))))"
  by (induction n) (auto simp: last_user_Suc governed_leaves_Suc split: option.splits)

lemma last_user_update:
  "last_user ms n = Some i \<Longrightarrow> n \<le> length ms \<Longrightarrow> last_user (ms[i := UserMessage m]) n = Some i"
proof (induction n)
  case (Suc n)
  then show ?case
    using last_user_Some [of ms n i]
    by (cases "n = i") (auto simp: last_user_Suc nth_list_update split: option.splits)
qed simp

lemma leaf_index: "l \<in> set (text_leaves k i ps) \<Longrightarrow> gl_message_index l = k \<and> (\<exists>j\<ge>i. gl_part_index l = Some j)"
  by (induction k i ps rule: text_leaves.induct) (fastforce intro: le_SucI Suc_leD)+

lemma chat_leaves_eq:
  "chat_leaves \<lparr>cp_request = q\<rparr> = map gl_text (openai_chat_governed_leaves (cr_messages q))"
  by (simp add: chat_leaves_def)

lemma user_leaf_index: "l \<in> set (user_leaves i m) \<Longrightarrow> gl_message_index l = i"
  by (auto simp: user_leaves_def dest: leaf_index split: content.splits)

lemma replace_parts_cong:
  "(\<And>j. i \<le> j \<Longrightarrow> f j = g j) \<Longrightarrow> replace_parts i f ps = replace_parts i g ps"
  by (induction i f ps rule: replace_parts.induct) auto

lemma replace_parts_blank: "map blank_part (replace_parts i f ps) = map blank_part ps"
  by (induction i f ps rule: replace_parts.induct) (auto split: option.splits)

lemma replace_parts_text:
  assumes "length rs = length (text_leaves k i ps)"
  shows "map gl_text (text_leaves k i (replace_parts i
    (map_of (zip (map (\<lambda>l. the (gl_part_index l)) (text_leaves k i ps)) rs)) ps)) = rs"
  using assms
proof (induction k i ps arbitrary: rs rule: text_leaves.induct)
  case (2 k i p ps)
  then obtain t ts where rs: "rs = t # ts" "length ts = length (text_leaves k (Suc i) ps)"
    by (cases rs) auto
  let ?f = "map_of (zip (map (\<lambda>l. the (gl_part_index l)) (text_leaves k (Suc i) ps)) ts)"
  have "replace_parts (Suc i) (?f(i \<mapsto> t)) ps = replace_parts (Suc i) ?f ps"
    by (rule replace_parts_cong) simp
  then have "map gl_text (text_leaves k (Suc i) (replace_parts (Suc i) (?f(i \<mapsto> t)) ps)) = ts"
    using 2(1) [OF rs(2)] by simp
  moreover have "(?f(i \<mapsto> t)) i = Some t" by simp
  ultimately show ?case by (simp add: rs(1) del: fun_upd_apply)
qed simp_all

lemma replace_user_leaves:
  assumes "length rs = length (user_leaves i m)" "user_leaves i m \<noteq> []"
  shows "map gl_text (user_leaves i (replace_user_message (user_leaves i m) rs m)) = rs"
proof (cases "um_content m")
  case (ContentStr s)
  then show ?thesis using assms by (cases rs) (auto simp: user_leaves_def replace_user_message_def)
next
  case (ContentParts ps)
  then show ?thesis
    using replace_parts_text [of rs i 0 ps] assms(1)
    by (simp add: user_leaves_def replace_user_message_def)
qed

lemma blank_replace_user: "blank_user (replace_user_message ls rs m) = blank_user m"
  by (cases "um_content m")
    (simp_all add: blank_user_def replace_user_message_def replace_parts_blank)

text \<open>
  How a redaction acts: without leaves it is the identity; otherwise it replaces the last user
  message, which the code's assertion checks is one.
\<close>

lemma chat_redact_cases:
  obtains (no_leaves) "chat_leaves p = []" "chat_with_redacted_text p r = p"
  | (replaced) i m where
      "last_user (cr_messages (cp_request p)) (length (cr_messages (cp_request p))) = Some i"
      "cr_messages (cp_request p) ! i = UserMessage m" "i < length (cr_messages (cp_request p))"
      "user_leaves i m \<noteq> []" "chat_leaves p = map gl_text (user_leaves i m)"
      "chat_with_redacted_text p r =
         \<lparr>cp_request = (cp_request p)\<lparr>cr_messages := (cr_messages (cp_request p))
           [i := UserMessage (replace_user_message (user_leaves i m)
             (redistribute_redacted_text (chat_leaves p) r) m)]\<rparr>\<rparr>"
proof (cases "last_user (cr_messages (cp_request p)) (length (cr_messages (cp_request p)))")
  case None
  then show thesis
    using no_leaves by (simp add: chat_leaves_def chat_with_redacted_text_def
      openai_chat_governed_leaves_def governed_leaves_last)
next
  case (Some i)
  let ?ms = "cr_messages (cp_request p)"
  obtain m where m: "?ms ! i = UserMessage m" "i < length ?ms" using last_user_Some [OF Some] by auto
  have l: "openai_chat_governed_leaves ?ms = user_leaves i m"
    using Some m by (simp add: openai_chat_governed_leaves_def governed_leaves_last)
  show thesis
  proof (cases "user_leaves i m = []")
    case True
    then show thesis using no_leaves l by (simp add: chat_leaves_def chat_with_redacted_text_def)
  next
    case False
    have "gl_message_index (hd (user_leaves i m)) = i"
      using False by (intro user_leaf_index [where m = m]) simp
    then have "chat_with_redacted_text p r =
         \<lparr>cp_request = (cp_request p)\<lparr>cr_messages := ?ms
           [i := UserMessage (replace_user_message (user_leaves i m)
             (redistribute_redacted_text (chat_leaves p) r) m)]\<rparr>\<rparr>"
      using False by (simp add: chat_leaves_def chat_with_redacted_text_def l m Let_def)
    then show thesis
      using l by (intro replaced [OF Some m False]) (simp_all add: chat_leaves_def)
  qed
qed

lemma chat_leaves_redact:
  "chat_leaves (chat_with_redacted_text p r) = redistribute_redacted_text (chat_leaves p) r"
proof (cases rule: chat_redact_cases [of p r])
  case no_leaves
  then show ?thesis using redistribute_length [of "[]" r] by simp
next
  case (replaced i m)
  let ?rs = "redistribute_redacted_text (chat_leaves p) r"
  have len: "length ?rs = length (user_leaves i m)"
    by (simp add: redistribute_length replaced(5))
  show ?thesis
    using replace_user_leaves [OF len replaced(4)] last_user_update [OF replaced(1)] replaced(3)
    by (simp add: chat_leaves_eq replaced(6) openai_chat_governed_leaves_def governed_leaves_last)
qed

lemma chat_frame_redact: "chat_frame (chat_with_redacted_text p r) = chat_frame p"
proof (cases rule: chat_redact_cases [of p r])
  case (replaced i m)
  show ?thesis
    using last_user_update [OF replaced(1)] replaced(1-3)
    by (simp add: chat_frame_def replaced(6) Let_def blank_replace_user)
qed simp

interpretation chat: gateway_payload chat_leaves chat_governance_text chat_with_redacted_text chat_frame
  by unfold_locales
    (simp_all add: chat_leaves_redact chat_frame_redact chat_governance_text_def chat_leaves_def [symmetric])

section \<open>Properties\<close>

text \<open>
  C8. What reaches a provider after redaction of a Chat request: if the last user message has any text,
  the governance text of the redacted payload is exactly the redacted text; every other message,
  every non-text part of that message and every other field of the request is unchanged; and if there
  is no such text nothing changes. Only the last user message is ever governed: the leaves of a request do
  not depend on the other messages.
\<close>

theorem chat_redaction_correct:
  "chat_governance_text (chat_with_redacted_text p r) = (if chat_leaves p = [] then [] else r) \<and>
   chat_frame (chat_with_redacted_text p r) = chat_frame p \<and>
   chat_leaves (chat_with_redacted_text p (chat_governance_text p)) = chat_leaves p"
  using chat.text_redact [of p r] chat_frame_redact [of p r] chat.redact_own_text [of p] by simp

end
