(* ===== verification/ProviderDispatch.thy ===== *)
theory ProviderDispatch imports GatewayHttp Usage ChatTypes "HOL-Library.List_Lexorder" "HOL-Library.Char_ord" begin

text \<open>
  \<open>proxy/app/provider_capabilities.py\<close> and \<open>provider_dispatch.py\<close>: which fields of a Chat
  request each provider's adapter preserves, the check that refuses a translation that would lose
  one, and the choice of the adapter. The adapters themselves are a function of the environment;
  field sets are lists in the order of the source.
\<close>

section \<open>Field inventories\<close>

definition OPENAI_CHAT_FIELDS :: "string list" where
  "OPENAI_CHAT_FIELDS =
    [''audio'', ''frequency_penalty'', ''function_call'', ''functions'', ''logit_bias'',
     ''logprobs'', ''max_completion_tokens'', ''max_tokens'', ''messages'', ''metadata'',
     ''modalities'', ''model'', ''moderation'', ''n'', ''parallel_tool_calls'', ''prediction'',
     ''presence_penalty'', ''prompt_cache_key'', ''prompt_cache_options'',
     ''prompt_cache_retention'', ''reasoning_effort'', ''response_format'', ''safety_identifier'',
     ''seed'', ''service_tier'', ''stop'', ''store'', ''stream'', ''stream_options'',
     ''temperature'', ''tool_choice'', ''tools'', ''top_logprobs'', ''top_p'', ''user'',
     ''verbosity'', ''web_search_options'']"

definition OPENAI_RESPONSES_FIELDS :: "string list" where
  "OPENAI_RESPONSES_FIELDS =
    [''background'', ''context_management'', ''conversation'', ''include'', ''input'',
     ''instructions'', ''max_output_tokens'', ''max_tool_calls'', ''metadata'', ''model'',
     ''moderation'', ''parallel_tool_calls'', ''previous_response_id'', ''prompt'',
     ''prompt_cache_key'', ''prompt_cache_options'', ''prompt_cache_retention'', ''reasoning'',
     ''safety_identifier'', ''service_tier'', ''store'', ''stream'', ''stream_options'',
     ''temperature'', ''text'', ''tool_choice'', ''tools'', ''top_logprobs'', ''top_p'',
     ''truncation'', ''user'']"

definition CODEX_RESPONSES_EXTENSION_FIELDS :: "string list" where
  "CODEX_RESPONSES_EXTENSION_FIELDS =
    [''client_metadata'']"

definition ANTHROPIC_BETA_MESSAGES_EXTENSION_FIELDS :: "string list" where
  "ANTHROPIC_BETA_MESSAGES_EXTENSION_FIELDS =
    [''context_management'']"

definition ANTHROPIC_MESSAGES_FIELDS :: "string list" where
  "ANTHROPIC_MESSAGES_FIELDS =
    [''cache_control'', ''container'', ''inference_geo'', ''max_tokens'', ''messages'',
     ''metadata'', ''model'', ''output_config'', ''service_tier'', ''stop_sequences'', ''stream'',
     ''system'', ''temperature'', ''thinking'', ''tool_choice'', ''tools'', ''top_k'', ''top_p'',
     ''user_profile_id'']"

definition GEMINI_GENERATE_CONFIG_FIELDS :: "string list" where
  "GEMINI_GENERATE_CONFIG_FIELDS =
    [''audio_timestamp'', ''audio_transcription_config'', ''automatic_function_calling'',
     ''cached_content'', ''candidate_count'', ''enable_enhanced_civic_answers'',
     ''frequency_penalty'', ''http_options'', ''image_config'', ''labels'', ''logprobs'',
     ''max_output_tokens'', ''media_resolution'', ''model_armor_config'',
     ''model_selection_config'', ''presence_penalty'', ''response_json_schema'',
     ''response_logprobs'', ''response_mime_type'', ''response_modalities'', ''response_schema'',
     ''routing_config'', ''safety_settings'', ''seed'', ''service_tier'',
     ''should_return_http_response'', ''speech_config'', ''stop_sequences'',
     ''system_instruction'', ''temperature'', ''thinking_config'', ''tool_config'', ''tools'',
     ''top_k'', ''top_p'']"

definition ANTHROPIC_CHAT_TRANSLATION_FIELDS :: "string list" where
  "ANTHROPIC_CHAT_TRANSLATION_FIELDS =
    [''max_completion_tokens'', ''max_tokens'', ''messages'', ''model'', ''stop'', ''stream'',
     ''temperature'', ''tool_choice'', ''tools'', ''top_p'']"

definition GEMINI_CHAT_TRANSLATION_FIELDS :: "string list" where
  "GEMINI_CHAT_TRANSLATION_FIELDS =
    [''max_completion_tokens'', ''max_tokens'', ''messages'', ''model'', ''stop'', ''stream'',
     ''temperature'', ''tool_choice'', ''tools'', ''top_p'']"

section \<open>Capabilities\<close>

record provider_capabilities =
  pv_native_protocols :: "wire_protocol list"
  pv_chat_translation_fields :: "string list"
  pv_extra_finish_reasons :: "string list"

record gemini_dialect =
  gd_name :: string
  gd_include_model_in_body :: bool
  gd_block_reason_unset :: string
  gd_extra_finish_reasons :: "string list"

definition DEVELOPER_API_DIALECT :: gemini_dialect where
  "DEVELOPER_API_DIALECT =
     \<lparr>gd_name = ''gemini'', gd_include_model_in_body = True,
      gd_block_reason_unset = ''BLOCK_REASON_UNSPECIFIED'',
      gd_extra_finish_reasons = [''LANGUAGE'', ''TOO_MANY_TOOL_CALLS'', ''MISSING_THOUGHT_SIGNATURE'',
        ''MALFORMED_RESPONSE'', ''ESCALATION'']\<rparr>"

definition VERTEX_DIALECT :: gemini_dialect where
  "VERTEX_DIALECT =
     \<lparr>gd_name = ''gemini-vertex'', gd_include_model_in_body = False,
      gd_block_reason_unset = ''BLOCKED_REASON_UNSPECIFIED'',
      gd_extra_finish_reasons = [''MODEL_ARMOR'']\<rparr>"

definition PROVIDER_CAPABILITIES :: "(string \<times> provider_capabilities) list" where
  "PROVIDER_CAPABILITIES =
     [(''anthropic'', \<lparr>pv_native_protocols = [AnthropicMessages],
         pv_chat_translation_fields = ANTHROPIC_CHAT_TRANSLATION_FIELDS, pv_extra_finish_reasons = []\<rparr>),
      (''gemini'', \<lparr>pv_native_protocols = [],
         pv_chat_translation_fields = GEMINI_CHAT_TRANSLATION_FIELDS,
         pv_extra_finish_reasons = gd_extra_finish_reasons DEVELOPER_API_DIALECT\<rparr>),
      (''gemini-vertex'', \<lparr>pv_native_protocols = [],
         pv_chat_translation_fields = GEMINI_CHAT_TRANSLATION_FIELDS,
         pv_extra_finish_reasons = gd_extra_finish_reasons VERTEX_DIALECT\<rparr>),
      (''openai'', \<lparr>pv_native_protocols = [OpenaiChat, OpenaiResponses],
         pv_chat_translation_fields = OPENAI_CHAT_FIELDS, pv_extra_finish_reasons = []\<rparr>),
      (''ollama'', \<lparr>pv_native_protocols = [OpenaiChat],
         pv_chat_translation_fields = OPENAI_CHAT_FIELDS, pv_extra_finish_reasons = []\<rparr>),
      (''generic'', \<lparr>pv_native_protocols = [OpenaiChat],
         pv_chat_translation_fields = OPENAI_CHAT_FIELDS, pv_extra_finish_reasons = []\<rparr>),
      (''mock'', \<lparr>pv_native_protocols = [OpenaiChat],
         pv_chat_translation_fields = OPENAI_CHAT_FIELDS, pv_extra_finish_reasons = []\<rparr>)]"

definition has_base_url :: "json_object option \<Rightarrow> bool" where
  \<comment> \<open>\<open>model_entry and model_entry.get("base_url")\<close>\<close>
  "has_base_url entry = (case entry of None \<Rightarrow> False | Some e \<Rightarrow> json_truthy (jget e ''base_url''))"

definition capability_provider_for :: "string \<Rightarrow> json_object option \<Rightarrow> string option" where
  "capability_provider_for provider model_entry =
     (if map_of PROVIDER_CAPABILITIES provider \<noteq> None then Some provider
      else if has_base_url model_entry then Some ''generic''
      else None)"

definition unsupported_chat_fields :: "string \<Rightarrow> json_object \<Rightarrow> string list" where
  "unsupported_chat_fields provider body =
     (case map_of PROVIDER_CAPABILITIES provider of
        None \<Rightarrow> sort (map fst body)
      | Some c \<Rightarrow>
          sort (map fst (filter (\<lambda>(k, v). k \<notin> set (pv_chat_translation_fields c) \<and> v \<noteq> JNull) body)))"

section \<open>Dispatch\<close>

text \<open>The protocol class \<open>GatewayPayload\<close>: what dispatch and the pipeline use of a payload.\<close>

record 'p payload_ops =
  po_protocol :: wire_protocol
  po_native_providers :: "string list"
  po_model :: "'p \<Rightarrow> string"
  po_stream :: "'p \<Rightarrow> bool"
  po_governance_text :: "'p \<Rightarrow> string"
  po_with_redacted_text :: "'p \<Rightarrow> string \<Rightarrow> 'p"
  po_native_body :: "'p \<Rightarrow> string + json_object"  \<comment> \<open>\<open>Inl\<close>: a \<open>ProtocolTranslationError\<close>\<close>
  po_to_chat_body :: "'p \<Rightarrow> string + json_object"

definition chat_ops :: "chat_payload payload_ops" where
  "chat_ops = \<lparr>po_protocol = OpenaiChat, po_native_providers = chat_native_providers,
     po_model = (\<lambda>p. cr_model (cp_request p)), po_stream = (\<lambda>p. request_stream (cp_request p)),
     po_governance_text = chat_governance_text, po_with_redacted_text = chat_with_redacted_text,
     po_native_body = (\<lambda>p. Inr (chat_native_body p)), po_to_chat_body = (\<lambda>p. Inr (chat_to_chat_body p))\<rparr>"

datatype adapter =
    MockChat
  | OpenaiResponsesApi
  | OpenaiChatApi
  | AnthropicMessagesApi
  | AnthropicChat
  | GeminiChat
  | GeminiVertexChat
  | OllamaChat
  | GenericChat string string  \<comment> \<open>base URL and API key\<close>

record provider_call =
  pc_adapter :: adapter
  pc_body :: json_object
  pc_stream :: bool
  pc_extra_headers :: json_object
  pc_upstream_headers :: "string dict"

record dispatch_result =
  dr_call :: provider_call
  dr_response_protocol :: wire_protocol
  dr_usage_provider :: string

definition translation_error_type :: "wire_protocol \<Rightarrow> string" where
  "translation_error_type protocol =
     (case protocol of
        AnthropicMessages \<Rightarrow> ''unsupported_message_shape''
      | OpenaiResponses \<Rightarrow> ''unsupported_response_shape''
      | OpenaiChat \<Rightarrow> ''unsupported_protocol_translation'')"

definition unsupported_provider :: "string \<Rightarrow> json_object \<Rightarrow> gateway_error" where
  "unsupported_provider provider extra_headers =
     http_error_with 400 (error_envelope ''unsupported_provider'' (''Provider '' @ provider @ '' not supported''))
       extra_headers"

definition validate_translated_chat_fields ::
    "string \<Rightarrow> json_object \<Rightarrow> json_object option \<Rightarrow> json_object \<Rightarrow> gateway_error + unit" where
  "validate_translated_chat_fields provider body model_entry extra_headers =
     (case capability_provider_for provider model_entry of
        None \<Rightarrow> Inl (unsupported_provider provider extra_headers)
      | Some cp \<Rightarrow>
          (let unsupported = unsupported_chat_fields cp body in
           if unsupported \<noteq> [] then
             Inl (http_error_with 422
               (error_envelope_full ''unsupported_protocol_translation''
                 (''Provider '' @ provider @ '' cannot preserve Chat fields: '' @ py_join '', '' unsupported)
                 [] [] [] (Some [(''provider'', JStr provider), (''fields'', JList (map JStr unsupported))]))
               extra_headers)
           else Inr ()))"

definition model_entry_for :: "(string \<times> json_object) list \<Rightarrow> string \<Rightarrow> json_object option" where
  "model_entry_for models_by_id model_id = map_of models_by_id model_id"

text \<open>
  The chain of \<open>if provider == ...\<close>; \<open>fmt\<close> is \<open>str\<close> on a value that is no string and
  \<open>vertex\<close> tells whether that client is configured.
\<close>

definition select_adapter ::
    "(json \<Rightarrow> string) \<Rightarrow> bool \<Rightarrow> string \<Rightarrow> wire_protocol \<Rightarrow> bool \<Rightarrow> json_object option \<Rightarrow> string dict \<Rightarrow>
     json_object \<Rightarrow> gateway_error + (adapter \<times> string dict \<times> wire_protocol \<times> string)" where
  "select_adapter fmt vertex provider protocol native_dispatch model_entry lower_headers extra_headers =
     (if provider = ''openai'' then
        (if native_dispatch \<and> protocol = OpenaiResponses
         then Inr (OpenaiResponsesApi, filter (\<lambda>(k, v). k = ''openai-beta'') lower_headers, OpenaiResponses, ''openai'')
         else Inr (OpenaiChatApi, [], OpenaiChat, ''openai''))
      else if provider = ''anthropic'' then
        (if native_dispatch \<and> protocol = AnthropicMessages
         then Inr (AnthropicMessagesApi,
                filter (\<lambda>(k, v). k \<in> {''anthropic-beta'', ''anthropic-version''}) lower_headers,
                AnthropicMessages, ''anthropic'')
         else Inr (AnthropicChat, [], OpenaiChat, ''openai''))
      else if provider = ''gemini'' then Inr (GeminiChat, [], OpenaiChat, ''openai'')
      else if provider = ''gemini-vertex'' then
        (if \<not> vertex
         then Inl (http_error_with 500 (error_envelope ''provider_not_configured''
                ''gemini-vertex provider is not configured on this gateway'') extra_headers)
         else Inr (GeminiVertexChat, [], OpenaiChat, ''openai''))
      else if provider = ''ollama'' then Inr (OllamaChat, [], OpenaiChat, ''openai'')
      else if has_base_url model_entry then
        Inr (GenericChat (py_str_json fmt (jget (the model_entry) ''base_url''))
               (py_str_json fmt (jget_or (the model_entry) ''api_key'' (JStr []))), [], OpenaiChat, ''openai'')
      else Inl (unsupported_provider provider extra_headers))"

definition dispatch_provider ::
    "(json \<Rightarrow> string) \<Rightarrow> bool \<Rightarrow> bool \<Rightarrow> 'p payload_ops \<Rightarrow> string \<Rightarrow> 'p \<Rightarrow> json_object option \<Rightarrow>
     string dict \<Rightarrow> json_object \<Rightarrow> gateway_error + dispatch_result" where
  "dispatch_provider fmt vertex mock_mode ops provider payload model_entry lower_headers extra_headers =
     (let native_dispatch = (\<not> mock_mode \<and> provider \<in> set (po_native_providers ops)) in
      case (if native_dispatch then po_native_body ops payload else po_to_chat_body ops payload) of
        Inl msg \<Rightarrow>
          Inl (http_error_with 422 (error_envelope (translation_error_type (po_protocol ops)) msg) extra_headers)
      | Inr body \<Rightarrow>
          ebind (if \<not> native_dispatch \<and> \<not> mock_mode
                 then validate_translated_chat_fields provider body model_entry extra_headers else Inr ()) (\<lambda>_.
          ebind (if mock_mode then Inr (MockChat, [], OpenaiChat, ''openai'')
                 else select_adapter fmt vertex provider (po_protocol ops) native_dispatch model_entry
                        lower_headers extra_headers) (\<lambda>(ad, up, proto, up_provider).
            Inr \<lparr>dr_call = \<lparr>pc_adapter = ad, pc_body = body, pc_stream = po_stream ops payload,
                           pc_extra_headers = extra_headers, pc_upstream_headers = up\<rparr>,
                 dr_response_protocol = proto, dr_usage_provider = up_provider\<rparr>)))"

section \<open>Lemmas\<close>

text \<open>The fields an adapter is given that it was declared to preserve.\<close>

definition adapter_fields :: "adapter \<Rightarrow> string list" where
  "adapter_fields ad =
     (case ad of
        AnthropicChat \<Rightarrow> ANTHROPIC_CHAT_TRANSLATION_FIELDS
      | GeminiChat \<Rightarrow> GEMINI_CHAT_TRANSLATION_FIELDS
      | GeminiVertexChat \<Rightarrow> GEMINI_CHAT_TRANSLATION_FIELDS
      | _ \<Rightarrow> OPENAI_CHAT_FIELDS)"

lemma unsupported_chat_fields_empty:
  "map_of PROVIDER_CAPABILITIES p = Some c \<Longrightarrow> unsupported_chat_fields p body = [] \<longleftrightarrow>
     (\<forall>(k, v)\<in>set body. v \<noteq> JNull \<longrightarrow> k \<in> set (pv_chat_translation_fields c))"
proof -
  assume p: "map_of PROVIDER_CAPABILITIES p = Some c"
  have "sort xs = [] \<longleftrightarrow> xs = []" for xs :: "string list"
    by (metis set_empty set_sort)
  then show ?thesis using p by (auto simp: unsupported_chat_fields_def filter_empty_conv)
qed

lemma dump_set_subset: "k \<in> S \<Longrightarrow> fst ` set (dump_set k enc f) \<subseteq> S"
  by (simp add: keys_dump_set)

lemma stream_entry_subset:
  "''stream'' \<in> S \<Longrightarrow> fst ` set (case b of None \<Rightarrow> [] | Some c \<Rightarrow> [(''stream'', JBool c)]) \<subseteq> S"
  by (cases b) simp_all

lemma keys_to_json: "fst ` set (to_json r) \<subseteq> set OPENAI_CHAT_FIELDS"
  unfolding to_json_def dump_options_def set_append image_Un Un_subset_iff
  by (intro conjI dump_set_subset stream_entry_subset) (simp_all add: OPENAI_CHAT_FIELDS_def)

lemma capability_fields:
  "map_of PROVIDER_CAPABILITIES p = Some c \<Longrightarrow>
     pv_chat_translation_fields c =
       (if p = ''anthropic'' then ANTHROPIC_CHAT_TRANSLATION_FIELDS
        else if p = ''gemini'' \<or> p = ''gemini-vertex'' then GEMINI_CHAT_TRANSLATION_FIELDS
        else OPENAI_CHAT_FIELDS)"
  by (auto simp: PROVIDER_CAPABILITIES_def split: if_splits)

lemma capability_known:
  "p = ''anthropic'' \<or> p = ''gemini'' \<or> p = ''gemini-vertex'' \<or> p = ''generic'' \<Longrightarrow>
     map_of PROVIDER_CAPABILITIES p \<noteq> None"
  by (auto simp: PROVIDER_CAPABILITIES_def)

lemma capability_provider_cases:
  "capability_provider_for p entry = Some cp \<Longrightarrow>
     map_of PROVIDER_CAPABILITIES cp \<noteq> None \<and>
     (cp = p \<or> cp = ''generic'' \<and> map_of PROVIDER_CAPABILITIES p = None)"
  using capability_known [of "''generic''"] by (auto simp: capability_provider_for_def split: if_splits)

lemma not_False: "\<not> False"
  by simp

lemma select_adapter_fields:
  "select_adapter fmt vertex provider proto native entry lh eh = Inr (ad, up, pr, us) \<Longrightarrow>
   proto = OpenaiChat \<or> \<not> native \<Longrightarrow>
     adapter_fields ad =
       (if provider = ''anthropic'' then ANTHROPIC_CHAT_TRANSLATION_FIELDS
        else if provider = ''gemini'' \<or> provider = ''gemini-vertex'' then GEMINI_CHAT_TRANSLATION_FIELDS
        else OPENAI_CHAT_FIELDS)"
  by (auto simp: select_adapter_def adapter_fields_def split: if_splits)

lemma validated_fields:
  assumes "validate_translated_chat_fields provider body entry eh = Inr u"
    and "select_adapter fmt vertex provider proto False entry lh eh = Inr (ad, up, pr, us)"
    and "(k, v) \<in> set body" "v \<noteq> JNull"
  shows "k \<in> set (adapter_fields ad)"
proof -
  obtain cp where cp: "capability_provider_for provider entry = Some cp" "unsupported_chat_fields cp body = []"
    using assms(1) by (auto simp: validate_translated_chat_fields_def Let_def split: option.splits if_splits)
  note cases = capability_provider_cases [OF cp(1)]
  then obtain c where c: "map_of PROVIDER_CAPABILITIES cp = Some c" by blast
  have "k \<in> set (pv_chat_translation_fields c)"
    using unsupported_chat_fields_empty [OF c, of body] cp(2) assms(3,4) by auto
  moreover have "pv_chat_translation_fields c = adapter_fields ad"
  proof -
    have "cp = provider \<or> cp = ''generic'' \<and> \<not> (provider = ''anthropic'' \<or> provider = ''gemini'' \<or> provider = ''gemini-vertex'')"
      using cases capability_known [of provider] by blast
    then show ?thesis
      unfolding capability_fields [OF c] select_adapter_fields [OF assms(2) disjI2 [OF not_False]]
      by (elim disjE conjE) simp_all
  qed
  ultimately show ?thesis by simp
qed

lemma dispatch_Inr:
  assumes "dispatch_provider fmt vertex mock ops provider p entry lh eh = Inr d"
  obtains (mocked) "mock" "pc_adapter (dr_call d) = MockChat" "po_to_chat_body ops p = Inr (pc_body (dr_call d))"
  | (native) up us pr where "\<not> mock" "provider \<in> set (po_native_providers ops)"
      "po_native_body ops p = Inr (pc_body (dr_call d))"
      "select_adapter fmt vertex provider (po_protocol ops) True entry lh eh = Inr (pc_adapter (dr_call d), up, pr, us)"
  | (translated) up us pr u where "\<not> mock" "provider \<notin> set (po_native_providers ops)"
      "po_to_chat_body ops p = Inr (pc_body (dr_call d))"
      "validate_translated_chat_fields provider (pc_body (dr_call d)) entry eh = Inr u"
      "select_adapter fmt vertex provider (po_protocol ops) False entry lh eh = Inr (pc_adapter (dr_call d), up, pr, us)"
  using assms
  by (auto simp: dispatch_provider_def Let_def ebind_eq_Inr split: sum.splits if_splits)

section \<open>Properties\<close>

text \<open>
  No adapter is ever handed a field it would silently drop: whatever provider a Chat request is
  dispatched to, every field with a value in the body it receives is one the adapter is declared to
  preserve, and the body is the request's own dump. A request with any other field is refused before dispatch.
\<close>

theorem chat_dispatch_preserves_fields:
  assumes "dispatch_provider fmt vertex False chat_ops provider p entry lh eh = Inr d"
    and "(k, v) \<in> set (pc_body (dr_call d))" "v \<noteq> JNull"
  shows "k \<in> set (adapter_fields (pc_adapter (dr_call d))) \<and> pc_body (dr_call d) = to_json (cp_request p)"
  using assms(1)
proof (cases rule: dispatch_Inr)
  case (native up us pr)
  then have b: "pc_body (dr_call d) = to_json (cp_request p)" by (simp add: chat_ops_def chat_native_body_def)
  have "adapter_fields (pc_adapter (dr_call d)) = OPENAI_CHAT_FIELDS"
    using native(2) select_adapter_fields [OF native(4)] by (auto simp: chat_ops_def chat_native_providers_def)
  moreover have "k \<in> fst ` set (to_json (cp_request p))" using assms(2) b by force
  ultimately show ?thesis using keys_to_json [of "cp_request p"] b by auto
next
  case (translated up us pr u)
  then show ?thesis
    using validated_fields [OF translated(4,5) assms(2,3)] by (simp add: chat_ops_def chat_to_chat_body_def)
qed simp

section \<open>Witnesses\<close>

definition wit_request :: chat_request where
  "wit_request = \<lparr>cr_model = ''claude-x'', cr_messages = [], cr_audio = Unset, cr_frequency_penalty = Unset,
     cr_function_call = Unset, cr_functions = Unset, cr_logit_bias = Unset, cr_logprobs = Unset,
     cr_max_completion_tokens = Unset, cr_max_tokens = Unset, cr_metadata = Unset, cr_modalities = Unset,
     cr_moderation = Unset, cr_n = Unset, cr_parallel_tool_calls = Unset, cr_prediction = Unset,
     cr_presence_penalty = Unset, cr_prompt_cache_key = Unset, cr_prompt_cache_options = Unset,
     cr_prompt_cache_retention = Unset, cr_reasoning_effort = Unset, cr_response_format = Unset,
     cr_safety_identifier = Unset, cr_seed = Unset, cr_service_tier = Unset, cr_stop = Unset,
     cr_store = Unset, cr_stream = None, cr_stream_options = Unset, cr_temperature = Unset,
     cr_tool_choice = Unset, cr_tools = Unset, cr_top_logprobs = Unset, cr_top_p = Unset,
     cr_user = Unset, cr_verbosity = Unset, cr_web_search_options = Unset\<rparr>"

lemma wit_to_json: "to_json wit_request = [(''model'', JStr ''claude-x''), (''messages'', JList [])]"
  by (simp add: to_json_def dump_options_def wit_request_def)

theorem chat_dispatch_preserves_fields_witness:
  "''model'' \<in> set (adapter_fields AnthropicChat)"
proof -
  let ?p = "\<lparr>cp_request = wit_request\<rparr>"
  let ?d = "\<lparr>dr_call = \<lparr>pc_adapter = AnthropicChat, pc_body = to_json wit_request, pc_stream = False,
      pc_extra_headers = [], pc_upstream_headers = []\<rparr>, dr_response_protocol = OpenaiChat,
    dr_usage_provider = ''openai''\<rparr>"
  have "unsupported_chat_fields ''anthropic'' (to_json wit_request) = []"
    by (simp add: unsupported_chat_fields_def PROVIDER_CAPABILITIES_def wit_to_json
        ANTHROPIC_CHAT_TRANSLATION_FIELDS_def)
  then have "dispatch_provider (\<lambda>_. []) False False chat_ops ''anthropic'' ?p None [] [] = Inr ?d"
    by (simp add: dispatch_provider_def chat_ops_def chat_native_providers_def chat_to_chat_body_def
        validate_translated_chat_fields_def capability_provider_for_def PROVIDER_CAPABILITIES_def
        select_adapter_def request_stream_def) (simp add: wit_request_def)
  from chat_dispatch_preserves_fields [OF this, of "''model''" "JStr ''claude-x''"]
  show ?thesis by (simp add: wit_to_json)
qed

end
