(* ===== verification/GeminiCommon.thy ===== *)
theory GeminiCommon imports ProviderDispatch begin

text \<open>
  \<open>proxy/app/providers/_gemini_common.py\<close>: Chat requests to Gemini's \<open>generateContent\<close>, and its
  responses and streams back to Chat, for the Developer API and for Vertex. \<open>json.loads\<close> (\<open>None\<close> for a
  \<open>JSONDecodeError\<close>), \<open>json.dumps\<close>, \<open>repr\<close> and \<open>str\<close> of other values, and the random ids are parameters.
\<close>

section \<open>Dialects\<close>

datatype gemini_error =
    GeminiTranslationError string
  | GeminiRaised py_error

definition FINISH_REASON_MAP :: "(string \<times> string) list" where
  "FINISH_REASON_MAP = [(''STOP'', ''stop''), (''MAX_TOKENS'', ''length''), (''SAFETY'', ''content_filter'')]"

section \<open>Requests\<close>

definition gfail :: "string \<Rightarrow> gemini_error + 'a" where
  "gfail m = Inl (GeminiTranslationError m)"

definition nth_of :: "string \<Rightarrow> nat \<Rightarrow> string" where
  "nth_of what i = what @ '' '' @ py_str_int (int i)"

text \<open>A list or an object is not hashable, so the membership test on it raises.\<close>

definition text_part_value :: "string \<Rightarrow> nat \<Rightarrow> json \<Rightarrow> gemini_error + string" where
  "text_part_value location index part =
     (let what = location @ '' '' @ nth_of ''content part'' index;
          unsupported = gfail (what @ '' is not supported by the Gemini adapter'')
      in case part of
           JObj d \<Rightarrow>
             (case jget d ''type'' of
                JStr t \<Rightarrow>
                  (if t \<notin> {''text'', ''input_text''} then unsupported
                   else (case jget d ''text'' of
                           JStr v \<Rightarrow> Inr v
                         | _ \<Rightarrow> gfail (what @ '' requires string text'')))
              | JList _ \<Rightarrow> Inl (GeminiRaised TypeError)
              | JObj _ \<Rightarrow> Inl (GeminiRaised TypeError)
              | _ \<Rightarrow> unsupported)
         | _ \<Rightarrow> unsupported)"

definition extract_message_text :: "string \<Rightarrow> json \<Rightarrow> gemini_error + string" where
  "extract_message_text location content =
     (case content of
        JStr s \<Rightarrow> Inr s
      | JNull \<Rightarrow> Inr []
      | JList ps \<Rightarrow> ebind (emap_from (text_part_value location) 0 ps) (\<lambda>ts. Inr (concat ts))
      | _ \<Rightarrow> gfail (location @ '' content must be text''))"

definition arguments_value :: "(string \<Rightarrow> json option) \<Rightarrow> json_object \<Rightarrow> json option" where
  "arguments_value loads f =
     (case jget_or f ''arguments'' (JStr ''{}'') of JStr s \<Rightarrow> loads s | v \<Rightarrow> Some v)"

text \<open>One tool call of an assistant message: the call and, if it has one, its id with the function's name.\<close>

definition function_call_part ::
  "(string \<Rightarrow> json option) \<Rightarrow> nat \<Rightarrow> nat \<Rightarrow> json \<Rightarrow> gemini_error + (json \<times> (string \<times> string) option)" where
  "function_call_part loads message_index call_index tool_call =
     (let what = nth_of ''message'' message_index @ '' '' @ nth_of ''tool call'' call_index in
      case tool_call of
        JObj d \<Rightarrow>
          (if jget_or d ''type'' (JStr ''function'') \<noteq> JStr ''function'' then gfail (what @ '' must be a function call'')
           else (case jget d ''function'' of
                   JObj f \<Rightarrow>
                     (case jget f ''name'' of
                        JStr name \<Rightarrow>
                          (case arguments_value loads f of
                             None \<Rightarrow> gfail (what @ '' arguments are not valid JSON'')
                           | Some (JObj args) \<Rightarrow>
                               (case jget d ''id'' of
                                  JStr call_id \<Rightarrow>
                                    Inr (JObj [(''functionCall'', JObj [(''name'', JStr name), (''args'', JObj args),
                                           (''id'', JStr call_id)])], Some (call_id, name))
                                | _ \<Rightarrow>
                                    Inr (JObj [(''functionCall'', JObj [(''name'', JStr name), (''args'', JObj args)])], None))
                           | Some _ \<Rightarrow> gfail (what @ '' arguments must be an object''))
                      | _ \<Rightarrow> gfail (what @ '' requires a function name''))
                 | _ \<Rightarrow> gfail (what @ '' requires a function name'')))
      | _ \<Rightarrow> gfail (what @ '' must be a function call''))"

text \<open>
  What the loop over the messages appends for one message: nothing for a system or developer message,
  otherwise one content; and the ids it adds to \<open>tool_names_by_call_id\<close>.
\<close>

definition assistant_contents ::
  "(string \<Rightarrow> json option) \<Rightarrow> nat \<Rightarrow> string \<Rightarrow> json_object \<Rightarrow> gemini_error + (json list \<times> (string \<times> string) list)" where
  "assistant_contents loads i text m =
     (case jget_or m ''tool_calls'' (JList []) of
        JList tcs \<Rightarrow>
          ebind (emap_from (function_call_part loads i) 0 tcs) (\<lambda>calls.
            Inr ([JObj [(''role'', JStr ''model''),
                   (''parts'', JList ((if text = [] then [] else [JObj [(''text'', JStr text)]]) @ map fst calls))]],
                 List.map_filter snd calls))
      | _ \<Rightarrow> gfail (nth_of ''message'' i @ '' tool_calls must be a list''))"

definition tool_contents :: "nat \<Rightarrow> string \<Rightarrow> string dict \<Rightarrow> json_object \<Rightarrow> gemini_error + json list" where
  "tool_contents i text names m =
     (case (case jget m ''tool_call_id'' of JStr c \<Rightarrow> map_option (Pair c) (map_of names c) | _ \<Rightarrow> None) of
        None \<Rightarrow> gfail (nth_of ''message'' i @ '' tool_call_id does not reference a prior call'')
      | Some (call_id, name) \<Rightarrow>
          Inr [JObj [(''role'', JStr ''user''), (''parts'', JList [JObj [(''functionResponse'', JObj
            [(''id'', JStr call_id), (''name'', JStr name), (''response'', JObj [(''output'', JStr text)])])]])]])"

definition message_contents ::
  "(string \<Rightarrow> json option) \<Rightarrow> (string \<Rightarrow> string) \<Rightarrow> nat \<Rightarrow> string dict \<Rightarrow> json \<Rightarrow>
   gemini_error + (json list \<times> (string \<times> string) list)" where
  "message_contents loads repr i names message =
     (case message of
        JObj m \<Rightarrow>
          (case jget m ''role'' of
             JStr role \<Rightarrow>
               ebind (extract_message_text (nth_of ''message'' i) (jget m ''content'')) (\<lambda>text.
                 if role \<in> {''system'', ''developer''} then Inr ([], [])
                 else if role = ''assistant'' then assistant_contents loads i text m
                 else if role = ''tool'' then ebind (tool_contents i text names m) (\<lambda>cs. Inr (cs, []))
                 else if role = ''user''
                 then Inr ([JObj [(''role'', JStr ''user''), (''parts'', JList [JObj [(''text'', JStr text)]])]], [])
                 else gfail (nth_of ''message'' i @ '' has unsupported role '' @ repr role))
           | _ \<Rightarrow> gfail (nth_of ''message'' i @ '' requires a role''))
      | _ \<Rightarrow> gfail (nth_of ''message'' i @ '' must be an object''))"

fun contents_from ::
  "(string \<Rightarrow> json option) \<Rightarrow> (string \<Rightarrow> string) \<Rightarrow> nat \<Rightarrow> string dict \<Rightarrow> json list \<Rightarrow> gemini_error + json list" where
  "contents_from loads repr i names [] = Inr []"
| "contents_from loads repr i names (m # ms) =
     ebind (message_contents loads repr i names m) (\<lambda>(cs, ids).
     ebind (contents_from loads repr (Suc i) (dict_update names ids) ms) (\<lambda>cs'. Inr (cs @ cs')))"

definition translate_openai_messages_to_contents ::
  "(string \<Rightarrow> json option) \<Rightarrow> (string \<Rightarrow> string) \<Rightarrow> json list \<Rightarrow> gemini_error + json list" where
  "translate_openai_messages_to_contents loads repr messages = contents_from loads repr 0 [] messages"

definition given :: "json_object \<Rightarrow> string \<Rightarrow> string \<Rightarrow> json_object" where
  "given d k k' = (case map_of d k of None \<Rightarrow> [] | Some v \<Rightarrow> [(k', v)])"

definition translate_generation_config :: "json_object \<Rightarrow> json_object" where
  "translate_generation_config d =
     given d ''temperature'' ''temperature'' @ given d ''top_p'' ''topP'' @
     (if map_of d ''max_completion_tokens'' \<noteq> None \<or> map_of d ''max_tokens'' \<noteq> None
      then [(''maxOutputTokens'', jget_or d ''max_completion_tokens'' (jget d ''max_tokens''))] else []) @
     (case map_of d ''stop'' of
        None \<Rightarrow> []
      | Some (JStr s) \<Rightarrow> [(''stopSequences'', JList [JStr s])]
      | Some v \<Rightarrow> [(''stopSequences'', v)])"

definition function_declaration :: "nat \<Rightarrow> json \<Rightarrow> gemini_error + json" where
  "function_declaration index tool =
     (case tool of
        JObj d \<Rightarrow>
          (if jget d ''type'' \<noteq> JStr ''function'' then gfail (nth_of ''tool'' index @ '' is not a function tool'')
           else (case jget d ''function'' of
                   JObj f \<Rightarrow>
                     (case jget f ''name'' of
                        JStr name \<Rightarrow>
                          Inr (JObj ([(''name'', JStr name)] @ given f ''description'' ''description'' @
                            given f ''parameters'' ''parameters''))
                      | _ \<Rightarrow> gfail (nth_of ''tool'' index @ '' requires a function definition''))
                 | _ \<Rightarrow> gfail (nth_of ''tool'' index @ '' requires a function definition'')))
      | _ \<Rightarrow> gfail (nth_of ''tool'' index @ '' is not a function tool''))"

definition translate_tools :: "json \<Rightarrow> gemini_error + json option" where
  "translate_tools tools =
     (case tools of
        JNull \<Rightarrow> Inr None
      | JList ts \<Rightarrow>
          ebind (emap_from function_declaration 0 ts) (\<lambda>ds.
            Inr (Some (JList [JObj [(''functionDeclarations'', JList ds)]])))
      | _ \<Rightarrow> gfail ''tools must be a list'')"

definition translate_tool_choice :: "json \<Rightarrow> gemini_error + json option" where
  "translate_tool_choice tool_choice =
     (let config = (\<lambda>kvs. Inr (Some (JObj [(''functionCallingConfig'', JObj kvs)]))) in
      case tool_choice of
        JNull \<Rightarrow> Inr None
      | JStr s \<Rightarrow>
          (if s = ''auto'' then config [(''mode'', JStr ''AUTO'')]
           else if s = ''none'' then config [(''mode'', JStr ''NONE'')]
           else if s = ''required'' then config [(''mode'', JStr ''ANY'')]
           else gfail ''unsupported Gemini tool_choice'')
      | JObj d \<Rightarrow>
          (case (jget d ''type'' = JStr ''function'', jget d ''function'') of
             (True, JObj f) \<Rightarrow>
               (case jget f ''name'' of
                  JStr name \<Rightarrow> config [(''mode'', JStr ''ANY''), (''allowedFunctionNames'', JList [JStr name])]
                | _ \<Rightarrow> gfail ''named function tool_choice requires a name'')
           | _ \<Rightarrow> gfail ''Gemini adapter only supports named function tool_choice'')
      | _ \<Rightarrow> gfail ''unsupported Gemini tool_choice'')"

definition request_model :: "string option \<Rightarrow> json_object \<Rightarrow> gemini_error + string" where
  "request_model default_model body =
     (case default_model of
        Some dm \<Rightarrow> (case jget_or body ''model'' (JStr dm) of JStr m \<Rightarrow> Inr m | _ \<Rightarrow> gfail ''model must be a string'')
      | None \<Rightarrow>
          (case jget body ''model'' of
             JStr m \<Rightarrow> if m = [] then gfail ''model must be a string'' else Inr m
           | _ \<Rightarrow> gfail ''model must be a string''))"

definition is_system_message :: "json \<Rightarrow> bool" where
  "is_system_message m \<longleftrightarrow>
     (case m of JObj d \<Rightarrow> jget d ''role'' \<in> {JStr ''system'', JStr ''developer''} | _ \<Rightarrow> False)"

definition system_texts :: "json list \<Rightarrow> gemini_error + string list" where
  "system_texts messages =
     ebind (emap_from (\<lambda>i m. if is_system_message m
         then ebind (extract_message_text (nth_of ''message'' i) (jget (as_obj m) ''content'')) (\<lambda>t. Inr [t])
         else Inr []) 0 messages) (\<lambda>ts. Inr (concat ts))"

definition translate_chat_request ::
  "(string \<Rightarrow> json option) \<Rightarrow> (string \<Rightarrow> string) \<Rightarrow> string list \<Rightarrow> string option \<Rightarrow> json_object \<Rightarrow>
   gemini_error + string \<times> json_object" where
  "translate_chat_request loads repr allowed_fields default_model body =
     (let unsupported = sort (map fst (filter (\<lambda>(k, v). k \<notin> set allowed_fields \<and> v \<noteq> JNull) body)) in
      if unsupported \<noteq> [] then gfail (''Gemini adapter does not support Chat fields: '' @ py_join '', '' unsupported)
      else
        ebind (request_model default_model body) (\<lambda>model.
        case jget_or body ''messages'' (JList []) of
          JList messages \<Rightarrow>
            ebind (translate_openai_messages_to_contents loads repr messages) (\<lambda>contents.
            ebind (system_texts messages) (\<lambda>system_parts.
            let config = translate_generation_config body in
            ebind (translate_tools (jget body ''tools'')) (\<lambda>tools.
            ebind (translate_tool_choice (jget body ''tool_choice'')) (\<lambda>tool_config.
              Inr (model, [(''contents'', JList contents)] @
                (if system_parts = [] then []
                 else [(''systemInstruction'', JObj [(''parts'', JList [JObj [(''text'', JStr (py_join [CHR 10] system_parts))]])])]) @
                (if config = [] then [] else [(''generationConfig'', JObj config)]) @
                (case tools of None \<Rightarrow> [] | Some t \<Rightarrow> [(''tools'', t)]) @
                (case tool_config of None \<Rightarrow> [] | Some t \<Rightarrow> [(''toolConfig'', t)]))))))
        | _ \<Rightarrow> gfail ''messages must be a list''))"

section \<open>Responses\<close>

record gemini_lib =
  gl_dumps :: "json \<Rightarrow> string"
  gl_loads :: "string \<Rightarrow> json option"
  gl_fmt :: "json \<Rightarrow> string"              \<comment> \<open>\<open>str\<close> of a value that is no string\<close>
  gl_fresh :: "nat \<Rightarrow> nat \<Rightarrow> string"      \<comment> \<open>random hexadecimal digits for a part of a chunk\<close>

text \<open>
  One part of a candidate: its text, if it has one, and its function call, if it has one. The loops of the
  response and of the stream differ in the label of their messages and in the index the stream gives a call.
\<close>

definition candidate_part ::
  "gemini_lib \<Rightarrow> string \<Rightarrow> bool \<Rightarrow> nat \<Rightarrow> nat \<Rightarrow> json \<Rightarrow> gemini_error + (string option \<times> json option)" where
  "candidate_part lib label with_index chunk i raw_part =
     (case raw_part of
        JObj part \<Rightarrow>
          ebind (case map_of part ''text'' of
                   None \<Rightarrow> Inr None
                 | Some (JStr t) \<Rightarrow> Inr (Some t)
                 | Some _ \<Rightarrow> gfail (label @ '' candidate part '' @ py_str_int (int i) @ '' text must be a string'')) (\<lambda>text.
          case jget part ''functionCall'' of
            JObj f \<Rightarrow>
              (case jget f ''name'' of
                 JStr name \<Rightarrow>
                   (if name = [] then gfail (label @ '' functionCall in part '' @ py_str_int (int i) @ '' must include a name'')
                    else Inr (text, Some (JObj ((if with_index then [(''index'', JInt (int i))] else []) @
                      [(''id'', jget_or f ''id'' (JStr (''call_gemini_'' @ gl_fresh lib chunk i))), (''type'', JStr ''function''),
                       (''function'', JObj [(''name'', JStr name),
                          (''arguments'', JStr (gl_dumps lib (jget_or f ''args'' (JObj []))))])]))))
               | _ \<Rightarrow> gfail (label @ '' functionCall in part '' @ py_str_int (int i) @ '' must include a name''))
          | _ \<Rightarrow> Inr (text, None))
      | _ \<Rightarrow> gfail (label @ '' candidate part '' @ py_str_int (int i) @ '' must be an object''))"

definition part_texts :: "(string option \<times> json option) list \<Rightarrow> string" where
  "part_texts ps = concat (List.map_filter fst ps)"

definition part_calls :: "(string option \<times> json option) list \<Rightarrow> json list" where
  "part_calls ps = List.map_filter snd ps"

definition finish_of :: "gemini_dialect \<Rightarrow> string \<Rightarrow> string \<Rightarrow> gemini_error + string" where
  "finish_of dialect label reason =
     (case map_of FINISH_REASON_MAP reason of
        Some f \<Rightarrow> Inr f
      | None \<Rightarrow>
          (if reason \<in> set (gd_extra_finish_reasons dialect) then Inr ''content_filter''
           else gfail (label @ '' generation failed: '' @ reason)))"

definition translate_candidate_to_openai_choice ::
  "gemini_lib \<Rightarrow> json_object \<Rightarrow> gemini_dialect \<Rightarrow> int \<Rightarrow> gemini_error + json_object" where
  "translate_candidate_to_openai_choice lib candidate dialect index =
     (case jget_or candidate ''content'' (JObj []) of
        JObj content \<Rightarrow>
          (case jget_or content ''parts'' (JList []) of
             JList raw_parts \<Rightarrow>
               ebind (emap_from (candidate_part lib ''Gemini'' False 0) 0 raw_parts) (\<lambda>ps.
               case jget_or candidate ''finishReason'' (JStr ''STOP'') of
                 JStr reason \<Rightarrow>
                   ebind (finish_of dialect ''Gemini'' reason) (\<lambda>finish.
                     Inr [(''index'', JInt index),
                       (''message'', JObj ([(''role'', JStr ''assistant''), (''content'', JStr (part_texts ps))] @
                          (if part_calls ps = [] then [] else [(''tool_calls'', JList (part_calls ps))]))),
                       (''finish_reason'', JStr (if part_calls ps = [] then finish else ''tool_calls''))])
               | _ \<Rightarrow> gfail ''Gemini finishReason must be a string'')
           | _ \<Rightarrow> gfail ''Gemini candidate parts must be a list'')
      | _ \<Rightarrow> gfail ''Gemini candidate content must be an object'')"

definition translate_usage_metadata :: "json_object \<Rightarrow> json" where
  "translate_usage_metadata u =
     JObj [(''prompt_tokens'', jget_or u ''promptTokenCount'' (JInt 0)),
           (''completion_tokens'', jget_or u ''candidatesTokenCount'' (JInt 0)),
           (''total_tokens'', jget_or u ''totalTokenCount'' (JInt 0))]"

definition is_block_reason_unset :: "json \<Rightarrow> gemini_dialect \<Rightarrow> bool" where
  "is_block_reason_unset r dialect \<longleftrightarrow> r = JNull \<or> r = JStr (gd_block_reason_unset dialect)"

definition extract_block_reason :: "json_object \<Rightarrow> gemini_dialect \<Rightarrow> json option" where
  "extract_block_reason source dialect =
     (let r = (case jget source ''promptFeedback'' of JObj f \<Rightarrow> jget f ''blockReason'' | _ \<Rightarrow> JNull) in
      if is_block_reason_unset r dialect then None else Some r)"

definition blocked_message :: "gemini_lib \<Rightarrow> string \<Rightarrow> json \<Rightarrow> string" where
  "blocked_message lib label r = label @ '' generation blocked: '' @ py_str_json (gl_fmt lib) r"

definition raise_if_prompt_blocked :: "gemini_lib \<Rightarrow> json_object \<Rightarrow> gemini_dialect \<Rightarrow> string \<Rightarrow> gemini_error + unit" where
  "raise_if_prompt_blocked lib source dialect label =
     (case extract_block_reason source dialect of
        None \<Rightarrow> Inr ()
      | Some r \<Rightarrow> gfail (blocked_message lib label r))"

definition translate_generate_content_response_to_openai_envelope ::
  "gemini_lib \<Rightarrow> json_object \<Rightarrow> string \<Rightarrow> gemini_dialect \<Rightarrow> string \<Rightarrow> string \<Rightarrow> gemini_error + json_object" where
  \<comment> \<open>the last argument is the completion id with its prefix\<close>
  "translate_generate_content_response_to_openai_envelope lib data model dialect label completion_id =
     (case jget_or data ''candidates'' (JList []) of
        JList candidates \<Rightarrow>
          (case jget_or data ''usageMetadata'' (JObj []) of
             JObj usage_meta \<Rightarrow>
               ebind (case candidates of
                   [] \<Rightarrow>
                     ebind (raise_if_prompt_blocked lib data dialect label) (\<lambda>_.
                       Inr [(''index'', JInt 0),
                         (''message'', JObj [(''role'', JStr ''assistant''), (''content'', JStr [])]),
                         (''finish_reason'', JStr ''stop'')])
                 | JObj c # _ \<Rightarrow> translate_candidate_to_openai_choice lib c dialect 0
                 | _ # _ \<Rightarrow> gfail (label @ '' candidate must be an object'')) (\<lambda>choice.
                 Inr [(''id'', JStr completion_id), (''object'', JStr ''chat.completion''), (''model'', JStr model),
                      (''choices'', JList [JObj choice]), (''usage'', translate_usage_metadata usage_meta)])
           | _ \<Rightarrow> gfail (label @ '' usageMetadata must be an object''))
      | _ \<Rightarrow> gfail (label @ '' candidates must be a list''))"

section \<open>Streams\<close>

definition int_or :: "int \<Rightarrow> json \<Rightarrow> int" where
  "int_or i v = (case as_int v of None \<Rightarrow> i | Some n \<Rightarrow> n)"

definition stream_usage_metadata :: "json_object \<Rightarrow> json" where
  "stream_usage_metadata u =
     (let p = int_or 0 (jget_or u ''promptTokenCount'' (JInt 0));
          c = int_or 0 (jget_or u ''candidatesTokenCount'' (JInt 0));
          t = int_or (p + c) (jget u ''totalTokenCount'')
      in JObj [(''prompt_tokens'', JInt p), (''completion_tokens'', JInt c), (''total_tokens'', JInt t)])"

definition null_as :: "json \<Rightarrow> json \<Rightarrow> json" where
  "null_as d v = (if v = JNull then d else v)"

definition candidate_stream_delta ::
  "gemini_lib \<Rightarrow> json_object \<Rightarrow> gemini_dialect \<Rightarrow> string \<Rightarrow> nat \<Rightarrow> gemini_error + (json_object \<times> string option)" where
  "candidate_stream_delta lib candidate dialect label chunk =
     (case null_as (JObj []) (jget candidate ''content'') of
        JObj content \<Rightarrow>
          (case null_as (JList []) (jget content ''parts'') of
             JList raw_parts \<Rightarrow>
               ebind (emap_from (candidate_part lib label True chunk) 0 raw_parts) (\<lambda>ps.
               ebind (if \<not> json_truthy (jget candidate ''finishReason'') then Inr None
                      else (case jget candidate ''finishReason'' of
                              JStr reason \<Rightarrow> ebind (finish_of dialect label reason) (\<lambda>f. Inr (Some f))
                            | _ \<Rightarrow> gfail (label @ '' finishReason must be a string''))) (\<lambda>finish.
                 Inr ([(''content'', JStr (part_texts ps))] @
                        (if part_calls ps = [] then [] else [(''tool_calls'', JList (part_calls ps))]),
                      if part_calls ps = [] then finish else Some ''tool_calls'')))
           | _ \<Rightarrow> gfail (label @ '' candidate parts must be a list''))
      | _ \<Rightarrow> gfail (label @ '' candidate content must be an object''))"

text \<open>
  How the upstream's lines end, and the frames of the generator: a JSON object or the end marker. The result
  also says whether the generator was still reading when the lines ended.
\<close>

datatype upstream_end = UpstreamEof | UpstreamTimeout | UpstreamRequestError

datatype frame = DataFrame json_object | DoneFrame

definition frame_text :: "(json \<Rightarrow> string) \<Rightarrow> frame \<Rightarrow> string" where
  "frame_text dumps f =
     (case f of DataFrame d \<Rightarrow> ''data: '' @ dumps (JObj d) @ [CHR 10, CHR 10] | DoneFrame \<Rightarrow> ''data: [DONE]'' @ [CHR 10, CHR 10])"

definition sse_error :: "string \<Rightarrow> string \<Rightarrow> frame" where
  "sse_error t m = DataFrame [(''error'', JObj [(''type'', JStr t), (''message'', JStr m)])]"

definition gemini_data :: "string \<Rightarrow> string option" where
  "gemini_data line =
     (let l = py_strip line in if py_startswith l ''data:'' then Some (py_strip (drop 5 l)) else None)"

record gemini_stream_args =
  ga_completion_id :: string
  ga_model :: string
  ga_dialect :: gemini_dialect
  ga_label :: string

definition chunk_frame :: "gemini_stream_args \<Rightarrow> json_object \<Rightarrow> json \<Rightarrow> json_object \<Rightarrow> frame" where
  "chunk_frame a delta finish extras =
     DataFrame ([(''id'', JStr (ga_completion_id a)), (''object'', JStr ''chat.completion.chunk''),
       (''model'', JStr (ga_model a)),
       (''choices'', JList [JObj [(''index'', JInt 0), (''delta'', JObj delta), (''finish_reason'', finish)]])] @ extras)"

definition final_frames :: "gemini_stream_args \<Rightarrow> string \<Rightarrow> json_object \<Rightarrow> frame list" where
  "final_frames a finish usage =
     [chunk_frame a [] (JStr finish) [(''usage'', stream_usage_metadata usage)], DoneFrame]"

text \<open>What a chunk makes the loop do.\<close>

datatype chunk_outcome =
    Skip
  | Emit json_object "string option"
  | Fail string
  | Escape py_error

definition chunk_step ::
  "gemini_lib \<Rightarrow> gemini_stream_args \<Rightarrow> nat \<Rightarrow> json_object \<Rightarrow> chunk_outcome" where
  "chunk_step lib a n chunk =
     (case jget_or chunk ''candidates'' (JList []) of
        JList [] \<Rightarrow>
          (case extract_block_reason chunk (ga_dialect a) of
             None \<Rightarrow> Skip
           | Some r \<Rightarrow> Fail (blocked_message lib (ga_label a) r))
      | JList (JObj c # _) \<Rightarrow>
          (case candidate_stream_delta lib c (ga_dialect a) (ga_label a) n of
             Inl (GeminiTranslationError m) \<Rightarrow> Fail m
           | Inl (GeminiRaised e) \<Rightarrow> Escape e
           | Inr (delta, finish) \<Rightarrow> Emit delta finish)
      | JList (_ # _) \<Rightarrow> Fail (ga_label a @ '' candidate must be an object'')
      | _ \<Rightarrow> Fail (ga_label a @ '' candidates must be a list''))"

definition chunk_usage_meta :: "json_object \<Rightarrow> json_object \<Rightarrow> json_object" where
  "chunk_usage_meta chunk usage = (case jget chunk ''usageMetadata'' of JObj u \<Rightarrow> u | _ \<Rightarrow> usage)"

fun gemini_frames ::
  "gemini_lib \<Rightarrow> gemini_stream_args \<Rightarrow> upstream_end \<Rightarrow> nat \<Rightarrow> string list \<Rightarrow> string \<Rightarrow> json_object \<Rightarrow> frame list \<times> bool" where
  "gemini_frames lib a ending n [] finish usage =
     (if ending = UpstreamEof then final_frames a finish usage else [], True)"
| "gemini_frames lib a ending n (line # lines) finish usage =
     (case gemini_data line of
        None \<Rightarrow> gemini_frames lib a ending (Suc n) lines finish usage
      | Some raw \<Rightarrow>
          (if raw = ''[DONE]'' then (final_frames a finish usage, False)
           else (case gl_loads lib raw of
                   Some (JObj chunk) \<Rightarrow>
                     (let usage' = chunk_usage_meta chunk usage in
                      case chunk_step lib a n chunk of
                        Skip \<Rightarrow> gemini_frames lib a ending (Suc n) lines finish usage'
                      | Fail m \<Rightarrow> ([sse_error ''provider_response_error'' m], False)
                      | Escape e \<Rightarrow> ([], False)
                      | Emit delta f \<Rightarrow>
                          (let (fs, reading) = gemini_frames lib a ending (Suc n) lines
                                 (case f of None \<Rightarrow> finish | Some f' \<Rightarrow> f') usage'
                           in (chunk_frame a delta JNull [] # fs, reading)))
                 | _ \<Rightarrow> gemini_frames lib a ending (Suc n) lines finish usage)))"

definition iter_openai_chat_sse_from_gemini_lines ::
  "gemini_lib \<Rightarrow> gemini_stream_args \<Rightarrow> string list \<Rightarrow> upstream_end \<Rightarrow> string list \<times> bool" where
  "iter_openai_chat_sse_from_gemini_lines lib a lines ending =
     (let (fs, reading) = gemini_frames lib a ending 0 lines ''stop'' []
      in (map (frame_text (gl_dumps lib)) fs, reading))"

end
