(* ===== verification/GeminiFacts.thy ===== *)
theory GeminiFacts imports GeminiCommon begin

text \<open>
  What the Gemini translations of \<open>GeminiCommon\<close> keep: the texts and calls of a request, the pairing of
  function responses with calls, and the shape and text of a translated stream.
\<close>

section \<open>Reading Chat messages and Gemini contents\<close>

definition part_text_of :: "json \<Rightarrow> string" where
  "part_text_of p = (case jget (as_obj p) ''text'' of JStr t \<Rightarrow> t | _ \<Rightarrow> [])"

definition message_text :: "json \<Rightarrow> string" where
  "message_text m =
     (case jget (as_obj m) ''content'' of
        JStr s \<Rightarrow> s
      | JList ps \<Rightarrow> concat (map part_text_of ps)
      | _ \<Rightarrow> [])"

text \<open>A call as (id or null, name, arguments).\<close>

definition str_or_null :: "json \<Rightarrow> json" where
  "str_or_null v = (case v of JStr s \<Rightarrow> v | _ \<Rightarrow> JNull)"

definition parsed_arguments :: "(string \<Rightarrow> json option) \<Rightarrow> json_object \<Rightarrow> json" where
  "parsed_arguments loads f = (case arguments_value loads f of None \<Rightarrow> JNull | Some v \<Rightarrow> v)"

definition chat_call :: "(string \<Rightarrow> json option) \<Rightarrow> json \<Rightarrow> json \<times> json \<times> json" where
  "chat_call loads tc =
     (let f = as_obj (jget (as_obj tc) ''function'')
      in (str_or_null (jget (as_obj tc) ''id''), jget f ''name'', parsed_arguments loads f))"

definition chat_calls :: "(string \<Rightarrow> json option) \<Rightarrow> json \<Rightarrow> (json \<times> json \<times> json) list" where
  "chat_calls loads m =
     (if jget (as_obj m) ''role'' = JStr ''assistant''
      then (case jget (as_obj m) ''tool_calls'' of JList tcs \<Rightarrow> map (chat_call loads) tcs | _ \<Rightarrow> [])
      else [])"

definition content_parts :: "json \<Rightarrow> json list" where
  "content_parts c = (case jget (as_obj c) ''parts'' of JList ps \<Rightarrow> ps | _ \<Rightarrow> [])"

definition gemini_part_text :: "json \<Rightarrow> string" where
  "gemini_part_text p =
     (case jget (as_obj p) ''text'' of
        JStr t \<Rightarrow> t
      | _ \<Rightarrow> (case jget (as_obj (jget (as_obj (jget (as_obj p) ''functionResponse'')) ''response'')) ''output'' of
               JStr t \<Rightarrow> t | _ \<Rightarrow> []))"

definition content_text :: "json \<Rightarrow> string" where
  "content_text c = concat (map gemini_part_text (content_parts c))"

definition content_calls :: "json \<Rightarrow> (json \<times> json \<times> json) list" where
  "content_calls c =
     List.map_filter (\<lambda>p. case jget (as_obj p) ''functionCall'' of
       JObj f \<Rightarrow> Some (jget f ''id'', jget f ''name'', jget f ''args'') | _ \<Rightarrow> None) (content_parts c)"

definition call_names :: "json \<Rightarrow> (json \<times> json) list" where
  "call_names c = map (\<lambda>x. (fst x, fst (snd x))) (content_calls c)"

definition content_responses :: "json \<Rightarrow> (json \<times> json) list" where
  "content_responses c =
     List.map_filter (\<lambda>p. case jget (as_obj p) ''functionResponse'' of
       JObj f \<Rightarrow> Some (jget f ''id'', jget f ''name'') | _ \<Rightarrow> None) (content_parts c)"

definition system_instruction :: "json_object \<Rightarrow> string" where
  "system_instruction body = content_text (jget body ''systemInstruction'')"

section \<open>Requests\<close>

lemma gfail_not_Inr [simp]: "gfail m \<noteq> Inr x" "Inr x \<noteq> gfail m"
  by (simp_all add: gfail_def)

lemma gfail_bind [simp]: "ebind (gfail m) f = gfail m"
  by (simp add: gfail_def)

lemma jget_Cons [simp]: "jget ((k, v) # d) k' = (if k = k' then v else jget d k')"
  by (simp add: jget_def dict_get_or_def)

lemma jget_Nil [simp]: "jget [] k = JNull"
  by (simp add: jget_def dict_get_or_def)

lemma jget_append: "jget (d @ e) k = (case map_of d k of None \<Rightarrow> jget e k | Some v \<Rightarrow> v)"
  by (simp add: jget_def dict_get_or_def map_add_def split: option.splits)

lemma map_filter_Cons: "List.map_filter f (x # xs) = (case f x of None \<Rightarrow> [] | Some y \<Rightarrow> [y]) @ List.map_filter f xs"
  by (simp add: List.map_filter_def split: option.splits)

lemma map_filter_Nil [simp]: "List.map_filter f [] = []"
  by (simp add: List.map_filter_def)

lemma map_filter_append: "List.map_filter f (xs @ ys) = List.map_filter f xs @ List.map_filter f ys"
  by (simp add: List.map_filter_def)

lemma text_part_value_Inr: "text_part_value location i p = Inr t \<Longrightarrow> part_text_of p = t"
  by (auto simp: text_part_value_def part_text_of_def Let_def split: json.splits if_splits)

lemma extract_message_text_Inr:
  assumes "extract_message_text location (jget d ''content'') = Inr t"
  shows "message_text (JObj d) = t"
proof -
  have "concat (map part_text_of ps) = concat ts" if "emap_from (text_part_value location) 0 ps = Inr ts" for ps ts
    using emap_from_map [OF that, of part_text_of id] text_part_value_Inr by fastforce
  then show ?thesis using assms
    by (auto simp: extract_message_text_def message_text_def ebind_eq_Inr split: json.splits)
qed

text \<open>What one tool call becomes.\<close>

lemma function_call_part_Inr:
  assumes "function_call_part loads i j tc = Inr (p, idn)"
  obtains f where "p = JObj [(''functionCall'', JObj f)]"
    "(jget f ''id'', jget f ''name'', jget f ''args'') = chat_call loads tc"
    "\<And>c n. idn = Some (c, n) \<Longrightarrow> jget f ''id'' = JStr c \<and> jget f ''name'' = JStr n"
proof -
  obtain d where d: "tc = JObj d" "jget_or d ''type'' (JStr ''function'') = JStr ''function''"
    using assms by (cases tc) (auto simp: function_call_part_def Let_def split: if_splits)
  obtain g where g: "jget d ''function'' = JObj g"
    using assms d by (cases "jget d ''function''") (auto simp: function_call_part_def Let_def)
  obtain name where n: "jget g ''name'' = JStr name"
    using assms d g by (cases "jget g ''name''") (auto simp: function_call_part_def Let_def)
  obtain v where v: "arguments_value loads g = Some v"
    using assms d g n by (cases "arguments_value loads g") (auto simp: function_call_part_def Let_def)
  obtain args where a: "v = JObj args"
    using assms d g n v by (cases v) (auto simp: function_call_part_def Let_def)
  have c: "chat_call loads tc = (str_or_null (jget d ''id''), JStr name, JObj args)"
    using d g n v a by (simp add: chat_call_def parsed_arguments_def)
  have r: "function_call_part loads i j tc = (case jget d ''id'' of
      JStr call_id \<Rightarrow> Inr (JObj [(''functionCall'', JObj [(''name'', JStr name), (''args'', JObj args),
         (''id'', JStr call_id)])], Some (call_id, name))
    | _ \<Rightarrow> Inr (JObj [(''functionCall'', JObj [(''name'', JStr name), (''args'', JObj args)])], None))"
    using d g n v a by (simp add: function_call_part_def Let_def)
  show thesis
  proof (cases "\<exists>k. jget d ''id'' = JStr k")
    case True
    then obtain k where k: "jget d ''id'' = JStr k" by blast
    show thesis
      by (rule that [of "[(''name'', JStr name), (''args'', JObj args), (''id'', JStr k)]"])
        (use assms r k c in \<open>simp_all add: str_or_null_def\<close>)
  next
    case False
    have "str_or_null (jget d ''id'') = JNull" "p = JObj [(''functionCall'', JObj [(''name'', JStr name), (''args'', JObj args)])]"
      "idn = None"
      using assms r False by (cases "jget d ''id''"; simp add: str_or_null_def)+
    then show thesis
      by (intro that [of "[(''name'', JStr name), (''args'', JObj args)]"]) (simp_all add: c)
  qed
qed

lemma function_calls_Inr:
  "emap_from (function_call_part loads i) j tcs = Inr calls \<Longrightarrow>
   concat (map gemini_part_text (map fst calls)) = [] \<and>
   List.map_filter (\<lambda>p. case jget (as_obj p) ''functionCall'' of
       JObj f \<Rightarrow> Some (jget f ''id'', jget f ''name'', jget f ''args'') | _ \<Rightarrow> None) (map fst calls) = map (chat_call loads) tcs \<and>
   List.map_filter (\<lambda>p. case jget (as_obj p) ''functionResponse'' of
       JObj f \<Rightarrow> Some (jget f ''id'', jget f ''name'') | _ \<Rightarrow> None) (map fst calls) = [] \<and>
   (\<forall>c n. (c, n) \<in> set (List.map_filter snd calls) \<longrightarrow>
      (\<exists>a. (JStr c, JStr n, a) \<in> chat_call loads ` set tcs))"
proof (induction tcs arbitrary: j calls)
  case (Cons tc tcs)
  obtain p idn rest where r: "calls = (p, idn) # rest" "function_call_part loads i j tc = Inr (p, idn)"
      "emap_from (function_call_part loads i) (Suc j) tcs = Inr rest"
    using Cons.prems by (auto simp: ebind_eq_Inr)
  obtain f where f: "p = JObj [(''functionCall'', JObj f)]"
      "(jget f ''id'', jget f ''name'', jget f ''args'') = chat_call loads tc"
      "\<And>c n. idn = Some (c, n) \<Longrightarrow> jget f ''id'' = JStr c \<and> jget f ''name'' = JStr n"
    using function_call_part_Inr [OF r(2)] by metis
  have n: "\<exists>a. (JStr c, JStr n, a) = chat_call loads tc" if "idn = Some (c, n)" for c n
    using f(2) f(3) [OF that] by metis
  note ih = Cons.IH [OF r(3)]
  have t: "gemini_part_text p = []" by (simp add: f(1) gemini_part_text_def)
  have "\<exists>a. (JStr c, JStr n, a) \<in> chat_call loads ` set (tc # tcs)" if "(c, n) \<in> set (List.map_filter snd calls)" for c n
    using that n [of c n] ih by (force simp: r(1) map_filter_Cons split: option.splits)
  then show ?case using ih f t by (simp add: r(1) map_filter_Cons)
qed simp_all

text \<open>What one message becomes.\<close>

definition translated :: "(string \<Rightarrow> json option) \<Rightarrow> json \<Rightarrow> json \<Rightarrow> bool" where
  "translated loads m c \<longleftrightarrow> content_text c = message_text m \<and> content_calls c = chat_calls loads m"

lemma message_contents_Inr:
  assumes "message_contents loads repr i names m = Inr (cs, ids)"
  shows "if is_system_message m then cs = [] \<and> ids = []
    else (\<exists>c. cs = [c] \<and> translated loads m c \<and>
      (\<forall>k n. (k, n) \<in> set ids \<longrightarrow> (JStr k, JStr n) \<in> set (call_names c)) \<and>
      (\<forall>k n. (k, n) \<in> set (content_responses c) \<longrightarrow> (\<exists>k' n'. k = JStr k' \<and> n = JStr n' \<and> map_of names k' = Some n')))"
proof -
  obtain d role tx where d: "m = JObj d" "jget d ''role'' = JStr role"
      "extract_message_text (nth_of ''message'' i) (jget d ''content'') = Inr tx"
    using assms by (auto simp: message_contents_def ebind_eq_Inr split: json.splits)
  note t = extract_message_text_Inr [OF d(3)]
  consider "role \<in> {''system'', ''developer''}" | "role = ''assistant''" | "role = ''tool''" | "role = ''user''"
    using assms d by (auto simp: message_contents_def split: if_splits)
  then show ?thesis
  proof cases
    case 1
    then show ?thesis using assms d by (auto simp: message_contents_def is_system_message_def)
  next
    case 2
    obtain tcs calls where a: "jget_or d ''tool_calls'' (JList []) = JList tcs"
        "emap_from (function_call_part loads i) 0 tcs = Inr calls"
        "cs = [JObj [(''role'', JStr ''model''),
           (''parts'', JList ((if tx = [] then [] else [JObj [(''text'', JStr tx)]]) @ map fst calls))]]"
        "ids = List.map_filter snd calls"
      using assms d 2 by (auto simp: message_contents_def assistant_contents_def ebind_eq_Inr split: json.splits)
    note f = function_calls_Inr [OF a(2)]
    have cc: "chat_calls loads m = map (chat_call loads) tcs"
      using a(1) d(1,2) 2 by (auto simp: chat_calls_def jget_or_def jget_def dict_get_or_def split: option.splits)
    let ?c = "JObj [(''role'', JStr ''model''),
           (''parts'', JList ((if tx = [] then [] else [JObj [(''text'', JStr tx)]]) @ map fst calls))]"
    have "content_text ?c = tx" using f
      by (simp add: content_text_def content_parts_def gemini_part_text_def)
    moreover have c: "content_calls ?c = chat_calls loads m" using f
      by (simp add: content_calls_def content_parts_def cc map_filter_Cons)
    moreover have "content_responses ?c = []" using f
      by (simp add: content_responses_def content_parts_def map_filter_Cons)
    moreover have "(JStr k, JStr n) \<in> set (call_names ?c)" if "(k, n) \<in> set ids" for k n
    proof -
      have "(k, n) \<in> set (List.map_filter snd calls)" using that a(4) by simp
      then obtain args where "(JStr k, JStr n, args) \<in> chat_call loads ` set tcs" using f by blast
      then have "(JStr k, JStr n, args) \<in> set (content_calls ?c)" by (simp only: c cc set_map)
      then show ?thesis unfolding call_names_def by force
    qed
    ultimately show ?thesis using a(3) d 2 t by (simp add: is_system_message_def translated_def)
  next
    case 3
    obtain k n where k: "map_of names k = Some n" "ids = []"
        "cs = [JObj [(''role'', JStr ''user''), (''parts'', JList [JObj [(''functionResponse'', JObj
            [(''id'', JStr k), (''name'', JStr n), (''response'', JObj [(''output'', JStr tx)])])]])]]"
      using assms d 3 by (auto simp: message_contents_def tool_contents_def ebind_eq_Inr split: json.splits option.splits)
    have "content_text (hd cs) = tx" "content_calls (hd cs) = []" "content_responses (hd cs) = [(JStr k, JStr n)]"
      by (simp_all add: k(3) content_text_def content_calls_def content_responses_def content_parts_def
          gemini_part_text_def map_filter_Cons)
    then show ?thesis using k d t 3
      by (simp add: is_system_message_def translated_def chat_calls_def)
  next
    case 4
    have k: "cs = [JObj [(''role'', JStr ''user''), (''parts'', JList [JObj [(''text'', JStr tx)]])]]" "ids = []"
      using assms d 4 by (auto simp: message_contents_def)
    have "content_text (hd cs) = tx" "content_calls (hd cs) = []" "content_responses (hd cs) = []"
      by (simp_all add: k(1) content_text_def content_calls_def content_responses_def content_parts_def
          gemini_part_text_def map_filter_Cons)
    then show ?thesis using k d t 4
      by (simp add: is_system_message_def translated_def chat_calls_def)
  qed
qed

text \<open>The loop: one content per message that is no system message, in order, and every response after its call.\<close>

fun paired :: "(json \<times> json) set \<Rightarrow> json list \<Rightarrow> bool" where
  "paired K [] = True"
| "paired K (c # cs) = (set (content_responses c) \<subseteq> K \<and> paired (K \<union> set (call_names c)) cs)"

lemma paired_nth:
  "paired K cs \<Longrightarrow> i < length cs \<Longrightarrow> r \<in> set (content_responses (cs ! i)) \<Longrightarrow>
   r \<in> K \<or> (\<exists>j<i. r \<in> set (call_names (cs ! j)))"
proof (induction cs arbitrary: K i)
  case (Cons c cs)
  show ?case
  proof (cases i)
    case (Suc i')
    then have "r \<in> K \<union> set (call_names c) \<or> (\<exists>j<i'. r \<in> set (call_names (cs ! j)))"
      using Cons.IH [of "K \<union> set (call_names c)" i'] Cons.prems by simp
    then show ?thesis using Suc by (metis Suc_mono UnE nth_Cons_0 nth_Cons_Suc zero_less_Suc)
  qed (use Cons.prems in auto)
qed simp

lemma map_of_rev_Some: "map_of (dict_update d e) k = Some v \<Longrightarrow> map_of d k = Some v \<or> (k, v) \<in> set e"
  by (auto simp: map_of_dict_update map_add_def dest: map_of_SomeD split: option.splits)

lemma contents_from_Inr:
  "contents_from loads repr i names ms = Inr cs \<Longrightarrow> (\<And>k n. map_of names k = Some n \<Longrightarrow> (JStr k, JStr n) \<in> K) \<Longrightarrow>
   list_all2 (translated loads) (filter (\<lambda>m. \<not> is_system_message m) ms) cs \<and> paired K cs"
proof (induction ms arbitrary: i names cs K)
  case (Cons m ms)
  obtain cs1 ids cs2 where c: "message_contents loads repr i names m = Inr (cs1, ids)"
      "contents_from loads repr (Suc i) (dict_update names ids) ms = Inr cs2" "cs = cs1 @ cs2"
    using Cons.prems(1) by (auto simp: ebind_eq_Inr)
  note f = message_contents_Inr [OF c(1)]
  show ?case
  proof (cases "is_system_message m")
    case True
    then have "cs1 = []" "ids = []" using f by auto
    then show ?thesis using Cons.IH [OF c(2), of K] Cons.prems(2) c(3) True by (simp add: dict_update_def)
  next
    case False
    then obtain c0 where c0: "cs1 = [c0]" "translated loads m c0"
        "\<And>k n. (k, n) \<in> set ids \<Longrightarrow> (JStr k, JStr n) \<in> set (call_names c0)"
        "\<And>k n. (k, n) \<in> set (content_responses c0) \<Longrightarrow> \<exists>k' n'. k = JStr k' \<and> n = JStr n' \<and> map_of names k' = Some n'"
      using f by auto
    have "set (content_responses c0) \<subseteq> K" using c0(4) Cons.prems(2) by fastforce
    moreover have "(JStr k, JStr n) \<in> K \<union> set (call_names c0)" if "map_of (dict_update names ids) k = Some n" for k n
      using map_of_rev_Some [OF that] c0(3) Cons.prems(2) by blast
    note ih = Cons.IH [OF c(2) this]
    ultimately show ?thesis using ih c0(1,2) c(3) False by simp
  qed
qed simp

lemma system_texts_Inr:
  assumes "system_texts ms = Inr ts" "contents_from loads repr 0 names ms = Inr cs"
  shows "ts = map message_text (filter is_system_message ms)"
proof -
  let ?f = "\<lambda>i m. if is_system_message m
         then ebind (extract_message_text (nth_of ''message'' i) (jget (as_obj m) ''content'')) (\<lambda>t. Inr [t]) else Inr []"
  obtain us where u: "emap_from ?f 0 ms = Inr us" "ts = concat us"
    using assms(1) by (auto simp: system_texts_def ebind_eq_Inr)
  have "(if is_system_message m then [message_text m] else []) = id y" if "?f i m = Inr y" for i m y
  proof (cases "is_system_message m")
    case True
    then obtain d where "m = JObj d" by (auto simp: is_system_message_def split: json.splits)
    then show ?thesis using that True extract_message_text_Inr by (auto simp: ebind_eq_Inr)
  qed (use that in simp)
  then have "map (\<lambda>m. if is_system_message m then [message_text m] else []) ms = us"
    using emap_from_map [OF u(1), of "\<lambda>m. if is_system_message m then [message_text m] else []" id] by auto
  moreover have "concat (map (\<lambda>m. if is_system_message m then [message_text m] else []) ms) =
      map message_text (filter is_system_message ms)" by (induction ms) auto
  ultimately show ?thesis using u(2) by simp
qed

lemma filter_pairs_empty: "map fst (filter (\<lambda>(k, v). P k v) d) = [] \<longleftrightarrow> (\<forall>k v. (k, v) \<in> set d \<longrightarrow> \<not> P k v)"
  by (induction d) auto

lemma translate_chat_request_Inr:
  assumes "translate_chat_request loads repr allowed dm body = Inr (model, gb)"
  obtains ms cs where "jget_or body ''messages'' (JList []) = JList ms" "jget gb ''contents'' = JList cs"
    "contents_from loads repr 0 [] ms = Inr cs"
    "system_instruction gb = py_join [CHR 10] (map message_text (filter is_system_message ms))"
    "\<And>k v. (k, v) \<in> set body \<Longrightarrow> k \<notin> set allowed \<Longrightarrow> v = JNull"
proof -
  have un: "map fst (filter (\<lambda>(k, v). k \<notin> set allowed \<and> v \<noteq> JNull) body) = []"
  proof (rule ccontr)
    assume "\<not> ?thesis"
    then have "sort (map fst (filter (\<lambda>(k, v). k \<notin> set allowed \<and> v \<noteq> JNull) body)) \<noteq> []" by (metis set_empty set_sort)
    then show False using assms by (simp add: translate_chat_request_def Let_def)
  qed
  obtain ms where m: "jget_or body ''messages'' (JList []) = JList ms"
  proof (cases "jget_or body ''messages'' (JList [])")
    case (JList ms)
    then show thesis using that by blast
  qed (use assms un in \<open>auto simp: translate_chat_request_def Let_def ebind_eq_Inr\<close>)
  obtain cs sp tl tc where g: "contents_from loads repr 0 [] ms = Inr cs" "system_texts ms = Inr sp"
    "gb = [(''contents'', JList cs)] @
                (if sp = [] then []
                 else [(''systemInstruction'', JObj [(''parts'', JList [JObj [(''text'', JStr (py_join [CHR 10] sp))]])])]) @
                (if translate_generation_config body = [] then [] else [(''generationConfig'', JObj (translate_generation_config body))]) @
                (case tl of None \<Rightarrow> [] | Some t \<Rightarrow> [(''tools'', t)]) @
                (case tc of None \<Rightarrow> [] | Some t \<Rightarrow> [(''toolConfig'', t)])"
    using assms un m
    by (simp add: translate_chat_request_def translate_openai_messages_to_contents_def Let_def ebind_eq_Inr) blast
  have si: "system_instruction gb = py_join [CHR 10] sp"
    by (auto simp: g(3) system_instruction_def content_text_def content_parts_def gemini_part_text_def split: option.splits)
  have "v = JNull" if "(k, v) \<in> set body" "k \<notin> set allowed" for k v
    using un [unfolded filter_pairs_empty] that by blast
  moreover have "jget gb ''contents'' = JList cs" by (simp add: g(3))
  ultimately show thesis
    using that [OF m _ g(1)] si system_texts_Inr [OF g(2,1)] by simp
qed

section \<open>Responses and streams\<close>

definition candidate_text :: "json_object \<Rightarrow> string" where
  "candidate_text c =
     (case jget (as_obj (jget c ''content'')) ''parts'' of JList ps \<Rightarrow> concat (map part_text_of ps) | _ \<Rightarrow> [])"

definition chunk_text_of :: "json_object \<Rightarrow> string" where
  "chunk_text_of chunk =
     (case jget chunk ''candidates'' of JList (JObj c # _) \<Rightarrow> candidate_text c | _ \<Rightarrow> [])"

definition delta_text :: "json_object \<Rightarrow> string" where
  "delta_text d = (case jget d ''content'' of JStr t \<Rightarrow> t | _ \<Rightarrow> [])"

text \<open>The chunks of a stream, up to its end marker.\<close>

fun stream_chunks :: "(string \<Rightarrow> json option) \<Rightarrow> string list \<Rightarrow> json_object list" where
  "stream_chunks loads [] = []"
| "stream_chunks loads (line # lines) =
     (case gemini_data line of
        None \<Rightarrow> stream_chunks loads lines
      | Some raw \<Rightarrow>
          (if raw = ''[DONE]'' then []
           else (case loads raw of Some (JObj c) \<Rightarrow> [c] | _ \<Rightarrow> []) @ stream_chunks loads lines))"

lemma candidate_part_Inr:
  assumes "candidate_part lib label ix n i p = Inr (t, c)"
  shows "part_text_of p = (case t of None \<Rightarrow> [] | Some s \<Rightarrow> s)"
proof -
  obtain d where d: "p = JObj d" using assms by (cases p) (auto simp: candidate_part_def)
  show ?thesis
  proof (cases "map_of d ''text''")
    case None
    then have "t = None" using assms d
      by (auto simp: candidate_part_def split: json.splits if_splits)
    then show ?thesis using None d by (simp add: part_text_of_def)
  next
    case (Some v)
    then obtain s where s: "v = JStr s" using assms d by (cases v) (auto simp: candidate_part_def)
    then have "t = Some s" using assms d Some
      by (auto simp: candidate_part_def split: json.splits if_splits)
    then show ?thesis using Some d s by (simp add: part_text_of_def)
  qed
qed

lemma part_texts_eq:
  assumes "emap_from (candidate_part lib label ix n) i raw = Inr ps"
  shows "part_texts ps = concat (map part_text_of raw)"
proof -
  have "map part_text_of raw = map (\<lambda>x. case fst x of None \<Rightarrow> [] | Some s \<Rightarrow> s) ps"
    by (rule emap_from_map [OF assms]) (auto dest: candidate_part_Inr)
  moreover have "part_texts ps = concat (map (\<lambda>x. case fst x of None \<Rightarrow> [] | Some s \<Rightarrow> s) ps)"
    by (induction ps) (auto simp: part_texts_def map_filter_Cons split: option.splits)
  ultimately show ?thesis by simp
qed

lemma candidate_stream_delta_text:
  assumes "candidate_stream_delta lib c dialect label n = Inr (delta, f)"
  shows "delta_text delta = candidate_text c"
proof -
  obtain content where a: "null_as (JObj []) (jget c ''content'') = JObj content"
    using assms by (cases "null_as (JObj []) (jget c ''content'')") (auto simp: candidate_stream_delta_def)
  obtain raw where b: "null_as (JList []) (jget content ''parts'') = JList raw"
    using assms a by (cases "null_as (JList []) (jget content ''parts'')") (auto simp: candidate_stream_delta_def)
  obtain ps where p: "emap_from (candidate_part lib label True n) 0 raw = Inr ps" "delta_text delta = part_texts ps"
    using assms a b by (auto simp: candidate_stream_delta_def ebind_eq_Inr delta_text_def)
  have "candidate_text c = concat (map part_text_of raw)"
    using a b by (auto simp: candidate_text_def null_as_def split: if_splits)
  then show ?thesis using p part_texts_eq [OF p(1)] by simp
qed

lemma chunk_step_text: "chunk_step lib a n chunk = Emit delta f \<Longrightarrow> delta_text delta = chunk_text_of chunk"
  by (auto simp: chunk_step_def chunk_text_of_def jget_or_def jget_def dict_get_or_def
      split: json.splits list.splits option.splits sum.splits gemini_error.splits dest: candidate_stream_delta_text)

lemma chunk_step_skip_text: "chunk_step lib a n chunk = Skip \<Longrightarrow> chunk_text_of chunk = []"
  by (auto simp: chunk_step_def chunk_text_of_def jget_or_def jget_def dict_get_or_def
      split: json.splits list.splits option.splits sum.splits gemini_error.splits)

definition frames_ok :: "gemini_stream_args \<Rightarrow> upstream_end \<Rightarrow> bool \<Rightarrow> string \<Rightarrow> frame list \<Rightarrow> bool" where
  "frames_ok a ending reading t fs \<longleftrightarrow>
     (\<exists>deltas end_frames. fs = map (\<lambda>d. chunk_frame a d JNull []) deltas @ end_frames \<and>
        prefix (concat (map delta_text deltas)) t \<and>
        (end_frames = [] \<or> (\<exists>m. end_frames = [sse_error ''provider_response_error'' m]) \<or>
           (\<exists>finish usage. end_frames = final_frames a finish usage) \<and> concat (map delta_text deltas) = t) \<and>
        (reading \<longrightarrow> concat (map delta_text deltas) = t \<and>
           (if ending = UpstreamEof then \<exists>finish usage. end_frames = final_frames a finish usage else end_frames = [])))"

lemma frames_ok_end:
  assumes "ef = [] \<or> (\<exists>m. ef = [sse_error ''provider_response_error'' m]) \<or>
      (\<exists>finish usage. ef = final_frames a finish usage) \<and> t = []"
    "reading \<longrightarrow> t = [] \<and> (if ending = UpstreamEof then \<exists>finish usage. ef = final_frames a finish usage else ef = [])"
  shows "frames_ok a ending reading t ef"
  unfolding frames_ok_def by (intro exI [of _ "[]"] exI [of _ ef]) (use assms in auto)

lemma frames_ok_step:
  assumes "frames_ok a ending reading t fs"
  shows "frames_ok a ending reading (delta_text d @ t) (chunk_frame a d JNull [] # fs)"
proof -
  obtain ds ef where f: "fs = map (\<lambda>d. chunk_frame a d JNull []) ds @ ef" "prefix (concat (map delta_text ds)) t"
    "ef = [] \<or> (\<exists>m. ef = [sse_error ''provider_response_error'' m]) \<or>
       (\<exists>finish usage. ef = final_frames a finish usage) \<and> concat (map delta_text ds) = t"
    "reading \<longrightarrow> concat (map delta_text ds) = t \<and>
       (if ending = UpstreamEof then \<exists>finish usage. ef = final_frames a finish usage else ef = [])"
    using assms unfolding frames_ok_def by blast
  show ?thesis unfolding frames_ok_def
    by (intro exI [of _ "d # ds"] exI [of _ ef]) (use f in auto)
qed

lemma gemini_frames_ok:
  "gemini_frames lib a ending n lines finish usage = (fs, reading) \<Longrightarrow>
   frames_ok a ending reading (concat (map chunk_text_of (stream_chunks (gl_loads lib) lines))) fs"
proof (induction lines arbitrary: n finish usage fs reading)
  case Nil
  then show ?case by (intro frames_ok_end) (auto split: if_splits)
next
  case (Cons line lines)
  show ?case
  proof (cases "gemini_data line")
    case None
    then show ?thesis using Cons by simp
  next
    case (Some raw)
    show ?thesis
    proof (cases "raw = ''[DONE]''")
      case True
      then show ?thesis using Cons.prems Some by (intro frames_ok_end) auto
    next
      case False
      show ?thesis
      proof (cases "\<exists>chunk. gl_loads lib raw = Some (JObj chunk)")
        case chunk: True
        then obtain chunk where c: "gl_loads lib raw = Some (JObj chunk)" by blast
        show ?thesis
        proof (cases "chunk_step lib a n chunk")
          case Skip
          then show ?thesis
            using Cons.IH Cons.prems Some False c chunk_step_skip_text [OF Skip] by simp
        next
          case (Emit delta f)
          obtain gs where g: "gemini_frames lib a ending (Suc n) lines (case f of None \<Rightarrow> finish | Some f' \<Rightarrow> f')
              (chunk_usage_meta chunk usage) = (gs, reading)" "fs = chunk_frame a delta JNull [] # gs"
            using Cons.prems Some False c Emit by (auto simp: Let_def split: prod.splits)
          show ?thesis
            using frames_ok_step [OF Cons.IH [OF g(1)], of delta] chunk_step_text [OF Emit] g(2) Some False c by simp
        qed (use Cons.prems Some False c in \<open>auto intro!: frames_ok_end\<close>)
      next
        case no: False
        then have "gemini_frames lib a ending (Suc n) lines finish usage = (fs, reading)"
          using Cons.prems Some False by (auto split: option.splits json.splits)
        moreover have "stream_chunks (gl_loads lib) (line # lines) = stream_chunks (gl_loads lib) lines"
          using no Some False by (auto split: option.splits json.splits)
        ultimately show ?thesis using Cons.IH by simp
      qed
    qed
  qed
qed

lemma gemini_contents_texts:
  assumes "translate_chat_request loads repr allowed default_model body = Inr (model, gb)"
  obtains ms cs where "jget_or body ''messages'' (JList []) = JList ms" "jget gb ''contents'' = JList cs"
    "map content_text cs = map message_text (filter (\<lambda>m. \<not> is_system_message m) ms)"
    "map content_calls cs = map (chat_calls loads) (filter (\<lambda>m. \<not> is_system_message m) ms)"
    "system_instruction gb = py_join [CHR 10] (map message_text (filter is_system_message ms))"
    "\<And>k v. (k, v) \<in> set body \<Longrightarrow> k \<notin> set allowed \<Longrightarrow> v = JNull"
proof -
  obtain ms cs where m: "jget_or body ''messages'' (JList []) = JList ms" "jget gb ''contents'' = JList cs"
    "contents_from loads repr 0 [] ms = Inr cs"
    "system_instruction gb = py_join [CHR 10] (map message_text (filter is_system_message ms))"
    "\<And>k v. (k, v) \<in> set body \<Longrightarrow> k \<notin> set allowed \<Longrightarrow> v = JNull"
    using translate_chat_request_Inr [OF assms] by metis
  have l: "list_all2 (translated loads) (filter (\<lambda>m. \<not> is_system_message m) ms) cs"
    using contents_from_Inr [OF m(3), of "{}"] by simp
  have "map content_text cs = map message_text (filter (\<lambda>m. \<not> is_system_message m) ms)"
    "map content_calls cs = map (chat_calls loads) (filter (\<lambda>m. \<not> is_system_message m) ms)"
    using l by (induction rule: list_all2_induct) (simp_all add: translated_def)
  then show ?thesis by (rule that [OF m(1,2) _ _ m(4,5)])
qed

section \<open>Properties\<close>


text \<open>
  In what Gemini is sent, every function response names a function call of an earlier content, by id and name.
\<close>

theorem gemini_responses_follow_calls:
  assumes "translate_chat_request loads repr allowed default_model body = Inr (model, gb)"
    and "jget gb ''contents'' = JList cs" "i < length cs" "r \<in> set (content_responses (cs ! i))"
  shows "\<exists>j<i. r \<in> set (call_names (cs ! j))"
proof -
  obtain ms where "contents_from loads repr 0 [] ms = Inr cs"
    using translate_chat_request_Inr [OF assms(1)] assms(2) by (metis json.inject(5))
  then have "paired {} cs" using contents_from_Inr [of loads repr 0 "[]" ms cs "{}"] by simp
  then show ?thesis using paired_nth [of "{}" cs i r] assms(3,4) by simp
qed

definition demo_gemini_request :: json_object where
  "demo_gemini_request = [(''model'', JStr ''g''), (''messages'', JList [
     JObj [(''role'', JStr ''system''), (''content'', JStr ''s'')],
     JObj [(''role'', JStr ''user''), (''content'', JStr ''u'')],
     JObj [(''role'', JStr ''assistant''), (''content'', JNull), (''tool_calls'', JList [JObj [(''id'', JStr ''c''),
       (''type'', JStr ''function''), (''function'', JObj [(''name'', JStr ''f''), (''arguments'', JStr ''{}'')])]])],
     JObj [(''role'', JStr ''tool''), (''tool_call_id'', JStr ''c''), (''content'', JStr ''r'')]])]"

definition demo_gemini_contents :: "json list" where
  "demo_gemini_contents = [
     JObj [(''role'', JStr ''user''), (''parts'', JList [JObj [(''text'', JStr ''u'')]])],
     JObj [(''role'', JStr ''model''), (''parts'', JList [JObj [(''functionCall'', JObj [(''name'', JStr ''f''),
       (''args'', JObj []), (''id'', JStr ''c'')])]])],
     JObj [(''role'', JStr ''user''), (''parts'', JList [JObj [(''functionResponse'', JObj [(''id'', JStr ''c''),
       (''name'', JStr ''f''), (''response'', JObj [(''output'', JStr ''r'')])])]])]]"

lemma demo_gemini_request:
  "translate_chat_request (\<lambda>s. Some (JObj [])) id GEMINI_CHAT_TRANSLATION_FIELDS None demo_gemini_request =
     Inr (''g'', [(''contents'', JList demo_gemini_contents),
       (''systemInstruction'', JObj [(''parts'', JList [JObj [(''text'', JStr ''s'')]])])])"
  by (simp add: translate_chat_request_def demo_gemini_request_def demo_gemini_contents_def GEMINI_CHAT_TRANSLATION_FIELDS_def
      request_model_def translate_openai_messages_to_contents_def message_contents_def extract_message_text_def
      assistant_contents_def function_call_part_def tool_contents_def arguments_value_def map_filter_Cons
      system_texts_def is_system_message_def translate_generation_config_def given_def translate_tools_def
      translate_tool_choice_def jget_or_def dict_get_or_def dict_update_def Let_def)


lemma gemini_responses_follow_calls_witness:
  "(JStr ''c'', JStr ''f'') \<in> set (call_names (demo_gemini_contents ! 0)) \<or>
   (JStr ''c'', JStr ''f'') \<in> set (call_names (demo_gemini_contents ! 1))"
proof -
  have "(JStr ''c'', JStr ''f'') \<in> set (content_responses (demo_gemini_contents ! 2))"
    by (simp add: demo_gemini_contents_def content_responses_def content_parts_def map_filter_Cons)
  then obtain j where "j < 2" "(JStr ''c'', JStr ''f'') \<in> set (call_names (demo_gemini_contents ! j))"
    using gemini_responses_follow_calls [OF demo_gemini_request, of demo_gemini_contents 2 "(JStr ''c'', JStr ''f'')"]
    by (auto simp: demo_gemini_contents_def)
  then show ?thesis by (auto simp: less_2_cases_iff)
qed



definition call_chunk :: "string \<Rightarrow> string \<Rightarrow> json" where
  "call_chunk i name = JObj [(''candidates'', JList [JObj [(''content'', JObj [(''parts'', JList [JObj [(''functionCall'',
     JObj [(''id'', JStr i), (''name'', JStr name)])]])])]])]"

definition stop_chunk :: json where
  "stop_chunk = JObj [(''candidates'', JList [JObj [(''finishReason'', JStr ''STOP'')]])]"

definition tool_delta :: "string \<Rightarrow> string \<Rightarrow> string \<Rightarrow> json_object" where
  "tool_delta i name arguments =
     [(''content'', JStr []), (''tool_calls'', JList [JObj [(''index'', JInt 0), (''id'', JStr i), (''type'', JStr ''function''),
       (''function'', JObj [(''name'', JStr name), (''arguments'', JStr arguments)])]])]"

lemma tool_chunk_steps:
  "name \<noteq> [] \<Longrightarrow> chunk_step lib a n (as_obj (call_chunk i name)) =
     Emit (tool_delta i name (gl_dumps lib (JObj []))) (Some ''tool_calls'')"
  "chunk_step lib a n (as_obj stop_chunk) = Emit [(''content'', JStr [])] (Some ''stop'')"
  by (simp_all add: chunk_step_def call_chunk_def stop_chunk_def tool_delta_def candidate_stream_delta_def null_as_def
      candidate_part_def part_texts_def part_calls_def map_filter_Cons finish_of_def FINISH_REASON_MAP_def
      jget_or_def dict_get_or_def)

definition demo_loads :: "string \<Rightarrow> json option" where
  "demo_loads s = (if s = ''1'' then Some (call_chunk ''c1'' ''f'') else if s = ''2'' then Some (call_chunk ''c2'' ''g'') else Some stop_chunk)"

text \<open>
  A stream whose two calls come in chunks of their own gives both the same index, so that a Chat client takes
  the second for a piece of the first, and the last chunk, which has no call, resets the finish reason to \<open>stop\<close>.
\<close>

theorem gemini_tool_calls_collide:
  "fst (gemini_frames (lib\<lparr>gl_loads := demo_loads\<rparr>) a UpstreamEof 0 [''data: 1'', ''data: 2'', ''data: 3''] ''stop'' []) =
     [chunk_frame a (tool_delta ''c1'' ''f'' (gl_dumps lib (JObj []))) JNull [],
      chunk_frame a (tool_delta ''c2'' ''g'' (gl_dumps lib (JObj []))) JNull [],
      chunk_frame a [(''content'', JStr [])] JNull []] @ final_frames a ''stop'' []"
proof -
  have d: "gemini_data ''data: 1'' = Some ''1''" "gemini_data ''data: 2'' = Some ''2''" "gemini_data ''data: 3'' = Some ''3''"
    by (simp_all add: gemini_data_def py_strip_def py_is_space_def py_startswith_def)
  have o: "call_chunk i name = JObj (as_obj (call_chunk i name))" "stop_chunk = JObj (as_obj stop_chunk)" for i name
    by (simp_all add: call_chunk_def stop_chunk_def)
  have u: "chunk_usage_meta (as_obj (call_chunk i name)) v = v" "chunk_usage_meta (as_obj stop_chunk) v = v" for i name v
    by (simp_all add: call_chunk_def stop_chunk_def chunk_usage_meta_def)
  have l: "demo_loads ''1'' = Some (JObj (as_obj (call_chunk ''c1'' ''f'')))"
    "demo_loads ''2'' = Some (JObj (as_obj (call_chunk ''c2'' ''g'')))" "demo_loads ''3'' = Some (JObj (as_obj stop_chunk))"
    using o by (simp_all add: demo_loads_def)
  show ?thesis by (simp add: d l u tool_chunk_steps Let_def)
qed

end
