(* ===== verification/AnthropicProvider.thy ===== *)
theory AnthropicProvider imports GeminiFacts begin

text \<open>
  The translations of \<open>proxy/app/providers/anthropic.py\<close>: a Chat body to a Messages body and a Messages
  response to a Chat response, on JSON values of unknown shape. \<open>json.loads\<close>, \<open>json.dumps\<close> and \<open>repr\<close> are
  parameters. A membership test on a value that is not hashable raises a \<open>TypeError\<close>.
\<close>

section \<open>Requests\<close>

definition afail :: "string \<Rightarrow> py_error + 'a" where
  "afail m = Inl (ValueError m)"

definition py_or :: "json \<Rightarrow> json \<Rightarrow> json" where
  "py_or a b = (if json_truthy a then a else b)"

fun hashable :: "json \<Rightarrow> bool" where
  "hashable (JList xs) = False"
| "hashable (JObj d) = False"
| "hashable v = True"

definition a_translate_tool :: "nat \<Rightarrow> json \<Rightarrow> py_error + json" where
  "a_translate_tool index tool =
     (let what = nth_of ''tool'' index in
      case tool of
        JObj d \<Rightarrow>
          (if jget d ''type'' \<noteq> JStr ''function'' then afail (what @ '' is not an OpenAI function tool'')
           else (case jget d ''function'' of
                   JObj f \<Rightarrow>
                     (case jget f ''name'' of
                        JStr name \<Rightarrow>
                          (case jget_or f ''parameters'' (JObj [(''type'', JStr ''object'')]) of
                             JObj schema \<Rightarrow>
                               Inr (JObj ([(''name'', JStr name), (''input_schema'', JObj schema)] @
                                 given f ''description'' ''description'' @ given f ''strict'' ''strict''))
                           | _ \<Rightarrow> afail (what @ '' parameters must be a JSON Schema object''))
                      | _ \<Rightarrow> afail (what @ '' requires a function name''))
                 | _ \<Rightarrow> afail (what @ '' requires a function definition'')))
      | _ \<Rightarrow> afail (what @ '' is not an OpenAI function tool''))"

definition a_translate_tools :: "json \<Rightarrow> py_error + json" where
  "a_translate_tools tools =
     (case tools of
        JList ts \<Rightarrow> ebind (emap_from a_translate_tool 0 ts) (\<lambda>us. Inr (JList us))
      | _ \<Rightarrow> afail ''tools must be a list'')"

definition a_translate_tool_choice :: "json \<Rightarrow> py_error + json" where
  "a_translate_tool_choice tool_choice =
     (case tool_choice of
        JStr s \<Rightarrow>
          (if s = ''auto'' then Inr (JObj [(''type'', JStr ''auto'')])
           else if s = ''none'' then Inr (JObj [(''type'', JStr ''none'')])
           else if s = ''required'' then Inr (JObj [(''type'', JStr ''any'')])
           else afail ''unsupported Anthropic tool_choice'')
      | JObj d \<Rightarrow>
          (case (jget d ''type'' = JStr ''function'', jget d ''function'') of
             (True, JObj f) \<Rightarrow>
               (case jget f ''name'' of
                  JStr name \<Rightarrow> Inr (JObj [(''type'', JStr ''tool''), (''name'', JStr name)])
                | _ \<Rightarrow> afail ''named function tool_choice requires a name'')
           | _ \<Rightarrow> afail ''Anthropic adapter only supports named function tool_choice'')
      | _ \<Rightarrow> afail ''unsupported Anthropic tool_choice'')"

definition a_translate_part :: "(json \<Rightarrow> string) \<Rightarrow> string \<Rightarrow> bool \<Rightarrow> nat \<Rightarrow> json \<Rightarrow> py_error + json" where
  "a_translate_part repr location allow_images index part =
     (case part of
        JObj d \<Rightarrow>
          (let t = jget d ''type'' in
           if \<not> hashable t then Inl TypeError
           else if t = JStr ''text'' \<or> t = JStr ''input_text'' then
             (case jget d ''text'' of
                JStr s \<Rightarrow> Inr (JObj [(''type'', JStr ''text''), (''text'', JStr s)])
              | _ \<Rightarrow> afail (location @ '' '' @ nth_of ''text part'' index @ '' requires string text''))
           else if t = JStr ''image_url'' \<and> allow_images then
             (case jget d ''image_url'' of
                JObj i \<Rightarrow>
                  (case jget i ''url'' of
                     JStr u \<Rightarrow> Inr (JObj [(''type'', JStr ''image''),
                       (''source'', JObj [(''type'', JStr ''url''), (''url'', JStr u)])])
                   | _ \<Rightarrow> afail (location @ '' '' @ nth_of ''image part'' index @ '' requires a URL''))
              | _ \<Rightarrow> afail (location @ '' '' @ nth_of ''image part'' index @ '' requires image_url''))
           else afail (location @ '' '' @ nth_of ''content part'' index @ '' of type '' @ repr t @ '' is unsupported''))
      | _ \<Rightarrow> afail (location @ '' '' @ nth_of ''content part'' index @ '' must be an object''))"

definition a_translate_content :: "(json \<Rightarrow> string) \<Rightarrow> string \<Rightarrow> bool \<Rightarrow> json \<Rightarrow> py_error + json" where
  "a_translate_content repr location allow_images content =
     (case content of
        JNull \<Rightarrow> Inr (JStr [])
      | JStr s \<Rightarrow> Inr (JStr s)
      | JList ps \<Rightarrow> ebind (emap_from (a_translate_part repr location allow_images) 0 ps) (\<lambda>us. Inr (JList us))
      | _ \<Rightarrow> afail (location @ '' content must be a string or content-part list''))"

text \<open>What a system message adds to \<open>system_parts\<close>.\<close>

definition a_block_text :: "json \<Rightarrow> string option" where
  "a_block_text b =
     (case b of
        JObj d \<Rightarrow> (case (jget d ''type'' = JStr ''text'', jget d ''text'') of (True, JStr t) \<Rightarrow> Some t | _ \<Rightarrow> None)
      | _ \<Rightarrow> None)"

definition a_system_parts :: "(json \<Rightarrow> string) \<Rightarrow> string \<Rightarrow> json \<Rightarrow> py_error + string list" where
  "a_system_parts repr role content =
     ebind (a_translate_content repr (role @ '' message'') False content) (\<lambda>c.
       Inr (case c of JStr s \<Rightarrow> [s] | JList bs \<Rightarrow> List.map_filter a_block_text bs | _ \<Rightarrow> []))"

definition a_tool_use :: "(string \<Rightarrow> json option) \<Rightarrow> nat \<Rightarrow> json \<Rightarrow> py_error + json" where
  "a_tool_use loads index tc =
     (let what = nth_of ''assistant tool call'' index in
      case tc of
        JObj d \<Rightarrow>
          (case jget_or d ''function'' (JObj []) of
             JObj f \<Rightarrow>
               (case arguments_value loads f of
                  None \<Rightarrow> afail (what @ '' arguments are not valid JSON'')
                | Some (JObj args) \<Rightarrow>
                    Inr (JObj [(''type'', JStr ''tool_use''), (''id'', jget_or d ''id'' (JStr [])),
                      (''name'', jget_or f ''name'' (JStr [])), (''input'', JObj args)])
                | Some _ \<Rightarrow> afail (what @ '' arguments must be an object''))
           | _ \<Rightarrow> afail (what @ '' requires a function''))
      | _ \<Rightarrow> afail (what @ '' must be an object''))"

definition a_assistant_blocks ::
  "(string \<Rightarrow> json option) \<Rightarrow> (json \<Rightarrow> string) \<Rightarrow> json \<Rightarrow> json \<Rightarrow> py_error + json list" where
  "a_assistant_blocks loads repr content tool_calls =
     ebind (if \<not> json_truthy content then Inr []
            else ebind (a_translate_content repr ''assistant message'' True content) (\<lambda>c.
              Inr (case c of JStr s \<Rightarrow> [JObj [(''type'', JStr ''text''), (''text'', JStr s)]] | JList bs \<Rightarrow> bs | _ \<Rightarrow> []))) (\<lambda>blocks.
     case tool_calls of
       JList tcs \<Rightarrow> ebind (emap_from (a_tool_use loads) 0 tcs) (\<lambda>uses. Inr (blocks @ uses))
     | _ \<Rightarrow> afail ''assistant tool_calls must be a list'')"

text \<open>One message: what it adds to \<open>system_parts\<close> and to the messages.\<close>

definition a_translate_message ::
  "(string \<Rightarrow> json option) \<Rightarrow> (json \<Rightarrow> string) \<Rightarrow> json_object \<Rightarrow> py_error + (string list \<times> json list)" where
  "a_translate_message loads repr m =
     (let role = jget_or m ''role'' (JStr []); content = jget m ''content'' in
      if \<not> hashable role then Inl TypeError
      else (case role of
        JStr r \<Rightarrow>
          (if r \<in> {''system'', ''developer''} then ebind (a_system_parts repr r content) (\<lambda>ts. Inr (ts, []))
           else if r = ''tool'' then
             ebind (a_translate_content repr ''tool message'' False content) (\<lambda>c.
               Inr ([], [JObj [(''role'', JStr ''user''), (''content'', JList [JObj [(''type'', JStr ''tool_result''),
                 (''tool_use_id'', jget_or m ''tool_call_id'' (JStr [])), (''content'', c)]])]]))
           else if r = ''assistant'' \<and> json_truthy (jget m ''tool_calls'') then
             ebind (a_assistant_blocks loads repr content (jget m ''tool_calls'')) (\<lambda>bs.
               Inr ([], [JObj [(''role'', JStr ''assistant''), (''content'', JList bs)]]))
           else if r \<notin> {''user'', ''assistant''} then afail (''unsupported Chat message role '' @ repr role)
           else ebind (a_translate_content repr (r @ '' message'') True content) (\<lambda>c.
               Inr ([], [JObj [(''role'', JStr r), (''content'', c)]])))
      | _ \<Rightarrow> afail (''unsupported Chat message role '' @ repr role)))"

definition A_PASSED_FIELDS :: "string list" where
  "A_PASSED_FIELDS = [''cache_control'', ''container'', ''inference_geo'', ''metadata'', ''output_config'',
     ''service_tier'', ''temperature'', ''thinking'', ''top_k'', ''top_p'', ''anthropic-user-profile-id'']"

definition a_optional :: "json_object \<Rightarrow> string \<Rightarrow> (json \<Rightarrow> py_error + json) \<Rightarrow> py_error + json_object" where
  "a_optional body k f = (case map_of body k of None \<Rightarrow> Inr [] | Some v \<Rightarrow> ebind (f v) (\<lambda>t. Inr [(k, t)]))"

definition a_stop_entries :: "json_object \<Rightarrow> json_object" where
  "a_stop_entries body =
     (case map_of body ''stop'' of
        None \<Rightarrow> []
      | Some (JList xs) \<Rightarrow> [(''stop_sequences'', JList xs)]
      | Some v \<Rightarrow> [(''stop_sequences'', JList [v])])"

definition a_translate_request ::
  "(string \<Rightarrow> json option) \<Rightarrow> (json \<Rightarrow> string) \<Rightarrow> json_object \<Rightarrow> py_error + json_object" where
  "a_translate_request loads repr body =
     (case jget_or body ''messages'' (JList []) of
        JList ms \<Rightarrow>
          (if \<not> list_all is_obj ms then afail ''messages must be a list of objects''
           else
             ebind (emap (a_translate_message loads repr) (map as_obj ms)) (\<lambda>rs.
             let system_parts = concat (map fst rs); messages = concat (map snd rs) in
             ebind (a_optional body ''tools'' a_translate_tools) (\<lambda>tools.
             ebind (a_optional body ''tool_choice'' a_translate_tool_choice) (\<lambda>choice.
               Inr ([(''model'', jget_or body ''model'' (JStr [])), (''messages'', JList messages),
                     (''max_tokens'', py_or (jget body ''max_tokens'') (py_or (jget body ''max_completion_tokens'') (JInt 1024))),
                     (''stream'', jget_or body ''stream'' (JBool False))] @
                    (if system_parts = [] then [] else [(''system'', JStr (py_join [CHR 10, CHR 10] system_parts))]) @
                    concat (map (\<lambda>k. given body k k) A_PASSED_FIELDS) @
                    a_stop_entries body @ tools @ choice)))))
      | _ \<Rightarrow> afail ''messages must be a list of objects'')"

section \<open>Responses\<close>

definition STOP_REASON_MAP :: "(string \<times> string) list" where
  "STOP_REASON_MAP = [(''end_turn'', ''stop''), (''max_tokens'', ''length''), (''tool_use'', ''tool_calls''),
     (''stop_sequence'', ''stop'')]"

text \<open>A content block: its text or its tool call.\<close>

definition a_response_block :: "(json \<Rightarrow> string) \<Rightarrow> (json \<Rightarrow> string) \<Rightarrow> nat \<Rightarrow> json \<Rightarrow> py_error + (string option \<times> json option)" where
  "a_response_block dumps repr index raw_block =
     (case raw_block of
        JObj b \<Rightarrow>
          (let t = jget_or b ''type'' (JStr []) in
           if t = JStr ''text'' then
             (case jget b ''text'' of
                JStr s \<Rightarrow> Inr (Some s, None)
              | _ \<Rightarrow> afail (nth_of ''Anthropic text block'' index @ '' must include string text''))
           else if t = JStr ''tool_use'' then
             (case (jget b ''id'', jget b ''name'') of
                (JStr i, JStr n) \<Rightarrow>
                  (case jget_or b ''input'' (JObj []) of
                     JObj v \<Rightarrow> Inr (None, Some (JObj [(''id'', JStr i), (''type'', JStr ''function''),
                       (''function'', JObj [(''name'', JStr n), (''arguments'', JStr (dumps (JObj v)))])]))
                   | _ \<Rightarrow> afail (nth_of ''Anthropic tool_use block'' index @ '' input must be an object''))
              | _ \<Rightarrow> afail (nth_of ''Anthropic tool_use block'' index @ '' is missing id or name''))
           else afail (nth_of ''Anthropic response content block'' index @ '' type '' @ repr t @ '' cannot be translated''))
      | _ \<Rightarrow> afail (nth_of ''Anthropic response content block'' index @ '' must be an object''))"

text \<open>\<open>isinstance(v, int)\<close>, which a \<open>bool\<close> satisfies.\<close>

fun int_value :: "json \<Rightarrow> int option" where
  "int_value (JInt i) = Some i"
| "int_value (JBool b) = Some (if b then 1 else 0)"
| "int_value _ = None"

definition a_translate_response ::
  "(json \<Rightarrow> string) \<Rightarrow> (json \<Rightarrow> string) \<Rightarrow> json_object \<Rightarrow> py_error + json_object" where
  "a_translate_response dumps repr body =
     (case jget_or body ''content'' (JList []) of
        JList raw_content \<Rightarrow>
          ebind (emap_from (a_response_block dumps repr) 0 raw_content) (\<lambda>bs.
          case jget_or body ''stop_reason'' (JStr ''end_turn'') of
            JStr reason \<Rightarrow>
              (case jget_or body ''usage'' (JObj []) of
                 JObj u \<Rightarrow>
                   (let i = jget_or u ''input_tokens'' (JInt 0); outs = jget_or u ''output_tokens'' (JInt 0) in
                    case (int_value i, int_value outs) of
                      (Some n, Some k) \<Rightarrow>
                        Inr [(''id'', jget_or body ''id'' (JStr [])), (''object'', JStr ''chat.completion''),
                          (''model'', jget_or body ''model'' (JStr [])),
                          (''choices'', JList [JObj [(''index'', JInt 0),
                             (''message'', JObj ([(''role'', JStr ''assistant''), (''content'', JStr (part_texts bs))] @
                                (if part_calls bs = [] then [] else [(''tool_calls'', JList (part_calls bs))]))),
                             (''finish_reason'', JStr (case map_of STOP_REASON_MAP reason of None \<Rightarrow> ''stop'' | Some f \<Rightarrow> f))]]),
                          (''usage'', JObj [(''prompt_tokens'', i), (''completion_tokens'', outs), (''total_tokens'', JInt (n + k))])]
                    | _ \<Rightarrow> afail ''Anthropic response usage token counts must be integers'')
               | _ \<Rightarrow> afail ''Anthropic response usage must be an object'')
          | _ \<Rightarrow> afail ''Anthropic response stop_reason must be a string'')
      | _ \<Rightarrow> afail ''Anthropic response content must be a list'')"

section \<open>What a translation keeps\<close>

text \<open>The text of a Chat message, of its typed text parts.\<close>

definition typed_text :: "json \<Rightarrow> string" where
  "typed_text p = (if jget (as_obj p) ''type'' \<in> {JStr ''text'', JStr ''input_text''} then part_text_of p else [])"

definition value_texts :: "json \<Rightarrow> string list" where
  "value_texts v = (case v of JStr s \<Rightarrow> [s] | JNull \<Rightarrow> [[]] | JList ps \<Rightarrow> map typed_text ps | _ \<Rightarrow> [])"

definition chat_text :: "json \<Rightarrow> string" where
  "chat_text m = concat (value_texts (jget (as_obj m) ''content''))"

definition a_chat_call :: "(string \<Rightarrow> json option) \<Rightarrow> json \<Rightarrow> json \<times> json \<times> json" where
  "a_chat_call loads tc =
     (let f = as_obj (jget (as_obj tc) ''function'')
      in (jget_or (as_obj tc) ''id'' (JStr []), jget_or f ''name'' (JStr []), parsed_arguments loads f))"

definition a_chat_calls :: "(string \<Rightarrow> json option) \<Rightarrow> json \<Rightarrow> (json \<times> json \<times> json) list" where
  "a_chat_calls loads m =
     (if jget (as_obj m) ''role'' = JStr ''assistant''
      then (case jget (as_obj m) ''tool_calls'' of JList tcs \<Rightarrow> map (a_chat_call loads) tcs | _ \<Rightarrow> [])
      else [])"

text \<open>The text and the tool uses of an Anthropic message.\<close>

definition block_text :: "json \<Rightarrow> string" where
  "block_text b =
     (case jget (as_obj b) ''text'' of
        JStr t \<Rightarrow> t
      | _ \<Rightarrow> (case jget (as_obj b) ''content'' of
               JStr s \<Rightarrow> s
             | JList bs \<Rightarrow> concat (map part_text_of bs)
             | _ \<Rightarrow> []))"

definition a_content_text :: "json \<Rightarrow> string" where
  "a_content_text c = (case c of JStr s \<Rightarrow> s | JList bs \<Rightarrow> concat (map block_text bs) | _ \<Rightarrow> [])"

definition a_content_uses :: "json \<Rightarrow> (json \<times> json \<times> json) list" where
  "a_content_uses c =
     (case c of
        JList bs \<Rightarrow> map (\<lambda>b. (jget (as_obj b) ''id'', jget (as_obj b) ''name'', jget (as_obj b) ''input''))
          (filter (\<lambda>b. jget (as_obj b) ''type'' = JStr ''tool_use'') bs)
      | _ \<Rightarrow> [])"

definition a_message_text :: "json \<Rightarrow> string" where
  "a_message_text m = a_content_text (jget (as_obj m) ''content'')"

definition a_message_uses :: "json \<Rightarrow> (json \<times> json \<times> json) list" where
  "a_message_uses m = a_content_uses (jget (as_obj m) ''content'')"

lemma afail_simps [simp]: "afail m \<noteq> Inr x" "Inr x \<noteq> afail m" "ebind (afail m) f = afail m"
  by (simp_all add: afail_def)

lemma a_translate_part_Inr:
  assumes "a_translate_part repr l imgs i p = Inr b"
  shows "block_text b = typed_text p" "jget (as_obj b) ''type'' \<noteq> JStr ''tool_use''"
    "part_text_of b = typed_text p" "\<not> imgs \<Longrightarrow> a_block_text b = Some (typed_text p)"
proof -
  obtain d where d: "p = JObj d" using assms by (cases p) (auto simp: a_translate_part_def)
  consider (t) s where "jget d ''type'' \<in> {JStr ''text'', JStr ''input_text''}" "jget d ''text'' = JStr s"
      "b = JObj [(''type'', JStr ''text''), (''text'', JStr s)]"
    | (i) u where "jget d ''type'' = JStr ''image_url''" "imgs"
      "b = JObj [(''type'', JStr ''image''), (''source'', JObj [(''type'', JStr ''url''), (''url'', JStr u)])]"
    using assms d by (auto simp: a_translate_part_def Let_def split: if_splits json.splits)
  note c = this
  show "block_text b = typed_text p" "jget (as_obj b) ''type'' \<noteq> JStr ''tool_use''" "part_text_of b = typed_text p"
    using c by (cases; simp add: d typed_text_def part_text_of_def block_text_def)+
  show "a_block_text b = Some (typed_text p)" if "\<not> imgs"
    using c that by (cases; simp add: d typed_text_def part_text_of_def a_block_text_def)
qed

lemma a_translate_content_Inr:
  assumes "a_translate_content repr l imgs v = Inr c"
  shows "a_content_text c = concat (value_texts v)" "a_content_uses c = []"
    "c = JStr s \<Longrightarrow> value_texts v = [s]" "c = JList bs \<Longrightarrow> concat (map part_text_of bs) = concat (value_texts v)"
    "\<not> imgs \<Longrightarrow> c = JList bs \<Longrightarrow> List.map_filter a_block_text bs = value_texts v"
    "(\<exists>s. c = JStr s) \<or> (\<exists>bs. c = JList bs)"
proof -
  consider (e) "v = JNull" "c = JStr []" | (s) s where "v = JStr s" "c = JStr s"
    | (l) ps us where "v = JList ps" "c = JList us" "emap_from (a_translate_part repr l imgs) 0 ps = Inr us"
    using assms by (cases v) (auto simp: a_translate_content_def ebind_eq_Inr)
  note k = this
  have r: "map block_text us = map typed_text ps \<and> map part_text_of us = map typed_text ps \<and>
      (\<forall>b\<in>set us. jget (as_obj b) ''type'' \<noteq> JStr ''tool_use'') \<and>
      (\<not> imgs \<longrightarrow> List.map_filter a_block_text us = map typed_text ps)"
    if "emap_from (a_translate_part repr l imgs) j ps = Inr us" for ps us j
    using that
  proof (induction ps arbitrary: us j)
    case (Cons p ps)
    then obtain b bs where "a_translate_part repr l imgs j p = Inr b" "us = b # bs"
      "emap_from (a_translate_part repr l imgs) (Suc j) ps = Inr bs" by (auto simp: ebind_eq_Inr)
    then show ?case using Cons.IH [of "Suc j" bs] a_translate_part_Inr [of repr l imgs j p b]
      by (cases imgs) (simp_all add: map_filter_Cons)
  qed simp
  show "a_content_text c = concat (value_texts v)" "a_content_uses c = []"
    "(\<exists>s. c = JStr s) \<or> (\<exists>bs. c = JList bs)"
    using k by (cases; use r in \<open>simp add: a_content_text_def value_texts_def a_content_uses_def\<close>)+
  show "value_texts v = [s]" if "c = JStr s" using k that by cases (simp_all add: value_texts_def)
  show "concat (map part_text_of bs) = concat (value_texts v)" if "c = JList bs"
    using k by cases (use that r in \<open>simp_all add: value_texts_def\<close>)
  show "List.map_filter a_block_text bs = value_texts v" if "\<not> imgs" "c = JList bs"
    using k by cases (use that r in \<open>simp_all add: value_texts_def\<close>)
qed

lemma a_tool_use_Inr:
  assumes "a_tool_use loads i tc = Inr b"
  shows "block_text b = []" "jget (as_obj b) ''type'' = JStr ''tool_use''"
    "(jget (as_obj b) ''id'', jget (as_obj b) ''name'', jget (as_obj b) ''input'') = a_chat_call loads tc"
proof -
  obtain d where d: "tc = JObj d" using assms by (cases tc) (auto simp: a_tool_use_def Let_def)
  obtain f where f: "jget_or d ''function'' (JObj []) = JObj f"
    using assms d by (cases "jget_or d ''function'' (JObj [])") (auto simp: a_tool_use_def Let_def)
  obtain v where v: "arguments_value loads f = Some v"
    using assms d f by (cases "arguments_value loads f") (auto simp: a_tool_use_def Let_def)
  obtain args where a: "v = JObj args" using assms d f v by (cases v) (auto simp: a_tool_use_def Let_def)
  have b: "b = JObj [(''type'', JStr ''tool_use''), (''id'', jget_or d ''id'' (JStr [])),
      (''name'', jget_or f ''name'' (JStr [])), (''input'', JObj args)]"
    using assms d f v a by (simp add: a_tool_use_def Let_def)
  have "as_obj (jget d ''function'') = f"
    using f by (auto simp: jget_or_def jget_def dict_get_or_def split: option.splits)
  then show "block_text b = []" "jget (as_obj b) ''type'' = JStr ''tool_use''"
    "(jget (as_obj b) ''id'', jget (as_obj b) ''name'', jget (as_obj b) ''input'') = a_chat_call loads tc"
    using v a by (simp_all add: b d a_chat_call_def parsed_arguments_def block_text_def)
qed

lemma a_tool_uses_Inr:
  "emap_from (a_tool_use loads) i tcs = Inr us \<Longrightarrow>
   concat (map block_text us) = [] \<and> a_content_uses (JList us) = map (a_chat_call loads) tcs"
proof (induction tcs arbitrary: i us)
  case (Cons tc tcs)
  then obtain b bs where "a_tool_use loads i tc = Inr b" "us = b # bs" "emap_from (a_tool_use loads) (Suc i) tcs = Inr bs"
    by (auto simp: ebind_eq_Inr)
  then show ?case using Cons.IH [of "Suc i" bs] a_tool_use_Inr [of loads i tc b]
    by (simp add: a_content_uses_def)
qed (simp add: a_content_uses_def)

lemma a_assistant_blocks_Inr:
  assumes "a_assistant_blocks loads repr content tool_calls = Inr bs"
  shows "a_content_text (JList bs) = concat (value_texts content)"
    "\<exists>tcs. tool_calls = JList tcs \<and> a_content_uses (JList bs) = map (a_chat_call loads) tcs"
proof -
  obtain blocks tcs uses where b: "tool_calls = JList tcs" "emap_from (a_tool_use loads) 0 tcs = Inr uses"
      "bs = blocks @ uses"
      "(if \<not> json_truthy content then Inr []
            else ebind (a_translate_content repr ''assistant message'' True content) (\<lambda>c.
              Inr (case c of JStr s \<Rightarrow> [JObj [(''type'', JStr ''text''), (''text'', JStr s)]] | JList bs \<Rightarrow> bs | _ \<Rightarrow> []))) = Inr blocks"
    using assms unfolding a_assistant_blocks_def ebind_eq_Inr by (cases tool_calls) (auto simp: ebind_eq_Inr)
  note u = a_tool_uses_Inr [OF b(2)]
  have k: "a_content_text (JList blocks) = concat (value_texts content) \<and> a_content_uses (JList blocks) = []"
  proof (cases "json_truthy content")
    case False
    then have "concat (value_texts content) = []" by (cases content) (auto simp: value_texts_def)
    then show ?thesis using b(4) False by (simp add: a_content_text_def a_content_uses_def)
  next
    case True
    then obtain c where c: "a_translate_content repr ''assistant message'' True content = Inr c"
        "blocks = (case c of JStr s \<Rightarrow> [JObj [(''type'', JStr ''text''), (''text'', JStr s)]] | JList bs \<Rightarrow> bs | _ \<Rightarrow> [])"
      using b(4) by (auto simp: ebind_eq_Inr)
    note t = a_translate_content_Inr [OF c(1)]
    from t(6) show ?thesis
    proof
      assume "\<exists>s. c = JStr s"
      then obtain s where "c = JStr s" by blast
      then show ?thesis using c(2) t(1) by (simp add: a_content_text_def a_content_uses_def block_text_def)
    next
      assume "\<exists>bs. c = JList bs"
      then show ?thesis using c(2) t(1,2) by auto
    qed
  qed
  show "a_content_text (JList bs) = concat (value_texts content)"
    using k u by (simp add: b(3) a_content_text_def)
  have "a_content_uses (JList bs) = map (a_chat_call loads) tcs"
    using k u by (simp add: b(3) a_content_uses_def)
  then show "\<exists>tcs. tool_calls = JList tcs \<and> a_content_uses (JList bs) = map (a_chat_call loads) tcs"
    using b(1) by blast
qed

definition a_kept :: "(string \<Rightarrow> json option) \<Rightarrow> json \<Rightarrow> json \<Rightarrow> bool" where
  "a_kept loads m m' \<longleftrightarrow> a_message_text m' = chat_text m \<and> a_message_uses m' = a_chat_calls loads m"

lemma a_translate_message_Inr:
  assumes "a_translate_message loads repr d = Inr (ts, ms)"
  shows "if is_system_message (JObj d) then ms = [] \<and> ts = value_texts (jget d ''content'')
    else ts = [] \<and> (\<exists>m. ms = [m] \<and> a_kept loads (JObj d) m)"
proof -
  let ?content = "jget d ''content''"
  have "hashable (jget_or d ''role'' (JStr []))" "\<exists>r. jget_or d ''role'' (JStr []) = JStr r"
    using assms by (auto simp: a_translate_message_def Let_def split: if_splits json.splits)
  then obtain r where r: "jget_or d ''role'' (JStr []) = JStr r" by blast
  have role: "jget d ''role'' = JStr r \<or> jget d ''role'' = JNull \<and> r = []"
    using r by (auto simp: jget_or_def jget_def dict_get_or_def split: option.splits)
  note step = assms [unfolded a_translate_message_def, simplified r Let_def]
  consider (sys) "r \<in> {''system'', ''developer''}" | (tool) "r = ''tool''"
    | (calls) "r = ''assistant''" "json_truthy (jget d ''tool_calls'')"
    | (plain) "r \<in> {''user'', ''assistant''}" "r = ''assistant'' \<longrightarrow> \<not> json_truthy (jget d ''tool_calls'')"
    using step by (auto split: if_splits)
  then show ?thesis
  proof cases
    case sys
    then obtain c where c: "a_translate_content repr (r @ '' message'') False ?content = Inr c" "ms = []"
        "ts = (case c of JStr s \<Rightarrow> [s] | JList bs \<Rightarrow> List.map_filter a_block_text bs | _ \<Rightarrow> [])"
      using step by (auto simp: a_system_parts_def ebind_eq_Inr)
    have "ts = value_texts ?content"
      using a_translate_content_Inr(3,5,6) [OF c(1)] c(3) by auto
    then show ?thesis using sys role c(2) by (auto simp: is_system_message_def)
  next
    case tool
    then obtain c where c: "a_translate_content repr ''tool message'' False ?content = Inr c" "ts = []"
        "ms = [JObj [(''role'', JStr ''user''), (''content'', JList [JObj [(''type'', JStr ''tool_result''),
                 (''tool_use_id'', jget_or d ''tool_call_id'' (JStr [])), (''content'', c)]])]]"
      using step by (auto simp: ebind_eq_Inr)
    note t = a_translate_content_Inr [OF c(1)]
    have "(case c of JStr s \<Rightarrow> s | JList bs \<Rightarrow> concat (map part_text_of bs) | _ \<Rightarrow> []) = concat (value_texts ?content)"
      using t(3,4,6) by auto
    then show ?thesis using tool role c
      by (simp add: is_system_message_def a_kept_def a_message_text_def a_message_uses_def a_content_text_def
          a_content_uses_def block_text_def chat_text_def a_chat_calls_def)
  next
    case calls
    then obtain bs where b: "a_assistant_blocks loads repr ?content (jget d ''tool_calls'') = Inr bs" "ts = []"
        "ms = [JObj [(''role'', JStr ''assistant''), (''content'', JList bs)]]"
      using step by (auto simp: ebind_eq_Inr)
    show ?thesis using calls role b a_assistant_blocks_Inr [OF b(1)]
      by (auto simp: is_system_message_def a_kept_def a_message_text_def a_message_uses_def chat_text_def a_chat_calls_def)
  next
    case plain
    from plain(1) have "r = ''user'' \<or> r = ''assistant''" by simp
    then have "ebind (a_translate_content repr (r @ '' message'') True ?content)
        (\<lambda>c. Inr ([], [JObj [(''role'', JStr r), (''content'', c)]])) = Inr (ts, ms)"
      using step plain(2) by (elim disjE) simp_all
    then obtain c where c: "a_translate_content repr (r @ '' message'') True ?content = Inr c" "ts = []"
        "ms = [JObj [(''role'', JStr r), (''content'', c)]]"
      by (auto simp: ebind_eq_Inr)
    have jr: "jget d ''role'' = JStr r" using role plain(1) by auto
    then have "\<not> is_system_message (JObj d)" using plain(1) by (auto simp: is_system_message_def)
    moreover have "a_chat_calls loads (JObj d) = []"
      using jr plain(2) by (cases "jget d ''tool_calls''") (auto simp: a_chat_calls_def)
    ultimately show ?thesis using c a_translate_content_Inr(1,2) [OF c(1)]
      by (simp add: a_kept_def a_message_text_def a_message_uses_def chat_text_def)
  qed
qed

lemma a_translate_messages_Inr:
  "emap (a_translate_message loads repr) ds = Inr rs \<Longrightarrow>
   list_all2 (a_kept loads) (filter (\<lambda>m. \<not> is_system_message m) (map JObj ds)) (concat (map snd rs)) \<and>
   concat (map fst rs) = concat (map (\<lambda>m. value_texts (jget (as_obj m) ''content'')) (filter is_system_message (map JObj ds)))"
proof (induction ds arbitrary: rs)
  case (Cons d ds)
  then obtain ts ms rest where r: "a_translate_message loads repr d = Inr (ts, ms)" "rs = (ts, ms) # rest"
      "emap (a_translate_message loads repr) ds = Inr rest"
    by (auto split: sum.splits)
  show ?case using a_translate_message_Inr [OF r(1)] Cons.IH [OF r(3)] r(2)
    by (cases "is_system_message (JObj d)") auto
qed simp

lemma given_other: "k' \<noteq> x \<Longrightarrow> map_of (given d k k') x = None"
  by (simp add: given_def split: option.splits)

lemma a_translate_request_Inr:
  assumes "a_translate_request loads repr body = Inr out"
  obtains ms rs where "jget_or body ''messages'' (JList []) = JList ms"
    "emap (a_translate_message loads repr) (map as_obj ms) = Inr rs" "jget out ''messages'' = JList (concat (map snd rs))"
    "list_all2 (a_kept loads) (filter (\<lambda>m. \<not> is_system_message m) ms) (concat (map snd rs))"
    "(case jget out ''system'' of JStr s \<Rightarrow> s | _ \<Rightarrow> []) =
      py_join [CHR 10, CHR 10] (concat (map (\<lambda>m. value_texts (jget (as_obj m) ''content'')) (filter is_system_message ms)))"
proof -
  obtain ms where m: "jget_or body ''messages'' (JList []) = JList ms" "list_all is_obj ms"
    using assms by (cases "jget_or body ''messages'' (JList [])") (auto simp: a_translate_request_def split: if_splits)
  obtain rs rest where r: "emap (a_translate_message loads repr) (map as_obj ms) = Inr rs"
    "out = [(''model'', jget_or body ''model'' (JStr [])), (''messages'', JList (concat (map snd rs))),
       (''max_tokens'', py_or (jget body ''max_tokens'') (py_or (jget body ''max_completion_tokens'') (JInt 1024))),
       (''stream'', jget_or body ''stream'' (JBool False))] @
      (if concat (map fst rs) = [] then [] else [(''system'', JStr (py_join [CHR 10, CHR 10] (concat (map fst rs))))]) @
      concat (map (\<lambda>k. given body k k) A_PASSED_FIELDS) @ rest"
    "map_of rest ''system'' = None"
  proof -
    obtain rs tools choice where e: "emap (a_translate_message loads repr) (map as_obj ms) = Inr rs"
        "a_optional body ''tools'' a_translate_tools = Inr tools"
        "a_optional body ''tool_choice'' a_translate_tool_choice = Inr choice"
      using assms m by (auto simp: a_translate_request_def Let_def ebind_eq_Inr simp del: map_map)
    have "map_of (a_stop_entries body @ tools @ choice) ''system'' = None"
      using e(2,3) by (auto simp: a_optional_def a_stop_entries_def ebind_eq_Inr split: option.splits json.splits)
    then show thesis using that [OF e(1), of "a_stop_entries body @ tools @ choice"] assms m e
      by (simp add: a_translate_request_def Let_def)
  qed
  have o: "map JObj (map as_obj ms) = ms"
    using m(2) by (induction ms) (auto simp: is_obj_iff)
  note t = a_translate_messages_Inr [OF r(1), unfolded o]
  have "map_of (concat (map (\<lambda>k. given body k k) A_PASSED_FIELDS)) ''system'' = None"
    by (simp add: A_PASSED_FIELDS_def given_other map_add_def)
  then have "(case jget out ''system'' of JStr s \<Rightarrow> s | _ \<Rightarrow> []) = py_join [CHR 10, CHR 10] (concat (map fst rs))"
    using r(3) by (cases "concat (map fst rs) = []") (simp_all add: r(2) jget_append del: concat_eq_Nil_conv)
  then show ?thesis using that [OF m(1) r(1)] t by (simp add: r(2))
qed

lemma a_kept_texts:
  "list_all2 (a_kept loads) ms ams \<Longrightarrow>
   map a_message_text ams = map chat_text ms \<and> map a_message_uses ams = map (a_chat_calls loads) ms"
  by (induction rule: list_all2_induct) (simp_all add: a_kept_def)

section \<open>Properties\<close>


definition demo_messages :: "json list" where
  "demo_messages = [JObj [(''role'', JStr ''system''), (''content'', JStr ''s'')],
     JObj [(''role'', JStr ''user''), (''content'', JList [JObj [(''type'', JStr ''text''), (''text'', JStr ''u'')]])]]"

definition demo_translated :: "json list" where
  "demo_translated = [JObj [(''role'', JStr ''user''), (''content'', JList [JObj [(''type'', JStr ''text''), (''text'', JStr ''u'')]])]]"


end
