(* ===== verification/WireRedaction.thy ===== *)
theory WireRedaction imports AnthropicProvider begin

text \<open>
  Redaction up to the wire: what the Anthropic and Gemini adapters write for a Chat request whose governed
  text was replaced. \<open>ChatTypes\<close> says how redaction changes the typed request, \<open>GeminiFacts\<close> and
  \<open>AnthropicProvider\<close> what a translation keeps of the dumped one.
\<close>

section \<open>The text of a dumped user message\<close>

definition user_part_text :: "user_part \<Rightarrow> string" where
  "user_part_text p = (case p of UserText t \<Rightarrow> tp_text t | _ \<Rightarrow> [])"

lemma jget_dump_set_other: "k \<noteq> k' \<Longrightarrow> jget (dump_set k enc f) k' = JNull"
  by (cases f) simp_all

lemma part_text_of_dump: "part_text_of (dump_user_part p) = user_part_text p"
proof (cases p)
  case (UserText t)
  then show ?thesis
    by (cases "tp_type t") (simp_all add: part_text_of_def user_part_text_def dump_text_part_def)
qed (simp_all add: part_text_of_def user_part_text_def jget_dump_set_other)

lemma text_leaves_text: "concat (map gl_text (text_leaves i j ps)) = concat (map user_part_text ps)"
  by (induction i j ps rule: text_leaves.induct) (simp_all add: user_part_text_def)

lemma message_text_dump:
  "message_text (dump_message (UserMessage m)) = concat (map gl_text (user_leaves i m))"
  by (cases "um_content m")
    (simp_all add: message_text_def user_leaves_def text_leaves_text part_text_of_dump comp_def)

lemma user_not_system: "\<not> is_system_message (dump_message (UserMessage m))"
  by (simp add: is_system_message_def)

lemma typed_text_dump:
  assumes "a_translate_part repr l imgs i (dump_user_part p) = Inr b"
  shows "typed_text (dump_user_part p) = user_part_text p"
proof (cases p)
  case (UserText t)
  then show ?thesis using assms
    by (cases "tp_type t") (auto simp: a_translate_part_def dump_text_part_def map_of_dump_set typed_text_def
        part_text_of_def user_part_text_def Let_def split: if_splits)
qed (simp_all add: typed_text_def user_part_text_def)

lemma typed_parts_dump:
  "emap_from (a_translate_part repr l imgs) i (map dump_user_part ps) = Inr us \<Longrightarrow>
   concat (map (typed_text \<circ> dump_user_part) ps) = concat (map user_part_text ps)"
  by (induction ps arbitrary: i us) (auto simp: ebind_eq_Inr dest: typed_text_dump)

lemma chat_text_dump:
  assumes "a_translate_message loads repr (as_obj (dump_message (UserMessage m))) = Inr x"
  shows "chat_text (dump_message (UserMessage m)) = concat (map gl_text (user_leaves i m))"
proof (cases "um_content m")
  case (ContentStr s)
  then show ?thesis by (simp add: chat_text_def value_texts_def user_leaves_def)
next
  case (ContentParts ps)
  then obtain us where "emap_from (a_translate_part repr ''user message'' True) 0 (map dump_user_part ps) = Inr us"
    using assms by (auto simp: a_translate_message_def a_translate_content_def jget_or_def dict_get_or_def ebind_eq_Inr Let_def)
  then show ?thesis using ContentParts
    by (simp add: chat_text_def value_texts_def user_leaves_def text_leaves_text typed_parts_dump)
qed

section \<open>Redaction of the dumped messages\<close>

lemma redact_split:
  assumes "chat_leaves p \<noteq> []"
  obtains A B m m' i where
    "map dump_message (cr_messages (cp_request p)) = A @ dump_message (UserMessage m) # B"
    "map dump_message (cr_messages (cp_request (chat_with_redacted_text p r))) = A @ dump_message (UserMessage m') # B"
    "concat (map gl_text (user_leaves i m)) = chat_governance_text p"
    "concat (map gl_text (user_leaves i m')) = r"
proof (cases rule: chat_redact_cases [of p r])
  case no_leaves
  then show ?thesis using assms by simp
next
  case (replaced i m)
  let ?ms = "cr_messages (cp_request p)"
  let ?rs = "redistribute_redacted_text (chat_leaves p) r"
  let ?m' = "replace_user_message (user_leaves i m) ?rs m"
  have len: "length ?rs = length (user_leaves i m)" by (simp add: redistribute_length replaced(5))
  have "map dump_message ?ms = map dump_message (take i ?ms) @ dump_message (UserMessage m) # map dump_message (drop (Suc i) ?ms)"
    using id_take_nth_drop [OF replaced(3)] replaced(2) by (metis list.simps(9) map_append)
  moreover have "map dump_message (cr_messages (cp_request (chat_with_redacted_text p r))) =
      map dump_message (take i ?ms) @ dump_message (UserMessage ?m') # map dump_message (drop (Suc i) ?ms)"
    using replaced(3) by (simp add: replaced(6) upd_conv_take_nth_drop)
  moreover have "concat (map gl_text (user_leaves i m)) = chat_governance_text p"
    using replaced(5) by (simp add: chat_governance_text_def chat_leaves_def)
  moreover have "concat (map gl_text (user_leaves i ?m')) = r"
    using replace_user_leaves [OF len replaced(4)] redistribute_concat [OF assms] by simp
  ultimately show ?thesis by (rule that)
qed

lemma to_json_messages: "jget_or (to_json q) ''messages'' d = JList (map dump_message (cr_messages q))"
  by (simp add: to_json_def jget_or_def dict_get_or_def)

section \<open>The two translations\<close>

lemma gemini_wire_redacted:
  assumes "chat_leaves p \<noteq> []"
    and "translate_chat_request loads repr allowed dm (to_json (cp_request (chat_with_redacted_text p r))) = Inr (model, gb)"
  shows "\<exists>pre post cs. jget gb ''contents'' = JList cs \<and> map content_text cs = pre @ r # post \<and>
    map message_text (filter (\<lambda>m. \<not> is_system_message m) (map dump_message (cr_messages (cp_request p)))) =
      pre @ chat_governance_text p # post"
proof -
  obtain A B m m' i where s: "map dump_message (cr_messages (cp_request p)) = A @ dump_message (UserMessage m) # B"
    "map dump_message (cr_messages (cp_request (chat_with_redacted_text p r))) = A @ dump_message (UserMessage m') # B"
    "concat (map gl_text (user_leaves i m)) = chat_governance_text p" "concat (map gl_text (user_leaves i m')) = r"
    using redact_split [OF assms(1)] by metis
  obtain ms cs where "jget_or (to_json (cp_request (chat_with_redacted_text p r))) ''messages'' (JList []) = JList ms"
    "jget gb ''contents'' = JList cs" "map content_text cs = map message_text (filter (\<lambda>m. \<not> is_system_message m) ms)"
    by (rule gemini_contents_texts [OF assms(2)])
  then have c: "jget gb ''contents'' = JList cs"
    "map content_text cs = map message_text (filter (\<lambda>m. \<not> is_system_message m) (A @ dump_message (UserMessage m') # B))"
    using s(2) by (simp_all add: to_json_messages)
  let ?k = "filter (\<lambda>m. \<not> is_system_message m)"
  show ?thesis
    by (rule exI [of _ "map message_text (?k A)"], rule exI [of _ "map message_text (?k B)"], rule exI [of _ cs])
      (use c user_not_system in \<open>simp add: s(1,3,4) message_text_dump [of m i] message_text_dump [of m' i] del: dump_message.simps\<close>)
qed

lemma anthropic_wire_redacted:
  assumes "chat_leaves p \<noteq> []"
    and "a_translate_request loads repr (to_json (cp_request (chat_with_redacted_text p r))) = Inr out"
  shows "\<exists>pre post x y ams. jget out ''messages'' = JList ams \<and> map a_message_text ams = map chat_text pre @ r # map chat_text post \<and>
    filter (\<lambda>m. \<not> is_system_message m) (map dump_message (cr_messages (cp_request p))) = pre @ x # post \<and>
    message_text x = chat_governance_text p \<and>
    filter (\<lambda>m. \<not> is_system_message m) (map dump_message (cr_messages (cp_request (chat_with_redacted_text p r)))) = pre @ y # post"
proof -
  obtain A B m m' i where s: "map dump_message (cr_messages (cp_request p)) = A @ dump_message (UserMessage m) # B"
    "map dump_message (cr_messages (cp_request (chat_with_redacted_text p r))) = A @ dump_message (UserMessage m') # B"
    "concat (map gl_text (user_leaves i m)) = chat_governance_text p" "concat (map gl_text (user_leaves i m')) = r"
    using redact_split [OF assms(1)] by metis
  obtain ms rs where "jget_or (to_json (cp_request (chat_with_redacted_text p r))) ''messages'' (JList []) = JList ms"
    "emap (a_translate_message loads repr) (map as_obj ms) = Inr rs" "jget out ''messages'' = JList (concat (map snd rs))"
    "list_all2 (a_kept loads) (filter (\<lambda>m. \<not> is_system_message m) ms) (concat (map snd rs))"
    by (rule a_translate_request_Inr [OF assms(2)])
  then have t: "emap (a_translate_message loads repr) (map as_obj (A @ dump_message (UserMessage m') # B)) = Inr rs"
    "jget out ''messages'' = JList (concat (map snd rs))"
    "map a_message_text (concat (map snd rs)) = map chat_text (filter (\<lambda>m. \<not> is_system_message m) (A @ dump_message (UserMessage m') # B))"
    using s(2) by (auto simp: to_json_messages dest!: a_kept_texts)
  obtain x where "a_translate_message loads repr (as_obj (dump_message (UserMessage m'))) = Inr x"
    using t(1) by (cases "a_translate_message loads repr (as_obj (dump_message (UserMessage m')))")
      (auto simp: emap_Inr_iff append_eq_map_conv Cons_eq_map_conv)
  then have "chat_text (dump_message (UserMessage m')) = r" using s(4) by (simp add: chat_text_dump [of _ _ _ _ i] del: dump_message.simps)
  moreover have "map a_message_text (concat (map snd rs)) = map chat_text (filter (\<lambda>m. \<not> is_system_message m) A) @
      chat_text (dump_message (UserMessage m')) # map chat_text (filter (\<lambda>m. \<not> is_system_message m) B)"
    using t(3) user_not_system by (simp del: dump_message.simps)
  moreover note t(2)
  ultimately have c: "jget out ''messages'' = JList (concat (map snd rs))"
    "map a_message_text (concat (map snd rs)) = map chat_text (filter (\<lambda>m. \<not> is_system_message m) A) @
      r # map chat_text (filter (\<lambda>m. \<not> is_system_message m) B)" by simp_all
  let ?k = "filter (\<lambda>m. \<not> is_system_message m)"
  show ?thesis
    by (rule exI [of _ "?k A"], rule exI [of _ "?k B"], rule exI [of _ "dump_message (UserMessage m)"],
        rule exI [of _ "dump_message (UserMessage m')"], rule exI [of _ "concat (map snd rs)"],
        use c user_not_system in \<open>simp add: s(1-3) message_text_dump [of m i] del: dump_message.simps\<close>)
qed

section \<open>Properties\<close>

text \<open>
  C6. Redaction reaches the wire: the texts of the contents that the Gemini adapter sends for a redacted request, and
  of the messages that the Anthropic adapter sends, are those of the original request's messages with the
  governed one replaced by exactly the redacted text.
\<close>

theorem redaction_reaches_the_wire:
  assumes "chat_leaves p \<noteq> []"
  shows "(case translate_chat_request loads repr allowed dm (to_json (cp_request (chat_with_redacted_text p r))) of
       Inl e \<Rightarrow> True
     | Inr (model, gb) \<Rightarrow> \<exists>pre post cs. jget gb ''contents'' = JList cs \<and> map content_text cs = pre @ r # post \<and>
         map message_text (filter (\<lambda>m. \<not> is_system_message m) (map dump_message (cr_messages (cp_request p)))) =
           pre @ chat_governance_text p # post) \<and>
    (case a_translate_request loads' repr' (to_json (cp_request (chat_with_redacted_text p r))) of
       Inl e \<Rightarrow> True
     | Inr out \<Rightarrow> \<exists>pre post x ams. jget out ''messages'' = JList ams \<and>
         map a_message_text ams = map chat_text pre @ r # map chat_text post \<and>
         filter (\<lambda>m. \<not> is_system_message m) (map dump_message (cr_messages (cp_request p))) = pre @ x # post \<and>
         message_text x = chat_governance_text p)"
proof (rule conjI, goal_cases)
  case 1
  show ?case
    using gemini_wire_redacted [OF assms, of loads repr allowed dm r] by (auto split: sum.split)
next
  case 2
  show ?case
  proof (cases "a_translate_request loads' repr' (to_json (cp_request (chat_with_redacted_text p r)))")
    case (Inr out)
    then show ?thesis using anthropic_wire_redacted [OF assms Inr] by auto
  qed simp
qed

definition wire_payload :: chat_payload where
  "wire_payload = \<lparr>cp_request = wit_request\<lparr>cr_messages := [UserMessage \<lparr>um_content = ContentStr ''hi'', um_name = Unset\<rparr>]\<rparr>\<rparr>"

definition wire_redacted :: chat_payload where
  "wire_redacted = \<lparr>cp_request = wit_request\<lparr>cr_messages := [UserMessage \<lparr>um_content = ContentStr ''x'', um_name = Unset\<rparr>]\<rparr>\<rparr>"

lemma wire_leaves: "openai_chat_governed_leaves (cr_messages (cp_request wire_payload)) =
    [\<lparr>gl_message_index = 0, gl_part_index = None, gl_text = ''hi''\<rparr>]"
  by (simp add: wire_payload_def openai_chat_governed_leaves_def governed_leaves_Suc user_leaves_def)

lemma wire_redacts: "chat_with_redacted_text wire_payload ''x'' = wire_redacted"
proof -
  have "redistribute_redacted_text [''hi''] ''x'' = [''x'']"
    using redistribute_length [of "[''hi'']" "''x''"] redistribute_concat [of "[''hi'']" "''x''"]
    by (auto simp: length_Suc_conv)
  then show ?thesis
    by (simp add: chat_with_redacted_text_def Let_def wire_leaves replace_user_message_def)
      (simp add: wire_payload_def wire_redacted_def replace_user_message_def)
qed

lemma wire_translates: "a_translate_request (\<lambda>s. None) (\<lambda>v. []) (to_json (cp_request wire_redacted)) =
    Inr [(''model'', JStr ''claude-x''), (''messages'', JList [JObj [(''role'', JStr ''user''), (''content'', JStr ''x'')]]),
      (''max_tokens'', JInt 1024), (''stream'', JBool False)]"
  by (simp add: wire_redacted_def to_json_def dump_options_def wit_request_def a_translate_request_def a_translate_message_def
      a_translate_content_def A_PASSED_FIELDS_def given_def py_or_def jget_or_def dict_get_or_def a_optional_def
      a_stop_entries_def Let_def)

lemma redaction_reaches_the_wire_witness:
  "\<exists>out ams. a_translate_request (\<lambda>s. None) (\<lambda>v. []) (to_json (cp_request (chat_with_redacted_text wire_payload ''x''))) = Inr out \<and>
     jget out ''messages'' = JList ams \<and> map a_message_text ams = [''x'']"
proof -
  have l: "chat_leaves wire_payload \<noteq> []" by (simp add: chat_leaves_def wire_leaves)
  obtain pre post x ams where "jget [(''model'', JStr ''claude-x''), (''messages'', JList [JObj [(''role'', JStr ''user''), (''content'', JStr ''x'')]]),
      (''max_tokens'', JInt 1024), (''stream'', JBool False)] ''messages'' = JList ams"
    "map a_message_text ams = map chat_text pre @ ''x'' # map chat_text post"
    using conjunct2 [OF redaction_reaches_the_wire [OF l, where loads' = "\<lambda>s. None" and repr' = "\<lambda>v. []" and r = "''x''"]]
    by (auto simp: wire_redacts wire_translates)
  then have "JList ams = JList [JObj [(''role'', JStr ''user''), (''content'', JStr ''x'')]] \<and> map a_message_text ams = [''x'']"
    by (cases pre; cases post) auto
  then show ?thesis by (auto simp: wire_redacts wire_translates)
qed

end
