(* ===== verification/GovClient.thy ===== *)
theory GovClient imports GatewayHttp begin

text \<open>
  \<open>proxy/app/governance_client.py\<close>: the gateway's call to \<open>POST /inspect\<close>, with up to three
  attempts. The replies of the service are a function of the attempt's number; waiting between
  attempts is not modelled.
\<close>

datatype gov_reply =
    RequestFails                               \<comment> \<open>\<open>httpx.RequestError\<close>\<close>
  | HttpStatus nat "string option"             \<comment> \<open>a status \<open>raise_for_status\<close> rejects, with its Retry-After\<close>
  | PostRaises py_error                        \<comment> \<open>any other exception of \<open>post\<close>\<close>
  | NotJson py_error                           \<comment> \<open>success, but \<open>resp.json()\<close> raises\<close>
  | GovData json

record inspect_request =
  iq_text :: string
  iq_tenant_id :: json
  iq_user_id :: json
  iq_model_id :: string
  iq_routing_method :: string
  iq_phase :: string
  iq_roles :: json

record gov_response =
  gr_decision :: json
  gr_redacted_text :: json
  gr_pii_findings :: json
  gr_harm_score :: json
  gr_violations :: json
  gr_audit_id :: json

datatype gov_failure =
    GovernanceError "string option"  \<comment> \<open>with \<open>retry_after\<close>\<close>
  | GovOther py_error

datatype attempt_failure = Retryable "string option" | Final "string option" | Raised gov_failure

definition gov_is_retryable :: "gov_reply \<Rightarrow> bool" where
  "gov_is_retryable r =
     (case r of RequestFails \<Rightarrow> True | HttpStatus st _ \<Rightarrow> 500 \<le> st | _ \<Rightarrow> False)"

text \<open>Reading the response body: a missing mandatory key is a \<open>KeyError\<close>.\<close>

definition read_inspection :: "json \<Rightarrow> py_error + gov_response" where
  "read_inspection data =
     ebind (py_subscript data ''decision'') (\<lambda>dec.
     ebind (py_subscript data ''redacted_text'') (\<lambda>redacted.
     ebind (py_dot_get data ''pii_findings'' (JList [])) (\<lambda>findings.
     ebind (py_dot_get data ''harm_score'' (JFloat 0)) (\<lambda>score.
     ebind (py_dot_get data ''violations'' (JList [])) (\<lambda>vs.
     ebind (py_dot_get data ''audit_id'' JNull) (\<lambda>aid.
       Inr \<lparr>gr_decision = dec, gr_redacted_text = redacted, gr_pii_findings = findings,
            gr_harm_score = score, gr_violations = vs, gr_audit_id = aid\<rparr>))))))"

text \<open>One \<open>_call\<close> as the retry decorator sees it.\<close>

definition inspect_attempt :: "gov_reply \<Rightarrow> attempt_failure + gov_response" where
  "inspect_attempt r =
     (case r of
        RequestFails \<Rightarrow> Inl (Retryable None)
      | HttpStatus st ra \<Rightarrow> Inl (if 500 \<le> st then Retryable ra else Final ra)
      | PostRaises e \<Rightarrow> Inl (Raised (GovernanceError None))
      | NotJson e \<Rightarrow> Inl (Raised (GovOther e))
      | GovData d \<Rightarrow> (case read_inspection d of Inl e \<Rightarrow> Inl (Raised (GovOther e)) | Inr v \<Rightarrow> Inr v))"

definition GOV_ATTEMPTS :: nat where
  "GOV_ATTEMPTS = 3"

text \<open>
  \<open>stop_after_attempt(3)\<close> with \<open>reraise=True\<close>: \<open>left\<close> attempts remain. The result carries the
  number of requests made.
\<close>

fun inspect_retry :: "(nat \<Rightarrow> gov_reply) \<Rightarrow> nat \<Rightarrow> nat \<Rightarrow> (gov_failure + gov_response) \<times> nat" where
  "inspect_retry replies n 0 = (Inl (GovernanceError None), n)"
| "inspect_retry replies n (Suc left) =
     (case inspect_attempt (replies n) of
        Inr v \<Rightarrow> (Inr v, Suc n)
      | Inl (Raised e) \<Rightarrow> (Inl e, Suc n)
      | Inl (Final ra) \<Rightarrow> (Inl (GovernanceError ra), Suc n)
      | Inl (Retryable ra) \<Rightarrow>
          (if left = 0 then (Inl (GovernanceError ra), Suc n) else inspect_retry replies (Suc n) left))"

definition gov_inspect :: "(nat \<Rightarrow> gov_reply) \<Rightarrow> gov_failure + gov_response" where
  "gov_inspect replies = fst (inspect_retry replies 0 GOV_ATTEMPTS)"

section \<open>Lemmas\<close>

lemma read_inspection_obj: "read_inspection d = Inr v \<Longrightarrow> is_obj d"
  by (cases d) (auto simp: read_inspection_def)

lemma inspect_attempt_Inr: "inspect_attempt r = Inr v \<longleftrightarrow> (\<exists>d. r = GovData d \<and> read_inspection d = Inr v)"
  by (cases r) (auto simp: inspect_attempt_def split: sum.splits)

lemma inspect_retry_Inr:
  "fst (inspect_retry replies n left) = Inr v \<longleftrightarrow>
     (\<exists>k<left. inspect_attempt (replies (n + k)) = Inr v \<and> (\<forall>j<k. gov_is_retryable (replies (n + j))))"
proof (induction replies n left rule: inspect_retry.induct)
  case (2 replies n left)
  have ret: "inspect_attempt (replies n) = Inl (Retryable ra) \<Longrightarrow> gov_is_retryable (replies n)" for ra
    by (cases "replies n") (auto simp: inspect_attempt_def gov_is_retryable_def split: if_splits sum.splits)
  have notret: "gov_is_retryable (replies n) \<Longrightarrow> \<exists>ra. inspect_attempt (replies n) = Inl (Retryable ra)"
    by (cases "replies n") (auto simp: inspect_attempt_def gov_is_retryable_def)
  have split: "(\<exists>k<Suc left. inspect_attempt (replies (n + k)) = Inr v \<and> (\<forall>j<k. gov_is_retryable (replies (n + j)))) \<longleftrightarrow>
      inspect_attempt (replies n) = Inr v \<or> (gov_is_retryable (replies n) \<and>
       (\<exists>k<left. inspect_attempt (replies (Suc n + k)) = Inr v \<and> (\<forall>j<k. gov_is_retryable (replies (Suc n + j)))))"
    (is "?l \<longleftrightarrow> ?r")
  proof
    assume ?l
    then obtain k where k: "k < Suc left" "inspect_attempt (replies (n + k)) = Inr v"
      "\<forall>j<k. gov_is_retryable (replies (n + j))" by blast
    show ?r
    proof (cases k)
      case 0
      then show ?thesis using k by simp
    next
      case (Suc m)
      then show ?thesis using k by (fastforce intro!: exI [of _ m])
    qed
  next
    assume ?r
    then show ?l
    proof
      assume "gov_is_retryable (replies n) \<and> (\<exists>k<left. inspect_attempt (replies (Suc n + k)) = Inr v \<and>
        (\<forall>j<k. gov_is_retryable (replies (Suc n + j))))"
      then obtain k where "k < left" "inspect_attempt (replies (Suc n + k)) = Inr v"
        "gov_is_retryable (replies n)" "\<forall>j<k. gov_is_retryable (replies (Suc n + j))" by blast
      then show ?l by (intro exI [of _ "Suc k"]) (auto simp: less_Suc_eq_0_disj)
    qed (auto intro: exI [of _ 0])
  qed
  show ?case
  proof (cases "inspect_attempt (replies n)")
    case (Inl e)
    then show ?thesis
      using 2 [OF Inl] ret notret by (cases e) (auto simp: split simp del: add_Suc)
  next
    case (Inr w)
    then show ?thesis using notret by (auto simp: split)
  qed
qed simp

lemma gov_inspect_Inr:
  "gov_inspect replies = Inr v \<longleftrightarrow>
     (\<exists>k<3. \<exists>d. replies k = GovData d \<and> read_inspection d = Inr v \<and> (\<forall>j<k. gov_is_retryable (replies j)))"
  by (auto simp: gov_inspect_def GOV_ATTEMPTS_def inspect_retry_Inr inspect_attempt_Inr)

lemma inspect_retry_attempts: "snd (inspect_retry replies n left) \<le> n + left"
  by (induction replies n left rule: inspect_retry.induct)
    (auto split: sum.splits attempt_failure.splits)

section \<open>Properties\<close>

text \<open>
  The inspection client fails closed: it returns an inspection exactly when one of at most three
  requests, all earlier ones having failed in a way that may pass, was answered successfully with a
  document that has a decision and a redacted text, and it returns just what that document says;
  whatever else the service answers is an exception. It never makes a fourth request.
\<close>

theorem gov_inspect_fail_closed:
  "(gov_inspect replies = Inr v) =
     (\<exists>k<3. \<exists>d. replies k = GovData d \<and> read_inspection d = Inr v \<and> (\<forall>j<k. gov_is_retryable (replies j))) \<and>
   snd (inspect_retry replies 0 GOV_ATTEMPTS) \<le> 3"
  using gov_inspect_Inr [of replies v] inspect_retry_attempts [of replies 0 GOV_ATTEMPTS]
  by (simp add: GOV_ATTEMPTS_def)

theorem gov_inspect_fail_closed_witness:
  "gov_inspect (\<lambda>n. if n = 0 then RequestFails
     else GovData (JObj [(''decision'', JStr ''allow''), (''redacted_text'', JStr ''x'')])) =
   Inr \<lparr>gr_decision = JStr ''allow'', gr_redacted_text = JStr ''x'', gr_pii_findings = JList [],
        gr_harm_score = JFloat 0, gr_violations = JList [], gr_audit_id = JNull\<rparr>"
  by (subst gov_inspect_fail_closed [THEN conjunct1])
    (auto intro!: exI [of _ "Suc 0"] simp: gov_is_retryable_def read_inspection_def jget_or_def dict_get_or_def)

end
