(* ===== verification/RateLimit.thy ===== *)
theory RateLimit imports Transition begin

text \<open>
  \<open>proxy/app/rate_limit.py\<close>: the sliding-window limiter. The Lua script is modelled command by
  command over the two Redis keys of a user, the sorted set (members with scores, in insertion
  order) and the sequence counter, which expire together; Redis runs a script atomically, so a
  check is one step. Times are milliseconds.
\<close>

section \<open>Redis\<close>

record rl_entry =
  rl_set :: "(int \<times> int) list"  \<comment> \<open>member (a sequence number) and score (a time)\<close>
  rl_seq :: int
  rl_expires :: int

type_synonym rl_db = "string \<Rightarrow> rl_entry option"

definition rl_empty :: rl_entry where
  "rl_empty = \<lparr>rl_set = [], rl_seq = 0, rl_expires = 0\<rparr>"

definition rl_lookup :: "rl_db \<Rightarrow> string \<Rightarrow> int \<Rightarrow> rl_entry" where
  "rl_lookup db k now =
     (case db k of
        None \<Rightarrow> rl_empty
      | Some e \<Rightarrow> if now < rl_expires e then e else rl_empty)"

definition zremrangebyscore :: "int \<Rightarrow> int \<Rightarrow> (int \<times> int) list \<Rightarrow> (int \<times> int) list" where
  "zremrangebyscore lo hi z = filter (\<lambda>(m, s). \<not> (lo \<le> s \<and> s \<le> hi)) z"

definition zrem :: "int \<Rightarrow> (int \<times> int) list \<Rightarrow> (int \<times> int) list" where
  "zrem m z = filter (\<lambda>(m', s). m' \<noteq> m) z"

definition zadd :: "int \<Rightarrow> int \<Rightarrow> (int \<times> int) list \<Rightarrow> (int \<times> int) list" where
  "zadd m s z = zrem m z @ [(m, s)]"

definition zcount_from :: "int \<Rightarrow> (int \<times> int) list \<Rightarrow> int" where
  "zcount_from lo z = int (length (filter (\<lambda>(m, s). lo \<le> s) z))"

text \<open>\<open>ZRANGE key 0 0 WITHSCORES\<close>: the least score, if the set is not empty.\<close>

definition zoldest :: "(int \<times> int) list \<Rightarrow> int option" where
  "zoldest z = (if z = [] then None else Some (Min (set (map snd z))))"

definition ceil_div :: "int \<Rightarrow> int \<Rightarrow> int" where
  "ceil_div a b = - ((- a) div b)"

section \<open>The script and the limiter\<close>

record rl_result =
  rr_allowed :: bool
  rr_retry_after_seconds :: int
  rr_limit :: int
  rr_remaining :: int

definition lua_script :: "int \<Rightarrow> int \<Rightarrow> int \<Rightarrow> rl_entry \<Rightarrow> (int \<times> int) \<times> rl_entry" where
  "lua_script now window limit e =
     (let z1 = zremrangebyscore 0 (now - window) (rl_set e);
          sq = rl_seq e + 1;
          z2 = zadd sq now z1;
          n = zcount_from (now - window) z2;
          expires = now + (ceil_div window 1000 + 1) * 1000
      in if n \<le> limit
         then ((1, limit - n), \<lparr>rl_set = z2, rl_seq = sq, rl_expires = expires\<rparr>)
         else
           let z3 = zrem sq z2;
               retry_after = (case zoldest z3 of None \<Rightarrow> 0 | Some old \<Rightarrow> ceil_div (old + window - now) 1000)
           in ((0, retry_after), \<lparr>rl_set = z3, rl_seq = sq, rl_expires = expires\<rparr>))"

definition rate_check :: "int \<Rightarrow> int \<Rightarrow> string \<Rightarrow> int \<Rightarrow> rl_db \<Rightarrow> rl_result \<times> rl_db" where
  "rate_check limit window_seconds user_id now db =
     (let key = ''rl:'' @ user_id;
          ((allowed, second), e) = lua_script now (window_seconds * 1000) limit (rl_lookup db key now)
      in (\<lparr>rr_allowed = (allowed \<noteq> 0), rr_retry_after_seconds = second, rr_limit = limit,
           rr_remaining = (if allowed \<noteq> 0 then second else 0)\<rparr>, db(key \<mapsto> e)))"

section \<open>The limiter as a machine\<close>

text \<open>
  The checks of all users in the order Redis executes them, with the clock; \<open>rm_log\<close> keeps for
  each check the user, the time and the verdict.
\<close>

record rl_machine =
  rm_db :: rl_db
  rm_clock :: int
  rm_log :: "(string \<times> int \<times> bool) list"

definition rl_start :: rl_machine where
  "rl_start = \<lparr>rm_db = (\<lambda>_. None), rm_clock = 0, rm_log = []\<rparr>"

inductive rl_step :: "int \<Rightarrow> int \<Rightarrow> rl_machine \<Rightarrow> rl_machine \<Rightarrow> bool" for limit win where
  check: "rm_clock m \<le> now \<Longrightarrow> rate_check limit win u now (rm_db m) = (res, db') \<Longrightarrow>
    rl_step limit win m \<lparr>rm_db = db', rm_clock = now, rm_log = rm_log m @ [(u, now, rr_allowed res)]\<rparr>"

definition allowed_times :: "string \<Rightarrow> (string \<times> int \<times> bool) list \<Rightarrow> int list" where
  "allowed_times u l = map (\<lambda>(v, t, a). t) (filter (\<lambda>(v, t, a). v = u \<and> a) l)"

definition in_window :: "int \<Rightarrow> int \<Rightarrow> int list \<Rightarrow> nat" where
  \<comment> \<open>how many of the times lie in the window of length \<open>w\<close> that ends at \<open>t\<close>\<close>
  "in_window w t xs = length (filter (\<lambda>x. t - w < x \<and> x \<le> t) xs)"

section \<open>Lemmas\<close>

lemma ceil_div_bounds: "0 < b \<Longrightarrow> a \<le> ceil_div a b * b \<and> ceil_div a b * b < a + b"
proof -
  assume "0 < b"
  have "(- a) div b * b + (- a) mod b = - a" by simp
  moreover have "0 \<le> (- a) mod b" "(- a) mod b < b" using \<open>0 < b\<close> by simp_all
  moreover have "ceil_div a b * b = - ((- a) div b * b)" by (simp add: ceil_div_def)
  ultimately show ?thesis by linarith
qed

definition entry_ok :: "rl_entry \<Rightarrow> bool" where
  "entry_ok e \<longleftrightarrow> (\<forall>(m, s)\<in>set (rl_set e). m \<le> rl_seq e \<and> 0 \<le> s)"

text \<open>What the entry of a user knows: the allowed times that are still in the window.\<close>

definition entry_tracks :: "int \<Rightarrow> int \<Rightarrow> rl_entry \<Rightarrow> int list \<Rightarrow> bool" where
  "entry_tracks w now e xs \<longleftrightarrow>
     entry_ok e \<and> filter (\<lambda>s. now - w < s) (map snd (rl_set e)) = filter (\<lambda>s. now - w < s) xs"

lemma entry_tracks_later:
  assumes "entry_tracks w now e xs" "now \<le> now'"
  shows "entry_tracks w now' e xs"
proof -
  have "filter (\<lambda>s. now' - w < s) ys = filter (\<lambda>s. now' - w < s) (filter (\<lambda>s. now - w < s) ys)" for ys
    using assms(2) by (auto simp: filter_filter intro!: filter_cong)
  then show ?thesis using assms(1) unfolding entry_tracks_def by metis
qed

lemma entry_tracks_empty: "\<forall>x\<in>set xs. x \<le> now - w \<Longrightarrow> entry_tracks w now rl_empty xs"
  by (auto simp: entry_tracks_def entry_ok_def rl_empty_def filter_empty_conv eq_commute [of "[]"])

lemma zadd_new: "entry_ok e \<Longrightarrow> set z \<subseteq> set (rl_set e) \<Longrightarrow> zadd (rl_seq e + 1) t z = z @ [(rl_seq e + 1, t)]"
  by (force simp: zadd_def zrem_def entry_ok_def filter_id_conv)

lemma zrem_new:
  "entry_ok e \<Longrightarrow> set z \<subseteq> set (rl_set e) \<Longrightarrow> zrem (rl_seq e + 1) (z @ [(rl_seq e + 1, t)]) = z"
  by (force simp: zrem_def entry_ok_def filter_id_conv)

text \<open>The script in terms of the requests it remembers.\<close>

lemma lua_script_eq:
  assumes "entry_ok e" "0 < w" "0 \<le> now"
  defines "z \<equiv> filter (\<lambda>(m, s). now - w < s) (rl_set e)"
    and "x \<equiv> now + (ceil_div w 1000 + 1) * 1000"
  shows "lua_script now w limit e =
    (if int (length z) < limit
     then ((1, limit - int (length z) - 1), \<lparr>rl_set = z @ [(rl_seq e + 1, now)], rl_seq = rl_seq e + 1, rl_expires = x\<rparr>)
     else ((0, case zoldest z of None \<Rightarrow> 0 | Some old \<Rightarrow> ceil_div (old + w - now) 1000),
           \<lparr>rl_set = z, rl_seq = rl_seq e + 1, rl_expires = x\<rparr>))"
proof -
  have z: "zremrangebyscore 0 (now - w) (rl_set e) = z"
    unfolding zremrangebyscore_def z_def
    by (rule filter_cong) (use assms(1) in \<open>force simp: entry_ok_def\<close>)+
  have sub: "set z \<subseteq> set (rl_set e)" by (auto simp: z_def)
  have cnt: "zcount_from (now - w) (z @ [(rl_seq e + 1, now)]) = int (length z) + 1"
  proof -
    have "filter (\<lambda>(m, s). now - w \<le> s) z = z" by (rule filter_True) (auto simp: z_def)
    then show ?thesis using assms(2) by (simp add: zcount_from_def)
  qed
  show ?thesis
    unfolding lua_script_def z Let_def zadd_new [OF assms(1) sub] cnt zrem_new [OF assms(1) sub] x_def
    by simp
qed

lemma entry_ok_next:
  "entry_ok e \<Longrightarrow> 0 \<le> now \<Longrightarrow> 0 < w \<Longrightarrow> entry_ok (snd (lua_script now w limit e))"
  by (subst lua_script_eq) (force simp: entry_ok_def)+

section \<open>Invariant\<close>

definition rl_inv :: "int \<Rightarrow> int \<Rightarrow> rl_machine \<Rightarrow> bool" where
  "rl_inv limit win m \<longleftrightarrow>
     0 \<le> rm_clock m \<and>
     (\<forall>u. (\<forall>x\<in>set (allowed_times u (rm_log m)). 0 \<le> x \<and> x \<le> rm_clock m) \<and>
        (case rm_db m (''rl:'' @ u) of
           None \<Rightarrow> allowed_times u (rm_log m) = []
         | Some e \<Rightarrow> entry_tracks (win * 1000) (rm_clock m) e (allowed_times u (rm_log m)) \<and>
             (\<forall>x\<in>set (allowed_times u (rm_log m)). x + win * 1000 \<le> rl_expires e)) \<and>
        (\<forall>t. int (in_window (win * 1000) t (allowed_times u (rm_log m))) \<le> limit))"

lemma rl_inv_entry:
  "rl_inv limit win m \<Longrightarrow>
     (case rm_db m (''rl:'' @ u) of
        None \<Rightarrow> allowed_times u (rm_log m) = []
      | Some e \<Rightarrow> entry_tracks (win * 1000) (rm_clock m) e (allowed_times u (rm_log m)) \<and>
          (\<forall>x\<in>set (allowed_times u (rm_log m)). x + win * 1000 \<le> rl_expires e))"
  by (simp add: rl_inv_def)

lemma inv_lookup:
  assumes "rl_inv limit win m" "rm_clock m \<le> now"
  shows "entry_tracks (win * 1000) now (rl_lookup (rm_db m) (''rl:'' @ u) now) (allowed_times u (rm_log m))"
proof (cases "rm_db m (''rl:'' @ u)")
  case None
  then have "allowed_times u (rm_log m) = []"
    using rl_inv_entry [OF assms(1), of u] by simp
  then show ?thesis using None by (simp add: rl_lookup_def entry_tracks_empty)
next
  case (Some e)
  then have e: "entry_tracks (win * 1000) (rm_clock m) e (allowed_times u (rm_log m))"
    "\<forall>x\<in>set (allowed_times u (rm_log m)). x + win * 1000 \<le> rl_expires e"
    using rl_inv_entry [OF assms(1), of u] by simp_all
  show ?thesis
  proof (cases "now < rl_expires e")
    case True
    then show ?thesis using Some entry_tracks_later [OF e(1) assms(2)] by (simp add: rl_lookup_def)
  next
    case False
    then show ?thesis using Some e(2) by (fastforce simp: rl_lookup_def intro!: entry_tracks_empty)
  qed
qed

lemma length_live:
  "length (filter (\<lambda>(m, s). a < s) z) = length (filter (\<lambda>s. a < s) (map snd z))"
  by (induction z) auto

lemma in_window_append:
  "in_window w t (xs @ [x]) = in_window w t xs + (if t - w < x \<and> x \<le> t then 1 else 0)"
  by (simp add: in_window_def)

lemma window_count:
  assumes "entry_tracks w now e xs" "\<forall>x\<in>set xs. x \<le> now"
  shows "length (filter (\<lambda>(m, s). now - w < s) (rl_set e)) = in_window w now xs"
proof -
  have "filter (\<lambda>x. now - w < x) xs = filter (\<lambda>x. now - w < x \<and> x \<le> now) xs"
    using assms(2) by (auto intro!: filter_cong)
  then show ?thesis using assms(1) by (simp add: length_live in_window_def entry_tracks_def)
qed

text \<open>A window that ends before the newest request holds no more than one that ends at it.\<close>

lemma in_window_le:
  assumes "\<forall>x\<in>set xs. x \<le> now" "now \<le> t"
  shows "in_window w t xs \<le> in_window w now xs"
proof -
  have "filter (\<lambda>x. t - w < x \<and> x \<le> t) xs =
      filter (\<lambda>x. t - w < x \<and> x \<le> t) (filter (\<lambda>x. now - w < x \<and> x \<le> now) xs)"
    using assms by (auto simp: filter_filter intro!: filter_cong)
  then show ?thesis unfolding in_window_def by (metis length_filter_le)
qed

text \<open>One check against the allowed times so far.\<close>

lemma rate_check_eq:
  assumes "rl_inv limit win m" "rm_clock m \<le> now" "0 < win"
    "rate_check limit win u now (rm_db m) = (res, db')"
  defines "xs \<equiv> allowed_times u (rm_log m)"
  shows "rr_allowed res \<longleftrightarrow> int (in_window (win * 1000) now xs) < limit"
    and "rr_limit res = limit"
    and "rr_remaining res = (if rr_allowed res then limit - int (in_window (win * 1000) now xs) - 1 else 0)"
    and "\<exists>e. db' = (rm_db m)(''rl:'' @ u \<mapsto> e) \<and> rl_expires e = now + (win + 1) * 1000 \<and>
      entry_tracks (win * 1000) now e (xs @ (if rr_allowed res then [now] else []))"
    and "\<not> rr_allowed res \<Longrightarrow>
      rr_retry_after_seconds res =
        (case zoldest (filter (\<lambda>(m, s). now - win * 1000 < s) (rl_set (rl_lookup (rm_db m) (''rl:'' @ u) now))) of
           None \<Rightarrow> 0 | Some old \<Rightarrow> ceil_div (old + win * 1000 - now) 1000)"
proof -
  let ?w = "win * 1000" and ?e = "rl_lookup (rm_db m) (''rl:'' @ u) now"
  let ?z = "filter (\<lambda>(m, s). now - ?w < s) (rl_set ?e)"
  have tr: "entry_tracks ?w now ?e xs" unfolding xs_def by (rule inv_lookup [OF assms(1,2)])
  have ok: "entry_ok ?e" using tr by (simp add: entry_tracks_def)
  have pos: "0 < ?w" "0 \<le> now" using assms(1-3) by (auto simp: rl_inv_def)
  have "\<forall>x\<in>set xs. x \<le> now" using assms(1,2) by (force simp: rl_inv_def xs_def)
  then have len: "length ?z = in_window ?w now xs" by (rule window_count [OF tr])
  have cw: "ceil_div ?w 1000 = win" by (simp add: ceil_div_def)
  note scr = lua_script_eq [OF ok pos, of limit, unfolded len cw]
  have keep: "entry_ok (snd (lua_script now ?w limit ?e))" by (rule entry_ok_next [OF ok pos(2,1)])
  have zs: "filter (\<lambda>s. now - ?w < s) (map snd ?z) = filter (\<lambda>s. now - ?w < s) xs"
    using tr by (simp add: entry_tracks_def filter_map o_def case_prod_beta)
  show "rr_allowed res \<longleftrightarrow> int (in_window ?w now xs) < limit"
    and "rr_limit res = limit"
    and "rr_remaining res = (if rr_allowed res then limit - int (in_window ?w now xs) - 1 else 0)"
    using assms(4) unfolding rate_check_def Let_def scr by (auto split: if_splits)
  show "\<not> rr_allowed res \<Longrightarrow> rr_retry_after_seconds res =
      (case zoldest ?z of None \<Rightarrow> 0 | Some old \<Rightarrow> ceil_div (old + win * 1000 - now) 1000)"
    using assms(4) unfolding rate_check_def Let_def scr by (auto split: if_splits)
  let ?r = "snd (lua_script now ?w limit ?e)"
  have "db' = (rm_db m)(''rl:'' @ u \<mapsto> ?r)"
    using assms(4) by (auto simp: rate_check_def Let_def split: prod.splits)
  moreover have "rl_expires ?r = now + (win + 1) * 1000" unfolding scr by simp
  moreover have "entry_tracks ?w now ?r (xs @ (if rr_allowed res then [now] else []))"
  proof (cases "int (in_window ?w now xs) < limit")
    case True
    then have "rr_allowed res" using \<open>rr_allowed res \<longleftrightarrow> _\<close> by simp
    moreover have "rl_set ?r = ?z @ [(rl_seq ?e + 1, now)]" unfolding scr using True by simp
    ultimately show ?thesis using keep zs pos by (simp add: entry_tracks_def)
  next
    case False
    then have "\<not> rr_allowed res" using \<open>rr_allowed res \<longleftrightarrow> _\<close> by simp
    moreover have "rl_set ?r = ?z" unfolding scr using False by simp
    ultimately show ?thesis using keep zs by (simp add: entry_tracks_def)
  qed
  ultimately show "\<exists>e. db' = (rm_db m)(''rl:'' @ u \<mapsto> e) \<and> rl_expires e = now + (win + 1) * 1000 \<and>
      entry_tracks ?w now e (xs @ (if rr_allowed res then [now] else []))" by blast
qed

lemma allowed_times_append:
  "allowed_times u (l @ [(v, t, a)]) = allowed_times u l @ (if v = u \<and> a then [t] else [])"
  by (simp add: allowed_times_def)

lemma rl_inv_start: "0 \<le> limit \<Longrightarrow> rl_inv limit win rl_start"
  by (simp add: rl_inv_def rl_start_def allowed_times_def in_window_def)

lemma rl_inv_step:
  assumes "rl_inv limit win m" "rl_step limit win m m'" "0 < win"
  shows "rl_inv limit win m'"
  using assms(2)
proof (cases rule: rl_step.cases)
  case (check now u res db')
  note eq = rate_check_eq [OF assms(1) check(2) assms(3) check(3)]
  let ?w = "win * 1000"
  let ?xs = "\<lambda>v. allowed_times v (rm_log m)" and ?ys = "\<lambda>v. allowed_times v (rm_log m')"
  obtain e where e: "db' = (rm_db m)(''rl:'' @ u \<mapsto> e)" "rl_expires e = now + (win + 1) * 1000"
    "entry_tracks ?w now e (?xs u @ (if rr_allowed res then [now] else []))"
    using eq(4) by blast
  have ys: "?ys v = ?xs v @ (if u = v \<and> rr_allowed res then [now] else [])" for v
    using check(1) by (simp add: allowed_times_append)
  have le: "\<forall>x\<in>set (?xs v). 0 \<le> x \<and> x \<le> now" for v
    using assms(1) check(2) by (force simp: rl_inv_def)
  have old: "int (in_window ?w t (?xs v)) \<le> limit" for t v
    using assms(1) by (simp add: rl_inv_def)
  have bound: "int (in_window ?w t (?ys v)) \<le> limit" for t v
  proof (cases "u = v \<and> rr_allowed res \<and> t - ?w < now \<and> now \<le> t")
    case True
    have "in_window ?w t (?xs v) \<le> in_window ?w now (?xs v)"
      by (rule in_window_le) (use le True in auto)
    moreover have "int (in_window ?w now (?xs v)) < limit" using eq(1) True by simp
    ultimately show ?thesis by (simp add: ys in_window_append True)
  next
    case False
    then show ?thesis using old [of t v] by (auto simp: ys in_window_append)
  qed
  have entry: "case rm_db m' (''rl:'' @ v) of None \<Rightarrow> ?ys v = []
      | Some e \<Rightarrow> entry_tracks ?w (rm_clock m') e (?ys v) \<and> (\<forall>x\<in>set (?ys v). x + ?w \<le> rl_expires e)" for v
  proof (cases "u = v")
    case True
    then show ?thesis using e le [of v] check(1) ys [of v] by fastforce
  next
    case False
    have "case rm_db m (''rl:'' @ v) of None \<Rightarrow> ?xs v = []
        | Some e \<Rightarrow> entry_tracks ?w (rm_clock m) e (?xs v) \<and> (\<forall>x\<in>set (?xs v). x + ?w \<le> rl_expires e)"
      by (rule rl_inv_entry [OF assms(1)])
    then show ?thesis
      using False e(1) check(1) ys [of v] entry_tracks_later [OF _ check(2), of ?w]
      by (auto split: option.splits)
  qed
  have "0 \<le> rm_clock m'" using assms(1) check(1,2) by (simp add: rl_inv_def)
  moreover have "\<forall>x\<in>set (?ys v). 0 \<le> x \<and> x \<le> rm_clock m'" for v
    using le [of v] \<open>0 \<le> rm_clock m'\<close> check(1) ys [of v] by auto
  ultimately show ?thesis using bound entry by (simp only: rl_inv_def) blast
qed

interpretation limiter: initialised_invariant
  "\<lambda>m m'. 0 \<le> limit \<and> 0 < win \<and> rl_step limit win m m'" "\<lambda>m. 0 \<le> limit \<longrightarrow> rl_inv limit win m" rl_start
  for limit win
  by unfold_locales (auto intro: rl_inv_step rl_inv_start)

lemma rl_reachable_inv:
  assumes "(rl_step limit win)\<^sup>*\<^sup>* rl_start m" "0 \<le> limit" "0 < win"
  shows "rl_inv limit win m"
proof -
  have "(\<lambda>m m'. 0 \<le> limit \<and> 0 < win \<and> rl_step limit win m m') = rl_step limit win"
    using assms(2,3) by (simp add: fun_eq_iff)
  then show ?thesis using limiter.inv_reachable [of limit win m] assms by simp
qed

lemma zoldest_in: "z \<noteq> [] \<Longrightarrow> \<exists>old. zoldest z = Some old \<and> old \<in> set (map snd z)"
  unfolding zoldest_def by (metis List.finite_set Min_in map_is_Nil_conv set_empty)

text \<open>The retry hint of a refused request: the oldest remembered request leaves the window then.\<close>

lemma denied_retry:
  assumes "rl_inv limit win m" "rm_clock m \<le> now" "0 < win" "0 < limit"
    "rate_check limit win u now (rm_db m) = (res, db')" "\<not> rr_allowed res"
  defines "xs \<equiv> allowed_times u (rm_log m)"
  obtains old where "old \<in> set xs" "now - win * 1000 < old" "old \<le> now"
    "rr_retry_after_seconds res = ceil_div (old + win * 1000 - now) 1000"
    "int (in_window (win * 1000) now xs) = limit"
proof -
  let ?w = "win * 1000" and ?e = "rl_lookup (rm_db m) (''rl:'' @ u) now"
  let ?z = "filter (\<lambda>(m, s). now - ?w < s) (rl_set ?e)"
  note eq = rate_check_eq [OF assms(1,2,3,5), folded xs_def]
  have tr: "entry_tracks ?w now ?e xs" unfolding xs_def by (rule inv_lookup [OF assms(1,2)])
  have le: "\<forall>x\<in>set xs. x \<le> now" using assms(1,2) by (force simp: rl_inv_def xs_def)
  have full: "int (in_window ?w now xs) = limit"
    using eq(1) assms(1,6) by (simp add: rl_inv_def xs_def order_antisym)
  then have "?z \<noteq> []" using window_count [OF tr le] assms(4) by (metis length_0_conv not_less_iff_gr_or_eq of_nat_0)
  moreover have snds: "set (map snd ?z) = set (filter (\<lambda>s. now - ?w < s) xs)"
  proof -
    have "map snd (filter (\<lambda>(m, s). a < s) z) = filter (\<lambda>s. a < s) (map snd z)"
      for a :: int and z :: "(int \<times> int) list"
      by (induction z) auto
    then have "map snd ?z = filter (\<lambda>s. now - ?w < s) (map snd (rl_set ?e))" .
    also have "\<dots> = filter (\<lambda>s. now - ?w < s) xs" using tr by (simp add: entry_tracks_def)
    finally show ?thesis by (rule arg_cong)
  qed
  ultimately obtain old where old: "zoldest ?z = Some old" "old \<in> set (map snd ?z)"
    using zoldest_in by blast
  have "old \<in> set xs" "now - ?w < old" using old(2) unfolding snds by auto
  with le full old(1) eq(5) [OF assms(6)] show thesis by (intro that [of old]) auto
qed

lemma in_window_drop:
  assumes "old \<in> set xs" "now - w < old" "old \<le> now" "old \<le> t - w" "now \<le> t" "\<forall>x\<in>set xs. x \<le> now"
  shows "in_window w t xs < in_window w now xs"
proof -
  let ?Q = "\<lambda>x. now - w < x \<and> x \<le> now" and ?P = "\<lambda>x. t - w < x \<and> x \<le> t"
  have "filter ?P xs = filter ?P (filter ?Q xs)"
    using assms(5,6) by (auto simp: filter_filter intro!: filter_cong)
  moreover have "length (filter ?P (filter ?Q xs)) < length (filter ?Q xs)"
    by (rule length_filter_less [of old]) (use assms in auto)
  ultimately show ?thesis by (simp add: in_window_def)
qed

section \<open>Properties\<close>


text \<open>
  C21. The \<open>Retry-After\<close> hint of a refused request is sound: it lies between one second and the window,
  and if no request of that user is admitted in the meantime, a request made after that
  many seconds is admitted.
\<close>

theorem rate_limit_retry_after:
  assumes "(rl_step limit win)\<^sup>*\<^sup>* rl_start m" "0 < limit" "0 < win"
    and "rm_clock m \<le> now" "rate_check limit win u now (rm_db m) = (res, db')" "\<not> rr_allowed res"
    and "(rl_step limit win)\<^sup>*\<^sup>* rl_start m2" "allowed_times u (rm_log m2) = allowed_times u (rm_log m)"
    and "rm_clock m2 \<le> later" "now + rr_retry_after_seconds res * 1000 \<le> later"
    and "rate_check limit win u later (rm_db m2) = (res2, db2)"
  shows "1 \<le> rr_retry_after_seconds res \<and> rr_retry_after_seconds res \<le> win \<and> rr_allowed res2"
proof -
  let ?xs = "allowed_times u (rm_log m)"
  have inv: "rl_inv limit win m" "rl_inv limit win m2"
    using rl_reachable_inv assms(1,2,3,7) by simp_all
  obtain old where old: "old \<in> set ?xs" "now - win * 1000 < old" "old \<le> now"
    "rr_retry_after_seconds res = ceil_div (old + win * 1000 - now) 1000"
    "int (in_window (win * 1000) now ?xs) = limit"
    using denied_retry [OF inv(1) assms(4,3,2,5,6)] by blast
  note b = ceil_div_bounds [of 1000 "old + win * 1000 - now", folded old(4)]
  have r: "1 \<le> rr_retry_after_seconds res" "rr_retry_after_seconds res \<le> win" using b old(2,3) by auto
  have le: "\<forall>x\<in>set ?xs. x \<le> now" using inv(1) assms(4) by (force simp: rl_inv_def)
  have "in_window (win * 1000) later ?xs < in_window (win * 1000) now ?xs"
    by (rule in_window_drop [OF old(1-3)]) (use b r assms(10) le in auto)
  then have "rr_allowed res2"
    using rate_check_eq(1) [OF inv(2) assms(9,3,11)] old(5) assms(8) by simp
  then show ?thesis using r by simp
qed

section \<open>Witnesses\<close>

definition wit_m1 :: rl_machine where
  "wit_m1 = \<lparr>rm_db = snd (rate_check 1 1 ''u'' 5 (\<lambda>_. None)), rm_clock = 5, rm_log = [(''u'', 5, True)]\<rparr>"

lemma wit_fields: "rm_clock wit_m1 = 5" "rm_log wit_m1 = [(''u'', 5, True)]"
  by (simp_all add: wit_m1_def)

lemma wit_first: "rate_check 1 1 ''u'' 5 (\<lambda>_. None) =
    (\<lparr>rr_allowed = True, rr_retry_after_seconds = 0, rr_limit = 1, rr_remaining = 0\<rparr>, rm_db wit_m1)"
  by (simp add: wit_m1_def rate_check_def lua_script_def rl_lookup_def rl_empty_def zremrangebyscore_def
    zadd_def zrem_def zcount_from_def Let_def)

lemma wit_reach: "(rl_step 1 1)\<^sup>*\<^sup>* rl_start wit_m1"
proof -
  have "rl_step 1 1 rl_start wit_m1"
  proof -
    have "rate_check 1 1 ''u'' 5 (rm_db rl_start) =
        (\<lparr>rr_allowed = True, rr_retry_after_seconds = 0, rr_limit = 1, rr_remaining = 0\<rparr>, rm_db wit_m1)"
      by (simp only: rl_start_def rl_machine.select_convs wit_first)
    from rl_step.check [OF _ this] show ?thesis by (simp add: rl_start_def wit_m1_def)
  qed
  then show ?thesis by blast
qed

lemma wit_db: "rm_db wit_m1 =
    (\<lambda>_. None)(''rl:u'' \<mapsto> \<lparr>rl_set = [(1, 5)], rl_seq = 1, rl_expires = 2005\<rparr>)"
  by (simp add: wit_m1_def rate_check_def lua_script_def rl_lookup_def rl_empty_def zremrangebyscore_def
    zadd_def zrem_def zcount_from_def Let_def ceil_div_def)

lemma wit_denied: "rate_check 1 1 ''u'' 500 (rm_db wit_m1) =
    (\<lparr>rr_allowed = False, rr_retry_after_seconds = 1, rr_limit = 1, rr_remaining = 0\<rparr>,
     (\<lambda>_. None)(''rl:u'' \<mapsto> \<lparr>rl_set = [(1, 5)], rl_seq = 2, rl_expires = 2500\<rparr>))"
  by (simp add: wit_db rate_check_def lua_script_def rl_lookup_def zremrangebyscore_def
    zadd_def zrem_def zcount_from_def zoldest_def ceil_div_def Let_def)

lemma wit_later: "rate_check 1 1 ''u'' 1500 (rm_db wit_m1) =
    (\<lparr>rr_allowed = True, rr_retry_after_seconds = 0, rr_limit = 1, rr_remaining = 0\<rparr>,
     (\<lambda>_. None)(''rl:u'' \<mapsto> \<lparr>rl_set = [(2, 1500)], rl_seq = 2, rl_expires = 3500\<rparr>))"
  by (simp add: wit_db rate_check_def lua_script_def rl_lookup_def zremrangebyscore_def
    zadd_def zrem_def zcount_from_def zoldest_def ceil_div_def Let_def)


theorem rate_limit_retry_after_witness:
  "rr_retry_after_seconds (fst (rate_check 1 1 ''u'' 500 (rm_db wit_m1))) = 1 \<and>
   rr_allowed (fst (rate_check 1 1 ''u'' 1500 (rm_db wit_m1)))"
  using rate_limit_retry_after [OF wit_reach _ _ _ wit_denied _ wit_reach refl _ _ wit_later]
  by (simp add: wit_denied wit_later wit_fields)

end
