(* ===== verification/Auth.thy ===== *)
theory Auth imports GatewayHttp Transition begin

text \<open>
  \<open>proxy/app/auth.py\<close>, \<open>bootstrap.py\<close> and the endpoint \<open>POST /v1/keys\<close>: API keys with their
  cache, tokens, and the two authentication functions. \<open>jwt.decode\<close>, \<open>bcrypt.checkpw\<close> and
  \<open>bcrypt.hashpw\<close> are parameters. The table \<open>api_keys\<close> has the prefix as primary key.
\<close>

section \<open>State and parameters\<close>

record caller_context =
  cc_user_id :: json
  cc_tenant_id :: json
  cc_roles :: json
  cc_scopes :: "json list"
  cc_client_id :: json
  cc_act_sub :: json
  cc_api_key_prefix :: "string option"

record api_key_row =
  ak_hash :: string
  ak_user_id :: string
  ak_tenant_id :: string
  ak_roles :: "string list"

record auth_state =
  api_keys :: "string \<Rightarrow> api_key_row option"
  key_cache :: "string \<times> string \<Rightarrow> api_key_row option"  \<comment> \<open>\<open>_api_key_cache\<close>\<close>
  bootstrapped :: bool
  bootstrap_token :: string  \<comment> \<open>\<open>GATEWAY_BOOTSTRAP_TOKEN\<close>, empty if unset\<close>

record auth_lib =
  checkpw :: "string \<Rightarrow> string \<Rightarrow> bool"
  hashpw :: "string \<Rightarrow> string"
  jwt_decode :: "string \<Rightarrow> json_object option"  \<comment> \<open>\<open>None\<close>: a \<open>JWTError\<close>\<close>

datatype auth_failure = AuthError string | AuthOther py_error

section \<open>API keys\<close>

definition key_caller :: "api_key_row \<Rightarrow> string \<Rightarrow> caller_context" where
  "key_caller row pre =
     \<lparr>cc_user_id = JStr (ak_user_id row), cc_tenant_id = JStr (ak_tenant_id row),
      cc_roles = JList (map JStr (ak_roles row)), cc_scopes = [], cc_client_id = JNull,
      cc_act_sub = JNull, cc_api_key_prefix = Some pre\<rparr>"

definition validate_api_key ::
    "auth_lib \<Rightarrow> string \<Rightarrow> auth_state \<Rightarrow> (auth_failure + caller_context) \<times> auth_state" where
  "validate_api_key lib key s =
     (let pre = take 8 key; cache_key = (pre, take 16 key) in
      case key_cache s cache_key of
        Some cached \<Rightarrow>
          (if checkpw lib key (ak_hash cached) then (Inr (key_caller cached pre), s)
           else (Inl (AuthError ''invalid api key''), s))
      | None \<Rightarrow>
          (case api_keys s pre of
             None \<Rightarrow> (Inl (AuthError ''invalid api key''), s)
           | Some row \<Rightarrow>
               (if \<not> checkpw lib key (ak_hash row) then (Inl (AuthError ''invalid api key''), s)
                else (Inr (key_caller row pre), s\<lparr>key_cache := (key_cache s)(cache_key \<mapsto> row)\<rparr>))))"

section \<open>Tokens\<close>

definition scope_list :: "json \<Rightarrow> py_error + json list" where
  "scope_list scope_claim =
     (case scope_claim of
        JStr t \<Rightarrow> Inr (map JStr (py_split_ws t))
      | _ \<Rightarrow>
          if \<not> json_truthy scope_claim then Inr []
          else (case scope_claim of
                  JList xs \<Rightarrow> Inr xs
                | JObj d \<Rightarrow> Inr (map (\<lambda>(k, v). JStr k) d)
                | _ \<Rightarrow> Inl TypeError))"

definition validate_jwt :: "auth_lib \<Rightarrow> string \<Rightarrow> auth_failure + caller_context" where
  "validate_jwt lib token =
     (case jwt_decode lib token of
        None \<Rightarrow> Inl (AuthError ''invalid token'')
      | Some claims \<Rightarrow>
          (if \<not> json_truthy (jget claims ''user_id'') \<or> \<not> json_truthy (jget claims ''tenant_id'')
           then Inl (AuthError ''token missing required claims'')
           else (case scope_list (jget_or claims ''scope'' (jget_or claims ''scopes'' (JList []))) of
                   Inl e \<Rightarrow> Inl (AuthOther e)
                 | Inr scopes \<Rightarrow>
                     Inr \<lparr>cc_user_id = jget claims ''user_id'', cc_tenant_id = jget claims ''tenant_id'',
                          cc_roles = jget_or claims ''roles'' (JList []), cc_scopes = scopes,
                          cc_client_id = jget claims ''client_id'',
                          cc_act_sub = jget (as_obj (jget claims ''act'')) ''sub'',
                          cc_api_key_prefix = None\<rparr>)))"

section \<open>Authentication\<close>

definition authenticate ::
    "auth_lib \<Rightarrow> string option \<Rightarrow> bool \<Rightarrow> auth_state \<Rightarrow> (auth_failure + caller_context) \<times> auth_state" where
  "authenticate lib authorization allow_bearer_api_key_fallback s =
     (if \<not> truthy_str authorization then (Inl (AuthError ''missing credentials''), s)
      else
        let a = the authorization in
        if py_startswith a ''Bearer '' then
          let token = drop 7 a in
          (case validate_jwt lib token of
             Inl (AuthError e) \<Rightarrow>
               (if allow_bearer_api_key_fallback then validate_api_key lib token s
                else (Inl (AuthError e), s))
           | r \<Rightarrow> (r, s))
        else if py_startswith a ''ApiKey '' then validate_api_key lib (drop 7 a) s
        else if CHR '' '' \<notin> set a then validate_api_key lib a s
        else (Inl (AuthError ''missing credentials''), s))"

definition authenticate_compat ::
    "auth_lib \<Rightarrow> string option \<Rightarrow> string option \<Rightarrow> auth_state \<Rightarrow>
     (auth_failure + caller_context) \<times> auth_state" where
  "authenticate_compat lib authorization x_api_key s =
     (if truthy_str x_api_key then validate_api_key lib (the x_api_key) s
      else if \<not> truthy_str authorization then (Inl (AuthError ''missing credentials''), s)
      else
        let a = the authorization in
        if py_startswith a ''Bearer '' then
          let token = drop 7 a in
          (case validate_jwt lib token of
             Inl (AuthError e) \<Rightarrow> validate_api_key lib token s
           | r \<Rightarrow> (r, s))
        else if py_startswith a ''ApiKey '' then validate_api_key lib (drop 7 a) s
        else if CHR '' '' \<notin> set a then validate_api_key lib a s
        else (Inl (AuthError ''missing credentials''), s))"

text \<open>The dependencies of the routes: an \<open>AuthError\<close> becomes a 401, anything else passes through.\<close>

definition as_caller :: "(auth_failure + caller_context) \<Rightarrow> gateway_error + caller_context" where
  "as_caller r =
     (case r of
        Inr c \<Rightarrow> Inr c
      | Inl (AuthError _) \<Rightarrow> Inl (http_error 401 ''auth_error'' ''Invalid credentials'')
      | Inl (AuthOther e) \<Rightarrow> Inl (Unhandled e))"

definition get_caller ::
    "auth_lib \<Rightarrow> string option \<Rightarrow> auth_state \<Rightarrow> (gateway_error + caller_context) \<times> auth_state" where
  "get_caller lib authorization s =
     (let (r, s') = authenticate lib authorization True s in (as_caller r, s'))"

definition get_responses_caller ::
    "auth_lib \<Rightarrow> string option \<Rightarrow> auth_state \<Rightarrow> (gateway_error + caller_context) \<times> auth_state" where
  "get_responses_caller lib authorization s =
     (let (r, s') = authenticate lib authorization True s in (as_caller r, s'))"

definition get_caller_compat ::
    "auth_lib \<Rightarrow> string option \<Rightarrow> string option \<Rightarrow> auth_state \<Rightarrow>
     (gateway_error + caller_context) \<times> auth_state" where
  "get_caller_compat lib authorization x_api_key s =
     (let (r, s') = authenticate_compat lib authorization x_api_key s in (as_caller r, s'))"

section \<open>Issuing keys\<close>

record create_key_request =
  ck_user_id :: string
  ck_tenant_id :: string
  ck_roles :: "string list"

text \<open>\<open>create_key\<close>; \<open>key\<close> is the fresh random token. A taken prefix violates the primary key.\<close>

definition create_key ::
    "auth_lib \<Rightarrow> string \<Rightarrow> caller_context \<Rightarrow> create_key_request \<Rightarrow> auth_state \<Rightarrow>
     (gateway_error + string) \<times> auth_state" where
  "create_key lib key caller payload s =
     (case py_in ''admin'' (cc_roles caller) of
        Inl e \<Rightarrow> (Inl (Unhandled e), s)
      | Inr False \<Rightarrow> (Inl (http_error 403 ''forbidden'' ''Admin role required''), s)
      | Inr True \<Rightarrow>
          (if JStr (ck_tenant_id payload) \<noteq> cc_tenant_id caller
           then (Inl (http_error 403 ''forbidden'' ''Cannot create keys for other tenants''), s)
           else
             let pre = take 8 key in
             (case api_keys s pre of
                Some _ \<Rightarrow> (Inl (Unhandled (OtherException ''unique violation'')), s)
              | None \<Rightarrow>
                  (Inr key, s\<lparr>api_keys := (api_keys s)(pre \<mapsto>
                     \<lparr>ak_hash = hashpw lib key, ak_user_id = ck_user_id payload,
                      ak_tenant_id = ck_tenant_id payload, ak_roles = ck_roles payload\<rparr>)\<rparr>))))"

definition maybe_bootstrap :: "auth_lib \<Rightarrow> auth_state \<Rightarrow> auth_state" where
  "maybe_bootstrap lib s =
     (let token = bootstrap_token s; pre = take 8 token in
      if token = [] then s
      else if bootstrapped s then s
      else
        let row = \<lparr>ak_hash = hashpw lib token, ak_user_id = ''admin'', ak_tenant_id = ''system'',
                   ak_roles = [''admin'', ''superuser'']\<rparr>;
            keys = (case api_keys s pre of None \<Rightarrow> (api_keys s)(pre \<mapsto> row) | Some _ \<Rightarrow> api_keys s)
        in s\<lparr>api_keys := keys, bootstrapped := True, bootstrap_token := []\<rparr>)"

section \<open>The machine\<close>

text \<open>
  Authentications, key creation, bootstrap, and the cache forgetting entries (age or size).
\<close>

inductive auth_step :: "auth_lib \<Rightarrow> auth_state \<Rightarrow> auth_state \<Rightarrow> bool" for lib where
  auth: "auth_step lib s (snd (authenticate lib a fallback s))"
| compat: "auth_step lib s (snd (authenticate_compat lib a x s))"
| issue: "auth_step lib s (snd (create_key lib key caller payload s))"
| bootstrap: "auth_step lib s (maybe_bootstrap lib s)"
| evict: "auth_step lib s (s\<lparr>key_cache := (key_cache s)(k := None)\<rparr>)"

definition auth_start :: "string \<Rightarrow> auth_state" where
  "auth_start token = \<lparr>api_keys = (\<lambda>_. None), key_cache = (\<lambda>_. None), bootstrapped = False, bootstrap_token = token\<rparr>"

text \<open>Authentication by the table alone, the reference for the cached function.\<close>

definition api_key_reference ::
    "auth_lib \<Rightarrow> (string \<Rightarrow> api_key_row option) \<Rightarrow> string \<Rightarrow> auth_failure + caller_context" where
  "api_key_reference lib keys key =
     (case keys (take 8 key) of
        Some row \<Rightarrow> if checkpw lib key (ak_hash row) then Inr (key_caller row (take 8 key))
                    else Inl (AuthError ''invalid api key'')
      | None \<Rightarrow> Inl (AuthError ''invalid api key''))"

section \<open>Lemmas\<close>

definition cache_consistent :: "auth_state \<Rightarrow> bool" where
  "cache_consistent s \<longleftrightarrow> (\<forall>pre full row. key_cache s (pre, full) = Some row \<longrightarrow> api_keys s pre = Some row)"

lemma validate_api_key_reference:
  "cache_consistent s \<Longrightarrow> fst (validate_api_key lib key s) = api_key_reference lib (api_keys s) key"
  by (auto simp: validate_api_key_def api_key_reference_def Let_def cache_consistent_def
      split: option.splits)

lemma validate_api_key_consistent:
  "cache_consistent s \<Longrightarrow> cache_consistent (snd (validate_api_key lib key s))"
  by (auto simp: validate_api_key_def Let_def cache_consistent_def split: option.splits)

lemma api_keys_validate [simp]: "api_keys (snd (validate_api_key lib key s)) = api_keys s"
  by (simp add: validate_api_key_def Let_def split: option.splits)

lemma startswith_Cons:
  "py_startswith (c # s) (d # p) = (c = d \<and> py_startswith s p)" "py_startswith s []"
  by (simp_all add: py_startswith_def)

lemma compat_without_key:
  "\<not> truthy_str x \<Longrightarrow> authenticate_compat lib a x s = authenticate lib a True s"
  unfolding authenticate_compat_def authenticate_def by (simp only: if_True if_False simp_thms)

lemma truthy_str_simps [simp]: "\<not> truthy_str None" "\<not> truthy_str (Some [])" "truthy_str (Some (c # s))"
  by (simp_all add: truthy_str_def)

lemma authenticate_cases:
  "snd (authenticate lib a f s) = s \<or> (\<exists>key. snd (authenticate lib a f s) = snd (validate_api_key lib key s))"
  by (auto simp: authenticate_def Let_def split: sum.splits auth_failure.splits)

lemma compat_cases:
  "snd (authenticate_compat lib a x s) = s \<or>
   (\<exists>key. snd (authenticate_compat lib a x s) = snd (validate_api_key lib key s))"
  by (auto simp: authenticate_compat_def Let_def split: sum.splits auth_failure.splits)

lemma create_key_consistent:
  "cache_consistent s \<Longrightarrow> cache_consistent (snd (create_key lib key caller payload s))"
  by (auto simp: create_key_def cache_consistent_def Let_def split: sum.splits bool.splits option.splits)

lemma maybe_bootstrap_consistent:
  "cache_consistent s \<Longrightarrow> cache_consistent (maybe_bootstrap lib s)"
  by (auto simp: maybe_bootstrap_def cache_consistent_def Let_def split: option.splits)

interpretation key_cache: initialised_invariant "auth_step lib" cache_consistent "auth_start token"
  for lib token
proof unfold_locales
  fix s s'
  assume c: "cache_consistent s" and "auth_step lib s s'"
  from this(2) show "cache_consistent s'"
  proof cases
    case (auth a f)
    then show ?thesis
      using c authenticate_cases [of lib a f s] validate_api_key_consistent [OF c] by fastforce
  next
    case (compat a x)
    then show ?thesis
      using c compat_cases [of lib a x s] validate_api_key_consistent [OF c] by fastforce
  next
    case (issue key caller payload)
    then show ?thesis using create_key_consistent [OF c] by blast
  next
    case bootstrap
    then show ?thesis using maybe_bootstrap_consistent [OF c] by blast
  next
    case (evict k)
    then show ?thesis using c by (auto simp: cache_consistent_def)
  qed
qed (simp add: cache_consistent_def auth_start_def)

section \<open>Properties\<close>


text \<open>
  C33. A key that was issued works: after an administrator creates a key for a user of their own tenant,
  that key authenticates under every scheme as that user, tenant and roles; and nobody else can issue one.
  (\<open>checkpw\<close> accepts the hash \<open>hashpw\<close> made of the same key; the token decoder rejects the key; keys of
  \<open>token_urlsafe\<close> contain no space and are not empty.)
\<close>

theorem created_key_authenticates:
  assumes "(auth_step lib)\<^sup>*\<^sup>* (auth_start token) s"
    and "create_key lib key caller payload s = (Inr k, s')"
    and "checkpw lib key (hashpw lib key)" "jwt_decode lib key = None" "key \<noteq> []" "CHR '' '' \<notin> set key"
  shows "k = key \<and> py_in ''admin'' (cc_roles caller) = Inr True \<and>
    cc_tenant_id caller = JStr (ck_tenant_id payload) \<and>
    (\<forall>a \<in> {''Bearer '' @ key, ''ApiKey '' @ key, key}.
      \<exists>c. fst (get_caller lib (Some a) s') = Inr c \<and>
        fst (get_caller_compat lib (Some a) None s') = Inr c \<and>
        fst (get_caller_compat lib None (Some key) s') = Inr c \<and>
        cc_user_id c = JStr (ck_user_id payload) \<and> cc_tenant_id c = JStr (ck_tenant_id payload) \<and>
        cc_roles c = JList (map JStr (ck_roles payload)))"
proof -
  let ?row = "\<lparr>ak_hash = hashpw lib key, ak_user_id = ck_user_id payload,
    ak_tenant_id = ck_tenant_id payload, ak_roles = ck_roles payload\<rparr>"
  let ?c = "key_caller ?row (take 8 key)"
  have ck: "k = key" "py_in ''admin'' (cc_roles caller) = Inr True"
    "cc_tenant_id caller = JStr (ck_tenant_id payload)" "api_keys s' (take 8 key) = Some ?row"
    using assms(2) by (auto simp: create_key_def Let_def split: sum.splits bool.splits option.splits if_splits)
  have "auth_step lib s s'" using auth_step.issue [of lib s key caller payload] assms(2) by simp
  then have "cache_consistent s'" using key_cache.inv_reachable_step assms(1) by blast
  then have v: "fst (validate_api_key lib key s') = Inr ?c"
    using assms(3) ck(4) by (simp add: validate_api_key_reference api_key_reference_def)
  have j: "validate_jwt lib key = Inl (AuthError ''invalid token'')"
    using assms(4) by (simp add: validate_jwt_def)
  have sp: "\<not> py_startswith key ''Bearer ''" "\<not> py_startswith key ''ApiKey ''"
    using assms(6) by (auto simp: py_startswith_iff)
  have au: "authenticate lib (Some a) True s' = validate_api_key lib key s'"
    if "a \<in> {''Bearer '' @ key, ''ApiKey '' @ key, key}" for a
    using that sp assms(5,6) j
    by (cases key) (auto simp: authenticate_def startswith_Cons)
  have x: "authenticate_compat lib None (Some key) s' = validate_api_key lib key s'"
    using assms(5) by (simp add: authenticate_compat_def truthy_str_def)
  have "fst (get_caller lib (Some a) s') = Inr ?c \<and> fst (get_caller_compat lib (Some a) None s') = Inr ?c \<and>
      fst (get_caller_compat lib None (Some key) s') = Inr ?c"
    if "a \<in> {''Bearer '' @ key, ''ApiKey '' @ key, key}" for a
    using au [OF that] v x
    by (simp add: get_caller_def get_caller_compat_def compat_without_key as_caller_def case_prod_beta Let_def)
  then show ?thesis using ck(1-3) by (intro conjI ballI exI [of _ ?c]) (auto simp: key_caller_def)
qed

text \<open>
  The compatibility endpoints accept exactly what the native ones do: without an \<open>x-api-key\<close> header
  all three dependencies give the same caller or the same refusal and change the cache alike; with one,
  only the key counts. A caller without credentials is always refused with a 401.
\<close>

theorem authentication_agrees:
  "get_caller_compat lib a None s = get_caller lib a s \<and>
   get_caller_compat lib a (Some []) s = get_caller lib a s \<and>
   get_responses_caller lib a s = get_caller lib a s \<and>
   get_caller_compat lib a (Some (c # key)) s = get_caller_compat lib None (Some (c # key)) s \<and>
   fst (get_caller lib None s) = Inl (http_error 401 ''auth_error'' ''Invalid credentials'')"
proof -
  have "authenticate_compat lib a (Some (c # key)) s = authenticate_compat lib None (Some (c # key)) s"
    by (simp add: authenticate_compat_def)
  moreover have "authenticate lib None True s = (Inl (AuthError ''missing credentials''), s)"
    by (simp add: authenticate_def)
  ultimately show ?thesis
    by (simp add: get_caller_compat_def get_caller_def get_responses_caller_def compat_without_key as_caller_def)
qed

section \<open>Witnesses\<close>

definition wit_lib :: auth_lib where
  "wit_lib = \<lparr>checkpw = (\<lambda>key h. h = ''h'' @ key), hashpw = (\<lambda>key. ''h'' @ key), jwt_decode = (\<lambda>_. None)\<rparr>"


definition wit_admin :: caller_context where
  "wit_admin = key_caller \<lparr>ak_hash = [], ak_user_id = ''root'', ak_tenant_id = ''t'', ak_roles = [''admin'']\<rparr> ''p''"

theorem created_key_authenticates_witness:
  "\<exists>c. fst (get_caller wit_lib (Some ''Bearer abcdefghij'')
     (snd (create_key wit_lib ''abcdefghij'' wit_admin
        \<lparr>ck_user_id = ''u'', ck_tenant_id = ''t'', ck_roles = [''dev'']\<rparr> (auth_start [])))) = Inr c \<and>
     cc_user_id c = JStr ''u'' \<and> cc_roles c = JList [JStr ''dev'']"
proof -
  let ?p = "\<lparr>ck_user_id = ''u'', ck_tenant_id = ''t'', ck_roles = [''dev'']\<rparr>"
  let ?s = "snd (create_key wit_lib ''abcdefghij'' wit_admin ?p (auth_start []))"
  have "create_key wit_lib ''abcdefghij'' wit_admin ?p (auth_start []) = (Inr ''abcdefghij'', ?s)"
    by (simp add: create_key_def wit_admin_def key_caller_def auth_start_def)
  from created_key_authenticates [OF rtranclp.rtrancl_refl this] show ?thesis
    by (simp add: wit_lib_def) blast
qed

end
