(* ===== verification/Gateway.thy ===== *)
theory Gateway imports ProviderDispatch GovClient RateLimit Auth begin

text \<open>
  \<open>proxy/app/main.py\<close>: the tenant cache, the checks of a caller, the pipeline every inference
  endpoint runs, and the accounting of its outcome. The services and the provider adapters are
  fields of \<open>gw_env\<close>; what the pipeline changes (limiter, tenant cache, usage rows) and the
  requests it sends are its state.
\<close>

section \<open>Environment and state\<close>

record tenant_row =
  tn_default_provider :: "string option"
  tn_allowed_models :: json              \<comment> \<open>the JSONB value as the driver returns it\<close>
  tn_notification :: "string option"
  tn_rate_limit :: "int option"

record tenant_info =
  ti_default_provider :: string
  ti_allowed_models :: "json list"
  ti_notification :: string
  ti_rate_limit :: int

record http_response =
  rs_status :: nat
  rs_headers :: "string dict"
  rs_body :: bytes
  rs_stream :: "stream_chunk list option"  \<comment> \<open>\<open>Some\<close>: a \<open>StreamingResponse\<close>\<close>

record gw_settings =
  st_agent_runtime_client_ids :: "string list"
  st_rate_limit_requests :: int
  st_rate_limit_window_seconds :: int
  st_mock_mode :: bool

record gw_env =
  ge_settings :: gw_settings
  ge_models_config :: "json_object list"
  ge_vertex :: bool
  ge_fmt :: "json \<Rightarrow> string"                       \<comment> \<open>\<open>str\<close> of a value that is no string\<close>
  ge_jsonb :: "string \<Rightarrow> load_result"             \<comment> \<open>\<open>json.loads\<close> of a JSONB text\<close>
  ge_load_body :: "bytes \<Rightarrow> load_result"          \<comment> \<open>\<open>json.loads\<close> of a response body\<close>
  ge_sse :: sse_lib
  ge_tenants :: "string \<Rightarrow> tenant_row option"
  ge_now_ms :: int
  ge_reset_at :: string
  ge_day :: int
  ge_latency_ms :: int
  ge_governance :: "inspect_request \<Rightarrow> nat \<Rightarrow> gov_reply"
  ge_adapter :: "provider_call \<Rightarrow> gateway_error + http_response"
  ge_pricing :: "pricing_row list option"         \<comment> \<open>\<open>None\<close>: the query fails\<close>
  ge_usage_insert_ok :: bool

datatype gw_effect =
    EffInspect inspect_request
  | EffProvider provider_call

record gw_state =
  gs_rl :: rl_db
  gs_tenant_cache :: "string \<Rightarrow> tenant_info option"
  gs_usage :: "usage_row list"
  gs_effects :: "gw_effect list"

section \<open>Tenants and checks\<close>

definition jsonb_list :: "(string \<Rightarrow> load_result) \<Rightarrow> json \<Rightarrow> json list" where
  "jsonb_list loads v =
     (case v of
        JNull \<Rightarrow> []
      | JStr s \<Rightarrow> (case loads s of Loaded (JList xs) \<Rightarrow> xs | _ \<Rightarrow> [])
      | JList xs \<Rightarrow> xs
      | _ \<Rightarrow> [])"

definition or_default :: "string option \<Rightarrow> string \<Rightarrow> string" where
  "or_default s d = (if truthy_str s then the s else d)"

text \<open>
  The lookup is by a text column: a tenant id that is no string is unhashable or refused by the
  driver, an exception either way.
\<close>

definition get_tenant_info :: "gw_env \<Rightarrow> json \<Rightarrow> gw_state \<Rightarrow> (gateway_error + tenant_info) \<times> gw_state" where
  "get_tenant_info env tenant s =
     (case tenant of
        JStr tenant_id \<Rightarrow>
          (case gs_tenant_cache s tenant_id of
             Some ti \<Rightarrow> (Inr ti, s)
           | None \<Rightarrow>
               let ti = (case ge_tenants env tenant_id of
                     None \<Rightarrow> \<lparr>ti_default_provider = [], ti_allowed_models = [], ti_notification = ''header'',
                              ti_rate_limit = st_rate_limit_requests (ge_settings env)\<rparr>
                   | Some row \<Rightarrow>
                       \<lparr>ti_default_provider = or_default (tn_default_provider row) [],
                        ti_allowed_models = jsonb_list (ge_jsonb env) (tn_allowed_models row),
                        ti_notification = or_default (tn_notification row) ''header'',
                        ti_rate_limit = (case tn_rate_limit row of
                            None \<Rightarrow> st_rate_limit_requests (ge_settings env)
                          | Some n \<Rightarrow> if n = 0 then st_rate_limit_requests (ge_settings env) else n)\<rparr>)
               in (Inr ti, s\<lparr>gs_tenant_cache := (gs_tenant_cache s)(tenant_id \<mapsto> ti)\<rparr>))
      | _ \<Rightarrow> (Inl (Unhandled TypeError), s))"

definition enforce_allowed_model :: "string \<Rightarrow> json list \<Rightarrow> gateway_error + unit" where
  "enforce_allowed_model model_id allowed_models =
     (if allowed_models \<noteq> [] \<and> JStr model_id \<notin> set allowed_models
      then Inl (http_error 403 ''model_not_allowed'' (''Model '' @ model_id @ '' is not allowed for this tenant''))
      else Inr ())"

definition enforce_mcp_scope :: "caller_context \<Rightarrow> string \<Rightarrow> gateway_error + unit" where
  "enforce_mcp_scope caller server =
     (let required_scope = ''mcp:'' @ server @ '':invoke'' in
      if JStr required_scope \<notin> set (cc_scopes caller)
      then Inl (http_error 403 ''missing_scope'' (''Missing required scope: '' @ required_scope))
      else Inr ())"

definition enforce_act_claim :: "gw_settings \<Rightarrow> caller_context \<Rightarrow> gateway_error + unit" where
  "enforce_act_claim cfg caller =
     (if cc_client_id caller \<notin> JStr ` set (st_agent_runtime_client_ids cfg) then Inr ()
      else if \<not> json_truthy (cc_act_sub caller) \<or> cc_act_sub caller = cc_user_id caller
      then Inl (http_error 401 ''missing_act_claim'' ''Agent caller missing a valid act claim'')
      else Inr ())"

definition models_by_id :: "json_object list \<Rightarrow> (string \<times> json_object) list" where
  \<comment> \<open>the comprehension of \<open>lifespan\<close>, later entries win; ids that are no strings match no model\<close>
  "models_by_id models =
     dict_update [] (concat (map (\<lambda>m. case map_of m ''id'' of Some (JStr i) \<Rightarrow> [(i, m)] | _ \<Rightarrow> []) models))"

definition resolve_canonical_model_id :: "string \<Rightarrow> (string \<times> json_object) list \<Rightarrow> json" where
  "resolve_canonical_model_id model_id by_id =
     (case map_of by_id model_id of
        None \<Rightarrow> JStr model_id
      | Some entry \<Rightarrow> if entry = [] then JStr model_id else jget_or entry ''alias_of'' (JStr model_id))"

section \<open>Accounting\<close>

text \<open>\<open>_attach_usage\<close>: the metrics of a JSON body, as headers and for the usage row.\<close>

definition attach_usage :: "gw_env \<Rightarrow> http_response \<Rightarrow> string \<Rightarrow> usage_metrics \<Rightarrow> http_response \<times> usage_metrics" where
  "attach_usage env response provider metrics0 =
     (if \<not> sublist ''application/json'' (dict_get_or (rs_headers response) ''content-type'' []) then (response, metrics0)
      else if rs_body response = [] then (response, metrics0)
      else (case ge_load_body env (rs_body response) of
              Loaded v \<Rightarrow>
                (let m = extract_usage provider v in
                 (response\<lparr>rs_headers := dict_set ''x-usage-total-tokens'' (py_str_int (total_tokens m))
                    (dict_set ''x-usage-completion-tokens'' (py_str_int (completion_tokens m))
                      (dict_set ''x-usage-prompt-tokens'' (py_str_int (prompt_tokens m)) (rs_headers response)))\<rparr>, m))
            | _ \<Rightarrow> (response, metrics0)))"

text \<open>
  \<open>_log_outcome\<close>: never raises. The cost of an allowed request is looked up; when that query
  fails, the exception is caught and no row is written.
\<close>

definition log_outcome ::
    "gw_env \<Rightarrow> caller_context \<Rightarrow> json \<Rightarrow> string \<Rightarrow> usage_metrics \<Rightarrow> gw_state \<Rightarrow> gw_state" where
  "log_outcome env caller model_id status usage s =
     (let row = (\<lambda>cost. \<lparr>ur_day = ge_day env, ur_tenant_id = cc_tenant_id caller, ur_api_key_prefix = [],
                ur_user_id = cc_user_id caller, ur_model_id = py_str_json (ge_fmt env) model_id,
                ur_status = status, ur_usage = usage, ur_cost_usd = cost, ur_latency_ms = ge_latency_ms env\<rparr>);
          write = (\<lambda>cost. s\<lparr>gs_usage := write_usage_log (ge_usage_insert_ok env) (cc_api_key_prefix caller) (row cost) (gs_usage s)\<rparr>)
      in if status = ''allowed'' then
           (case ge_pricing env of
              None \<Rightarrow> s
            | Some ps \<Rightarrow> write (resolve_cost ps (py_str_json (ge_fmt env) model_id) usage (ge_day env)))
         else write (Some 0))"

section \<open>The pipeline\<close>

definition rate_key :: "gw_env \<Rightarrow> caller_context \<Rightarrow> string" where
  "rate_key env caller =
     py_str_json (ge_fmt env) (cc_tenant_id caller) @ '':'' @ py_str_json (ge_fmt env) (cc_user_id caller)"

definition lower_headers :: "string dict \<Rightarrow> string dict" where
  "lower_headers h = dict_update [] (map (\<lambda>(k, v). (py_lower k, v)) h)"

text \<open>Iterating over a JSON value: \<open>for v in value\<close>.\<close>

definition py_iter :: "json \<Rightarrow> py_error + json list" where
  "py_iter v =
     (case v of
        JList xs \<Rightarrow> Inr xs
      | JStr s \<Rightarrow> Inr (map (\<lambda>c. JStr [c]) s)
      | JObj d \<Rightarrow> Inr (map (\<lambda>(k, _). JStr k) d)
      | _ \<Rightarrow> Inl TypeError)"

definition raised :: "py_error + 'a \<Rightarrow> gateway_error + 'a" where
  "raised m = (case m of Inl e \<Rightarrow> Inl (Unhandled e) | Inr a \<Rightarrow> Inr a)"

definition policy_blocked :: "json list \<Rightarrow> json_object \<Rightarrow> gateway_error" where
  "policy_blocked violations extra_headers =
     PolicyBlocked \<lparr>he_status = (if JStr ''harm:prompt_injection'' \<in> set violations then 400 else 403),
       he_detail = error_envelope_full ''policy_violation'' ''Request blocked by policy'' violations [] [] None,
       he_headers = extra_headers\<rparr>"

text \<open>
  From the reply of governance to the payload that is dispatched: the block, the PII headers, the
  redaction. A redacted text that is no string makes the comparison library raise.
\<close>

definition apply_inspection ::
    "'p payload_ops \<Rightarrow> string \<Rightarrow> gov_response \<Rightarrow> json_object \<Rightarrow> 'p \<Rightarrow> gateway_error + ('p \<times> json_object)" where
  "apply_inspection ops notification resp rl_hdrs payload =
     (let extra = (if json_truthy (gr_audit_id resp) then dict_set ''X-Audit-ID'' (gr_audit_id resp) rl_hdrs else rl_hdrs) in
      if gr_decision resp = JStr ''block'' then
        ebind (raised (py_iter (gr_violations resp))) (\<lambda>vs. Inl (policy_blocked vs extra))
      else if \<not> json_truthy (gr_pii_findings resp) then Inr (payload, extra)
      else
        ebind (raised (py_iter (gr_pii_findings resp))) (\<lambda>findings.
        ebind (raised (pii_headers (map (\<lambda>f. jget_or (as_obj f) ''type'' (JStr [])) (filter is_obj findings)) notification)) (\<lambda>h.
          let extra' = dict_update extra (str_headers h) in
          if \<not> json_truthy (gr_redacted_text resp) then Inr (payload, extra')
          else (case gr_redacted_text resp of
                  JStr r \<Rightarrow> Inr (po_with_redacted_text ops payload r, extra')
                | _ \<Rightarrow> Inl (Unhandled TypeError)))))"

definition inspection_request ::
    "'p payload_ops \<Rightarrow> caller_context \<Rightarrow> string \<Rightarrow> 'p \<Rightarrow> inspect_request" where
  "inspection_request ops caller routing_method payload =
     \<lparr>iq_text = po_governance_text ops payload, iq_tenant_id = cc_tenant_id caller,
      iq_user_id = cc_user_id caller, iq_model_id = po_model ops payload,
      iq_routing_method = routing_method, iq_phase = ''pre_call'', iq_roles = cc_roles caller\<rparr>"

definition add_effect :: "gw_effect \<Rightarrow> gw_state \<Rightarrow> gw_state" where
  "add_effect e s = s\<lparr>gs_effects := gs_effects s @ [e]\<rparr>"

text \<open>Rate limiting and what follows it, once the provider is known.\<close>

definition inspect_and_dispatch ::
    "gw_env \<Rightarrow> 'p payload_ops \<Rightarrow> caller_context \<Rightarrow> string dict \<Rightarrow> tenant_info \<Rightarrow> string \<Rightarrow> string \<Rightarrow> 'p \<Rightarrow> gw_state \<Rightarrow>
     (gateway_error + (http_response \<times> json_object \<times> dispatch_result)) \<times> gw_state" where
  "inspect_and_dispatch env ops caller lower tenant provider routing_method payload s =
     (let cfg = ge_settings env;
          (rl, db) = rate_check (st_rate_limit_requests cfg) (st_rate_limit_window_seconds cfg)
                       (rate_key env caller) (ge_now_ms env) (gs_rl s);
          s1 = s\<lparr>gs_rl := db\<rparr>;
          rl_hdrs = str_headers (rate_limit_headers (rr_limit rl) (rr_remaining rl) (ge_reset_at env))
      in if \<not> rr_allowed rl then
           (Inl (http_error_with 429 (error_envelope ''rate_limit_exceeded'' ''Too many requests'')
              (dict_update (str_headers (retry_headers (rr_retry_after_seconds rl))) rl_hdrs)), s1)
         else
           let req = inspection_request ops caller routing_method payload;
               s2 = add_effect (EffInspect req) s1
           in (case gov_inspect (ge_governance env req) of
                 Inl (GovOther e) \<Rightarrow> (Inl (Unhandled e), s2)
               | Inl (GovernanceError retry_after) \<Rightarrow>
                   (Inl (http_error_with 503 (error_envelope ''governance_unavailable'' ''Governance service unavailable'')
                      (str_headers [(''Retry-After'', or_default retry_after ''60'')])), s2)
               | Inr resp \<Rightarrow>
                   (case ebind (apply_inspection ops (ti_notification tenant) resp rl_hdrs payload) (\<lambda>(payload', extra).
                      ebind (dispatch_provider (ge_fmt env) (ge_vertex env) (st_mock_mode cfg) ops
                        provider payload'
                        (model_entry_for (models_by_id (ge_models_config env)) (po_model ops payload)) lower extra)
                        (\<lambda>d. Inr (d, extra))) of
                      Inl e \<Rightarrow> (Inl e, s2)
                    | Inr (d, extra) \<Rightarrow>
                        (case ge_adapter env (dr_call d) of
                           Inl e \<Rightarrow> (Inl e, add_effect (EffProvider (dr_call d)) s2)
                         | Inr response \<Rightarrow> (Inr (response, extra, d), add_effect (EffProvider (dr_call d)) s2)))))"

text \<open>The body of the \<open>try\<close>. A provider of the model table that is no string counts as its text.\<close>

definition guarded_part ::
    "gw_env \<Rightarrow> 'p payload_ops \<Rightarrow> caller_context \<Rightarrow> string dict \<Rightarrow> 'p \<Rightarrow> gw_state \<Rightarrow>
     (gateway_error + (http_response \<times> json_object \<times> dispatch_result)) \<times> gw_state" where
  "guarded_part env ops caller headers payload s =
     (let model_id = po_model ops payload; (ti, s0) = get_tenant_info env (cc_tenant_id caller) s in
      case ebind ti (\<lambda>tenant.
             ebind (enforce_allowed_model model_id (ti_allowed_models tenant)) (\<lambda>_.
             ebind (raised (resolve_provider model_id (lower_headers headers) (cc_roles caller)
                      (ti_default_provider tenant) (ge_models_config env))) (\<lambda>(provider, routing_method).
               if routing_method = ''model_not_found'' \<or> routing_method = ''override_denied''
               then Inl (http_error 400 routing_method (''Cannot route model: '' @ model_id))
               else Inr (tenant, py_str_json (ge_fmt env) provider, routing_method)))) of
        Inl e \<Rightarrow> (Inl e, s0)
      | Inr (tenant, provider, routing_method) \<Rightarrow>
          inspect_and_dispatch env ops caller (lower_headers headers) tenant provider routing_method payload s0)"

text \<open>
  \<open>_run_gateway_pipeline\<close>. For a stream the usage row is written when the stream ends; the model
  writes it with the metrics the whole stream yields.
\<close>

definition finish_response ::
    "gw_env \<Rightarrow> caller_context \<Rightarrow> json \<Rightarrow> bool \<Rightarrow> http_response \<Rightarrow> dispatch_result \<Rightarrow> gw_state \<Rightarrow> http_response \<times> gw_state" where
  "finish_response env caller canonical stream response d s =
     (case rs_stream response of
        None \<Rightarrow>
          (if \<not> stream then
             let (response', usage) = (if rs_status response < 400
                   then attach_usage env response (dr_usage_provider d) usage_zero else (response, usage_zero))
             in (response', log_outcome env caller canonical ''allowed'' usage s)
           else (response, log_outcome env caller canonical ''allowed'' usage_zero s))
      | Some chunks \<Rightarrow>
          (if \<not> stream then (response, s)
           else if rs_status response < 400 then
             let (out, usage) = capture_stream_usage (ge_sse env) (dr_response_protocol d) (dr_usage_provider d) chunks
             in (response\<lparr>rs_stream := Some out\<rparr>, log_outcome env caller canonical ''allowed'' usage s)
           else (response, log_outcome env caller canonical ''allowed'' usage_zero s)))"

definition run_gateway_pipeline ::
    "gw_env \<Rightarrow> 'p payload_ops \<Rightarrow> caller_context \<Rightarrow> string dict \<Rightarrow> 'p \<Rightarrow> gw_state \<Rightarrow>
     (gateway_error + (http_response \<times> json_object \<times> wire_protocol)) \<times> gw_state" where
  "run_gateway_pipeline env ops caller headers payload s =
     (case enforce_act_claim (ge_settings env) caller of
        Inl e \<Rightarrow> (Inl e, s)
      | Inr _ \<Rightarrow>
          let canonical = resolve_canonical_model_id (po_model ops payload) (models_by_id (ge_models_config env)) in
          (case guarded_part env ops caller headers payload s of
             (Inl (PolicyBlocked e), s') \<Rightarrow> (Inl (PolicyBlocked e), log_outcome env caller canonical ''blocked'' usage_zero s')
           | (Inl (HttpError e), s') \<Rightarrow> (Inl (HttpError e), log_outcome env caller canonical ''errored'' usage_zero s')
           | (Inl (Unhandled e), s') \<Rightarrow> (Inl (Unhandled e), s')
           | (Inr (response, extra, d), s') \<Rightarrow>
               let (response', s'') = finish_response env caller canonical (po_stream ops payload) response d s'
               in (Inr (response', extra, dr_response_protocol d), s'')))"

section \<open>Lemmas\<close>

text \<open>The payload governance approved: redacted when something was found and a redaction was given.\<close>

definition approved_payload :: "'p payload_ops \<Rightarrow> gov_response \<Rightarrow> 'p \<Rightarrow> 'p" where
  "approved_payload ops resp payload =
     (if json_truthy (gr_pii_findings resp) then
        (case gr_redacted_text resp of
           JStr r \<Rightarrow> if r = [] then payload else po_with_redacted_text ops payload r
         | _ \<Rightarrow> payload)
      else payload)"

lemma raised_simps [simp]:
  "raised m = Inr a \<longleftrightarrow> m = Inr a" "raised m = Inl x \<longleftrightarrow> (\<exists>e. m = Inl e \<and> x = Unhandled e)"
  by (auto simp: raised_def split: sum.splits)

lemma apply_inspection_Inr:
  "apply_inspection ops nm resp h p = Inr (p', extra) \<Longrightarrow>
     gr_decision resp \<noteq> JStr ''block'' \<and> p' = approved_payload ops resp p"
  by (auto simp: apply_inspection_def approved_payload_def Let_def ebind_eq_Inr
      split: if_splits json.splits)

lemma apply_inspection_block:
  "gr_decision resp = JStr ''block'' \<Longrightarrow> \<exists>e. apply_inspection ops nm resp h p = Inl e"
  by (auto simp: apply_inspection_def raised_def split: sum.splits)

lemma usage_add_effect [simp]: "gs_usage (add_effect e s) = gs_usage s" "gs_rl (add_effect e s) = gs_rl s"
  "gs_effects (add_effect e s) = gs_effects s @ [e]"
  by (simp_all add: add_effect_def)

lemma get_tenant_info_frame [simp]:
  "gs_usage (snd (get_tenant_info env t s)) = gs_usage s"
  "gs_effects (snd (get_tenant_info env t s)) = gs_effects s"
  "gs_rl (snd (get_tenant_info env t s)) = gs_rl s"
  by (simp_all add: get_tenant_info_def Let_def split: json.splits option.splits)

text \<open>How the rest of the pipeline can end, and what it has sent by then.\<close>

definition governed_dispatch ::
    "gw_env \<Rightarrow> 'p payload_ops \<Rightarrow> caller_context \<Rightarrow> string dict \<Rightarrow> string \<Rightarrow> string \<Rightarrow> 'p \<Rightarrow> inspect_request \<Rightarrow> dispatch_result \<Rightarrow> bool" where
  "governed_dispatch env ops caller lower provider routing_method payload req d \<longleftrightarrow>
     req = inspection_request ops caller routing_method payload \<and>
     (\<exists>resp extra. gov_inspect (ge_governance env req) = Inr resp \<and> gr_decision resp \<noteq> JStr ''block'' \<and>
        dispatch_provider (ge_fmt env) (ge_vertex env) (st_mock_mode (ge_settings env)) ops provider
          (approved_payload ops resp payload)
          (model_entry_for (models_by_id (ge_models_config env)) (po_model ops payload)) lower extra = Inr d)"

lemma inspect_and_dispatch_effects:
  assumes "inspect_and_dispatch env ops caller lower tenant provider meth payload s = (res, s')"
  shows "gs_usage s' = gs_usage s \<and>
    (gs_effects s' = gs_effects s \<or>
     (rr_allowed (fst (rate_check (st_rate_limit_requests (ge_settings env))
        (st_rate_limit_window_seconds (ge_settings env)) (rate_key env caller) (ge_now_ms env) (gs_rl s))) \<and>
      (\<exists>req. gs_effects s' = gs_effects s @ [EffInspect req] \<or>
        (\<exists>d. gs_effects s' = gs_effects s @ [EffInspect req, EffProvider (dr_call d)] \<and>
          governed_dispatch env ops caller lower provider meth payload req d))))"
proof -
  obtain rl db where rl: "rate_check (st_rate_limit_requests (ge_settings env))
      (st_rate_limit_window_seconds (ge_settings env)) (rate_key env caller) (ge_now_ms env) (gs_rl s) = (rl, db)"
    by force
  show ?thesis
  proof (cases "rr_allowed rl")
    case False
    then show ?thesis using assms by (auto simp: inspect_and_dispatch_def rl Let_def)
  next
    case True
    let ?req = "inspection_request ops caller meth payload"
    note split = assms [unfolded inspect_and_dispatch_def rl Let_def, simplified True, simplified]
    show ?thesis
    proof (cases "gov_inspect (ge_governance env ?req)")
      case (Inl e)
      then show ?thesis using split True by (cases e) (auto simp: rl)
    next
      case (Inr resp)
      show ?thesis
        using split True
        by (auto simp: Inr rl governed_dispatch_def ebind_eq_Inr
            dest!: apply_inspection_Inr split: sum.splits)
    qed
  qed
qed

lemma guarded_part_cases:
  assumes "guarded_part env ops caller headers payload s = (res, s')"
  obtains (refused) e where "res = Inl e" "s' = snd (get_tenant_info env (cc_tenant_id caller) s)"
  | (routed) tenant provider pj meth where
      "fst (get_tenant_info env (cc_tenant_id caller) s) = Inr tenant"
      "enforce_allowed_model (po_model ops payload) (ti_allowed_models tenant) = Inr ()"
      "resolve_provider (po_model ops payload) (lower_headers headers) (cc_roles caller)
         (ti_default_provider tenant) (ge_models_config env) = Inr (pj, meth)"
      "meth \<noteq> ''model_not_found''" "meth \<noteq> ''override_denied''"
      "provider = py_str_json (ge_fmt env) pj"
      "inspect_and_dispatch env ops caller (lower_headers headers) tenant provider meth payload
         (snd (get_tenant_info env (cc_tenant_id caller) s)) = (res, s')"
proof -
  obtain ti s0 where ti: "get_tenant_info env (cc_tenant_id caller) s = (ti, s0)" by force
  let ?pre = "ebind ti (\<lambda>tenant.
     ebind (enforce_allowed_model (po_model ops payload) (ti_allowed_models tenant)) (\<lambda>_.
     ebind (raised (resolve_provider (po_model ops payload) (lower_headers headers) (cc_roles caller)
              (ti_default_provider tenant) (ge_models_config env))) (\<lambda>(provider, routing_method).
       if routing_method = ''model_not_found'' \<or> routing_method = ''override_denied''
       then Inl (http_error 400 routing_method (''Cannot route model: '' @ po_model ops payload))
       else Inr (tenant, py_str_json (ge_fmt env) provider, routing_method))))"
  have g: "guarded_part env ops caller headers payload s =
    (case ?pre of Inl e \<Rightarrow> (Inl e, s0)
     | Inr (tenant, provider, routing_method) \<Rightarrow>
         inspect_and_dispatch env ops caller (lower_headers headers) tenant provider routing_method payload s0)"
    by (simp only: guarded_part_def Let_def ti prod.case)
  show thesis
  proof (cases ?pre)
    case (Inl e)
    then have "(Inl e, s0) = (res, s')" using assms g by simp
    then show thesis using ti by (intro refused [of e]) simp_all
  next
    case (Inr r)
    obtain tenant provider meth where r: "r = (tenant, provider, meth)" by (cases r) auto
    obtain pj where "ti = Inr tenant" "enforce_allowed_model (po_model ops payload) (ti_allowed_models tenant) = Inr ()"
      "resolve_provider (po_model ops payload) (lower_headers headers) (cc_roles caller)
         (ti_default_provider tenant) (ge_models_config env) = Inr (pj, meth)"
      "meth \<noteq> ''model_not_found''" "meth \<noteq> ''override_denied''" "provider = py_str_json (ge_fmt env) pj"
      using Inr r by (auto simp: ebind_eq_Inr split: if_splits)
    then show thesis using routed [of tenant pj meth provider] assms g Inr r ti by simp
  qed
qed

lemma log_outcome_effects [simp]:
  "gs_effects (log_outcome env c m st u s) = gs_effects s"
  "gs_rl (log_outcome env c m st u s) = gs_rl s"
  by (simp_all add: log_outcome_def Let_def split: option.splits)

lemma log_outcome_usage:
  assumes "ge_usage_insert_ok env" "ge_pricing env \<noteq> None" "st \<in> {''allowed'', ''blocked'', ''errored''}"
  shows "\<exists>row. gs_usage (log_outcome env c m st u s) = gs_usage s @ [row] \<and> ur_status row = st \<and>
    ur_tenant_id row = cc_tenant_id c \<and> ur_user_id row = cc_user_id c \<and> ur_usage row = u"
  using assms by (auto simp: log_outcome_def write_usage_log_def Let_def)

lemma finish_response_effects [simp]:
  "gs_effects (snd (finish_response env c m stream r d s)) = gs_effects s"
  by (simp add: finish_response_def Let_def split: option.splits prod.splits)

lemma run_gateway_pipeline_effects:
  assumes "run_gateway_pipeline env ops caller headers payload s = (res, s')"
  shows "gs_effects s' = gs_effects s \<or>
    (enforce_act_claim (ge_settings env) caller = Inr () \<and>
     (\<exists>t. guarded_part env ops caller headers payload s = t \<and> gs_effects s' = gs_effects (snd t)))"
  using assms
  by (auto simp: run_gateway_pipeline_def Let_def split: sum.splits gateway_error.splits prod.splits
      dest: arg_cong [where f = "\<lambda>x. gs_effects (snd x)"])

lemma inspect_and_dispatch_usage:
  "gs_usage (snd (inspect_and_dispatch env ops caller lower tenant provider meth payload s)) = gs_usage s"
  using inspect_and_dispatch_effects [of env ops caller lower tenant provider meth payload s] by (metis prod.collapse)

lemma guarded_part_usage: "guarded_part env ops caller headers payload s = (res, s') \<Longrightarrow> gs_usage s' = gs_usage s"
proof (erule guarded_part_cases)
  fix tenant provider pj meth
  assume "inspect_and_dispatch env ops caller (lower_headers headers) tenant provider meth payload
    (snd (get_tenant_info env (cc_tenant_id caller) s)) = (res, s')"
  then show "gs_usage s' = gs_usage s"
    using inspect_and_dispatch_usage [of env ops caller "lower_headers headers" tenant provider meth payload
      "snd (get_tenant_info env (cc_tenant_id caller) s)"] by simp
qed simp

lemma finish_response_usage:
  assumes "ge_usage_insert_ok env" "ge_pricing env \<noteq> None"
    and "finish_response env c m stream r d s = (r', s')"
  shows "(rs_stream r' = None) = (rs_stream r = None) \<and>
    (if rs_stream r \<noteq> None \<and> \<not> stream then gs_usage s' = gs_usage s
     else \<exists>row. gs_usage s' = gs_usage s @ [row] \<and> ur_status row = ''allowed'' \<and>
       ur_tenant_id row = cc_tenant_id c \<and> ur_user_id row = cc_user_id c)"
  using assms(3) log_outcome_usage [OF assms(1,2), of "''allowed''" c m]
  by (auto simp: finish_response_def attach_usage_def Let_def
      split: option.splits if_splits prod.splits load_result.splits)

lemma gateway_provider_facts:
  assumes "run_gateway_pipeline env ops caller headers payload s = (res, s')"
    and "gs_effects s' = gs_effects s @ sent" "EffProvider call \<in> set sent"
  shows "enforce_act_claim (ge_settings env) caller = Inr () \<and>
    (\<exists>tenant pj meth req d.
       fst (get_tenant_info env (cc_tenant_id caller) s) = Inr tenant \<and>
       enforce_allowed_model (po_model ops payload) (ti_allowed_models tenant) = Inr () \<and>
       resolve_provider (po_model ops payload) (lower_headers headers) (cc_roles caller)
         (ti_default_provider tenant) (ge_models_config env) = Inr (pj, meth) \<and>
       meth \<noteq> ''model_not_found'' \<and> meth \<noteq> ''override_denied'' \<and>
       rr_allowed (fst (rate_check (st_rate_limit_requests (ge_settings env))
         (st_rate_limit_window_seconds (ge_settings env)) (rate_key env caller) (ge_now_ms env) (gs_rl s))) \<and>
       governed_dispatch env ops caller (lower_headers headers) (py_str_json (ge_fmt env) pj) meth payload req d \<and>
       sent = [EffInspect req, EffProvider call] \<and> call = dr_call d)"
proof -
  have ne: "gs_effects s' \<noteq> gs_effects s" using assms(2,3) by auto
  then obtain r t where act: "enforce_act_claim (ge_settings env) caller = Inr ()"
    and g: "guarded_part env ops caller headers payload s = (r, t)" "gs_effects s' = gs_effects t"
    using run_gateway_pipeline_effects [OF assms(1)] by (metis prod.collapse)
  from g(1) show ?thesis
  proof (cases rule: guarded_part_cases)
    case (refused e)
    then show ?thesis using g(2) ne by simp
  next
    case (routed tenant provider pj meth)
    then show ?thesis
      using inspect_and_dispatch_effects [OF routed(7)] act g(2) assms(2,3) routed(1-6) by auto
  qed
qed

lemma dispatch_provider_chat_body:
  "dispatch_provider fmt v mock chat_ops provider p entry lh eh = Inr d \<Longrightarrow>
     pc_body (dr_call d) = to_json (cp_request p)"
  by (erule dispatch_Inr) (simp_all add: chat_ops_def chat_native_body_def chat_to_chat_body_def)

lemma approved_chat:
  "approved_payload chat_ops resp p =
     (if json_truthy (gr_pii_findings resp) \<and> (\<exists>r. gr_redacted_text resp = JStr r \<and> r \<noteq> [])
      then chat_with_redacted_text p (the (as_str (gr_redacted_text resp))) else p)"
  by (auto simp: approved_payload_def chat_ops_def split: json.splits)

section \<open>Properties\<close>

text \<open>
  C4. The gateway fails closed: a provider is contacted only after, in this order, the caller's act claim
  was accepted, the tenant allows the model, the request could be routed, the limiter admitted it,
  and governance, asked about this very payload's text, answered with a decision other than
  \<open>block\<close>; what is sent is what \<open>dispatch_provider\<close> made of the payload governance approved, the
  redacted one whenever findings came with a redacted text; and it is sent once.
\<close>

theorem gateway_fail_closed:
  assumes "run_gateway_pipeline env ops caller headers payload s = (res, s')"
    and "gs_effects s' = gs_effects s @ sent" "EffProvider call \<in> set sent"
  shows "enforce_act_claim (ge_settings env) caller = Inr () \<and>
    (\<exists>tenant pj meth req d.
       fst (get_tenant_info env (cc_tenant_id caller) s) = Inr tenant \<and>
       enforce_allowed_model (po_model ops payload) (ti_allowed_models tenant) = Inr () \<and>
       resolve_provider (po_model ops payload) (lower_headers headers) (cc_roles caller)
         (ti_default_provider tenant) (ge_models_config env) = Inr (pj, meth) \<and>
       meth \<noteq> ''model_not_found'' \<and> meth \<noteq> ''override_denied'' \<and>
       rr_allowed (fst (rate_check (st_rate_limit_requests (ge_settings env))
         (st_rate_limit_window_seconds (ge_settings env)) (rate_key env caller) (ge_now_ms env) (gs_rl s))) \<and>
       governed_dispatch env ops caller (lower_headers headers) (py_str_json (ge_fmt env) pj) meth payload req d \<and>
       sent = [EffInspect req, EffProvider call] \<and> call = dr_call d)"
  by (rule gateway_provider_facts [OF assms])

text \<open>
  What a provider is sent for a Chat request: the dump of the request itself, or, when governance
  reported findings with a redacted text, of a request whose governed text is exactly that redacted
  text (if it had any) and which differs from the original nowhere else.
\<close>

theorem chat_provider_gets_redacted:
  assumes "run_gateway_pipeline env chat_ops caller headers payload s = (res, s')"
    and "gs_effects s' = gs_effects s @ sent" "EffProvider call \<in> set sent"
  shows "\<exists>req resp p. EffInspect req \<in> set sent \<and> iq_text req = chat_governance_text payload \<and>
    gov_inspect (ge_governance env req) = Inr resp \<and> pc_body call = to_json (cp_request p) \<and>
    chat_frame p = chat_frame payload \<and>
    (if json_truthy (gr_pii_findings resp) \<and> (\<exists>r. gr_redacted_text resp = JStr r \<and> r \<noteq> [])
     then chat_leaves payload = [] \<or> gr_redacted_text resp = JStr (chat_governance_text p)
     else p = payload)"
proof -
  obtain meth req d provider where f: "sent = [EffInspect req, EffProvider call]" "call = dr_call d"
    "governed_dispatch env chat_ops caller (lower_headers headers) provider meth payload req d"
    using gateway_provider_facts [OF assms] by blast
  then obtain resp extra where g: "req = inspection_request chat_ops caller meth payload"
    "gov_inspect (ge_governance env req) = Inr resp"
    "dispatch_provider (ge_fmt env) (ge_vertex env) (st_mock_mode (ge_settings env)) chat_ops provider
       (approved_payload chat_ops resp payload)
       (model_entry_for (models_by_id (ge_models_config env)) (po_model chat_ops payload)) (lower_headers headers) extra = Inr d"
    by (auto simp: governed_dispatch_def)
  have "iq_text req = chat_governance_text payload" using g(1) by (simp add: inspection_request_def chat_ops_def)
  moreover have "chat_frame (approved_payload chat_ops resp payload) = chat_frame payload"
    by (simp add: approved_chat chat_frame_redact)
  moreover have "pc_body call = to_json (cp_request (approved_payload chat_ops resp payload))"
    using dispatch_provider_chat_body [OF g(3)] f(2) by simp
  moreover have "if json_truthy (gr_pii_findings resp) \<and> (\<exists>r. gr_redacted_text resp = JStr r \<and> r \<noteq> [])
     then chat_leaves payload = [] \<or> gr_redacted_text resp = JStr (chat_governance_text (approved_payload chat_ops resp payload))
     else approved_payload chat_ops resp payload = payload"
    by (auto simp: approved_chat chat.text_redact)
  ultimately show ?thesis using f(1) g(2) by (intro exI [of _ req] exI [of _ resp] exI) auto
qed

text \<open>
  Every outcome that the client sees as an answer of the gateway is accounted exactly once (the
  database accepting the row): one row with status \<open>blocked\<close> for a policy block, \<open>errored\<close> for any other
  refusal after the act-claim check, \<open>allowed\<close> for a response of the provider; a request that ends in
  an unforeseen exception leaves none.
\<close>

theorem usage_row_per_outcome:
  assumes "run_gateway_pipeline env ops caller headers payload s = (res, s')"
    and "ge_usage_insert_ok env" "ge_pricing env \<noteq> None"
  shows "case res of
      Inl (PolicyBlocked e) \<Rightarrow> \<exists>row. gs_usage s' = gs_usage s @ [row] \<and> ur_status row = ''blocked''
    | Inl (HttpError e) \<Rightarrow>
        (if enforce_act_claim (ge_settings env) caller = Inr ()
         then \<exists>row. gs_usage s' = gs_usage s @ [row] \<and> ur_status row = ''errored'' else gs_usage s' = gs_usage s)
    | Inl (Unhandled e) \<Rightarrow> gs_usage s' = gs_usage s
    | Inr (response, _, _) \<Rightarrow>
        (if rs_stream response \<noteq> None \<and> \<not> po_stream ops payload then gs_usage s' = gs_usage s
         else \<exists>row. gs_usage s' = gs_usage s @ [row] \<and> ur_status row = ''allowed'')"
proof (cases "enforce_act_claim (ge_settings env) caller")
  case (Inl e)
  then have "\<exists>h. e = HttpError h" by (auto simp: enforce_act_claim_def http_error_def split: if_splits)
  then show ?thesis using assms(1) Inl by (auto simp: run_gateway_pipeline_def)
next
  case (Inr u)
  obtain g t where g: "guarded_part env ops caller headers payload s = (g, t)" by force
  note base = guarded_part_usage [OF g]
  note log = log_outcome_usage [OF assms(2,3)]
  show ?thesis
  proof (cases g)
    case (Inl e)
    then show ?thesis
      using assms(1) Inr g base log [of "''blocked''" caller _ usage_zero t] log [of "''errored''" caller _ usage_zero t]
      by (cases e) (fastforce simp: run_gateway_pipeline_def Let_def)+
  next
    case (Inr r)
    obtain response extra d where r: "r = (response, extra, d)" by (cases r) auto
    obtain response' t' where fin: "finish_response env caller
        (resolve_canonical_model_id (po_model ops payload) (models_by_id (ge_models_config env)))
        (po_stream ops payload) response d t = (response', t')" by force
    have "res = Inr (response', extra, dr_response_protocol d)" "s' = t'"
      using assms(1) \<open>enforce_act_claim _ _ = Inr u\<close> g Inr r fin
      by (auto simp: run_gateway_pipeline_def Let_def)
    then show ?thesis
      using finish_response_usage [OF assms(2,3) fin] base by (auto split: if_splits)
  qed
qed

section \<open>Witnesses\<close>

text \<open>A caller with an API key asks the mock provider; governance allows and redacts.\<close>

definition wit_env :: gw_env where
  "wit_env = \<lparr>ge_settings = \<lparr>st_agent_runtime_client_ids = [], st_rate_limit_requests = 5,
       st_rate_limit_window_seconds = 60, st_mock_mode = True\<rparr>,
     ge_models_config = [], ge_vertex = False, ge_fmt = (\<lambda>_. []), ge_jsonb = (\<lambda>_. Malformed),
     ge_load_body = (\<lambda>_. Malformed), ge_sse = wit_sse, ge_tenants = (\<lambda>_. None), ge_now_ms = 100,
     ge_reset_at = ''later'', ge_day = 1, ge_latency_ms = 3,
     ge_governance = (\<lambda>_ _. GovData (JObj [(''decision'', JStr ''allow''), (''redacted_text'', JStr ''x''),
        (''pii_findings'', JList [JObj [(''type'', JStr ''EMAIL'')]])])),
     ge_adapter = (\<lambda>_. Inr \<lparr>rs_status = 200, rs_headers = [], rs_body = [], rs_stream = None\<rparr>),
     ge_pricing = Some [], ge_usage_insert_ok = True\<rparr>"

definition wit_payload :: chat_payload where
  "wit_payload = \<lparr>cp_request = wit_request\<lparr>cr_model := ''gpt-x'',
     cr_messages := [UserMessage \<lparr>um_content = ContentStr ''hi'', um_name = Unset\<rparr>]\<rparr>\<rparr>"

definition wit_gs :: gw_state where
  "wit_gs = \<lparr>gs_rl = (\<lambda>_. None), gs_tenant_cache = (\<lambda>_. None), gs_usage = [], gs_effects = []\<rparr>"

lemma wit_model: "po_model chat_ops wit_payload = ''gpt-x''" "po_stream chat_ops p = request_stream (cp_request p)"
  by (simp_all add: chat_ops_def wit_payload_def)

text \<open>The same gateway with other replies of governance.\<close>

abbreviation wit_with :: "(inspect_request \<Rightarrow> nat \<Rightarrow> gov_reply) \<Rightarrow> gw_env" where
  "wit_with g \<equiv> wit_env\<lparr>ge_governance := g\<rparr>"

lemma wit_tenant: "fst (get_tenant_info (wit_with g) (cc_tenant_id wit_admin) wit_gs) =
    Inr \<lparr>ti_default_provider = [], ti_allowed_models = [], ti_notification = ''header'', ti_rate_limit = 5\<rparr>"
  by (simp add: get_tenant_info_def wit_env_def wit_admin_def key_caller_def wit_gs_def Let_def)

lemma wit_rate: "rr_allowed (fst (rate_check 5 60 k 100 (\<lambda>_. None)))"
  by (simp add: rate_check_def lua_script_def rl_lookup_def rl_empty_def zremrangebyscore_def zadd_def zrem_def
      zcount_from_def Let_def)

lemma wit_gov: "gov_inspect (ge_governance wit_env r) =
    Inr \<lparr>gr_decision = JStr ''allow'', gr_redacted_text = JStr ''x'',
         gr_pii_findings = JList [JObj [(''type'', JStr ''EMAIL'')]], gr_harm_score = JFloat 0,
         gr_violations = JList [], gr_audit_id = JNull\<rparr>"
  by (simp add: gov_inspect_def GOV_ATTEMPTS_def numeral_3_eq_3 wit_env_def inspect_attempt_def
      read_inspection_def jget_or_def dict_get_or_def)

definition wit_run ::
    "(gateway_error + (http_response \<times> json_object \<times> wire_protocol)) \<times> gw_state" where
  "wit_run = run_gateway_pipeline wit_env chat_ops wit_admin [] wit_payload wit_gs"

lemma wit_resolve: "resolve_provider ''gpt-x'' (lower_headers []) r d [] = Inr (JStr ''openai'', ''prefix_inference'')"
  by (simp add: resolve_provider_def requested_override_def lower_headers_def dict_update_def dict_get_or_def
      py_strip_def PREFIX_MAP_def startswith_Cons)

lemma wit_apply:
  "\<exists>extra. apply_inspection chat_ops ''header'' \<lparr>gr_decision = JStr ''allow'', gr_redacted_text = JStr ''x'',
      gr_pii_findings = JList [JObj [(''type'', JStr ''EMAIL'')]], gr_harm_score = JFloat 0,
      gr_violations = JList [], gr_audit_id = JNull\<rparr> h p = Inr (chat_with_redacted_text p ''x'', extra)"
  by (simp add: apply_inspection_def raised_def py_iter_def pii_headers_def join_strs_def jget_or_def
      dict_get_or_def chat_ops_def)

lemma wit_guarded:
  assumes "gov_inspect (g (inspection_request chat_ops wit_admin ''prefix_inference'' wit_payload)) = Inr resp"
    and "\<And>h. \<exists>extra. apply_inspection chat_ops ''header'' resp h wit_payload = Inr (p, extra)"
  shows "\<exists>extra d s'. guarded_part (wit_with g) chat_ops wit_admin [] wit_payload wit_gs =
     (Inr (\<lparr>rs_status = 200, rs_headers = [], rs_body = [], rs_stream = None\<rparr>, extra, d), s') \<and>
     gs_effects s' = [EffInspect (inspection_request chat_ops wit_admin ''prefix_inference'' wit_payload), EffProvider (dr_call d)]"
proof -
  obtain s0 where s0: "get_tenant_info (wit_with g) (cc_tenant_id wit_admin) wit_gs =
      (Inr \<lparr>ti_default_provider = [], ti_allowed_models = [], ti_notification = ''header'', ti_rate_limit = 5\<rparr>, s0)"
    using wit_tenant by (metis prod.collapse)
  have f: "gs_rl s0 = (\<lambda>_. None)" "gs_effects s0 = []"
    using get_tenant_info_frame(2,3) [of "wit_with g" "cc_tenant_id wit_admin" wit_gs, unfolded s0]
    by (simp_all add: wit_gs_def)
  obtain rl db where rl: "rate_check 5 60 (rate_key (wit_with g) wit_admin) 100 (\<lambda>_. None) = (rl, db)" by force
  then have ok: "rr_allowed rl" using wit_rate [of "rate_key (wit_with g) wit_admin"] by simp
  obtain extra where ap: "apply_inspection chat_ops ''header'' resp
        (str_headers (rate_limit_headers (rr_limit rl) (rr_remaining rl) ''later'')) wit_payload = Inr (p, extra)"
    using assms(2) by blast
  have env: "ge_settings (wit_with g) = \<lparr>st_agent_runtime_client_ids = [], st_rate_limit_requests = 5,
       st_rate_limit_window_seconds = 60, st_mock_mode = True\<rparr>" "ge_models_config (wit_with g) = []"
    "ge_now_ms (wit_with g) = 100" "ge_reset_at (wit_with g) = ''later''" "ge_governance (wit_with g) = g"
    "ge_adapter (wit_with g) = (\<lambda>_. Inr \<lparr>rs_status = 200, rs_headers = [], rs_body = [], rs_stream = None\<rparr>)"
    by (simp_all add: wit_env_def)
  have d: "\<exists>d. dispatch_provider fmt v True chat_ops pr p e lh eh = Inr d" for fmt v pr p e lh eh
    by (simp add: dispatch_provider_def chat_ops_def)
  obtain d where d: "dispatch_provider (ge_fmt (wit_with g)) (ge_vertex (wit_with g)) True chat_ops ''openai''
      p (model_entry_for (models_by_id []) ''gpt-x'') (lower_headers []) extra = Inr d"
    using d by blast
  show ?thesis
    by (simp add: guarded_part_def s0 wit_model env enforce_allowed_model_def wit_resolve raised_def py_str_json_def
        inspect_and_dispatch_def f rl ok assms(1) ap d [simplified] Let_def)
qed

lemma wit_effects:
  assumes "gov_inspect (g (inspection_request chat_ops wit_admin ''prefix_inference'' wit_payload)) = Inr resp"
    and "\<And>h. \<exists>extra. apply_inspection chat_ops ''header'' resp h wit_payload = Inr (p, extra)"
  shows "\<exists>res s' req call. run_gateway_pipeline (wit_with g) chat_ops wit_admin [] wit_payload wit_gs = (res, s') \<and>
     gs_effects s' = gs_effects wit_gs @ [EffInspect req, EffProvider call]"
proof -
  obtain extra d s' where g: "guarded_part (wit_with g) chat_ops wit_admin [] wit_payload wit_gs =
     (Inr (\<lparr>rs_status = 200, rs_headers = [], rs_body = [], rs_stream = None\<rparr>, extra, d), s')"
     "gs_effects s' = [EffInspect (inspection_request chat_ops wit_admin ''prefix_inference'' wit_payload), EffProvider (dr_call d)]"
    using wit_guarded [where g = g, OF assms] by blast
  have act: "enforce_act_claim (ge_settings (wit_with g)) wit_admin = Inr ()"
    by (simp add: enforce_act_claim_def wit_env_def)
  obtain r t where fin: "finish_response (wit_with g) wit_admin
      (resolve_canonical_model_id (po_model chat_ops wit_payload) (models_by_id (ge_models_config (wit_with g))))
      (po_stream chat_ops wit_payload) \<lparr>rs_status = 200, rs_headers = [], rs_body = [], rs_stream = None\<rparr> d s' = (r, t)"
    by force
  have "run_gateway_pipeline (wit_with g) chat_ops wit_admin [] wit_payload wit_gs = (Inr (r, extra, dr_response_protocol d), t)"
    unfolding run_gateway_pipeline_def act g(1) using fin by (simp add: Let_def)
  moreover have "gs_effects t = gs_effects s'" using finish_response_effects [of "wit_with g"] fin by (metis snd_conv)
  ultimately show ?thesis using g(2) by (auto simp: wit_gs_def)
qed

lemma wit_run_effects:
  "\<exists>res s' req call. wit_run = (res, s') \<and> gs_effects s' = gs_effects wit_gs @ [EffInspect req, EffProvider call]"
  using wit_effects [where g = "ge_governance wit_env", OF wit_gov wit_apply] by (simp add: wit_run_def)

theorem gateway_fail_closed_witness:
  "\<exists>req call. gs_effects (snd wit_run) = [EffInspect req, EffProvider call] \<and>
     (\<exists>d. call = dr_call d \<and>
       governed_dispatch wit_env chat_ops wit_admin (lower_headers []) ''openai'' ''prefix_inference'' wit_payload req d)"
proof -
  obtain res s' req call where w: "wit_run = (res, s')"
    "gs_effects s' = gs_effects wit_gs @ [EffInspect req, EffProvider call]" using wit_run_effects by blast
  have m: "EffProvider call \<in> set [EffInspect req, EffProvider call]" by simp
  obtain tenant :: tenant_info and pj meth req' d where g:
    "resolve_provider ''gpt-x'' (lower_headers []) (cc_roles wit_admin) (ti_default_provider tenant) (ge_models_config wit_env) = Inr (pj, meth)"
    "governed_dispatch wit_env chat_ops wit_admin (lower_headers []) (py_str_json (ge_fmt wit_env) pj) meth wit_payload req' d"
    "[EffInspect req, EffProvider call] = [EffInspect req', EffProvider call]" "call = dr_call d"
    using gateway_fail_closed [OF w(1) [unfolded wit_run_def] w(2) m] unfolding wit_model by blast
  have "ge_models_config wit_env = []" by (simp add: wit_env_def)
  then have "pj = JStr ''openai''" "meth = ''prefix_inference''" using g(1) by (simp_all add: wit_resolve)
  then have "governed_dispatch wit_env chat_ops wit_admin (lower_headers []) ''openai'' ''prefix_inference'' wit_payload req d"
    using g(2,3) by (simp add: py_str_json_def)
  moreover have "gs_effects (snd wit_run) = [EffInspect req, EffProvider call]"
    by (simp only: w snd_conv) (simp add: wit_gs_def)
  ultimately show ?thesis using g(4) by blast
qed

theorem chat_provider_gets_redacted_witness:
  "\<exists>req call p. gs_effects (snd wit_run) = [EffInspect req, EffProvider call] \<and>
     pc_body call = to_json (cp_request p) \<and> chat_governance_text p = ''x''"
proof -
  obtain res s' req call where w: "wit_run = (res, s')"
    "gs_effects s' = gs_effects wit_gs @ [EffInspect req, EffProvider call]" using wit_run_effects by blast
  have l: "chat_leaves wit_payload = [''hi'']"
    by (simp add: chat_leaves_def wit_payload_def openai_chat_governed_leaves_def governed_leaves_Suc user_leaves_def)
  have m: "EffProvider call \<in> set [EffInspect req, EffProvider call]" by simp
  obtain req' resp p where g: "gov_inspect (ge_governance wit_env req') = Inr resp" "pc_body call = to_json (cp_request p)"
    "if json_truthy (gr_pii_findings resp) \<and> (\<exists>r. gr_redacted_text resp = JStr r \<and> r \<noteq> [])
     then chat_leaves wit_payload = [] \<or> gr_redacted_text resp = JStr (chat_governance_text p) else p = wit_payload"
    using chat_provider_gets_redacted [OF w(1) [unfolded wit_run_def] w(2) m] by blast
  then have "chat_governance_text p = ''x''" using l by (auto simp: wit_gov)
  moreover have "gs_effects (snd wit_run) = [EffInspect req, EffProvider call]"
    by (simp only: w snd_conv) (simp add: wit_gs_def)
  ultimately show ?thesis using g(2) by blast
qed

theorem usage_row_per_outcome_witness:
  "\<exists>row. gs_usage (snd wit_run) = [row] \<and> ur_status row = ''allowed''"
proof -
  obtain extra d s' where g: "guarded_part wit_env chat_ops wit_admin [] wit_payload wit_gs =
     (Inr (\<lparr>rs_status = 200, rs_headers = [], rs_body = [], rs_stream = None\<rparr>, extra, d), s')"
    using wit_guarded [where g = "ge_governance wit_env", OF wit_gov wit_apply] by auto
  have act: "enforce_act_claim (ge_settings wit_env) wit_admin = Inr ()"
    by (simp add: enforce_act_claim_def wit_env_def)
  have s: "\<not> po_stream chat_ops wit_payload"
    by (simp add: wit_model request_stream_def) (simp add: wit_payload_def wit_request_def)
  obtain res t where r: "run_gateway_pipeline wit_env chat_ops wit_admin [] wit_payload wit_gs = (res, t)" by force
  obtain response e pr where res: "res = Inr (response, e, pr)" "rs_stream response = None"
    using r s by (auto simp: run_gateway_pipeline_def act g Let_def finish_response_def attach_usage_def split: if_splits)
  show ?thesis
    using usage_row_per_outcome [OF r] res by (simp add: wit_run_def r) (simp add: wit_env_def wit_gs_def)
qed

end
