(* ===== verification/UpstreamHttp.thy ===== *)
theory UpstreamHttp imports Gateway GeminiCommon begin

text \<open>
  What the provider adapters share: upstream requests and replies as \<open>httpx\<close> presents them, the sanitizing
  of upstream errors (\<open>proxy/app/providers/errors.py\<close>) and the forwarding of native protocols
  (\<open>providers/native.py\<close>). Sending is a parameter. \<open>json.loads\<close> of bytes gives \<open>None\<close> for a
  \<open>ValueError\<close> (malformed JSON or text); \<open>json.dumps\<close> is ASCII.
\<close>

section \<open>Requests and replies\<close>

record upstream =
  up_status :: nat
  up_headers :: "string dict"
  up_content :: bytes
  up_chunks :: "bytes list"      \<comment> \<open>\<open>aiter_bytes()\<close>\<close>
  up_lines :: "string list"      \<comment> \<open>\<open>aiter_lines()\<close>\<close>
  up_ending :: upstream_end      \<comment> \<open>how either iteration ends\<close>

datatype sent =
    SentTimeout        \<comment> \<open>\<open>httpx.TimeoutException\<close>\<close>
  | SentRequestError   \<comment> \<open>another \<open>httpx.RequestError\<close>\<close>
  | Sent upstream

record upstream_request =
  uq_client :: string             \<comment> \<open>which client sends it: the provider, or the origin of a generic one\<close>
  uq_path :: string
  uq_body :: json_object
  uq_headers :: "string dict"     \<comment> \<open>besides the client's own\<close>
  uq_params :: "string dict"
  uq_stream :: bool

record adapter_env =
  ad_send :: "upstream_request \<Rightarrow> sent"
  ad_dumps :: "json \<Rightarrow> string"
  ad_dense :: "json \<Rightarrow> string"             \<comment> \<open>\<open>json.dumps\<close> with compact separators\<close>
  ad_loads_body :: "bytes \<Rightarrow> json option"
  ad_loads :: "string \<Rightarrow> json option"
  ad_repr :: "json \<Rightarrow> string"
  ad_fmt :: "json \<Rightarrow> string"               \<comment> \<open>\<open>str\<close> of a value that is no string\<close>
  ad_fresh :: "nat \<Rightarrow> nat \<Rightarrow> string"         \<comment> \<open>random digits for a part of a chunk\<close>
  ad_completion_digits :: string
  ad_headers :: "string option \<Rightarrow> string dict \<Rightarrow> string dict"  \<comment> \<open>Starlette: a response's headers, from its media type and those given\<close>

definition ascii :: "string \<Rightarrow> bytes" where
  "ascii s = map of_char s"

definition text_chunk :: "string \<Rightarrow> stream_chunk" where
  "text_chunk s = TextChunk (ascii s)"

definition lower_keys :: "string dict \<Rightarrow> string dict" where
  "lower_keys h = map (\<lambda>(k, v). (py_lower k, v)) h"

definition plain_response :: "adapter_env \<Rightarrow> nat \<Rightarrow> string option \<Rightarrow> string dict \<Rightarrow> bytes \<Rightarrow> http_response" where
  "plain_response env status media headers body =
     \<lparr>rs_status = status, rs_headers = ad_headers env media headers, rs_body = body, rs_stream = None\<rparr>"

definition json_response :: "adapter_env \<Rightarrow> nat \<Rightarrow> json \<Rightarrow> string dict \<Rightarrow> http_response" where
  "json_response env status v headers =
     plain_response env status (Some ''application/json'') headers (ascii (ad_dumps env v))"

definition event_stream :: "adapter_env \<Rightarrow> stream_chunk list \<Rightarrow> string dict \<Rightarrow> http_response" where
  "event_stream env chunks headers =
     \<lparr>rs_status = 200, rs_headers = ad_headers env (Some ''text/event-stream'') headers, rs_body = [],
      rs_stream = Some chunks\<rparr>"

definition error_json :: "string \<Rightarrow> string \<Rightarrow> json" where
  "error_json t m = JObj [(''error'', JObj [(''type'', JStr t), (''message'', JStr m)])]"

section \<open>Upstream errors\<close>

definition STATUS_TO_TYPE :: "(nat \<times> string) list" where
  "STATUS_TO_TYPE = [(400, ''invalid_request_error''), (401, ''authentication_error''), (403, ''permission_error''),
     (429, ''rate_limit_error''), (500, ''api_error''), (502, ''api_error''), (503, ''api_error''), (504, ''api_error'')]"

definition OPAQUE_STATUSES :: "nat list" where
  "OPAQUE_STATUSES = [401, 403, 500, 502, 503, 504]"

definition GENERIC_MESSAGE :: string where
  "GENERIC_MESSAGE = ''An error occurred while communicating with the upstream provider.''"

definition MAX_MESSAGE_LEN :: nat where
  "MAX_MESSAGE_LEN = 300"

definition error_type_for_status :: "nat \<Rightarrow> string" where
  "error_type_for_status status = (case map_of STATUS_TO_TYPE status of None \<Rightarrow> ''api_error'' | Some t \<Rightarrow> t)"

definition nonempty_text :: "json \<Rightarrow> string option" where
  "nonempty_text v = (case v of JStr s \<Rightarrow> if s = [] then None else Some s | _ \<Rightarrow> None)"

text \<open>\<open>d.get(k1) or d.get(k2) or \<dots>\<close>: the first true value, else the last one.\<close>

fun first_truthy :: "json_object \<Rightarrow> string list \<Rightarrow> json" where
  "first_truthy d [] = JNull"
| "first_truthy d [k] = jget d k"
| "first_truthy d (k # ks) = (if json_truthy (jget d k) then jget d k else first_truthy d ks)"

fun first_text :: "json_object \<Rightarrow> string list \<Rightarrow> string option" where
  "first_text d [] = None"
| "first_text d (k # ks) = (case nonempty_text (jget d k) of Some s \<Rightarrow> Some s | None \<Rightarrow> first_text d ks)"

definition flat_message :: "json_object \<Rightarrow> string" where
  "flat_message d =
     (case first_text d [''message'', ''detail'', ''msg'', ''description'', ''error''] of
        Some s \<Rightarrow> take MAX_MESSAGE_LEN s
      | None \<Rightarrow> GENERIC_MESSAGE)"

definition extract_message :: "adapter_env \<Rightarrow> bytes \<Rightarrow> string" where
  "extract_message env raw_body =
     (case ad_loads_body env raw_body of
        Some (JObj d) \<Rightarrow>
          (case jget d ''error'' of
             JObj e \<Rightarrow>
               (case nonempty_text (first_truthy e [''message'', ''msg'', ''description'']) of
                  Some s \<Rightarrow> take MAX_MESSAGE_LEN s
                | None \<Rightarrow> flat_message d)
           | _ \<Rightarrow> flat_message d)
      | _ \<Rightarrow> GENERIC_MESSAGE)"

text \<open>The classification of an error only goes to the log.\<close>

definition sanitize_upstream_error :: "adapter_env \<Rightarrow> upstream \<Rightarrow> string dict \<Rightarrow> http_response" where
  "sanitize_upstream_error env up extra =
     (let status = up_status up;
          message = (if status \<in> set OPAQUE_STATUSES then GENERIC_MESSAGE else extract_message env (up_content up))
      in json_response env status (JObj [(''error'', JObj [(''message'', JStr message),
           (''type'', JStr (error_type_for_status status)), (''code'', JStr (py_str_int (int status)))])]) extra)"

section \<open>Native forwarding\<close>

definition SAFE_UPSTREAM_RESPONSE_HEADERS :: "string list" where
  "SAFE_UPSTREAM_RESPONSE_HEADERS = [''anthropic-organization-id'', ''openai-organization'', ''openai-processing-ms'',
     ''openai-project'', ''request-id'', ''retry-after'', ''x-request-id'']"

definition safe_header :: "string \<Rightarrow> bool" where
  "safe_header k \<longleftrightarrow>
     py_lower k \<in> set SAFE_UPSTREAM_RESPONSE_HEADERS \<or> py_startswith (py_lower k) ''ratelimit-'' \<or>
     py_startswith (py_lower k) ''x-ratelimit-''"

definition forwarded_headers :: "upstream \<Rightarrow> string dict \<Rightarrow> string dict" where
  "forwarded_headers up extra = dict_update (filter (\<lambda>(k, v). safe_header k) (up_headers up)) extra"

text \<open>\<open>httpx\<close> looks a header up without regard to case.\<close>

definition upstream_header :: "upstream \<Rightarrow> string \<Rightarrow> string option" where
  "upstream_header up k = map_of (lower_keys (up_headers up)) k"

definition post_failure :: "adapter_env \<Rightarrow> sent \<Rightarrow> string dict \<Rightarrow> http_response + upstream" where
  "post_failure env r headers =
     (case r of
        SentTimeout \<Rightarrow> Inl (plain_response env 504 None headers (ascii ''upstream timeout''))
      | SentRequestError \<Rightarrow> Inl (plain_response env 502 None headers (ascii ''upstream connection error''))
      | Sent up \<Rightarrow> Inr up)"

definition open_checked_stream ::
  "adapter_env \<Rightarrow> string \<Rightarrow> string \<Rightarrow> json_object \<Rightarrow> string dict \<Rightarrow> string dict \<Rightarrow> string dict \<Rightarrow> http_response + upstream" where
  "open_checked_stream env client path body extra headers params =
     ebind (post_failure env (ad_send env \<lparr>uq_client = client, uq_path = path, uq_body = body, uq_headers = headers,
         uq_params = params, uq_stream = True\<rparr>) extra) (\<lambda>up.
       if up_status up \<noteq> 200 then Inl (sanitize_upstream_error env up extra)
       else if \<not> sublist ''text/event-stream''
           (py_lower (case upstream_header up ''content-type'' of None \<Rightarrow> [] | Some v \<Rightarrow> v))
       then Inl (plain_response env 502 (Some ''application/json'') extra
         (ascii ''{\"error\":{\"type\":\"invalid_upstream_stream\",\"message\":\"Upstream returned a non-SSE response\"}}''))
       else Inr up)"

text \<open>The chunks passed on, and the event that reports a failure while they are read.\<close>

definition upstream_error_event :: "string \<Rightarrow> upstream_end \<Rightarrow> string list" where
  "upstream_error_event head ending =
     (case ending of
        UpstreamEof \<Rightarrow> []
      | UpstreamTimeout \<Rightarrow> [head @ ''{\"error\": {\"type\": \"upstream_timeout\"}}'' @ [CHR 10, CHR 10]]
      | UpstreamRequestError \<Rightarrow> [head @ ''{\"error\": {\"type\": \"upstream_connection_error\"}}'' @ [CHR 10, CHR 10]])"

definition native_error_event :: "upstream_end \<Rightarrow> string list" where
  "native_error_event ending =
     (case ending of
        UpstreamEof \<Rightarrow> []
      | UpstreamTimeout \<Rightarrow> [''event: error'' @ [CHR 10] @ ''data: {\"error\":{\"type\":\"upstream_timeout\"}}'' @ [CHR 10, CHR 10]]
      | UpstreamRequestError \<Rightarrow>
          [''event: error'' @ [CHR 10] @ ''data: {\"error\":{\"type\":\"upstream_connection_error\"}}'' @ [CHR 10, CHR 10]])"

definition passed_on :: "upstream \<Rightarrow> string list \<Rightarrow> stream_chunk list" where
  "passed_on up errors = map BytesChunk (up_chunks up) @ map (\<lambda>e. BytesChunk (ascii e)) errors"

text \<open>
  The reply to a request that is not streamed. The two failures of sending leave the gateway's own headers out.
\<close>

definition post_checked ::
  "adapter_env \<Rightarrow> string \<Rightarrow> string \<Rightarrow> json_object \<Rightarrow> string dict \<Rightarrow> string dict \<Rightarrow> http_response + upstream" where
  "post_checked env client path body extra headers =
     ebind (post_failure env (ad_send env \<lparr>uq_client = client, uq_path = path, uq_body = body, uq_headers = headers,
         uq_params = [], uq_stream = False\<rparr>) []) (\<lambda>up.
       if up_status up \<noteq> 200 then Inl (sanitize_upstream_error env up extra) else Inr up)"

definition response_of :: "http_response + http_response \<Rightarrow> http_response" where
  "response_of r = (case r of Inl x \<Rightarrow> x | Inr x \<Rightarrow> x)"

definition forward_native ::
  "adapter_env \<Rightarrow> string \<Rightarrow> string \<Rightarrow> json_object \<Rightarrow> bool \<Rightarrow> string dict \<Rightarrow> string dict \<Rightarrow> http_response" where
  "forward_native env client path body stream extra headers =
     response_of
       (if stream then
          ebind (open_checked_stream env client path body extra headers []) (\<lambda>up.
            Inr (event_stream env (passed_on up (native_error_event (up_ending up))) (forwarded_headers up extra)))
        else
          ebind (post_checked env client path body extra headers) (\<lambda>up.
            Inr (plain_response env (up_status up) (upstream_header up ''content-type'') (forwarded_headers up extra)
              (up_content up))))"

end
