(* ===== verification/AnthropicTypes.thy ===== *)
theory AnthropicTypes imports ChatTypes begin

text \<open>
  The Anthropic Messages request of \<open>proxy/app/anthropic_compat.py\<close>: content blocks, messages,
  tools and options, their validators, the dump \<open>native_body\<close> sends to Anthropic, and
  \<open>AnthropicGatewayPayload\<close> with its governed leaves. The dump leaves out \<open>None\<close>, so an optional
  field is an \<open>option\<close>; a constant \<open>type\<close> tag is always dumped and not stored.
\<close>

section \<open>Content blocks\<close>

record cache_control =
  cac_ttl :: "string option"

record a_text_block =
  atx_text :: string
  atx_cache :: "cache_control option"

datatype image_source = SourceBase64 string string | SourceUrl string

record a_image_block =
  aim_source :: image_source
  aim_cache :: "cache_control option"

record a_tool_use_block =
  atu_id :: string
  atu_name :: string
  atu_input :: json_object
  atu_cache :: "cache_control option"

datatype result_block = ResultText a_text_block | ResultImage a_image_block

record a_tool_result_block =
  atr_tool_use_id :: string
  atr_content :: "result_block content option"
  atr_is_error :: "bool option"
  atr_cache :: "cache_control option"

record a_thinking_block =
  ath_thinking :: string
  ath_signature :: string

datatype a_block =
    TextBlock a_text_block
  | ImageBlock a_image_block
  | ToolUseBlock a_tool_use_block
  | ToolResultBlock a_tool_result_block
  | ThinkingBlock a_thinking_block
  | RedactedThinkingBlock string

type_synonym a_content = "a_block content"

record a_message =
  ams_role :: string
  ams_content :: a_content

section \<open>Options\<close>

datatype a_thinking =
    ThinkingEnabled int "string option"  \<comment> \<open>budget, display\<close>
  | ThinkingDisabled
  | ThinkingAdaptive "string option"

record a_metadata =
  amd_user_id :: "string option"

datatype context_trigger = InputTokensThreshold int | ToolUsesThreshold int

datatype clear_inputs = ClearInputsFlag bool | ClearInputsOf "string list"

record clear_tool_uses_edit =
  cue_clear_at_least :: "int option"  \<comment> \<open>the value of the \<open>input_tokens\<close> threshold\<close>
  cue_clear_tool_inputs :: "clear_inputs option"
  cue_exclude_tools :: "string list option"
  cue_keep :: "int option"  \<comment> \<open>the value of the \<open>tool_uses\<close> threshold\<close>
  cue_trigger :: "context_trigger option"

datatype thinking_keep = KeepTurns int | KeepAllObject | KeepAll

record compact_edit =
  coe_instructions :: "string option"
  coe_pause :: "bool option"
  coe_trigger :: "int option"

datatype context_edit =
    ClearToolUses clear_tool_uses_edit
  | ClearThinking "thinking_keep option"
  | Compact compact_edit

record output_config =
  ocf_effort :: "string option"
  ocf_format :: "json_object option"  \<comment> \<open>the schema of the \<open>json_schema\<close> format\<close>

record a_tool_choice =
  atc_type :: string
  atc_name :: "string option"
  atc_disable_parallel_tool_use :: "bool option"

record a_tool_definition =
  atd_name :: string
  atd_description :: "string option"
  atd_input_schema :: json_object

definition require_tool_name :: "a_tool_choice \<Rightarrow> py_error + a_tool_choice" where
  "require_tool_name c =
     (if atc_type c = ''tool'' \<and> \<not> truthy_str (atc_name c)
      then Inl (ValueError ''tool_choice type 'tool' requires name'')
      else if atc_type c \<noteq> ''tool'' \<and> atc_name c \<noteq> None
      then Inl (ValueError ''tool_choice name is only valid for its type'')
      else Inr c)"

section \<open>The requests\<close>

record a_request =
  arq_model :: string
  arq_messages :: "a_message list"
  arq_system :: "a_content option"
  arq_max_tokens :: int
  arq_cache_control :: "cache_control option"
  arq_container :: "string option"
  arq_context_management :: "context_edit list option"
  arq_inference_geo :: "string option"
  arq_temperature :: "rat option"
  arq_stream :: bool
  arq_top_p :: "rat option"
  arq_top_k :: "int option"
  arq_stop_sequences :: "string list option"
  arq_tools :: "a_tool_definition list option"
  arq_tool_choice :: "a_tool_choice option"
  arq_metadata :: "a_metadata option"
  arq_thinking :: "a_thinking option"
  arq_output_config :: "output_config option"
  arq_service_tier :: "string option"
  arq_user_profile_id :: "string option"

definition a_field_bounds :: "a_request \<Rightarrow> bool" where
  "a_field_bounds r \<longleftrightarrow>
     1 \<le> arq_max_tokens r \<and>
     (case arq_temperature r of None \<Rightarrow> True | Some x \<Rightarrow> 0 \<le> x \<and> x \<le> 1) \<and>
     (case arq_top_p r of None \<Rightarrow> True | Some x \<Rightarrow> 0 \<le> x \<and> x \<le> 1) \<and>
     (case arq_top_k r of None \<Rightarrow> True | Some x \<Rightarrow> 0 \<le> x) \<and>
     (case arq_thinking r of Some (ThinkingEnabled b d) \<Rightarrow> 1024 \<le> b | _ \<Rightarrow> True)"

definition is_thinking_enabled :: "a_thinking option \<Rightarrow> bool" where
  "is_thinking_enabled t = (case t of Some (ThinkingEnabled b d) \<Rightarrow> True | _ \<Rightarrow> False)"

definition a_validate_conditional_fields :: "a_request \<Rightarrow> py_error + a_request" where
  "a_validate_conditional_fields r =
     (case arq_tool_choice r of
        None \<Rightarrow> Inr r
      | Some c \<Rightarrow>
          if is_thinking_enabled (arq_thinking r) \<and> atc_type c \<in> {''any'', ''tool''}
          then Inl (ValueError ''manual thinking only supports tool_choice types 'auto' and 'none' '')
          else if atc_type c \<in> {''any'', ''tool''} \<and> (arq_tools r = None \<or> arq_tools r = Some [])
          then Inl (ValueError ''tool_choice type requires tools'')
          else if atc_type c = ''tool'' \<and>
            atc_name c \<notin> Some ` atd_name ` set (case arq_tools r of None \<Rightarrow> [] | Some ts \<Rightarrow> ts)
          then Inl (ValueError ''tool_choice name must reference a supplied tool'')
          else Inr r)"

record count_tokens_request =
  ctr_model :: string
  ctr_messages :: "a_message list"
  ctr_cache_control :: "cache_control option"
  ctr_context_management :: "context_edit list option"
  ctr_output_config :: "output_config option"
  ctr_system :: "a_content option"
  ctr_thinking :: "a_thinking option"
  ctr_tool_choice :: "a_tool_choice option"
  ctr_tools :: "a_tool_definition list option"
  ctr_user_profile_id :: "string option"

section \<open>Dumping without \<open>None\<close>\<close>

definition opt_entry :: "string \<Rightarrow> ('a \<Rightarrow> json) \<Rightarrow> 'a option \<Rightarrow> json_object" where
  "opt_entry k enc v = (case v of None \<Rightarrow> [] | Some x \<Rightarrow> [(k, enc x)])"

definition dump_cache :: "cache_control \<Rightarrow> json" where
  "dump_cache c = tagged ''ephemeral'' (opt_entry ''ttl'' JStr (cac_ttl c))"

definition dump_a_text :: "a_text_block \<Rightarrow> json" where
  "dump_a_text b = tagged ''text'' ((''text'', JStr (atx_text b)) # opt_entry ''cache_control'' dump_cache (atx_cache b))"

fun dump_source :: "image_source \<Rightarrow> json" where
  "dump_source (SourceBase64 m d) = tagged ''base64'' [(''media_type'', JStr m), (''data'', JStr d)]"
| "dump_source (SourceUrl u) = tagged ''url'' [(''url'', JStr u)]"

definition dump_a_image :: "a_image_block \<Rightarrow> json" where
  "dump_a_image b =
     tagged ''image'' ((''source'', dump_source (aim_source b)) # opt_entry ''cache_control'' dump_cache (aim_cache b))"

fun dump_result_block :: "result_block \<Rightarrow> json" where
  "dump_result_block (ResultText b) = dump_a_text b"
| "dump_result_block (ResultImage b) = dump_a_image b"

fun dump_a_block :: "a_block \<Rightarrow> json" where
  "dump_a_block (TextBlock b) = dump_a_text b"
| "dump_a_block (ImageBlock b) = dump_a_image b"
| "dump_a_block (ToolUseBlock b) =
     tagged ''tool_use'' ([(''id'', JStr (atu_id b)), (''name'', JStr (atu_name b)), (''input'', JObj (atu_input b))] @
       opt_entry ''cache_control'' dump_cache (atu_cache b))"
| "dump_a_block (ToolResultBlock b) =
     tagged ''tool_result'' ((''tool_use_id'', JStr (atr_tool_use_id b)) #
       opt_entry ''content'' (dump_content dump_result_block) (atr_content b) @
       opt_entry ''is_error'' JBool (atr_is_error b) @
       opt_entry ''cache_control'' dump_cache (atr_cache b))"
| "dump_a_block (ThinkingBlock b) =
     tagged ''thinking'' [(''thinking'', JStr (ath_thinking b)), (''signature'', JStr (ath_signature b))]"
| "dump_a_block (RedactedThinkingBlock d) = tagged ''redacted_thinking'' [(''data'', JStr d)]"

definition dump_a_message :: "a_message \<Rightarrow> json" where
  "dump_a_message m =
     JObj [(''role'', JStr (ams_role m)), (''content'', dump_content dump_a_block (ams_content m))]"

fun dump_thinking :: "a_thinking \<Rightarrow> json" where
  "dump_thinking (ThinkingEnabled b d) =
     tagged ''enabled'' ((''budget_tokens'', JInt b) # opt_entry ''display'' JStr d)"
| "dump_thinking ThinkingDisabled = tagged ''disabled'' []"
| "dump_thinking (ThinkingAdaptive d) = tagged ''adaptive'' (opt_entry ''display'' JStr d)"

definition dump_input_tokens :: "int \<Rightarrow> json" where
  "dump_input_tokens v = tagged ''input_tokens'' [(''value'', JInt v)]"

definition dump_tool_uses :: "int \<Rightarrow> json" where
  "dump_tool_uses v = tagged ''tool_uses'' [(''value'', JInt v)]"

fun dump_trigger :: "context_trigger \<Rightarrow> json" where
  "dump_trigger (InputTokensThreshold v) = dump_input_tokens v"
| "dump_trigger (ToolUsesThreshold v) = dump_tool_uses v"

fun dump_edit :: "context_edit \<Rightarrow> json" where
  "dump_edit (ClearToolUses e) =
     tagged ''clear_tool_uses_20250919'' (
       opt_entry ''clear_at_least'' dump_input_tokens (cue_clear_at_least e) @
       opt_entry ''clear_tool_inputs'' (\<lambda>c. case c of ClearInputsFlag b \<Rightarrow> JBool b | ClearInputsOf ts \<Rightarrow> jstrs ts)
         (cue_clear_tool_inputs e) @
       opt_entry ''exclude_tools'' jstrs (cue_exclude_tools e) @
       opt_entry ''keep'' dump_tool_uses (cue_keep e) @
       opt_entry ''trigger'' dump_trigger (cue_trigger e))"
| "dump_edit (ClearThinking k) =
     tagged ''clear_thinking_20251015'' (
       opt_entry ''keep'' (\<lambda>k. case k of
           KeepTurns v \<Rightarrow> tagged ''thinking_turns'' [(''value'', JInt v)]
         | KeepAllObject \<Rightarrow> tagged ''all'' []
         | KeepAll \<Rightarrow> JStr ''all'') k)"
| "dump_edit (Compact e) =
     tagged ''compact_20260112'' (
       opt_entry ''instructions'' JStr (coe_instructions e) @
       opt_entry ''pause_after_compaction'' JBool (coe_pause e) @
       opt_entry ''trigger'' dump_input_tokens (coe_trigger e))"

definition dump_a_tool :: "a_tool_definition \<Rightarrow> json" where
  "dump_a_tool t =
     JObj ((''name'', JStr (atd_name t)) # opt_entry ''description'' JStr (atd_description t) @
       [(''input_schema'', JObj (atd_input_schema t))])"

definition dump_a_tool_choice :: "a_tool_choice \<Rightarrow> json" where
  "dump_a_tool_choice c =
     tagged (atc_type c) (opt_entry ''name'' JStr (atc_name c) @
       opt_entry ''disable_parallel_tool_use'' JBool (atc_disable_parallel_tool_use c))"

definition dump_output_config :: "output_config \<Rightarrow> json" where
  "dump_output_config c =
     JObj (opt_entry ''effort'' JStr (ocf_effort c) @
       opt_entry ''format'' (\<lambda>s. tagged ''json_schema'' [(''schema'', JObj s)]) (ocf_format c))"

definition dump_a_request :: "a_request \<Rightarrow> json_object" where
  "dump_a_request r =
     [(''model'', JStr (arq_model r)), (''messages'', JList (map dump_a_message (arq_messages r)))] @
     opt_entry ''system'' (dump_content dump_a_block) (arq_system r) @
     [(''max_tokens'', JInt (arq_max_tokens r))] @
     opt_entry ''cache_control'' dump_cache (arq_cache_control r) @
     opt_entry ''container'' JStr (arq_container r) @
     opt_entry ''context_management'' (\<lambda>es. JObj [(''edits'', JList (map dump_edit es))]) (arq_context_management r) @
     opt_entry ''inference_geo'' JStr (arq_inference_geo r) @
     opt_entry ''temperature'' JFloat (arq_temperature r) @
     [(''stream'', JBool (arq_stream r))] @
     opt_entry ''top_p'' JFloat (arq_top_p r) @
     opt_entry ''top_k'' JInt (arq_top_k r) @
     opt_entry ''stop_sequences'' jstrs (arq_stop_sequences r) @
     opt_entry ''tools'' (\<lambda>ts. JList (map dump_a_tool ts)) (arq_tools r) @
     opt_entry ''tool_choice'' dump_a_tool_choice (arq_tool_choice r) @
     opt_entry ''metadata'' (\<lambda>m. JObj (opt_entry ''user_id'' JStr (amd_user_id m))) (arq_metadata r) @
     opt_entry ''thinking'' dump_thinking (arq_thinking r) @
     opt_entry ''output_config'' dump_output_config (arq_output_config r) @
     opt_entry ''service_tier'' JStr (arq_service_tier r) @
     opt_entry ''user_profile_id'' JStr (arq_user_profile_id r)"

section \<open>The payload\<close>

fun result_texts :: "result_block list \<Rightarrow> string list" where
  "result_texts [] = []"
| "result_texts (ResultText b # bs) = atx_text b # result_texts bs"
| "result_texts (ResultImage b # bs) = result_texts bs"

definition tool_result_content_str :: "result_block content option \<Rightarrow> string" where
  "tool_result_content_str c =
     (case c of
        None \<Rightarrow> []
      | Some (ContentStr s) \<Rightarrow> s
      | Some (ContentParts bs) \<Rightarrow> concat (result_texts bs))"

text \<open>\<open>zip(text_blocks, replacements, strict=True)\<close> with the assignment to each block's text.\<close>

fun write_result_texts :: "result_block list \<Rightarrow> string list \<Rightarrow> result_block list" where
  "write_result_texts (ResultText b # bs) (r # rs) = ResultText (b\<lparr>atx_text := r\<rparr>) # write_result_texts bs rs"
| "write_result_texts (ResultImage b # bs) rs = ResultImage b # write_result_texts bs rs"
| "write_result_texts bs rs = bs"

definition redact_tool_result_content :: "a_tool_result_block \<Rightarrow> string \<Rightarrow> a_tool_result_block" where
  "redact_tool_result_content block redacted_text =
     (case atr_content block of
        Some (ContentStr s) \<Rightarrow> block\<lparr>atr_content := Some (ContentStr redacted_text)\<rparr>
      | None \<Rightarrow> (if redacted_text \<noteq> [] then block\<lparr>atr_content := Some (ContentStr redacted_text)\<rparr> else block)
      | Some (ContentParts bs) \<Rightarrow>
          (if result_texts bs = [] then
             (if redacted_text \<noteq> []
              then block\<lparr>atr_content := Some (ContentParts
                     (bs @ [ResultText \<lparr>atx_text = redacted_text, atx_cache = None\<rparr>]))\<rparr>
              else block)
           else block\<lparr>atr_content := Some (ContentParts
                  (write_result_texts bs (redistribute_redacted_text (result_texts bs) redacted_text)))\<rparr>))"

fun block_leaf :: "a_block \<Rightarrow> string option" where
  "block_leaf (TextBlock b) = Some (atx_text b)"
| "block_leaf (ToolResultBlock b) = Some (tool_result_content_str (atr_content b))"
| "block_leaf _ = None"

definition anthropic_governed_leaves :: "a_message \<Rightarrow> string list" where
  "anthropic_governed_leaves m =
     (case ams_content m of
        ContentStr s \<Rightarrow> [s]
      | ContentParts bs \<Rightarrow> List.map_filter block_leaf bs)"

fun replace_block_leaf :: "a_block \<Rightarrow> string \<Rightarrow> a_block" where
  "replace_block_leaf (TextBlock b) r = TextBlock (b\<lparr>atx_text := r\<rparr>)"
| "replace_block_leaf (ToolResultBlock b) r = ToolResultBlock (redact_tool_result_content b r)"
| "replace_block_leaf b r = b"

fun replace_block_leaves :: "a_block list \<Rightarrow> string list \<Rightarrow> a_block list" where
  "replace_block_leaves [] rs = []"
| "replace_block_leaves (b # bs) rs =
     (if block_leaf b = None then b # replace_block_leaves bs rs
      else (case rs of
              [] \<Rightarrow> b # bs
            | r # rs' \<Rightarrow> replace_block_leaf b r # replace_block_leaves bs rs'))"

definition replace_governed_leaves :: "a_message \<Rightarrow> string list \<Rightarrow> a_message" where
  "replace_governed_leaves m rs =
     m\<lparr>ams_content := (case ams_content m of
          ContentStr s \<Rightarrow> ContentStr (hd rs)
        | ContentParts bs \<Rightarrow> ContentParts (replace_block_leaves bs rs))\<rparr>"

record a_payload =
  ap_request :: a_request

text \<open>The two loops over \<open>reversed(messages)\<close>.\<close>

fun last_user_text :: "a_message list \<Rightarrow> string" where
  "last_user_text [] = []"
| "last_user_text (m # ms) =
     (if ams_role m = ''user'' then concat (anthropic_governed_leaves m) else last_user_text ms)"

definition a_governance_text :: "a_payload \<Rightarrow> string" where
  "a_governance_text p = last_user_text (rev (arq_messages (ap_request p)))"

fun redact_last_user :: "string \<Rightarrow> a_message list \<Rightarrow> a_message list" where
  "redact_last_user redacted [] = []"
| "redact_last_user redacted (m # ms) =
     (if ams_role m \<noteq> ''user'' then m # redact_last_user redacted ms
      else replace_governed_leaves m
             (redistribute_redacted_text (anthropic_governed_leaves m) redacted) # ms)"

definition a_with_redacted_text :: "a_payload \<Rightarrow> string \<Rightarrow> a_payload" where
  "a_with_redacted_text p redacted =
     \<lparr>ap_request = (ap_request p)\<lparr>arq_messages :=
        rev (redact_last_user redacted (rev (arq_messages (ap_request p))))\<rparr>\<rparr>"

definition a_native_providers :: "string list" where
  "a_native_providers = [''anthropic'']"

definition a_native_body :: "a_payload \<Rightarrow> json_object" where
  "a_native_body p = dump_a_request (ap_request p)"

section \<open>Leaves and frame\<close>

fun last_user_leaves :: "a_message list \<Rightarrow> string list" where
  "last_user_leaves [] = []"
| "last_user_leaves (m # ms) =
     (if ams_role m = ''user'' then anthropic_governed_leaves m else last_user_leaves ms)"

definition a_leaves :: "a_payload \<Rightarrow> string list" where
  "a_leaves p = last_user_leaves (rev (arq_messages (ap_request p)))"

text \<open>
  What a redaction must not touch: every block but its governed text. Of a tool result only the
  text may change, and a text may appear where there was none, so its frame is its other fields
  and its images.
\<close>

fun result_images :: "result_block list \<Rightarrow> a_image_block list" where
  "result_images [] = []"
| "result_images (ResultImage b # bs) = b # result_images bs"
| "result_images (ResultText b # bs) = result_images bs"

definition content_images :: "result_block content option \<Rightarrow> a_image_block list" where
  "content_images c = (case c of Some (ContentParts bs) \<Rightarrow> result_images bs | _ \<Rightarrow> [])"

fun frame_block :: "a_block \<Rightarrow> a_block" where
  "frame_block (TextBlock b) = TextBlock (b\<lparr>atx_text := []\<rparr>)"
| "frame_block (ToolResultBlock b) =
     ToolResultBlock (b\<lparr>atr_content := Some (ContentParts (map ResultImage (content_images (atr_content b))))\<rparr>)"
| "frame_block b = b"

definition frame_message :: "a_message \<Rightarrow> a_message" where
  "frame_message m =
     m\<lparr>ams_content := (case ams_content m of ContentStr s \<Rightarrow> ContentStr []
        | ContentParts bs \<Rightarrow> ContentParts (map frame_block bs))\<rparr>"

fun frame_last_user :: "a_message list \<Rightarrow> a_message list" where
  "frame_last_user [] = []"
| "frame_last_user (m # ms) = (if ams_role m = ''user'' then frame_message m # ms else m # frame_last_user ms)"

definition a_frame :: "a_payload \<Rightarrow> a_request" where
  "a_frame p = (ap_request p)\<lparr>arq_messages := rev (frame_last_user (rev (arq_messages (ap_request p))))\<rparr>"

lemma result_texts_write:
  "length rs = length (result_texts bs) \<Longrightarrow> result_texts (write_result_texts bs rs) = rs"
  by (induction bs rs rule: write_result_texts.induct) auto

lemma result_images_write: "result_images (write_result_texts bs rs) = result_images bs"
  by (induction bs rs rule: write_result_texts.induct) auto

lemma result_append [simp]:
  "result_texts (xs @ ys) = result_texts xs @ result_texts ys"
  "result_images (xs @ ys) = result_images xs @ result_images ys"
  by (induction xs rule: result_texts.induct) auto

lemma redact_tool_result_text:
  "tool_result_content_str (atr_content (redact_tool_result_content b r)) = r"
  by (auto simp: redact_tool_result_content_def tool_result_content_str_def result_texts_write
      redistribute_length redistribute_concat split: option.splits content.splits)

lemma redact_tool_result_frame:
  "frame_block (ToolResultBlock (redact_tool_result_content b r)) = frame_block (ToolResultBlock b)"
  by (auto simp: redact_tool_result_content_def content_images_def result_images_write
      split: option.splits content.splits)

lemma replace_block_leaf_facts:
  "block_leaf (replace_block_leaf b r) = (if block_leaf b = None then None else Some r)"
  "frame_block (replace_block_leaf b r) = frame_block b"
  by (cases b; simp add: redact_tool_result_text redact_tool_result_frame del: frame_block.simps(2))+

lemma replace_block_leaves_facts:
  "length rs = length (List.map_filter block_leaf bs) \<Longrightarrow>
   List.map_filter block_leaf (replace_block_leaves bs rs) = rs \<and>
   map frame_block (replace_block_leaves bs rs) = map frame_block bs"
proof (induction bs rs rule: replace_block_leaves.induct)
  case (2 b bs rs)
  show ?case
  proof (cases "block_leaf b")
    case None
    then show ?thesis using 2 by (simp add: map_filter_simps)
  next
    case (Some t)
    then show ?thesis using 2
      by (cases rs) (auto simp: map_filter_simps replace_block_leaf_facts)
  qed
qed (simp add: map_filter_simps)

lemma replace_governed_leaves_facts:
  assumes "length rs = length (anthropic_governed_leaves m)"
  shows "anthropic_governed_leaves (replace_governed_leaves m rs) = rs"
    "frame_message (replace_governed_leaves m rs) = frame_message m"
    "ams_role (replace_governed_leaves m rs) = ams_role m"
  using assms
  by (cases "ams_content m"; cases rs;
      auto simp: anthropic_governed_leaves_def replace_governed_leaves_def frame_message_def
        replace_block_leaves_facts)+

lemma redact_last_user_facts:
  "last_user_leaves (redact_last_user r ms) = redistribute_redacted_text (last_user_leaves ms) r \<and>
   frame_last_user (redact_last_user r ms) = frame_last_user ms"
proof (induction ms)
  case Nil
  then show ?case using redistribute_length [of "[]" r] by simp
next
  case (Cons m ms)
  then show ?case
    using replace_governed_leaves_facts [of "redistribute_redacted_text (anthropic_governed_leaves m) r" m]
    by (simp add: redistribute_length)
qed

lemma last_user_text_leaves: "last_user_text ms = concat (last_user_leaves ms)"
  by (induction ms) auto

interpretation anthropic: gateway_payload a_leaves a_governance_text a_with_redacted_text a_frame
  by unfold_locales
    (simp_all add: a_leaves_def a_governance_text_def a_with_redacted_text_def a_frame_def
      last_user_text_leaves redact_last_user_facts)

section \<open>Properties\<close>


end
