(* ===== verification/ChatStream.thy ===== *)
theory ChatStream imports Utf8 Json begin

text \<open>
  OpenAI Chat Completions streams and responses as the gateway reads them
  (\<open>proxy/app/openai_chat_stream.py\<close> and the response models of \<open>protocol_types.py\<close>). A generator is
  the list of what it yields. Validating a JSON object as a model is \<open>pydantic\<close>'s and a parameter, as are
  \<open>json.loads\<close> (\<open>None\<close> for a \<open>JSONDecodeError\<close>) and the incremental UTF-8 decoder, whose state is the bytes
  of an unfinished sequence.
\<close>

section \<open>The chunk model\<close>

record token_top_logprob =
  ttl_token :: string
  ttl_bytes :: "int list option"
  ttl_logprob :: rat

record token_logprob =
  tl_token :: string
  tl_bytes :: "int list option"
  tl_logprob :: rat
  tl_top_logprobs :: "token_top_logprob list"

record choice_logprobs =
  cl_content :: "token_logprob list option"
  cl_refusal :: "token_logprob list option"

record function_delta =
  fnd_arguments :: "string option"
  fnd_name :: "string option"

record chunk_tool_call =
  ctc_index :: nat
  ctc_id :: "string option"
  ctc_function :: "function_delta option"
  ctc_type :: "string option"

record chunk_delta =
  cd_content :: "string option"
  cd_function_call :: "function_delta option"
  cd_refusal :: "string option"
  cd_role :: "string option"
  cd_tool_calls :: "chunk_tool_call list option"

record chunk_choice =
  chc_delta :: chunk_delta
  chc_finish_reason :: "string option"
  chc_index :: nat
  chc_logprobs :: "choice_logprobs option"

record usage_completion_details =
  ucd_accepted_prediction_tokens :: "nat option"
  ucd_audio_tokens :: "nat option"
  ucd_reasoning_tokens :: "nat option"
  ucd_rejected_prediction_tokens :: "nat option"

record usage_prompt_details =
  upd_audio_tokens :: "nat option"
  upd_cache_write_tokens :: "nat option"
  upd_cached_tokens :: "nat option"

record chunk_usage =
  cu_completion_tokens :: nat
  cu_prompt_tokens :: nat
  cu_total_tokens :: nat
  cu_completion_details :: "usage_completion_details option"
  cu_prompt_details :: "usage_prompt_details option"

record moderation_result =
  mr_categories :: "bool dict"
  mr_applied_input_types :: "string list dict"
  mr_scores :: "rat dict"
  mr_flagged :: bool
  mr_model :: string

datatype moderation_outcome =
    ModerationResults string "moderation_result list"  \<comment> \<open>model, results\<close>
  | ModerationError string string                      \<comment> \<open>code, message\<close>

record chunk_moderation =
  cm_input :: moderation_outcome
  cm_output :: moderation_outcome

record chat_chunk =
  cck_id :: string
  cck_choices :: "chunk_choice list"
  cck_created :: int
  cck_model :: string
  cck_moderation :: "chunk_moderation option"
  cck_service_tier :: "string option"
  cck_system_fingerprint :: "string option"
  cck_usage :: "chunk_usage option"

definition FINISH_REASONS :: "string list" where
  "FINISH_REASONS = [''stop'', ''length'', ''tool_calls'', ''content_filter'', ''function_call'']"

text \<open>The literal of \<open>finish_reason\<close> in a validated chunk.\<close>

definition chunk_ok :: "chat_chunk \<Rightarrow> bool" where
  "chunk_ok c \<longleftrightarrow>
     list_all (\<lambda>ch. case chc_finish_reason ch of None \<Rightarrow> True | Some r \<Rightarrow> r \<in> set FINISH_REASONS) (cck_choices c)"

section \<open>The response model\<close>

text \<open>These models allow further fields, which nothing reads.\<close>

datatype message_content = TextContent string | PartsContent "json_object list"

record response_message =
  rm_role :: string
  rm_content :: "message_content option"
  rm_tool_calls :: "json_object list option"

record response_choice =
  rc_index :: int
  rc_message :: response_message
  rc_finish_reason :: "string option"

record response_usage =
  ru_prompt_tokens :: int
  ru_completion_tokens :: int
  ru_total_tokens :: int

record chat_response =
  crs_id :: string
  crs_model :: string
  crs_choices :: "response_choice list"
  crs_usage :: response_usage

section \<open>Decoding a stream\<close>

datatype raw_chunk = RawStr string | RawBytes bytes

record stream_lib =
  sl_feed :: "bytes \<Rightarrow> bytes \<Rightarrow> (string \<times> bytes) option"  \<comment> \<open>pending bytes and input; \<open>None\<close>: invalid\<close>
  sl_final :: "bytes \<Rightarrow> string option"
  sl_loads :: "string \<Rightarrow> json option"
  sl_validate :: "json_object \<Rightarrow> chat_chunk option"

definition stream_error :: "string \<Rightarrow> json_object" where
  "stream_error message =
     [(''error'', JObj [(''type'', JStr ''invalid_upstream_stream''), (''message'', JStr message)])]"

definition rstrip_cr :: "string \<Rightarrow> string" where
  "rstrip_cr s = rev (dropWhile (\<lambda>c. c = CHR 13) (rev s))"

text \<open>The payload of one line, if it has one.\<close>

definition data_payload :: "string \<Rightarrow> string option" where
  "data_payload line =
     (if \<not> py_startswith line ''data:'' then None
      else let data_str = py_strip (drop 5 line) in
        if data_str = [] \<or> data_str = ''[DONE]'' then None else Some data_str)"

fun split_newline :: "string \<Rightarrow> (string \<times> string) option" where
  "split_newline [] = None"
| "split_newline (c # cs) =
     (if c = CHR 10 then Some ([], cs)
      else map_option (\<lambda>(l, r). (c # l, r)) (split_newline cs))"

lemma split_newline_length: "split_newline s = Some (l, r) \<Longrightarrow> length r < length s"
  by (induction s arbitrary: l) (auto split: if_splits)

text \<open>What one line yields, and whether the generator goes on after it.\<close>

definition line_events :: "stream_lib \<Rightarrow> string \<Rightarrow> string \<Rightarrow> json_object list \<times> bool" where
  "line_events lib malformed line =
     (case data_payload line of
        None \<Rightarrow> ([], True)
      | Some data_str \<Rightarrow>
          (case sl_loads lib data_str of
             None \<Rightarrow> ([stream_error malformed], False)
           | Some (JObj payload) \<Rightarrow> ([payload], True)
           | Some _ \<Rightarrow> ([stream_error ''Provider stream event was not a JSON object''], False)))"

text \<open>The \<open>while\<close> loop over the buffer; the rest is \<open>None\<close> when the generator has returned.\<close>

function drain_lines :: "stream_lib \<Rightarrow> string \<Rightarrow> json_object list \<times> string option" where
  "drain_lines lib buffer =
     (case split_newline buffer of
        None \<Rightarrow> ([], Some buffer)
      | Some (line, rest) \<Rightarrow>
          (case line_events lib ''Provider stream contained malformed JSON'' (rstrip_cr line) of
             (evs, False) \<Rightarrow> (evs, None)
           | (evs, True) \<Rightarrow> (let (evs', r) = drain_lines lib rest in (evs @ evs', r))))"
  by pat_completeness auto
termination
  by (relation "measure (\<lambda>(l, b). length b)") (auto dest: split_newline_length)

declare drain_lines.simps [simp del]

fun iter_sse_json :: "stream_lib \<Rightarrow> raw_chunk list \<Rightarrow> string \<Rightarrow> bytes \<Rightarrow> json_object list" where
  "iter_sse_json lib [] buffer pending =
     (case sl_final lib pending of
        None \<Rightarrow> [stream_error ''Provider stream ended with incomplete UTF-8'']
      | Some t \<Rightarrow> fst (line_events lib ''Provider stream ended with malformed JSON'' (rstrip_cr (buffer @ t))))"
| "iter_sse_json lib (RawBytes raw # rest) buffer pending =
     (case sl_feed lib pending raw of
        None \<Rightarrow> [stream_error ''Provider stream contained invalid UTF-8'']
      | Some (t, pending') \<Rightarrow>
          (case drain_lines lib (buffer @ t) of
             (evs, None) \<Rightarrow> evs
           | (evs, Some buffer') \<Rightarrow> evs @ iter_sse_json lib rest buffer' pending'))"
| "iter_sse_json lib (RawStr raw # rest) buffer pending =
     (if pending \<noteq> [] then [stream_error ''Provider stream changed chunk type during UTF-8 sequence'']
      else (case drain_lines lib (buffer @ raw) of
             (evs, None) \<Rightarrow> evs
           | (evs, Some buffer') \<Rightarrow> evs @ iter_sse_json lib rest buffer' pending))"

datatype chat_event = ChatError json_object | ChatChunk chat_chunk

fun chat_events :: "(json_object \<Rightarrow> chat_chunk option) \<Rightarrow> json_object list \<Rightarrow> chat_event list" where
  "chat_events validate [] = []"
| "chat_events validate (event # es) =
     (if ''error'' \<in> fst ` set event \<and> ''choices'' \<notin> fst ` set event then [ChatError event]
      else (case validate event of
              None \<Rightarrow> [ChatError (stream_error ''Provider stream chunk did not match the Chat protocol'')]
            | Some c \<Rightarrow> ChatChunk c # chat_events validate es))"

definition iter_openai_chat_events :: "stream_lib \<Rightarrow> raw_chunk list \<Rightarrow> chat_event list" where
  "iter_openai_chat_events lib body = chat_events (sl_validate lib) (iter_sse_json lib body [] [])"

section \<open>Lemmas\<close>

fun is_chat_error :: "chat_event \<Rightarrow> bool" where
  "is_chat_error (ChatError e) = True"
| "is_chat_error (ChatChunk c) = False"

lemma chat_events_error_last: "es = chat_events validate js \<Longrightarrow> list_all (\<lambda>e. \<not> is_chat_error e) (butlast es)"
  by (induction js arbitrary: es) (auto split: option.splits)

text \<open>A text with no newline left in it is one line; lines before it are read one by one.\<close>

lemma split_newline_append: "CHR 10 \<notin> set l \<Longrightarrow> split_newline (l @ CHR 10 # r) = Some (l, r)"
  by (induction l) auto

lemma split_newline_none: "CHR 10 \<notin> set l \<Longrightarrow> split_newline l = None"
  by (induction l) auto

lemma drain_lines_line:
  assumes "CHR 10 \<notin> set l"
  shows "drain_lines lib (l @ CHR 10 # r) =
    (case line_events lib ''Provider stream contained malformed JSON'' (rstrip_cr l) of
       (evs, False) \<Rightarrow> (evs, None)
     | (evs, True) \<Rightarrow> (let (evs', x) = drain_lines lib r in (evs @ evs', x)))"
  using split_newline_append [OF assms, of r] by (subst drain_lines.simps) simp

lemma drain_lines_end: "CHR 10 \<notin> set l \<Longrightarrow> drain_lines lib l = ([], Some l)"
  by (subst drain_lines.simps) (simp add: split_newline_none)

end
