(* ===== verification/AnthropicCompat.thy ===== *)
theory AnthropicCompat imports AnthropicTypes ChatStream GatewayHttp begin

text \<open>
  The translations of \<open>proxy/app/anthropic_compat.py\<close>: a Messages request to a Chat body, a Chat
  response to a Messages response, a Chat stream to Messages events, and the token estimate.
  \<open>json.dumps\<close> and \<open>json.loads\<close> are parameters; a translation fails with the message of its
  \<open>AnthropicCompatError\<close>.
\<close>

section \<open>Requests\<close>

fun block_type :: "a_block \<Rightarrow> string" where
  "block_type (TextBlock b) = ''text''"
| "block_type (ImageBlock b) = ''image''"
| "block_type (ToolUseBlock b) = ''tool_use''"
| "block_type (ToolResultBlock b) = ''tool_result''"
| "block_type (ThinkingBlock b) = ''thinking''"
| "block_type (RedactedThinkingBlock d) = ''redacted_thinking''"

definition unsupported_block :: "a_block \<Rightarrow> string + 'a" where
  "unsupported_block b = Inl (''Unsupported content block type: '' @ block_type b)"

definition content_str :: "(json \<Rightarrow> string) \<Rightarrow> a_content \<Rightarrow> string + string" where
  "content_str dumps content =
     (case content of
        ContentStr s \<Rightarrow> Inr s
      | ContentParts bs \<Rightarrow>
          ebind (emap (\<lambda>b. case b of
               TextBlock t \<Rightarrow> Inr (atx_text t)
             | ToolUseBlock t \<Rightarrow> Inr (dumps (JObj (atu_input t)))
             | ToolResultBlock t \<Rightarrow> Inr (tool_result_content_str (atr_content t))
             | _ \<Rightarrow> unsupported_block b) bs) (\<lambda>fragments. Inr (concat fragments)))"

definition has_image :: "result_block content option \<Rightarrow> bool" where
  "has_image c = (content_images c \<noteq> [])"

definition tool_result_to_message :: "a_tool_result_block \<Rightarrow> nat \<Rightarrow> string + json_object" where
  "tool_result_to_message block index =
     (if atr_is_error block = Some True
      then Inl (''tool_result block at index '' @ py_str_int (int index) @ '' has is_error=true, which Chat cannot preserve'')
      else if has_image (atr_content block)
      then Inl (''tool_result block at index '' @ py_str_int (int index) @
             '' contains image content, which Chat cannot represent in a tool message'')
      else Inr [(''role'', JStr ''tool''), (''tool_call_id'', JStr (atr_tool_use_id block)),
                (''content'', JStr (tool_result_content_str (atr_content block)))])"

definition text_message :: "string \<Rightarrow> string \<Rightarrow> json_object" where
  "text_message role t = [(''role'', JStr role), (''content'', JStr t)]"

definition flush_text :: "string list \<Rightarrow> json_object list" where
  "flush_text buf = (if buf = [] then [] else [text_message ''user'' (concat buf)])"

fun expand_blocks :: "nat \<Rightarrow> string list \<Rightarrow> a_block list \<Rightarrow> string + json_object list" where
  "expand_blocks index buf [] = Inr (flush_text buf)"
| "expand_blocks index buf (b # bs) =
     (case b of
        TextBlock t \<Rightarrow> expand_blocks index (buf @ [atx_text t]) bs
      | ToolResultBlock t \<Rightarrow>
          ebind (tool_result_to_message t index) (\<lambda>m.
          ebind (expand_blocks index [] bs) (\<lambda>ms. Inr (flush_text buf @ m # ms)))
      | _ \<Rightarrow> unsupported_block b)"

definition expand_user_content_blocks :: "a_block list \<Rightarrow> nat \<Rightarrow> string + json_object list" where
  "expand_user_content_blocks content index =
     ebind (expand_blocks index [] content) (\<lambda>ms.
       Inr (if ms = [] then [text_message ''user'' []] else ms))"

fun assistant_texts :: "a_block list \<Rightarrow> string list" where
  "assistant_texts [] = []"
| "assistant_texts (TextBlock t # bs) = atx_text t # assistant_texts bs"
| "assistant_texts (b # bs) = assistant_texts bs"

fun assistant_tool_uses :: "a_block list \<Rightarrow> a_tool_use_block list" where
  "assistant_tool_uses [] = []"
| "assistant_tool_uses (ToolUseBlock t # bs) = t # assistant_tool_uses bs"
| "assistant_tool_uses (b # bs) = assistant_tool_uses bs"

definition tool_use_to_call :: "(json \<Rightarrow> string) \<Rightarrow> a_tool_use_block \<Rightarrow> json" where
  "tool_use_to_call dumps t =
     JObj [(''id'', JStr (atu_id t)), (''type'', JStr ''function''),
           (''function'', JObj [(''name'', JStr (atu_name t)), (''arguments'', JStr (dumps (JObj (atu_input t))))])]"

fun is_assistant_block :: "a_block \<Rightarrow> bool" where
  "is_assistant_block (TextBlock t) = True"
| "is_assistant_block (ToolUseBlock t) = True"
| "is_assistant_block _ = False"

definition assistant_content_to_message :: "(json \<Rightarrow> string) \<Rightarrow> a_block list \<Rightarrow> string + json_object" where
  "assistant_content_to_message dumps content =
     (case find (\<lambda>b. \<not> is_assistant_block b) content of
        Some b \<Rightarrow> unsupported_block b
      | None \<Rightarrow>
          (let calls = map (tool_use_to_call dumps) (assistant_tool_uses content) in
           Inr (text_message ''assistant'' (concat (assistant_texts content)) @
                (if calls = [] then [] else [(''tool_calls'', JList calls)]))))"

definition tools_to_openai :: "a_tool_definition list \<Rightarrow> json" where
  "tools_to_openai tools =
     JList (map (\<lambda>t. JObj [(''type'', JStr ''function''),
       (''function'', JObj [
         (''name'', JStr (atd_name t)),
         (''description'', JStr (case atd_description t of None \<Rightarrow> [] | Some d \<Rightarrow> d)),
         (''parameters'',
            if atd_input_schema t \<noteq> [] then JObj (atd_input_schema t)
            else JObj [(''type'', JStr ''object''), (''properties'', JObj [])])])]) tools)"

definition tool_choice_to_openai :: "a_tool_choice \<Rightarrow> string + json" where
  "tool_choice_to_openai c =
     (if atc_type c = ''auto'' then Inr (JStr ''auto'')
      else if atc_type c = ''any'' then Inr (JStr ''required'')
      else if atc_type c = ''none'' then Inr (JStr ''none'')
      else if atc_type c = ''tool'' then
        (if \<not> truthy_str (atc_name c) then Inl ''tool_choice of type 'tool' must include a name''
         else Inr (JObj [(''type'', JStr ''function''), (''function'', JObj [(''name'', JStr (the (atc_name c)))])]))
      else Inl (''Unsupported tool_choice type: '' @ atc_type c))"

definition message_to_chat :: "(json \<Rightarrow> string) \<Rightarrow> nat \<Rightarrow> a_message \<Rightarrow> string + json_object list" where
  "message_to_chat dumps index msg =
     (let role = py_lower (ams_role msg) in
      if role \<notin> {''user'', ''assistant'', ''system''}
      then Inl (''Unsupported message role at index '' @ py_str_int (int index) @ '': '' @ ams_role msg)
      else if role = ''system''
      then ebind (content_str dumps (ams_content msg)) (\<lambda>t. Inr [text_message ''system'' t])
      else (case ams_content msg of
              ContentStr s \<Rightarrow> Inr [text_message role s]
            | ContentParts bs \<Rightarrow>
                (if role = ''assistant''
                 then ebind (assistant_content_to_message dumps bs) (\<lambda>m. Inr [m])
                 else expand_user_content_blocks bs index)))"

fun messages_to_chat :: "(json \<Rightarrow> string) \<Rightarrow> nat \<Rightarrow> a_message list \<Rightarrow> string + json_object list" where
  "messages_to_chat dumps i [] = Inr []"
| "messages_to_chat dumps i (m # ms) =
     ebind (message_to_chat dumps i m) (\<lambda>xs. ebind (messages_to_chat dumps (Suc i) ms) (\<lambda>ys. Inr (xs @ ys)))"

definition content_truthy :: "a_content option \<Rightarrow> bool" where
  "content_truthy c = (case c of None \<Rightarrow> False | Some (ContentStr s) \<Rightarrow> s \<noteq> [] | Some (ContentParts bs) \<Rightarrow> bs \<noteq> [])"

definition system_messages :: "(json \<Rightarrow> string) \<Rightarrow> a_content option \<Rightarrow> string + json_object list" where
  "system_messages dumps system =
     (if content_truthy system
      then ebind (content_str dumps (the system)) (\<lambda>t. Inr [text_message ''system'' t]) else Inr [])"

definition native_only_given :: "a_request \<Rightarrow> string list" where
  "native_only_given r =
     map fst (filter snd
       [(''cache_control'', arq_cache_control r \<noteq> None), (''container'', arq_container r \<noteq> None),
        (''context_management'', arq_context_management r \<noteq> None), (''inference_geo'', arq_inference_geo r \<noteq> None),
        (''metadata'', arq_metadata r \<noteq> None), (''output_config'', arq_output_config r \<noteq> None),
        (''service_tier'', arq_service_tier r \<noteq> None), (''thinking'', arq_thinking r \<noteq> None),
        (''user_profile_id'', arq_user_profile_id r \<noteq> None)])"

definition truthy_entry :: "string \<Rightarrow> ('a list \<Rightarrow> json) \<Rightarrow> 'a list option \<Rightarrow> json_object" where
  "truthy_entry k enc v = (case v of None \<Rightarrow> [] | Some xs \<Rightarrow> (if xs = [] then [] else [(k, enc xs)]))"

definition tool_choice_entries :: "a_tool_choice option \<Rightarrow> string + json_object" where
  "tool_choice_entries tc =
     (case tc of
        None \<Rightarrow> Inr []
      | Some c \<Rightarrow> ebind (tool_choice_to_openai c) (\<lambda>v.
          Inr ((''tool_choice'', v) #
            (if atc_disable_parallel_tool_use c = Some True then [(''parallel_tool_calls'', JBool False)] else []))))"

definition messages_to_chat_body :: "(json \<Rightarrow> string) \<Rightarrow> a_request \<Rightarrow> string + json_object" where
  "messages_to_chat_body dumps r =
     ebind (system_messages dumps (arq_system r)) (\<lambda>sys.
     ebind (messages_to_chat dumps 0 (arq_messages r)) (\<lambda>msgs.
     ebind (tool_choice_entries (arq_tool_choice r)) (\<lambda>choice.
       if native_only_given r \<noteq> []
       then Inl (''Anthropic fields cannot be translated to Chat without loss: '' @
              py_join '', '' (native_only_given r))
       else Inr (
         [(''model'', JStr (arq_model r)), (''messages'', JList (map JObj (sys @ msgs))),
          (''max_tokens'', JInt (arq_max_tokens r)), (''stream'', JBool (arq_stream r))] @
         opt_entry ''temperature'' JFloat (arq_temperature r) @
         opt_entry ''top_p'' JFloat (arq_top_p r) @
         opt_entry ''top_k'' JInt (arq_top_k r) @
         truthy_entry ''stop'' jstrs (arq_stop_sequences r) @
         truthy_entry ''tools'' tools_to_openai (arq_tools r) @
         choice))))"

definition a_to_chat_body :: "(json \<Rightarrow> string) \<Rightarrow> a_payload \<Rightarrow> string + json_object" where
  "a_to_chat_body dumps p = messages_to_chat_body dumps (ap_request p)"

section \<open>Responses\<close>

definition FINISH_TO_STOP :: "(string \<times> string) list" where
  "FINISH_TO_STOP = [(''stop'', ''end_turn''), (''length'', ''max_tokens''), (''tool_calls'', ''tool_use'')]"

definition stop_reason_of :: "string \<Rightarrow> string" where
  "stop_reason_of finish = (case map_of FINISH_TO_STOP finish of None \<Rightarrow> ''end_turn'' | Some s \<Rightarrow> s)"

definition json_or :: "json \<Rightarrow> json \<Rightarrow> json" where
  "json_or v w = (if json_truthy v then v else w)"

definition call_arguments :: "(string \<Rightarrow> json option) \<Rightarrow> json \<Rightarrow> json" where
  "call_arguments loads raw =
     (case raw of
        JStr s \<Rightarrow> (case loads s of None \<Rightarrow> JObj [(''arguments'', raw)] | Some v \<Rightarrow> v)
      | _ \<Rightarrow> raw)"

fun tool_calls_to_blocks :: "(string \<Rightarrow> json option) \<Rightarrow> json_object list \<Rightarrow> json list" where
  "tool_calls_to_blocks loads [] = []"
| "tool_calls_to_blocks loads (call # calls) =
     (case jget call ''function'' of
        JObj function_object \<Rightarrow>
          (let arguments = call_arguments loads (json_or (jget function_object ''arguments'') (JStr ''{}''))
           in JObj [(''type'', JStr ''tool_use''),
                (''id'', json_or (jget call ''id'') (JStr ''toolu_compat'')),
                (''name'', json_or (jget function_object ''name'') (JStr ''unknown_tool'')),
                (''input'', if is_obj arguments then arguments else JObj [(''value'', arguments)])]
              # tool_calls_to_blocks loads calls)
      | _ \<Rightarrow> tool_calls_to_blocks loads calls)"

definition text_block_json :: "json \<Rightarrow> json" where
  "text_block_json t = JObj [(''type'', JStr ''text''), (''text'', t)]"

definition response_text_blocks :: "message_content option \<Rightarrow> string + json list" where
  "response_text_blocks c =
     (case c of
        None \<Rightarrow> Inr []
      | Some (TextContent s) \<Rightarrow> Inr (if s = [] then [] else [text_block_json (JStr s)])
      | Some (PartsContent bs) \<Rightarrow>
          emap (\<lambda>b. if jget b ''type'' \<noteq> JStr ''text'' \<or> as_str (jget b ''text'') = None
                    then Inl ''Only assistant text content can be translated to Anthropic Messages''
                    else Inr (text_block_json (jget b ''text''))) bs)"

definition chat_response_to_anthropic ::
  "(json_object \<Rightarrow> chat_response option) \<Rightarrow> (string \<Rightarrow> json option) \<Rightarrow> json_object \<Rightarrow> string \<Rightarrow> string + json_object" where
  "chat_response_to_anthropic validate loads chat_json model =
     (case validate chat_json of
        None \<Rightarrow> Inl ''Chat response does not match the supported envelope''
      | Some r \<Rightarrow>
          (case crs_choices r of
             [] \<Rightarrow> Inl ''Chat response must include at least one choice''
           | choice # _ \<Rightarrow>
               ebind (response_text_blocks (rm_content (rc_message choice))) (\<lambda>texts.
                 let finish = (case rc_finish_reason choice of None \<Rightarrow> ''stop'' | Some f \<Rightarrow> (if f = [] then ''stop'' else f));
                     calls = (case rm_tool_calls (rc_message choice) of None \<Rightarrow> [] | Some cs \<Rightarrow> tool_calls_to_blocks loads cs);
                     content = texts @ calls
                 in Inr [(''id'', JStr (crs_id r)), (''type'', JStr ''message''), (''role'', JStr ''assistant''),
                      (''content'', JList (if content = [] then [text_block_json (JStr [])] else content)),
                      (''model'', JStr (if crs_model r = [] then model else crs_model r)),
                      (''stop_reason'', JStr (stop_reason_of finish)), (''stop_sequence'', JNull),
                      (''usage'', JObj [(''input_tokens'', JInt (ru_prompt_tokens (crs_usage r))),
                                        (''output_tokens'', JInt (ru_completion_tokens (crs_usage r)))])])))"

section \<open>Streams\<close>

datatype a_event =
    MessageStart string string       \<comment> \<open>id, model\<close>
  | TextBlockStart
  | ToolBlockStart nat string string \<comment> \<open>block index, id, name\<close>
  | TextDelta string
  | JsonDelta nat string
  | BlockStop nat
  | MessageDelta string nat          \<comment> \<open>stop reason, output tokens\<close>
  | MessageStop
  | ErrorEvent json json             \<comment> \<open>type, message\<close>

definition jnat :: "nat \<Rightarrow> json" where
  "jnat n = JInt (int n)"

fun event_json :: "a_event \<Rightarrow> string \<times> json" where
  "event_json (MessageStart i m) = (''message_start'',
     tagged ''message_start'' [(''message'', JObj [(''id'', JStr i), (''type'', JStr ''message''),
       (''role'', JStr ''assistant''), (''content'', JList []), (''model'', JStr m), (''stop_reason'', JNull),
       (''stop_sequence'', JNull), (''usage'', JObj [(''input_tokens'', JInt 0), (''output_tokens'', JInt 0)])])])"
| "event_json TextBlockStart = (''content_block_start'',
     tagged ''content_block_start'' [(''index'', JInt 0), (''content_block'', tagged ''text'' [(''text'', JStr [])])])"
| "event_json (ToolBlockStart i c n) = (''content_block_start'',
     tagged ''content_block_start'' [(''index'', jnat i), (''content_block'',
       tagged ''tool_use'' [(''id'', JStr c), (''name'', JStr n), (''input'', JObj [])])])"
| "event_json (TextDelta t) = (''content_block_delta'',
     tagged ''content_block_delta'' [(''index'', JInt 0), (''delta'', tagged ''text_delta'' [(''text'', JStr t)])])"
| "event_json (JsonDelta i t) = (''content_block_delta'',
     tagged ''content_block_delta'' [(''index'', jnat i), (''delta'', tagged ''input_json_delta'' [(''partial_json'', JStr t)])])"
| "event_json (BlockStop i) = (''content_block_stop'', tagged ''content_block_stop'' [(''index'', jnat i)])"
| "event_json (MessageDelta r n) = (''message_delta'',
     tagged ''message_delta'' [(''delta'', JObj [(''stop_reason'', JStr r), (''stop_sequence'', JNull)]),
       (''usage'', JObj [(''output_tokens'', jnat n)])])"
| "event_json MessageStop = (''message_stop'', tagged ''message_stop'' [])"
| "event_json (ErrorEvent t m) = (''error'', tagged ''error'' [(''error'', JObj [(''type'', t), (''message'', m)])])"

definition event_text :: "(json \<Rightarrow> string) \<Rightarrow> a_event \<Rightarrow> string" where
  "event_text dumps e =
     (let (name, payload) = event_json e in
      ''event: '' @ name @ [CHR 10] @ ''data: '' @ dumps payload @ [CHR 10, CHR 10])"

record a_stream_state =
  ass_started :: bool
  ass_open :: "nat list"
  ass_tools :: "(nat \<times> nat) list"  \<comment> \<open>block index by OpenAI tool index\<close>
  ass_next :: nat
  ass_tokens :: nat
  ass_finish :: "string option"

definition a_stream_init :: a_stream_state where
  "a_stream_init = \<lparr>ass_started = False, ass_open = [], ass_tools = [], ass_next = 1, ass_tokens = 0, ass_finish = None\<rparr>"

definition upstream_error :: "string \<Rightarrow> string \<Rightarrow> a_event" where
  "upstream_error t m = ErrorEvent (JStr t) (JStr m)"

definition error_of_event :: "(json \<Rightarrow> string) \<Rightarrow> json_object \<Rightarrow> a_event" where
  "error_of_event fmt event =
     (let raw_error = jget event ''error'';
          info = (case raw_error of JObj d \<Rightarrow> d | _ \<Rightarrow> [(''message'', JStr (py_str_json fmt raw_error))])
      in ErrorEvent (jget_or info ''type'' (JStr ''api_error'')) (jget_or info ''message'' (JStr ''Upstream provider error'')))"

definition start_message :: "chat_chunk \<Rightarrow> string \<Rightarrow> a_stream_state \<Rightarrow> a_event list \<times> a_stream_state" where
  "start_message c model s =
     (if ass_started s then ([], s)
      else ([MessageStart (cck_id c) model, TextBlockStart],
            s\<lparr>ass_open := ass_open s @ [0], ass_started := True\<rparr>))"

definition arguments_delta :: "function_delta option \<Rightarrow> nat \<Rightarrow> a_event list" where
  "arguments_delta f i =
     (case f of None \<Rightarrow> []
      | Some fd \<Rightarrow> (if truthy_str (fnd_arguments fd) then [JsonDelta i (the (fnd_arguments fd))] else []))"

text \<open>The loop over the tool-call deltas of a chunk; \<open>None\<close>: the generator has returned.\<close>

fun tool_deltas :: "chunk_tool_call list \<Rightarrow> a_stream_state \<Rightarrow> a_event list \<times> a_stream_state option" where
  "tool_deltas [] s = ([], Some s)"
| "tool_deltas (tc # tcs) s =
     (case map_of (ass_tools s) (ctc_index tc) of
        Some i \<Rightarrow>
          (let (evs, r) = tool_deltas tcs s in (arguments_delta (ctc_function tc) i @ evs, r))
      | None \<Rightarrow>
          (case (ctc_id tc, ctc_function tc) of
             (Some c, Some f) \<Rightarrow>
               (if c = [] \<or> \<not> truthy_str (fnd_name f)
                then ([upstream_error ''invalid_upstream_stream'' ''Initial tool-call chunk is missing id or function name''], None)
                else
                  let i = ass_next s;
                      s' = s\<lparr>ass_next := i + 1, ass_tools := (ctc_index tc, i) # ass_tools s,
                             ass_open := ass_open s @ [i]\<rparr>;
                      (evs, r) = tool_deltas tcs s'
                  in (ToolBlockStart i c (the (fnd_name f)) # arguments_delta (Some f) i @ evs, r))
           | _ \<Rightarrow> ([upstream_error ''invalid_upstream_stream'' ''Initial tool-call chunk is missing id or function name''], None)))"

definition choice_events :: "chunk_choice \<Rightarrow> a_stream_state \<Rightarrow> a_event list \<times> a_stream_state option" where
  "choice_events choice s =
     (let delta = chc_delta choice;
          s1 = (case chc_finish_reason choice of None \<Rightarrow> s | Some f \<Rightarrow> s\<lparr>ass_finish := Some f\<rparr>);
          text = (if truthy_str (cd_content delta) then [TextDelta (the (cd_content delta))] else []);
          (evs, r) = tool_deltas (case cd_tool_calls delta of None \<Rightarrow> [] | Some ts \<Rightarrow> ts) s1
      in (text @ evs, r))"

definition chunk_events :: "chat_chunk \<Rightarrow> a_stream_state \<Rightarrow> a_event list \<times> a_stream_state option" where
  "chunk_events c s =
     (let s1 = (case cck_usage c of None \<Rightarrow> s | Some u \<Rightarrow> s\<lparr>ass_tokens := cu_completion_tokens u\<rparr>) in
      case cck_choices c of
        [] \<Rightarrow> ([], Some s1)
      | choice # _ \<Rightarrow>
          (if ass_finish s1 \<noteq> None
           then ([upstream_error ''invalid_upstream_stream'' ''Provider emitted content after a terminal finish reason''], None)
           else choice_events choice s1))"

definition finish_stream :: "a_stream_state \<Rightarrow> a_event list" where
  "finish_stream s =
     (case ass_finish s of
        Some f \<Rightarrow> map BlockStop (ass_open s) @ [MessageDelta (stop_reason_of f) (ass_tokens s), MessageStop]
      | None \<Rightarrow> [upstream_error ''incomplete_upstream_stream'' ''Provider stream ended without a terminal finish reason''])"

fun a_stream :: "(json \<Rightarrow> string) \<Rightarrow> string \<Rightarrow> chat_event list \<Rightarrow> a_stream_state \<Rightarrow> a_event list" where
  "a_stream fmt model [] s = finish_stream s"
| "a_stream fmt model (ChatError e # es) s = [error_of_event fmt e]"
| "a_stream fmt model (ChatChunk c # es) s =
     (let (start, s1) = start_message c model s;
          (evs, r) = chunk_events c s1
      in start @ evs @ (case r of None \<Rightarrow> [] | Some s2 \<Rightarrow> a_stream fmt model es s2))"

definition openai_sse_to_anthropic_sse ::
  "(json \<Rightarrow> string) \<Rightarrow> (json \<Rightarrow> string) \<Rightarrow> stream_lib \<Rightarrow> raw_chunk list \<Rightarrow> string \<Rightarrow> string list" where
  "openai_sse_to_anthropic_sse dumps fmt lib body model =
     map (event_text dumps) (a_stream fmt model (iter_openai_chat_events lib body) a_stream_init)"

section \<open>Token estimate\<close>

definition content_length :: "(json \<Rightarrow> string) \<Rightarrow> a_content \<Rightarrow> string + nat" where
  "content_length dumps c = ebind (content_str dumps c) (\<lambda>t. Inr (length t))"

definition count_tokens_approximate :: "(json \<Rightarrow> string) \<Rightarrow> a_message list \<Rightarrow> a_content option \<Rightarrow> string + nat" where
  "count_tokens_approximate dumps messages system =
     ebind (if content_truthy system then content_length dumps (the system) else Inr 0) (\<lambda>n.
     ebind (emap (\<lambda>m. content_length dumps (ams_content m)) messages) (\<lambda>ns.
       Inr (max 1 ((n + sum_list ns + 3) div 4 + length messages * 5))))"

section \<open>Well-formed event sequences\<close>

text \<open>
  The protocol a Messages client expects, written without reference to the translator: a message
  start and an open text block, then deltas on open blocks and starts of new blocks, and at the end
  either one error or a stop for every open block, the message delta and the message stop.
\<close>

fun closing :: "nat list \<Rightarrow> a_event list \<Rightarrow> bool" where
  "closing (i # is) (BlockStop j # es) \<longleftrightarrow> i = j \<and> closing is es"
| "closing [] [MessageDelta r n, MessageStop] \<longleftrightarrow> True"
| "closing _ _ \<longleftrightarrow> False"

fun stream_open :: "nat list \<Rightarrow> a_event list \<Rightarrow> bool" where
  "stream_open opened (TextDelta t # es) \<longleftrightarrow> 0 \<in> set opened \<and> t \<noteq> [] \<and> stream_open opened es"
| "stream_open opened (JsonDelta i t # es) \<longleftrightarrow>
     i \<in> set opened \<and> i \<noteq> 0 \<and> t \<noteq> [] \<and> stream_open opened es"
| "stream_open opened (ToolBlockStart i c n # es) \<longleftrightarrow>
     i \<notin> set opened \<and> c \<noteq> [] \<and> n \<noteq> [] \<and> stream_open (opened @ [i]) es"
| "stream_open opened (ErrorEvent t m # es) \<longleftrightarrow> es = []"
| "stream_open opened (BlockStop i # es) \<longleftrightarrow> closing opened (BlockStop i # es)"
| "stream_open opened _ \<longleftrightarrow> False"

fun stream_ok :: "a_event list \<Rightarrow> bool" where
  "stream_ok (ErrorEvent t m # es) \<longleftrightarrow> es = []"
| "stream_ok (MessageStart i m # TextBlockStart # es) \<longleftrightarrow> stream_open [0] es"
| "stream_ok _ \<longleftrightarrow> False"

definition a_state_ok :: "a_stream_state \<Rightarrow> bool" where
  "a_state_ok s \<longleftrightarrow>
     ass_started s \<and> 0 \<in> set (ass_open s) \<and> (\<forall>i\<in>set (ass_open s). i < ass_next s) \<and>
     (\<forall>k i. map_of (ass_tools s) k = Some i \<longrightarrow> i \<in> set (ass_open s) \<and> i \<noteq> 0)"

lemma closing_stops: "closing is (map BlockStop is @ [MessageDelta r n, MessageStop])"
  by (induction "is") auto

lemma a_state_ok_simps [simp]:
  "a_state_ok (s\<lparr>ass_finish := f\<rparr>) = a_state_ok s"
  "a_state_ok (s\<lparr>ass_tokens := n\<rparr>) = a_state_ok s"
  by (simp_all add: a_state_ok_def)

lemma arguments_delta_open:
  "i \<in> set opened \<Longrightarrow> i \<noteq> 0 \<Longrightarrow> stream_open opened (arguments_delta f i @ es) = stream_open opened es"
  by (auto simp: arguments_delta_def truthy_str_def split: option.splits)

lemma a_state_ok_new_tool:
  assumes "a_state_ok s"
  shows "a_state_ok (s\<lparr>ass_next := ass_next s + 1, ass_tools := (k, ass_next s) # ass_tools s,
    ass_open := ass_open s @ [ass_next s]\<rparr>)"
  using assms by (auto simp: a_state_ok_def split: if_splits)

text \<open>
  What one part of the translation yields may be prefixed to any continuation that is right for the
  blocks open after it.
\<close>

definition extends :: "nat list \<Rightarrow> a_event list \<times> a_stream_state option \<Rightarrow> bool" where
  "extends opened r \<longleftrightarrow>
     (case snd r of
        None \<Rightarrow> stream_open opened (fst r)
      | Some s \<Rightarrow> a_state_ok s \<and> (\<forall>es. stream_open (ass_open s) es \<longrightarrow> stream_open opened (fst r @ es)))"

lemma tool_deltas_extends: "a_state_ok s \<Longrightarrow> extends (ass_open s) (tool_deltas tcs s)"
proof (induction tcs s rule: tool_deltas.induct)
  case (1 s)
  then show ?case by (simp add: extends_def)
next
  case (2 tc tcs s)
  show ?case
  proof (cases "map_of (ass_tools s) (ctc_index tc)")
    case (Some i)
    then have i: "i \<in> set (ass_open s)" "i \<noteq> 0" using 2(3) by (auto simp: a_state_ok_def)
    obtain evs r where r: "tool_deltas tcs s = (evs, r)" by force
    have "extends (ass_open s) (evs, r)" using "2.IH"(2) [OF Some 2(3)] r by simp
    then show ?thesis using Some r i
      by (auto simp: extends_def arguments_delta_open split: option.splits)
  next
    case None
    show ?thesis
    proof (cases "\<exists>c f. ctc_id tc = Some c \<and> ctc_function tc = Some f \<and> c \<noteq> [] \<and> truthy_str (fnd_name f)")
      case False
      then show ?thesis using None
        by (auto simp: extends_def upstream_error_def split: option.splits)
    next
      case True
      then obtain c f where c: "ctc_id tc = Some c" "ctc_function tc = Some f" "c \<noteq> []" "truthy_str (fnd_name f)"
        by blast
      define s' where "s' = s\<lparr>ass_next := ass_next s + 1, ass_tools := (ctc_index tc, ass_next s) # ass_tools s,
        ass_open := ass_open s @ [ass_next s]\<rparr>"
      have s': "a_state_ok s'" unfolding s'_def by (rule a_state_ok_new_tool [OF 2(3)])
      obtain evs r where r: "tool_deltas tcs s' = (evs, r)" by force
      have ih: "extends (ass_open s') (evs, r)"
        using "2.IH"(1) [OF None refl c(1,2) _ refl refl] c(3,4) s' r unfolding s'_def by simp
      have fresh: "ass_next s \<notin> set (ass_open s)" "ass_next s \<noteq> 0"
        using 2(3) by (auto simp: a_state_ok_def)
      have o': "ass_open s' = ass_open s @ [ass_next s]" by (simp add: s'_def)
      have n: "the (fnd_name f) \<noteq> []" using c(4) by (auto simp: truthy_str_def split: option.splits)
      have "tool_deltas (tc # tcs) s =
          (ToolBlockStart (ass_next s) c (the (fnd_name f)) # arguments_delta (Some f) (ass_next s) @ evs, r)"
        using None c r by (simp add: s'_def Let_def)
      then show ?thesis using ih fresh c(3) n
        by (auto simp: extends_def o' arguments_delta_open split: option.splits)
    qed
  qed
qed

lemma choice_events_extends: "a_state_ok s \<Longrightarrow> extends (ass_open s) (choice_events ch s)"
proof -
  assume s: "a_state_ok s"
  define s1 where "s1 = (case chc_finish_reason ch of None \<Rightarrow> s | Some f \<Rightarrow> s\<lparr>ass_finish := Some f\<rparr>)"
  have s1: "a_state_ok s1" "ass_open s1 = ass_open s"
    using s by (auto simp: s1_def split: option.splits)
  obtain evs r where r: "tool_deltas (case cd_tool_calls (chc_delta ch) of None \<Rightarrow> [] | Some ts \<Rightarrow> ts) s1 = (evs, r)"
    by force
  have "extends (ass_open s) (evs, r)" using tool_deltas_extends [OF s1(1)] r s1(2) by metis
  moreover have "0 \<in> set (ass_open s)" using s by (simp add: a_state_ok_def)
  ultimately show ?thesis using r
    by (auto simp: choice_events_def s1_def [symmetric] extends_def truthy_str_def Let_def split: option.splits)
qed

lemma chunk_events_extends: "a_state_ok s \<Longrightarrow> extends (ass_open s) (chunk_events c s)"
proof -
  assume s: "a_state_ok s"
  define s1 where "s1 = (case cck_usage c of None \<Rightarrow> s | Some u \<Rightarrow> s\<lparr>ass_tokens := cu_completion_tokens u\<rparr>)"
  have s1: "a_state_ok s1" "ass_open s1 = ass_open s"
    using s by (auto simp: s1_def split: option.splits)
  show ?thesis
    using choice_events_extends [OF s1(1)] s1
    by (auto simp: chunk_events_def s1_def [symmetric] extends_def upstream_error_def Let_def split: list.splits)
qed

lemma start_message_started: "ass_started s \<Longrightarrow> start_message c model s = ([], s)"
  by (simp add: start_message_def)

lemma a_stream_open: "a_state_ok s \<Longrightarrow> stream_open (ass_open s) (a_stream fmt model es s)"
proof (induction fmt model es s rule: a_stream.induct)
  case (1 fmt model s)
  obtain i "is" where o: "ass_open s = i # is" using 1(1) by (cases "ass_open s") (auto simp: a_state_ok_def)
  show ?case
    using closing_stops [of "ass_open s"] by (auto simp: finish_stream_def upstream_error_def o split: option.splits)
next
  case (2 fmt model e es s)
  then show ?case by (simp add: error_of_event_def Let_def)
next
  case (3 fmt model c es s)
  obtain evs r where r: "chunk_events c s = (evs, r)" by force
  have st: "start_message c model s = ([], s)"
    using 3(2) by (simp add: start_message_started a_state_ok_def)
  have e: "extends (ass_open s) (evs, r)" using chunk_events_extends [OF 3(2)] r by metis
  show ?case
  proof (cases r)
    case None
    then show ?thesis using e st r by (simp add: extends_def)
  next
    case (Some s2)
    then have "a_state_ok s2" using e by (simp add: extends_def)
    then show ?thesis
      using e st r Some "3.IH" [OF st [symmetric] refl r [symmetric] refl Some] by (simp add: extends_def)
  qed
qed

section \<open>The content of a translated stream\<close>

lemma inj_on_the: "inj_on f K \<Longrightarrow> None \<notin> f ` K \<Longrightarrow> inj_on (\<lambda>k. the (f k)) K"
  by (rule inj_onI) (metis image_eqI inj_onD option.expand)

definition ev_text :: "a_event list \<Rightarrow> string" where
  "ev_text evs = concat (map (\<lambda>e. case e of TextDelta t \<Rightarrow> t | _ \<Rightarrow> []) evs)"

definition ev_args :: "nat \<Rightarrow> a_event list \<Rightarrow> string" where
  "ev_args i evs = concat (map (\<lambda>e. case e of JsonDelta j t \<Rightarrow> (if j = i then t else []) | _ \<Rightarrow> []) evs)"

definition str_or :: "string option \<Rightarrow> string" where
  "str_or v = (case v of None \<Rightarrow> [] | Some s \<Rightarrow> s)"

definition call_args :: "chunk_tool_call \<Rightarrow> string" where
  "call_args tc = (case ctc_function tc of None \<Rightarrow> [] | Some f \<Rightarrow> str_or (fnd_arguments f))"

definition tool_args :: "nat \<Rightarrow> chunk_tool_call list \<Rightarrow> string" where
  "tool_args k tcs = concat (map (\<lambda>tc. if ctc_index tc = k then call_args tc else []) tcs)"

definition chunk_calls :: "chat_chunk \<Rightarrow> chunk_tool_call list" where
  "chunk_calls c =
     (case cck_choices c of [] \<Rightarrow> [] | ch # _ \<Rightarrow>
        (case cd_tool_calls (chc_delta ch) of None \<Rightarrow> [] | Some ts \<Rightarrow> ts))"

definition chunk_text :: "chat_chunk \<Rightarrow> string" where
  "chunk_text c = (case cck_choices c of [] \<Rightarrow> [] | ch # _ \<Rightarrow> str_or (cd_content (chc_delta ch)))"

lemma ev_simps [simp]:
  "ev_text [] = []" "ev_text (xs @ ys) = ev_text xs @ ev_text ys"
  "ev_args i [] = []" "ev_args i (xs @ ys) = ev_args i xs @ ev_args i ys"
  "ev_text (e # es) = (case e of TextDelta t \<Rightarrow> t | _ \<Rightarrow> []) @ ev_text es"
  "ev_args i (e # es) = (case e of JsonDelta j t \<Rightarrow> (if j = i then t else []) | _ \<Rightarrow> []) @ ev_args i es"
  by (simp_all add: ev_text_def ev_args_def)

lemma tool_args_simps [simp]:
  "tool_args k [] = []" "tool_args k (tc # tcs) = (if ctc_index tc = k then call_args tc else []) @ tool_args k tcs"
  by (simp_all add: tool_args_def)

lemma arguments_delta_args:
  "ev_args i (arguments_delta f j) = (if i = j then (case f of None \<Rightarrow> [] | Some g \<Rightarrow> str_or (fnd_arguments g)) else [])"
  "ev_text (arguments_delta f j) = []"
  by (auto simp: arguments_delta_def truthy_str_def str_or_def split: option.splits)

definition tools_inj :: "a_stream_state \<Rightarrow> bool" where
  "tools_inj s \<longleftrightarrow> inj_on (map_of (ass_tools s)) (dom (map_of (ass_tools s)))"

definition tools_extend :: "a_stream_state \<Rightarrow> a_stream_state \<Rightarrow> bool" where
  "tools_extend s s' \<longleftrightarrow> map_of (ass_tools s) \<subseteq>\<^sub>m map_of (ass_tools s')"

definition carries :: "a_stream_state \<Rightarrow> a_event list \<Rightarrow> (nat \<Rightarrow> string) \<Rightarrow> bool" where
  "carries s evs args \<longleftrightarrow>
     (\<forall>k i. map_of (ass_tools s) k = Some i \<longrightarrow> ev_args i evs = args k) \<and>
     (\<forall>i. i \<notin> ran (map_of (ass_tools s)) \<longrightarrow> ev_args i evs = [])"

lemma tools_extend_ran: "tools_extend s s' \<Longrightarrow> i \<notin> ran (map_of (ass_tools s')) \<Longrightarrow> i \<notin> ran (map_of (ass_tools s))"
  by (force simp: tools_extend_def map_le_def ran_def dom_def)

lemma tools_inj_new:
  assumes "a_state_ok s" "tools_inj s" "map_of (ass_tools s) k = None"
  shows "tools_inj (s\<lparr>ass_next := ass_next s + 1, ass_tools := (k, ass_next s) # ass_tools s,
    ass_open := ass_open s @ [ass_next s]\<rparr>)"
proof -
  have "map_of (ass_tools s) x \<noteq> Some (ass_next s)" for x
    using assms(1) by (auto simp: a_state_ok_def)
  then show ?thesis using assms(2,3)
    by (auto simp: tools_inj_def inj_on_def dom_def split: if_splits)
qed

lemma tool_deltas_carries:
  "a_state_ok s \<Longrightarrow> tools_inj s \<Longrightarrow> tool_deltas tcs s = (evs, Some s') \<Longrightarrow>
   a_state_ok s' \<and> tools_inj s' \<and> tools_extend s s' \<and> carries s' evs (\<lambda>k. tool_args k tcs) \<and>
   ctc_index ` set tcs \<subseteq> dom (map_of (ass_tools s')) \<and> ev_text evs = []"
proof (induction tcs s arbitrary: evs rule: tool_deltas.induct)
  case (1 s)
  then show ?case by (simp add: tools_extend_def carries_def)
next
  case (2 tc tcs s)
  have single: "carries s' (arguments_delta (ctc_function tc) i) (\<lambda>k. if ctc_index tc = k then call_args tc else [])"
    if "map_of (ass_tools s') (ctc_index tc) = Some i" "tools_inj s'" for i
  proof -
    have "j \<noteq> i" if "map_of (ass_tools s') k = Some j" "k \<noteq> ctc_index tc" for k j
      using that \<open>map_of (ass_tools s') (ctc_index tc) = Some i\<close> \<open>tools_inj s'\<close>
      by (auto simp: tools_inj_def inj_on_def dom_def)
    then show ?thesis using that(1)
      by (auto simp: carries_def arguments_delta_args call_args_def ran_def split: option.splits)
  qed
  show ?case
  proof (cases "map_of (ass_tools s) (ctc_index tc)")
    case (Some i)
    obtain evs' where r: "tool_deltas tcs s = (evs', Some s')"
        "evs = arguments_delta (ctc_function tc) i @ evs'"
      using 2(5) Some by (auto split: prod.splits)
    note ih = "2.IH"(2) [OF Some 2(3,4) r(1)]
    have i: "map_of (ass_tools s') (ctc_index tc) = Some i"
      using ih Some by (auto simp: tools_extend_def map_le_def dom_def)
    show ?thesis using ih single [OF i] i r(2) by (auto simp: carries_def arguments_delta_args)
  next
    case None
    obtain c f where c: "ctc_id tc = Some c" "ctc_function tc = Some f" "\<not> (c = [] \<or> \<not> truthy_str (fnd_name f))"
      using 2(5) None by (auto split: option.splits if_splits)
    define i where "i = ass_next s"
    define s1 where "s1 = s\<lparr>ass_next := i + 1, ass_tools := (ctc_index tc, i) # ass_tools s, ass_open := ass_open s @ [i]\<rparr>"
    have s1: "a_state_ok s1" "tools_inj s1"
      unfolding s1_def i_def by (rule a_state_ok_new_tool [OF 2(3)], rule tools_inj_new [OF 2(3,4) None])
    obtain evs' where r: "tool_deltas tcs s1 = (evs', Some s')"
        "evs = ToolBlockStart i c (the (fnd_name f)) # arguments_delta (Some f) i @ evs'"
      using 2(5) None c by (auto simp: s1_def i_def Let_def split: prod.splits)
    have ih: "a_state_ok s' \<and> tools_inj s' \<and> tools_extend s1 s' \<and> carries s' evs' (\<lambda>k. tool_args k tcs) \<and>
        ctc_index ` set tcs \<subseteq> dom (map_of (ass_tools s')) \<and> ev_text evs' = []"
      using "2.IH"(1) [OF None refl c(1,2,3) refl refl] s1 r(1) unfolding s1_def i_def by blast
    have i: "map_of (ass_tools s') (ctc_index tc) = Some i"
      using ih by (auto simp: tools_extend_def map_le_def dom_def s1_def)
    have "tools_extend s s'" using ih None
      by (auto simp: tools_extend_def map_le_def dom_def s1_def split: if_splits) 
    then show ?thesis using ih single [OF i] i r(2) c(2) by (auto simp: carries_def arguments_delta_args)
  qed
qed

lemma choice_events_carries:
  assumes "a_state_ok s" "tools_inj s" "choice_events ch s = (evs, Some s')"
  shows "a_state_ok s' \<and> tools_inj s' \<and> tools_extend s s' \<and>
    carries s' evs (\<lambda>k. tool_args k (case cd_tool_calls (chc_delta ch) of None \<Rightarrow> [] | Some ts \<Rightarrow> ts)) \<and>
    ctc_index ` set (case cd_tool_calls (chc_delta ch) of None \<Rightarrow> [] | Some ts \<Rightarrow> ts) \<subseteq> dom (map_of (ass_tools s')) \<and>
    ev_text evs = str_or (cd_content (chc_delta ch))"
proof -
  define s1 where "s1 = (case chc_finish_reason ch of None \<Rightarrow> s | Some f \<Rightarrow> s\<lparr>ass_finish := Some f\<rparr>)"
  have s1: "a_state_ok s1" "tools_inj s1" "ass_tools s1 = ass_tools s"
    using assms(1,2) by (auto simp: s1_def tools_inj_def split: option.splits)
  obtain evs' where r: "tool_deltas (case cd_tool_calls (chc_delta ch) of None \<Rightarrow> [] | Some ts \<Rightarrow> ts) s1 = (evs', Some s')"
      "evs = (if truthy_str (cd_content (chc_delta ch)) then [TextDelta (the (cd_content (chc_delta ch)))] else []) @ evs'"
    using assms(3) by (auto simp: choice_events_def s1_def [symmetric] Let_def split: prod.splits)
  from tool_deltas_carries [OF s1(1,2) r(1)] show ?thesis using r(2) s1(3)
    by (auto simp: tools_extend_def carries_def truthy_str_def str_or_def split: option.splits)
qed

lemma chunk_events_carries:
  assumes "a_state_ok s" "tools_inj s" "chunk_events c s = (evs, Some s')"
  shows "a_state_ok s' \<and> tools_inj s' \<and> tools_extend s s' \<and>
    carries s' evs (\<lambda>k. tool_args k (chunk_calls c)) \<and>
    ctc_index ` set (chunk_calls c) \<subseteq> dom (map_of (ass_tools s')) \<and> ev_text evs = chunk_text c"
proof -
  define s1 where "s1 = (case cck_usage c of None \<Rightarrow> s | Some u \<Rightarrow> s\<lparr>ass_tokens := cu_completion_tokens u\<rparr>)"
  have s1: "a_state_ok s1" "tools_inj s1" "ass_tools s1 = ass_tools s"
    using assms(1,2) by (auto simp: s1_def tools_inj_def split: option.splits)
  show ?thesis
  proof (cases "cck_choices c")
    case Nil
    then show ?thesis using assms(3) s1
      by (simp add: chunk_events_def s1_def [symmetric] chunk_calls_def chunk_text_def carries_def tools_extend_def)
  next
    case (Cons ch chs)
    then have e: "choice_events ch s1 = (evs, Some s')"
      using assms(3) by (simp add: chunk_events_def s1_def [symmetric] Let_def split: if_splits)
    show ?thesis using choice_events_carries [OF s1(1,2) e] s1(3) Cons
      by (auto simp: chunk_calls_def chunk_text_def tools_extend_def split: option.splits)
  qed
qed

lemma tool_deltas_stop: "tool_deltas tcs s = (evs, None) \<Longrightarrow> evs \<noteq> [] \<and> last evs \<noteq> MessageStop"
  by (induction tcs s arbitrary: evs rule: tool_deltas.induct)
    (fastforce simp: upstream_error_def Let_def split: option.splits if_splits prod.splits)+

lemma chunk_events_stop: "chunk_events c s = (evs, None) \<Longrightarrow> evs \<noteq> [] \<and> last evs \<noteq> MessageStop"
  by (auto simp: chunk_events_def choice_events_def upstream_error_def Let_def
      dest: tool_deltas_stop split: list.splits if_splits prod.splits)

lemma a_stream_nonempty: "a_stream fmt model es s \<noteq> []"
proof (induction fmt model es s rule: a_stream.induct)
  case (3 fmt model c es s)
  then show ?case
    by (auto dest: chunk_events_stop split: prod.splits option.splits)
qed (auto simp: finish_stream_def split: option.splits)

lemma finish_stream_silent: "ev_text (finish_stream s) = []" "ev_args i (finish_stream s) = []"
  by (auto simp: finish_stream_def upstream_error_def ev_text_def ev_args_def comp_def split: option.splits)

lemma a_stream_carries:
  "a_state_ok s \<Longrightarrow> tools_inj s \<Longrightarrow> last (a_stream fmt model es s) = MessageStop \<Longrightarrow>
   \<exists>cs s'. es = map ChatChunk cs \<and> tools_inj s' \<and> tools_extend s s' \<and>
     carries s' (a_stream fmt model es s) (\<lambda>k. concat (map (\<lambda>c. tool_args k (chunk_calls c)) cs)) \<and>
     (\<forall>c\<in>set cs. ctc_index ` set (chunk_calls c) \<subseteq> dom (map_of (ass_tools s'))) \<and>
     ev_text (a_stream fmt model es s) = concat (map chunk_text cs)"
proof (induction fmt model es s rule: a_stream.induct)
  case (1 fmt model s)
  then show ?case
    by (intro exI [of _ "[]"] exI [of _ s]) (simp add: tools_extend_def carries_def finish_stream_silent)
next
  case (2 fmt model e es s)
  then show ?case by (simp add: error_of_event_def Let_def)
next
  case (3 fmt model c es s)
  obtain evs r where r: "chunk_events c s = (evs, r)" by force
  have st: "start_message c model s = ([], s)"
    using 3(2) by (simp add: start_message_started a_state_ok_def)
  obtain s1 where s1: "r = Some s1"
    using 3(4) st r chunk_events_stop [of c s evs] by (cases r) auto
  note k = chunk_events_carries [OF 3(2,3) r [unfolded s1]]
  have "last (a_stream fmt model es s1) = MessageStop"
    using 3(4) st r s1 a_stream_nonempty [of fmt model es s1] by simp
  then obtain cs s' where cs: "es = map ChatChunk cs" "tools_inj s'" "tools_extend s1 s'"
     "carries s' (a_stream fmt model es s1) (\<lambda>k. concat (map (\<lambda>c. tool_args k (chunk_calls c)) cs))"
     "\<forall>c\<in>set cs. ctc_index ` set (chunk_calls c) \<subseteq> dom (map_of (ass_tools s'))"
     "ev_text (a_stream fmt model es s1) = concat (map chunk_text cs)"
    using "3.IH" [OF st [symmetric] refl r [symmetric] refl s1] k by blast
  have out: "a_stream fmt model (ChatChunk c # es) s = evs @ a_stream fmt model es s1"
    using st r s1 by simp
  have "ev_args i evs = tool_args k (chunk_calls c)" if i: "map_of (ass_tools s') k = Some i" for k i
  proof (cases "map_of (ass_tools s1) k")
    case (Some j)
    then have "j = i" using cs(3) i by (auto simp: tools_extend_def map_le_def dom_def)
    then show ?thesis using k Some by (auto simp: carries_def)
  next
    case None
    then have "k \<notin> ctc_index ` set (chunk_calls c)" using k by (auto simp: dom_def)
    then have a: "tool_args k (chunk_calls c) = []" by (auto simp: tool_args_def)
    have "i \<notin> ran (map_of (ass_tools s1))"
    proof
      assume "i \<in> ran (map_of (ass_tools s1))"
      then obtain k' where k': "map_of (ass_tools s1) k' = Some i" by (auto simp: ran_def)
      then have "map_of (ass_tools s') k' = Some i" using cs(3) by (auto simp: tools_extend_def map_le_def dom_def)
      then have "k' = k" using i cs(2) by (auto simp: tools_inj_def inj_on_def dom_def)
      then show False using k' None by simp
    qed
    then have "ev_args i evs = []" using k by (simp add: carries_def)
    then show ?thesis using a by simp
  qed
  then have "carries s' (evs @ a_stream fmt model es s1) (\<lambda>k. concat (map (\<lambda>c. tool_args k (chunk_calls c)) (c # cs)))"
    using cs(4) k tools_extend_ran [OF cs(3)] by (simp add: carries_def)
  moreover have "tools_extend s s'" using k cs(3) by (auto simp: tools_extend_def intro: map_le_trans)
  moreover have "ctc_index ` set (chunk_calls c) \<subseteq> dom (map_of (ass_tools s'))"
    using k cs(3) map_le_implies_dom_le by (fastforce simp: tools_extend_def)
  ultimately show ?case
    using cs(1,2,5,6) k unfolding out by (intro exI [of _ "c # cs"] exI [of _ s']) simp
qed

section \<open>The text of a translated request\<close>

definition msg_text :: "json_object \<Rightarrow> string" where
  "msg_text m = (case jget m ''content'' of JStr s \<Rightarrow> s | _ \<Rightarrow> [])"

lemma msg_text_message [simp]: "msg_text (text_message role t) = t"
  by (simp add: msg_text_def text_message_def)

lemma tool_result_message_text:
  "tool_result_to_message b i = Inr m \<Longrightarrow> msg_text m = tool_result_content_str (atr_content b)"
  by (auto simp: tool_result_to_message_def msg_text_def split: if_splits)

lemma flush_text_text: "concat (map msg_text (flush_text buf)) = concat buf"
  by (simp add: flush_text_def)

lemma expand_blocks_text:
  "expand_blocks i buf bs = Inr ms \<Longrightarrow>
   concat (map msg_text ms) = concat buf @ concat (List.map_filter block_leaf bs)"
proof (induction i buf bs arbitrary: ms rule: expand_blocks.induct)
  case (1 index buf)
  then show ?case by (auto simp: flush_text_text map_filter_simps)
next
  case (2 index buf b bs)
  then show ?case
    by (cases b) (auto simp: ebind_eq_Inr map_filter_simps unsupported_block_def flush_text_text
        tool_result_message_text)
qed

lemma expand_user_text:
  "expand_user_content_blocks bs i = Inr ms \<Longrightarrow>
   concat (map msg_text ms) = concat (List.map_filter block_leaf bs)"
  using expand_blocks_text [of i "[]" bs] by (auto simp: expand_user_content_blocks_def ebind_eq_Inr)

lemma lower_user: "py_lower ''user'' = ''user''"
  by (simp add: py_lower_def py_lower_char_def)

lemma message_to_chat_text:
  "ams_role m = ''user'' \<Longrightarrow> message_to_chat dumps i m = Inr ms \<Longrightarrow>
   concat (map msg_text ms) = concat (anthropic_governed_leaves m)"
  by (cases "ams_content m")
    (auto simp: message_to_chat_def lower_user anthropic_governed_leaves_def expand_user_text)

lemma messages_to_chat_append:
  "messages_to_chat dumps i (xs @ ys) =
     ebind (messages_to_chat dumps i xs) (\<lambda>a. ebind (messages_to_chat dumps (i + length xs) ys) (\<lambda>b. Inr (a @ b)))"
proof (induction xs arbitrary: i)
  case Nil
  then show ?case by (cases "messages_to_chat dumps i ys") auto
next
  case (Cons x xs)
  then show ?case
    by (cases "message_to_chat dumps i x"; cases "messages_to_chat dumps (Suc i) xs";
        cases "messages_to_chat dumps (Suc (i + length xs)) ys") auto
qed

lemma redact_last_user_split:
  "(\<forall>x\<in>set xs. ams_role x \<noteq> ''user'') \<Longrightarrow> ams_role m = ''user'' \<Longrightarrow>
   redact_last_user r (xs @ m # ys) =
     xs @ replace_governed_leaves m (redistribute_redacted_text (anthropic_governed_leaves m) r) # ys \<and>
   last_user_leaves (xs @ m # ys) = anthropic_governed_leaves m"
  by (induction xs) auto

lemma last_user_leaves_split:
  "last_user_leaves ms \<noteq> [] \<Longrightarrow>
   \<exists>xs m ys. ms = xs @ m # ys \<and> ams_role m = ''user'' \<and> (\<forall>x\<in>set xs. ams_role x \<noteq> ''user'')"
proof (induction ms)
  case (Cons m ms)
  show ?case
  proof (cases "ams_role m = ''user''")
    case False
    then obtain xs m' ys where "ms = xs @ m' # ys" "ams_role m' = ''user''"
        "\<forall>x\<in>set xs. ams_role x \<noteq> ''user''"
      using Cons by auto
    then show ?thesis using False by (intro exI [of _ "m # xs"]) auto
  qed (intro exI [of _ "[]"], simp)
qed simp

definition or_none :: "string + 'a list \<Rightarrow> 'a list" where
  "or_none r = (case r of Inl e \<Rightarrow> [] | Inr xs \<Rightarrow> xs)"

lemma body_messages:
  assumes "messages_to_chat_body dumps r = Inr body"
  obtains sys msgs where "system_messages dumps (arq_system r) = Inr sys"
    "messages_to_chat dumps 0 (arq_messages r) = Inr msgs" "jget body ''messages'' = JList (map JObj (sys @ msgs))"
  using assms by (auto simp: messages_to_chat_body_def ebind_eq_Inr split: if_splits)

lemma a_chat_gets_redacted_facts:
  assumes "a_leaves p \<noteq> []"
  shows "\<exists>pre post. \<forall>r body. a_to_chat_body dumps (a_with_redacted_text p r) = Inr body \<longrightarrow>
    (\<exists>user. jget body ''messages'' = JList (map JObj (pre @ user @ post)) \<and> concat (map msg_text user) = r)"
proof -
  let ?q = "ap_request p"
  obtain xs m ys where s: "rev (arq_messages ?q) = xs @ m # ys" "ams_role m = ''user''"
      "\<forall>x\<in>set xs. ams_role x \<noteq> ''user''"
    using last_user_leaves_split [OF assms [unfolded a_leaves_def]] by blast
  define A where "A = rev ys"
  define B where "B = rev xs"
  define pre where "pre = or_none (system_messages dumps (arq_system ?q)) @ or_none (messages_to_chat dumps 0 A)"
  define post where "post = or_none (messages_to_chat dumps (Suc (length A)) B)"
  have "\<exists>user. jget body ''messages'' = JList (map JObj (pre @ user @ post)) \<and> concat (map msg_text user) = r"
    if b: "a_to_chat_body dumps (a_with_redacted_text p r) = Inr body" for r body
  proof -
    let ?rs = "redistribute_redacted_text (anthropic_governed_leaves m) r"
    define m' where "m' = replace_governed_leaves m ?rs"
    have rl: "redact_last_user r (xs @ m # ys) = xs @ m' # ys"
      and lm: "last_user_leaves (xs @ m # ys) = anthropic_governed_leaves m"
      using redact_last_user_split [OF s(3,2), of r ys] by (simp_all add: m'_def)
    have m': "ams_role m' = ''user''" "anthropic_governed_leaves m' = ?rs"
      using replace_governed_leaves_facts [of ?rs m] s(2) by (simp_all add: m'_def redistribute_length)
    have ne: "anthropic_governed_leaves m \<noteq> []" using assms s(1) lm by (simp add: a_leaves_def)
    have ms: "arq_messages (ap_request (a_with_redacted_text p r)) = A @ m' # B"
      "arq_system (ap_request (a_with_redacted_text p r)) = arq_system ?q"
      using s(1) rl by (simp_all add: a_with_redacted_text_def A_def B_def)
    obtain sys msgs where bm: "system_messages dumps (arq_system ?q) = Inr sys"
        "messages_to_chat dumps 0 (A @ m' # B) = Inr msgs" "jget body ''messages'' = JList (map JObj (sys @ msgs))"
      using body_messages [OF b [unfolded a_to_chat_body_def]] ms by metis
    obtain a u c where parts: "messages_to_chat dumps 0 A = Inr a" "message_to_chat dumps (length A) m' = Inr u"
        "messages_to_chat dumps (Suc (length A)) B = Inr c" "msgs = a @ u @ c"
      using bm(2) by (auto simp: messages_to_chat_append ebind_eq_Inr)
    have "concat (map msg_text u) = concat ?rs" using message_to_chat_text [OF m'(1) parts(2)] m'(2) by simp
    also have "\<dots> = r" by (rule redistribute_concat [OF ne])
    finally show ?thesis
      using bm parts by (intro exI [of _ u]) (simp add: pre_def post_def or_none_def)
  qed
  then show ?thesis by blast
qed

section \<open>Properties\<close>

text \<open>
  C17. Whatever the provider streams, and wherever it breaks off, the client receives a well-formed Messages
  stream: the message start and the text block first, every delta on a block that is open, every block
  opened once under a fresh index, and at the end either a stop for each open block followed by the
  message delta and the message stop, or exactly one error event with nothing after it.
\<close>

theorem anthropic_stream_wellformed: "stream_ok (a_stream fmt model es a_stream_init)"
proof (cases es)
  case Nil
  then show ?thesis by (simp add: a_stream_init_def finish_stream_def upstream_error_def)
next
  case (Cons e rest)
  show ?thesis
  proof (cases e)
    case (ChatError d)
    then show ?thesis using Cons by (simp add: error_of_event_def Let_def)
  next
    case (ChatChunk c)
    define s1 where "s1 = a_stream_init\<lparr>ass_open := [0], ass_started := True\<rparr>"
    have s1: "a_state_ok s1" "start_message c model a_stream_init = ([MessageStart (cck_id c) model, TextBlockStart], s1)"
      by (simp_all add: s1_def a_state_ok_def a_stream_init_def start_message_def)
    have "a_stream fmt model es a_stream_init =
        MessageStart (cck_id c) model # TextBlockStart # a_stream fmt model es s1"
      using Cons ChatChunk s1 by (simp add: start_message_started a_state_ok_def split: prod.splits)
    then show ?thesis using a_stream_open [OF s1(1), of fmt model es] by (simp add: s1_def)
  qed
qed


definition demo_a_request :: a_request where
  "demo_a_request = \<lparr>arq_model = ''m'',
     arq_messages = [\<lparr>ams_role = ''user'', ams_content = ContentParts [
       TextBlock \<lparr>atx_text = ''ann@x'', atx_cache = None\<rparr>]\<rparr>],
     arq_system = None, arq_max_tokens = 5, arq_cache_control = None, arq_container = None,
     arq_context_management = None, arq_inference_geo = None, arq_temperature = None, arq_stream = False,
     arq_top_p = None, arq_top_k = None, arq_stop_sequences = None, arq_tools = None, arq_tool_choice = None,
     arq_metadata = None, arq_thinking = None, arq_output_config = None, arq_service_tier = None,
     arq_user_profile_id = None\<rparr>"

lemma redact_single: "redistribute_redacted_text [a] r = [r]"
proof -
  have "length (redistribute_redacted_text [a] r) = 1" "concat (redistribute_redacted_text [a] r) = r"
    by (simp_all add: redistribute_length redistribute_concat)
  then show ?thesis by (cases "redistribute_redacted_text [a] r") auto
qed


text \<open>
  A stream that ends normally loses nothing: the client's text deltas join to the concatenation of the
  provider's text deltas, and each tool call has a block of its own, whose partial JSON joins to the
  concatenation of that call's argument fragments, however the fragments of different calls interleave.
\<close>

theorem anthropic_stream_content:
  assumes "last (a_stream fmt model es a_stream_init) = MessageStop"
  shows "\<exists>cs block. es = map ChatChunk cs \<and>
    ev_text (a_stream fmt model es a_stream_init) = concat (map chunk_text cs) \<and>
    inj_on block (\<Union>c\<in>set cs. ctc_index ` set (chunk_calls c)) \<and>
    (\<forall>k \<in> (\<Union>c\<in>set cs. ctc_index ` set (chunk_calls c)).
       ev_args (block k) (a_stream fmt model es a_stream_init) =
         concat (map (\<lambda>c. tool_args k (chunk_calls c)) cs))"
proof (cases es)
  case Nil
  then show ?thesis using assms by (simp add: a_stream_init_def finish_stream_def upstream_error_def)
next
  case (Cons e rest)
  show ?thesis
  proof (cases e)
    case (ChatError d)
    then show ?thesis using assms Cons by (simp add: error_of_event_def Let_def)
  next
    case (ChatChunk c)
    define s1 where "s1 = a_stream_init\<lparr>ass_open := [0], ass_started := True\<rparr>"
    have s1: "a_state_ok s1" "tools_inj s1"
      "start_message c model a_stream_init = ([MessageStart (cck_id c) model, TextBlockStart], s1)"
      by (simp_all add: s1_def a_state_ok_def a_stream_init_def start_message_def tools_inj_def)
    have out: "a_stream fmt model es a_stream_init =
        MessageStart (cck_id c) model # TextBlockStart # a_stream fmt model es s1"
      using Cons ChatChunk s1 by (simp add: start_message_started a_state_ok_def split: prod.splits)
    have "last (a_stream fmt model es s1) = MessageStop"
      using assms a_stream_nonempty [of fmt model es s1] unfolding out by simp
    from a_stream_carries [OF s1(1,2) this] obtain cs s' where cs: "es = map ChatChunk cs" "tools_inj s'"
      "carries s' (a_stream fmt model es s1) (\<lambda>k. concat (map (\<lambda>c. tool_args k (chunk_calls c)) cs))"
      "\<forall>c\<in>set cs. ctc_index ` set (chunk_calls c) \<subseteq> dom (map_of (ass_tools s'))"
      "ev_text (a_stream fmt model es s1) = concat (map chunk_text cs)"
      by blast
    define K where "K = (\<Union>c\<in>set cs. ctc_index ` set (chunk_calls c))"
    define block where "block k = the (map_of (ass_tools s') k)" for k
    have K: "K \<subseteq> dom (map_of (ass_tools s'))" unfolding K_def by (rule UN_least) (rule cs(4) [rule_format])
    have b: "map_of (ass_tools s') k = Some (block k)" if "k \<in> K" for k
      using subsetD [OF K that] by (auto simp: block_def)
    have "inj_on (map_of (ass_tools s')) K"
      using cs(2) K unfolding tools_inj_def by (rule inj_on_subset)
    moreover have "None \<notin> map_of (ass_tools s') ` K"
    proof
      assume "None \<in> map_of (ass_tools s') ` K"
      then obtain k where "k \<in> K" "map_of (ass_tools s') k = None" by (elim imageE) simp
      then show False using b by simp
    qed
    ultimately have "inj_on block K" unfolding block_def by (rule inj_on_the)
    moreover have "\<forall>k\<in>K. ev_args (block k) (a_stream fmt model es a_stream_init) =
        concat (map (\<lambda>c. tool_args k (chunk_calls c)) cs)"
    proof
      fix k assume "k \<in> K"
      then show "ev_args (block k) (a_stream fmt model es a_stream_init) =
          concat (map (\<lambda>c. tool_args k (chunk_calls c)) cs)"
        using cs(3) b unfolding out by (simp add: carries_def)
    qed
    moreover have "ev_text (a_stream fmt model es a_stream_init) = concat (map chunk_text cs)"
      using cs(5) unfolding out by simp
    ultimately show ?thesis using cs(1) unfolding K_def by (intro exI conjI)
  qed
qed

definition demo_chunk :: "chunk_choice \<Rightarrow> chat_chunk" where
  "demo_chunk ch = \<lparr>cck_id = ''c'', cck_choices = [ch], cck_created = 0, cck_model = ''m'', cck_moderation = None,
     cck_service_tier = None, cck_system_fingerprint = None, cck_usage = None\<rparr>"

definition demo_delta :: "string option \<Rightarrow> chunk_tool_call list option \<Rightarrow> chunk_delta" where
  "demo_delta t cs = \<lparr>cd_content = t, cd_function_call = None, cd_refusal = None, cd_role = None, cd_tool_calls = cs\<rparr>"

definition demo_chat_events :: "chat_event list" where
  "demo_chat_events =
     [ChatChunk (demo_chunk \<lparr>chc_delta = demo_delta (Some ''hi'')
        (Some [\<lparr>ctc_index = 3, ctc_id = Some ''t'', ctc_function = Some \<lparr>fnd_arguments = Some ''{'', fnd_name = Some ''f''\<rparr>,
          ctc_type = None\<rparr>]), chc_finish_reason = None, chc_index = 0, chc_logprobs = None\<rparr>),
      ChatChunk (demo_chunk \<lparr>chc_delta = demo_delta None
        (Some [\<lparr>ctc_index = 3, ctc_id = None, ctc_function = Some \<lparr>fnd_arguments = Some ''}'', fnd_name = None\<rparr>,
          ctc_type = None\<rparr>]), chc_finish_reason = Some ''tool_calls'', chc_index = 0, chc_logprobs = None\<rparr>)]"

lemma anthropic_stream_content_witness:
  "\<exists>i. ev_args i (a_stream (\<lambda>v. []) ''m'' demo_chat_events a_stream_init) = ''{}'' \<and>
     ev_text (a_stream (\<lambda>v. []) ''m'' demo_chat_events a_stream_init) = ''hi''"
proof -
  let ?out = "a_stream (\<lambda>v. []) ''m'' demo_chat_events a_stream_init"
  have "last ?out = MessageStop"
    by (simp add: demo_chat_events_def demo_chunk_def demo_delta_def a_stream_init_def start_message_def
        chunk_events_def choice_events_def arguments_delta_def truthy_str_def finish_stream_def Let_def)
  from anthropic_stream_content [OF this] obtain cs block where c: "demo_chat_events = map ChatChunk cs"
    "ev_text ?out = concat (map chunk_text cs)"
    "\<forall>k \<in> (\<Union>c\<in>set cs. ctc_index ` set (chunk_calls c)). ev_args (block k) ?out =
         concat (map (\<lambda>c. tool_args k (chunk_calls c)) cs)" by blast
  from c(1) obtain c1 c2 where cs: "cs = [c1, c2]" "ChatChunk c1 = demo_chat_events ! 0" "ChatChunk c2 = demo_chat_events ! 1"
    by (auto simp: demo_chat_events_def Cons_eq_map_conv)
  then have "chunk_text c1 = ''hi''" "chunk_text c2 = []" "tool_args 3 (chunk_calls c1) = ''{''"
      "tool_args 3 (chunk_calls c2) = ''}''" "3 \<in> ctc_index ` set (chunk_calls c1)"
    by (auto simp: demo_chat_events_def demo_chunk_def demo_delta_def chunk_text_def chunk_calls_def str_or_def call_args_def)
  then show ?thesis using c cs(1) by (intro exI [of _ "block 3"]) simp
qed

end
