(* ===== verification/StreamEvents.thy ===== *)
theory StreamEvents imports AnthropicCompat begin

text \<open>
  Provider-neutral stream events (\<open>proxy/app/stream_events.py\<close> and the \<open>CanonicalStream\<close> models of
  \<open>protocol_types.py\<close>): the readers of Anthropic and Chat streams and the writer of Chat chunks. A
  generator is the list of what it yields; \<open>StreamRaised\<close> marks that it raised there instead. The text
  of \<open>json.dumps\<close>, with default and with compact separators, and \<open>json.loads\<close> are parameters.
\<close>

section \<open>Events\<close>

record usage_update =
  uu_input_tokens :: "nat option"
  uu_output_tokens :: "nat option"
  uu_total_tokens :: "nat option"

datatype canonical_event =
    MessageStarted string "string option"     \<comment> \<open>message id, model\<close>
  | CTextDelta string
  | ToolCallStarted nat string string         \<comment> \<open>tool index, call id, name\<close>
  | ArgumentsDelta nat string
  | UsageUpdated usage_update
  | MessageCompleted string string            \<comment> \<open>status, reason\<close>
  | StreamFailed string string                \<comment> \<open>error type, message\<close>
  | StreamRaised py_error

definition ANTHROPIC_STOP_REASON_TO_CANONICAL :: "(string \<times> string) list" where
  "ANTHROPIC_STOP_REASON_TO_CANONICAL =
     [(''end_turn'', ''end_turn''), (''max_tokens'', ''max_tokens''), (''tool_use'', ''tool_use''),
      (''stop_sequence'', ''end_turn'')]"

definition CHAT_FINISH_REASON_TO_CANONICAL :: "(string \<times> string) list" where
  "CHAT_FINISH_REASON_TO_CANONICAL =
     [(''stop'', ''end_turn''), (''length'', ''max_tokens''), (''tool_calls'', ''tool_use''),
      (''function_call'', ''tool_use''), (''content_filter'', ''content_filtered'')]"

definition CANONICAL_REASON_TO_CHAT_FINISH :: "(string \<times> string) list" where
  "CANONICAL_REASON_TO_CHAT_FINISH =
     [(''end_turn'', ''stop''), (''max_tokens'', ''length''), (''tool_use'', ''tool_calls''),
      (''content_filtered'', ''content_filter''), (''cancelled'', ''stop''), (''error'', ''stop''),
      (''unknown'', ''stop'')]"

definition completed :: "string \<Rightarrow> canonical_event" where
  "completed reason = MessageCompleted (if reason = ''max_tokens'' then ''incomplete'' else ''completed'') reason"

definition int_field :: "json \<Rightarrow> string \<Rightarrow> int" where
  "int_field obj key = (case obj of JObj d \<Rightarrow> (case jget_or d key (JInt 0) of JInt i \<Rightarrow> i | _ \<Rightarrow> 0) | _ \<Rightarrow> 0)"

definition str_field :: "json \<Rightarrow> string \<Rightarrow> string" where
  "str_field v dflt = (case v of JStr s \<Rightarrow> s | _ \<Rightarrow> dflt)"

text \<open>The usage model refuses a negative count.\<close>

definition usage_event :: "int \<Rightarrow> (nat \<Rightarrow> usage_update) \<Rightarrow> canonical_event list" where
  "usage_event n mk =
     (if n = 0 then [] else if n < 0 then [StreamRaised (ValueError ''CanonicalStreamUsageUpdate'')]
      else [UsageUpdated (mk (nat n))])"

definition input_usage :: "nat \<Rightarrow> usage_update" where
  "input_usage n = \<lparr>uu_input_tokens = Some n, uu_output_tokens = None, uu_total_tokens = None\<rparr>"

definition output_usage :: "nat \<Rightarrow> usage_update" where
  "output_usage n = \<lparr>uu_input_tokens = None, uu_output_tokens = Some n, uu_total_tokens = None\<rparr>"

definition failure_of :: "json \<Rightarrow> canonical_event" where
  "failure_of raw_error =
     (let error = as_obj raw_error in
      StreamFailed (str_field (jget error ''type'') ''provider_stream_error'')
                   (str_field (jget error ''message'') ''Provider stream failed''))"

text \<open>\<open>isinstance(v, int)\<close>, which a \<open>bool\<close> satisfies, as a dictionary key.\<close>

definition int_key :: "json \<Rightarrow> int" where
  "int_key v = (case v of JInt i \<Rightarrow> i | JBool b \<Rightarrow> (if b then 1 else 0) | _ \<Rightarrow> 0)"

section \<open>Reading an Anthropic stream\<close>

record anthropic_reader =
  rd_blocks :: "(int \<times> nat) list"  \<comment> \<open>tool index by block index\<close>
  rd_counter :: nat

definition is_raised :: "canonical_event list \<Rightarrow> bool" where
  "is_raised evs \<longleftrightarrow> (\<exists>e. StreamRaised e \<in> set evs)"

text \<open>One event object: what is yielded, and the state to go on with unless the generator ends.\<close>

definition anthropic_event ::
  "json_object \<Rightarrow> anthropic_reader \<Rightarrow> canonical_event list \<times> anthropic_reader option" where
  "anthropic_event ev rd =
     (let etype = jget_or ev ''type'' (JStr []) in
      if etype = JStr ''error'' then ([failure_of (jget ev ''error'')], None)
      else if etype = JStr ''message_start'' then
        (let message = as_obj (jget ev ''message'');
             us = usage_event (int_field (jget message ''usage'') ''input_tokens'') input_usage
         in (MessageStarted (str_field (jget message ''id'') []) (as_str (jget message ''model'')) # us,
             if is_raised us then None else Some rd))
      else if etype = JStr ''content_block_start'' then
        (let content_block = as_obj (jget ev ''content_block'') in
         if jget content_block ''type'' \<noteq> JStr ''tool_use'' then ([], Some rd)
         else
           let tool_index = rd_counter rd;
               block_index = int_key (jget_or ev ''index'' (JInt 0))
           in ([ToolCallStarted tool_index (str_field (jget content_block ''id'') [])
                  (str_field (jget content_block ''name'') [])],
               Some (rd\<lparr>rd_blocks := (block_index, tool_index) # rd_blocks rd, rd_counter := tool_index + 1\<rparr>)))
      else if etype = JStr ''content_block_delta'' then
        (let delta = as_obj (jget ev ''delta'') in
         if jget delta ''type'' = JStr ''text_delta''
         then ([CTextDelta (str_field (jget delta ''text'') [])], Some rd)
         else if jget delta ''type'' = JStr ''input_json_delta''
         then (case map_of (rd_blocks rd) (int_key (jget_or ev ''index'' (JInt 0))) of
                 None \<Rightarrow> ([], Some rd)
               | Some tool_index \<Rightarrow> ([ArgumentsDelta tool_index (str_field (jget delta ''partial_json'') [])], Some rd))
         else ([], Some rd))
      else if etype = JStr ''message_delta'' then
        (let us = usage_event (int_field (jget ev ''usage'') ''output_tokens'') output_usage;
             delta = as_obj (jget ev ''delta'');
             stop_reason = str_field (jget_or delta ''stop_reason'' (JStr ''end_turn'')) ''end_turn'';
             reason = (case map_of ANTHROPIC_STOP_REASON_TO_CANONICAL stop_reason of None \<Rightarrow> ''unknown'' | Some r \<Rightarrow> r)
         in if is_raised us then (us, None) else (us @ [completed reason], Some rd))
      else ([], Some rd))"

fun iter_anthropic_messages_canonical_events ::
  "(string \<Rightarrow> json option) \<Rightarrow> string list \<Rightarrow> anthropic_reader \<Rightarrow> canonical_event list" where
  "iter_anthropic_messages_canonical_events loads [] rd = []"
| "iter_anthropic_messages_canonical_events loads (line # lines) rd =
     (case data_payload line of
        None \<Rightarrow> iter_anthropic_messages_canonical_events loads lines rd
      | Some data_str \<Rightarrow>
          (case loads data_str of
             None \<Rightarrow> [StreamFailed ''invalid_upstream_stream'' ''Provider stream contained malformed JSON'']
           | Some (JObj ev) \<Rightarrow>
               (case anthropic_event ev rd of
                  (evs, None) \<Rightarrow> evs
                | (evs, Some rd') \<Rightarrow> evs @ iter_anthropic_messages_canonical_events loads lines rd')
           | Some _ \<Rightarrow> [StreamFailed ''invalid_upstream_stream'' ''Provider stream event was not a JSON object'']))"

section \<open>Reading a Chat stream\<close>

definition chunk_call_events :: "chunk_tool_call \<Rightarrow> canonical_event list" where
  "chunk_call_events tc =
     (let name = (case ctc_function tc of None \<Rightarrow> None | Some f \<Rightarrow> fnd_name f);
          arguments = (case ctc_function tc of None \<Rightarrow> None | Some f \<Rightarrow> fnd_arguments f)
      in (if ctc_id tc \<noteq> None \<or> name \<noteq> None
          then [ToolCallStarted (ctc_index tc) (str_or (ctc_id tc)) (str_or name)] else []) @
         (if truthy_str arguments then [ArgumentsDelta (ctc_index tc) (the arguments)] else []))"

definition choice_canonical :: "chunk_choice \<Rightarrow> canonical_event list" where
  "choice_canonical choice =
     (let delta = chc_delta choice in
      (if truthy_str (cd_content delta) then [CTextDelta (the (cd_content delta))] else []) @
      (case cd_tool_calls delta of None \<Rightarrow> [] | Some tcs \<Rightarrow> concat (map chunk_call_events tcs)) @
      (case chc_finish_reason choice of
         None \<Rightarrow> []
       | Some r \<Rightarrow> (case map_of CHAT_FINISH_REASON_TO_CANONICAL r of
           None \<Rightarrow> [StreamRaised KeyError] | Some reason \<Rightarrow> [completed reason])))"

definition chunk_canonical :: "chat_chunk \<Rightarrow> bool \<Rightarrow> canonical_event list" where
  "chunk_canonical c message_started =
     (if message_started then [] else [MessageStarted (cck_id c) (Some (cck_model c))]) @
     (case cck_usage c of
        None \<Rightarrow> []
      | Some u \<Rightarrow> [UsageUpdated \<lparr>uu_input_tokens = Some (cu_prompt_tokens u),
          uu_output_tokens = Some (cu_completion_tokens u), uu_total_tokens = Some (cu_total_tokens u)\<rparr>]) @
     (case cck_choices c of [] \<Rightarrow> [] | choice # _ \<Rightarrow> choice_canonical choice)"

fun chat_canonical :: "chat_event list \<Rightarrow> bool \<Rightarrow> canonical_event list" where
  "chat_canonical [] started = []"
| "chat_canonical (ChatError e # es) started = [failure_of (jget e ''error'')]"
| "chat_canonical (ChatChunk c # es) started =
     (let evs = chunk_canonical c started in
      if is_raised evs then evs else evs @ chat_canonical es True)"

definition iter_openai_chat_canonical_events :: "stream_lib \<Rightarrow> raw_chunk list \<Rightarrow> canonical_event list" where
  "iter_openai_chat_canonical_events lib body = chat_canonical (iter_openai_chat_events lib body) False"

section \<open>Writing Chat chunks\<close>

definition chat_sse_chunk :: "string \<Rightarrow> string \<Rightarrow> json_object \<Rightarrow> json \<Rightarrow> json_object" where
  "chat_sse_chunk completion_id model delta finish =
     [(''id'', JStr completion_id), (''object'', JStr ''chat.completion.chunk''), (''model'', JStr model),
      (''choices'', JList [JObj [(''index'', JInt 0), (''delta'', JObj delta), (''finish_reason'', finish)]])]"

record encoder =
  en_id :: string
  en_input :: nat
  en_output :: nat

definition en_start :: encoder where
  "en_start = \<lparr>en_id = [], en_input = 0, en_output = 0\<rparr>"

fun canonical_chunk :: "string \<Rightarrow> encoder \<Rightarrow> canonical_event \<Rightarrow> json_object option" where
  "canonical_chunk model en (CTextDelta t) =
     Some (chat_sse_chunk (en_id en) model [(''content'', JStr t)] JNull)"
| "canonical_chunk model en (ToolCallStarted i c n) =
     Some (chat_sse_chunk (en_id en) model
       [(''tool_calls'', JList [JObj [(''index'', jnat i), (''id'', JStr c), (''type'', JStr ''function''),
          (''function'', JObj [(''name'', JStr n), (''arguments'', JStr [])])]])] JNull)"
| "canonical_chunk model en (ArgumentsDelta i a) =
     Some (chat_sse_chunk (en_id en) model
       [(''tool_calls'', JList [JObj [(''index'', jnat i), (''function'', JObj [(''arguments'', JStr a)])]])] JNull)"
| "canonical_chunk model en (MessageCompleted st r) =
     Some (chat_sse_chunk (en_id en) model [] (JStr (str_or (map_of CANONICAL_REASON_TO_CHAT_FINISH r))) @
       [(''usage'', JObj [(''prompt_tokens'', jnat (en_input en)), (''completion_tokens'', jnat (en_output en)),
          (''total_tokens'', jnat (en_input en + en_output en))])])"
| "canonical_chunk model en _ = None"

definition sse_data :: "string \<Rightarrow> string" where
  "sse_data t = ''data: '' @ t @ [CHR 10, CHR 10]"

definition keep_new :: "nat option \<Rightarrow> nat \<Rightarrow> nat" where
  "keep_new v n = (case v of None \<Rightarrow> n | Some m \<Rightarrow> m)"

fun iter_openai_chat_sse_from_canonical ::
  "(json \<Rightarrow> string) \<Rightarrow> (json \<Rightarrow> string) \<Rightarrow> string \<Rightarrow> canonical_event list \<Rightarrow> encoder \<Rightarrow> string list" where
  \<comment> \<open>\<open>json.dumps\<close> with default and with compact separators\<close>
  "iter_openai_chat_sse_from_canonical dumps dense model [] en = []"
| "iter_openai_chat_sse_from_canonical dumps dense model (ev # evs) en =
     (case ev of
        MessageStarted i m \<Rightarrow> iter_openai_chat_sse_from_canonical dumps dense model evs (en\<lparr>en_id := i\<rparr>)
      | UsageUpdated u \<Rightarrow>
          iter_openai_chat_sse_from_canonical dumps dense model evs
            (en\<lparr>en_input := keep_new (uu_input_tokens u) (en_input en),
                en_output := keep_new (uu_output_tokens u) (en_output en)\<rparr>)
      | StreamFailed t m \<Rightarrow>
          [sse_data (dense (JObj [(''error'', JObj [(''type'', JStr t), (''message'', JStr m)])]))]
      | StreamRaised e \<Rightarrow> []
      | _ \<Rightarrow>
          (case canonical_chunk model en ev of
             None \<Rightarrow> []
           | Some chunk \<Rightarrow> [sse_data (dumps (JObj chunk))]) @
          (case ev of MessageCompleted st r \<Rightarrow> [''data: [DONE]'' @ [CHR 10, CHR 10]] | _ \<Rightarrow> []) @
          iter_openai_chat_sse_from_canonical dumps dense model evs en)"

section \<open>Lemmas\<close>

text \<open>The key \<open>created\<close> is in no chunk the writer produces.\<close>

lemma canonical_chunk_keys:
  "canonical_chunk model en ev = Some c \<Longrightarrow> ''created'' \<notin> fst ` set c \<and> ''choices'' \<in> fst ` set c"
  by (cases ev) (auto simp: chat_sse_chunk_def)

definition silent :: "canonical_event \<Rightarrow> bool" where
  "silent ev \<longleftrightarrow> (case ev of MessageStarted i m \<Rightarrow> True | UsageUpdated u \<Rightarrow> True | _ \<Rightarrow> False)"

definition keep_state :: "canonical_event \<Rightarrow> encoder \<Rightarrow> encoder" where
  "keep_state ev en =
     (case ev of
        MessageStarted i m \<Rightarrow> en\<lparr>en_id := i\<rparr>
      | UsageUpdated u \<Rightarrow> en\<lparr>en_input := keep_new (uu_input_tokens u) (en_input en),
                            en_output := keep_new (uu_output_tokens u) (en_output en)\<rparr>
      | _ \<Rightarrow> en)"

lemma sse_silent:
  "list_all silent pre \<Longrightarrow>
   iter_openai_chat_sse_from_canonical dumps dense model (pre @ evs) en =
   iter_openai_chat_sse_from_canonical dumps dense model evs (fold keep_state pre en)"
  by (induction pre arbitrary: en) (auto simp: silent_def keep_state_def split: canonical_event.splits)

lemma sse_first_chunk:
  assumes "list_all silent pre" "canonical_chunk model (fold keep_state pre en) ev = Some c"
  shows "\<exists>rest. iter_openai_chat_sse_from_canonical dumps dense model (pre @ ev # evs) en =
    sse_data (dumps (JObj c)) # rest"
  using assms(2) unfolding sse_silent [OF assms(1)] by (cases ev) auto

lemma line_of_data:
  assumes "CHR 10 \<notin> set t" "py_strip t = t" "t \<noteq> []" "t \<noteq> ''[DONE]''" "last t \<noteq> CHR 13"
  shows "data_payload (rstrip_cr (''data: '' @ t)) = Some t"
proof -
  have "last (''data: '' @ t) \<noteq> CHR 13" using assms(3,5) by simp
  then have r: "rstrip_cr (''data: '' @ t) = ''data: '' @ t"
    by (cases "rev t") (use assms(3) in \<open>auto simp: rstrip_cr_def last_rev dest: arg_cong [of _ _ rev]\<close>)
  have "py_strip (CHR 32 # t) = py_strip t"
    by (simp add: py_strip_def py_is_space_def)
  then show ?thesis using assms(2-4) unfolding r by (simp add: data_payload_def py_startswith_def)
qed

lemma first_event:
  assumes t: "CHR 10 \<notin> set t" "py_strip t = t" "t \<noteq> []" "t \<noteq> ''[DONE]''" "last t \<noteq> CHR 13"
    and l: "sl_loads lib t = Some (JObj c)"
  shows "\<exists>more. iter_sse_json lib (RawStr (sse_data t) # rest) [] [] = c # more"
proof -
  have n: "CHR 10 \<notin> set (''data: '' @ t)" using t(1) by simp
  have "sse_data t = (''data: '' @ t) @ CHR 10 # [CHR 10]" by (simp add: sse_data_def)
  then have "drain_lines lib (sse_data t) =
      (let (evs', x) = drain_lines lib [CHR 10] in (c # evs', x))"
    using drain_lines_line [OF n, of lib "[CHR 10]"] line_of_data [OF t] l
    by (simp add: line_events_def)
  moreover have "drain_lines lib [CHR 10] = ([], Some [])"
    by (simp add: drain_lines.simps line_events_def data_payload_def rstrip_cr_def py_startswith_def)
  ultimately show ?thesis by simp
qed

section \<open>Properties\<close>

text \<open>
  The gateway cannot read back the Chat streams its own adapters write: no chunk has the key
  \<open>created\<close>, which the chunk model requires, so a client of another protocol gets no content at all: the
  decoder's only event is the error that the chunk did not match, whatever the provider had to say. The
  model is required to refuse an object without \<open>created\<close>; of \<open>json.loads\<close> only that it
  reads back the first chunk, whose text is one trimmed line.
\<close>

theorem adapter_stream_not_readable:
  assumes "list_all silent pre" "canonical_chunk model (fold keep_state pre en_start) ev = Some c"
    and "\<And>d. ''created'' \<notin> fst ` set d \<Longrightarrow> sl_validate lib d = None"
    and "sl_loads lib (dumps (JObj c)) = Some (JObj c)"
    and "CHR 10 \<notin> set (dumps (JObj c))" "py_strip (dumps (JObj c)) = dumps (JObj c)"
    and "dumps (JObj c) \<notin> {[], ''[DONE]''}" "last (dumps (JObj c)) \<noteq> CHR 13"
  shows "iter_openai_chat_events lib
      (map RawStr (iter_openai_chat_sse_from_canonical dumps dense model (pre @ ev # evs) en_start)) =
    [ChatError (stream_error ''Provider stream chunk did not match the Chat protocol'')]"
proof -
  obtain rest where r: "iter_openai_chat_sse_from_canonical dumps dense model (pre @ ev # evs) en_start =
      sse_data (dumps (JObj c)) # rest"
    using sse_first_chunk [OF assms(1,2)] by blast
  obtain more where m: "iter_sse_json lib (map RawStr (sse_data (dumps (JObj c)) # rest)) [] [] = c # more"
    using first_event [of "dumps (JObj c)" lib c] assms(4-8) by force
  have "sl_validate lib c = None" "''choices'' \<in> fst ` set c"
    using canonical_chunk_keys [OF assms(2)] assms(3) by auto
  then show ?thesis unfolding iter_openai_chat_events_def r m by simp
qed

definition demo_lib :: "json_object \<Rightarrow> stream_lib" where
  "demo_lib c = \<lparr>sl_feed = (\<lambda>p b. None), sl_final = (\<lambda>p. Some []), sl_loads = (\<lambda>t. Some (JObj c)),
     sl_validate = (\<lambda>d. if ''created'' \<in> fst ` set d
       then Some (demo_chunk \<lparr>chc_delta = demo_delta None None, chc_finish_reason = None, chc_index = 0,
              chc_logprobs = None\<rparr>) else None)\<rparr>"

lemma adapter_stream_not_readable_witness:
  "iter_openai_chat_events (demo_lib (chat_sse_chunk ''i'' ''m'' [(''content'', JStr ''hi'')] JNull))
     (map RawStr (iter_openai_chat_sse_from_canonical (\<lambda>v. ''x'') (\<lambda>v. ''y'') ''m''
       [MessageStarted ''i'' None, CTextDelta ''hi''] en_start)) =
   [ChatError (stream_error ''Provider stream chunk did not match the Chat protocol'')]"
proof -
  have s: "py_strip ''x'' = ''x''" by (simp add: py_strip_def py_is_space_def)
  show ?thesis
    using adapter_stream_not_readable [of "[MessageStarted ''i'' None]" "''m''" "CTextDelta ''hi''"
        "chat_sse_chunk ''i'' ''m'' [(''content'', JStr ''hi'')] JNull"
        "demo_lib (chat_sse_chunk ''i'' ''m'' [(''content'', JStr ''hi'')] JNull)" "\<lambda>v. ''x''" "\<lambda>v. ''y''" "[]"] s
    by (simp add: silent_def keep_state_def en_start_def demo_lib_def)
qed

end
