(* ===== verification/ProviderAdapters.thy ===== *)
theory ProviderAdapters imports UpstreamHttp AnthropicProvider StreamEvents begin

text \<open>
  The provider adapters (\<open>proxy/app/providers\<close>: \<open>openai.py\<close>, \<open>ollama.py\<close>, \<open>generic.py\<close>, \<open>anthropic.py\<close>,
  \<open>gemini.py\<close>, \<open>gemini_vertex.py\<close>, \<open>mock.py\<close>): each is a function of the call that \<open>dispatch_provider\<close>
  makes. What leaves an adapter as an exception is the left side. \<open>urlparse\<close>, \<open>ipaddress\<close>, Google's
  credentials and \<open>httpx\<close> are parameters.
\<close>

section \<open>OpenAI and Ollama\<close>

definition openai_responses ::
  "adapter_env \<Rightarrow> json_object \<Rightarrow> bool \<Rightarrow> string dict \<Rightarrow> string dict \<Rightarrow> http_response" where
  "openai_responses env body stream extra headers =
     forward_native env ''openai'' ''/responses'' body stream extra headers"

definition chat_post :: "adapter_env \<Rightarrow> string \<Rightarrow> string \<Rightarrow> json_object \<Rightarrow> string dict \<Rightarrow> string dict \<Rightarrow> http_response" where
  "chat_post env client path body extra headers =
     response_of (ebind (post_checked env client path body extra headers) (\<lambda>up.
       Inr (plain_response env (up_status up) (upstream_header up ''content-type'') extra (up_content up))))"

definition chat_stream :: "adapter_env \<Rightarrow> upstream \<Rightarrow> string dict \<Rightarrow> http_response" where
  "chat_stream env up extra = event_stream env (passed_on up (upstream_error_event ''data: '' (up_ending up))) extra"

definition openai_chat :: "adapter_env \<Rightarrow> json_object \<Rightarrow> bool \<Rightarrow> string dict \<Rightarrow> http_response" where
  "openai_chat env body stream extra =
     (if stream then
        response_of
          (ebind (post_failure env (ad_send env \<lparr>uq_client = ''openai'', uq_path = ''/chat/completions'', uq_body = body,
              uq_headers = [], uq_params = [], uq_stream = True\<rparr>) []) (\<lambda>up.
             Inr (if up_status up \<noteq> 200 then sanitize_upstream_error env up extra else chat_stream env up extra)))
      else chat_post env ''openai'' ''/chat/completions'' body extra [])"

definition ollama_chat :: "adapter_env \<Rightarrow> json_object \<Rightarrow> bool \<Rightarrow> string dict \<Rightarrow> http_response" where
  "ollama_chat env body stream extra =
     (if stream then
        response_of (ebind (open_checked_stream env ''ollama'' ''/chat/completions'' body extra [] []) (\<lambda>up.
          Inr (chat_stream env up extra)))
      else chat_post env ''ollama'' ''/chat/completions'' body extra [])"

section \<open>Generic providers\<close>

record url_parts =
  url_scheme :: string
  url_hostname :: "string option"
  url_netloc :: string

record ip_class =
  ip_link_local :: bool
  ip_multicast :: bool
  ip_unspecified :: bool
  ip_private :: bool

record url_lib =
  ul_parse :: "string \<Rightarrow> url_parts option"     \<comment> \<open>\<open>None\<close>: \<open>urlparse\<close> or \<open>hostname\<close> raises \<open>ValueError\<close>\<close>
  ul_ip :: "string \<Rightarrow> ip_class option"         \<comment> \<open>\<open>None\<close>: no IP literal\<close>

datatype url_error = InvalidBaseURLError string | UrlValueError

definition validate_base_url :: "url_lib \<Rightarrow> (json \<Rightarrow> string) \<Rightarrow> string \<Rightarrow> url_error + unit" where
  "validate_base_url lib repr base_url =
     (case ul_parse lib base_url of
        None \<Rightarrow> Inl UrlValueError
      | Some p \<Rightarrow>
          (let host = py_lower (case url_hostname p of None \<Rightarrow> [] | Some h \<Rightarrow> h) in
           if url_scheme p \<notin> {''http'', ''https''} then Inl (InvalidBaseURLError (''unsupported scheme: '' @ repr (JStr (url_scheme p))))
           else if host = [] then Inl (InvalidBaseURLError ''missing host in base_url'')
           else if url_scheme p = ''http'' \<and> host \<notin> {''localhost'', ''127.0.0.1'', ''::1''}
           then Inl (InvalidBaseURLError ''http:// is only allowed for localhost'')
           else (case ul_ip lib host of
                   None \<Rightarrow> Inr ()
                 | Some c \<Rightarrow>
                     (if ip_link_local c \<or> ip_multicast c \<or> ip_unspecified c
                      then Inl (InvalidBaseURLError (''forbidden ip range: '' @ host))
                      else if ip_private c \<and> host \<notin> {''127.0.0.1'', ''::1''}
                      then Inl (InvalidBaseURLError (''forbidden private ip: '' @ host))
                      else Inr ()))))"

definition sanitise_api_key :: "string \<Rightarrow> string" where
  "sanitise_api_key api_key = py_strip (filter (\<lambda>c. c \<noteq> CHR 10) (filter (\<lambda>c. c \<noteq> CHR 13) api_key))"

definition extract_origin :: "url_parts \<Rightarrow> string" where
  "extract_origin p = url_scheme p @ ''://'' @ url_netloc p"

definition MAX_POOL_SIZE :: nat where
  "MAX_POOL_SIZE = 50"

text \<open>The pool by its keys; the lock makes a lookup one step.\<close>

definition get_pooled_client :: "string \<Rightarrow> string list \<Rightarrow> py_error + string list" where
  "get_pooled_client origin pool =
     (if origin \<in> set pool then Inr pool
      else if length pool \<ge> MAX_POOL_SIZE
      then Inl (RuntimeError (''generic_pool size limit (50) reached; cannot create client for '' @ origin))
      else Inr (pool @ [origin]))"

definition close_all_clients :: "string list \<Rightarrow> string list" where
  "close_all_clients pool = []"

definition rstrip_slash :: "string \<Rightarrow> string" where
  "rstrip_slash s = rev (dropWhile (\<lambda>c. c = CHR ''/'') (rev s))"

definition auth_headers :: "string \<Rightarrow> string dict" where
  "auth_headers api_key =
     (let k = sanitise_api_key api_key in if k = [] then [] else [(''Authorization'', ''Bearer '' @ k)])"

definition generic_chat ::
  "adapter_env \<Rightarrow> url_lib \<Rightarrow> string list \<Rightarrow> json_object \<Rightarrow> bool \<Rightarrow> string dict \<Rightarrow> string \<Rightarrow> string \<Rightarrow>
   (py_error + http_response) \<times> string list" where
  "generic_chat env lib pool body stream extra base_url api_key =
     (case validate_base_url lib (ad_repr env) base_url of
        Inl UrlValueError \<Rightarrow> (Inl (ValueError ''urlparse''), pool)
      | Inl (InvalidBaseURLError m) \<Rightarrow> (Inr (json_response env 502 (error_json ''invalid_provider_config'' m) extra), pool)
      | Inr _ \<Rightarrow>
          (let origin = extract_origin (the (ul_parse lib base_url)) in
           case get_pooled_client origin pool of
             Inl e \<Rightarrow> (Inr (json_response env 503 (error_json ''api_error'' ''Service temporarily unavailable'') extra), pool)
           | Inr pool' \<Rightarrow>
               (let url = rstrip_slash base_url @ ''/chat/completions''; headers = auth_headers api_key in
                (Inr (if stream then
                        response_of (ebind (open_checked_stream env origin url body extra headers []) (\<lambda>up.
                          Inr (chat_stream env up extra)))
                      else chat_post env origin url body extra headers), pool'))))"

section \<open>Anthropic\<close>

definition anthropic_messages ::
  "adapter_env \<Rightarrow> json_object \<Rightarrow> bool \<Rightarrow> string dict \<Rightarrow> string dict \<Rightarrow> http_response" where
  "anthropic_messages env body stream extra headers =
     forward_native env ''anthropic'' ''/v1/messages'' body stream extra headers"

text \<open>
  The reader stops at a failure event, or when it raises; otherwise it reads until the upstream's lines end.
\<close>

definition stops :: "canonical_event \<Rightarrow> bool" where
  "stops ev = (case ev of StreamFailed t m \<Rightarrow> True | StreamRaised e \<Rightarrow> True | _ \<Rightarrow> False)"

definition anthropic_stream_frames :: "adapter_env \<Rightarrow> string \<Rightarrow> anthropic_reader \<Rightarrow> encoder \<Rightarrow> upstream \<Rightarrow> string list" where
  "anthropic_stream_frames env model rd en up =
     (let evs = iter_anthropic_messages_canonical_events (ad_loads env) (up_lines up) rd
      in iter_openai_chat_sse_from_canonical (ad_dumps env) (ad_dense env) model evs en @
         (if \<exists>ev\<in>set evs. stops ev then [] else upstream_error_event ''data: '' (up_ending up)))"

definition anthropic_chat ::
  "adapter_env \<Rightarrow> anthropic_reader \<Rightarrow> encoder \<Rightarrow> json_object \<Rightarrow> bool \<Rightarrow> string dict \<Rightarrow> py_error + http_response" where
  "anthropic_chat env rd en body stream extra =
     (case a_translate_request (ad_loads env) (ad_repr env) body of
        Inl (ValueError m) \<Rightarrow> Inr (json_response env 422 (error_json ''unsupported_chat_translation'' m) extra)
      | Inl e \<Rightarrow> Inl e
      | Inr abody \<Rightarrow>
          (if stream then
             Inr (response_of (ebind (open_checked_stream env ''anthropic'' ''/v1/messages'' abody extra [] []) (\<lambda>up.
               Inr (event_stream env (map text_chunk (anthropic_stream_frames env
                 (py_str_json (ad_fmt env) (jget_or body ''model'' (JStr []))) rd en up)) extra))))
           else
             (case post_checked env ''anthropic'' ''/v1/messages'' abody extra [] of
                Inl r \<Rightarrow> Inr r
              | Inr up \<Rightarrow>
                  (case ad_loads_body env (up_content up) of
                     None \<Rightarrow> Inl (ValueError ''json'')
                   | Some (JObj d) \<Rightarrow>
                       ebind (a_translate_response (ad_dumps env) (ad_repr env) d) (\<lambda>envelope.
                         Inr (json_response env 200 (JObj envelope) extra))
                   | Some _ \<Rightarrow> Inl AttributeError))))"

section \<open>Gemini, Developer API\<close>

definition gemini_lib_of :: "adapter_env \<Rightarrow> gemini_lib" where
  "gemini_lib_of env = \<lparr>gl_dumps = ad_dumps env, gl_loads = ad_loads env, gl_fmt = ad_fmt env, gl_fresh = ad_fresh env\<rparr>"

definition str_repr :: "adapter_env \<Rightarrow> string \<Rightarrow> string" where
  "str_repr env s = ad_repr env (JStr s)"

definition RESPONSE_DIALECT :: gemini_dialect where
  "RESPONSE_DIALECT = DEVELOPER_API_DIALECT\<lparr>gd_extra_finish_reasons := []\<rparr>"

definition g_translate_request :: "adapter_env \<Rightarrow> json_object \<Rightarrow> gemini_error + string \<times> json_object" where
  "g_translate_request env body =
     translate_chat_request (ad_loads env) (str_repr env) GEMINI_CHAT_TRANSLATION_FIELDS
       (Some ''gemini-3.1-flash-lite'') body"

definition g_to_openai_envelope :: "adapter_env \<Rightarrow> json_object \<Rightarrow> string \<Rightarrow> gemini_error + json_object" where
  "g_to_openai_envelope env d model =
     translate_generate_content_response_to_openai_envelope (gemini_lib_of env) d model RESPONSE_DIALECT ''Gemini''
       (''chatcmpl-gemini-'' @ ad_completion_digits env)"

definition gemini_stream_chunks :: "adapter_env \<Rightarrow> gemini_stream_args \<Rightarrow> upstream \<Rightarrow> stream_chunk list" where
  "gemini_stream_chunks env a up =
     (let (frames, reading) = iter_openai_chat_sse_from_gemini_lines (gemini_lib_of env) a (up_lines up) (up_ending up)
      in map text_chunk (frames @ (if reading then upstream_error_event ''data: '' (up_ending up) else [])))"

definition gemini_args :: "adapter_env \<Rightarrow> string \<Rightarrow> gemini_stream_args" where
  "gemini_args env model = \<lparr>ga_completion_id = ''chatcmpl-gemini-'' @ ad_completion_digits env, ga_model = model,
     ga_dialect = RESPONSE_DIALECT, ga_label = ''Gemini''\<rparr>"

definition gemini_chat :: "adapter_env \<Rightarrow> json_object \<Rightarrow> bool \<Rightarrow> string dict \<Rightarrow> py_error + http_response" where
  "gemini_chat env body stream extra =
     (case g_translate_request env body of
        Inl (GeminiTranslationError m) \<Rightarrow> Inr (json_response env 422 (error_json ''unsupported_chat_translation'' m) extra)
      | Inl (GeminiRaised e) \<Rightarrow> Inl e
      | Inr (model, gbody) \<Rightarrow>
          (if stream then
             Inr (response_of (ebind (open_checked_stream env ''gemini'' (''/models/'' @ model @ '':streamGenerateContent'')
                 gbody extra [] [(''alt'', ''sse'')]) (\<lambda>up.
               Inr (event_stream env (gemini_stream_chunks env (gemini_args env model) up) extra))))
           else
             (case post_checked env ''gemini'' (''/models/'' @ model @ '':generateContent'') gbody extra [] of
                Inl r \<Rightarrow> Inr r
              | Inr up \<Rightarrow>
                  (case ad_loads_body env (up_content up) of
                     None \<Rightarrow> Inl (ValueError ''json'')
                   | Some (JObj d) \<Rightarrow>
                       (case g_to_openai_envelope env d model of
                          Inl (GeminiTranslationError m) \<Rightarrow> Inr (json_response env 502 (error_json ''provider_response_error'' m) extra)
                        | Inl (GeminiRaised e) \<Rightarrow> Inl e
                        | Inr envelope \<Rightarrow> Inr (json_response env 200 (JObj envelope) extra))
                   | Some _ \<Rightarrow>
                       Inr (json_response env 502 (error_json ''provider_response_error'' ''Gemini returned a non-object response'') extra)))))"

section \<open>Gemini on Vertex\<close>

record vertex_credential =
  vc_token :: "string option"
  vc_generation :: nat

record vertex_env =
  ve_project_id :: string
  ve_location :: string
  ve_default :: "py_error + vertex_credential"                        \<comment> \<open>\<open>google.auth.default\<close>\<close>
  ve_valid :: "vertex_credential \<Rightarrow> bool"                             \<comment> \<open>\<open>credentials.valid\<close>, now\<close>
  ve_refresh :: "vertex_credential \<Rightarrow> py_error + vertex_credential"   \<comment> \<open>\<open>credentials.refresh\<close>\<close>

text \<open>The cached credential is the state; the lock makes a lookup one step.\<close>

definition get_bearer_token ::
  "vertex_env \<Rightarrow> vertex_credential option \<Rightarrow> (py_error + string) \<times> vertex_credential option" where
  "get_bearer_token ve cached =
     (case (case cached of None \<Rightarrow> ve_default ve | Some c \<Rightarrow> Inr c) of
        Inl e \<Rightarrow> (Inl e, cached)
      | Inr c \<Rightarrow>
          (case (if ve_valid ve c then Inr c else ve_refresh ve c) of
             Inl e \<Rightarrow> (Inl e, Some c)
           | Inr c' \<Rightarrow> (case vc_token c' of None \<Rightarrow> Inl AssertionError | Some t \<Rightarrow> Inr t, Some c')))"

definition vertex_base_url :: "vertex_env \<Rightarrow> string" where
  "vertex_base_url ve =
     (if ve_location ve = ''global'' then ''https://aiplatform.googleapis.com''
      else ''https://'' @ ve_location ve @ ''-aiplatform.googleapis.com'')"

definition vertex_model_path :: "vertex_env \<Rightarrow> string \<Rightarrow> string" where
  "vertex_model_path ve model =
     ''projects/'' @ ve_project_id ve @ ''/locations/'' @ ve_location ve @ ''/publishers/google/models/'' @ model"

definition classify_vertex_error :: "(json \<Rightarrow> string) \<Rightarrow> nat \<Rightarrow> json_object \<Rightarrow> string" where
  "classify_vertex_error fmt status body =
     (if status = 401 then ''vertex_token_expired''
      else if status = 403 then
        (let signal = py_lower (fmt (JObj body)) in
         if \<exists>marker\<in>set [''iam.googleapis.com'', ''getaccesstoken'', ''impersonat'']. sublist marker signal
         then ''vertex_impersonation_denied'' else ''vertex_iam_permission_denied'')
      else if status = 404 then ''vertex_model_or_region_unavailable''
      else if status = 429 then ''vertex_quota_exceeded''
      else ''vertex_unknown_error'')"

datatype vertex_error =
    VertexUpstreamError http_response
  | VertexTranslationError string
  | VertexRaised py_error

definition lift_gemini :: "gemini_error + 'a \<Rightarrow> vertex_error + 'a" where
  "lift_gemini r = (case r of
       Inl (GeminiTranslationError m) \<Rightarrow> Inl (VertexTranslationError m)
     | Inl (GeminiRaised e) \<Rightarrow> Inl (VertexRaised e)
     | Inr x \<Rightarrow> Inr x)"

definition v_translate_chat_body :: "adapter_env \<Rightarrow> json_object \<Rightarrow> gemini_error + string \<times> json_object" where
  "v_translate_chat_body env body =
     translate_chat_request (ad_loads env) (str_repr env) GEMINI_CHAT_TRANSLATION_FIELDS None body"

definition v_to_openai_envelope :: "adapter_env \<Rightarrow> json_object \<Rightarrow> string \<Rightarrow> gemini_error + json_object" where
  "v_to_openai_envelope env d model =
     translate_generate_content_response_to_openai_envelope (gemini_lib_of env) d model VERTEX_DIALECT ''Vertex''
       (''chatcmpl-gemini-vertex-'' @ ad_completion_digits env)"

text \<open>The request both methods send once they have a token; the failures of sending are not handled.\<close>

definition vertex_send ::
  "adapter_env \<Rightarrow> vertex_env \<Rightarrow> string \<Rightarrow> string \<Rightarrow> json_object \<Rightarrow> string \<Rightarrow> string dict \<Rightarrow> bool \<Rightarrow> vertex_error + upstream" where
  "vertex_send env ve token model body operation params stream =
     (case ad_send env \<lparr>uq_client = ''gemini-vertex'',
         uq_path = vertex_base_url ve @ ''/v1/'' @ vertex_model_path ve model @ operation,
         uq_body = body, uq_headers = [(''Authorization'', ''Bearer '' @ token)], uq_params = params, uq_stream = stream\<rparr> of
        SentTimeout \<Rightarrow> Inl (VertexRaised (OtherException ''httpx.TimeoutException''))
      | SentRequestError \<Rightarrow> Inl (VertexRaised (OtherException ''httpx.RequestError''))
      | Sent up \<Rightarrow> Inr up)"

definition vertex_chat_completions ::
  "adapter_env \<Rightarrow> vertex_env \<Rightarrow> vertex_credential option \<Rightarrow> json_object \<Rightarrow> (vertex_error + json_object) \<times> vertex_credential option" where
  "vertex_chat_completions env ve cached request =
     (case lift_gemini (v_translate_chat_body env request) of
        Inl e \<Rightarrow> (Inl e, cached)
      | Inr (model, body) \<Rightarrow>
          (case get_bearer_token ve cached of
             (Inl e, cached') \<Rightarrow> (Inl (VertexRaised e), cached')
           | (Inr token, cached') \<Rightarrow>
               (ebind (vertex_send env ve token model body '':generateContent'' [] False) (\<lambda>up.
                  if \<not> (200 \<le> up_status up \<and> up_status up < 300)
                  then Inl (VertexUpstreamError (sanitize_upstream_error env up []))
                  else (case ad_loads_body env (up_content up) of
                          None \<Rightarrow> Inl (VertexRaised (ValueError ''json''))
                        | Some (JObj d) \<Rightarrow> lift_gemini (v_to_openai_envelope env d model)
                        | Some _ \<Rightarrow> Inl (VertexTranslationError ''Vertex AI returned a non-object response''))),
                cached')))"

definition vertex_args :: "adapter_env \<Rightarrow> string \<Rightarrow> gemini_stream_args" where
  "vertex_args env model = \<lparr>ga_completion_id = ''chatcmpl-gemini-vertex-'' @ ad_completion_digits env, ga_model = model,
     ga_dialect = VERTEX_DIALECT, ga_label = ''Vertex''\<rparr>"

definition vertex_chat_completions_stream ::
  "adapter_env \<Rightarrow> vertex_env \<Rightarrow> vertex_credential option \<Rightarrow> json_object \<Rightarrow>
   (vertex_error + stream_chunk list) \<times> vertex_credential option" where
  "vertex_chat_completions_stream env ve cached request =
     (case lift_gemini (v_translate_chat_body env request) of
        Inl e \<Rightarrow> (Inl e, cached)
      | Inr (model, body) \<Rightarrow>
          (case get_bearer_token ve cached of
             (Inl e, cached') \<Rightarrow> (Inl (VertexRaised e), cached')
           | (Inr token, cached') \<Rightarrow>
               (ebind (vertex_send env ve token model body '':streamGenerateContent'' [(''alt'', ''sse'')] True) (\<lambda>up.
                  if up_status up \<noteq> 200 then Inl (VertexUpstreamError (sanitize_upstream_error env up []))
                  else Inr (gemini_stream_chunks env (vertex_args env model) up)),
                cached')))"

definition vertex_failure :: "adapter_env \<Rightarrow> string dict \<Rightarrow> vertex_error \<Rightarrow> py_error + http_response" where
  "vertex_failure env extra e =
     (case e of
        VertexUpstreamError r \<Rightarrow> Inr (r\<lparr>rs_headers := dict_update (rs_headers r) (lower_keys extra)\<rparr>)
      | VertexTranslationError m \<Rightarrow> Inr (json_response env 502 (error_json ''provider_response_error'' m) extra)
      | VertexRaised x \<Rightarrow> Inl x)"

text \<open>The first frame is taken before the response is made; a generator without frames ends the coroutine with an error.\<close>

definition vertex_chat ::
  "adapter_env \<Rightarrow> vertex_env \<Rightarrow> vertex_credential option \<Rightarrow> json_object \<Rightarrow> bool \<Rightarrow> string dict \<Rightarrow>
   (py_error + http_response) \<times> vertex_credential option" where
  "vertex_chat env ve cached body stream extra =
     (if stream then
        (case vertex_chat_completions_stream env ve cached body of
           (Inl e, cached') \<Rightarrow> (vertex_failure env extra e, cached')
         | (Inr [], cached') \<Rightarrow> (Inl (RuntimeError ''async generator raised StopAsyncIteration''), cached')
         | (Inr (c # cs), cached') \<Rightarrow> (Inr (event_stream env (c # cs) extra), cached'))
      else
        (case vertex_chat_completions env ve cached body of
           (Inl e, cached') \<Rightarrow> (vertex_failure env extra e, cached')
         | (Inr envelope, cached') \<Rightarrow> (Inr (json_response env 200 (JObj envelope) extra), cached')))"

section \<open>Mock\<close>

record mock_scenario =
  ms_name :: string
  ms_decision :: string
  ms_expected_status :: nat
  ms_response_text :: string
  ms_violations :: "string list"

definition clean_request :: mock_scenario where
  "clean_request = \<lparr>ms_name = ''clean_request'', ms_decision = ''allow'', ms_expected_status = 200,
     ms_response_text = ''Here is your answer.'', ms_violations = []\<rparr>"

definition mock_content :: "json list \<Rightarrow> string" where
  "mock_content messages =
     py_join '' '' (List.map_filter (\<lambda>m. case jget (as_obj m) ''content'' of JStr s \<Rightarrow> Some s | _ \<Rightarrow> None) messages)"

definition is_digit_char :: "char \<Rightarrow> bool" where
  "is_digit_char c = (let n = of_char c :: nat in 48 \<le> n \<and> n \<le> 57)"

text \<open>\<open>\d{3}-\d{2}-\d{4}\<close>, at the start of a text and anywhere in it.\<close>

definition ssn_at :: "string \<Rightarrow> bool" where
  "ssn_at s \<longleftrightarrow>
     (case s of
        a # b # c # d # e # f # g # h # i # j # k # _ \<Rightarrow>
          list_all is_digit_char [a, b, c, e, f, h, i, j, k] \<and> d = CHR ''-'' \<and> g = CHR ''-''
      | _ \<Rightarrow> False)"

fun has_ssn :: "string \<Rightarrow> bool" where
  "has_ssn [] = False"
| "has_ssn (c # cs) = (ssn_at (c # cs) \<or> has_ssn cs)"

definition contains_any :: "string list \<Rightarrow> string \<Rightarrow> bool" where
  "contains_any ps s = (\<exists>p\<in>set ps. sublist p (py_lower s))"

text \<open>The scenarios besides the clean one, with their triggers, in the order in which they are tried.\<close>

definition TRIGGERED_SCENARIOS :: "((string \<Rightarrow> bool) \<times> mock_scenario) list" where
  "TRIGGERED_SCENARIOS =
     [(has_ssn, \<lparr>ms_name = ''pii_redact'', ms_decision = ''allow'', ms_expected_status = 200,
         ms_response_text = ''I can help with that.'', ms_violations = []\<rparr>),
      (contains_any [''diagnosis'', ''patient record''], \<lparr>ms_name = ''phi_deny'', ms_decision = ''block'',
         ms_expected_status = 403, ms_response_text = [], ms_violations = [''policy:data_classification_mismatch'']\<rparr>),
      (contains_any [''ignore previous instructions'', ''disregard system''], \<lparr>ms_name = ''prompt_injection'',
         ms_decision = ''block'', ms_expected_status = 400, ms_response_text = [], ms_violations = [''harm:prompt_injection'']\<rparr>),
      (contains_any [''gpt-4o''], \<lparr>ms_name = ''model_tier_deny'', ms_decision = ''block'', ms_expected_status = 403,
         ms_response_text = [], ms_violations = [''policy:model_tier_denied'']\<rparr>),
      (sublist ''__rate_limit_test__'', \<lparr>ms_name = ''rate_limit_exceed'', ms_decision = ''allow'', ms_expected_status = 200,
         ms_response_text = [], ms_violations = []\<rparr>)]"

definition match_scenario :: "json list \<Rightarrow> mock_scenario" where
  "match_scenario messages =
     (case find (\<lambda>(t, s). t (mock_content messages)) TRIGGERED_SCENARIOS of
        None \<Rightarrow> clean_request
      | Some (t, s) \<Rightarrow> s)"

fun five_by_five :: "string \<Rightarrow> string list" where
  "five_by_five [] = []"
| "five_by_five (c # cs) = take 5 (c # cs) # five_by_five (drop 4 cs)"

definition mock_chunk :: "json \<Rightarrow> string \<Rightarrow> json \<Rightarrow> json_object \<Rightarrow> json" where
  "mock_chunk model content finish extras =
     JObj ([(''id'', JStr ''chatcmpl-mock''), (''object'', JStr ''chat.completion.chunk''), (''created'', JInt 0),
       (''model'', model), (''choices'', JList [JObj [(''index'', JInt 0),
         (''delta'', JObj [(''content'', JStr content)]), (''finish_reason'', finish)]])] @ extras)"

definition mock_usage :: json_object where
  "mock_usage = [(''prompt_tokens'', JInt 10), (''completion_tokens'', JInt 5), (''total_tokens'', JInt 15)]"

definition mock_stream_sse :: "adapter_env \<Rightarrow> string \<Rightarrow> json \<Rightarrow> bool \<Rightarrow> string list" where
  "mock_stream_sse env t model include_usage =
     map (\<lambda>c. sse_data (ad_dumps env (mock_chunk model c JNull []))) (five_by_five t) @
     [sse_data (ad_dumps env (mock_chunk model [] (JStr ''stop'')
        (if include_usage then [(''usage'', JObj mock_usage)] else []))),
      sse_data ''[DONE]'']"

text \<open>Messages that are no list of objects raise; the typed payloads do not send them.\<close>

definition mock_chat :: "adapter_env \<Rightarrow> json_object \<Rightarrow> string dict \<Rightarrow> py_error + http_response" where
  "mock_chat env body extra =
     (case jget_or body ''messages'' (JList []) of
        JList messages \<Rightarrow>
          (if \<not> list_all is_obj messages then Inl AttributeError
           else
             let sc = match_scenario messages; model = jget_or body ''model'' (JStr ''mock'') in
             if ms_decision sc = ''block'' then
               Inr (json_response env (ms_expected_status sc)
                 (error_envelope_full ''policy_violation'' ''Request blocked by policy'' (map JStr (ms_violations sc)) [] [] None) extra)
             else if json_truthy (jget_or body ''stream'' (JBool False)) then
               ebind (if json_truthy (jget body ''stream_options'')
                      then py_dot_get (jget body ''stream_options'') ''include_usage'' JNull else Inr JNull) (\<lambda>u.
                 Inr (event_stream env (map text_chunk
                   (mock_stream_sse env (ms_response_text sc) model (json_truthy u))) extra))
             else
               Inr (json_response env 200 (JObj [(''id'', JStr ''chatcmpl-mock''), (''object'', JStr ''chat.completion''),
                 (''model'', model), (''choices'', JList [JObj [(''index'', JInt 0),
                    (''message'', JObj [(''role'', JStr ''assistant''), (''content'', JStr (ms_response_text sc))]),
                    (''finish_reason'', JStr ''stop'')]]),
                 (''usage'', JObj mock_usage)]) extra))
      | _ \<Rightarrow> Inl TypeError)"

section \<open>All adapters\<close>

record adapter_state =
  as_pool :: "string list"
  as_vertex :: "vertex_credential option"

definition rd_start :: anthropic_reader where
  "rd_start = \<lparr>rd_blocks = [], rd_counter = 0\<rparr>"

definition header_texts :: "json_object \<Rightarrow> string dict option" where
  "header_texts h =
     (if list_all (\<lambda>(k, v). as_str v \<noteq> None) h then Some (map (\<lambda>(k, v). (k, the (as_str v))) h) else None)"

text \<open>
  The adapter a dispatch has chosen. A header value that is no text makes the construction of the response fail.
\<close>

definition run_adapter ::
  "adapter_env \<Rightarrow> url_lib \<Rightarrow> vertex_env \<Rightarrow> adapter_state \<Rightarrow> provider_call \<Rightarrow> (py_error + http_response) \<times> adapter_state" where
  "run_adapter env lib ve st call =
     (case header_texts (pc_extra_headers call) of
        None \<Rightarrow> (Inl AttributeError, st)
      | Some extra \<Rightarrow>
          (let body = pc_body call; stream = pc_stream call; headers = pc_upstream_headers call in
           case pc_adapter call of
             MockChat \<Rightarrow> (mock_chat env body extra, st)
           | OpenaiResponsesApi \<Rightarrow> (Inr (openai_responses env body stream extra headers), st)
           | OpenaiChatApi \<Rightarrow> (Inr (openai_chat env body stream extra), st)
           | AnthropicMessagesApi \<Rightarrow> (Inr (anthropic_messages env body stream extra headers), st)
           | AnthropicChat \<Rightarrow> (anthropic_chat env rd_start en_start body stream extra, st)
           | GeminiChat \<Rightarrow> (gemini_chat env body stream extra, st)
           | GeminiVertexChat \<Rightarrow>
               (case vertex_chat env ve (as_vertex st) body stream extra of (r, c) \<Rightarrow> (r, st\<lparr>as_vertex := c\<rparr>))
           | OllamaChat \<Rightarrow> (Inr (ollama_chat env body stream extra), st)
           | GenericChat base_url api_key \<Rightarrow>
               (case generic_chat env lib (as_pool st) body stream extra base_url api_key of
                  (r, pool) \<Rightarrow> (r, st\<lparr>as_pool := pool\<rparr>))))"

end
