(* ===== verification/UpstreamOpaque.thy ===== *)
theory UpstreamOpaque imports ProviderAdapters begin

text \<open>
  Upstream errors stay private: what an upstream says in a reply with an opaque status has no influence on
  anything an adapter returns, whatever the adapter. The proofs follow the adapters; each shows that an
  operation gives the same result for two upstreams that differ only in such replies.
\<close>

section \<open>Two upstreams\<close>

definition same_but_opaque :: "(upstream_request \<Rightarrow> sent) \<Rightarrow> (upstream_request \<Rightarrow> sent) \<Rightarrow> bool" where
  "same_but_opaque f g \<longleftrightarrow>
     (\<forall>q. f q = g q \<or> (\<exists>u v. f q = Sent u \<and> g q = Sent v \<and> up_status u = up_status v \<and> up_status u \<in> set OPAQUE_STATUSES))"

lemma opaque_cases:
  assumes "same_but_opaque f g"
  obtains (same) "f q = g q"
  | (opaque) u v where "f q = Sent u" "g q = Sent v" "up_status v = up_status u" "up_status u \<in> set OPAQUE_STATUSES"
  using assms unfolding same_but_opaque_def by metis

lemma opaque_not_ok:
  "n \<in> set OPAQUE_STATUSES \<Longrightarrow> n \<noteq> 200 \<and> \<not> (200 \<le> n \<and> n < 300)"
  by (auto simp: OPAQUE_STATUSES_def)

lemma sanitize_opaque:
  "up_status v = up_status u \<Longrightarrow> up_status u \<in> set OPAQUE_STATUSES \<Longrightarrow>
   sanitize_upstream_error env v extra = sanitize_upstream_error env u extra"
  by (simp add: sanitize_upstream_error_def)

section \<open>Operations that send nothing\<close>

named_theorems send_irrelevant \<open>operations that send nothing\<close>

lemma send_irrelevant_fields [send_irrelevant]:
  "ad_loads_body (env\<lparr>ad_send := g\<rparr>) = ad_loads_body env" "ad_repr (env\<lparr>ad_send := g\<rparr>) = ad_repr env"
  "ad_fmt (env\<lparr>ad_send := g\<rparr>) = ad_fmt env" "ad_dumps (env\<lparr>ad_send := g\<rparr>) = ad_dumps env"
  "ad_loads (env\<lparr>ad_send := g\<rparr>) = ad_loads env"
  by simp_all

lemma send_irrelevant_replies [send_irrelevant]:
  "plain_response (env\<lparr>ad_send := g\<rparr>) = plain_response env"
  "event_stream (env\<lparr>ad_send := g\<rparr>) = event_stream env"
  "extract_message (env\<lparr>ad_send := g\<rparr>) = extract_message env"
  "gemini_lib_of (env\<lparr>ad_send := g\<rparr>) = gemini_lib_of env"
  "str_repr (env\<lparr>ad_send := g\<rparr>) = str_repr env"
  "anthropic_stream_frames (env\<lparr>ad_send := g\<rparr>) = anthropic_stream_frames env"
  "mock_stream_sse (env\<lparr>ad_send := g\<rparr>) = mock_stream_sse env"
  by (simp_all add: fun_eq_iff plain_response_def event_stream_def extract_message_def gemini_lib_of_def str_repr_def
      anthropic_stream_frames_def mock_stream_sse_def)

lemma send_irrelevant_json [send_irrelevant]: "json_response (env\<lparr>ad_send := g\<rparr>) = json_response env"
  by (simp add: fun_eq_iff json_response_def send_irrelevant)

lemma send_irrelevant_errors [send_irrelevant]:
  "sanitize_upstream_error (env\<lparr>ad_send := g\<rparr>) = sanitize_upstream_error env"
  "post_failure (env\<lparr>ad_send := g\<rparr>) = post_failure env"
  "chat_stream (env\<lparr>ad_send := g\<rparr>) = chat_stream env"
  "vertex_failure (env\<lparr>ad_send := g\<rparr>) = vertex_failure env"
  unfolding fun_eq_iff sanitize_upstream_error_def post_failure_def chat_stream_def vertex_failure_def send_irrelevant
  by simp_all

lemma send_irrelevant_mock [send_irrelevant]: "mock_chat (env\<lparr>ad_send := g\<rparr>) = mock_chat env"
  unfolding fun_eq_iff mock_chat_def send_irrelevant by simp

lemma send_irrelevant_gemini [send_irrelevant]:
  "g_translate_request (env\<lparr>ad_send := g\<rparr>) = g_translate_request env"
  "v_translate_chat_body (env\<lparr>ad_send := g\<rparr>) = v_translate_chat_body env"
  "g_to_openai_envelope (env\<lparr>ad_send := g\<rparr>) = g_to_openai_envelope env"
  "v_to_openai_envelope (env\<lparr>ad_send := g\<rparr>) = v_to_openai_envelope env"
  "gemini_args (env\<lparr>ad_send := g\<rparr>) = gemini_args env"
  "vertex_args (env\<lparr>ad_send := g\<rparr>) = vertex_args env"
  "gemini_stream_chunks (env\<lparr>ad_send := g\<rparr>) = gemini_stream_chunks env"
  by (simp_all add: fun_eq_iff g_translate_request_def v_translate_chat_body_def g_to_openai_envelope_def
      v_to_openai_envelope_def gemini_args_def vertex_args_def gemini_stream_chunks_def send_irrelevant)

section \<open>Sending\<close>

lemma open_checked_stream_opaque:
  assumes "same_but_opaque (ad_send env) g"
  shows "open_checked_stream (env\<lparr>ad_send := g\<rparr>) client path body extra headers params =
    open_checked_stream env client path body extra headers params"
  using assms
proof (cases rule: opaque_cases [where q = "\<lparr>uq_client = client, uq_path = path, uq_body = body,
     uq_headers = headers, uq_params = params, uq_stream = True\<rparr>"])
  case same
  then show ?thesis unfolding open_checked_stream_def send_irrelevant by simp
next
  case (opaque u v)
  then show ?thesis using opaque_not_ok [of "up_status u"] sanitize_opaque [of v u env extra]
    by (simp add: open_checked_stream_def send_irrelevant post_failure_def)
qed

lemma post_checked_opaque:
  assumes "same_but_opaque (ad_send env) g"
  shows "post_checked (env\<lparr>ad_send := g\<rparr>) client path body extra headers = post_checked env client path body extra headers"
  using assms
proof (cases rule: opaque_cases [where q = "\<lparr>uq_client = client, uq_path = path, uq_body = body,
     uq_headers = headers, uq_params = [], uq_stream = False\<rparr>"])
  case same
  then show ?thesis unfolding post_checked_def send_irrelevant by simp
next
  case (opaque u v)
  then show ?thesis using opaque_not_ok [of "up_status u"] sanitize_opaque [of v u env extra]
    by (simp add: post_checked_def send_irrelevant post_failure_def)
qed

lemma openai_stream_opaque:
  assumes "same_but_opaque (ad_send env) g"
  shows "openai_chat (env\<lparr>ad_send := g\<rparr>) body True extra = openai_chat env body True extra"
  using assms
proof (cases rule: opaque_cases [where q = "\<lparr>uq_client = ''openai'', uq_path = ''/chat/completions'',
     uq_body = body, uq_headers = [], uq_params = [], uq_stream = True\<rparr>"])
  case same
  then show ?thesis unfolding openai_chat_def send_irrelevant by simp
next
  case (opaque u v)
  then show ?thesis using opaque_not_ok [of "up_status u"] sanitize_opaque [of v u env extra]
    by (simp add: openai_chat_def send_irrelevant post_failure_def)
qed

text \<open>What Vertex replies, up to the content of an opaque error.\<close>

lemma vertex_send_opaque:
  assumes "same_but_opaque (ad_send env) g"
  obtains (same) "vertex_send (env\<lparr>ad_send := g\<rparr>) ve t m b op ps st = vertex_send env ve t m b op ps st"
  | (opaque) u v where "vertex_send (env\<lparr>ad_send := g\<rparr>) ve t m b op ps st = Inr v"
      "vertex_send env ve t m b op ps st = Inr u" "up_status v = up_status u" "up_status u \<in> set OPAQUE_STATUSES"
  using assms
proof (cases rule: opaque_cases [where q = "\<lparr>uq_client = ''gemini-vertex'',
     uq_path = vertex_base_url ve @ ''/v1/'' @ vertex_model_path ve m @ op,
     uq_body = b, uq_headers = [(''Authorization'', ''Bearer '' @ t)], uq_params = ps, uq_stream = st\<rparr>"])
  case same
  then show ?thesis by (intro that(1)) (simp add: vertex_send_def)
next
  case (opaque u v)
  then show ?thesis by (intro that(2) [of v u]) (simp_all add: vertex_send_def)
qed

lemma vertex_completions_opaque:
  assumes "same_but_opaque (ad_send env) g"
  shows "vertex_chat_completions (env\<lparr>ad_send := g\<rparr>) ve c body = vertex_chat_completions env ve c body"
proof (cases "lift_gemini (v_translate_chat_body env body)")
  case (Inl e)
  then show ?thesis by (simp add: vertex_chat_completions_def send_irrelevant)
next
  case (Inr p)
  obtain m b where p: "p = (m, b)" by (cases p)
  obtain r c' where r: "get_bearer_token ve c = (r, c')" by (cases "get_bearer_token ve c")
  show ?thesis
  proof (cases r)
    case (Inl e)
    then show ?thesis using Inr p r by (simp add: vertex_chat_completions_def send_irrelevant)
  next
    case (Inr t)
    note found = \<open>lift_gemini (v_translate_chat_body env body) = Inr p\<close> p r Inr
    show ?thesis
      using assms
    proof (cases rule: vertex_send_opaque [where ve = ve and t = t and m = m and b = b and op = "'':generateContent''"
          and ps = "[]" and st = False])
      case same
      then show ?thesis unfolding vertex_chat_completions_def send_irrelevant using found by simp
    next
      case (opaque u v)
      then show ?thesis using found opaque_not_ok [of "up_status u"] sanitize_opaque [of v u env "[]"]
        by (simp add: vertex_chat_completions_def send_irrelevant)
    qed
  qed
qed

lemma vertex_stream_opaque:
  assumes "same_but_opaque (ad_send env) g"
  shows "vertex_chat_completions_stream (env\<lparr>ad_send := g\<rparr>) ve c body = vertex_chat_completions_stream env ve c body"
proof (cases "lift_gemini (v_translate_chat_body env body)")
  case (Inl e)
  then show ?thesis by (simp add: vertex_chat_completions_stream_def send_irrelevant)
next
  case (Inr p)
  obtain m b where p: "p = (m, b)" by (cases p)
  obtain r c' where r: "get_bearer_token ve c = (r, c')" by (cases "get_bearer_token ve c")
  show ?thesis
  proof (cases r)
    case (Inl e)
    then show ?thesis using Inr p r by (simp add: vertex_chat_completions_stream_def send_irrelevant)
  next
    case (Inr t)
    note found = \<open>lift_gemini (v_translate_chat_body env body) = Inr p\<close> p r Inr
    show ?thesis
      using assms
    proof (cases rule: vertex_send_opaque [where ve = ve and t = t and m = m and b = b
          and op = "'':streamGenerateContent''" and ps = "[(''alt'', ''sse'')]" and st = True])
      case same
      then show ?thesis unfolding vertex_chat_completions_stream_def send_irrelevant using found by simp
    next
      case (opaque u v)
      then show ?thesis using found opaque_not_ok [of "up_status u"] sanitize_opaque [of v u env "[]"]
        by (simp add: vertex_chat_completions_stream_def send_irrelevant)
    qed
  qed
qed

section \<open>The adapters\<close>

lemma adapters_opaque:
  assumes "same_but_opaque (ad_send env) g"
  shows "openai_chat (env\<lparr>ad_send := g\<rparr>) body stream extra = openai_chat env body stream extra"
    "forward_native (env\<lparr>ad_send := g\<rparr>) client path body stream extra headers = forward_native env client path body stream extra headers"
    "chat_post (env\<lparr>ad_send := g\<rparr>) client path body extra headers = chat_post env client path body extra headers"
    "ollama_chat (env\<lparr>ad_send := g\<rparr>) body stream extra = ollama_chat env body stream extra"
    "gemini_chat (env\<lparr>ad_send := g\<rparr>) body stream extra = gemini_chat env body stream extra"
    "anthropic_chat (env\<lparr>ad_send := g\<rparr>) rd en body stream extra = anthropic_chat env rd en body stream extra"
    "generic_chat (env\<lparr>ad_send := g\<rparr>) lib pool body stream extra base_url api_key =
       generic_chat env lib pool body stream extra base_url api_key"
    "vertex_chat (env\<lparr>ad_send := g\<rparr>) ve c body stream extra = vertex_chat env ve c body stream extra"
proof -
  note sent = open_checked_stream_opaque [OF assms] post_checked_opaque [OF assms]
  show post: "chat_post (env\<lparr>ad_send := g\<rparr>) client path body extra headers = chat_post env client path body extra headers"
    for client path body extra headers
    unfolding chat_post_def sent send_irrelevant by (rule refl)
  show "openai_chat (env\<lparr>ad_send := g\<rparr>) body stream extra = openai_chat env body stream extra"
    using openai_stream_opaque [OF assms, of body extra] by (cases stream) (simp_all add: openai_chat_def post)
  show "forward_native (env\<lparr>ad_send := g\<rparr>) client path body stream extra headers =
      forward_native env client path body stream extra headers"
    unfolding forward_native_def sent send_irrelevant by (rule refl)
  show "ollama_chat (env\<lparr>ad_send := g\<rparr>) body stream extra = ollama_chat env body stream extra"
    unfolding ollama_chat_def sent post send_irrelevant by (rule refl)
  show "gemini_chat (env\<lparr>ad_send := g\<rparr>) body stream extra = gemini_chat env body stream extra"
    unfolding gemini_chat_def sent send_irrelevant by (rule refl)
  show "anthropic_chat (env\<lparr>ad_send := g\<rparr>) rd en body stream extra = anthropic_chat env rd en body stream extra"
    unfolding anthropic_chat_def sent send_irrelevant by (rule refl)
  show "generic_chat (env\<lparr>ad_send := g\<rparr>) lib pool body stream extra base_url api_key =
      generic_chat env lib pool body stream extra base_url api_key"
    unfolding generic_chat_def sent post send_irrelevant by (rule refl)
  show "vertex_chat (env\<lparr>ad_send := g\<rparr>) ve c body stream extra = vertex_chat env ve c body stream extra"
    unfolding vertex_chat_def vertex_completions_opaque [OF assms] vertex_stream_opaque [OF assms] send_irrelevant
    by (rule refl)
qed

lemma run_adapter_opaque:
  assumes "same_but_opaque (ad_send env) g"
  shows "run_adapter (env\<lparr>ad_send := g\<rparr>) lib ve st call = run_adapter env lib ve st call"
  unfolding run_adapter_def openai_responses_def anthropic_messages_def adapters_opaque [OF assms] send_irrelevant
  by (rule refl)

section \<open>Properties\<close>


text \<open>A witness: one upstream reveals an internal address in a 503, the other does not.\<close>

definition quiet_env :: adapter_env where
  "quiet_env = \<lparr>ad_send = \<lambda>q. Sent \<lparr>up_status = 503, up_headers = [], up_content = [], up_chunks = [], up_lines = [], up_ending = UpstreamEof\<rparr>,
     ad_dumps = \<lambda>v. (case v of JObj [(k, JObj [(k', JStr m), x, y])] \<Rightarrow> m | _ \<Rightarrow> []), ad_dense = \<lambda>v. [],
     ad_loads_body = \<lambda>b. None, ad_loads = \<lambda>s. None, ad_repr = \<lambda>v. [], ad_fmt = \<lambda>v. [], ad_fresh = \<lambda>i j. [],
     ad_completion_digits = [], ad_headers = \<lambda>m h. h\<rparr>"

definition telling_send :: "upstream_request \<Rightarrow> sent" where
  "telling_send q = Sent \<lparr>up_status = 503, up_headers = [], up_content = ascii ''no route to 10.0.0.7'', up_chunks = [],
     up_lines = [], up_ending = UpstreamEof\<rparr>"

definition no_url :: url_lib where
  "no_url = \<lparr>ul_parse = \<lambda>s. None, ul_ip = \<lambda>s. None\<rparr>"

definition no_vertex :: vertex_env where
  "no_vertex = \<lparr>ve_project_id = [], ve_location = [], ve_default = Inl KeyError, ve_valid = \<lambda>c. False, ve_refresh = \<lambda>c. Inl KeyError\<rparr>"

definition ollama_call :: provider_call where
  "ollama_call = \<lparr>pc_adapter = OllamaChat, pc_body = [], pc_stream = False, pc_extra_headers = [], pc_upstream_headers = []\<rparr>"


end
