(* ===== verification/AdapterFacts.thy ===== *)
theory AdapterFacts imports UpstreamOpaque Transition begin

text \<open>
  What the adapters guarantee: the pool of clients for configured providers stays bounded and holds only validated
  origins, native replies are passed on as they came, and what happens when an upstream does not answer.
\<close>

section \<open>Base URLs and the client pool\<close>

text \<open>When a base URL is valid: HTTPS, or HTTP to this host; and no IP literal of a private or special range.\<close>

definition safe_base_url :: "url_lib \<Rightarrow> string \<Rightarrow> url_parts \<Rightarrow> bool" where
  "safe_base_url lib u p \<longleftrightarrow>
     ul_parse lib u = Some p \<and>
     (let host = py_lower (case url_hostname p of None \<Rightarrow> [] | Some h \<Rightarrow> h) in
      url_scheme p \<in> {''http'', ''https''} \<and> host \<noteq> [] \<and>
      (url_scheme p = ''http'' \<longrightarrow> host \<in> {''localhost'', ''127.0.0.1'', ''::1''}) \<and>
      (case ul_ip lib host of
         None \<Rightarrow> True
       | Some c \<Rightarrow> \<not> ip_link_local c \<and> \<not> ip_multicast c \<and> \<not> ip_unspecified c \<and>
           (ip_private c \<longrightarrow> host \<in> {''127.0.0.1'', ''::1''})))"

lemma guards_Inr:
  "(if \<not> a then Inl x else if b then Inl y else if c then Inl z
    else (case k of None \<Rightarrow> Inr () | Some v \<Rightarrow> if d v then Inl s else if e v then Inl t else Inr ())) = Inr () \<longleftrightarrow>
   a \<and> \<not> b \<and> \<not> c \<and> (case k of None \<Rightarrow> True | Some v \<Rightarrow> \<not> d v \<and> \<not> e v)"
  by (simp split: option.split)

lemma validate_base_url_iff:
  "validate_base_url lib repr u = Inr () \<longleftrightarrow> (\<exists>p. safe_base_url lib u p)"
proof (cases "ul_parse lib u")
  case None
  then show ?thesis by (simp add: validate_base_url_def safe_base_url_def)
next
  case (Some p)
  have "(\<exists>p. safe_base_url lib u p) \<longleftrightarrow> safe_base_url lib u p" using Some by (auto simp: safe_base_url_def)
  moreover have "validate_base_url lib repr u = Inr () \<longleftrightarrow> safe_base_url lib u p"
    unfolding validate_base_url_def safe_base_url_def Some option.case Let_def guards_Inr
    by (simp split: option.split)
  ultimately show ?thesis by simp
qed

definition pool_inv :: "url_lib \<Rightarrow> string list \<Rightarrow> bool" where
  "pool_inv lib pool \<longleftrightarrow>
     distinct pool \<and> length pool \<le> MAX_POOL_SIZE \<and> (\<forall>o'\<in>set pool. \<exists>u p. safe_base_url lib u p \<and> o' = extract_origin p)"

lemma get_pooled_client_inv:
  assumes "pool_inv lib pool" "safe_base_url lib u p" "get_pooled_client (extract_origin p) pool = Inr pool'"
  shows "pool_inv lib pool'"
proof (cases "extract_origin p \<in> set pool")
  case True
  then show ?thesis using assms by (simp add: get_pooled_client_def)
next
  case False
  then have "pool' = pool @ [extract_origin p]" "length pool < MAX_POOL_SIZE"
    using assms(3) by (auto simp: get_pooled_client_def split: if_splits)
  then show ?thesis using assms(1,2) False unfolding pool_inv_def by auto
qed

lemma generic_chat_pool:
  assumes "pool_inv lib pool" "generic_chat env lib pool body stream extra base_url api_key = (r, pool')"
  shows "pool_inv lib pool'"
proof (cases "validate_base_url lib (ad_repr env) base_url")
  case (Inl e)
  then show ?thesis using assms by (cases e) (simp_all add: generic_chat_def)
next
  case (Inr u)
  then obtain p where p: "safe_base_url lib base_url p" using validate_base_url_iff [of lib "ad_repr env" base_url] by auto
  then have q: "ul_parse lib base_url = Some p" by (simp add: safe_base_url_def)
  show ?thesis
  proof (cases "get_pooled_client (extract_origin p) pool")
    case (Inl e)
    then show ?thesis using Inr q assms by (simp add: generic_chat_def \<open>validate_base_url lib (ad_repr env) base_url = Inr u\<close>)
  next
    case (Inr pool'')
    then have "pool' = pool''"
      using q assms(2) by (simp add: generic_chat_def \<open>validate_base_url lib (ad_repr env) base_url = Inr u\<close> Let_def)
    then show ?thesis using get_pooled_client_inv [OF assms(1) p] Inr by simp
  qed
qed

text \<open>The state of the adapters moves by calls, whatever the upstreams reply, and by the closing of all clients.\<close>

inductive adapter_step :: "url_lib \<Rightarrow> adapter_state \<Rightarrow> adapter_state \<Rightarrow> bool" for lib where
  called: "run_adapter env lib ve st call = (r, st') \<Longrightarrow> adapter_step lib st st'"
| closed: "adapter_step lib st (st\<lparr>as_pool := close_all_clients (as_pool st)\<rparr>)"

definition adapters_start :: adapter_state where
  "adapters_start = \<lparr>as_pool = [], as_vertex = None\<rparr>"

lemma run_adapter_pool:
  assumes "run_adapter env lib ve st call = (r, st')" "pool_inv lib (as_pool st)"
  shows "pool_inv lib (as_pool st')"
proof (cases "header_texts (pc_extra_headers call)")
  case (Some extra)
  show ?thesis
  proof (cases "pc_adapter call")
    case (GenericChat base_url api_key)
    obtain r' pool where g: "generic_chat env lib (as_pool st) (pc_body call) (pc_stream call) extra base_url api_key = (r', pool)"
      by force
    then have "st' = st\<lparr>as_pool := pool\<rparr>" using Some GenericChat assms(1) by (simp add: run_adapter_def)
    then show ?thesis using generic_chat_pool [OF assms(2) g] by simp
  next
    case GeminiVertexChat
    then show ?thesis using Some assms
      by (cases "vertex_chat env ve (as_vertex st) (pc_body call) (pc_stream call) extra") (auto simp: run_adapter_def)
  qed (use Some assms in \<open>auto simp: run_adapter_def\<close>)
qed (use assms in \<open>simp add: run_adapter_def\<close>)

interpretation pool: initialised_invariant "adapter_step lib" "\<lambda>st. pool_inv lib (as_pool st)" adapters_start
proof
  show "pool_inv lib (as_pool s')" if "pool_inv lib (as_pool s)" "adapter_step lib s s'" for s s'
    using that(2)
  proof cases
    case (called env ve call r)
    then show ?thesis using run_adapter_pool that(1) by blast
  qed (simp add: close_all_clients_def pool_inv_def)
qed (simp add: adapters_start_def pool_inv_def)

text \<open>No key makes a header that ends early.\<close>

lemma sanitise_api_key_one_line: "CHR 10 \<notin> set (sanitise_api_key k)" "CHR 13 \<notin> set (sanitise_api_key k)"
proof -
  have "set (py_strip s) \<subseteq> set s" for s
    unfolding py_strip_def by (auto dest!: set_dropWhileD)
  then show "CHR 10 \<notin> set (sanitise_api_key k)" "CHR 13 \<notin> set (sanitise_api_key k)"
    unfolding sanitise_api_key_def by force+
qed

section \<open>Headers of native replies\<close>

lemma map_of_filter_keys: "map_of (filter (\<lambda>(k, v). P k) xs) k = (if P k then map_of xs k else None)"
  by (induction xs) auto

text \<open>A native reply's headers: the gateway's own win, and of the upstream's only the safe ones pass.\<close>

lemma map_of_forwarded:
  "map_of (forwarded_headers up extra) k =
     (case map_of (rev extra) k of Some v \<Rightarrow> Some v | None \<Rightarrow> if safe_header k then map_of (up_headers up) k else None)"
  by (simp add: forwarded_headers_def map_of_dict_update map_of_filter_keys map_add_def split: option.split)

section \<open>Upstreams that do not answer\<close>

text \<open>The reply when no upstream answers in time, for a call whose body has been translated.\<close>

definition timeout_reply :: "adapter_env \<Rightarrow> string dict \<Rightarrow> bool \<Rightarrow> http_response" where
  "timeout_reply env extra stream =
     plain_response env 504 None (if stream then extra else []) (ascii ''upstream timeout'')"

lemma timeout_native:
  assumes "ad_send env = (\<lambda>q. SentTimeout)"
  shows "forward_native env client path body stream extra headers = timeout_reply env extra stream"
    "chat_post env client path body extra headers = timeout_reply env extra False"
    "openai_chat env body stream extra = timeout_reply env extra False"
    "ollama_chat env body stream extra = timeout_reply env extra stream"
    "open_checked_stream env client path body extra headers params = Inl (timeout_reply env extra True)"
    "post_checked env client path body extra headers = Inl (timeout_reply env extra False)"
  by (simp_all add: forward_native_def chat_post_def openai_chat_def ollama_chat_def open_checked_stream_def
      post_checked_def post_failure_def assms response_of_def timeout_reply_def)

section \<open>Properties\<close>

text \<open>
  C28. However the adapters are called and whatever their upstreams reply, the pool of clients for configured providers
  holds at most 50 clients, one per origin, and each for the origin of a base URL that passed validation: HTTPS, or
  HTTP to this host, and no address literal of a private, link-local, multicast or unspecified range.
\<close>

theorem pooled_origins_safe:
  assumes "(adapter_step lib)\<^sup>*\<^sup>* adapters_start st"
  shows "distinct (as_pool st) \<and> length (as_pool st) \<le> 50 \<and>
    set (as_pool st) \<subseteq> {extract_origin p | u p. safe_base_url lib u p}"
  using pool.inv_reachable [OF assms] unfolding pool_inv_def MAX_POOL_SIZE_def by blast

text \<open>
  A configured base URL that is not safe is never contacted: the reply does not depend on any upstream, and no
  client is pooled for it.
\<close>

theorem unsafe_url_not_contacted:
  assumes "\<not> (\<exists>p. safe_base_url lib base_url p)"
  shows "generic_chat (env\<lparr>ad_send := g\<rparr>) lib pool body stream extra base_url api_key =
      generic_chat env lib pool body stream extra base_url api_key \<and>
    snd (generic_chat env lib pool body stream extra base_url api_key) = pool"
proof (cases "validate_base_url lib (ad_repr env) base_url")
  case (Inl e)
  then show ?thesis by (cases e) (simp_all add: generic_chat_def send_irrelevant)
next
  case (Inr u)
  then show ?thesis using assms validate_base_url_iff [of lib "ad_repr env" base_url] by simp
qed

text \<open>
  When no upstream answers in time, every adapter with a translated body replies with status 504, except Vertex'
  adapter, whose timeout leaves the adapter as an exception.
\<close>

theorem timeout_escapes_vertex:
  assumes "ad_send env = (\<lambda>q. SentTimeout)" "header_texts (pc_extra_headers call) = Some extra"
  shows "case pc_adapter call of
      MockChat \<Rightarrow> True
    | GenericChat base_url api_key \<Rightarrow> True
    | AnthropicChat \<Rightarrow>
        (case a_translate_request (ad_loads env) (ad_repr env) (pc_body call) of
           Inl e \<Rightarrow> True
         | Inr b \<Rightarrow> fst (run_adapter env lib ve st call) = Inr (timeout_reply env extra (pc_stream call)))
    | GeminiChat \<Rightarrow>
        (case g_translate_request env (pc_body call) of
           Inl e \<Rightarrow> True
         | Inr b \<Rightarrow> fst (run_adapter env lib ve st call) = Inr (timeout_reply env extra (pc_stream call)))
    | GeminiVertexChat \<Rightarrow>
        (case v_translate_chat_body env (pc_body call) of
           Inl e \<Rightarrow> True
         | Inr b \<Rightarrow> (case fst (get_bearer_token ve (as_vertex st)) of
             Inl e \<Rightarrow> True
           | Inr t \<Rightarrow> fst (run_adapter env lib ve st call) = Inl (OtherException ''httpx.TimeoutException'')))
    | OpenaiChatApi \<Rightarrow> fst (run_adapter env lib ve st call) = Inr (timeout_reply env extra False)
    | _ \<Rightarrow> fst (run_adapter env lib ve st call) = Inr (timeout_reply env extra (pc_stream call))"
proof (cases "pc_adapter call")
  case GeminiVertexChat
  show ?thesis
  proof (cases "v_translate_chat_body env (pc_body call)")
    case (Inr b)
    obtain m d where b: "b = (m, d)" by (cases b)
    obtain r c where t: "get_bearer_token ve (as_vertex st) = (r, c)" by force
    show ?thesis
      using GeminiVertexChat Inr b t assms
      by (cases r; cases "pc_stream call") (simp_all add: run_adapter_def vertex_chat_def vertex_chat_completions_def
          vertex_chat_completions_stream_def lift_gemini_def vertex_send_def vertex_failure_def)
  qed (use GeminiVertexChat in simp)
next
  case AnthropicChat
  then show ?thesis using assms timeout_native [OF assms(1)]
    by (cases "a_translate_request (ad_loads env) (ad_repr env) (pc_body call)"; cases "pc_stream call")
      (simp_all add: run_adapter_def anthropic_chat_def response_of_def)
next
  case GeminiChat
  then show ?thesis using assms timeout_native [OF assms(1)]
    by (cases "g_translate_request env (pc_body call)"; cases "pc_stream call")
      (auto simp: run_adapter_def gemini_chat_def response_of_def)
qed (use assms timeout_native [OF assms(1)] in \<open>simp_all add: run_adapter_def openai_responses_def anthropic_messages_def\<close>)

section \<open>Witnesses\<close>

definition local_url :: url_lib where
  "local_url = \<lparr>ul_parse = \<lambda>s. Some \<lparr>url_scheme = ''https'', url_hostname = Some s, url_netloc = s\<rparr>, ul_ip = \<lambda>s. None\<rparr>"

definition generic_call :: provider_call where
  "generic_call = \<lparr>pc_adapter = GenericChat ''llm'' [], pc_body = [], pc_stream = False, pc_extra_headers = [], pc_upstream_headers = []\<rparr>"

lemma generic_pools:
  "snd (run_adapter quiet_env local_url no_vertex adapters_start generic_call) = \<lparr>as_pool = [''https://llm''], as_vertex = None\<rparr>"
  by (simp add: run_adapter_def generic_call_def header_texts_def generic_chat_def validate_base_url_def local_url_def
      adapters_start_def get_pooled_client_def extract_origin_def MAX_POOL_SIZE_def py_lower_def Let_def)

lemma pooled_origins_safe_witness:
  "''https://llm'' \<in> {extract_origin p | u p. safe_base_url local_url u p}"
proof -
  have "adapter_step local_url adapters_start \<lparr>as_pool = [''https://llm''], as_vertex = None\<rparr>"
    by (rule adapter_step.called [where env = quiet_env and ve = no_vertex and call = generic_call
          and r = "fst (run_adapter quiet_env local_url no_vertex adapters_start generic_call)"])
      (simp add: generic_pools prod_eq_iff)
  then have "(adapter_step local_url)\<^sup>*\<^sup>* adapters_start \<lparr>as_pool = [''https://llm''], as_vertex = None\<rparr>" by blast
  from pooled_origins_safe [OF this] show ?thesis by simp
qed

lemma unsafe_url_not_contacted_witness:
  "snd (generic_chat quiet_env no_url [] [] False [] ''ftp://x'' []) = []"
proof -
  have "\<not> (\<exists>p. safe_base_url no_url ''ftp://x'' p)" by (simp add: safe_base_url_def no_url_def)
  from unsafe_url_not_contacted [OF this] show ?thesis by blast
qed

definition silent_env :: adapter_env where
  "silent_env = quiet_env\<lparr>ad_send := \<lambda>q. SentTimeout\<rparr>"

lemma timeout_escapes_vertex_witness:
  "fst (run_adapter silent_env no_url no_vertex adapters_start ollama_call) =
     Inr \<lparr>rs_status = 504, rs_headers = [], rs_body = ascii ''upstream timeout'', rs_stream = None\<rparr>"
proof -
  have "ad_send silent_env = (\<lambda>q. SentTimeout)" "header_texts (pc_extra_headers ollama_call) = Some []"
    by (simp_all add: silent_env_def ollama_call_def header_texts_def)
  from timeout_escapes_vertex [OF this, of no_url no_vertex adapters_start] show ?thesis
    by (simp add: ollama_call_def timeout_reply_def plain_response_def silent_env_def quiet_env_def)
qed

end
