(* ===== verification/ResponsesCompat.thy ===== *)
theory ResponsesCompat imports StreamEvents begin

text \<open>
  The OpenAI Responses protocol (\<open>proxy/app/responses_compat.py\<close>, with the \<open>Execution\<close> item models
  of \<open>protocol_types.py\<close>): the typed request and its dump, the governed leaves and the payload, and the
  translations to a Chat body, from a Chat response and from a Chat stream. The dump leaves out what is
  \<open>None\<close> or was not given, so an optional field is an \<open>option\<close>.
\<close>

section \<open>The request\<close>

record r_text_part =
  rtp_type :: string
  rtp_text :: "string option"

record r_message =
  rmg_role :: string
  rmg_content :: "r_text_part content"

record execution_image =
  ei_image_url :: "string option"
  ei_file_id :: "string option"
  ei_detail :: "string option"

record execution_file =
  ef_file_id :: "string option"
  ef_file_url :: "string option"
  ef_filename :: "string option"
  ef_file_data :: "string option"

datatype execution_content = ExecText string | ExecImage execution_image | ExecFile execution_file

record execution_call =
  ecl_call_id :: string
  ecl_name :: string
  ecl_arguments :: string
  ecl_id :: "string option"
  ecl_status :: "string option"

record execution_output =
  eo_call_id :: string
  eo_output :: "execution_content content"
  eo_id :: "string option"
  eo_status :: "string option"

record execution_text =  \<comment> \<open>a summary or content of reasoning; the tag has a default\<close>
  ext_type :: "string option"
  ext_text :: string

record execution_reasoning =
  exr_id :: "string option"
  exr_summary :: "execution_text list option"
  exr_content :: "execution_text list option"
  exr_encrypted :: "string option"
  exr_status :: "string option"

datatype r_item =
    RMessage r_message
  | RFunctionCall execution_call
  | RFunctionOutput execution_output
  | RReasoning execution_reasoning
  | RItemReference string

datatype r_input = InputText string | InputItems "r_item list"

record r_reasoning =
  rrs_context :: "string option"
  rrs_effort :: "string option"
  rrs_generate_summary :: "string option"
  rrs_mode :: "string option"
  rrs_summary :: "string option"

record r_text_config =
  rtc_format :: "json_object option"
  rtc_verbosity :: "string option"

datatype str_or_object = AsString string | AsObject json_object

record r_request =
  rq_model :: string
  rq_input :: r_input
  rq_instructions :: "r_text_part content option"
  rq_background :: "bool option"
  rq_client_metadata :: "string dict option"
  rq_context_management :: "json_object list option"
  rq_conversation :: "str_or_object option"
  rq_include :: "string list option"
  rq_stream :: "bool option"
  rq_max_output_tokens :: "int option"
  rq_max_tool_calls :: "int option"
  rq_temperature :: "rat option"
  rq_top_p :: "rat option"
  rq_tools :: "json_object list option"
  rq_tool_choice :: "str_or_object option"
  rq_previous_response_id :: "string option"
  rq_metadata :: "string dict option"
  rq_moderation :: "json_object option"
  rq_parallel_tool_calls :: "bool option"
  rq_prompt :: "json_object option"
  rq_prompt_cache_key :: "string option"
  rq_prompt_cache_options :: "json_object option"
  rq_prompt_cache_retention :: "string option"
  rq_reasoning :: "r_reasoning option"
  rq_safety_identifier :: "string option"
  rq_service_tier :: "string option"
  rq_store :: "bool option"
  rq_stream_options :: "json_object option"
  rq_text :: "r_text_config option"
  rq_top_logprobs :: "int option"
  rq_truncation :: "string option"
  rq_user :: "string option"

definition rq_streams :: "r_request \<Rightarrow> bool" where
  "rq_streams r = (rq_stream r = Some True)"

text \<open>The validator that runs before the fields are read.\<close>

definition default_missing_input_item_type :: "json \<Rightarrow> json" where
  "default_missing_input_item_type data =
     (case data of
        JObj d \<Rightarrow>
          (case jget d ''input'' of
             JList raw \<Rightarrow>
               JObj (dict_set ''input'' (JList (map (\<lambda>item.
                 case item of
                   JObj i \<Rightarrow> (if ''type'' \<notin> fst ` set i then JObj (dict_set ''type'' (JStr ''message'') i) else item)
                 | _ \<Rightarrow> item) raw)) d)
           | _ \<Rightarrow> data)
      | _ \<Rightarrow> data)"

definition validate_lifecycle_fields :: "r_request \<Rightarrow> py_error + r_request" where
  "validate_lifecycle_fields r =
     (if rq_previous_response_id r \<noteq> None \<and> rq_conversation r \<noteq> None
      then Inl (ValueError ''previous_response_id and conversation are mutually exclusive'')
      else if rq_stream_options r \<noteq> None \<and> \<not> rq_streams r
      then Inl (ValueError ''stream_options requires stream=true'')
      else Inr r)"

definition require_one_image_source :: "execution_image \<Rightarrow> py_error + execution_image" where
  "require_one_image_source i =
     (if (ei_image_url i = None) = (ei_file_id i = None)
      then Inl (ValueError ''input_image requires exactly one of image_url or file_id'') else Inr i)"

section \<open>Dumping\<close>

definition dump_r_part :: "r_text_part \<Rightarrow> json" where
  "dump_r_part p = JObj ((''type'', JStr (rtp_type p)) # opt_entry ''text'' JStr (rtp_text p))"

fun dump_exec_content :: "execution_content \<Rightarrow> json" where
  "dump_exec_content (ExecText t) = tagged ''input_text'' [(''text'', JStr t)]"
| "dump_exec_content (ExecImage i) =
     tagged ''input_image'' (opt_entry ''image_url'' JStr (ei_image_url i) @
       opt_entry ''file_id'' JStr (ei_file_id i) @ opt_entry ''detail'' JStr (ei_detail i))"
| "dump_exec_content (ExecFile f) =
     tagged ''input_file'' (opt_entry ''file_id'' JStr (ef_file_id f) @ opt_entry ''file_url'' JStr (ef_file_url f) @
       opt_entry ''filename'' JStr (ef_filename f) @ opt_entry ''file_data'' JStr (ef_file_data f))"

definition dump_exec_text :: "execution_text \<Rightarrow> json" where
  "dump_exec_text t = JObj (opt_entry ''type'' JStr (ext_type t) @ [(''text'', JStr (ext_text t))])"

fun dump_r_item :: "r_item \<Rightarrow> json" where
  "dump_r_item (RMessage m) =
     JObj [(''role'', JStr (rmg_role m)), (''content'', dump_content dump_r_part (rmg_content m)),
           (''type'', JStr ''message'')]"
| "dump_r_item (RFunctionCall c) =
     tagged ''function_call'' ([(''call_id'', JStr (ecl_call_id c)), (''name'', JStr (ecl_name c)),
       (''arguments'', JStr (ecl_arguments c))] @ opt_entry ''id'' JStr (ecl_id c) @ opt_entry ''status'' JStr (ecl_status c))"
| "dump_r_item (RFunctionOutput c) =
     tagged ''function_call_output'' ([(''call_id'', JStr (eo_call_id c)),
       (''output'', dump_content dump_exec_content (eo_output c))] @
       opt_entry ''id'' JStr (eo_id c) @ opt_entry ''status'' JStr (eo_status c))"
| "dump_r_item (RReasoning c) =
     tagged ''reasoning'' (opt_entry ''id'' JStr (exr_id c) @
       opt_entry ''summary'' (\<lambda>ts. JList (map dump_exec_text ts)) (exr_summary c) @
       opt_entry ''content'' (\<lambda>ts. JList (map dump_exec_text ts)) (exr_content c) @
       opt_entry ''encrypted_content'' JStr (exr_encrypted c) @ opt_entry ''status'' JStr (exr_status c))"
| "dump_r_item (RItemReference i) = tagged ''item_reference'' [(''id'', JStr i)]"

fun dump_r_input :: "r_input \<Rightarrow> json" where
  "dump_r_input (InputText t) = JStr t"
| "dump_r_input (InputItems is) = JList (map dump_r_item is)"

fun dump_str_or_object :: "str_or_object \<Rightarrow> json" where
  "dump_str_or_object (AsString s) = JStr s"
| "dump_str_or_object (AsObject d) = JObj d"

definition jobjs :: "json_object list \<Rightarrow> json" where
  "jobjs ds = JList (map JObj ds)"

definition jstr_dict :: "string dict \<Rightarrow> json" where
  "jstr_dict d = JObj (map (\<lambda>(k, v). (k, JStr v)) d)"

definition dump_r_reasoning :: "r_reasoning \<Rightarrow> json" where
  "dump_r_reasoning r =
     JObj (opt_entry ''context'' JStr (rrs_context r) @ opt_entry ''effort'' JStr (rrs_effort r) @
       opt_entry ''generate_summary'' JStr (rrs_generate_summary r) @ opt_entry ''mode'' JStr (rrs_mode r) @
       opt_entry ''summary'' JStr (rrs_summary r))"

definition dump_r_request :: "r_request \<Rightarrow> json_object" where
  "dump_r_request r =
     [(''model'', JStr (rq_model r)), (''input'', dump_r_input (rq_input r))] @
     opt_entry ''instructions'' (dump_content dump_r_part) (rq_instructions r) @
     opt_entry ''background'' JBool (rq_background r) @
     opt_entry ''client_metadata'' jstr_dict (rq_client_metadata r) @
     opt_entry ''context_management'' jobjs (rq_context_management r) @
     opt_entry ''conversation'' dump_str_or_object (rq_conversation r) @
     opt_entry ''include'' jstrs (rq_include r) @
     opt_entry ''stream'' JBool (rq_stream r) @
     opt_entry ''max_output_tokens'' JInt (rq_max_output_tokens r) @
     opt_entry ''max_tool_calls'' JInt (rq_max_tool_calls r) @
     opt_entry ''temperature'' JFloat (rq_temperature r) @
     opt_entry ''top_p'' JFloat (rq_top_p r) @
     opt_entry ''tools'' jobjs (rq_tools r) @
     opt_entry ''tool_choice'' dump_str_or_object (rq_tool_choice r) @
     opt_entry ''previous_response_id'' JStr (rq_previous_response_id r) @
     opt_entry ''metadata'' jstr_dict (rq_metadata r) @
     opt_entry ''moderation'' JObj (rq_moderation r) @
     opt_entry ''parallel_tool_calls'' JBool (rq_parallel_tool_calls r) @
     opt_entry ''prompt'' JObj (rq_prompt r) @
     opt_entry ''prompt_cache_key'' JStr (rq_prompt_cache_key r) @
     opt_entry ''prompt_cache_options'' JObj (rq_prompt_cache_options r) @
     opt_entry ''prompt_cache_retention'' JStr (rq_prompt_cache_retention r) @
     opt_entry ''reasoning'' dump_r_reasoning (rq_reasoning r) @
     opt_entry ''safety_identifier'' JStr (rq_safety_identifier r) @
     opt_entry ''service_tier'' JStr (rq_service_tier r) @
     opt_entry ''store'' JBool (rq_store r) @
     opt_entry ''stream_options'' JObj (rq_stream_options r) @
     opt_entry ''text'' (\<lambda>t. JObj (opt_entry ''format'' JObj (rtc_format t) @
       opt_entry ''verbosity'' JStr (rtc_verbosity t))) (rq_text r) @
     opt_entry ''top_logprobs'' JInt (rq_top_logprobs r) @
     opt_entry ''truncation'' JStr (rq_truncation r) @
     opt_entry ''user'' JStr (rq_user r)"

section \<open>The payload\<close>

definition governed_part :: "r_text_part \<Rightarrow> bool" where
  "governed_part p \<longleftrightarrow> rtp_type p \<in> {''input_text'', ''text''}"

fun is_governed_user_message :: "r_item \<Rightarrow> bool" where
  "is_governed_user_message (RMessage m) = (py_lower (rmg_role m) = ''user'')"
| "is_governed_user_message _ = False"

type_synonym leaf_key = "nat option \<times> nat option"

record r_leaf =
  rl_key :: leaf_key  \<comment> \<open>item index and part index\<close>
  rl_text :: string

fun part_leaves :: "nat \<Rightarrow> nat \<Rightarrow> r_text_part list \<Rightarrow> r_leaf list" where
  "part_leaves i j [] = []"
| "part_leaves i j (p # ps) =
     (if governed_part p then [\<lparr>rl_key = (Some i, Some j), rl_text = str_or (rtp_text p)\<rparr>] else []) @
     part_leaves i (Suc j) ps"

fun item_leaves :: "nat \<Rightarrow> r_item \<Rightarrow> r_leaf list" where
  "item_leaves i (RMessage m) =
     (if \<not> is_governed_user_message (RMessage m) then []
      else (case rmg_content m of
              ContentStr s \<Rightarrow> [\<lparr>rl_key = (Some i, None), rl_text = s\<rparr>]
            | ContentParts ps \<Rightarrow> part_leaves i 0 ps))"
| "item_leaves i _ = []"

fun items_leaves :: "nat \<Rightarrow> r_item list \<Rightarrow> r_leaf list" where
  "items_leaves i [] = []"
| "items_leaves i (it # its) = item_leaves i it @ items_leaves (Suc i) its"

definition responses_governed_leaves :: "r_input \<Rightarrow> r_leaf list" where
  "responses_governed_leaves v =
     (case v of
        InputText s \<Rightarrow> [\<lparr>rl_key = (None, None), rl_text = s\<rparr>]
      | InputItems its \<Rightarrow> items_leaves 0 its)"

record r_payload =
  rp_request :: r_request

definition r_native_providers :: "string list" where
  "r_native_providers = [''openai'']"

definition r_governance_text :: "r_payload \<Rightarrow> string" where
  "r_governance_text p = concat (map rl_text (responses_governed_leaves (rq_input (rp_request p))))"

fun replace_r_parts :: "(leaf_key \<Rightarrow> string option) \<Rightarrow> nat \<Rightarrow> nat \<Rightarrow> r_text_part list \<Rightarrow> r_text_part list" where
  "replace_r_parts f i j [] = []"
| "replace_r_parts f i j (p # ps) =
     (case f (Some i, Some j) of None \<Rightarrow> p | Some t \<Rightarrow> p\<lparr>rtp_text := Some t\<rparr>) # replace_r_parts f i (Suc j) ps"

fun replace_r_item :: "(leaf_key \<Rightarrow> string option) \<Rightarrow> nat \<Rightarrow> r_item \<Rightarrow> r_item" where
  "replace_r_item f i (RMessage m) =
     (case f (Some i, None) of
        Some t \<Rightarrow> RMessage (m\<lparr>rmg_content := ContentStr t\<rparr>)
      | None \<Rightarrow>
          (case rmg_content m of
             ContentStr s \<Rightarrow> RMessage m
           | ContentParts ps \<Rightarrow> RMessage (m\<lparr>rmg_content := ContentParts (replace_r_parts f i 0 ps)\<rparr>)))"
| "replace_r_item f i it = it"

text \<open>The loop over \<open>governed_item_indexes\<close>.\<close>

fun replace_r_items :: "(leaf_key \<Rightarrow> string option) \<Rightarrow> nat option set \<Rightarrow> nat \<Rightarrow> r_item list \<Rightarrow> r_item list" where
  "replace_r_items f idx i [] = []"
| "replace_r_items f idx i (it # its) =
     (if Some i \<in> idx then replace_r_item f i it else it) # replace_r_items f idx (Suc i) its"

definition r_with_redacted_text :: "r_payload \<Rightarrow> string \<Rightarrow> r_payload" where
  "r_with_redacted_text p redacted =
     (let r = rp_request p;
          lvs = responses_governed_leaves (rq_input r);
          replacements = redistribute_redacted_text (map rl_text lvs) redacted
      in case rq_input r of
           InputText s \<Rightarrow> \<lparr>rp_request = r\<lparr>rq_input := InputText (case replacements of [] \<Rightarrow> [] | t # _ \<Rightarrow> t)\<rparr>\<rparr>
         | InputItems its \<Rightarrow>
             \<lparr>rp_request = r\<lparr>rq_input := InputItems
                (replace_r_items (map_of (zip (map rl_key lvs) replacements)) (fst ` set (map rl_key lvs)) 0 its)\<rparr>\<rparr>)"

definition r_native_body :: "r_payload \<Rightarrow> json_object" where
  "r_native_body p = dump_r_request (rp_request p)"

section \<open>Leaves and frame\<close>

definition r_leaves :: "r_payload \<Rightarrow> string list" where
  "r_leaves p = map rl_text (responses_governed_leaves (rq_input (rp_request p)))"

definition blank_r_part :: "r_text_part \<Rightarrow> r_text_part" where
  "blank_r_part p = (if governed_part p then p\<lparr>rtp_text := None\<rparr> else p)"

fun blank_r_item :: "r_item \<Rightarrow> r_item" where
  "blank_r_item (RMessage m) =
     (if is_governed_user_message (RMessage m)
      then RMessage (m\<lparr>rmg_content := (case rmg_content m of ContentStr s \<Rightarrow> ContentStr []
             | ContentParts ps \<Rightarrow> ContentParts (map blank_r_part ps))\<rparr>)
      else RMessage m)"
| "blank_r_item it = it"

definition r_frame :: "r_payload \<Rightarrow> r_request" where
  "r_frame p =
     (let r = rp_request p in
      r\<lparr>rq_input := (case rq_input r of InputText s \<Rightarrow> InputText [] | InputItems its \<Rightarrow> InputItems (map blank_r_item its))\<rparr>)"

lemma map_of_zip_keys:
  "distinct ks \<Longrightarrow> length rs = length ks \<Longrightarrow> map (\<lambda>k. the (map_of (zip ks rs) k)) ks = rs"
proof (induction ks arbitrary: rs)
  case (Cons k ks)
  then obtain t ts where rs: "rs = t # ts" by (cases rs) auto
  have "map (\<lambda>k'. the (map_of (zip (k # ks) rs) k')) ks = map (\<lambda>k'. the (map_of (zip ks ts) k')) ks"
    using Cons.prems(1) by (intro map_cong) (auto simp: rs)
  also have "\<dots> = ts" using Cons rs by simp
  finally have "map (\<lambda>k'. the (map_of (zip (k # ks) rs) k')) ks = ts" .
  moreover have "the (map_of (zip (k # ks) rs) k) = t" by (simp add: rs)
  ultimately show ?case unfolding list.map by (simp only: rs)
qed simp

lemma governed_update [simp]:
  "governed_part (p\<lparr>rtp_text := t\<rparr>) = governed_part p"
  "blank_r_part (p\<lparr>rtp_text := t\<rparr>) = (if governed_part p then blank_r_part p else p\<lparr>rtp_text := t\<rparr>)"
  by (simp_all add: governed_part_def blank_r_part_def)

lemma part_leaf_key: "l \<in> set (part_leaves i j ps) \<Longrightarrow> \<exists>j'\<ge>j. rl_key l = (Some i, Some j')"
  by (induction i j ps rule: part_leaves.induct) (auto intro: Suc_leD split: if_splits)

lemma item_leaf_key: "l \<in> set (item_leaves i it) \<Longrightarrow> fst (rl_key l) = Some i"
  by (induction i it rule: item_leaves.induct) (auto dest: part_leaf_key split: content.splits if_splits)

lemma items_leaf_key: "l \<in> set (items_leaves i its) \<Longrightarrow> \<exists>i'\<ge>i. fst (rl_key l) = Some i'"
  by (induction i its rule: items_leaves.induct) (fastforce dest: item_leaf_key intro: Suc_leD)+

lemma part_keys_distinct: "distinct (map rl_key (part_leaves i j ps))"
  by (induction i j ps rule: part_leaves.induct) (fastforce dest: part_leaf_key)+

lemma item_keys_distinct: "distinct (map rl_key (item_leaves i it))"
  by (induction i it rule: item_leaves.induct) (auto simp: part_keys_distinct split: content.splits)

lemma items_keys_distinct: "distinct (map rl_key (items_leaves i its))"
proof (induction i its rule: items_leaves.induct)
  case (2 i it its)
  have "k \<notin> rl_key ` set (items_leaves (Suc i) its)" if "k \<in> rl_key ` set (item_leaves i it)" for k
    using that items_leaf_key [of _ "Suc i" its] item_leaf_key [of _ i it] by fastforce
  then show ?case using 2 item_keys_distinct by auto
qed simp

text \<open>Replacing by a function of the keys that is defined on exactly the leaves' keys.\<close>

definition keyed :: "(leaf_key \<Rightarrow> string option) \<Rightarrow> leaf_key list \<Rightarrow> r_leaf list" where
  "keyed f ks = map (\<lambda>k. \<lparr>rl_key = k, rl_text = the (f k)\<rparr>) ks"

lemma replace_r_parts_leaves:
  assumes "\<And>j. f (Some i, Some j) \<noteq> None \<longleftrightarrow> (Some i, Some j) \<in> K"
  shows "(\<And>j'. j \<le> j' \<Longrightarrow> (Some i, Some j') \<in> K \<longleftrightarrow> (Some i, Some j') \<in> rl_key ` set (part_leaves i j ps)) \<Longrightarrow>
    part_leaves i j (replace_r_parts f i j ps) = keyed f (map rl_key (part_leaves i j ps)) \<and>
    map blank_r_part (replace_r_parts f i j ps) = map blank_r_part ps"
proof (induction ps arbitrary: j)
  case (Cons p ps)
  have key: "(Some i, Some j) \<in> rl_key ` set (part_leaves i j (p # ps)) \<longleftrightarrow> governed_part p"
    using part_leaf_key [of _ i "Suc j" ps] by fastforce
  have "(Some i, Some j') \<in> rl_key ` set (part_leaves i j (p # ps)) \<longleftrightarrow>
      (Some i, Some j') \<in> rl_key ` set (part_leaves i (Suc j) ps)" if "Suc j \<le> j'" for j'
    using that by auto
  then have ih: "part_leaves i (Suc j) (replace_r_parts f i (Suc j) ps) = keyed f (map rl_key (part_leaves i (Suc j) ps)) \<and>
    map blank_r_part (replace_r_parts f i (Suc j) ps) = map blank_r_part ps"
    using Cons.IH [of "Suc j"] Cons.prems by (metis Suc_leD)
  have "f (Some i, Some j) \<noteq> None \<longleftrightarrow> governed_part p"
    using assms Cons.prems [of j] key by simp
  then show ?case using ih
    by (cases "f (Some i, Some j)") (auto simp: keyed_def str_or_def)
qed (simp add: keyed_def)

lemma replace_r_item_leaves:
  assumes "\<And>k. f k \<noteq> None \<longleftrightarrow> k \<in> K" "\<And>j. (Some i, j) \<in> K \<longleftrightarrow> (Some i, j) \<in> rl_key ` set (item_leaves i it)"
  shows "item_leaves i (replace_r_item f i it) = keyed f (map rl_key (item_leaves i it)) \<and>
    blank_r_item (replace_r_item f i it) = blank_r_item it"
proof (cases it)
  case (RMessage m)
  show ?thesis
  proof (cases "is_governed_user_message it")
    case gov: True
    show ?thesis
    proof (cases "rmg_content m")
      case (ContentStr s)
      then have "f (Some i, None) \<noteq> None" using assms gov RMessage by simp
      then show ?thesis using gov RMessage ContentStr by (auto simp: keyed_def)
    next
      case (ContentParts ps)
      have "(Some i, None) \<notin> rl_key ` set (part_leaves i 0 ps)" by (force dest: part_leaf_key)
      then have "(Some i, None) \<notin> K" using assms(2) [of None] gov RMessage ContentParts by simp
      then have n: "f (Some i, None) = None" using assms(1) by blast
      have K: "(Some i, Some j') \<in> K \<longleftrightarrow> (Some i, Some j') \<in> rl_key ` set (part_leaves i 0 ps)" for j'
        using assms(2) gov RMessage ContentParts by simp
      from replace_r_parts_leaves [where f = f and i = i and K = K and j = 0 and ps = ps, OF assms(1) K]
      show ?thesis using gov RMessage ContentParts n by simp
    qed
  next
    case False
    then have "(Some i, j) \<notin> K" for j using assms(2) [of j] RMessage by simp
    then have none: "f (Some i, j) = None" for j using assms(1) by blast
    have "replace_r_parts f i j ps = ps" for j ps by (induction ps arbitrary: j) (simp_all add: none)
    then show ?thesis using False RMessage by (auto simp: none keyed_def split: content.splits)
  qed
qed (simp_all add: keyed_def)

lemma replace_r_items_leaves:
  assumes "\<And>k. f k \<noteq> None \<longleftrightarrow> k \<in> K"
  shows "(\<And>i' j. i \<le> i' \<Longrightarrow> (Some i', j) \<in> K \<longleftrightarrow> (Some i', j) \<in> rl_key ` set (items_leaves i its)) \<Longrightarrow>
    items_leaves i (replace_r_items f (fst ` K) i its) = keyed f (map rl_key (items_leaves i its)) \<and>
    map blank_r_item (replace_r_items f (fst ` K) i its) = map blank_r_item its"
proof (induction its arbitrary: i)
  case (Cons it its)
  have later: "(Some i, j) \<notin> rl_key ` set (items_leaves (Suc i) its)" for j
    by (auto dest!: items_leaf_key) (metis Suc_n_not_le_n fst_conv option.inject)
  have here: "(Some i, j) \<in> K \<longleftrightarrow> (Some i, j) \<in> rl_key ` set (item_leaves i it)" for j
    using Cons.prems [of i j] later by auto
  have rest: "(Some i', j) \<in> K \<longleftrightarrow> (Some i', j) \<in> rl_key ` set (items_leaves (Suc i) its)" if "Suc i \<le> i'" for i' j
  proof -
    have "(Some i', j) \<notin> rl_key ` set (item_leaves i it)" using that
      by (auto dest!: item_leaf_key) (metis Suc_n_not_le_n fst_conv option.inject)
    then show ?thesis using Cons.prems [of i' j] that by auto
  qed
  note ih = Cons.IH [OF rest]
  show ?case
  proof (cases "Some i \<in> fst ` K")
    case True
    then show ?thesis using ih replace_r_item_leaves [OF assms here] by (simp add: keyed_def)
  next
    case False
    then have "(Some i, j) \<notin> K" for j by force
    then have "item_leaves i it = []"
      using here item_leaf_key [of _ i it] by (cases "item_leaves i it") (auto, metis prod.collapse)
    then show ?thesis using ih False by (simp add: keyed_def)
  qed
qed (simp add: keyed_def)

lemma r_redact_facts:
  "r_leaves (r_with_redacted_text p r) = redistribute_redacted_text (r_leaves p) r \<and>
   r_frame (r_with_redacted_text p r) = r_frame p"
proof (cases "rq_input (rp_request p)")
  case (InputText s)
  have "redistribute_redacted_text [s] r = [r]"
    by (rule redact_single)
  then show ?thesis using InputText
    by (simp add: r_leaves_def r_frame_def r_with_redacted_text_def responses_governed_leaves_def Let_def)
next
  case (InputItems its)
  let ?lvs = "items_leaves 0 its"
  let ?rs = "redistribute_redacted_text (map rl_text ?lvs) r"
  let ?f = "map_of (zip (map rl_key ?lvs) ?rs)"
  have len: "length ?rs = length (map rl_key ?lvs)" by (simp add: redistribute_length)
  have "(?f k \<noteq> None) = (k \<in> set (map rl_key ?lvs))" for k
    using len by (metis dom_map_of_zip domIff)
  then have r: "items_leaves 0 (replace_r_items ?f (fst ` set (map rl_key ?lvs)) 0 its) = keyed ?f (map rl_key ?lvs)"
    "map blank_r_item (replace_r_items ?f (fst ` set (map rl_key ?lvs)) 0 its) = map blank_r_item its"
    using replace_r_items_leaves [of ?f "set (map rl_key ?lvs)" 0 its] by simp_all
  have "map rl_text (keyed ?f (map rl_key ?lvs)) = map (\<lambda>k. the (?f k)) (map rl_key ?lvs)"
    by (simp add: keyed_def)
  also have "\<dots> = ?rs" by (rule map_of_zip_keys [OF items_keys_distinct len])
  finally show ?thesis using InputItems r
    by (simp add: r_leaves_def r_frame_def r_with_redacted_text_def responses_governed_leaves_def Let_def)
qed

interpretation responses: gateway_payload r_leaves r_governance_text r_with_redacted_text r_frame
  by unfold_locales (simp_all add: r_redact_facts, simp add: r_leaves_def r_governance_text_def)

section \<open>To a Chat body\<close>

definition parts_to_text :: "string \<Rightarrow> r_text_part list \<Rightarrow> string + string" where
  "parts_to_text field_name parts =
     ebind (emap (\<lambda>p.
        if \<not> governed_part p then Inl (''Unsupported '' @ field_name @ '' content part type: '' @ rtp_type p)
        else (case rtp_text p of
                None \<Rightarrow> Inl (field_name @ '' text parts must include text'')
              | Some t \<Rightarrow> Inr t)) parts) (\<lambda>ts. Inr (concat ts))"

definition content_to_text :: "string \<Rightarrow> r_text_part content \<Rightarrow> string + string" where
  "content_to_text field_name c =
     (case c of ContentStr s \<Rightarrow> Inr s | ContentParts ps \<Rightarrow> parts_to_text field_name ps)"

fun r_item_type :: "r_item \<Rightarrow> string" where
  "r_item_type (RMessage m) = ''message''"
| "r_item_type (RFunctionCall c) = ''function_call''"
| "r_item_type (RFunctionOutput c) = ''function_call_output''"
| "r_item_type (RReasoning c) = ''reasoning''"
| "r_item_type (RItemReference i) = ''item_reference''"

definition chat_role :: "string \<Rightarrow> string" where
  "chat_role role = (if py_lower role = ''developer'' then ''system'' else py_lower role)"

definition item_to_message :: "nat \<Rightarrow> r_item \<Rightarrow> string + json_object" where
  "item_to_message index item =
     (case item of
        RMessage m \<Rightarrow>
          (if chat_role (rmg_role m) \<notin> {''system'', ''user'', ''assistant''}
           then Inl (''Unsupported input role at index '' @ py_str_int (int index) @ '': '' @ rmg_role m)
           else ebind (content_to_text (''input['' @ py_str_int (int index) @ ''].content'') (rmg_content m))
             (\<lambda>t. Inr (text_message (chat_role (rmg_role m)) t)))
      | _ \<Rightarrow> Inl (''Unsupported input item type at index '' @ py_str_int (int index) @ '': '' @ r_item_type item))"

fun items_to_messages :: "nat \<Rightarrow> r_item list \<Rightarrow> string + json_object list" where
  "items_to_messages i [] = Inr []"
| "items_to_messages i (it # its) =
     ebind (item_to_message i it) (\<lambda>m. ebind (items_to_messages (Suc i) its) (\<lambda>ms. Inr (m # ms)))"

definition unsupported_response_fields :: "r_request \<Rightarrow> string list" where
  "unsupported_response_fields r =
     map fst (filter snd
       [(''background'', rq_background r = Some True), (''client_metadata'', rq_client_metadata r \<noteq> None),
        (''context_management'', rq_context_management r \<noteq> None), (''conversation'', rq_conversation r \<noteq> None),
        (''include'', rq_include r \<noteq> None), (''max_tool_calls'', rq_max_tool_calls r \<noteq> None),
        (''moderation'', rq_moderation r \<noteq> None), (''parallel_tool_calls'', rq_parallel_tool_calls r \<noteq> None),
        (''prompt'', rq_prompt r \<noteq> None), (''prompt_cache_key'', rq_prompt_cache_key r \<noteq> None),
        (''prompt_cache_options'', rq_prompt_cache_options r \<noteq> None),
        (''prompt_cache_retention'', rq_prompt_cache_retention r \<noteq> None), (''reasoning'', rq_reasoning r \<noteq> None),
        (''safety_identifier'', rq_safety_identifier r \<noteq> None), (''service_tier'', rq_service_tier r \<noteq> None),
        (''store'', rq_store r \<noteq> None), (''stream_options'', rq_stream_options r \<noteq> None),
        (''text'', rq_text r \<noteq> None), (''top_logprobs'', rq_top_logprobs r \<noteq> None),
        (''truncation'', rq_truncation r \<noteq> None), (''user'', rq_user r \<noteq> None)])"

definition refuse_if :: "bool \<Rightarrow> string \<Rightarrow> string + unit" where
  "refuse_if b msg = (if b then Inl msg else Inr ())"

definition instruction_messages :: "r_request \<Rightarrow> string + json_object list" where
  "instruction_messages r =
     (case rq_instructions r of
        None \<Rightarrow> Inr []
      | Some c \<Rightarrow> ebind (content_to_text ''instructions'' c) (\<lambda>t. Inr [text_message ''system'' t]))"

definition input_messages :: "r_input \<Rightarrow> string + json_object list" where
  "input_messages v =
     (case v of
        InputText s \<Rightarrow> Inr [text_message ''user'' s]
      | InputItems its \<Rightarrow> items_to_messages 0 its)"

definition request_to_chat_body :: "r_request \<Rightarrow> string + json_object" where
  "request_to_chat_body r =
     ebind (refuse_if (rq_tools r \<noteq> None \<and> rq_tools r \<noteq> Some []) ''Responses tools are not supported yet'') (\<lambda>_.
     ebind (refuse_if (rq_tool_choice r \<noteq> None) ''Responses tool_choice is not supported yet'') (\<lambda>_.
     ebind (refuse_if (rq_previous_response_id r \<noteq> None) ''previous_response_id is not supported yet'') (\<lambda>_.
     ebind (refuse_if (unsupported_response_fields r \<noteq> [])
         (''Responses fields are not supported by chat translation: '' @
          py_join '', '' (unsupported_response_fields r))) (\<lambda>_.
     ebind (instruction_messages r) (\<lambda>instr.
     ebind (input_messages (rq_input r)) (\<lambda>ms.
     ebind (refuse_if (instr @ ms = []) ''Responses requests must include at least one message'') (\<lambda>_.
       Inr ([(''model'', JStr (rq_model r)), (''messages'', JList (map JObj (instr @ ms))),
             (''stream'', JBool (rq_streams r))] @
            opt_entry ''max_tokens'' JInt (rq_max_output_tokens r) @
            opt_entry ''temperature'' JFloat (rq_temperature r) @
            opt_entry ''top_p'' JFloat (rq_top_p r)))))))))"

definition r_to_chat_body :: "r_payload \<Rightarrow> string + json_object" where
  "r_to_chat_body p = request_to_chat_body (rp_request p)"

definition translate_responses_request :: "(json_object \<Rightarrow> r_request option) \<Rightarrow> json_object \<Rightarrow> string + json_object" where
  \<comment> \<open>the first argument validates the object as a request\<close>
  "translate_responses_request validate payload =
     (case validate payload of
        None \<Rightarrow> Inl ''Request body does not match the supported OpenAI Responses subset''
      | Some r \<Rightarrow> request_to_chat_body r)"

section \<open>From a Chat response\<close>

definition status_from_finish_reason :: "string option \<Rightarrow> string \<times> json" where
  "status_from_finish_reason f =
     (if f = Some ''length'' then (''incomplete'', JObj [(''reason'', JStr ''max_output_tokens'')])
      else (''completed'', JNull))"

fun assistant_text :: "response_choice list \<Rightarrow> string" where
  "assistant_text [] = []"
| "assistant_text (ch # chs) =
     (case rm_content (rc_message ch) of
        Some (TextContent s) \<Rightarrow> s
      | Some (PartsContent ps) \<Rightarrow>
          concat (map (\<lambda>p. case jget p ''text'' of JStr t \<Rightarrow> t | _ \<Rightarrow> []) ps)
      | None \<Rightarrow> assistant_text chs)"

definition output_text_json :: "string \<Rightarrow> json" where
  "output_text_json t = tagged ''output_text'' [(''text'', JStr t), (''annotations'', JList [])]"

definition output_message :: "string \<Rightarrow> string \<Rightarrow> json list \<Rightarrow> json" where
  "output_message i status content =
     JObj [(''id'', JStr i), (''type'', JStr ''message''), (''status'', JStr status),
           (''role'', JStr ''assistant''), (''content'', JList content)]"

definition output_call :: "string \<Rightarrow> string \<Rightarrow> string \<Rightarrow> string \<Rightarrow> string \<Rightarrow> json" where
  "output_call i status call_id name arguments =
     JObj [(''id'', JStr i), (''type'', JStr ''function_call''), (''status'', JStr status),
           (''call_id'', JStr call_id), (''name'', JStr name), (''arguments'', JStr arguments)]"

definition responses_usage :: "int \<Rightarrow> int \<Rightarrow> int \<Rightarrow> json" where
  "responses_usage i out_tokens t =
     JObj [(''input_tokens'', JInt i), (''output_tokens'', JInt out_tokens), (''total_tokens'', JInt t),
           (''input_tokens_details'', JObj [(''cached_tokens'', JInt 0)]),
           (''output_tokens_details'', JObj [(''reasoning_tokens'', JInt 0)])]"

definition responses_response :: "string \<Rightarrow> int \<Rightarrow> string \<Rightarrow> string \<Rightarrow> json list \<Rightarrow> string \<Rightarrow> json \<Rightarrow> json \<Rightarrow> json_object" where
  "responses_response i created status model output text details usage =
     [(''id'', JStr i), (''object'', JStr ''response''), (''created_at'', JInt created), (''status'', JStr status),
      (''model'', JStr model), (''output'', JList output), (''output_text'', JStr text), (''error'', JNull),
      (''incomplete_details'', details), (''usage'', usage)]"

definition nonempty_str :: "json \<Rightarrow> bool" where
  "nonempty_str v = (case v of JStr s \<Rightarrow> s \<noteq> [] | _ \<Rightarrow> False)"

definition tool_call_output :: "string \<Rightarrow> nat \<Rightarrow> json_object \<Rightarrow> string + json" where
  "tool_call_output status index call =
     (let what = ''Chat tool call '' @ py_str_int (int index) in
      case jget call ''function'' of
        JObj f \<Rightarrow>
          (if \<not> nonempty_str (jget call ''id'') then Inl (what @ '' has invalid identity'')
           else if \<not> nonempty_str (jget f ''name'') then Inl (what @ '' has invalid identity'')
           else (case (jget call ''id'', jget f ''name'', jget f ''arguments'') of
                   (JStr i, JStr n, JStr a) \<Rightarrow> Inr (output_call (''fc_'' @ i) status i n a)
                 | _ \<Rightarrow> Inl (what @ '' has invalid arguments'')))
      | _ \<Rightarrow> Inl (what @ '' is missing function''))"

fun tool_call_outputs :: "string \<Rightarrow> nat \<Rightarrow> json_object list \<Rightarrow> string + json list" where
  "tool_call_outputs status i [] = Inr []"
| "tool_call_outputs status i (c # cs) =
     ebind (tool_call_output status i c) (\<lambda>v. ebind (tool_call_outputs status (Suc i) cs) (\<lambda>vs. Inr (v # vs)))"

definition first_calls :: "response_choice list \<Rightarrow> json_object list" where
  "first_calls chs =
     (case chs of [] \<Rightarrow> [] | ch # _ \<Rightarrow> (case rm_tool_calls (rc_message ch) of None \<Rightarrow> [] | Some cs \<Rightarrow> cs))"

text \<open>\<open>response_id.replace("resp_", "msg_", 1)\<close> for an id that starts with \<open>resp_\<close>.\<close>

definition translate_chat_response :: "(json_object \<Rightarrow> (chat_response \<times> int) option) \<Rightarrow> json_object \<Rightarrow> string + json_object" where
  \<comment> \<open>validation gives the response and its creation time as an integer\<close>
  "translate_chat_response validate body =
     (case validate body of
        None \<Rightarrow> Inl ''Chat response does not match the supported envelope''
      | Some (r, created) \<Rightarrow>
          (let chat_id = crs_id r;
               response_id = (if py_startswith chat_id ''resp_'' then chat_id else ''resp_'' @ chat_id);
               message_id = ''msg_'' @ drop 5 response_id;
               text = assistant_text (crs_choices r);
               finish = (case crs_choices r of [] \<Rightarrow> None | ch # _ \<Rightarrow> rc_finish_reason ch);
               (status, details) = status_from_finish_reason finish;
               calls = first_calls (crs_choices r);
               message = (if text \<noteq> [] \<or> calls = []
                          then [output_message message_id status [output_text_json text]] else []);
               u = crs_usage r
           in ebind (tool_call_outputs status 0 calls) (\<lambda>outs.
                Inr (responses_response response_id created status (crs_model r) (message @ outs) text details
                  (responses_usage (ru_prompt_tokens u) (ru_completion_tokens u) (ru_total_tokens u))))))"

section \<open>From a Chat stream\<close>

definition sse_frame_object :: "string \<Rightarrow> json_object \<Rightarrow> json_object" where
  "sse_frame_object event_type kvs = (''type'', JStr event_type) # kvs"

definition sse_frame :: "(json \<Rightarrow> string) \<Rightarrow> json_object \<Rightarrow> string" where
  "sse_frame dumps payload = sse_data (dumps (JObj payload))"

record streaming_call =
  sc_item_id :: string
  sc_call_id :: string
  sc_name :: string
  sc_output_index :: nat
  sc_arguments :: string

record r_ids =  \<comment> \<open>what the generator draws once, and the fresh id of the item at an output index\<close>
  ri_response_id :: string
  ri_message_id :: string
  ri_created_at :: int
  ri_item_id :: "nat \<Rightarrow> string"

record r_stream_state =
  rs_next_index :: nat
  rs_model :: string
  rs_finish :: "string option"
  rs_fragments :: "string list"
  rs_text_index :: "nat option"
  rs_calls :: "(nat \<times> streaming_call) list"  \<comment> \<open>distinct tool indexes\<close>
  rs_usage :: json

definition r_stream_init :: "string \<Rightarrow> r_stream_state" where
  "r_stream_init model = \<lparr>rs_next_index = 0, rs_model = model, rs_finish = None, rs_fragments = [],
     rs_text_index = None, rs_calls = [], rs_usage = responses_usage 0 0 0\<rparr>"

definition created_frame :: "r_ids \<Rightarrow> string \<Rightarrow> json_object" where
  "created_frame ids model =
     sse_frame_object ''response.created'' [(''response'', JObj [
       (''id'', JStr (ri_response_id ids)), (''object'', JStr ''response''), (''created_at'', JInt (ri_created_at ids)),
       (''status'', JStr ''in_progress''), (''model'', JStr model), (''output'', JList []), (''output_text'', JStr []),
       (''error'', JNull), (''incomplete_details'', JNull), (''usage'', JNull)])]"

text \<open>\<open>sorted(function_calls)\<close>: the calls in the order of their tool indexes.\<close>

definition sorted_calls :: "r_stream_state \<Rightarrow> streaming_call list" where
  "sorted_calls s = map snd (sort_key fst (rs_calls s))"

definition call_json :: "string \<Rightarrow> streaming_call \<Rightarrow> json" where
  "call_json status c = output_call (sc_item_id c) status (sc_call_id c) (sc_name c) (sc_arguments c)"

definition failed_frame :: "r_ids \<Rightarrow> r_stream_state \<Rightarrow> string \<Rightarrow> string \<Rightarrow> json_object" where
  "failed_frame ids s error_type error_message =
     (let text = concat (rs_fragments s);
          output = (case rs_text_index s of None \<Rightarrow> []
              | Some i \<Rightarrow> [output_message (ri_message_id ids) ''incomplete'' [output_text_json text]]) @
            map (call_json ''incomplete'') (sorted_calls s)
      in sse_frame_object ''response.failed'' [(''response'', JObj [
           (''id'', JStr (ri_response_id ids)), (''object'', JStr ''response''), (''created_at'', JInt (ri_created_at ids)),
           (''status'', JStr ''failed''), (''model'', JStr (rs_model s)), (''output'', JList output),
           (''output_text'', JStr text),
           (''error'', JObj [(''type'', JStr error_type), (''message'', JStr error_message)]),
           (''incomplete_details'', JNull), (''usage'', rs_usage s)])])"

definition item_added :: "nat \<Rightarrow> json \<Rightarrow> json_object" where
  "item_added i item = sse_frame_object ''response.output_item.added'' [(''output_index'', jnat i), (''item'', item)]"

definition item_done :: "nat \<Rightarrow> json \<Rightarrow> json_object" where
  "item_done i item = sse_frame_object ''response.output_item.done'' [(''output_index'', jnat i), (''item'', item)]"

definition text_frame :: "string \<Rightarrow> r_ids \<Rightarrow> nat \<Rightarrow> json_object \<Rightarrow> json_object" where
  "text_frame event_type ids i kvs =
     sse_frame_object event_type ([(''item_id'', JStr (ri_message_id ids)), (''output_index'', jnat i),
       (''content_index'', JInt 0)] @ kvs)"

definition arguments_frame :: "string \<Rightarrow> streaming_call \<Rightarrow> json_object \<Rightarrow> json_object" where
  "arguments_frame event_type c kvs =
     sse_frame_object event_type ([(''item_id'', JStr (sc_item_id c)), (''output_index'', jnat (sc_output_index c))] @ kvs)"

definition text_event :: "r_ids \<Rightarrow> string \<Rightarrow> r_stream_state \<Rightarrow> json_object list \<times> r_stream_state" where
  "text_event ids t s =
     (let (opening, s1) = (case rs_text_index s of
            Some i \<Rightarrow> ([], s)
          | None \<Rightarrow>
              (let i = rs_next_index s in
               ([item_added i (output_message (ri_message_id ids) ''in_progress'' []),
                 text_frame ''response.content_part.added'' ids i [(''part'', output_text_json [])]],
                s\<lparr>rs_text_index := Some i, rs_next_index := i + 1\<rparr>)))
      in (opening @ [text_frame ''response.output_text.delta'' ids (the (rs_text_index s1)) [(''delta'', JStr t)]],
          s1\<lparr>rs_fragments := rs_fragments s1 @ [t]\<rparr>))"

fun set_call :: "nat \<Rightarrow> streaming_call \<Rightarrow> (nat \<times> streaming_call) list \<Rightarrow> (nat \<times> streaming_call) list" where
  "set_call k c [] = [(k, c)]"
| "set_call k c ((k', c') # cs) = (if k = k' then (k, c) # cs else (k', c') # set_call k c cs)"

definition tool_started :: "r_ids \<Rightarrow> nat \<Rightarrow> string \<Rightarrow> string \<Rightarrow> r_stream_state \<Rightarrow> json_object list \<times> r_stream_state option" where
  "tool_started ids k call_id name s =
     (case map_of (rs_calls s) k of
        None \<Rightarrow>
          (if call_id = [] then ([failed_frame ids s ''invalid_upstream_stream'' ''Initial tool-call chunk is missing call id''], None)
           else if name = [] then ([failed_frame ids s ''invalid_upstream_stream'' ''Initial tool-call chunk is missing function name''], None)
           else
             let i = rs_next_index s;
                 c = \<lparr>sc_item_id = ''fc_'' @ ri_item_id ids i, sc_call_id = call_id, sc_name = name,
                      sc_output_index = i, sc_arguments = []\<rparr>
             in ([item_added i (call_json ''in_progress'' c)],
                 Some (s\<lparr>rs_next_index := i + 1, rs_calls := set_call k c (rs_calls s)\<rparr>)))
      | Some c \<Rightarrow>
          (if call_id \<noteq> [] \<and> call_id \<noteq> sc_call_id c
           then ([failed_frame ids s ''invalid_upstream_stream'' ''Tool-call identity changed during streaming''], None)
           else ([], Some (s\<lparr>rs_calls := set_call k (c\<lparr>sc_name := sc_name c @ name\<rparr>) (rs_calls s)\<rparr>))))"

definition arguments_event :: "r_ids \<Rightarrow> nat \<Rightarrow> string \<Rightarrow> r_stream_state \<Rightarrow> json_object list \<times> r_stream_state option" where
  "arguments_event ids k a s =
     (case map_of (rs_calls s) k of
        None \<Rightarrow> ([failed_frame ids s ''invalid_upstream_stream'' ''Initial tool-call chunk is missing call id''], None)
      | Some c \<Rightarrow>
          ([arguments_frame ''response.function_call_arguments.delta'' c [(''delta'', JStr a)]],
           Some (s\<lparr>rs_calls := set_call k (c\<lparr>sc_arguments := sc_arguments c @ a\<rparr>) (rs_calls s)\<rparr>)))"

definition nat_or_zero :: "nat option \<Rightarrow> int" where
  "nat_or_zero n = (case n of None \<Rightarrow> 0 | Some v \<Rightarrow> int v)"

text \<open>One canonical event. \<open>StreamRaised\<close> ends the generator with the exception.\<close>

definition r_event :: "r_ids \<Rightarrow> canonical_event \<Rightarrow> r_stream_state \<Rightarrow> json_object list \<times> r_stream_state option" where
  "r_event ids ev s =
     (case ev of
        StreamFailed t m \<Rightarrow> ([failed_frame ids s t m], None)
      | StreamRaised e \<Rightarrow> ([], None)
      | MessageStarted i m \<Rightarrow> ([], Some (case m of None \<Rightarrow> s | Some md \<Rightarrow> s\<lparr>rs_model := md\<rparr>))
      | UsageUpdated u \<Rightarrow>
          ([], Some (s\<lparr>rs_usage := responses_usage (nat_or_zero (uu_input_tokens u))
             (nat_or_zero (uu_output_tokens u)) (nat_or_zero (uu_total_tokens u))\<rparr>))
      | CTextDelta t \<Rightarrow> (let (fs, s1) = text_event ids t s in (fs, Some s1))
      | ToolCallStarted k c n \<Rightarrow> tool_started ids k c n s
      | ArgumentsDelta k a \<Rightarrow> arguments_event ids k a s
      | MessageCompleted st r \<Rightarrow> ([], Some (s\<lparr>rs_finish := Some (str_or (map_of CANONICAL_REASON_TO_CHAT_FINISH r))\<rparr>)))"

definition text_done :: "r_ids \<Rightarrow> string \<Rightarrow> r_stream_state \<Rightarrow> json_object list" where
  "text_done ids status s =
     (case rs_text_index s of
        None \<Rightarrow> []
      | Some i \<Rightarrow>
          (let text = concat (rs_fragments s) in
           [text_frame ''response.output_text.done'' ids i [(''text'', JStr text)],
            text_frame ''response.content_part.done'' ids i [(''part'', output_text_json text)],
            item_done i (output_message (ri_message_id ids) status [output_text_json text])]))"

definition call_done :: "string \<Rightarrow> streaming_call \<Rightarrow> json_object list" where
  "call_done status c =
     [arguments_frame ''response.function_call_arguments.done'' c [(''arguments'', JStr (sc_arguments c))],
      item_done (sc_output_index c) (call_json status c)]"

text \<open>The output list of the final response.\<close>

definition final_output :: "r_ids \<Rightarrow> string \<Rightarrow> r_stream_state \<Rightarrow> json list" where
  "final_output ids status s =
     (case rs_text_index s of None \<Rightarrow> []
      | Some i \<Rightarrow> [output_message (ri_message_id ids) status [output_text_json (concat (rs_fragments s))]]) @
     map (call_json status) (sorted_calls s)"

text \<open>A call without a name makes the generator raise; a call starts with a name, which only grows.\<close>

definition r_finish :: "r_ids \<Rightarrow> r_stream_state \<Rightarrow> json_object list" where
  "r_finish ids s =
     (case rs_finish s of
        None \<Rightarrow> [failed_frame ids s ''incomplete_upstream_stream'' ''Provider stream ended without a terminal finish reason'']
      | Some f \<Rightarrow>
          (let (status, details) = status_from_finish_reason (Some f) in
           text_done ids status s @
           concat (map (call_done status) (takeWhile (\<lambda>c. sc_name c \<noteq> []) (sorted_calls s))) @
           (if \<exists>c\<in>set (sorted_calls s). sc_name c = [] then []
            else [sse_frame_object ''response.completed'' [(''response'', JObj
                (responses_response (ri_response_id ids) (ri_created_at ids) status (rs_model s)
                  (final_output ids status s) (concat (rs_fragments s)) details (rs_usage s)))]])))"

fun r_stream :: "r_ids \<Rightarrow> canonical_event list \<Rightarrow> r_stream_state \<Rightarrow> json_object list" where
  "r_stream ids [] s = r_finish ids s"
| "r_stream ids (ev # evs) s =
     (case r_event ids ev s of
        (fs, None) \<Rightarrow> fs
      | (fs, Some s') \<Rightarrow> fs @ r_stream ids evs s')"

definition openai_sse_to_responses_sse ::
  "(json \<Rightarrow> string) \<Rightarrow> stream_lib \<Rightarrow> r_ids \<Rightarrow> raw_chunk list \<Rightarrow> string \<Rightarrow> string list" where
  "openai_sse_to_responses_sse dumps lib ids body model =
     map (sse_frame dumps) (created_frame ids model #
       r_stream ids (iter_openai_chat_canonical_events lib body) (r_stream_init model))"

section \<open>Lemmas\<close>

definition is_user_message :: "json_object \<Rightarrow> bool" where
  "is_user_message m \<longleftrightarrow> jget m ''role'' = JStr ''user''"

lemma is_user_text_message [simp]: "is_user_message (text_message role t) = (role = ''user'')"
  by (simp add: is_user_message_def text_message_def)

lemma refuse_if_Inr [simp]: "refuse_if b m = Inr u \<longleftrightarrow> \<not> b"
  by (simp add: refuse_if_def)

lemma parts_to_text_eq: "parts_to_text fn ps = Inr t \<Longrightarrow> t = concat (map rl_text (part_leaves i j ps))"
proof (induction ps arbitrary: t j)
  case Nil
  then show ?case by (simp add: parts_to_text_def)
next
  case (Cons p ps)
  then obtain u ts where u: "governed_part p" "rtp_text p = Some u" "t = u @ concat ts"
      "parts_to_text fn ps = Inr (concat ts)"
    by (auto simp: parts_to_text_def ebind_eq_Inr split: if_splits option.splits sum.splits)
  then show ?case using Cons.IH [OF u(4), of "Suc j"] by (simp add: str_or_def)
qed

lemma chat_role_user: "chat_role role = ''user'' \<longleftrightarrow> py_lower role = ''user''"
  by (simp add: chat_role_def)

lemma item_to_message_user:
  assumes "item_to_message i it = Inr m"
  shows "is_user_message m = is_governed_user_message it"
    "is_user_message m \<Longrightarrow> msg_text m = concat (map rl_text (item_leaves i it))"
    "\<not> is_user_message m \<Longrightarrow> blank_r_item it = it \<and> item_leaves i it = []"
proof -
  obtain ms t where m: "it = RMessage ms" "m = text_message (chat_role (rmg_role ms)) t"
      "content_to_text (''input['' @ py_str_int (int i) @ ''].content'') (rmg_content ms) = Inr t"
    using assms by (auto simp: item_to_message_def ebind_eq_Inr split: r_item.splits if_splits)
  then show u: "is_user_message m = is_governed_user_message it" by (simp add: chat_role_user)
  show "msg_text m = concat (map rl_text (item_leaves i it))" if "is_user_message m"
    using that u m parts_to_text_eq
    by (cases "rmg_content ms") (auto simp: content_to_text_def)
  show "blank_r_item it = it \<and> item_leaves i it = []" if "\<not> is_user_message m"
    using that u m by simp
qed

lemma items_to_messages_user:
  "items_to_messages i its = Inr ms \<Longrightarrow>
   concat (map msg_text (filter is_user_message ms)) = concat (map rl_text (items_leaves i its))"
proof (induction i its arbitrary: ms rule: items_to_messages.induct)
  case (2 i it its)
  then obtain m ms' where m: "item_to_message i it = Inr m" "items_to_messages (Suc i) its = Inr ms'" "ms = m # ms'"
    by (auto simp: ebind_eq_Inr)
  note f = item_to_message_user [OF m(1)]
  show ?case using "2.IH" [OF m(2)] f m(3) by (cases "is_user_message m") auto
qed simp

lemma items_to_messages_others:
  "items_to_messages i its = Inr ms \<Longrightarrow> items_to_messages i its' = Inr ms' \<Longrightarrow>
   map blank_r_item its = map blank_r_item its' \<Longrightarrow>
   filter (\<lambda>m. \<not> is_user_message m) ms = filter (\<lambda>m. \<not> is_user_message m) ms'"
proof (induction its arbitrary: its' ms ms' i)
  case (Cons it its)
  obtain it' rest' where i': "its' = it' # rest'" "blank_r_item it = blank_r_item it'"
      "map blank_r_item its = map blank_r_item rest'"
    using Cons.prems(3) by (cases its') auto
  obtain m r where m: "item_to_message i it = Inr m" "items_to_messages (Suc i) its = Inr r" "ms = m # r"
    using Cons.prems(1) by (auto simp: ebind_eq_Inr)
  obtain m' r' where m': "item_to_message i it' = Inr m'" "items_to_messages (Suc i) rest' = Inr r'" "ms' = m' # r'"
    using Cons.prems(2) i'(1) by (auto simp: ebind_eq_Inr)
  have g: "is_governed_user_message it = is_governed_user_message it'"
    using i'(2) by (cases it; cases it') (auto split: if_splits)
  have "m = m'" if "\<not> is_user_message m"
  proof -
    have "\<not> is_user_message m'" using that g item_to_message_user(1) [OF m(1)] item_to_message_user(1) [OF m'(1)] by simp
    then have "it = it'" using that i'(2) item_to_message_user(3) [OF m(1)] item_to_message_user(3) [OF m'(1)] by simp
    then show ?thesis using m(1) m'(1) by simp
  qed
  moreover have "is_user_message m = is_user_message m'"
    using g item_to_message_user(1) [OF m(1)] item_to_message_user(1) [OF m'(1)] by simp
  ultimately show ?case using Cons.IH [OF m(2) m'(2) i'(3)] m(3) m'(3) by auto
qed auto

lemma request_to_chat_body_Inr:
  assumes "request_to_chat_body r = Inr body"
  obtains instr ms where "instruction_messages r = Inr instr" "input_messages (rq_input r) = Inr ms"
    "jget body ''messages'' = JList (map JObj (instr @ ms))"
  using assms by (auto simp: request_to_chat_body_def ebind_eq_Inr)

lemma instruction_messages_system: "instruction_messages r = Inr instr \<Longrightarrow> filter is_user_message instr = []"
  by (auto simp: instruction_messages_def ebind_eq_Inr split: option.splits)

lemma input_messages_user:
  "input_messages v = Inr ms \<Longrightarrow>
   concat (map msg_text (filter is_user_message ms)) = concat (map rl_text (responses_governed_leaves v))"
  by (cases v) (auto simp: input_messages_def responses_governed_leaves_def items_to_messages_user)

lemma r_chat_others:
  assumes "r_to_chat_body p = Inr body" "r_to_chat_body p' = Inr body'" "r_frame p = r_frame p'"
    and "jget body ''messages'' = JList (map JObj ms)" "jget body' ''messages'' = JList (map JObj ms')"
  shows "filter (\<lambda>m. \<not> is_user_message m) ms = filter (\<lambda>m. \<not> is_user_message m) ms'"
proof -
  let ?r = "rp_request p" let ?r' = "rp_request p'"
  obtain i m where im: "instruction_messages ?r = Inr i" "input_messages (rq_input ?r) = Inr m"
      "jget body ''messages'' = JList (map JObj (i @ m))"
    using assms(1) by (auto simp: r_to_chat_body_def elim: request_to_chat_body_Inr)
  obtain i' m' where im': "instruction_messages ?r' = Inr i'" "input_messages (rq_input ?r') = Inr m'"
      "jget body' ''messages'' = JList (map JObj (i' @ m'))"
    using assms(2) by (auto simp: r_to_chat_body_def elim: request_to_chat_body_Inr)
  have inj: "map JObj xs = map JObj ys \<longleftrightarrow> xs = ys" for xs ys :: "json_object list"
    by (auto simp: inj_map_eq_map inj_def)
  have ms: "ms = i @ m" "ms' = i' @ m'"
    using assms(4,5) im(3) im'(3) inj [of "i @ m" ms] inj [of "i' @ m'" ms'] by (simp_all del: map_append)
  have "rq_instructions ?r = rq_instructions (r_frame p)" "rq_instructions ?r' = rq_instructions (r_frame p')"
    by (simp_all add: r_frame_def Let_def)
  then have "i = i'" using assms(3) im(1) im'(1) by (simp add: instruction_messages_def)
  moreover have "filter (\<lambda>m. \<not> is_user_message m) m = filter (\<lambda>m. \<not> is_user_message m) m'"
  proof (cases "rq_input ?r")
    case (InputText s)
    have "rq_input (r_frame p) = rq_input (r_frame p')" using assms(3) by simp
    then obtain s' where "rq_input ?r' = InputText s'" using InputText
      by (cases "rq_input ?r'") (simp_all add: r_frame_def Let_def)
    then show ?thesis using InputText im(2) im'(2) by (simp add: input_messages_def) (metis filter.simps is_user_text_message)
  next
    case (InputItems its)
    have "rq_input (r_frame p) = rq_input (r_frame p')" using assms(3) by simp
    then obtain its' where "rq_input ?r' = InputItems its'" "map blank_r_item its = map blank_r_item its'"
      using InputItems by (cases "rq_input ?r'") (simp_all add: r_frame_def Let_def)
    then show ?thesis using InputItems im(2) im'(2) items_to_messages_others [of 0 its m its' m']
      by (simp add: input_messages_def)
  qed
  ultimately show ?thesis using ms by simp
qed

section \<open>Properties\<close>

text \<open>
  C10. What reaches OpenAI after redaction of a Responses request: the governed text, that of all user messages,
  is exactly the redacted text; other items, roles, other parts and all other fields are unchanged, and
  redacting a request to its own text leaves every governed text as it is.
\<close>

theorem responses_redaction_correct:
  "r_governance_text (r_with_redacted_text p r) = (if r_leaves p = [] then [] else r) \<and>
   r_frame (r_with_redacted_text p r) = r_frame p \<and>
   r_leaves (r_with_redacted_text p (r_governance_text p)) = r_leaves p"
  using responses.text_redact [of p r] responses.frame_redact [of p r] responses.redact_own_text [of p] by simp

text \<open>
  C13. A Responses request that goes to a provider as a Chat body carries, in its user messages together,
  exactly the redacted text, and its other messages are the same for every redaction.
\<close>

theorem responses_chat_gets_redacted:
  assumes "r_leaves p \<noteq> []"
  shows "\<exists>others. \<forall>r body. r_to_chat_body (r_with_redacted_text p r) = Inr body \<longrightarrow>
    (\<exists>ms. jget body ''messages'' = JList (map JObj ms) \<and>
       concat (map msg_text (filter is_user_message ms)) = r \<and> filter (\<lambda>m. \<not> is_user_message m) ms = others)"
proof -
  have run: "\<exists>ms. jget body ''messages'' = JList (map JObj ms) \<and> concat (map msg_text (filter is_user_message ms)) = r"
    if b: "r_to_chat_body (r_with_redacted_text p r) = Inr body" for r body
  proof -
    let ?q = "rp_request (r_with_redacted_text p r)"
    obtain i m where im: "instruction_messages ?q = Inr i" "input_messages (rq_input ?q) = Inr m"
        "jget body ''messages'' = JList (map JObj (i @ m))"
      using b by (auto simp: r_to_chat_body_def elim: request_to_chat_body_Inr)
    have "concat (map msg_text (filter is_user_message (i @ m))) = concat (r_leaves (r_with_redacted_text p r))"
      using instruction_messages_system [OF im(1)] input_messages_user [OF im(2)] by (simp add: r_leaves_def)
    also have "\<dots> = r" using responses.text_redact [of p r] assms by (simp add: responses.text_of_leaves)
    finally show ?thesis using im(3) by blast
  qed
  show ?thesis
  proof (cases "\<exists>r0 body0. r_to_chat_body (r_with_redacted_text p r0) = Inr body0")
    case True
    then obtain r0 body0 ms0 where z: "r_to_chat_body (r_with_redacted_text p r0) = Inr body0"
        "jget body0 ''messages'' = JList (map JObj ms0)" using run by blast
    have "\<exists>ms. jget body ''messages'' = JList (map JObj ms) \<and> concat (map msg_text (filter is_user_message ms)) = r \<and>
        filter (\<lambda>m. \<not> is_user_message m) ms = filter (\<lambda>m. \<not> is_user_message m) ms0"
      if b: "r_to_chat_body (r_with_redacted_text p r) = Inr body" for r body
    proof -
      obtain ms where "jget body ''messages'' = JList (map JObj ms)" "concat (map msg_text (filter is_user_message ms)) = r"
        using run [OF b] by blast
      then show ?thesis
        using r_chat_others [OF b z(1) _ _ z(2)] responses.frame_redact by metis
    qed
    then show ?thesis by blast
  qed simp
qed

definition demo_r_request :: r_request where
  "demo_r_request = \<lparr>rq_model = ''m'', rq_input = InputText ''a@b.c'', rq_instructions = None, rq_background = None,
     rq_client_metadata = None, rq_context_management = None, rq_conversation = None, rq_include = None,
     rq_stream = None, rq_max_output_tokens = None, rq_max_tool_calls = None, rq_temperature = None,
     rq_top_p = None, rq_tools = None, rq_tool_choice = None, rq_previous_response_id = None, rq_metadata = None,
     rq_moderation = None, rq_parallel_tool_calls = None, rq_prompt = None, rq_prompt_cache_key = None,
     rq_prompt_cache_options = None, rq_prompt_cache_retention = None, rq_reasoning = None,
     rq_safety_identifier = None, rq_service_tier = None, rq_store = None, rq_stream_options = None,
     rq_text = None, rq_top_logprobs = None, rq_truncation = None, rq_user = None\<rparr>"

lemma responses_chat_gets_redacted_witness:
  "\<exists>ms. r_to_chat_body (r_with_redacted_text \<lparr>rp_request = demo_r_request\<rparr> ''[E]'') =
     Inr [(''model'', JStr ''m''), (''messages'', JList (map JObj ms)), (''stream'', JBool False)] \<and>
     concat (map msg_text (filter is_user_message ms)) = ''[E]''"
proof -
  let ?p = "\<lparr>rp_request = demo_r_request\<rparr>"
  let ?body = "[(''model'', JStr ''m''), (''messages'', JList [JObj (text_message ''user'' ''[E]'')]),
      (''stream'', JBool False)]"
  have l: "r_leaves ?p \<noteq> []" by (simp add: r_leaves_def demo_r_request_def responses_governed_leaves_def)
  have b: "r_to_chat_body (r_with_redacted_text ?p ''[E]'') = Inr ?body"
    by (simp add: r_to_chat_body_def request_to_chat_body_def r_with_redacted_text_def demo_r_request_def
        responses_governed_leaves_def redact_single unsupported_response_fields_def refuse_if_def
        instruction_messages_def input_messages_def rq_streams_def opt_entry_def Let_def)
  obtain ms where ms: "jget ?body ''messages'' = JList (map JObj ms)"
      "concat (map msg_text (filter is_user_message ms)) = ''[E]''"
    using responses_chat_gets_redacted [OF l] b by metis
  then have "?body = [(''model'', JStr ''m''), (''messages'', JList (map JObj ms)), (''stream'', JBool False)]"
    by (simp add: jget_def dict_get_or_def)
  then show ?thesis using b ms(2) by metis
qed

end
