(* ===== verification/ResponsesStream.thy ===== *)
theory ResponsesStream imports ResponsesCompat begin

text \<open>
  What a Responses client sees on its stream (\<open>openai_sse_to_responses_sse\<close> of
  \<open>proxy/app/responses_compat.py\<close>): the shape of the event sequence, its text and its output indexes.
\<close>

section \<open>Reading frames\<close>

definition frame_type :: "json_object \<Rightarrow> string" where
  "frame_type f = (case jget f ''type'' of JStr t \<Rightarrow> t | _ \<Rightarrow> [])"

definition frame_delta :: "json_object \<Rightarrow> string" where
  "frame_delta f =
     (if frame_type f = ''response.output_text.delta''
      then (case jget f ''delta'' of JStr t \<Rightarrow> t | _ \<Rightarrow> []) else [])"

definition response_text :: "json_object \<Rightarrow> string" where
  "response_text f =
     (case jget f ''response'' of
        JObj r \<Rightarrow> (case jget r ''output_text'' of JStr t \<Rightarrow> t | _ \<Rightarrow> [])
      | _ \<Rightarrow> [])"

definition is_terminal :: "json_object \<Rightarrow> bool" where
  "is_terminal f \<longleftrightarrow> frame_type f \<in> {''response.completed'', ''response.failed''}"

definition added_indexes :: "json_object list \<Rightarrow> json list" where
  "added_indexes fs =
     map (\<lambda>f. jget f ''output_index'') (filter (\<lambda>f. frame_type f = ''response.output_item.added'') fs)"

definition stream_text :: "json_object list \<Rightarrow> string" where
  "stream_text fs = concat (map frame_delta fs)"

named_theorems frame_simps \<open>what the frames of the generator are to a reader\<close>

lemma frame_type_object [frame_simps]: "frame_type (sse_frame_object t kvs) = t"
  by (simp add: frame_type_def sse_frame_object_def jget_def dict_get_or_def)

lemma frame_type_builders [frame_simps]:
  "frame_type (item_added i it) = ''response.output_item.added''"
  "frame_type (item_done i it) = ''response.output_item.done''"
  "frame_type (text_frame t ids i kvs) = t"
  "frame_type (arguments_frame t c kvs) = t"
  "frame_type (failed_frame ids s e m) = ''response.failed''"
  "frame_type (created_frame ids m) = ''response.created''"
  by (simp_all add: frame_simps item_added_def item_done_def text_frame_def arguments_frame_def
      failed_frame_def created_frame_def Let_def)

lemma added_index [frame_simps]: "jget (item_added i it) ''output_index'' = jnat i"
  by (simp add: item_added_def sse_frame_object_def jget_def dict_get_or_def)

lemma text_frame_delta [frame_simps]:
  "frame_delta (text_frame ''response.output_text.delta'' ids i [(''delta'', JStr t)]) = t"
  by (simp add: frame_delta_def frame_simps)
    (simp add: text_frame_def sse_frame_object_def jget_def dict_get_or_def)

lemma frame_delta_other [frame_simps]: "frame_type f \<noteq> ''response.output_text.delta'' \<Longrightarrow> frame_delta f = []"
  by (simp add: frame_delta_def)

lemma response_text_failed [frame_simps]: "response_text (failed_frame ids s e m) = concat (rs_fragments s)"
  by (simp add: response_text_def failed_frame_def sse_frame_object_def jget_def dict_get_or_def Let_def)

lemma stream_text_simps [frame_simps]:
  "stream_text [] = []" "stream_text (f # fs) = frame_delta f @ stream_text fs"
  "stream_text (fs @ gs) = stream_text fs @ stream_text gs"
  by (simp_all add: stream_text_def)

lemma added_indexes_simps [frame_simps]:
  "added_indexes [] = []"
  "added_indexes (f # fs) =
     (if frame_type f = ''response.output_item.added'' then jget f ''output_index'' # added_indexes fs else added_indexes fs)"
  "added_indexes (fs @ gs) = added_indexes fs @ added_indexes gs"
  by (simp_all add: added_indexes_def)

section \<open>One event\<close>

text \<open>The generator's state: every call has a name, and no frame before the end closes the stream.\<close>

definition calls_named :: "r_stream_state \<Rightarrow> bool" where
  "calls_named s \<longleftrightarrow> (\<forall>c\<in>snd ` set (rs_calls s). sc_name c \<noteq> [])"

definition quiet_step :: "r_stream_state \<Rightarrow> json_object list \<Rightarrow> r_stream_state \<Rightarrow> bool" where
  "quiet_step s fs s' \<longleftrightarrow>
     \<not> (\<exists>f\<in>set fs. is_terminal f) \<and>
     concat (rs_fragments s') = concat (rs_fragments s) @ stream_text fs \<and>
     rs_next_index s \<le> rs_next_index s' \<and>
     added_indexes fs = map jnat [rs_next_index s..<rs_next_index s'] \<and>
     (calls_named s \<longrightarrow> calls_named s')"

lemma set_call_values: "snd ` set (set_call k c cs) \<subseteq> insert c (snd ` set cs)"
  by (induction k c cs rule: set_call.induct) auto

lemma calls_named_set_call:
  "calls_named s \<Longrightarrow> sc_name c \<noteq> [] \<Longrightarrow> calls_named (s\<lparr>rs_calls := set_call k c (rs_calls s)\<rparr>)"
  unfolding calls_named_def by (auto dest!: subsetD [OF set_call_values, OF imageI])

lemma calls_named_of: "calls_named s \<Longrightarrow> map_of (rs_calls s) k = Some c \<Longrightarrow> sc_name c \<noteq> []"
  by (force simp: calls_named_def dest: map_of_SomeD)

lemma calls_named_frame [simp]:
  "calls_named (s\<lparr>rs_next_index := i\<rparr>) = calls_named s" "calls_named (s\<lparr>rs_model := m\<rparr>) = calls_named s"
  "calls_named (s\<lparr>rs_usage := u\<rparr>) = calls_named s" "calls_named (s\<lparr>rs_finish := f\<rparr>) = calls_named s"
  "calls_named (s\<lparr>rs_fragments := ts\<rparr>) = calls_named s" "calls_named (s\<lparr>rs_text_index := ti\<rparr>) = calls_named s"
  by (simp_all add: calls_named_def)

lemma text_event_quiet: "text_event ids t s = (fs, s') \<Longrightarrow> quiet_step s fs s'"
  by (cases "rs_text_index s")
    (auto simp: text_event_def quiet_step_def Let_def is_terminal_def frame_simps)

lemma tool_started_quiet:
  assumes "tool_started ids k c n s = (fs, Some s')"
  shows "quiet_step s fs s'"
proof (cases "map_of (rs_calls s) k")
  case None
  let ?c = "\<lparr>sc_item_id = ''fc_'' @ ri_item_id ids (rs_next_index s), sc_call_id = c, sc_name = n,
    sc_output_index = rs_next_index s, sc_arguments = []\<rparr>"
  have e: "n \<noteq> []" "fs = [item_added (rs_next_index s) (call_json ''in_progress'' ?c)]"
    "s' = s\<lparr>rs_next_index := rs_next_index s + 1, rs_calls := set_call k ?c (rs_calls s)\<rparr>"
    using assms None by (auto simp: tool_started_def Let_def split: if_splits)
  show ?thesis using e calls_named_set_call [of "s\<lparr>rs_next_index := rs_next_index s + 1\<rparr>" ?c k]
    by (simp add: quiet_step_def is_terminal_def frame_simps)
next
  case (Some c')
  then show ?thesis using assms calls_named_set_call [of s _ k] calls_named_of [OF _ Some]
    by (auto simp: tool_started_def quiet_step_def frame_simps split: if_splits)
qed

lemma arguments_event_quiet:
  "arguments_event ids k a s = (fs, Some s') \<Longrightarrow> quiet_step s fs s'"
  using calls_named_set_call [of s _ k] calls_named_of [of s k]
  by (auto simp: arguments_event_def quiet_step_def is_terminal_def frame_simps split: option.splits)

lemma r_event_quiet: "r_event ids ev s = (fs, Some s') \<Longrightarrow> quiet_step s fs s'"
  by (cases ev)
    (auto simp: r_event_def text_event_quiet tool_started_quiet arguments_event_quiet split: prod.splits option.splits,
     auto simp: quiet_step_def frame_simps)

lemma r_event_stops:
  assumes "r_event ids ev s = (fs, None)" "\<And>e. ev \<noteq> StreamRaised e"
  shows "\<exists>t m. fs = [failed_frame ids s t m]"
  using assms
  by (cases ev) (auto simp: r_event_def tool_started_def arguments_event_def Let_def
      split: prod.splits option.splits if_splits)

lemma r_event_finish:
  assumes "r_event ids ev s = (fs, Some s')"
  shows "rs_finish s' = (case ev of MessageCompleted st r \<Rightarrow> Some (str_or (map_of CANONICAL_REASON_TO_CHAT_FINISH r))
    | _ \<Rightarrow> rs_finish s)" "ev \<noteq> StreamFailed t m"
  using assms
  by (cases ev; auto simp: r_event_def text_event_def tool_started_def arguments_event_def Let_def
      split: prod.splits option.splits if_splits)+

section \<open>The whole stream\<close>

definition ends_well :: "r_stream_state \<Rightarrow> json_object list \<Rightarrow> bool" where
  "ends_well s fs \<longleftrightarrow>
     (\<exists>body fin n. fs = body @ [fin] \<and> is_terminal fin \<and> \<not> (\<exists>f\<in>set body. is_terminal f) \<and>
        response_text fin = concat (rs_fragments s) @ stream_text body \<and>
        added_indexes body = map jnat [rs_next_index s..<n])"

lemma ends_well_failed: "ends_well s [failed_frame ids s t m]"
  unfolding ends_well_def
  by (intro exI [of _ "[]"] exI [of _ "failed_frame ids s t m"] exI [of _ 0]) (simp add: is_terminal_def frame_simps)

lemma ends_well_step:
  assumes "quiet_step s fs s'" "ends_well s' gs"
  shows "ends_well s (fs @ gs)"
proof -
  obtain body fin n where g: "gs = body @ [fin]" "is_terminal fin" "\<not> (\<exists>f\<in>set body. is_terminal f)"
      "response_text fin = concat (rs_fragments s') @ stream_text body"
      "added_indexes body = map jnat [rs_next_index s'..<n]"
    using assms(2) unfolding ends_well_def by blast
  let ?n = "max n (rs_next_index s')"
  have "[rs_next_index s..<?n] = [rs_next_index s..<rs_next_index s'] @ [rs_next_index s'..<?n]"
    using assms(1) by (metis quiet_step_def le_Suc_ex max.cobounded2 upt_add_eq_append)
  moreover have "[rs_next_index s'..<?n] = [rs_next_index s'..<n]" by (simp add: max_def)
  ultimately have a: "added_indexes (fs @ body) = map jnat [rs_next_index s..<?n]"
    using g(5) assms(1) by (simp add: quiet_step_def frame_simps)
  have "fs @ gs = (fs @ body) @ [fin]" using g(1) by simp
  moreover have "\<not> (\<exists>f\<in>set (fs @ body). is_terminal f)" using g(3) assms(1) by (auto simp: quiet_step_def)
  moreover have "response_text fin = concat (rs_fragments s) @ stream_text (fs @ body)"
    using g(4) assms(1) by (simp add: quiet_step_def frame_simps)
  ultimately show ?thesis using a g(2) unfolding ends_well_def by blast
qed

lemma text_done_silent:
  "f \<in> set (text_done ids st s) \<Longrightarrow> frame_type f \<in> {''response.output_text.done'', ''response.content_part.done'',
     ''response.output_item.done''}"
  by (auto simp: text_done_def Let_def frame_simps split: option.splits)

lemma call_done_silent:
  "f \<in> set (call_done st c) \<Longrightarrow> frame_type f \<in> {''response.function_call_arguments.done'', ''response.output_item.done''}"
  by (auto simp: call_done_def frame_simps)

lemma silent_frames:
  assumes "\<And>f. f \<in> set fs \<Longrightarrow> frame_type f \<in> {''response.output_text.done'', ''response.content_part.done'',
     ''response.output_item.done'', ''response.function_call_arguments.done''}"
  shows "\<not> (\<exists>f\<in>set fs. is_terminal f)" "stream_text fs = []" "added_indexes fs = []"
proof -
  have s: "\<not> is_terminal f \<and> frame_delta f = [] \<and> frame_type f \<noteq> ''response.output_item.added''" if "f \<in> set fs" for f
    using assms [OF that] by (elim insertE emptyE) (simp_all add: is_terminal_def frame_delta_def)
  show "\<not> (\<exists>f\<in>set fs. is_terminal f)" using s by blast
  show "stream_text fs = []" using s by (auto simp: stream_text_def)
  show "added_indexes fs = []" using s by (auto simp: added_indexes_def filter_empty_conv)
qed

lemma r_finish_ends_well:
  assumes "calls_named s"
  shows "ends_well s (r_finish ids s)"
proof (cases "rs_finish s")
  case (Some f)
  obtain status details where st: "status_from_finish_reason (Some f) = (status, details)" by fastforce
  let ?fin = "sse_frame_object ''response.completed'' [(''response'', JObj
      (responses_response (ri_response_id ids) (ri_created_at ids) status (rs_model s)
        (final_output ids status s) (concat (rs_fragments s)) details (rs_usage s)))]"
  let ?body = "text_done ids status s @ concat (map (call_done status) (sorted_calls s))"
  have n: "\<not> (\<exists>c\<in>set (sorted_calls s). sc_name c = [])"
    using assms by (simp add: calls_named_def sorted_calls_def)
  have tw: "takeWhile (\<lambda>c. sc_name c \<noteq> []) (sorted_calls s) = sorted_calls s"
    using n by (simp add: takeWhile_eq_all_conv)
  have r: "r_finish ids s = ?body @ [?fin]" using Some st n by (simp add: r_finish_def tw)
  have "frame_type f \<in> {''response.output_text.done'', ''response.content_part.done'', ''response.output_item.done'',
      ''response.function_call_arguments.done''}" if "f \<in> set ?body" for f
    using that text_done_silent [of f ids status s] call_done_silent [of f status] by auto
  note q = silent_frames [of ?body, OF this]
  have t: "response_text ?fin = concat (rs_fragments s)"
    by (simp add: response_text_def sse_frame_object_def responses_response_def jget_def dict_get_or_def)
  show ?thesis unfolding ends_well_def r
    by (intro exI [of _ ?body] exI [of _ ?fin] exI [of _ 0])
      (use q t in \<open>simp add: is_terminal_def frame_simps\<close>)
qed (simp add: r_finish_def ends_well_failed)

lemma r_stream_ends_well:
  "calls_named s \<Longrightarrow> (\<And>e. StreamRaised e \<notin> set evs) \<Longrightarrow> ends_well s (r_stream ids evs s)"
proof (induction ids evs s rule: r_stream.induct)
  case (2 ids ev evs s)
  show ?case
  proof (cases "r_event ids ev s")
    case (Pair fs o')
    show ?thesis
    proof (cases o')
      case None
      have "\<exists>t m. fs = [failed_frame ids s t m]" by (rule r_event_stops) (use Pair None 2(3) in auto)
      then show ?thesis using Pair None ends_well_failed by auto
    next
      case (Some s')
      have q: "quiet_step s fs s'" using Pair Some r_event_quiet by simp
      have "calls_named s'" using q 2(2) by (simp add: quiet_step_def)
      then have "ends_well s' (r_stream ids evs s')"
        using "2.IH" [OF Pair [symmetric] Some] 2(3) by (metis list.set_intros(2))
      then show ?thesis using Pair Some ends_well_step [OF q] by simp
    qed
  qed
qed (simp add: r_finish_ends_well)

lemma r_finish_completed:
  "f \<in> set (r_finish ids s) \<Longrightarrow> frame_type f = ''response.completed'' \<Longrightarrow> rs_finish s \<noteq> None"
  by (auto simp: r_finish_def frame_simps split: option.splits)

lemma r_stream_completed:
  "f \<in> set (r_stream ids evs s) \<Longrightarrow> frame_type f = ''response.completed'' \<Longrightarrow>
   (rs_finish s \<noteq> None \<or> (\<exists>st r. MessageCompleted st r \<in> set evs)) \<and> \<not> (\<exists>t m. StreamFailed t m \<in> set evs)"
proof (induction ids evs s rule: r_stream.induct)
  case (2 ids ev evs s)
  have tf: "is_terminal f" using 2(3) by (simp add: is_terminal_def)
  show ?case
  proof (cases "r_event ids ev s")
    case (Pair fs o')
    show ?thesis
    proof (cases o')
      case None
      have "f \<in> set fs" using 2(2) Pair None by simp
      moreover have "\<exists>t m. fs = [failed_frame ids s t m]" if "\<And>e. ev \<noteq> StreamRaised e"
        using r_event_stops that Pair None by blast
      moreover have "fs = []" if "ev = StreamRaised e" for e using that Pair by (simp add: r_event_def)
      ultimately have False using 2(3) by (cases "\<exists>e. ev = StreamRaised e") (auto simp: frame_simps)
      then show ?thesis ..
    next
      case (Some s')
      have e: "r_event ids ev s = (fs, Some s')" using Pair Some by simp
      have "f \<notin> set fs" using r_event_quiet [OF e] tf by (auto simp: quiet_step_def)
      then have "f \<in> set (r_stream ids evs s')" using 2(2) e by simp
      note ih = "2.IH" [OF Pair [symmetric] Some this 2(3)]
      have "\<exists>st r. ev = MessageCompleted st r" if "rs_finish s' \<noteq> None" "rs_finish s = None"
        using that r_event_finish(1) [OF e] by (cases ev) auto
      then show ?thesis using ih r_event_finish(2) [OF e] by (cases "rs_finish s") auto
    qed
  qed
qed (simp add: r_finish_completed)

section \<open>Properties\<close>

text \<open>
  C18. A Responses stream ends with exactly one terminal event, which is its last: whatever the provider
  sent, unless the decoder raised. The final response repeats exactly the text that was streamed, the output
  items are announced with the indexes 0, 1, 2, \<open>\<dots>\<close>, and \<open>response.completed\<close> is only sent for
  a stream that had its finish reason and no error.
\<close>

theorem responses_stream_wellformed:
  assumes "\<not> (\<exists>e. StreamRaised e \<in> set evs)"
  shows "\<exists>body fin n. created_frame ids model # r_stream ids evs (r_stream_init model) = body @ [fin] \<and>
    is_terminal fin \<and> \<not> (\<exists>f\<in>set body. is_terminal f) \<and> response_text fin = stream_text body \<and>
    added_indexes body = map jnat [0..<n] \<and>
    (frame_type fin = ''response.completed'' \<longrightarrow>
       (\<exists>st r. MessageCompleted st r \<in> set evs) \<and> \<not> (\<exists>t m. StreamFailed t m \<in> set evs))"
proof -
  have "ends_well (r_stream_init model) (r_stream ids evs (r_stream_init model))"
    by (rule r_stream_ends_well) (use assms in \<open>auto simp: calls_named_def r_stream_init_def\<close>)
  then obtain body fin n where b: "r_stream ids evs (r_stream_init model) = body @ [fin]" "is_terminal fin"
      "\<not> (\<exists>f\<in>set body. is_terminal f)" "response_text fin = stream_text body" "added_indexes body = map jnat [0..<n]"
    by (auto simp: ends_well_def r_stream_init_def)
  have "frame_type fin = ''response.completed'' \<longrightarrow>
      (\<exists>st r. MessageCompleted st r \<in> set evs) \<and> \<not> (\<exists>t m. StreamFailed t m \<in> set evs)"
    using r_stream_completed [of fin ids evs "r_stream_init model"] b(1) by (simp add: r_stream_init_def)
  then show ?thesis using b
    by (intro exI [of _ "created_frame ids model # body"] exI [of _ fin] exI [of _ n])
      (simp add: is_terminal_def frame_simps)
qed

definition demo_ids :: r_ids where
  "demo_ids = \<lparr>ri_response_id = ''resp_1'', ri_message_id = ''msg_1'', ri_created_at = 0, ri_item_id = (\<lambda>i. [])\<rparr>"

definition demo_events :: "canonical_event list" where
  "demo_events = [ToolCallStarted 0 ''call_1'' ''f'', CTextDelta ''hi'', MessageCompleted ''completed'' ''tool_use'']"

lemma responses_stream_wellformed_witness:
  "\<exists>body fin n. created_frame demo_ids ''m'' # r_stream demo_ids demo_events (r_stream_init ''m'') = body @ [fin] \<and>
     is_terminal fin \<and> response_text fin = stream_text body \<and> added_indexes body = map jnat [0..<n]"
proof -
  have "\<not> (\<exists>e. StreamRaised e \<in> set demo_events)" by (simp add: demo_events_def)
  from responses_stream_wellformed [OF this, of demo_ids "''m''"] show ?thesis by blast
qed

text \<open>
  The \<open>output\<close> list of the final response need not be in the order of the announced indexes: a call
  that comes before the text is announced with index 0 and the message with index 1, and the list holds the
  message first.
\<close>

lemma output_order_differs:
  "\<exists>s. r_event demo_ids (CTextDelta ''hi'') (the (snd (r_event demo_ids (ToolCallStarted 0 ''call_1'' ''f'') (r_stream_init ''m'')))) =
     ([item_added 1 (output_message ''msg_1'' ''in_progress'' []),
       text_frame ''response.content_part.added'' demo_ids 1 [(''part'', output_text_json [])],
       text_frame ''response.output_text.delta'' demo_ids 1 [(''delta'', JStr ''hi'')]], Some s) \<and>
     fst (r_event demo_ids (ToolCallStarted 0 ''call_1'' ''f'') (r_stream_init ''m'')) =
       [item_added 0 (output_call ''fc_'' ''in_progress'' ''call_1'' ''f'' [])] \<and>
     final_output demo_ids ''completed'' s =
       [output_message ''msg_1'' ''completed'' [output_text_json ''hi''],
        output_call ''fc_'' ''completed'' ''call_1'' ''f'' []]"
  by (simp add: r_event_def tool_started_def text_event_def r_stream_init_def demo_ids_def Let_def
      final_output_def sorted_calls_def call_json_def)

end
