(* ===== verification/ClientCodecs.thy ===== *)
theory ClientCodecs imports AdapterFacts ResponsesStream AnthropicCompat begin

text \<open>
  The client protocols at the edge of the gateway (\<open>proxy/app/client_codecs.py\<close>): how a request body becomes a
  payload and how the pipeline's result becomes the reply of the protocol the client speaks. Validation is
  pydantic's and a parameter; what the code makes of its errors is modelled.
\<close>

section \<open>Validation errors\<close>

datatype loc_part = LocKey string | LocIndex nat

record validation_error =
  ve_loc :: "loc_part list"
  ve_type :: string
  ve_msg :: string

datatype 'a validated =
    Valid 'a
  | Invalid "validation_error list"   \<comment> \<open>\<open>ValidationError\<close>\<close>
  | ValidationRaised py_error         \<comment> \<open>any other exception\<close>

definition DISCRIMINATOR_TAGS :: "string list" where
  "DISCRIMINATOR_TAGS = [''allowed_tools'', ''assistant'', ''custom'', ''developer'', ''file'', ''function'',
     ''image_url'', ''input_audio'', ''refusal'', ''system'', ''text'', ''tool'', ''user'']"

fun is_index :: "loc_part option \<Rightarrow> bool" where
  "is_index (Some (LocIndex i)) = True"
| "is_index _ = False"

fun loc_str :: "loc_part \<Rightarrow> string" where
  "loc_str (LocKey k) = k"
| "loc_str (LocIndex i) = py_str_int (int i)"

text \<open>Whether a part is kept, given its predecessor (none at the start) and its successor.\<close>

definition keep_part :: "loc_part option \<Rightarrow> loc_part \<Rightarrow> loc_part option \<Rightarrow> bool" where
  "keep_part previous part following =
     (case part of
        LocIndex i \<Rightarrow> True
      | LocKey k \<Rightarrow>
          (if previous \<noteq> None \<and> (k = ''str'' \<or> py_startswith k ''list['') then False
           else \<not> (k \<in> set DISCRIMINATOR_TAGS \<and> (is_index previous \<or> following = Some part))))"

fun cleaned_location :: "loc_part option \<Rightarrow> loc_part list \<Rightarrow> loc_part list" where
  "cleaned_location previous [] = []"
| "cleaned_location previous (p # ps) =
     (if keep_part previous p (case ps of [] \<Rightarrow> None | q # _ \<Rightarrow> Some q) then [p] else []) @
     cleaned_location (Some p) ps"

definition format_validation_location :: "loc_part list \<Rightarrow> string" where
  "format_validation_location location = py_join ''.'' (map loc_str (cleaned_location None location))"

definition violation_field :: "bool \<Rightarrow> validation_error \<Rightarrow> string" where
  "violation_field format_location e =
     (if format_location then format_validation_location (ve_loc e) else py_join ''.'' (map loc_str (ve_loc e)))"

definition violation :: "bool \<Rightarrow> validation_error \<Rightarrow> json" where
  "violation format_location e =
     JObj [(''field'', JStr (violation_field format_location e)), (''type'', JStr (ve_type e)), (''message'', JStr (ve_msg e))]"

definition validation_violations :: "bool \<Rightarrow> validation_error list \<Rightarrow> json list" where
  "validation_violations format_location errors = map (violation format_location) errors"

section \<open>Requests\<close>

definition NOT_CHAT :: string where
  "NOT_CHAT = ''Request body is not a valid OpenAI Chat Completions request''"

definition NOT_RESPONSES :: string where
  "NOT_RESPONSES = ''Request body is not a valid OpenAI Responses request''"

definition NOT_MESSAGES :: string where
  "NOT_MESSAGES = ''Request body is not a valid Anthropic Messages request''"

text \<open>The most deeply nested field first; errors at the same depth keep their order.\<close>

definition chat_violations :: "validation_error list \<Rightarrow> json list" where
  "chat_violations errors =
     map (violation True)
       (sort_key (\<lambda>e. - int (count_list (violation_field True e) (CHR ''.''))) errors)"

definition chat_decode_payload :: "(json_object \<Rightarrow> chat_request validated) \<Rightarrow> json_object \<Rightarrow> gateway_error + chat_payload" where
  "chat_decode_payload validate body =
     (case validate body of
        Valid r \<Rightarrow> Inr \<lparr>cp_request = r\<rparr>
      | Invalid errors \<Rightarrow>
          Inl (http_error_with 400 (error_envelope_full ''invalid_request'' NOT_CHAT [] [] []
            (Some [(''violations'', JList (chat_violations errors))])) [])
      | ValidationRaised e \<Rightarrow> Inl (Unhandled e))"

definition with_violations :: "json \<Rightarrow> json list \<Rightarrow> json" where
  "with_violations envelope vs = JObj (dict_set ''violations'' (JList vs) (as_obj envelope))"

definition responses_decode_payload :: "(json_object \<Rightarrow> r_request validated) \<Rightarrow> json_object \<Rightarrow> gateway_error + r_payload" where
  "responses_decode_payload validate body =
     (case validate body of
        Valid r \<Rightarrow> Inr \<lparr>rp_request = r\<rparr>
      | Invalid errors \<Rightarrow>
          Inl (http_error_with 400 (with_violations (error_envelope ''invalid_request'' NOT_RESPONSES)
            (validation_violations True errors)) [])
      | ValidationRaised e \<Rightarrow> Inl (Unhandled e))"

definition messages_decode_payload :: "(json_object \<Rightarrow> a_request validated) \<Rightarrow> json_object \<Rightarrow> gateway_error + a_payload" where
  "messages_decode_payload validate body =
     (case validate body of
        Valid r \<Rightarrow> Inr \<lparr>ap_request = r\<rparr>
      | Invalid errors \<Rightarrow>
          Inl (http_error_with 400 (with_violations (error_envelope ''invalid_request'' NOT_MESSAGES)
            (validation_violations False errors)) [])
      | ValidationRaised e \<Rightarrow> Inl (http_error 400 ''invalid_request'' NOT_MESSAGES))"

definition count_tokens_decode_request ::
  "(json_object \<Rightarrow> count_tokens_request validated) \<Rightarrow> json_object \<Rightarrow> gateway_error + count_tokens_request" where
  "count_tokens_decode_request validate body =
     (case validate body of
        Valid r \<Rightarrow> Inr r
      | Invalid errors \<Rightarrow>
          Inl (http_error_with 400 (with_violations (error_envelope ''invalid_request'' ''Request body is not valid'')
            (validation_violations False errors)) [])
      | ValidationRaised e \<Rightarrow> Inl (http_error 400 ''invalid_request'' ''Request body is not valid''))"

definition count_tokens_encode_response :: "(json \<Rightarrow> string) \<Rightarrow> count_tokens_request \<Rightarrow> gateway_error + json" where
  "count_tokens_encode_response dumps r =
     (case count_tokens_approximate dumps (ctr_messages r) (ctr_system r) of
        Inl m \<Rightarrow> Inl (http_error 422 ''unsupported_message_shape'' m)
      | Inr n \<Rightarrow> Inr (JObj [(''input_tokens'', JInt (int n))]))"

section \<open>Replies\<close>

record pipeline_result =
  pl_response :: http_response
  pl_extra_headers :: json_object
  pl_response_protocol :: wire_protocol
  pl_client_model :: string

record codec_env =
  ce_adapter :: adapter_env           \<comment> \<open>\<open>json\<close> and Starlette's headers\<close>
  ce_stream :: stream_lib
  ce_ids :: r_ids
  ce_validate :: "json \<Rightarrow> (chat_response \<times> int) option"  \<comment> \<open>\<open>OpenAIChatResponse\<close>, and its creation time\<close>

text \<open>A text chunk of a provider's stream is what an adapter wrote with \<open>json.dumps\<close>, ASCII.\<close>

fun raw_of_chunk :: "stream_chunk \<Rightarrow> raw_chunk" where
  "raw_of_chunk (TextChunk t) = RawStr (map char_of t)"
| "raw_of_chunk (BytesChunk b) = RawBytes b"

definition chat_encode_response :: "pipeline_result \<Rightarrow> gateway_error + http_response" where
  "chat_encode_response result = Inr (pl_response result)"

definition event_reply :: "codec_env \<Rightarrow> pipeline_result \<Rightarrow> string list \<Rightarrow> gateway_error + http_response" where
  "event_reply env result frames =
     (case header_texts (pl_extra_headers result) of
        None \<Rightarrow> Inl (Unhandled AttributeError)
      | Some extra \<Rightarrow> Inr (event_stream (ce_adapter env) (map text_chunk frames) extra))"

definition responses_encode_response :: "codec_env \<Rightarrow> pipeline_result \<Rightarrow> gateway_error + http_response" where
  "responses_encode_response env result =
     (let response = pl_response result in
      if pl_response_protocol result = OpenaiResponses then Inr response
      else case rs_stream response of
        Some chunks \<Rightarrow>
          event_reply env result (openai_sse_to_responses_sse (ad_dumps (ce_adapter env)) (ce_stream env) (ce_ids env)
            (map raw_of_chunk chunks) (pl_client_model result))
      | None \<Rightarrow>
          (if rs_status response \<ge> 400 then Inr response
           else case (case ad_loads_body (ce_adapter env) (rs_body response) of
                        None \<Rightarrow> Inl ''json''
                      | Some v \<Rightarrow> translate_chat_response (\<lambda>_. ce_validate env v) (as_obj v)) of
              Inl m \<Rightarrow> Inl (http_error 502 ''invalid_upstream_response'' ''Provider returned an unexpected response shape'')
            | Inr out \<Rightarrow>
                Inr (json_response (ce_adapter env) (rs_status response) (JObj out)
                  (dict_pop ''content-length'' (rs_headers response)))))"

definition messages_encode_response :: "codec_env \<Rightarrow> pipeline_result \<Rightarrow> gateway_error + http_response" where
  "messages_encode_response env result =
     (let response = pl_response result; model = pl_client_model result in
      if pl_response_protocol result = AnthropicMessages then Inr response
      else case rs_stream response of
        Some chunks \<Rightarrow>
          event_reply env result (openai_sse_to_anthropic_sse (ad_dumps (ce_adapter env)) (ad_fmt (ce_adapter env))
            (ce_stream env) (map raw_of_chunk chunks) model)
      | None \<Rightarrow>
          (if rs_status response \<noteq> 200 then Inr response
           else case (case ad_loads_body (ce_adapter env) (rs_body response) of
                        None \<Rightarrow> Inl ''json''
                      | Some v \<Rightarrow> chat_response_to_anthropic (\<lambda>_. map_option fst (ce_validate env v))
                          (ad_loads (ce_adapter env)) (as_obj v) model) of
              Inl m \<Rightarrow> Inr response
            | Inr out \<Rightarrow>
                (case header_texts (pl_extra_headers result) of
                   None \<Rightarrow> Inl (Unhandled AttributeError)
                 | Some extra \<Rightarrow>
                     Inr (json_response (ce_adapter env) 200 (JObj out)
                       (dict_pop ''content-length'' (dict_update (rs_headers response) extra))))))"

end
