(* ===== verification/PiiFindings.thy ===== *)
theory PiiFindings imports Json Utf8 "HOL-Library.Product_Lexorder" begin

text \<open>
  \<open>governance/app/pii.py\<close>, the pure part: validation and normalisation of the findings a DLP
  backend reports, the merge of overlapping findings, and the local redaction. Offsets that come
  from the provider are integers and checked by the code; offsets of accepted findings are natural
  numbers counting code points.
\<close>

section \<open>Data\<close>

record pii_finding =
  pf_type :: string
  pf_start :: nat
  pf_end :: nat
  pf_score :: rat

record pii_result =
  pr_findings :: "pii_finding list"
  pr_classification :: string
  pr_redacted :: utext

datatype pii_error = PiiBackendError string | PiiOther py_error

text \<open>
  A finding as the provider returns it. A range is \<open>None\<close> when the protobuf field is not set
  (or the attribute of a plain object is missing).
\<close>

record dlp_location =
  loc_protobuf :: bool
  loc_codepoint :: "(int \<times> int) option"
  loc_byte :: "(int \<times> int) option"

record dlp_finding =
  df_location :: dlp_location
  df_info_type :: string
  df_likelihood :: int

section \<open>Ranges\<close>

definition invalid_range :: pii_error where
  "invalid_range = PiiBackendError ''Google DLP returned an invalid text range''"

definition range_is_set :: "dlp_location \<Rightarrow> (int \<times> int) option \<Rightarrow> bool" where
  "range_is_set loc r =
     (if loc_protobuf loc then r \<noteq> None
      else (case r of None \<Rightarrow> False | Some (s, e) \<Rightarrow> e > s))"

definition byte_to_codepoint_range :: "utext \<Rightarrow> int \<Rightarrow> int \<Rightarrow> pii_error + (int \<times> int)" where
  "byte_to_codepoint_range t start stop =
     (case utf8_encode t of
        None \<Rightarrow> Inl (PiiOther UnicodeEncodeError)
      | Some encoded \<Rightarrow>
          (if start < 0 \<or> stop \<le> start \<or> stop > int (length encoded) then Inl invalid_range
           else case (utf8_decode (take (nat start) encoded), utf8_decode (take (nat stop) encoded)) of
             (Some a, Some b) \<Rightarrow> Inr (int (length a), int (length b))
           | _ \<Rightarrow> Inl invalid_range))"

definition finding_range :: "utext \<Rightarrow> dlp_finding \<Rightarrow> pii_error + (int \<times> int)" where
  "finding_range t f =
     (let loc = df_location f in
      if range_is_set loc (loc_codepoint loc) then Inr (the (loc_codepoint loc))
      else if range_is_set loc (loc_byte loc)
      then byte_to_codepoint_range t (fst (the (loc_byte loc))) (snd (the (loc_byte loc)))
      else Inl (PiiBackendError ''Google DLP returned a finding without a text range''))"

section \<open>Normalisation\<close>

definition GOOGLE_TYPE_MAP :: "string dict" where
  "GOOGLE_TYPE_MAP = [(''PERSON_NAME'', ''PERSON''), (''US_SOCIAL_SECURITY_NUMBER'', ''US_SSN'')]"

definition LIKELIHOOD_SCORES :: "(int \<times> rat) list" where
  "LIKELIHOOD_SCORES = [(0, 0), (1, 1/10), (2, 3/10), (3, 5/10), (4, 7/10), (5, 9/10)]"

definition normalize_finding :: "utext \<Rightarrow> dlp_finding \<Rightarrow> pii_error + pii_finding" where
  "normalize_finding t f =
     ebind (finding_range t f) (\<lambda>(start, stop).
       if start < 0 \<or> stop \<le> start \<or> stop > int (length t) then Inl invalid_range
       else Inr \<lparr>pf_type = dict_get_or GOOGLE_TYPE_MAP (df_info_type f) (df_info_type f),
                 pf_start = nat start, pf_end = nat stop,
                 pf_score = (case map_of LIKELIHOOD_SCORES (df_likelihood f) of
                               None \<Rightarrow> 0 | Some s \<Rightarrow> s)\<rparr>)"

text \<open>The sort of \<open>_deduplicate_findings\<close> (Python's sort is stable) and its merging loop.\<close>

definition finding_key :: "pii_finding \<Rightarrow> nat \<times> int \<times> rat" where
  "finding_key f = (pf_start f, - int (pf_end f), - pf_score f)"

definition absorb :: "pii_finding \<Rightarrow> pii_finding \<Rightarrow> pii_finding" where
  "absorb previous item =
     (if pf_score item > pf_score previous
      then previous\<lparr>pf_type := pf_type item, pf_score := pf_score item\<rparr> else previous)
     \<lparr>pf_end := max (pf_end previous) (pf_end item)\<rparr>"

fun merge_findings :: "pii_finding list \<Rightarrow> pii_finding list \<Rightarrow> pii_finding list" where
  \<comment> \<open>the first argument is \<open>deduplicated\<close>, last element first\<close>
  "merge_findings acc [] = rev acc"
| "merge_findings [] (item # rest) = merge_findings [item] rest"
| "merge_findings (previous # acc) (item # rest) =
     (if pf_start item < pf_end previous
      then merge_findings (absorb previous item # acc) rest
      else merge_findings (item # previous # acc) rest)"

definition deduplicate_findings :: "pii_finding list \<Rightarrow> pii_finding list" where
  "deduplicate_findings fs = merge_findings [] (sort_key finding_key fs)"

definition normalize_google_findings :: "utext \<Rightarrow> dlp_finding list \<Rightarrow> pii_error + pii_finding list" where
  "normalize_google_findings t fs =
     ebind (emap (normalize_finding t) fs) (\<lambda>ns. Inr (deduplicate_findings ns))"

section \<open>Redaction\<close>

definition marker :: "string \<Rightarrow> utext" where
  "marker ty = map of_char (''['' @ ty @ '']'')"

definition redact_one :: "pii_finding \<Rightarrow> utext \<Rightarrow> utext" where
  "redact_one f redacted =
     take (pf_start f) redacted @ marker (pf_type f) @ drop (pf_end f) redacted"

definition redact_with_typed_markers :: "utext \<Rightarrow> pii_finding list \<Rightarrow> utext" where
  "redact_with_typed_markers t fs = fold redact_one (rev fs) t"

section \<open>Spans\<close>

definition fspan :: "pii_finding \<Rightarrow> nat set" where
  "fspan f = {pf_start f..<pf_end f}"

definition spans :: "pii_finding list \<Rightarrow> nat set" where
  "spans fs = (\<Union>f\<in>set fs. fspan f)"

definition finding_ok :: "nat \<Rightarrow> pii_finding \<Rightarrow> bool" where
  "finding_ok n f \<longleftrightarrow> pf_start f < pf_end f \<and> pf_end f \<le> n"

text \<open>Findings in text order that do not overlap.\<close>

fun separated :: "pii_finding list \<Rightarrow> bool" where
  "separated (f # g # fs) \<longleftrightarrow> pf_end f \<le> pf_start g \<and> separated (g # fs)"
| "separated _ \<longleftrightarrow> True"

section \<open>Lemmas: merging\<close>

lemma spans_simps [simp]: "spans [] = {}" "spans (f # fs) = fspan f \<union> spans fs"
  "spans (fs @ gs) = spans fs \<union> spans gs" "spans (rev fs) = spans fs"
  by (auto simp: spans_def)

lemma absorb_simps [simp]:
  "pf_start (absorb p i) = pf_start p"
  "pf_end (absorb p i) = max (pf_end p) (pf_end i)"
  "pf_score (absorb p i) = max (pf_score p) (pf_score i)"
  by (auto simp: absorb_def)

lemma span_absorb:
  "pf_start p \<le> pf_start i \<Longrightarrow> pf_start i < pf_end p \<Longrightarrow> fspan (absorb p i) = fspan p \<union> fspan i"
  by (auto simp: fspan_def)

lemma spans_merge:
  assumes "sorted (map pf_start fs)" "acc \<noteq> [] \<Longrightarrow> fs \<noteq> [] \<Longrightarrow> pf_start (hd acc) \<le> pf_start (hd fs)"
  shows "spans (merge_findings acc fs) = spans acc \<union> spans fs"
  using assms
proof (induction acc fs rule: merge_findings.induct)
  case (2 item rest)
  then show ?case by (cases rest) auto
next
  case (3 p acc item rest)
  have le: "pf_start p \<le> pf_start item" using 3(4) by simp
  have nxt: "rest \<noteq> [] \<Longrightarrow> pf_start item \<le> pf_start (hd rest)" and srt: "sorted (map pf_start rest)"
    using 3(3) by (cases rest; auto)+
  show ?case
  proof (cases "pf_start item < pf_end p")
    case True
    have "spans (merge_findings (absorb p item # acc) rest) = spans (absorb p item # acc) \<union> spans rest"
      by (rule 3(1) [OF True srt]) (use le nxt in \<open>auto intro: order_trans\<close>)
    then show ?thesis using span_absorb [OF le True] True by auto
  next
    case False
    have "spans (merge_findings (item # p # acc) rest) = spans (item # p # acc) \<union> spans rest"
      by (rule 3(2) [OF False srt]) (use nxt in auto)
    then show ?thesis using False by auto
  qed
qed auto

lemma separated_snoc:
  "separated (fs @ [f]) \<longleftrightarrow> separated fs \<and> (fs \<noteq> [] \<longrightarrow> pf_end (last fs) \<le> pf_start f)"
  by (induction fs rule: separated.induct) auto

lemma separated_snoc2:
  "separated (fs @ [f, g]) \<longleftrightarrow> separated (fs @ [f]) \<and> pf_end f \<le> pf_start g"
  using separated_snoc [of "fs @ [f]" g] by simp

lemma separated_merge:
  assumes "separated (rev acc)"
  shows "separated (merge_findings acc fs)"
  using assms
proof (induction acc fs rule: merge_findings.induct)
  case (3 p acc item rest)
  then show ?case by (cases "pf_start item < pf_end p") (auto simp: separated_snoc separated_snoc2)
qed auto

lemma finding_ok_absorb:
  "finding_ok n p \<Longrightarrow> finding_ok n i \<Longrightarrow> finding_ok n (absorb p i)"
  by (auto simp: finding_ok_def)

lemma finding_ok_merge:
  "list_all (finding_ok n) acc \<Longrightarrow> list_all (finding_ok n) fs \<Longrightarrow>
   list_all (finding_ok n) (merge_findings acc fs)"
  by (induction acc fs rule: merge_findings.induct) (auto simp: finding_ok_absorb list_all_iff)

text \<open>\<open>covers g f\<close>: finding \<open>g\<close> redacts all of \<open>f\<close> and is at least as certain.\<close>

definition covers :: "pii_finding \<Rightarrow> pii_finding \<Rightarrow> bool" where
  "covers g f \<longleftrightarrow> pf_start g \<le> pf_start f \<and> pf_end f \<le> pf_end g \<and> pf_score f \<le> pf_score g"

lemma covers_refl [simp]: "covers f f"
  by (simp add: covers_def)

lemma covers_trans: "covers h g \<Longrightarrow> covers g f \<Longrightarrow> covers h f"
  by (auto simp: covers_def)

lemma covers_absorb: "pf_start p \<le> pf_start i \<Longrightarrow> covers (absorb p i) p \<and> covers (absorb p i) i"
  by (simp add: covers_def)

lemma covers_merge:
  assumes "sorted (map pf_start fs)" "acc \<noteq> [] \<Longrightarrow> fs \<noteq> [] \<Longrightarrow> pf_start (hd acc) \<le> pf_start (hd fs)"
    and "f \<in> set acc \<union> set fs"
  shows "\<exists>g\<in>set (merge_findings acc fs). covers g f"
  using assms
proof (induction acc fs arbitrary: f rule: merge_findings.induct)
  case (1 acc)
  then show ?case by (intro bexI [of _ f]) auto
next
  case (2 item rest)
  then show ?case by (cases rest) auto
next
  case (3 p acc item rest)
  have le: "pf_start p \<le> pf_start item" using 3(4) by simp
  have nxt: "rest \<noteq> [] \<Longrightarrow> pf_start item \<le> pf_start (hd rest)" and srt: "sorted (map pf_start rest)"
    using 3(3) by (cases rest; auto)+
  show ?case
  proof (cases "pf_start item < pf_end p")
    case True
    have IH: "\<exists>g\<in>set (merge_findings (absorb p item # acc) rest). covers g h"
      if "h \<in> set (absorb p item # acc) \<union> set rest" for h
      by (rule 3(1) [OF True srt _ that]) (use le nxt in \<open>auto intro: order_trans\<close>)
    show ?thesis
    proof (cases "f = p \<or> f = item")
      case f: True
      obtain g where "g \<in> set (merge_findings (absorb p item # acc) rest)" "covers g (absorb p item)"
        using IH [of "absorb p item"] by auto
      then show ?thesis
        using True f covers_absorb [OF le] by (auto intro: covers_trans)
    qed (use IH True 3(5) in auto)
  next
    case False
    then show ?thesis
      using 3(2) [OF False srt _, of f] nxt 3(5) by auto
  qed
qed

lemma sorted_by_start: "sorted (map pf_start (sort_key finding_key fs))"
proof -
  have "sorted (map finding_key (sort_key finding_key fs))" by simp
  then have "sorted (map (fst \<circ> finding_key) (sort_key finding_key fs))"
    unfolding sorted_map by (rule sorted_wrt_mono_rel [rotated]) (auto simp: less_eq_prod_def)
  then show ?thesis by (simp add: finding_key_def comp_def)
qed

lemma spans_sort [simp]: "spans (sort_key k fs) = spans fs"
  by (simp add: spans_def)

section \<open>Lemmas: redaction\<close>

text \<open>The reference: one pass from left to right.\<close>

fun redact_ref :: "nat \<Rightarrow> utext \<Rightarrow> pii_finding list \<Rightarrow> utext" where
  "redact_ref pos t [] = drop pos t"
| "redact_ref pos t (f # fs) =
     take (pf_start f - pos) (drop pos t) @ marker (pf_type f) @ redact_ref (pf_end f) t fs"

lemma take_redact_ref:
  "a \<le> pos \<Longrightarrow> pos \<le> length t \<Longrightarrow> take a (take pos t @ u) = take a t"
  by simp

lemma redact_fold:
  assumes "separated fs" "list_all (finding_ok (length t)) fs"
    and "pos \<le> length t" "fs \<noteq> [] \<Longrightarrow> pos \<le> pf_start (hd fs)"
  shows "fold redact_one (rev fs) t = take pos t @ redact_ref pos t fs"
  using assms
proof (induction fs arbitrary: pos)
  case (Cons f fs)
  have ok: "pf_start f < pf_end f" "pf_end f \<le> length t" "pos \<le> pf_start f"
    using Cons.prems by (auto simp: finding_ok_def)
  have "fold redact_one (rev fs) t = take (pf_end f) t @ redact_ref (pf_end f) t fs"
    using Cons.prems ok by (intro Cons.IH) (cases fs; auto)+
  then have "fold redact_one (rev (f # fs)) t =
      take (pf_start f) t @ marker (pf_type f) @ redact_ref (pf_end f) t fs"
    using ok by (simp add: redact_one_def)
  also have "take (pf_start f) t = take pos t @ take (pf_start f - pos) (drop pos t)"
    using ok by (metis le_add_diff_inverse take_add)
  finally show ?case by simp
qed simp

lemma redact_ref_correct:
  "separated fs \<Longrightarrow> list_all (finding_ok (length t)) fs \<Longrightarrow>
   redact_with_typed_markers t fs = redact_ref 0 t fs"
  using redact_fold [of fs t 0] by (simp add: redact_with_typed_markers_def)

lemma normalize_finding_ok:
  "normalize_finding t f = Inr n \<Longrightarrow> finding_ok (length t) n"
  by (auto simp: normalize_finding_def ebind_eq_Inr finding_ok_def split: if_splits)

lemma deduplicate_findings_facts:
  assumes "list_all (finding_ok n) fs"
  shows "let out = deduplicate_findings fs in
    separated out \<and> list_all (finding_ok n) out \<and> spans out = spans fs \<and>
    list_all (\<lambda>f. \<exists>g\<in>set out. covers g f) fs"
proof -
  let ?s = "sort_key finding_key fs"
  have "spans (merge_findings [] ?s) = spans [] \<union> spans ?s"
    by (rule spans_merge) (simp_all add: sorted_by_start)
  moreover have "\<exists>g\<in>set (merge_findings [] ?s). covers g f" if "f \<in> set fs" for f
    by (rule covers_merge) (use that in \<open>simp_all add: sorted_by_start\<close>)
  moreover have "list_all (finding_ok n) (merge_findings [] ?s)"
    using assms by (intro finding_ok_merge) (simp_all add: list_all_iff)
  moreover have "separated (merge_findings [] ?s)" by (rule separated_merge) simp
  ultimately show ?thesis
    by (simp add: deduplicate_findings_def Let_def list_all_iff)
qed

section \<open>Properties\<close>

text \<open>
  Merging findings of a text of \<open>n\<close> code points neither loses nor invents a redacted code
  point: the merged findings are valid, in text order and disjoint, they span exactly what the given
  ones span, and each given finding lies inside one merged finding at least as certain.
\<close>

theorem deduplicate_findings_correct:
  assumes "list_all (finding_ok n) fs"
  shows "let out = deduplicate_findings fs in
    separated out \<and> list_all (finding_ok n) out \<and> spans out = spans fs \<and>
    list_all (\<lambda>f. \<exists>g\<in>set out. covers g f) fs"
  by (rule deduplicate_findings_facts [OF assms])

definition demo_findings :: "pii_finding list" where
  "demo_findings =
     [\<lparr>pf_type = ''EMAIL_ADDRESS'', pf_start = 4, pf_end = 9, pf_score = 1/2\<rparr>,
      \<lparr>pf_type = ''US_SSN'', pf_start = 7, pf_end = 12, pf_score = 9/10\<rparr>,
      \<lparr>pf_type = ''PERSON'', pf_start = 0, pf_end = 2, pf_score = 3/10\<rparr>]"

lemma demo_findings_merged:
  "deduplicate_findings demo_findings =
     [\<lparr>pf_type = ''PERSON'', pf_start = 0, pf_end = 2, pf_score = 3/10\<rparr>,
      \<lparr>pf_type = ''US_SSN'', pf_start = 4, pf_end = 12, pf_score = 9/10\<rparr>]"
  by (simp add: deduplicate_findings_def demo_findings_def finding_key_def absorb_def
      sort_key_simps less_eq_prod_def)

theorem deduplicate_findings_correct_witness:
  "spans [\<lparr>pf_type = ''PERSON'', pf_start = 0, pf_end = 2, pf_score = 3/10\<rparr>,
      \<lparr>pf_type = ''US_SSN'', pf_start = 4, pf_end = 12, pf_score = 9/10\<rparr>] = spans demo_findings"
proof -
  have "list_all (finding_ok 12) demo_findings" by (simp add: demo_findings_def finding_ok_def)
  from deduplicate_findings_correct [OF this] show ?thesis
    by (simp add: demo_findings_merged Let_def)
qed

text \<open>
  Redacting from the last finding to the first gives the one-pass result: for findings in text
  order, each span is replaced by its marker and every code point outside the spans is kept in
  place and order, so no replacement shifts the offsets of another.
\<close>

theorem redact_with_typed_markers_correct:
  assumes "separated fs" "list_all (finding_ok (length t)) fs"
  shows "redact_with_typed_markers t fs = redact_ref 0 t fs"
  by (rule redact_ref_correct [OF assms])

theorem redact_with_typed_markers_correct_witness:
  "redact_with_typed_markers (map of_char ''id 123-45-6789 ok'')
     [\<lparr>pf_type = ''US_SSN'', pf_start = 3, pf_end = 14, pf_score = 9/10\<rparr>]
   = map of_char ''id [US_SSN] ok''"
proof -
  have "redact_with_typed_markers (map of_char ''id 123-45-6789 ok'')
     [\<lparr>pf_type = ''US_SSN'', pf_start = 3, pf_end = 14, pf_score = 9/10\<rparr>]
    = redact_ref 0 (map of_char ''id 123-45-6789 ok'')
     [\<lparr>pf_type = ''US_SSN'', pf_start = 3, pf_end = 14, pf_score = 9/10\<rparr>]"
    by (rule redact_with_typed_markers_correct) (simp_all add: finding_ok_def)
  then show ?thesis by (simp add: marker_def)
qed

end
