(* ===== verification/GovPipeline.thy ===== *)
theory GovPipeline imports PiiFindings begin

text \<open>
  The inspection pipeline of the governance service: \<open>governance/app/harm.py\<close>, \<open>opa.py\<close>,
  \<open>context.py\<close> and \<open>pipeline.py\<close>. The classifiers, the PII scanner and OPA's HTTP endpoint
  are functions of what the code sends them, so the model also says what each of them is shown.
\<close>

section \<open>harm.py\<close>

definition INJECTION_THRESHOLD :: rat where "INJECTION_THRESHOLD = 1 / 2"
definition BANNED_TOPIC_THRESHOLD :: rat where "BANNED_TOPIC_THRESHOLD = 8 / 10"

definition BANNED_TOPICS :: "string list" where
  "BANNED_TOPICS = [''violence'', ''hate'', ''illegal'', ''jailbreak'']"

record harm_result =
  hr_score :: rat
  hr_blocked :: bool
  hr_reason :: string

text \<open>
  The two Hugging Face pipelines: the injection classifier returns a label and a score, the
  zero-shot classifier one score per banned topic.
\<close>

record harm_models =
  injection_pipe :: "utext \<Rightarrow> py_error + (string \<times> rat)"
  topics_pipe :: "utext \<Rightarrow> string list \<Rightarrow> py_error + rat list"

definition py_max :: "rat list \<Rightarrow> py_error + rat" where
  "py_max xs = (if xs = [] then Inl (ValueError ''max() iterable argument is empty'')
                else Inr (fold max (tl xs) (hd xs)))"

definition harm_scan :: "harm_models \<Rightarrow> utext \<Rightarrow> py_error + harm_result" where
  "harm_scan hm t =
     ebind (injection_pipe hm t) (\<lambda>(label, s).
     ebind (topics_pipe hm t BANNED_TOPICS) (\<lambda>scores.
     ebind (py_max scores) (\<lambda>top_score.
       let inj_score = (if py_upper label = ''INJECTION'' then s else 1 - s);
           inj_blocked = (inj_score \<ge> INJECTION_THRESHOLD);
           top_blocked = (top_score \<ge> BANNED_TOPIC_THRESHOLD)
       in Inr \<lparr>hr_score = max inj_score top_score,
               hr_blocked = (inj_blocked \<or> top_blocked),
               hr_reason = (if inj_blocked then ''prompt_injection''
                            else if top_blocked then ''banned_topic'' else [])\<rparr>)))"

section \<open>opa.py\<close>

datatype opa_exception =
    OPATimeoutError
  | OPAConnectionError
  | OPAResultError
  | NotOPAError py_error

datatype opa_http =
    OpaTimeout
  | OpaRequestError
  | OpaStatus nat        \<comment> \<open>\<open>raise_for_status\<close> raised\<close>
  | OpaRaises py_error   \<comment> \<open>any other exception, \<open>resp.json()\<close> included\<close>
  | OpaBody json

record opa_result =
  opa_allowed :: bool
  opa_violations :: "json list"

text \<open>\<open>list(deny)\<close> for a JSON value; \<open>len(deny)\<close> raises in the same cases.\<close>

fun py_list_of :: "json \<Rightarrow> py_error + json list" where
  "py_list_of (JList xs) = Inr xs"
| "py_list_of (JStr s) = Inr (map (\<lambda>c. JStr [c]) s)"
| "py_list_of (JObj d) = Inr (map (\<lambda>(k, v). JStr k) d)"
| "py_list_of _ = Inl TypeError"

definition opa_decision :: "json \<Rightarrow> py_error + opa_result" where
  "opa_decision result =
     ebind (py_dot_get result ''allow'' (JBool False)) (\<lambda>allow.
     ebind (py_dot_get result ''deny'' (JList [])) (\<lambda>deny.
     ebind (py_list_of deny) (\<lambda>ds.
       Inr \<lparr>opa_allowed = (json_truthy allow \<and> length ds = 0), opa_violations = ds\<rparr>)))"

definition lift_opa :: "py_error + 'a \<Rightarrow> opa_exception + 'a" where
  "lift_opa r = (case r of Inl e \<Rightarrow> Inl (NotOPAError e) | Inr a \<Rightarrow> Inr a)"

definition opa_check :: "opa_http \<Rightarrow> opa_exception + opa_result" where
  "opa_check reply =
     (case reply of
        OpaTimeout \<Rightarrow> Inl OPATimeoutError
      | OpaRequestError \<Rightarrow> Inl OPAConnectionError
      | OpaStatus n \<Rightarrow> Inl OPAResultError
      | OpaRaises e \<Rightarrow> Inl (NotOPAError e)
      | OpaBody body \<Rightarrow>
          ebind (lift_opa (py_in ''result'' body)) (\<lambda>present.
            if \<not> present then Inl OPAResultError
            else ebind (lift_opa (py_subscript body ''result'')) (\<lambda>result.
              lift_opa (opa_decision result))))"

section \<open>context.py and pipeline.py\<close>

record pipeline_context =
  pc_text :: utext
  pc_tenant_id :: string
  pc_user_id :: string
  pc_model_id :: string
  pc_routing_method :: string
  pc_phase :: string
  pc_roles :: "string list"
  pc_findings :: "pii_finding list"
  pc_classification :: string
  pc_redacted :: "utext option"
  pc_harm_score :: rat
  pc_decision :: string
  pc_violations :: "json list"

definition new_context ::
  "utext \<Rightarrow> string \<Rightarrow> string \<Rightarrow> string \<Rightarrow> string \<Rightarrow> string \<Rightarrow> string list \<Rightarrow> pipeline_context" where
  "new_context t tenant user model routing phase roles =
     \<lparr>pc_text = t, pc_tenant_id = tenant, pc_user_id = user, pc_model_id = model,
      pc_routing_method = routing, pc_phase = phase, pc_roles = roles, pc_findings = [],
      pc_classification = ''none'', pc_redacted = None, pc_harm_score = 0,
      pc_decision = ''allow'', pc_violations = []\<rparr>"

text \<open>The document the pipeline sends to OPA.\<close>

record opa_request =
  or_phase :: string
  or_model :: string
  or_provider :: string
  or_classification :: string
  or_findings :: "pii_finding list"
  or_user_id :: string
  or_tenant_id :: string
  or_roles :: "string list"

definition opa_input :: "pipeline_context \<Rightarrow> opa_request" where
  "opa_input ctx =
     \<lparr>or_phase = pc_phase ctx, or_model = pc_model_id ctx, or_provider = pc_routing_method ctx,
      or_classification = pc_classification ctx, or_findings = pc_findings ctx,
      or_user_id = pc_user_id ctx, or_tenant_id = pc_tenant_id ctx, or_roles = pc_roles ctx\<rparr>"

record pipeline_env =
  scan_pii :: "utext \<Rightarrow> pii_error + pii_result"
  models :: harm_models
  opa_server :: "opa_request \<Rightarrow> opa_http"

definition HARM_THRESHOLD :: rat where "HARM_THRESHOLD = 8 / 10"

definition block :: "json list \<Rightarrow> pipeline_context \<Rightarrow> pipeline_context" where
  "block vs ctx = ctx\<lparr>pc_decision := ''block'', pc_violations := pc_violations ctx @ vs\<rparr>"

definition pii_stage :: "pipeline_env \<Rightarrow> pipeline_context \<Rightarrow> pipeline_context" where
  "pii_stage env ctx =
     (case scan_pii env (pc_text ctx) of
        Inl e \<Rightarrow> block [JStr ''pii:scan_error''] ctx
      | Inr r \<Rightarrow> ctx\<lparr>pc_findings := pr_findings r, pc_classification := pr_classification r,
                     pc_redacted := Some (pr_redacted r)\<rparr>)"

definition harm_part :: "(py_error + harm_result) \<Rightarrow> pipeline_context \<Rightarrow> pipeline_context" where
  "harm_part r ctx =
     (case r of
        Inl e \<Rightarrow> ctx
      | Inr h \<Rightarrow>
          (let ctx' = ctx\<lparr>pc_harm_score := hr_score h\<rparr>
           in if hr_blocked h \<or> hr_score h \<ge> HARM_THRESHOLD
              then block [JStr (''harm:'' @ hr_reason h)] ctx' else ctx'))"

definition opa_part :: "(opa_exception + opa_result) \<Rightarrow> pipeline_context \<Rightarrow> pipeline_context" where
  "opa_part r ctx =
     (case r of
        Inl (NotOPAError e) \<Rightarrow> block [JStr ''opa:error''] ctx
      | Inl _ \<Rightarrow> block [JStr ''opa:unavailable''] ctx
      | Inr o_res \<Rightarrow> (if opa_allowed o_res then ctx else block (opa_violations o_res) ctx))"

definition text_to_check :: "pipeline_context \<Rightarrow> utext" where
  "text_to_check ctx = (case pc_redacted ctx of Some t \<Rightarrow> t | None \<Rightarrow> pc_text ctx)"

definition harm_opa_stage :: "pipeline_env \<Rightarrow> pipeline_context \<Rightarrow> pipeline_context" where
  "harm_opa_stage env ctx =
     opa_part (opa_check (opa_server env (opa_input ctx)))
       (harm_part (harm_scan (models env) (text_to_check ctx)) ctx)"

definition run_pipeline :: "pipeline_env \<Rightarrow> pipeline_context \<Rightarrow> pipeline_context" where
  "run_pipeline env ctx = harm_opa_stage env (pii_stage env ctx)"

section \<open>Lemmas\<close>

lemma fold_max_ge: "x \<in> set xs \<or> x \<le> (a::rat) \<Longrightarrow> x \<le> fold max xs a"
proof (induction xs arbitrary: a)
  case (Cons y ys)
  have "x \<in> set ys \<or> x \<le> max y a" using Cons.prems by (auto simp: le_max_iff_disj)
  from Cons.IH [OF this] show ?case by (simp only: fold_simps)
qed simp

lemma py_max_ge: "py_max xs = Inr m \<Longrightarrow> x \<in> set xs \<Longrightarrow> x \<le> m"
  by (cases xs) (auto simp: py_max_def intro!: fold_max_ge)

text \<open>The blocking condition of a harm result is decided by the scanner alone.\<close>

lemma harm_scan_threshold:
  assumes "harm_scan hm t = Inr h" "hr_score h \<ge> HARM_THRESHOLD"
  shows "hr_blocked h"
proof -
  have thr: "HARM_THRESHOLD = BANNED_TOPIC_THRESHOLD" "INJECTION_THRESHOLD \<le> HARM_THRESHOLD"
    by (simp_all add: HARM_THRESHOLD_def INJECTION_THRESHOLD_def BANNED_TOPIC_THRESHOLD_def)
  obtain i m where "hr_score h = max i m"
    "hr_blocked h \<longleftrightarrow> INJECTION_THRESHOLD \<le> i \<or> BANNED_TOPIC_THRESHOLD \<le> m"
    using assms(1) by (auto simp: harm_scan_def ebind_eq_Inr Let_def)
  then show ?thesis
    using assms(2) thr by (auto simp: le_max_iff_disj)
qed

lemma harm_scan_reason:
  "harm_scan hm t = Inr h \<Longrightarrow> hr_blocked h \<longleftrightarrow> hr_reason h \<in> {''prompt_injection'', ''banned_topic''}"
  by (auto simp: harm_scan_def ebind_eq_Inr Let_def split: if_splits)

lemma block_simps [simp]:
  "pc_decision (block vs c) = ''block''"
  "pc_violations (block vs c) = pc_violations c @ vs"
  "pc_text (block vs c) = pc_text c"
  "pc_redacted (block vs c) = pc_redacted c"
  "pc_findings (block vs c) = pc_findings c"
  "pc_harm_score (block vs c) = pc_harm_score c"
  "pc_tenant_id (block vs c) = pc_tenant_id c"
  "pc_user_id (block vs c) = pc_user_id c"
  "pc_model_id (block vs c) = pc_model_id c"
  "pc_routing_method (block vs c) = pc_routing_method c"
  "pc_phase (block vs c) = pc_phase c"
  "pc_roles (block vs c) = pc_roles c"
  "pc_classification (block vs c) = pc_classification c"
  "opa_input (block vs c) = opa_input c"
  by (simp_all add: block_def opa_input_def)

lemma opa_check_allowed:
  "opa_check r = Inr res \<and> opa_allowed res \<longleftrightarrow>
     (\<exists>d d' ds. r = OpaBody (JObj d) \<and> map_of d ''result'' = Some (JObj d') \<and>
        json_truthy (jget_or d' ''allow'' (JBool False)) \<and>
        py_list_of (jget_or d' ''deny'' (JList [])) = Inr [] \<and>
        res = \<lparr>opa_allowed = True, opa_violations = []\<rparr>)"
proof (cases r)
  case (OpaBody body)
  show ?thesis
  proof (cases body)
    case (JObj d)
    show ?thesis
    proof (cases "map_of d ''result''")
      case None
      then show ?thesis using OpaBody JObj by (simp add: opa_check_def lift_opa_def in_keys_iff)
    next
      case (Some v)
      then show ?thesis using OpaBody JObj
        by (cases v) (auto simp: opa_check_def lift_opa_def in_keys_iff opa_decision_def
            ebind_def split: sum.splits)
    qed
  qed (use OpaBody in \<open>auto simp: opa_check_def lift_opa_def\<close>)
qed (auto simp: opa_check_def)

definition harm_blocks :: "(py_error + harm_result) \<Rightarrow> bool" where
  "harm_blocks r = (case r of Inl e \<Rightarrow> False | Inr h \<Rightarrow> hr_blocked h)"

definition opa_violation_list :: "(opa_exception + opa_result) \<Rightarrow> json list" where
  "opa_violation_list r =
     (case r of
        Inl (NotOPAError e) \<Rightarrow> [JStr ''opa:error'']
      | Inl _ \<Rightarrow> [JStr ''opa:unavailable'']
      | Inr o_res \<Rightarrow> (if opa_allowed o_res then [] else opa_violations o_res))"

lemma harm_part_simps:
  assumes "r = harm_scan hm t"
  shows "pc_decision (harm_part r c) = (if harm_blocks r then ''block'' else pc_decision c)"
    and "pc_violations (harm_part r c) =
      pc_violations c @
        (case r of Inr h \<Rightarrow> if hr_blocked h then [JStr (''harm:'' @ hr_reason h)] else [] | _ \<Rightarrow> [])"
    and "opa_input (harm_part r c) = opa_input c"
    and "pc_redacted (harm_part r c) = pc_redacted c"
  using assms harm_scan_threshold [of hm t]
  by (auto simp: harm_part_def harm_blocks_def Let_def opa_input_def split: sum.splits)

lemma opa_part_simps:
  "pc_decision (opa_part r c) =
     (if \<exists>res. r = Inr res \<and> opa_allowed res then pc_decision c else ''block'')"
  "pc_violations (opa_part r c) = pc_violations c @ opa_violation_list r"
  "pc_redacted (opa_part r c) = pc_redacted c"
  by (auto simp: opa_part_def opa_violation_list_def split: sum.splits opa_exception.splits)

lemma run_pipeline_decision:
  "pc_decision (run_pipeline env (new_context t tenant user model routing phase roles)) \<in> {''allow'', ''block''}"
  by (auto simp: run_pipeline_def harm_opa_stage_def opa_part_simps harm_part_simps [OF refl] pii_stage_def new_context_def
      split: sum.splits)

lemma opa_part_findings [simp]: "pc_findings (opa_part r c) = pc_findings c" "pc_text (opa_part r c) = pc_text c"
  by (auto simp: opa_part_def split: sum.splits opa_exception.splits)

lemma harm_part_findings [simp]: "pc_findings (harm_part r c) = pc_findings c" "pc_text (harm_part r c) = pc_text c"
  by (auto simp: harm_part_def Let_def split: sum.splits)

lemma run_pipeline_scanned:
  assumes "scan_pii env t = Inr r"
  shows "pc_findings (run_pipeline env (new_context t tenant user model routing phase roles)) = pr_findings r"
    "pc_redacted (run_pipeline env (new_context t tenant user model routing phase roles)) = Some (pr_redacted r)"
    "pc_text (run_pipeline env (new_context t tenant user model routing phase roles)) = t"
  using assms by (simp_all add: run_pipeline_def harm_opa_stage_def pii_stage_def opa_part_simps harm_part_simps [OF refl] new_context_def)

section \<open>Properties\<close>

text \<open>
  The pipeline allows a request exactly if the PII scan succeeded, OPA was reached and answered
  with a true \<open>allow\<close> and an empty \<open>deny\<close>, and the harm scan, if it did not fail, found
  neither an injection nor a banned topic. So PII and OPA failures block and harm failures do not;
  OPA decides on a document built from the PII findings, and the harm scan sees the redacted text.
\<close>

theorem pipeline_allows_iff:
  "pc_decision (run_pipeline env (new_context t tenant user model routing phase roles)) = ''allow''
   \<longleftrightarrow>
    (\<exists>r res. scan_pii env t = Inr r \<and>
       opa_check (opa_server env
         (opa_input ((new_context t tenant user model routing phase roles)
            \<lparr>pc_findings := pr_findings r, pc_classification := pr_classification r\<rparr>)))
         = Inr res \<and> opa_allowed res \<and>
       \<not> harm_blocks (harm_scan (models env) (pr_redacted r)))"
proof (cases "scan_pii env t")
  case (Inl e)
  then show ?thesis
    by (auto simp: run_pipeline_def pii_stage_def harm_opa_stage_def opa_part_simps
        harm_part_simps [OF refl] new_context_def)
next
  case (Inr r)
  let ?ctx = "new_context t tenant user model routing phase roles"
  let ?c = "?ctx\<lparr>pc_findings := pr_findings r, pc_classification := pr_classification r,
      pc_redacted := Some (pr_redacted r)\<rparr>"
  have p: "pii_stage env ?ctx = ?c"
    using Inr by (simp add: pii_stage_def new_context_def)
  have i: "opa_input ?c = opa_input
      (?ctx\<lparr>pc_findings := pr_findings r, pc_classification := pr_classification r\<rparr>)"
    by (simp add: opa_input_def)
  have t: "text_to_check ?c = pr_redacted r" by (simp add: text_to_check_def)
  have d: "pc_decision ?c = ''allow''" by (simp add: new_context_def)
  show ?thesis
    unfolding run_pipeline_def p harm_opa_stage_def i t opa_part_simps harm_part_simps [OF refl] d
    using Inr by auto
qed

text \<open>
  The violations of a run are, in this order, the PII scan error, the harm reason and what OPA
  reported; nothing else is ever reported, and a violation is reported for every reason to block
  except an OPA refusal that names none.
\<close>

theorem pipeline_violations:
  "pc_violations (run_pipeline env ctx) =
     pc_violations ctx @
     (case scan_pii env (pc_text ctx) of Inl e \<Rightarrow> [JStr ''pii:scan_error''] | Inr r \<Rightarrow> []) @
     (case harm_scan (models env) (text_to_check (pii_stage env ctx)) of
        Inl e \<Rightarrow> []
      | Inr h \<Rightarrow> if hr_blocked h then [JStr (''harm:'' @ hr_reason h)] else []) @
     opa_violation_list (opa_check (opa_server env (opa_input (pii_stage env ctx))))"
proof -
  have "pc_violations (pii_stage env ctx) = pc_violations ctx @
      (case scan_pii env (pc_text ctx) of Inl e \<Rightarrow> [JStr ''pii:scan_error''] | Inr r \<Rightarrow> [])"
    by (simp add: pii_stage_def split: sum.splits)
  then show ?thesis
    by (simp add: run_pipeline_def harm_opa_stage_def opa_part_simps harm_part_simps [OF refl]
        split: sum.splits)
qed

end
