(* ===== verification/Uuid7.thy ===== *)
theory Uuid7 imports Utf8 begin

text \<open>
  \<open>governance/app/audit.py\<close>, \<open>uuid7\<close>: the bit layout of audit and erasure identifiers. Python
  integers are unbounded, so the model is over \<open>nat\<close> with the code's shifts and masks; \<open>UUID(int=...)\<close>
  refuses a value outside 128 bits.
\<close>

definition uuid7 :: "nat \<Rightarrow> nat \<Rightarrow> py_error + nat" where
  \<comment> \<open>\<open>ms\<close>: milliseconds of the clock; \<open>rand\<close>: 80 random bits\<close>
  "uuid7 ms rand =
     (let rand_a = drop_bit 68 rand AND 0xFFF;
          rand_b = rand AND 0x3FFFFFFFFFFFFFFF;
          hi = (push_bit 16 ms OR push_bit 12 7) OR rand_a;
          lo = 0x8000000000000000 OR rand_b;
          n = push_bit 64 hi OR lo
      in if n < 2 ^ 128 then Inr n else Inl (ValueError ''int is out of range (need a 128-bit value)''))"

definition uuid_version :: "nat \<Rightarrow> nat" where
  "uuid_version u = drop_bit 76 u AND 0xF"

definition uuid_variant :: "nat \<Rightarrow> nat" where
  "uuid_variant u = drop_bit 62 u AND 3"

section \<open>Lemmas\<close>

lemma and_mask_nat: "(a::nat) AND (2 ^ n - 1) = a mod 2 ^ n"
  by (metis mask_eq_exp_minus_1 take_bit_eq_mask take_bit_eq_mod)

lemma push_or_nat: "(b::nat) < 2 ^ n \<Longrightarrow> push_bit n a OR b = a * 2 ^ n + b"
proof -
  assume b: "b < 2 ^ n"
  have "push_bit n a + b = push_bit n a OR b"
  proof (rule disjunctive_add)
    fix k
    have "bit b k \<Longrightarrow> k < n"
      using b by (metis bit_take_bit_iff take_bit_nat_eq_self_iff)
    then show "\<not> bit (push_bit n a) k \<or> \<not> bit b k"
      by (auto simp: bit_push_bit_iff)
  qed
  then show ?thesis by (simp add: push_bit_eq_mult)
qed

lemma uuid7_parts:
  assumes "rand < 2 ^ 80" "ms < 2 ^ 48"
  shows "uuid7 ms rand =
    Inr (((ms * 2 ^ 16 + 7 * 2 ^ 12) + rand div 2 ^ 68) * 2 ^ 64 + (2 ^ 63 + rand mod 2 ^ 62))"
proof -
  let ?a = "rand div 2 ^ 68" and ?b = "rand mod 2 ^ 62"
  have a: "?a < 2 ^ 12" using assms(1) by (simp add: div_less_iff_less_mult)
  have ra: "drop_bit 68 rand AND 0xFFF = ?a"
    using and_mask_nat [of "drop_bit 68 rand" 12] a by (simp add: drop_bit_eq_div)
  have rb: "rand AND 0x3FFFFFFFFFFFFFFF = ?b"
    using and_mask_nat [of rand 62] by simp
  have h1: "push_bit 16 ms OR push_bit 12 7 = ms * 2 ^ 16 + 7 * 2 ^ 12"
    using push_or_nat [of "7 * 2 ^ 12" 16 ms] by (simp add: push_bit_eq_mult)
  have h2: "(ms * 2 ^ 16 + 7 * 2 ^ 12) OR ?a = (ms * 2 ^ 16 + 7 * 2 ^ 12) + ?a"
    using push_or_nat [OF a, of "ms * 2 ^ 4 + 7"] by (simp add: push_bit_eq_mult algebra_simps)
  have b: "?b < 2 ^ 63" by (rule less_le_trans [of _ "2 ^ 62"]) simp_all
  have l: "0x8000000000000000 OR ?b = 2 ^ 63 + ?b"
    using push_or_nat [OF b, of 1] by (simp add: push_bit_eq_mult)
  have lo: "2 ^ 63 + ?b < (2::nat) ^ 64"
    using mod_less_divisor [of "2 ^ 62" rand] by simp
  have n: "push_bit 64 ((ms * 2 ^ 16 + 7 * 2 ^ 12) + ?a) OR (2 ^ 63 + ?b) =
      ((ms * 2 ^ 16 + 7 * 2 ^ 12) + ?a) * 2 ^ 64 + (2 ^ 63 + ?b)"
    by (rule push_or_nat [OF lo])
  have "(ms * 2 ^ 16 + 7 * 2 ^ 12) + ?a < 2 ^ 64" using a assms(2) by simp
  then have "((ms * 2 ^ 16 + 7 * 2 ^ 12) + ?a) * 2 ^ 64 + (2 ^ 63 + ?b) < 2 ^ 128"
    using lo by simp
  then show ?thesis by (simp only: uuid7_def Let_def ra rb h1 h2 l n if_True)
qed

section \<open>Properties\<close>

text \<open>
  With a 48-bit millisecond clock, \<open>uuid7\<close> always yields a 128-bit identifier whose version field
  is 7 and whose variant field is binary 10; the clock can be read back from its top 48 bits, and
  identifiers of a later millisecond are greater, so audit records sort by time of creation.
\<close>

theorem uuid7_layout:
  assumes "rand < 2 ^ 80" "ms < 2 ^ 48"
  shows "\<exists>u. uuid7 ms rand = Inr u \<and> u < 2 ^ 128 \<and> uuid_version u = 7 \<and> uuid_variant u = 2 \<and>
    drop_bit 80 u = ms \<and>
    (\<forall>ms' rand' u'. ms' < ms \<and> rand' < 2 ^ 80 \<and> uuid7 ms' rand' = Inr u' \<longrightarrow> u' < u)"
proof -
  let ?a = "\<lambda>rand. rand div 2 ^ 68 :: nat" and ?b = "\<lambda>rand. rand mod 2 ^ 62 :: nat"
  let ?u = "\<lambda>ms rand. ((ms * 2 ^ 16 + 7 * 2 ^ 12) + ?a rand) * 2 ^ 64 + (2 ^ 63 + ?b rand)"
  have a: "?a r < 4096" if "r < 2 ^ 80" for r :: nat using that by (simp add: div_less_iff_less_mult)
  have b: "?b r < 4611686018427387904" for r :: nat
    using mod_less_divisor [of "2 ^ 62" r] by simp
  have form: "?u m r = m * 1208925819614629174706176 + 7 * 75557863725914323419136 +
      ?a r * 18446744073709551616 + 9223372036854775808 + ?b r" for m r
    by simp
  have "?u ms rand < 2 ^ 128" using a [OF assms(1)] b [of rand] assms(2) unfolding form by simp
  moreover have "uuid_version (?u ms rand) = 7"
  proof -
    have "?u ms rand div 2 ^ 76 = ms * 16 + 7"
      using a [OF assms(1)] b [of rand] unfolding form
      by (intro div_nat_eqI) simp_all
    then show ?thesis
      using and_mask_nat [of "drop_bit 76 (?u ms rand)" 4]
      by (simp add: uuid_version_def drop_bit_eq_div)
  qed
  moreover have "uuid_variant (?u ms rand) = 2"
  proof -
    have "?u ms rand div 2 ^ 62 = ((ms * 2 ^ 16 + 7 * 2 ^ 12) + ?a rand) * 4 + 2"
      using b [of rand] by (intro div_nat_eqI) simp_all
    moreover have "(x * 4 + 2) AND 3 = 2" for x :: nat
    proof -
      have "(x * 4 + 2) mod 4 = 2" by presburger
      then show ?thesis using and_mask_nat [of "x * 4 + 2" 2] by simp
    qed
    ultimately show ?thesis
      unfolding uuid_variant_def drop_bit_eq_div by (simp only:)
  qed
  moreover have "drop_bit 80 (?u ms rand) = ms"
    using a [OF assms(1)] b [of rand] unfolding form drop_bit_eq_div
    by (intro div_nat_eqI) simp_all
  moreover have "u' < ?u ms rand" if "ms' < ms" "rand' < 2 ^ 80" "uuid7 ms' rand' = Inr u'" for ms' rand' u'
  proof -
    have "u' = ?u ms' rand'" using that uuid7_parts [of rand' ms'] assms(2) by simp
    then show ?thesis
      using a [OF that(2)] b [of rand'] a [OF assms(1)] b [of rand] that(1) unfolding form by simp
  qed
  ultimately show ?thesis using uuid7_parts [OF assms] by blast
qed

theorem uuid7_layout_witness:
  "\<exists>u. uuid7 1750000000000 (2 ^ 79 + 5) = Inr u \<and> uuid_version u = 7 \<and> drop_bit 80 u = 1750000000000"
  using uuid7_layout [of "2 ^ 79 + 5" 1750000000000] by auto

end
