(* ===== verification/AuditDb.thy ===== *)
theory AuditDb imports GovPipeline Uuid7 Transition begin

text \<open>
  The audit side of the governance service: \<open>pseudonym.py\<close>, \<open>audit.py\<close> and the erasure endpoint of
  \<open>main.py\<close>, over the tables of the initial migration. A table is a list of rows in insertion order
  and each SQL statement is the function of the tables it denotes, including the key constraints it
  is checked against; a failed statement raises and the transaction is rolled back. The keyed hash
  is a parameter. Identifiers are the numbers behind the UUIDs: their fixed-width hexadecimal text
  sorts in the same order.
\<close>

section \<open>Tables\<close>

record pseudonym_row =
  ps_pseudonym :: string
  ps_real_user :: string
  ps_tenant :: string
  ps_rotation :: nat
  ps_deleted :: bool

record audit_row =
  au_id :: nat
  au_created :: rat
  au_user :: string
  au_tenant :: string
  au_model :: "string option"
  au_routing :: string
  au_decision :: string
  au_findings :: "pii_finding list"
  au_harm :: rat
  au_violations :: "json list"
  au_phase :: string

record erasure_row =
  er_id :: nat
  er_pseudonym :: string
  er_count :: nat

record gov_db =
  pmap :: "pseudonym_row list"
  audit_log :: "audit_row list"
  erasure_log :: "erasure_row list"
  partition_at :: "rat \<Rightarrow> bool"  \<comment> \<open>whether a partition exists for a creation time\<close>

definition unique_violation :: py_error where
  "unique_violation = OtherException ''UniqueViolation''"

definition triple :: "pseudonym_row \<Rightarrow> string \<times> string \<times> nat" where
  "triple r = (ps_real_user r, ps_tenant r, ps_rotation r)"

section \<open>pseudonym.py\<close>

definition compute_pseudonym ::
  "(string \<Rightarrow> string \<Rightarrow> string) \<Rightarrow> string \<Rightarrow> string \<Rightarrow> string \<Rightarrow> string \<Rightarrow> string" where
  \<comment> \<open>the last argument is the rotation in decimal\<close>
  "compute_pseudonym hmac key tenant user rotation =
     hmac key (tenant @ '':'' @ user @ '':'' @ rotation)"

text \<open>\<open>INSERT ... ON CONFLICT (real_user_id, tenant_id, rotation_id) DO NOTHING\<close>\<close>

definition insert_pseudonym :: "pseudonym_row \<Rightarrow> gov_db \<Rightarrow> py_error + gov_db" where
  "insert_pseudonym row db =
     (if triple row \<in> triple ` set (pmap db) then Inr db
      else if ps_pseudonym row \<in> ps_pseudonym ` set (pmap db) then Inl unique_violation
      else Inr (db\<lparr>pmap := pmap db @ [row]\<rparr>))"

text \<open>\<open>get_or_create\<close> is only ever called with rotation 0.\<close>

definition get_or_create ::
  "(string \<Rightarrow> string \<Rightarrow> string) \<Rightarrow> string \<Rightarrow> string \<Rightarrow> string \<Rightarrow> gov_db \<Rightarrow> py_error + (string \<times> gov_db)" where
  "get_or_create hmac key tenant user db =
     (let p = compute_pseudonym hmac key tenant user ''0'' in
      ebind (insert_pseudonym \<lparr>ps_pseudonym = p, ps_real_user = user, ps_tenant = tenant,
               ps_rotation = 0, ps_deleted = False\<rparr> db) (\<lambda>db'. Inr (p, db')))"

section \<open>audit.py\<close>

text \<open>An insert into the partitioned, append-only \<open>audit_log\<close>.\<close>

definition insert_audit :: "audit_row \<Rightarrow> gov_db \<Rightarrow> py_error + gov_db" where
  "insert_audit row db =
     (if \<not> partition_at db (au_created row) then Inl (OtherException ''no partition of relation found for row'')
      else if (au_id row, au_created row) \<in> (\<lambda>r. (au_id r, au_created r)) ` set (audit_log db)
      then Inl unique_violation
      else Inr (db\<lparr>audit_log := audit_log db @ [row]\<rparr>))"

definition llm_audit_row :: "pipeline_context \<Rightarrow> string \<Rightarrow> nat \<Rightarrow> rat \<Rightarrow> audit_row" where
  "llm_audit_row ctx p audit_id created =
     \<lparr>au_id = audit_id, au_created = created, au_user = p, au_tenant = pc_tenant_id ctx,
      au_model = Some (pc_model_id ctx), au_routing = pc_routing_method ctx,
      au_decision = pc_decision ctx, au_findings = pc_findings ctx, au_harm = pc_harm_score ctx,
      au_violations = pc_violations ctx, au_phase = pc_phase ctx\<rparr>"

definition write_audit ::
  "(string \<Rightarrow> string \<Rightarrow> string) \<Rightarrow> string \<Rightarrow> pipeline_context \<Rightarrow> nat \<Rightarrow> rat option \<Rightarrow> rat \<Rightarrow>
   gov_db \<Rightarrow> gov_db" where
  \<comment> \<open>any exception is logged and the transaction rolled back\<close>
  "write_audit hmac key ctx audit_id created now db =
     (let record_created_at = (case created of None \<Rightarrow> now | Some t \<Rightarrow> t) in
      case ebind (get_or_create hmac key (pc_tenant_id ctx) (pc_user_id ctx) db)
             (\<lambda>(p, db'). insert_audit (llm_audit_row ctx p audit_id record_created_at) db') of
        Inl e \<Rightarrow> db
      | Inr db' \<Rightarrow> db')"

definition mcp_audit_row :: "string \<Rightarrow> string \<Rightarrow> nat \<Rightarrow> rat \<Rightarrow> string \<Rightarrow> string \<Rightarrow> audit_row" where
  "mcp_audit_row p tenant audit_id now event_type decision =
     \<lparr>au_id = audit_id, au_created = now, au_user = p, au_tenant = tenant, au_model = None,
      au_routing = ''mcp'', au_decision = decision, au_findings = [], au_harm = 0,
      au_violations = (if decision = ''block'' then [JStr event_type] else []), au_phase = event_type\<rparr>"

definition write_mcp_audit_event ::
  "(string \<Rightarrow> string \<Rightarrow> string) \<Rightarrow> string \<Rightarrow> string \<Rightarrow> string \<Rightarrow> nat \<Rightarrow> string \<Rightarrow> string \<Rightarrow> rat \<Rightarrow>
   gov_db \<Rightarrow> (py_error + unit) \<times> gov_db" where
  \<comment> \<open>exceptions propagate; the session is closed without a commit\<close>
  "write_mcp_audit_event hmac key tenant user audit_id event_type decision now db =
     (case ebind (get_or_create hmac key tenant user db)
             (\<lambda>(p, db'). insert_audit (mcp_audit_row p tenant audit_id now event_type decision) db') of
        Inl e \<Rightarrow> (Inl e, db)
      | Inr db' \<Rightarrow> (Inr (), db'))"

section \<open>The erasure endpoint\<close>

definition active_for :: "string \<Rightarrow> string \<Rightarrow> pseudonym_row \<Rightarrow> bool" where
  "active_for user tenant r \<longleftrightarrow> ps_real_user r = user \<and> ps_tenant r = tenant \<and> \<not> ps_deleted r"

text \<open>\<open>UPDATE user_pseudonym_map SET real_user_id = '[ERASED]', deleted_at = now WHERE ...\<close>\<close>

definition update_erased :: "string \<Rightarrow> string \<Rightarrow> gov_db \<Rightarrow> py_error + gov_db" where
  "update_erased user tenant db =
     (let rows = map (\<lambda>r. if active_for user tenant r
                          then r\<lparr>ps_real_user := ''[ERASED]'', ps_deleted := True\<rparr> else r) (pmap db)
      in if distinct (map triple rows) then Inr (db\<lparr>pmap := rows\<rparr>) else Inl unique_violation)"

definition insert_erasure :: "nat \<Rightarrow> nat \<Rightarrow> string \<Rightarrow> gov_db \<Rightarrow> py_error + gov_db" where
  "insert_erasure eid n p db =
     (if eid \<in> er_id ` set (erasure_log db) then Inl unique_violation
      else Inr (db\<lparr>erasure_log := erasure_log db @ [\<lparr>er_id = eid, er_pseudonym = p, er_count = n\<rparr>]\<rparr>))"

fun insert_erasures :: "nat \<Rightarrow> nat \<Rightarrow> string list \<Rightarrow> gov_db \<Rightarrow> py_error + gov_db" where
  "insert_erasures eid n [] db = Inr db"
| "insert_erasures eid n (p # ps) db = ebind (insert_erasure eid n p db) (insert_erasures eid n ps)"

datatype erase_response =
    EraseForbidden
  | EraseNotFound
  | Erased nat nat nat  \<comment> \<open>erasure id, pseudonyms erased, audit rows\<close>

definition erase_user ::
  "string \<Rightarrow> string option \<Rightarrow> string \<Rightarrow> string \<Rightarrow> nat \<Rightarrow> gov_db \<Rightarrow> (py_error + erase_response) \<times> gov_db" where
  "erase_user expected_token token user tenant eid db =
     (case token_accepted token expected_token of
        Inl e \<Rightarrow> (Inl e, db)
      | Inr False \<Rightarrow> (Inr EraseForbidden, db)
      | Inr True \<Rightarrow>
          (let pseudonyms = map ps_pseudonym (filter (active_for user tenant) (pmap db));
               n = length (filter (\<lambda>a. au_user a \<in> set pseudonyms \<and> au_tenant a = tenant) (audit_log db))
           in if pseudonyms = [] then (Inr EraseNotFound, db)
              else case ebind (update_erased user tenant db) (insert_erasures eid n pseudonyms) of
                Inl e \<Rightarrow> (Inl e, db)
              | Inr db' \<Rightarrow> (Inr (Erased eid (length pseudonyms) n), db')))"

section \<open>The tables as a state machine\<close>

text \<open>The key constraints of the schema.\<close>

definition db_wf :: "gov_db \<Rightarrow> bool" where
  "db_wf db \<longleftrightarrow>
     distinct (map ps_pseudonym (pmap db)) \<and> distinct (map triple (pmap db)) \<and>
     distinct (map (\<lambda>r. (au_id r, au_created r)) (audit_log db)) \<and>
     distinct (map er_id (erasure_log db)) \<and>
     list_all (\<lambda>e. er_pseudonym e \<in> ps_pseudonym ` set (pmap db)) (erasure_log db)"

inductive db_step :: "gov_db \<Rightarrow> gov_db \<Rightarrow> bool" where
  "db_step db (write_audit hmac key ctx i created now db)"
| "db_step db (snd (write_mcp_audit_event hmac key tenant user i ty d now db))"
| "db_step db (snd (erase_user expected tok user tenant eid db))"
| "db_step db (db\<lparr>partition_at := f\<rparr>)"

definition empty_db :: gov_db where
  "empty_db = \<lparr>pmap = [], audit_log = [], erasure_log = [], partition_at = (\<lambda>t. True)\<rparr>"

section \<open>Lemmas\<close>

lemma insert_pseudonym_facts:
  assumes "insert_pseudonym row db = Inr db'" "db_wf db"
  shows "db_wf db' \<and> audit_log db' = audit_log db \<and> erasure_log db' = erasure_log db \<and>
    partition_at db' = partition_at db \<and> triple row \<in> triple ` set (pmap db')"
  using assms by (auto simp: insert_pseudonym_def db_wf_def list_all_iff split: if_splits)

lemma insert_audit_facts:
  assumes "insert_audit row db = Inr db'" "db_wf db"
  shows "db_wf db' \<and> audit_log db' = audit_log db @ [row] \<and> erasure_log db' = erasure_log db \<and>
    pmap db' = pmap db"
  using assms by (auto simp: insert_audit_def db_wf_def split: if_splits)

lemma get_or_create_facts:
  assumes "get_or_create hmac key tenant user db = Inr (p, db')" "db_wf db"
  shows "db_wf db' \<and> audit_log db' = audit_log db \<and> erasure_log db' = erasure_log db \<and>
    p = compute_pseudonym hmac key tenant user ''0'' \<and>
    (user, tenant, 0) \<in> triple ` set (pmap db')"
  using assms insert_pseudonym_facts [OF _ assms(2)]
  by (fastforce simp: get_or_create_def ebind_eq_Inr Let_def triple_def)

lemma insert_erasure_facts:
  assumes "insert_erasure eid n p db = Inr db'" "db_wf db" "p \<in> ps_pseudonym ` set (pmap db)"
  shows "db_wf db' \<and> audit_log db' = audit_log db \<and> pmap db' = pmap db"
  using assms by (auto simp: insert_erasure_def db_wf_def split: if_splits)

lemma insert_erasures_facts:
  "insert_erasures eid n ps db = Inr db' \<Longrightarrow> db_wf db \<Longrightarrow> set ps \<subseteq> ps_pseudonym ` set (pmap db) \<Longrightarrow>
   db_wf db' \<and> audit_log db' = audit_log db \<and> pmap db' = pmap db"
proof (induction eid n ps db rule: insert_erasures.induct)
  case (2 eid n p ps db)
  then obtain db1 where "insert_erasure eid n p db = Inr db1" "insert_erasures eid n ps db1 = Inr db'"
    by (auto simp: ebind_eq_Inr)
  then show ?case using 2 insert_erasure_facts [of eid n p db db1] by auto
qed simp

lemma update_erased_facts:
  assumes "update_erased user tenant db = Inr db'" "db_wf db"
  shows "db_wf db' \<and> audit_log db' = audit_log db \<and> map ps_pseudonym (pmap db') = map ps_pseudonym (pmap db) \<and>
    (\<forall>r\<in>set (pmap db'). \<not> active_for user tenant r)"
proof -
  let ?f = "\<lambda>r. if active_for user tenant r then r\<lparr>ps_real_user := ''[ERASED]'', ps_deleted := True\<rparr> else r"
  have db': "db' = db\<lparr>pmap := map ?f (pmap db)\<rparr>" "distinct (map triple (map ?f (pmap db)))"
    using assms(1) by (auto simp: update_erased_def Let_def split: if_splits)
  have p: "map ps_pseudonym (pmap db') = map ps_pseudonym (pmap db)"
    unfolding db'(1) by simp
  then have i: "ps_pseudonym ` set (pmap db') = ps_pseudonym ` set (pmap db)" by (metis set_map)
  have "pmap db' = map ?f (pmap db)" unfolding db'(1) by simp
  moreover have "\<not> active_for user tenant (?f r)" for r by (simp add: active_for_def)
  ultimately have a: "\<forall>r\<in>set (pmap db'). \<not> active_for user tenant r"
    by (metis (no_types, lifting) ex_map_conv)
  have "distinct (map triple (pmap db'))" unfolding db'(1) using db'(2) by simp
  moreover have "audit_log db' = audit_log db" "erasure_log db' = erasure_log db"
    unfolding db'(1) by simp_all
  ultimately show ?thesis
    using assms(2) p a unfolding db_wf_def i by (simp only: simp_thms)
qed

lemma erase_user_facts:
  assumes "erase_user expected tok user tenant eid db = (res, db')" "db_wf db"
  shows "db_wf db' \<and> audit_log db' = audit_log db"
proof (cases "db' = db")
  case False
  let ?ps = "map ps_pseudonym (filter (active_for user tenant) (pmap db))"
  obtain n db1 where u: "update_erased user tenant db = Inr db1"
      "insert_erasures eid n ?ps db1 = Inr db'"
    using assms(1) False
    by (auto simp: erase_user_def Let_def ebind_eq_Inr split: sum.splits bool.splits if_splits)
  note f = update_erased_facts [OF u(1) assms(2)]
  have "ps_pseudonym ` set (pmap db1) = ps_pseudonym ` set (pmap db)" using f by (metis set_map)
  then have "set ?ps \<subseteq> ps_pseudonym ` set (pmap db1)" by auto
  then show ?thesis using insert_erasures_facts [OF u(2)] f by simp
qed (use assms in simp)

lemma write_audit_cases:
  assumes "write_audit hmac key ctx i created now db = db'" "db_wf db"
  obtains (lost) "db' = db"
  | (written) p where "p = compute_pseudonym hmac key (pc_tenant_id ctx) (pc_user_id ctx) ''0''"
      "audit_log db' = audit_log db @
         [llm_audit_row ctx p i (case created of None \<Rightarrow> now | Some t \<Rightarrow> t)]" "db_wf db'"
proof (cases "db' = db")
  case False
  let ?t = "case created of None \<Rightarrow> now | Some t \<Rightarrow> t"
  obtain p db1 where g: "get_or_create hmac key (pc_tenant_id ctx) (pc_user_id ctx) db = Inr (p, db1)"
      "insert_audit (llm_audit_row ctx p i ?t) db1 = Inr db'"
    using assms(1) False by (auto simp: write_audit_def Let_def ebind_def split: sum.splits)
  note f = get_or_create_facts [OF g(1) assms(2)]
  then show thesis using written insert_audit_facts [OF g(2)] by auto
qed

lemma write_mcp_cases:
  assumes "write_mcp_audit_event hmac key tenant user i ty d now db = (res, db')" "db_wf db"
  obtains (failed) e where "res = Inl e" "db' = db"
  | (written) p where "res = Inr ()" "p = compute_pseudonym hmac key tenant user ''0''"
      "audit_log db' = audit_log db @ [mcp_audit_row p tenant i now ty d]" "db_wf db'"
proof (cases res)
  case (Inl e)
  then show thesis using assms(1) failed
    by (auto simp: write_mcp_audit_event_def split: sum.splits)
next
  case (Inr u)
  obtain p db1 where g: "get_or_create hmac key tenant user db = Inr (p, db1)"
      "insert_audit (mcp_audit_row p tenant i now ty d) db1 = Inr db'"
    using assms(1) Inr by (auto simp: write_mcp_audit_event_def ebind_def split: sum.splits)
  note f = get_or_create_facts [OF g(1) assms(2)]
  then show thesis using written insert_audit_facts [OF g(2)] Inr by auto
qed

lemma db_step_wf: "db_wf db \<Longrightarrow> db_step db db' \<Longrightarrow> db_wf db' \<and> (\<exists>rows. audit_log db' = audit_log db @ rows)"
proof (erule db_step.cases, goal_cases)
  case (1 db0 hmac key ctx i created now)
  then have "write_audit hmac key ctx i created now db = db'" by simp
  from this 1(1) show ?case by (rule write_audit_cases) (use 1(1) in auto)
next
  case (2 db0 hmac key tenant user i ty d now)
  obtain res where "write_mcp_audit_event hmac key tenant user i ty d now db = (res, db')"
    using 2 by (metis prod.collapse)
  from this 2(1) show ?case by (rule write_mcp_cases) (use 2(1) in auto)
next
  case (3 db0 expected tok user tenant eid)
  obtain res where "erase_user expected tok user tenant eid db = (res, db')"
    using 3 by (metis prod.collapse)
  then show ?case using 3 erase_user_facts by fastforce
next
  case (4 db0 f)
  then show ?case by (simp add: db_wf_def)
qed

interpretation audit_machine: initialised_invariant db_step db_wf empty_db
  by unfold_locales (auto simp: db_step_wf, simp add: db_wf_def empty_db_def)

section \<open>Properties\<close>

text \<open>
  C37. Whatever is written, failed writes and erasures included, the tables keep their key
  constraints, and the audit log is append-only: every operation leaves the existing rows as they
  are and adds at most new ones at the end.
\<close>

theorem audit_log_append_only:
  assumes "db_step\<^sup>*\<^sup>* empty_db db" "db_step\<^sup>*\<^sup>* db db'"
  shows "db_wf db' \<and> (\<exists>rows. audit_log db' = audit_log db @ rows)"
  using assms(2)
proof (induction rule: rtranclp_induct)
  case base
  then show ?case using audit_machine.inv_reachable [OF assms(1)] by simp
next
  case (step y z)
  then show ?case using db_step_wf [of y z] by auto
qed

theorem audit_log_append_only_witness:
  "db_wf (write_audit (\<lambda>k m. m) ''k'' (new_context [104] ''t'' ''ann'' ''m'' ''r'' ''request'' []) 9 None 0
     empty_db)"
proof -
  have "db_step\<^sup>*\<^sup>* empty_db (write_audit (\<lambda>k m. m) ''k''
      (new_context [104] ''t'' ''ann'' ''m'' ''r'' ''request'' []) 9 None 0 empty_db)"
    by (rule r_into_rtranclp) (rule db_step.intros)
  from audit_log_append_only [OF rtranclp.rtrancl_refl this] show ?thesis by blast
qed

text \<open>
  A successful erasure leaves no active row that names the user, leaves the audit log untouched
  and reports how many pseudonyms and audit rows were concerned.
\<close>

theorem erase_user_erases:
  assumes "db_wf db" "erase_user expected tok user tenant eid db = (Inr (Erased eid' k n), db')"
  shows "tok = Some expected \<and> eid' = eid \<and> (\<forall>r\<in>set (pmap db'). \<not> active_for user tenant r) \<and>
    audit_log db' = audit_log db \<and> k = length (filter (active_for user tenant) (pmap db)) \<and> 0 < k \<and>
    n = length (filter (\<lambda>a. au_tenant a = tenant \<and>
          (\<exists>r\<in>set (pmap db). active_for user tenant r \<and> ps_pseudonym r = au_user a)) (audit_log db))"
proof -
  let ?ps = "map ps_pseudonym (filter (active_for user tenant) (pmap db))"
  define m where "m = length (filter (\<lambda>a. au_user a \<in> set ?ps \<and> au_tenant a = tenant) (audit_log db))"
  have t: "token_accepted tok expected = Inr True"
    using assms(2) by (auto simp: erase_user_def split: sum.splits bool.splits)
  have ne: "?ps \<noteq> []"
    using assms(2) t by (auto simp: erase_user_def Let_def)
  have e: "(case ebind (update_erased user tenant db) (insert_erasures eid m ?ps) of
      Inl e \<Rightarrow> (Inl e, db) | Inr d \<Rightarrow> (Inr (Erased eid (length ?ps) m), d)) = (Inr (Erased eid' k n), db')"
    using assms(2) t ne unfolding erase_user_def Let_def m_def by simp
  then obtain db1 where u: "update_erased user tenant db = Inr db1" "insert_erasures eid m ?ps db1 = Inr db'"
    by (auto simp: ebind_def split: sum.splits)
  have r: "eid' = eid" "k = length ?ps" "n = m"
    using e u by simp_all
  note f = update_erased_facts [OF u(1) assms(1)]
  have "ps_pseudonym ` set (pmap db1) = ps_pseudonym ` set (pmap db)" using f by (metis set_map)
  then have "set ?ps \<subseteq> ps_pseudonym ` set (pmap db1)" by auto
  note g = insert_erasures_facts [OF u(2) _ this]
  have "filter (\<lambda>a. au_user a \<in> set ?ps \<and> au_tenant a = tenant) (audit_log db) =
      filter (\<lambda>a. au_tenant a = tenant \<and>
          (\<exists>r\<in>set (pmap db). active_for user tenant r \<and> ps_pseudonym r = au_user a)) (audit_log db)"
    by (simp only: in_set_map_filter conj_commute)
  then show ?thesis
    using f g t ne r unfolding m_def by (auto simp: token_accepted_iff)
qed

definition demo_row :: "string \<Rightarrow> string \<Rightarrow> pseudonym_row" where
  "demo_row p user = \<lparr>ps_pseudonym = p, ps_real_user = user, ps_tenant = ''t'', ps_rotation = 0,
     ps_deleted = False\<rparr>"

definition demo_db :: gov_db where
  "demo_db = empty_db\<lparr>pmap := [demo_row ''p1'' ''ann'', demo_row ''p2'' ''bob'']\<rparr>"

definition demo_db_erased :: gov_db where
  "demo_db_erased = empty_db\<lparr>pmap := [(demo_row ''p1'' ''[ERASED]'')\<lparr>ps_deleted := True\<rparr>,
     demo_row ''p2'' ''bob''], erasure_log := [\<lparr>er_id = 7, er_pseudonym = ''p1'', er_count = 0\<rparr>]\<rparr>"

lemma demo_erase:
  "erase_user ''tok'' (Some ''tok'') ''ann'' ''t'' 7 demo_db = (Inr (Erased 7 1 0), demo_db_erased)"
  by (simp add: erase_user_def token_accepted_def truthy_str_def compare_digest_def is_ascii_def
      demo_db_def demo_db_erased_def empty_db_def demo_row_def active_for_def update_erased_def
      triple_def insert_erasure_def)

theorem erase_user_erases_witness:
  "filter (active_for ''ann'' ''t'') (pmap demo_db_erased) = []"
proof -
  have "db_wf demo_db"
    by (simp add: db_wf_def demo_db_def empty_db_def demo_row_def triple_def)
  from erase_user_erases [OF this demo_erase] show ?thesis by (simp add: filter_empty_conv)
qed

text \<open>
  A second user of the same tenant cannot be erased: once the tenant has an erased row of a
  rotation, the erasure of another user with an active pseudonym of that rotation violates the
  uniqueness of (real user, tenant, rotation), fails, and changes nothing.
\<close>

theorem second_erasure_fails:
  assumes "db_wf db" "token_accepted tok expected = Inr True" "user \<noteq> ''[ERASED]''"
    and "erased \<in> set (pmap db)" "triple erased = (''[ERASED]'', tenant, rot)"
    and "r \<in> set (pmap db)" "active_for user tenant r" "ps_rotation r = rot"
  shows "erase_user expected tok user tenant eid db = (Inl unique_violation, db)"
proof -
  let ?f = "\<lambda>r. if active_for user tenant r then r\<lparr>ps_real_user := ''[ERASED]'', ps_deleted := True\<rparr> else r"
  have ne: "r \<noteq> erased" "\<not> active_for user tenant erased"
    using assms(3,5,7) by (auto simp: triple_def active_for_def)
  have "triple (?f r) = triple (?f erased)"
    using assms(5,7,8) ne by (auto simp: triple_def active_for_def)
  moreover obtain i j where ij: "i < length (pmap db)" "j < length (pmap db)" "pmap db ! i = r" "pmap db ! j = erased"
    using assms(4,6) by (auto simp: in_set_conv_nth)
  ultimately have eq: "map triple (map ?f (pmap db)) ! i = map triple (map ?f (pmap db)) ! j" by simp
  have "\<not> distinct (map triple (map ?f (pmap db)))"
  proof
    assume "distinct (map triple (map ?f (pmap db)))"
    then have "i = j" by (rule nth_eq_iff_index_eq [THEN iffD1, OF _ _ _ eq]) (simp_all add: ij)
    then show False using ij(3,4) ne(1) by simp
  qed
  then have "update_erased user tenant db = Inl unique_violation"
    by (simp add: update_erased_def)
  moreover have "filter (active_for user tenant) (pmap db) \<noteq> []"
    using assms(6,7) by (auto simp: filter_empty_conv)
  ultimately show ?thesis using assms(2) by (simp add: erase_user_def Let_def)
qed

theorem second_erasure_fails_witness:
  "erase_user ''tok'' (Some ''tok'') ''bob'' ''t'' 8 demo_db_erased = (Inl unique_violation, demo_db_erased)"
proof -
  have "db_wf demo_db_erased"
    by (simp add: db_wf_def demo_db_erased_def empty_db_def demo_row_def triple_def)
  then show ?thesis
    by (rule second_erasure_fails [of _ _ _ _ "(demo_row ''p1'' ''[ERASED]'')\<lparr>ps_deleted := True\<rparr>" "''t''" 0
          "demo_row ''p2'' ''bob''"])
      (simp_all add: token_accepted_def truthy_str_def compare_digest_def is_ascii_def
        demo_db_erased_def empty_db_def demo_row_def triple_def active_for_def)
qed

text \<open>
  Audit records are lost without an error to the caller: after a user's erasure, every further
  audit write for the same user and tenant is refused by the primary key of the pseudonym table,
  and the failure is swallowed, so the log stays as it is.
\<close>

theorem audit_lost_after_erasure:
  assumes "r \<in> set (pmap db)"
    and "ps_pseudonym r = compute_pseudonym hmac key (pc_tenant_id ctx) (pc_user_id ctx) ''0''"
    and "(pc_user_id ctx, pc_tenant_id ctx, 0) \<notin> triple ` set (pmap db)"
  shows "write_audit hmac key ctx i created now db = db"
  using assms
  by (simp add: write_audit_def get_or_create_def insert_pseudonym_def Let_def triple_def)
    (metis image_eqI)

theorem audit_lost_after_erasure_witness:
  "write_audit (\<lambda>k m. if m = ''t:ann:0'' then ''p1'' else m) ''k''
     (new_context [104] ''t'' ''ann'' ''m'' ''r'' ''request'' []) 9 None 0 demo_db_erased = demo_db_erased"
  by (rule audit_lost_after_erasure [of "(demo_row ''p1'' ''[ERASED]'')\<lparr>ps_deleted := True\<rparr>"])
    (simp_all add: demo_db_erased_def demo_row_def compute_pseudonym_def new_context_def triple_def)

end
