(* ===== verification/GoogleDlp.thy ===== *)
theory GoogleDlp imports PiiFindings begin

text \<open>
  \<open>governance/app/pii.py\<close>, \<open>_google_text_chunks\<close>: cutting a long text into overlapping chunks
  for the DLP service. The loop works on byte positions of the encoding and carries fuel; the
  lemmas translate byte positions to code points and show that the fuel given is enough.
\<close>

section \<open>Chunks\<close>

definition GOOGLE_MAX_CONTENT_BYTES :: nat where
  "GOOGLE_MAX_CONTENT_BYTES = 450000"

definition GOOGLE_CHUNK_OVERLAP_BYTES :: nat where
  "GOOGLE_CHUNK_OVERLAP_BYTES = 4096"

text \<open>
  The two backward searches for a character boundary. The code's index would become negative
  only if the first byte of the text continued a character, which no encoding starts with.
\<close>

fun end_back :: "bytes \<Rightarrow> nat \<Rightarrow> nat" where
  "end_back encoded 0 = 0"
| "end_back encoded (Suc k) =
     (if Suc k < length encoded \<and> is_continuation (encoded ! Suc k) then end_back encoded k
      else Suc k)"

fun start_back :: "bytes \<Rightarrow> nat \<Rightarrow> nat" where
  "start_back encoded 0 = 0"
| "start_back encoded (Suc k) =
     (if is_continuation (encoded ! Suc k) then start_back encoded k else Suc k)"

type_synonym chunk = "nat \<times> utext"

fun chunks_loop :: "nat \<Rightarrow> bytes \<Rightarrow> nat \<Rightarrow> nat \<Rightarrow> (pii_error + chunk list) option" where
  "chunks_loop 0 encoded start_byte start_codepoint = None"
| "chunks_loop (Suc fuel) encoded start_byte start_codepoint =
     (if start_byte \<ge> length encoded then Some (Inr [])
      else let end_byte = end_back encoded (min (start_byte + GOOGLE_MAX_CONTENT_BYTES) (length encoded)) in
        case utf8_decode (slice start_byte end_byte encoded) of
          None \<Rightarrow> Some (Inl (PiiOther UnicodeDecodeError))
        | Some chunk \<Rightarrow>
            (if end_byte = length encoded then Some (Inr [(start_codepoint, chunk)])
             else let next_start = start_back encoded (end_byte - GOOGLE_CHUNK_OVERLAP_BYTES) in
               case utf8_decode (slice start_byte next_start encoded) of
                 None \<Rightarrow> Some (Inl (PiiOther UnicodeDecodeError))
               | Some skipped \<Rightarrow>
                   (case chunks_loop fuel encoded next_start (start_codepoint + length skipped) of
                      Some (Inr chunks) \<Rightarrow> Some (Inr ((start_codepoint, chunk) # chunks))
                    | r \<Rightarrow> r)))"

definition google_text_chunks :: "utext \<Rightarrow> (pii_error + chunk list) option" where
  "google_text_chunks t =
     (case utf8_encode t of
        None \<Rightarrow> Some (Inl (PiiOther UnicodeEncodeError))
      | Some encoded \<Rightarrow>
          (if length encoded \<le> GOOGLE_MAX_CONTENT_BYTES then Some (Inr [(0, t)])
           else if GOOGLE_CHUNK_OVERLAP_BYTES \<ge> GOOGLE_MAX_CONTENT_BYTES
           then Some (Inl (PiiOther (RuntimeError
             ''Google DLP chunk overlap must be smaller than chunk size'')))
           else chunks_loop (Suc (length encoded)) encoded 0 0))"

section \<open>Lemmas: chunk boundaries\<close>

text \<open>\<open>bl t m\<close>: the byte position of code point \<open>m\<close> of a text.\<close>

definition bl :: "utext \<Rightarrow> nat \<Rightarrow> nat" where
  "bl t m = length (utf8_bytes (take m t))"

lemma bl_0 [simp]: "bl t 0 = 0"
  by (simp add: bl_def)

lemma bl_length [simp]: "bl t (length t) = length (utf8_bytes t)"
  by (simp add: bl_def)

lemma bl_Suc: "m < length t \<Longrightarrow> bl t (Suc m) = bl t m + length (utf8_char (t ! m))"
  by (simp add: bl_def take_Suc_conv_app_nth)

lemma bl_split: "a \<le> b \<Longrightarrow> bl t b = bl t a + length (utf8_bytes (take (b - a) (drop a t)))"
  by (metis bl_def le_add_diff_inverse length_append take_add utf8_bytes_simps(3))

lemma bl_mono: "a \<le> b \<Longrightarrow> bl t a \<le> bl t b"
  using bl_split by fastforce

lemma bl_strict: "a < b \<Longrightarrow> b \<le> length t \<Longrightarrow> bl t a < bl t b"
  using bl_split [of a b t] by simp

lemma bl_less_iff: "a \<le> length t \<Longrightarrow> b \<le> length t \<Longrightarrow> bl t a < bl t b \<longleftrightarrow> a < b"
  by (metis bl_mono bl_strict leD leI)

lemma bl_le_iff: "a \<le> length t \<Longrightarrow> b \<le> length t \<Longrightarrow> bl t a \<le> bl t b \<longleftrightarrow> a \<le> b"
  by (metis bl_less_iff linorder_not_le)

lemma bl_slice:
  assumes "a \<le> b" "b \<le> length t"
  shows "slice (bl t a) (bl t b) (utf8_bytes t) = utf8_bytes (slice a b t)"
proof -
  have "take (bl t b) (utf8_bytes t) = utf8_bytes (take b t)"
    unfolding bl_def by (rule utf8_bytes_take)
  moreover have "drop (bl t a) (utf8_bytes (take b t)) = utf8_bytes (drop a (take b t))"
    using utf8_bytes_drop [of a "take b t"] assms by (simp add: bl_def min_absorb1)
  ultimately show ?thesis by (simp add: slice_def)
qed

lemma scalar_slice: "list_all scalar_value t \<Longrightarrow> list_all scalar_value (slice a b t)"
  by (auto simp: slice_def list_all_iff dest!: in_set_dropD in_set_takeD)

lemma locate:
  "k < length (utf8_bytes t) \<Longrightarrow> \<exists>m<length t. bl t m \<le> k \<and> k < bl t (Suc m)"
proof (induction t arbitrary: k)
  case (Cons c cs)
  show ?case
  proof (cases "k < length (utf8_char c)")
    case True
    then show ?thesis by (intro exI [of _ 0]) (simp add: bl_def)
  next
    case False
    then have "k - length (utf8_char c) < length (utf8_bytes cs)" using Cons.prems by auto
    then obtain m where "m < length cs" "bl cs m \<le> k - length (utf8_char c)"
        "k - length (utf8_char c) < bl cs (Suc m)"
      using Cons.IH by blast
    then show ?thesis
      using False by (intro exI [of _ "Suc m"]) (auto simp: bl_def)
  qed
qed simp

lemma start_back_eq:
  "j \<le> k \<Longrightarrow> j = 0 \<or> \<not> is_continuation (enc ! j) \<Longrightarrow>
   (\<And>i. j < i \<Longrightarrow> i \<le> k \<Longrightarrow> is_continuation (enc ! i)) \<Longrightarrow> start_back enc k = j"
proof (induction k)
  case (Suc k)
  show ?case
  proof (cases "j = Suc k")
    case False
    then show ?thesis using Suc by auto
  qed (use Suc in auto)
qed simp

lemma end_back_eq:
  "k \<le> length enc \<Longrightarrow> end_back enc k = (if k = length enc then k else start_back enc k)"
proof (induction k)
  case (Suc k)
  show ?case
  proof (cases "Suc k = length enc")
    case True
    then have "\<not> Suc k < length enc" by simp
    then have "end_back enc (Suc k) = Suc k" by (simp only: end_back.simps simp_thms if_False)
    then show ?thesis using True by (simp del: end_back.simps)
  qed (use Suc in auto)
qed simp

lemma scalar_bytes:
  assumes "list_all scalar_value t" "k < length (utf8_bytes t)"
  shows "is_continuation (utf8_bytes t ! k) = cont_byte (utf8_bytes t ! k)"
proof (rule is_continuation_iff)
  have "utf8_bytes t ! k \<in> set (utf8_bytes t)" using assms(2) by simp
  then obtain c where "c \<in> set t" "utf8_bytes t ! k \<in> set (utf8_char c)"
    by (auto simp: utf8_bytes_def)
  then show "utf8_bytes t ! k < 256"
    using assms(1) utf8_char_bytes by (auto simp: list_all_iff scalar_value_def)
qed

lemma utf8_bytes_at:
  assumes "m < length t" "bl t m \<le> k" "k < bl t (Suc m)"
  shows "utf8_bytes t ! k = utf8_char (t ! m) ! (k - bl t m)"
proof -
  have "utf8_bytes (take m t @ t ! m # drop (Suc m) t) =
      utf8_bytes (take m t) @ utf8_char (t ! m) @ utf8_bytes (drop (Suc m) t)"
    by simp
  then have "utf8_bytes t = utf8_bytes (take m t) @ utf8_char (t ! m) @ utf8_bytes (drop (Suc m) t)"
    by (simp only: id_take_nth_drop [OF assms(1), symmetric])
  moreover have "k - length (utf8_bytes (take m t)) < length (utf8_char (t ! m))"
    using assms bl_Suc [OF assms(1)] by (simp add: bl_def)
  ultimately show ?thesis
    using assms(2) by (simp only: bl_def nth_append not_less if_False if_True simp_thms) simp
qed

lemma start_back_boundary:
  assumes "list_all scalar_value t" "k < length (utf8_bytes t)"
  shows "\<exists>m<length t. start_back (utf8_bytes t) k = bl t m \<and> bl t m \<le> k \<and> k \<le> bl t m + 3"
proof -
  obtain m where m: "m < length t" "bl t m \<le> k" "k < bl t (Suc m)"
    using locate [OF assms(2)] by blast
  have len: "length (utf8_char (t ! m)) \<le> 4" using length_utf8_char by blast
  have lead: "\<not> is_continuation (utf8_bytes t ! bl t m)"
  proof -
    have "utf8_bytes t ! bl t m = hd (utf8_char (t ! m))"
      using utf8_bytes_at [OF m(1), of "bl t m"] m bl_Suc [OF m(1)] by (simp add: hd_conv_nth)
    moreover have "t ! m \<le> 0x10FFFF"
      using assms(1) m(1) by (auto simp: list_all_length scalar_value_def)
    ultimately show ?thesis
      using scalar_bytes [OF assms(1), of "bl t m"] utf8_char_head m(2) assms(2) by auto
  qed
  have "is_continuation (utf8_bytes t ! i)" if i: "bl t m < i" "i \<le> k" for i
  proof -
    have "utf8_bytes t ! i = utf8_char (t ! m) ! (i - bl t m)"
      using utf8_bytes_at [OF m(1), of i] i m by simp
    moreover have "utf8_char (t ! m) ! (i - bl t m) \<in> set (tl (utf8_char (t ! m)))"
      using i m bl_Suc [OF m(1)]
      by (cases "utf8_char (t ! m)"; cases "i - bl t m") auto
    ultimately have "cont_byte (utf8_bytes t ! i)" by (simp add: utf8_char_tail)
    then show ?thesis using scalar_bytes [OF assms(1), of i] i assms(2) by simp
  qed
  then have "start_back (utf8_bytes t) k = bl t m"
    using m(2) lead by (intro start_back_eq) auto
  then show ?thesis using m len bl_Suc [OF m(1)] by (intro exI [of _ m]) auto
qed

lemma end_back_boundary:
  assumes "list_all scalar_value t" "k \<le> length (utf8_bytes t)"
  shows "\<exists>m\<le>length t. end_back (utf8_bytes t) k = bl t m \<and> bl t m \<le> k \<and> k \<le> bl t m + 3"
proof (cases "k = length (utf8_bytes t)")
  case True
  then show ?thesis by (intro exI [of _ "length t"]) (simp add: end_back_eq)
next
  case False
  then show ?thesis
    using start_back_boundary [OF assms(1), of k] assms(2) end_back_eq [OF assms(2)]
    by (metis le_neq_implies_less less_imp_le)
qed

section \<open>Lemmas: chunks\<close>

definition chunk_of :: "utext \<Rightarrow> chunk \<Rightarrow> bool" where
  "chunk_of t ch \<longleftrightarrow>
     (case ch of (off, c) \<Rightarrow>
        off + length c \<le> length t \<and> c = slice off (off + length c) t \<and>
        length (utf8_bytes c) \<le> GOOGLE_MAX_CONTENT_BYTES)"

definition window_in :: "nat \<Rightarrow> nat \<Rightarrow> chunk \<Rightarrow> bool" where
  "window_in a b ch \<longleftrightarrow> fst ch \<le> a \<and> b \<le> fst ch + length (snd ch)"

lemma chunk_sizes:
  "GOOGLE_CHUNK_OVERLAP_BYTES + 6 < GOOGLE_MAX_CONTENT_BYTES"
  by (simp add: GOOGLE_CHUNK_OVERLAP_BYTES_def GOOGLE_MAX_CONTENT_BYTES_def)

text \<open>One round of the loop, in code points: the chunk, and the start of the next one.\<close>

lemma chunk_round:
  assumes t: "list_all scalar_value t" and m: "m < length t"
  obtains (stop) "end_back (utf8_bytes t) (min (bl t m + GOOGLE_MAX_CONTENT_BYTES) (length (utf8_bytes t)))
      = length (utf8_bytes t)"
      "length (utf8_bytes t) \<le> bl t m + GOOGLE_MAX_CONTENT_BYTES"
  | (go) e n where
      "end_back (utf8_bytes t) (min (bl t m + GOOGLE_MAX_CONTENT_BYTES) (length (utf8_bytes t))) = bl t e"
      "start_back (utf8_bytes t) (bl t e - GOOGLE_CHUNK_OVERLAP_BYTES) = bl t n"
      "m < n" "n \<le> e" "e < length t" "bl t e \<le> bl t m + GOOGLE_MAX_CONTENT_BYTES"
      "bl t n + GOOGLE_CHUNK_OVERLAP_BYTES \<le> bl t e"
proof -
  let ?enc = "utf8_bytes t" and ?max = GOOGLE_MAX_CONTENT_BYTES and ?ov = GOOGLE_CHUNK_OVERLAP_BYTES
  let ?k = "min (bl t m + ?max) (length ?enc)"
  obtain e where e: "e \<le> length t" "end_back ?enc ?k = bl t e" "bl t e \<le> ?k" "?k \<le> bl t e + 3"
    using end_back_boundary [OF t, of ?k] by auto
  show thesis
  proof (cases "length ?enc \<le> bl t m + ?max")
    case True
    then show thesis using stop by (simp add: end_back_eq)
  next
    case False
    then have big: "bl t m + ?max \<le> bl t e + 3" "bl t e \<le> bl t m + ?max" "bl t e < length ?enc"
      using e by auto
    have el: "e < length t" using e(1) big(3) by (cases "e = length t") auto
    have "bl t e - ?ov < length ?enc" using big(3) by linarith
    then obtain n where n: "n < length t" "start_back ?enc (bl t e - ?ov) = bl t n"
        "bl t n \<le> bl t e - ?ov" "bl t e - ?ov \<le> bl t n + 3"
      using start_back_boundary [OF t] by blast
    have "bl t m < bl t n" "bl t n \<le> bl t e" "bl t n + ?ov \<le> bl t e"
      using n big chunk_sizes by linarith+
    then show thesis
      using go [OF e(2) n(2)] n(1) el m big(2) bl_less_iff [of m t n] bl_le_iff [of n t e] by auto
  qed
qed

lemma chunks_loop_correct:
  assumes t: "list_all scalar_value t" and "m \<le> length t" "length t - m < fuel"
  shows "\<exists>cs. chunks_loop fuel (utf8_bytes t) (bl t m) m = Some (Inr cs) \<and>
    list_all (chunk_of t) cs \<and>
    (\<forall>a b. m \<le> a \<longrightarrow> a < b \<longrightarrow> b \<le> length t \<longrightarrow> bl t b \<le> bl t a + GOOGLE_CHUNK_OVERLAP_BYTES \<longrightarrow>
       (\<exists>ch\<in>set cs. window_in a b ch))"
  using assms(2,3)
proof (induction fuel arbitrary: m)
  case (Suc fuel)
  show ?case
  proof (cases "m = length t")
    case True
    then show ?thesis by simp
  next
    case False
    then have m: "m < length t" using Suc.prems by simp
    then have lt: "bl t m < length (utf8_bytes t)" using bl_strict [of m "length t" t] by simp
    from t m show ?thesis
    proof (cases rule: chunk_round)
      case stop
      have sl: "slice (bl t m) (length (utf8_bytes t)) (utf8_bytes t) = utf8_bytes (slice m (length t) t)"
        using bl_slice [of m "length t" t] m by simp
      have "length (utf8_bytes (slice m (length t) t)) \<le> GOOGLE_MAX_CONTENT_BYTES"
        using bl_split [of m "length t" t] m stop(2) by (simp add: slice_def)
      then have "chunk_of t (m, slice m (length t) t)"
        using m by (simp add: chunk_of_def length_slice)
      moreover have "chunks_loop (Suc fuel) (utf8_bytes t) (bl t m) m
          = Some (Inr [(m, slice m (length t) t)])"
        using lt stop(1) sl by (simp add: Let_def scalar_slice [OF t])
      ultimately show ?thesis
        using m by (auto simp: window_in_def length_slice)
    next
      case (go e n)
      let ?c = "slice m e t"
      have s1: "slice (bl t m) (bl t e) (utf8_bytes t) = utf8_bytes ?c"
        and s2: "slice (bl t m) (bl t n) (utf8_bytes t) = utf8_bytes (slice m n t)"
        using go by (simp_all add: bl_slice)
      have ne: "bl t e \<noteq> length (utf8_bytes t)"
        using go(5) bl_strict [of e "length t" t] by simp
      have "n \<le> length t" "length t - n < fuel" using Suc.prems go(3,4,5) by linarith+
      then obtain cs where cs: "chunks_loop fuel (utf8_bytes t) (bl t n) n = Some (Inr cs)"
          "list_all (chunk_of t) cs"
          "\<And>a b. n \<le> a \<Longrightarrow> a < b \<Longrightarrow> b \<le> length t \<Longrightarrow> bl t b \<le> bl t a + GOOGLE_CHUNK_OVERLAP_BYTES \<Longrightarrow>
             \<exists>ch\<in>set cs. window_in a b ch"
        using Suc.IH [of n] by blast
      have "m + length (slice m n t) = n" using go by (simp add: length_slice)
      then have run: "chunks_loop (Suc fuel) (utf8_bytes t) (bl t m) m = Some (Inr ((m, ?c) # cs))"
        using lt go(1,2) s1 s2 ne cs(1) by (simp add: Let_def scalar_slice [OF t])
      have ml: "m + length ?c = e" using go by (simp add: length_slice)
      have "length (utf8_bytes ?c) \<le> GOOGLE_MAX_CONTENT_BYTES"
        using bl_split [of m e t] go by (simp add: slice_append)
      then have ok: "chunk_of t (m, ?c)"
        using go ml by (simp add: chunk_of_def)
      have "\<exists>ch\<in>set ((m, ?c) # cs). window_in a b ch"
        if w: "m \<le> a" "a < b" "b \<le> length t" "bl t b \<le> bl t a + GOOGLE_CHUNK_OVERLAP_BYTES" for a b
      proof (cases "b \<le> e")
        case True
        then show ?thesis using w ml by (simp add: window_in_def)
      next
        case False
        then have "bl t e < bl t b" using w(3) bl_strict by simp
        then have "bl t n \<le> bl t a" using w(4) go(7) by linarith
        then have "n \<le> a" using bl_le_iff [of n t a] go w by simp
        then show ?thesis using cs(3) [of a b] w by simp
      qed
      then show ?thesis using run ok cs(2) by auto
    qed
  qed
qed simp

lemma length_utf8_bytes: "length t \<le> length (utf8_bytes t)"
proof (induction t)
  case (Cons c t)
  have "1 \<le> length (utf8_char c)" using length_utf8_char [of c] by blast
  with Cons show ?case unfolding utf8_bytes_simps length_append list.size by linarith
qed simp

lemma google_text_chunks_facts:
  assumes "list_all scalar_value t"
  shows "\<exists>cs. google_text_chunks t = Some (Inr cs) \<and> list_all (chunk_of t) cs \<and>
    (\<forall>a b. a < b \<and> b \<le> length t \<and>
       length (utf8_bytes (slice a b t)) \<le> GOOGLE_CHUNK_OVERLAP_BYTES \<longrightarrow>
       (\<exists>ch\<in>set cs. window_in a b ch))"
proof (cases "length (utf8_bytes t) \<le> GOOGLE_MAX_CONTENT_BYTES")
  case True
  then have "google_text_chunks t = Some (Inr [(0, t)])" "chunk_of t (0, t)"
    using assms by (simp_all add: google_text_chunks_def utf8_encode_def chunk_of_def slice_def)
  then show ?thesis by (auto simp: window_in_def)
next
  case False
  have len: "length t \<le> length (utf8_bytes t)"
    by (rule length_utf8_bytes)
  obtain cs where cs: "chunks_loop (Suc (length (utf8_bytes t))) (utf8_bytes t) 0 0 = Some (Inr cs)"
      "list_all (chunk_of t) cs"
      "\<And>a b. a < b \<Longrightarrow> b \<le> length t \<Longrightarrow> bl t b \<le> bl t a + GOOGLE_CHUNK_OVERLAP_BYTES \<Longrightarrow>
         \<exists>ch\<in>set cs. window_in a b ch"
    using chunks_loop_correct [OF assms, of 0 "Suc (length (utf8_bytes t))"] len by fastforce
  have "google_text_chunks t = Some (Inr cs)"
    using False assms cs(1) chunk_sizes by (simp add: google_text_chunks_def utf8_encode_def)
  moreover have "bl t b \<le> bl t a + GOOGLE_CHUNK_OVERLAP_BYTES"
    if "a < b" "b \<le> length t" "length (utf8_bytes (slice a b t)) \<le> GOOGLE_CHUNK_OVERLAP_BYTES" for a b
    using that bl_split [of a b t] by (simp add: slice_append)
  ultimately show ?thesis using cs by blast
qed

section \<open>Properties\<close>

text \<open>
  C19. Chunking a text without surrogates always ends and succeeds; every chunk is a contiguous part
  of the text at the offset it is tagged with and fits the service's limit; and every non-empty part
  of the text of at most 4096 bytes, wherever it lies, is contained in one chunk, so no sensitive
  value of that size can escape by straddling a chunk boundary.
\<close>

theorem google_text_chunks_cover:
  assumes "list_all scalar_value t"
  shows "\<exists>cs. google_text_chunks t = Some (Inr cs) \<and> list_all (chunk_of t) cs \<and>
    (\<forall>a b. a < b \<and> b \<le> length t \<and>
       length (utf8_bytes (slice a b t)) \<le> GOOGLE_CHUNK_OVERLAP_BYTES \<longrightarrow>
       (\<exists>ch\<in>set cs. window_in a b ch))"
  by (rule google_text_chunks_facts [OF assms])

theorem google_text_chunks_cover_witness:
  "\<exists>cs. google_text_chunks [104, 228, 8364] = Some (Inr cs) \<and> list_all (chunk_of [104, 228, 8364]) cs"
proof -
  have "list_all scalar_value [104, 228, 8364]" by (simp add: scalar_value_def is_surrogate_def)
  from google_text_chunks_cover [OF this] show ?thesis by blast
qed

end
