(* ===== verification/PiiScan.thy ===== *)
theory PiiScan imports GoogleDlp begin

text \<open>
  \<open>governance/app/pii.py\<close>: the retry loop around one DLP request, \<open>run_google\<close>, the Presidio
  path and \<open>run\<close>. The DLP service is a function of the request and the number of the attempt; an
  attempt takes some time (queueing for a scan slot included) and succeeds, fails in a retryable
  way or fails otherwise.
\<close>

section \<open>One request, with retries\<close>

definition GOOGLE_RETRY_INITIAL_SECONDS :: rat where "GOOGLE_RETRY_INITIAL_SECONDS = 1 / 5"
definition GOOGLE_RETRY_MAX_SECONDS :: rat where "GOOGLE_RETRY_MAX_SECONDS = 1"
definition GOOGLE_RETRY_MULTIPLIER :: rat where "GOOGLE_RETRY_MULTIPLIER = 2"

record inspect_response =
  findings_truncated :: bool
  result_findings :: "dlp_finding list"

datatype inspect_outcome =
    InspectOk inspect_response
  | InspectRetryable            \<comment> \<open>\<open>DeadlineExceeded\<close> or \<open>ServiceUnavailable\<close>\<close>
  | InspectFails py_error

type_synonym attempts = "nat \<Rightarrow> rat \<times> inspect_outcome"

fun inspect_loop ::
  "nat \<Rightarrow> rat \<Rightarrow> rat \<Rightarrow> rat \<Rightarrow> nat \<Rightarrow> attempts \<Rightarrow> (py_error + inspect_response) option" where
  "inspect_loop 0 deadline now backoff k att = None"
| "inspect_loop (Suc fuel) deadline now backoff k att =
     (let now' = now + fst (att k) in
      case snd (att k) of
        InspectOk r \<Rightarrow> Some (Inr r)
      | InspectFails e \<Rightarrow> Some (Inl e)
      | InspectRetryable \<Rightarrow>
          (if now' \<ge> deadline then Some (Inl (OtherException ''retryable''))
           else inspect_loop fuel deadline (now' + backoff)
                  (min (backoff * GOOGLE_RETRY_MULTIPLIER) GOOGLE_RETRY_MAX_SECONDS) (Suc k) att))"

definition retry_fuel :: "rat \<Rightarrow> nat" where
  "retry_fuel timeout_seconds = nat \<lceil>5 * timeout_seconds\<rceil> + 1"

definition inspect_content_with_backoff ::
  "rat \<Rightarrow> attempts \<Rightarrow> (py_error + inspect_response) option" where
  "inspect_content_with_backoff timeout_seconds att =
     inspect_loop (retry_fuel timeout_seconds) timeout_seconds 0 GOOGLE_RETRY_INITIAL_SECONDS 0 att"

section \<open>run_google\<close>

record google_config =
  g_project :: string
  g_location :: string
  g_min_likelihood :: string
  g_info_types :: "string list"
  g_timeout_seconds :: rat

record dlp_request =
  dr_parent :: string
  dr_info_types :: "string list"
  dr_min_likelihood :: string
  dr_include_quote :: bool
  dr_max_findings :: nat
  dr_value :: utext

definition dlp_request :: "google_config \<Rightarrow> utext \<Rightarrow> dlp_request" where
  "dlp_request cfg chunk =
     \<lparr>dr_parent = ''projects/'' @ g_project cfg @ ''/locations/'' @ g_location cfg,
      dr_info_types = g_info_types cfg, dr_min_likelihood = g_min_likelihood cfg,
      dr_include_quote = False, dr_max_findings = 3000, dr_value = chunk\<rparr>"

type_synonym dlp_service = "dlp_request \<Rightarrow> attempts"

definition shift_finding :: "nat \<Rightarrow> pii_finding \<Rightarrow> pii_finding" where
  "shift_finding off f = f\<lparr>pf_start := pf_start f + off, pf_end := pf_end f + off\<rparr>"

definition scan_chunk ::
  "google_config \<Rightarrow> dlp_service \<Rightarrow> chunk \<Rightarrow> (pii_error + pii_finding list) option" where
  "scan_chunk cfg svc ch =
     map_option
       (\<lambda>reply. case reply of
          Inl e \<Rightarrow> Inl (PiiBackendError ''Google DLP inspection failed'')
        | Inr r \<Rightarrow>
            (if findings_truncated r
             then Inl (PiiBackendError ''Google DLP returned incomplete findings'')
             else ebind (normalize_google_findings (snd ch) (result_findings r))
               (\<lambda>fs. Inr (map (shift_finding (fst ch)) fs))))
       (inspect_content_with_backoff (g_timeout_seconds cfg) (svc (dlp_request cfg (snd ch))))"

fun scan_chunks ::
  "google_config \<Rightarrow> dlp_service \<Rightarrow> pii_finding list \<Rightarrow> chunk list \<Rightarrow>
   (pii_error + pii_finding list) option" where
  "scan_chunks cfg svc findings [] = Some (Inr findings)"
| "scan_chunks cfg svc findings (ch # chs) =
     (case scan_chunk cfg svc ch of
        Some (Inr fs) \<Rightarrow> scan_chunks cfg svc (findings @ fs) chs
      | r \<Rightarrow> r)"

definition run_google ::
  "google_config \<Rightarrow> dlp_service option \<Rightarrow> utext \<Rightarrow> (pii_error + pii_result) option" where
  "run_google cfg client t =
     (case client of
        None \<Rightarrow> Some (Inl (PiiOther (RuntimeError ''call initialize() first'')))
      | Some svc \<Rightarrow>
          (if t = [] then Some (Inr \<lparr>pr_findings = [], pr_classification = ''none'', pr_redacted = []\<rparr>)
           else case google_text_chunks t of
             None \<Rightarrow> None
           | Some (Inl e) \<Rightarrow> Some (Inl e)
           | Some (Inr chunks) \<Rightarrow>
               map_option
                 (\<lambda>r. ebind r (\<lambda>found.
                    let fs = deduplicate_findings found in
                    Inr \<lparr>pr_findings = fs,
                         pr_classification = (if fs \<noteq> [] then ''pii'' else ''none''),
                         pr_redacted = redact_with_typed_markers t fs\<rparr>))
                 (scan_chunks cfg svc [] chunks)))"

section \<open>The Presidio path and \<open>run\<close>\<close>

text \<open>The Unicode tables \<open>str.strip\<close> and \<open>str.lower\<close> use, and the Presidio engines.\<close>

record presidio =
  cp_space :: "nat \<Rightarrow> bool"
  cp_lower :: "nat \<Rightarrow> utext"
  analyze :: "utext \<Rightarrow> py_error + pii_finding list"
  anonymize :: "utext \<Rightarrow> pii_finding list \<Rightarrow> string dict \<Rightarrow> py_error + utext"

definition DISABLED_PRESIDIO_ENTITIES :: "string list" where
  "DISABLED_PRESIDIO_ENTITIES = [''PERSON'', ''ORGANIZATION'']"

definition TECHNICAL_TERM_FALSE_POSITIVES :: "string list" where
  "TECHNICAL_TERM_FALSE_POSITIVES =
     [''django'', ''flask'', ''fastapi'', ''postgres'', ''postgresql'',
      ''kubernetes'', ''redis'', ''react'', ''gemini'', ''claude'']"

definition strip_where :: "(nat \<Rightarrow> bool) \<Rightarrow> utext \<Rightarrow> utext" where
  "strip_where P t = rev (dropWhile P (rev (dropWhile P t)))"

definition is_technical_term_false_positive :: "presidio \<Rightarrow> utext \<Rightarrow> pii_finding \<Rightarrow> bool" where
  "is_technical_term_false_positive eng t r \<longleftrightarrow>
     (let punctuation = map of_char (''.,;:!?()'' @ [CHR 0x22, CHR 0x27]);
          part = strip_where (\<lambda>c. c \<in> set punctuation)
                   (strip_where (cp_space eng) (slice (pf_start r) (pf_end r) t))
      in concat (map (cp_lower eng) part) \<in> set (map (map of_char) TECHNICAL_TERM_FALSE_POSITIVES))"

definition scan :: "presidio option \<Rightarrow> utext \<Rightarrow> py_error + pii_finding list" where
  "scan engine t =
     (case engine of
        None \<Rightarrow> Inl AssertionError
      | Some eng \<Rightarrow>
          ebind (analyze eng t) (\<lambda>results.
            Inr (filter (\<lambda>r. pf_type r \<notin> set DISABLED_PRESIDIO_ENTITIES \<and>
                             \<not> is_technical_term_false_positive eng t r) results)))"

definition redaction_operators :: "pii_finding list \<Rightarrow> string dict" where
  "redaction_operators results =
     fold (\<lambda>r. dict_set (pf_type r) (''['' @ pf_type r @ '']'')) results []"

definition redact :: "presidio option \<Rightarrow> utext \<Rightarrow> pii_finding list \<Rightarrow> py_error + utext" where
  "redact engine t results =
     (case engine of
        None \<Rightarrow> Inl AssertionError
      | Some eng \<Rightarrow> anonymize eng t results (redaction_operators results))"

record pii_backend =
  backend_name :: string
  google_settings :: "google_config option"
  google_client :: "dlp_service option"
  presidio_engine :: "presidio option"

definition lift_pii :: "py_error + 'a \<Rightarrow> pii_error + 'a" where
  "lift_pii r = (case r of Inl e \<Rightarrow> Inl (PiiOther e) | Inr a \<Rightarrow> Inr a)"

definition run_presidio :: "presidio option \<Rightarrow> utext \<Rightarrow> pii_error + pii_result" where
  "run_presidio engine t =
     ebind (lift_pii (scan engine t)) (\<lambda>results.
     ebind (if results \<noteq> [] then lift_pii (redact engine t results) else Inr t) (\<lambda>redacted.
       Inr \<lparr>pr_findings = results,
            pr_classification = (if results \<noteq> [] then ''pii'' else ''none''),
            pr_redacted = redacted\<rparr>))"

definition run_pii :: "pii_backend \<Rightarrow> utext \<Rightarrow> (pii_error + pii_result) option" where
  "run_pii be t =
     (if backend_name be = ''google''
      then (case google_settings be of
              None \<Rightarrow> Some (Inl (PiiOther AssertionError))
            | Some cfg \<Rightarrow> run_google cfg (google_client be) t)
      else Some (run_presidio (presidio_engine be) t))"

section \<open>Lemmas\<close>

lemma inspect_loop_terminates:
  assumes "\<And>i. 0 \<le> fst (att i)" "1 / 5 \<le> backoff" "5 * (deadline - now) \<le> rat_of_nat n"
  shows "inspect_loop (Suc n) deadline now backoff k att \<noteq> None"
  using assms(2,3)
proof (induction n arbitrary: now backoff k)
  case 0
  then have "deadline \<le> now + fst (att k)" using assms(1) [of k] by simp
  then show ?case by (simp add: Let_def split: inspect_outcome.splits)
next
  case (Suc n)
  have "5 * (deadline - (now + fst (att k) + backoff)) \<le> rat_of_nat n"
    using Suc.prems assms(1) [of k] by simp
  moreover have "1 / 5 \<le> min (backoff * GOOGLE_RETRY_MULTIPLIER) GOOGLE_RETRY_MAX_SECONDS"
    using Suc.prems(1) by (simp add: GOOGLE_RETRY_MULTIPLIER_def GOOGLE_RETRY_MAX_SECONDS_def)
  ultimately have "inspect_loop (Suc n) deadline (now + fst (att k) + backoff)
      (min (backoff * GOOGLE_RETRY_MULTIPLIER) GOOGLE_RETRY_MAX_SECONDS) (Suc k) att \<noteq> None"
    by (intro Suc.IH)
  then show ?case
    by (simp only: inspect_loop.simps(2) [of "Suc n"] Let_def split: inspect_outcome.splits if_splits)
      simp
qed

lemma inspect_terminates:
  assumes "\<And>i. 0 \<le> fst (att i)"
  shows "inspect_content_with_backoff t att \<noteq> None"
proof -
  have "5 * (t - 0) \<le> rat_of_nat (nat \<lceil>5 * t\<rceil>)"
    by (metis diff_zero of_nat_ceiling)
  then show ?thesis
    unfolding inspect_content_with_backoff_def retry_fuel_def add.commute [of _ 1] plus_1_eq_Suc
    using assms by (intro inspect_loop_terminates) (simp_all add: GOOGLE_RETRY_INITIAL_SECONDS_def)
qed

lemma normalize_google_findings_ok:
  assumes "normalize_google_findings t raw = Inr fs"
  shows "list_all (finding_ok (length t)) fs"
    and "f \<in> set raw \<Longrightarrow> \<exists>n. normalize_finding t f = Inr n \<and> (\<exists>g\<in>set fs. covers g n)"
proof -
  obtain ns where ns: "emap (normalize_finding t) raw = Inr ns" "fs = deduplicate_findings ns"
    using assms by (auto simp: normalize_google_findings_def ebind_eq_Inr)
  then have eq: "map (normalize_finding t) raw = map Inr ns" by (simp add: emap_Inr_iff)
  have ok: "list_all (finding_ok (length t)) ns"
    unfolding list_all_length
  proof (intro allI impI)
    fix i assume "i < length ns"
    moreover from eq have "length raw = length ns" by (metis length_map)
    ultimately have "normalize_finding t (raw ! i) = Inr (ns ! i)"
      using eq by (metis nth_map)
    then show "finding_ok (length t) (ns ! i)" by (rule normalize_finding_ok)
  qed
  note d = deduplicate_findings_facts [OF ok, unfolded Let_def]
  show "list_all (finding_ok (length t)) fs" using d ns(2) by simp
  assume "f \<in> set raw"
  then have "normalize_finding t f \<in> Inr ` set ns"
    using eq by (metis image_eqI list.set_map)
  then show "\<exists>n. normalize_finding t f = Inr n \<and> (\<exists>g\<in>set fs. covers g n)"
    using d ns(2) by (auto simp: list_all_iff)
qed

lemma shift_covers [simp]: "covers (shift_finding k g) (shift_finding k f) = covers g f"
  by (auto simp: covers_def shift_finding_def)

text \<open>What a successful scan of one chunk means.\<close>

definition chunk_reported :: "google_config \<Rightarrow> dlp_service \<Rightarrow> chunk \<Rightarrow> dlp_finding list \<Rightarrow> bool" where
  "chunk_reported cfg svc ch raw \<longleftrightarrow>
     (\<exists>r. inspect_content_with_backoff (g_timeout_seconds cfg) (svc (dlp_request cfg (snd ch))) =
        Some (Inr r) \<and> \<not> findings_truncated r \<and> raw = result_findings r)"

lemma scan_chunk_ok:
  assumes "scan_chunk cfg svc ch = Some (Inr fs)" "chunk_of t ch"
  obtains raw where "chunk_reported cfg svc ch raw" "list_all (finding_ok (length t)) fs"
    "\<And>f. f \<in> set raw \<Longrightarrow> \<exists>n. normalize_finding (snd ch) f = Inr n \<and>
       (\<exists>g\<in>set fs. covers g (shift_finding (fst ch) n))"
proof -
  obtain reply where reply: "inspect_content_with_backoff (g_timeout_seconds cfg)
        (svc (dlp_request cfg (snd ch))) = Some reply"
    using assms(1) by (auto simp: scan_chunk_def)
  obtain r fs0 where r: "inspect_content_with_backoff (g_timeout_seconds cfg)
        (svc (dlp_request cfg (snd ch))) = Some (Inr r)" "\<not> findings_truncated r"
      "normalize_google_findings (snd ch) (result_findings r) = Inr fs0"
      "fs = map (shift_finding (fst ch)) fs0"
    using assms(1) reply
    by (cases reply) (auto simp: scan_chunk_def ebind_eq_Inr split: if_splits)
  note n = normalize_google_findings_ok [OF r(3)]
  have "list_all (finding_ok (length t)) fs"
    using n(1) assms(2) r(4)
    by (auto simp: list_all_iff finding_ok_def shift_finding_def chunk_of_def split: prod.splits)
  moreover have "\<exists>n. normalize_finding (snd ch) f = Inr n \<and>
       (\<exists>g\<in>set fs. covers g (shift_finding (fst ch) n))" if "f \<in> set (result_findings r)" for f
    using n(2) [OF that] r(4) by auto
  ultimately show thesis using that r by (auto simp: chunk_reported_def)
qed

lemma scan_chunks_ok:
  assumes "scan_chunks cfg svc acc chs = Some (Inr fs)" "list_all (chunk_of t) chs"
    and "list_all (finding_ok (length t)) acc"
  shows "list_all (finding_ok (length t)) fs \<and> set acc \<subseteq> set fs \<and>
    (\<forall>ch\<in>set chs. \<exists>raw. chunk_reported cfg svc ch raw \<and>
       (\<forall>f\<in>set raw. \<exists>n. normalize_finding (snd ch) f = Inr n \<and>
          (\<exists>g\<in>set fs. covers g (shift_finding (fst ch) n))))"
  using assms
proof (induction cfg svc acc chs rule: scan_chunks.induct)
  case (2 cfg svc acc ch chs)
  then obtain gs where gs: "scan_chunk cfg svc ch = Some (Inr gs)"
      "scan_chunks cfg svc (acc @ gs) chs = Some (Inr fs)"
    by (auto split: option.splits sum.splits)
  obtain raw where raw: "chunk_reported cfg svc ch raw" "list_all (finding_ok (length t)) gs"
    "\<And>f. f \<in> set raw \<Longrightarrow> \<exists>n. normalize_finding (snd ch) f = Inr n \<and>
       (\<exists>g\<in>set gs. covers g (shift_finding (fst ch) n))"
    using scan_chunk_ok [OF gs(1), of t] 2(3) by auto
  have IH: "list_all (finding_ok (length t)) fs" "set (acc @ gs) \<subseteq> set fs"
    "\<forall>ch\<in>set chs. \<exists>raw. chunk_reported cfg svc ch raw \<and>
       (\<forall>f\<in>set raw. \<exists>n. normalize_finding (snd ch) f = Inr n \<and>
          (\<exists>g\<in>set fs. covers g (shift_finding (fst ch) n)))"
    using 2(1) [OF gs(1) refl gs(2)] 2(3,4) raw(2) by auto
  have "\<exists>n. normalize_finding (snd ch) f = Inr n \<and>
       (\<exists>g\<in>set fs. covers g (shift_finding (fst ch) n))" if "f \<in> set raw" for f
    using raw(3) [OF that] IH(2) by auto
  then show ?case using IH raw(1) by auto
qed auto

lemma chunks_cover_chunk_of:
  "google_text_chunks t = Some (Inr cs) \<Longrightarrow> list_all (chunk_of t) cs"
  using google_text_chunks_facts [of t]
  by (cases "list_all scalar_value t") (auto simp: google_text_chunks_def utf8_encode_def)

section \<open>Properties\<close>

text \<open>
  The retry loop always ends: each retry waits at least 0.2 seconds, so a request makes at most
  five attempts per second of timeout, and one, and then returns a response or raises.
\<close>

theorem inspect_content_terminates:
  assumes "\<And>i. 0 \<le> fst (att i)"
  shows "\<exists>r. inspect_content_with_backoff timeout att = Some r"
  using inspect_terminates [OF assms] by auto

theorem inspect_content_terminates_witness:
  "\<exists>r. inspect_content_with_backoff 5 (\<lambda>k. (1, InspectRetryable)) = Some r"
  by (rule inspect_content_terminates) simp

text \<open>
  If \<open>run_google\<close> returns a result, the service answered every chunk completely, every finding it
  reported for any chunk is valid and lies, at its place in the whole text, inside a finding of the
  result that is at least as certain; the result's findings are in order and disjoint, the text is
  classified \<open>pii\<close> exactly if there are any, and the redacted text is the one-pass redaction.
\<close>

theorem run_google_complete:
  assumes "run_google cfg (Some svc) t = Some (Inr res)" "t \<noteq> []"
  shows "\<exists>chunks. google_text_chunks t = Some (Inr chunks) \<and>
    (\<forall>ch\<in>set chunks. \<exists>raw. chunk_reported cfg svc ch raw \<and>
       (\<forall>f\<in>set raw. \<exists>n. normalize_finding (snd ch) f = Inr n \<and>
          (\<exists>g\<in>set (pr_findings res). covers g (shift_finding (fst ch) n)))) \<and>
    separated (pr_findings res) \<and> list_all (finding_ok (length t)) (pr_findings res) \<and>
    pr_classification res = (if pr_findings res = [] then ''none'' else ''pii'') \<and>
    pr_redacted res = redact_ref 0 t (pr_findings res)"
proof -
  obtain chunks found where c: "google_text_chunks t = Some (Inr chunks)"
      "scan_chunks cfg svc [] chunks = Some (Inr found)"
    and res: "res = \<lparr>pr_findings = deduplicate_findings found,
        pr_classification = (if deduplicate_findings found \<noteq> [] then ''pii'' else ''none''),
        pr_redacted = redact_with_typed_markers t (deduplicate_findings found)\<rparr>"
    using assms
    by (auto simp: run_google_def ebind_eq_Inr Let_def split: option.splits sum.splits)
  have s: "list_all (finding_ok (length t)) found"
    "\<forall>ch\<in>set chunks. \<exists>raw. chunk_reported cfg svc ch raw \<and>
       (\<forall>f\<in>set raw. \<exists>n. normalize_finding (snd ch) f = Inr n \<and>
          (\<exists>g\<in>set found. covers g (shift_finding (fst ch) n)))"
    using scan_chunks_ok [OF c(2) chunks_cover_chunk_of [OF c(1)]] by auto
  note d = deduplicate_findings_facts [OF s(1), unfolded Let_def]
  have "\<exists>g\<in>set (deduplicate_findings found). covers g h" if "g \<in> set found" "covers g h" for g h
    using d that covers_trans unfolding list_all_iff by meson
  then have "\<forall>ch\<in>set chunks. \<exists>raw. chunk_reported cfg svc ch raw \<and>
       (\<forall>f\<in>set raw. \<exists>n. normalize_finding (snd ch) f = Inr n \<and>
          (\<exists>g\<in>set (pr_findings res). covers g (shift_finding (fst ch) n)))"
    using s(2) unfolding res pii_result.simps by meson
  then show ?thesis
    using c(1) d res redact_ref_correct [of "deduplicate_findings found" t] by auto
qed

text \<open>The same as a relation between a text and its findings, with the empty text, which is not sent.\<close>

definition found_by :: "google_config \<Rightarrow> dlp_service \<Rightarrow> utext \<Rightarrow> pii_finding list \<Rightarrow> bool" where
  "found_by cfg svc t found \<longleftrightarrow>
     (if t = [] then found = []
      else (\<exists>chunks. google_text_chunks t = Some (Inr chunks) \<and>
        (\<forall>ch\<in>set chunks. \<exists>raw. chunk_reported cfg svc ch raw \<and>
           (\<forall>f\<in>set raw. \<exists>n. normalize_finding (snd ch) f = Inr n \<and>
              (\<exists>g\<in>set found. covers g (shift_finding (fst ch) n))))) \<and>
        separated found \<and> list_all (finding_ok (length t)) found)"

lemma run_google_found:
  assumes "run_google cfg (Some svc) t = Some (Inr res)"
  shows "found_by cfg svc t (pr_findings res) \<and> pr_redacted res = redact_ref 0 t (pr_findings res)"
proof (cases "t = []")
  case True
  then show ?thesis using assms by (auto simp: run_google_def found_by_def)
next
  case False
  from run_google_complete [OF assms False] False show ?thesis unfolding found_by_def by auto
qed

text \<open>A scan returns, whatever the service answers, when no attempt takes negative time.\<close>

lemma google_text_chunks_returns: "google_text_chunks t \<noteq> None"
  using google_text_chunks_facts [of t]
  by (cases "list_all scalar_value t") (auto simp: google_text_chunks_def utf8_encode_def)

lemma scan_chunks_returns:
  assumes "\<And>rq i. 0 \<le> fst (svc rq i)"
  shows "scan_chunks cfg svc found chunks \<noteq> None"
proof (induction chunks arbitrary: found)
  case (Cons ch chunks)
  have "scan_chunk cfg svc ch \<noteq> None" using inspect_terminates [OF assms] by (simp add: scan_chunk_def)
  then show ?case using Cons.IH by (auto split: sum.splits)
qed simp

lemma run_pii_returns:
  assumes "\<And>svc rq i. google_client be = Some svc \<Longrightarrow> 0 \<le> fst (svc rq i)"
  shows "run_pii be t \<noteq> None"
  using assms google_text_chunks_returns [of t]
  by (auto simp: run_pii_def run_google_def split: option.splits sum.splits intro!: scan_chunks_returns [unfolded not_None_eq])

definition demo_dlp :: dlp_service where
  "demo_dlp rq k =
     (if k = 0 then (1, InspectRetryable)
      else (1, InspectOk \<lparr>findings_truncated = False, result_findings =
        [\<lparr>df_location = \<lparr>loc_protobuf = True, loc_codepoint = None, loc_byte = Some (3, 14)\<rparr>,
          df_info_type = ''US_SOCIAL_SECURITY_NUMBER'', df_likelihood = 5\<rparr>]\<rparr>))"

definition demo_google :: google_config where
  "demo_google = \<lparr>g_project = ''p'', g_location = ''global'', g_min_likelihood = ''POSSIBLE'',
     g_info_types = [''US_SOCIAL_SECURITY_NUMBER''], g_timeout_seconds = 5\<rparr>"

lemma demo_run:
  "run_google demo_google (Some demo_dlp) (map of_char ''id 123-45-6789 ok'') =
     Some (Inr \<lparr>pr_findings = [\<lparr>pf_type = ''US_SSN'', pf_start = 3, pf_end = 14, pf_score = 9/10\<rparr>],
                pr_classification = ''pii'', pr_redacted = map of_char ''id [US_SSN] ok''\<rparr>)"
proof -
  let ?t = "map of_char ''id 123-45-6789 ok'' :: nat list"
  have enc: "utf8_encode ?t = Some ?t"
    by (simp add: utf8_encode_def scalar_value_def is_surrogate_def utf8_char_def)
  have chunks: "google_text_chunks ?t = Some (Inr [(0, ?t)])"
    unfolding google_text_chunks_def enc by (simp add: GOOGLE_MAX_CONTENT_BYTES_def)
  have fuel: "retry_fuel 5 = Suc (Suc 24)"
    by (simp add: retry_fuel_def)
  have insp: "inspect_content_with_backoff 5 (demo_dlp rq) = Some (Inr
      \<lparr>findings_truncated = False, result_findings =
        [\<lparr>df_location = \<lparr>loc_protobuf = True, loc_codepoint = None, loc_byte = Some (3, 14)\<rparr>,
          df_info_type = ''US_SOCIAL_SECURITY_NUMBER'', df_likelihood = 5\<rparr>]\<rparr>)" for rq
    unfolding inspect_content_with_backoff_def fuel
    by (simp only: inspect_loop.simps Let_def) (simp add: demo_dlp_def)
  have norm: "normalize_google_findings ?t
        [\<lparr>df_location = \<lparr>loc_protobuf = True, loc_codepoint = None, loc_byte = Some (3, 14)\<rparr>,
          df_info_type = ''US_SOCIAL_SECURITY_NUMBER'', df_likelihood = 5\<rparr>] =
      Inr [\<lparr>pf_type = ''US_SSN'', pf_start = 3, pf_end = 14, pf_score = 9/10\<rparr>]"
    by (simp add: normalize_google_findings_def normalize_finding_def finding_range_def
        range_is_set_def byte_to_codepoint_range_def enc [simplified] GOOGLE_TYPE_MAP_def
        dict_get_or_def LIKELIHOOD_SCORES_def deduplicate_findings_def)
  show ?thesis
    using norm
    by (simp add: run_google_def chunks [simplified] scan_chunk_def demo_google_def insp
        shift_finding_def deduplicate_findings_def redact_with_typed_markers_def redact_one_def
        marker_def)
qed

theorem run_google_complete_witness:
  "redact_ref 0 (map of_char ''id 123-45-6789 ok'')
     [\<lparr>pf_type = ''US_SSN'', pf_start = 3, pf_end = 14, pf_score = 9/10\<rparr>] = map of_char ''id [US_SSN] ok''"
  using run_google_complete [OF demo_run] by (simp add: marker_def)

end
