(* ===== verification/GovCredentials.thy ===== *)
theory GovCredentials imports PiiScan Transition begin

text \<open>
  Credentials and configuration of the governance service: \<open>google_credentials.py\<close>,
  \<open>google_credential_sentinel.py\<close>, the validation in \<open>settings.py\<close> and \<open>pii.initialize\<close>.
  Google's libraries, the file system, the clock and ISO timestamps are parameters.
\<close>

section \<open>google_credentials.py\<close>

datatype refresh_outcome = RefreshOk | RefreshError | RefreshOther

record adc_credentials =
  adc_impersonated :: bool
  adc_email :: "string option"
  adc_refresh :: refresh_outcome
  adc_expiry :: "string option"

datatype adc_default = AdcMissing | AdcFound adc_credentials

record preflight_result =
  pre_credentials :: adc_credentials
  pre_email :: "string option"
  pre_expiry :: "string option"

definition preflight :: "adc_default \<Rightarrow> string option \<Rightarrow> string + preflight_result" where
  \<comment> \<open>\<open>Inl\<close> is the message of a \<open>GoogleCredentialPreflightError\<close>\<close>
  "preflight adc expected =
     (case adc of
        AdcMissing \<Rightarrow> Inl ''Google ADC is not configured or unavailable''
      | AdcFound cr \<Rightarrow>
          (let email = adc_email cr in
           if truthy_str expected \<and> \<not> adc_impersonated cr
           then Inl ''Google ADC must use service-account impersonation; private-key credentials are rejected''
           else if truthy_str expected \<and> \<not> truthy_str email
           then Inl ''Google ADC does not identify an impersonated service account''
           else if truthy_str expected \<and> email \<noteq> expected
           then Inl ''Google ADC identity does not match GOOGLE_DLP_EXPECTED_SERVICE_ACCOUNT''
           else case adc_refresh cr of
             RefreshError \<Rightarrow> Inl ''Google ADC source credentials are expired or require reauthentication''
           | RefreshOther \<Rightarrow> Inl ''Google ADC refresh failed''
           | RefreshOk \<Rightarrow> Inr \<lparr>pre_credentials = cr, pre_email = email, pre_expiry = adc_expiry cr\<rparr>))"

section \<open>google_credential_sentinel.py\<close>

definition json_opt_str :: "string option \<Rightarrow> json" where
  "json_opt_str s = (case s of None \<Rightarrow> JNull | Some t \<Rightarrow> JStr t)"

text \<open>The status document; \<open>now\<close> and the expiry are already formatted by \<open>_timestamp\<close>.\<close>

definition probe :: "string \<Rightarrow> adc_default \<Rightarrow> string \<Rightarrow> json" where
  "probe now adc expected =
     (case preflight adc (Some expected) of
        Inl e \<Rightarrow> JObj [(''status'', JStr ''unavailable''), (''checked_at'', JStr now),
                       (''reason'', JStr ''credential_refresh_failed'')]
      | Inr r \<Rightarrow> JObj ([(''status'', JStr ''ready''), (''checked_at'', JStr now),
                        (''service_account'', json_opt_str (pre_email r))] @
                       (case pre_expiry r of None \<Rightarrow> [] | Some t \<Rightarrow> [(''token_expiry'', JStr t)])))"

definition replace_Z :: "string \<Rightarrow> string" where
  "replace_Z s = concat (map (\<lambda>c. if c = CHR ''Z'' then ''+00:00'' else [c]) s)"

record sentinel_env =
  status_file :: "string \<Rightarrow> json option"   \<comment> \<open>\<open>None\<close>: unreadable, not UTF-8 or not JSON\<close>
  from_iso :: "string \<Rightarrow> rat option"        \<comment> \<open>\<open>datetime.fromisoformat\<close>, in UTC seconds\<close>
  utc_now :: rat

definition status_known :: "json \<Rightarrow> py_error + bool" where
  \<comment> \<open>\<open>payload.get("status") in {_READY, _UNAVAILABLE}\<close>; unhashable values raise\<close>
  "status_known v =
     (case v of
        JList _ \<Rightarrow> Inl TypeError
      | JObj _ \<Rightarrow> Inl TypeError
      | _ \<Rightarrow> Inr (v = JStr ''ready'' \<or> v = JStr ''unavailable''))"

definition read_status :: "sentinel_env \<Rightarrow> string \<Rightarrow> rat \<Rightarrow> py_error + json_object option" where
  "read_status env path max_age =
     (case status_file env path of
        None \<Rightarrow> Inr None
      | Some (JObj payload) \<Rightarrow>
          (case map_of payload ''checked_at'' of
             None \<Rightarrow> Inr None
           | Some (JStr ts) \<Rightarrow>
               (case from_iso env (replace_Z ts) of
                  None \<Rightarrow> Inr None
                | Some checked_at \<Rightarrow>
                    (let age = utc_now env - checked_at in
                     if age < 0 \<or> age > max_age then Inr None
                     else ebind (status_known (jget payload ''status''))
                       (\<lambda>ok. Inr (if ok then Some payload else None))))
           | Some _ \<Rightarrow> Inl AttributeError)
      | Some _ \<Rightarrow> Inr None)"

definition credentials_ready :: "sentinel_env \<Rightarrow> string option \<Rightarrow> rat \<Rightarrow> py_error + bool" where
  "credentials_ready env path max_age =
     (if \<not> truthy_str path then Inr True
      else ebind (read_status env (the path) max_age) (\<lambda>st.
        Inr (case st of None \<Rightarrow> False | Some d \<Rightarrow> jget d ''status'' = JStr ''ready'')))"

section \<open>settings.py\<close>

record gov_settings =
  pii_backend_setting :: string
  google_cloud_project :: "string option"
  google_dlp_location :: string
  google_dlp_api_endpoint :: "string option"
  google_dlp_info_types :: string
  google_adc_status_path :: "string option"
  google_adc_status_max_age_seconds :: rat
  google_adc_retry_after_seconds :: nat
  internal_token :: string

fun from_keys :: "string list \<Rightarrow> string list \<Rightarrow> string list" where
  \<comment> \<open>\<open>tuple(dict.fromkeys(xs))\<close>: first occurrences in order\<close>
  "from_keys seen [] = []"
| "from_keys seen (x # xs) =
     (if x \<in> set seen then from_keys seen xs else x # from_keys (x # seen) xs)"

definition google_dlp_info_type_names :: "gov_settings \<Rightarrow> string list" where
  "google_dlp_info_type_names s =
     from_keys []
       (map py_strip (filter (\<lambda>item. py_strip item \<noteq> [])
         (py_split_on (CHR '','') (google_dlp_info_types s))))"

definition validate_pii_backend :: "gov_settings \<Rightarrow> py_error + gov_settings" where
  "validate_pii_backend s =
     (if pii_backend_setting s \<noteq> ''google'' then Inr s
      else if \<not> truthy_str (google_cloud_project s)
      then Inl (ValueError ''PII_BACKEND=google requires GOOGLE_CLOUD_PROJECT'')
      else if google_dlp_location s = [] \<or> CHR ''/'' \<in> set (google_dlp_location s)
      then Inl (ValueError ''GOOGLE_DLP_LOCATION must be a location id such as global or us'')
      else if truthy_str (google_dlp_api_endpoint s) \<and> sublist ''://'' (the (google_dlp_api_endpoint s))
      then Inl (ValueError ''GOOGLE_DLP_API_ENDPOINT must be a hostname, not a URL'')
      else if google_dlp_info_type_names s = []
      then Inl (ValueError ''GOOGLE_DLP_INFO_TYPES must contain at least one info type'')
      else Inr s)"

section \<open>pii.initialize\<close>

record pii_module =
  m_initialized :: "string option"
  m_workers :: "nat option"
  m_max_scan_seconds :: rat
  m_backend :: pii_backend

definition fresh_pii_module :: pii_module where
  "fresh_pii_module =
     \<lparr>m_initialized = None, m_workers = None, m_max_scan_seconds = 5,
      m_backend = \<lparr>backend_name = ''presidio'', google_settings = None, google_client = None,
                   presidio_engine = None\<rparr>\<rparr>"

record init_args =
  ia_backend :: string
  ia_google :: google_config   \<comment> \<open>the project may be empty\<close>
  ia_expected_account :: "string option"

record init_env =
  cpu_count :: "nat option"
  adc :: adc_default
  make_client :: "adc_credentials \<Rightarrow> py_error + dlp_service"
  make_presidio :: "py_error + presidio"

definition init_workers :: "init_env \<Rightarrow> pii_module \<Rightarrow> pii_module" where
  "init_workers env m =
     (case m_workers m of
        Some n \<Rightarrow> m
      | None \<Rightarrow>
          (let cpus = (case cpu_count env of None \<Rightarrow> 1 | Some 0 \<Rightarrow> 1 | Some n \<Rightarrow> n)
           in m\<lparr>m_workers := Some (min 32 (cpus + 4))\<rparr>))"

definition initialize :: "init_args \<Rightarrow> init_env \<Rightarrow> pii_module \<Rightarrow> (pii_error + unit) \<times> pii_module" where
  "initialize args env m =
     (if m_initialized m = Some (ia_backend args) then (Inr (), m)
      else if m_initialized m \<noteq> None
      then (Inl (PiiOther (RuntimeError ''PII backend cannot be changed after initialization'')), m)
      else
        let m1 = init_workers env m;
            m2 = m1\<lparr>m_backend := (m_backend m1)\<lparr>backend_name := ia_backend args\<rparr>\<rparr>
        in if ia_backend args = ''google''
           then (if g_project (ia_google args) = []
                 then (Inl (PiiOther (ValueError ''Google PII backend requires a project'')), m2)
                 else
                   let m3 = m2\<lparr>m_backend := (m_backend m2)\<lparr>google_settings := Some (ia_google args)\<rparr>,
                               m_max_scan_seconds := g_timeout_seconds (ia_google args)\<rparr>
                   in case preflight (adc env) (ia_expected_account args) of
                        Inl msg \<Rightarrow> (Inl (PiiBackendError msg), m3)
                      | Inr pre \<Rightarrow>
                          (case make_client env (pre_credentials pre) of
                             Inl e \<Rightarrow> (Inl (PiiOther e), m3)
                           | Inr svc \<Rightarrow>
                               (Inr (), m3\<lparr>m_backend := (m_backend m3)\<lparr>google_client := Some svc\<rparr>,
                                          m_initialized := Some (ia_backend args)\<rparr>)))
           else if ia_backend args \<noteq> ''presidio''
           then (Inl (PiiOther (ValueError (''Unsupported PII backend: '' @ ia_backend args))), m2)
           else case make_presidio env of
                  Inl e \<Rightarrow> (Inl (PiiOther e), m2)
                | Inr eng \<Rightarrow>
                    (Inr (), m2\<lparr>m_backend := (m_backend m2)\<lparr>presidio_engine := Some eng\<rparr>,
                               m_initialized := Some (ia_backend args)\<rparr>))"

section \<open>Lemmas\<close>

lemma from_keys_set: "set (from_keys seen xs) = set xs - set seen"
  by (induction xs arbitrary: seen) auto

lemma from_keys_distinct: "distinct (from_keys seen xs)"
  by (induction xs arbitrary: seen) (auto simp: from_keys_set)

definition backend_ready :: "pii_module \<Rightarrow> bool" where
  "backend_ready m \<longleftrightarrow>
     (case m_initialized m of
        None \<Rightarrow> True
      | Some b \<Rightarrow> backend_name (m_backend m) = b \<and>
          (if b = ''google''
           then google_settings (m_backend m) \<noteq> None \<and> google_client (m_backend m) \<noteq> None
           else b = ''presidio'' \<and> presidio_engine (m_backend m) \<noteq> None) \<and>
          (\<exists>n. m_workers m = Some n \<and> 0 < n \<and> n \<le> 32))"

definition workers_ok :: "pii_module \<Rightarrow> bool" where
  "workers_ok m \<longleftrightarrow> (case m_workers m of None \<Rightarrow> True | Some n \<Rightarrow> 0 < n \<and> n \<le> 32)"

lemma init_workers_ok:
  "workers_ok m \<Longrightarrow> \<exists>n. m_workers (init_workers env m) = Some n \<and> 0 < n \<and> n \<le> 32"
  by (auto simp: init_workers_def workers_ok_def Let_def split: option.splits)

lemma init_workers_simps [simp]:
  "m_initialized (init_workers env m) = m_initialized m"
  "m_backend (init_workers env m) = m_backend m"
  by (auto simp: init_workers_def Let_def split: option.splits)

lemma initialize_ready:
  assumes "backend_ready m" "workers_ok m" "initialize args env m = (res, m')"
  shows "backend_ready m' \<and> workers_ok m' \<and> (res = Inr () \<longrightarrow> m_initialized m' = Some (ia_backend args))"
proof (cases "m_initialized m")
  case (Some b)
  then show ?thesis using assms by (auto simp: initialize_def split: if_splits)
next
  case None
  obtain n where n: "m_workers (init_workers env m) = Some n" "0 < n" "n \<le> 32"
    using init_workers_ok [OF assms(2), of env] by blast
  show ?thesis
  proof (cases "res = Inr ()")
    case False
    then have "m_initialized m' = None \<and> m_workers m' = Some n"
      using assms(3) None n
      by (auto simp: initialize_def Let_def split: if_splits sum.splits)
    then show ?thesis using n False by (simp add: backend_ready_def workers_ok_def)
  next
    case True
    have w: "m_workers m' = Some n" and i: "m_initialized m' = Some (ia_backend args)"
      using assms(3) None n True
      by (auto simp: initialize_def Let_def split: if_splits sum.splits)
    show ?thesis
    proof (cases "ia_backend args = ''google''")
      case g: True
      have "backend_name (m_backend m') = ''google'' \<and> google_settings (m_backend m') \<noteq> None \<and>
          google_client (m_backend m') \<noteq> None"
        using assms(3) None True g
        by (auto simp: initialize_def Let_def split: if_splits sum.splits)
      then show ?thesis using w i g n True by (simp add: backend_ready_def workers_ok_def)
    next
      case g: False
      have "backend_name (m_backend m') = ''presidio'' \<and> ia_backend args = ''presidio'' \<and>
          presidio_engine (m_backend m') \<noteq> None"
        using assms(3) None True g
        by (auto simp: initialize_def Let_def split: if_splits sum.splits)
      then show ?thesis using w i g n True by (simp add: backend_ready_def workers_ok_def)
    qed
  qed
qed

inductive init_step :: "pii_module \<Rightarrow> pii_module \<Rightarrow> bool" where
  "initialize args env m = (res, m') \<Longrightarrow> init_step m m'"

interpretation pii_init: initialised_invariant init_step "\<lambda>m. backend_ready m \<and> workers_ok m"
  fresh_pii_module
proof unfold_locales
  fix m m' assume "backend_ready m \<and> workers_ok m" "init_step m m'"
  then show "backend_ready m' \<and> workers_ok m'"
    by (auto elim!: init_step.cases dest: initialize_ready)
qed (simp add: backend_ready_def workers_ok_def fresh_pii_module_def)

section \<open>Properties\<close>

text \<open>
  The sentinel's status is trusted exactly when the file is a JSON object whose \<open>checked_at\<close> is a
  time not in the future and not older than the limit and whose status is \<open>ready\<close>; a service that
  configures no status path is always ready.
\<close>

theorem credentials_ready_iff:
  "credentials_ready env path max_age = Inr True \<longleftrightarrow>
     \<not> truthy_str path \<or>
     (\<exists>d ts t. status_file env (the path) = Some (JObj d) \<and> map_of d ''checked_at'' = Some (JStr ts) \<and>
        from_iso env (replace_Z ts) = Some t \<and> t \<le> utc_now env \<and> utc_now env - t \<le> max_age \<and>
        jget d ''status'' = JStr ''ready'')"
proof (cases "truthy_str path")
  case True
  show ?thesis
  proof
    assume "credentials_ready env path max_age = Inr True"
    then obtain d where d: "read_status env (the path) max_age = Inr (Some d)"
        "jget d ''status'' = JStr ''ready''"
      using True by (auto simp: credentials_ready_def ebind_eq_Inr split: option.splits)
    then show "\<not> truthy_str path \<or>
     (\<exists>d ts t. status_file env (the path) = Some (JObj d) \<and> map_of d ''checked_at'' = Some (JStr ts) \<and>
        from_iso env (replace_Z ts) = Some t \<and> t \<le> utc_now env \<and> utc_now env - t \<le> max_age \<and>
        jget d ''status'' = JStr ''ready'')"
      by (auto simp: read_status_def ebind_eq_Inr Let_def not_less
          split: option.splits json.splits if_splits)
  next
    assume "\<not> truthy_str path \<or>
     (\<exists>d ts t. status_file env (the path) = Some (JObj d) \<and> map_of d ''checked_at'' = Some (JStr ts) \<and>
        from_iso env (replace_Z ts) = Some t \<and> t \<le> utc_now env \<and> utc_now env - t \<le> max_age \<and>
        jget d ''status'' = JStr ''ready'')"
    then show "credentials_ready env path max_age = Inr True"
      using True by (auto simp: credentials_ready_def read_status_def status_known_def Let_def)
  qed
qed (simp add: credentials_ready_def)

text \<open>
  What the sentinel publishes is what the service reads back: while the published document is
  fresh, the service is ready exactly if the credential preflight succeeded when it was written.
\<close>

theorem probe_credentials_roundtrip:
  assumes "status_file env path = Some (probe ts found account)" "path \<noteq> []"
    and "from_iso env (replace_Z ts) = Some t" "t \<le> utc_now env" "utc_now env - t \<le> max_age"
  shows "credentials_ready env (Some path) max_age = Inr (\<exists>r. preflight found (Some account) = Inr r)"
  using assms
  by (cases "preflight found (Some account)")
    (auto simp: credentials_ready_def truthy_str_def read_status_def probe_def Let_def
      status_known_def jget_def dict_get_or_def)

definition demo_adc :: adc_credentials where
  "demo_adc = \<lparr>adc_impersonated = True, adc_email = Some ''sa'', adc_refresh = RefreshOk, adc_expiry = None\<rparr>"

theorem probe_credentials_roundtrip_witness:
  "credentials_ready
     \<lparr>status_file = (\<lambda>p. Some (probe ''2026-01-01T00:00:00Z'' (AdcFound demo_adc) ''sa'')),
      from_iso = (\<lambda>s. if s = ''2026-01-01T00:00:00+00:00'' then Some 100 else None), utc_now = 130\<rparr>
     (Some ''status.json'') 90 = Inr True"
  using probe_credentials_roundtrip [of
      "\<lparr>status_file = (\<lambda>p. Some (probe ''2026-01-01T00:00:00Z'' (AdcFound demo_adc) ''sa'')),
        from_iso = (\<lambda>s. if s = ''2026-01-01T00:00:00+00:00'' then Some 100 else None), utc_now = 130\<rparr>"
      "''status.json''" "''2026-01-01T00:00:00Z''" "AdcFound demo_adc" "''sa''" 100 90]
  by (simp add: replace_Z_def preflight_def demo_adc_def truthy_str_def Let_def)

text \<open>
  C40. After any sequence of calls of \<open>initialize\<close>, failed ones included, a module that counts as
  initialised has the backend it was initialised for, with everything \<open>run\<close> needs, and between 1
  and 32 workers; another \<open>initialize\<close> then changes nothing.
\<close>

theorem initialize_sound:
  assumes "init_step\<^sup>*\<^sup>* fresh_pii_module m" "m_initialized m = Some b"
  shows "backend_ready m \<and> snd (initialize args env m) = m \<and>
    (fst (initialize args env m) = Inr () \<longleftrightarrow> ia_backend args = b)"
  using pii_init.inv_reachable [OF assms(1)] assms(2) by (simp add: initialize_def)

definition demo_init :: "(pii_error + unit) \<times> pii_module" where
  "demo_init = initialize \<lparr>ia_backend = ''google'', ia_google = demo_google, ia_expected_account = Some ''sa''\<rparr>
     \<lparr>cpu_count = Some 4, adc = AdcFound demo_adc, make_client = (\<lambda>c. Inr demo_dlp),
      make_presidio = Inl (OtherException ''unused'')\<rparr> fresh_pii_module"

theorem initialize_sound_witness:
  "backend_ready (snd demo_init) \<and> m_workers (snd demo_init) = Some 8"
proof -
  have s: "init_step fresh_pii_module (snd demo_init)"
    by (rule init_step.intros [of _ _ _ "fst demo_init"]) (simp add: demo_init_def)
  have i: "m_initialized (snd demo_init) = Some ''google'' \<and> m_workers (snd demo_init) = Some 8"
    by (simp add: demo_init_def initialize_def fresh_pii_module_def init_workers_def Let_def
        demo_google_def preflight_def demo_adc_def truthy_str_def)
  show ?thesis
    using initialize_sound [of "snd demo_init"] r_into_rtranclp [of init_step, OF s] i by blast
qed

end
