(* ===== verification/Retention.thy ===== *)
theory Retention imports GatewayHttp Transition begin

text \<open>
  The monthly partitions of the audit log (\<open>governance/app/retention.py\<close>): a month is a year and a
  month number, the catalogue is the set of table names and of the partitions attached to
  \<open>audit_log\<close>, and a statement is the change it makes unless the server refuses it. Which statements
  the server refuses is a parameter.
\<close>

section \<open>Months and partition names\<close>

type_synonym month = "nat \<times> nat"

definition next_month :: "month \<Rightarrow> py_error + month" where
  \<comment> \<open>\<open>date\<close> raises beyond the year 9999\<close>
  "next_month d =
     (if snd d = 12
      then (if fst d + 1 \<le> 9999 then Inr (fst d + 1, 1) else Inl (ValueError ''year is out of range''))
      else Inr (fst d, snd d + 1))"

definition zero_pad :: "nat \<Rightarrow> string \<Rightarrow> string" where
  "zero_pad w s = replicate (w - length s) (CHR ''0'') @ s"

definition partition_name :: "month \<Rightarrow> string" where
  "partition_name d =
     ''audit_log_'' @ zero_pad 4 (digits_of (fst d)) @ ''_'' @ zero_pad 2 (digits_of (snd d))"

definition is_digit :: "char \<Rightarrow> bool" where
  "is_digit c \<longleftrightarrow> digit_value c \<noteq> None"

text \<open>\<open>audit_log_\d{4}_(?:0[1-9]|1[0-2])\<close>, matched in full.\<close>

definition partition_name_matches :: "string \<Rightarrow> bool" where
  "partition_name_matches s \<longleftrightarrow>
     length s = 17 \<and> take 10 s = ''audit_log_'' \<and> list_all is_digit (take 4 (drop 10 s)) \<and>
     s ! 14 = CHR ''_'' \<and>
     (s ! 15 = CHR ''0'' \<and> is_digit (s ! 16) \<and> s ! 16 \<noteq> CHR ''0'' \<or>
      s ! 15 = CHR ''1'' \<and> s ! 16 \<in> {CHR ''0'', CHR ''1'', CHR ''2''})"

definition safe_partition_name :: "string \<Rightarrow> py_error + string" where
  "safe_partition_name name =
     (if partition_name_matches name then Inr name
      else Inl (ValueError ''Refusing DDL: unexpected partition name''))"

section \<open>The catalogue\<close>

record archive_row =
  ar_table :: string
  ar_month :: month
  ar_detached :: "rat option"
  ar_dumped :: "rat option"
  ar_verified :: "rat option"
  ar_dropped :: "rat option"

record catalogue =
  tables :: "string set"
  attached :: "string set"  \<comment> \<open>partitions of \<open>audit_log\<close>\<close>
  archive :: "archive_row list"

datatype ddl = CreatePartition string | DetachPartition string | DropTable string

type_synonym server = "ddl \<Rightarrow> py_error option"  \<comment> \<open>the error it answers, if any\<close>

definition database_error :: py_error where
  "database_error = OtherException ''ProgrammingError''"

section \<open>Creating partitions\<close>

definition create_partition :: "server \<Rightarrow> month \<Rightarrow> catalogue \<Rightarrow> (py_error + unit) \<times> catalogue" where
  "create_partition srv month db =
     (case next_month month of
        Inl e \<Rightarrow> (Inl e, db)
      | Inr end_month \<Rightarrow>
          (let table_name = partition_name month in
           if table_name \<in> tables db then (Inr (), db)
           else (case safe_partition_name table_name of
              Inl e \<Rightarrow> (Inl e, db)
            | Inr safe_name \<Rightarrow>
                (case srv (CreatePartition safe_name) of
                   Some e \<Rightarrow> (Inl e, db)
                 | None \<Rightarrow> (Inr (), db\<lparr>tables := insert safe_name (tables db),
                                      attached := insert safe_name (attached db)\<rparr>)))))"

definition ensure_write_partitions :: "server \<Rightarrow> month \<Rightarrow> catalogue \<Rightarrow> (py_error + unit) \<times> catalogue" where
  "ensure_write_partitions srv current_month db =
     (case create_partition srv current_month db of
        (Inl e, db1) \<Rightarrow> (Inl e, db1)
      | (Inr _, db1) \<Rightarrow>
          (case next_month current_month of
             Inl e \<Rightarrow> (Inl e, db1)
           | Inr m \<Rightarrow> create_partition srv m db1))"

section \<open>Archiving partitions\<close>

definition set_archive :: "string \<Rightarrow> (archive_row \<Rightarrow> archive_row) \<Rightarrow> catalogue \<Rightarrow> catalogue" where
  \<comment> \<open>\<open>UPDATE partition_archive_state SET ... WHERE table_name = :name\<close>\<close>
  "set_archive name f db =
     db\<lparr>archive := map (\<lambda>r. if ar_table r = name then f r else r) (archive db)\<rparr>"

definition advance_row :: "server \<Rightarrow> rat \<Rightarrow> archive_row \<Rightarrow> catalogue \<Rightarrow> (py_error + unit) \<times> catalogue" where
  "advance_row srv now row db =
     (case safe_partition_name (ar_table row) of
        Inl e \<Rightarrow> (Inl e, db)
      | Inr name \<Rightarrow>
          if ar_detached row = None then
            (case srv (DetachPartition name) of
               Some e \<Rightarrow> (Inr (), db)
             | None \<Rightarrow>
                 (Inr (), set_archive name (\<lambda>r. r\<lparr>ar_detached := Some now\<rparr>) (db\<lparr>attached := attached db - {name}\<rparr>)))
          else if ar_dumped row = None then (Inr (), db)
          else if ar_verified row = None then
            (Inr (), set_archive name (\<lambda>r. r\<lparr>ar_verified := Some now\<rparr>) db)
          else if ar_dropped row = None then
            (case srv (DropTable name) of
               Some e \<Rightarrow> (Inr (), db)
             | None \<Rightarrow>
                 (Inr (), set_archive name (\<lambda>r. r\<lparr>ar_dropped := Some now\<rparr>)
                    (db\<lparr>tables := tables db - {name}, attached := attached db - {name}\<rparr>)))
          else (Inr (), db))"

fun advance_rows :: "server \<Rightarrow> rat \<Rightarrow> archive_row list \<Rightarrow> catalogue \<Rightarrow> (py_error + unit) \<times> catalogue" where
  "advance_rows srv now [] db = (Inr (), db)"
| "advance_rows srv now (row # rows) db =
     (case advance_row srv now row db of
        (Inl e, db') \<Rightarrow> (Inl e, db')
      | (Inr _, db') \<Rightarrow> advance_rows srv now rows db')"

definition advance_partitions :: "server \<Rightarrow> rat \<Rightarrow> catalogue \<Rightarrow> (py_error + unit) \<times> catalogue" where
  "advance_partitions srv now db =
     advance_rows srv now
       (sort_key (\<lambda>r. 12 * fst (ar_month r) + snd (ar_month r))
         (filter (\<lambda>r. ar_dropped r = None) (archive db))) db"

definition count_stuck_partitions :: "rat \<Rightarrow> catalogue \<Rightarrow> nat" where
  "count_stuck_partitions now db =
     length (filter (\<lambda>r. (case ar_detached r of None \<Rightarrow> False | Some t \<Rightarrow> t < now - 48 * 3600) \<and>
       ar_dumped r = None) (archive db))"

section \<open>Lemmas\<close>

lemma is_digit_char_of: "n < 10 \<Longrightarrow> is_digit (char_of (48 + n :: nat))"
  by (simp add: is_digit_def digit_value_def)

lemma digits_of_digits: "list_all is_digit (digits_of n)"
proof (induction n rule: digits_of.induct)
  case (1 n)
  then show ?case
    by (subst digits_of.simps) (auto simp del: of_char_of simp: is_digit_char_of)
qed

lemma digits_of_length: "n < 10 ^ Suc k \<Longrightarrow> length (digits_of n) \<le> Suc k"
proof (induction k arbitrary: n)
  case (Suc k)
  have "n div 10 < 10 ^ Suc k" using Suc.prems by (simp add: less_mult_imp_div_less)
  from Suc.IH [OF this] show ?case by (subst digits_of.simps) auto
qed (simp add: digits_of.simps)

lemma zero_pad_facts:
  assumes "length s \<le> w" "list_all is_digit s"
  shows "length (zero_pad w s) = w" "list_all is_digit (zero_pad w s)"
  using assms by (auto simp: zero_pad_def list_all_iff is_digit_def digit_value_def)

lemma month_digits:
  assumes "1 \<le> m" "m \<le> 12"
  shows "\<exists>a b. zero_pad 2 (digits_of m) = [a, b] \<and>
    (a = CHR ''0'' \<and> is_digit b \<and> b \<noteq> CHR ''0'' \<or> a = CHR ''1'' \<and> b \<in> {CHR ''0'', CHR ''1'', CHR ''2''})"
proof -
  have "m = 1 \<or> m = 2 \<or> m = 3 \<or> m = 4 \<or> m = 5 \<or> m = 6 \<or> m = 7 \<or> m = 8 \<or> m = 9 \<or>
      m = 10 \<or> m = 11 \<or> m = 12" using assms by presburger
  then show ?thesis
    by (elim disjE) (simp_all add: zero_pad_def digits_of.simps is_digit_def digit_value_def char_of_def bit_0)
qed

lemma partition_name_matches_name:
  assumes "fst d \<le> 9999" "1 \<le> snd d" "snd d \<le> 12"
  shows "partition_name_matches (partition_name d)"
proof -
  obtain a b where m: "zero_pad 2 (digits_of (snd d)) = [a, b]"
    "a = CHR ''0'' \<and> is_digit b \<and> b \<noteq> CHR ''0'' \<or> a = CHR ''1'' \<and> b \<in> {CHR ''0'', CHR ''1'', CHR ''2''}"
    using month_digits [OF assms(2,3)] by blast
  define y where "y = zero_pad 4 (digits_of (fst d))"
  have "length (digits_of (fst d)) \<le> 4" using digits_of_length [of "fst d" 3] assms(1) by simp
  from zero_pad_facts [OF this digits_of_digits]
  have y: "length y = 4" "list_all is_digit y" by (simp_all add: y_def)
  obtain c1 c2 c3 c4 where "y = [c1, c2, c3, c4]"
    using y(1) by (auto simp: numeral_eq_Suc length_Suc_conv)
  then show ?thesis using m y(2)
    by (auto simp: partition_name_matches_def partition_name_def y_def)
qed

text \<open>Every partition a pass drops has been detached, dumped and verified.\<close>

definition archived :: "archive_row \<Rightarrow> bool" where
  "archived r \<longleftrightarrow> ar_detached r \<noteq> None \<and> ar_dumped r \<noteq> None \<and> ar_verified r \<noteq> None"

lemma advance_row_tables:
  "advance_row srv now row db = (res, db') \<Longrightarrow> name \<in> tables db \<Longrightarrow>
   name \<notin> tables db' \<Longrightarrow> name = ar_table row \<and> archived row"
  by (auto simp: advance_row_def archived_def set_archive_def safe_partition_name_def
      split: if_splits option.splits sum.splits)

lemma advance_rows_tables:
  "advance_rows srv now rows db = (res, db') \<Longrightarrow> name \<in> tables db \<Longrightarrow> name \<notin> tables db' \<Longrightarrow>
   \<exists>row\<in>set rows. name = ar_table row \<and> archived row"
proof (induction srv now rows db rule: advance_rows.induct)
  case (2 srv now row rows db)
  obtain r1 db1 where one: "advance_row srv now row db = (r1, db1)" by force
  show ?case
  proof (cases "name \<in> tables db1")
    case True
    then obtain u where "r1 = Inr u" "advance_rows srv now rows db1 = (res, db')"
      using 2(2,4) one by (cases r1) auto
    then show ?thesis using 2(1) [OF one [symmetric]] True 2(4) by auto
  qed (use advance_row_tables [OF one 2(3)] in auto)
qed simp

lemma advance_rows_refused:
  "\<forall>n. srv (DetachPartition n) \<noteq> None \<Longrightarrow> list_all (\<lambda>r. ar_detached r = None) rows \<Longrightarrow>
   snd (advance_rows srv now rows db) = db"
proof (induction srv now rows db rule: advance_rows.induct)
  case (2 srv now row rows db)
  obtain e where "srv (DetachPartition (ar_table row)) = Some e" using 2(2) by blast
  then show ?case using 2 by (auto simp: advance_row_def safe_partition_name_def)
qed simp

lemma create_partition_cases:
  assumes "fst m \<le> 9999" "1 \<le> snd m" "snd m \<le> 12" "next_month m = Inr e"
  shows "create_partition srv m db =
    (if partition_name m \<in> tables db then (Inr (), db)
     else case srv (CreatePartition (partition_name m)) of
       Some e \<Rightarrow> (Inl e, db)
     | None \<Rightarrow> (Inr (), db\<lparr>tables := insert (partition_name m) (tables db),
                         attached := insert (partition_name m) (attached db)\<rparr>))"
  using partition_name_matches_name [OF assms(1-3)] assms(4)
  by (auto simp: create_partition_def safe_partition_name_def Let_def)

section \<open>Properties\<close>

text \<open>
  Before writes are served, the current and the next month have a partition: every month's name
  passes the check on interpolated identifiers, so unless the server refuses a statement or
  the calendar ends, both names exist afterwards, and both are attached when no table of that
  name existed detached before. Nothing is ever removed.
\<close>

theorem ensure_write_partitions_correct:
  assumes "next_month m = Inr m'" "next_month m' = Inr m''" "fst m' \<le> 9999"
    "1 \<le> snd m" "snd m \<le> 12" "ensure_write_partitions srv m db = (res, db')"
  shows "(res = Inr () \<longrightarrow> {partition_name m, partition_name m'} \<subseteq> attached db' \<union> (tables db - attached db)) \<and>
    tables db \<subseteq> tables db' \<and> attached db \<subseteq> attached db' \<and> archive db' = archive db \<and>
    (\<forall>e. res = Inl e \<longrightarrow> (\<exists>n. srv (CreatePartition n) = Some e))"
proof -
  have m: "fst m \<le> 9999" "1 \<le> snd m'" "snd m' \<le> 12"
    using assms(1,3,4,5) by (auto simp: next_month_def split: if_splits)
  note c1 = create_partition_cases [OF m(1) assms(4,5,1)]
  note c2 = create_partition_cases [OF assms(3) m(2,3) assms(2)]
  obtain r1 db1 where one: "create_partition srv m db = (r1, db1)" by force
  show ?thesis
  proof (cases r1)
    case (Inl e)
    then have "res = Inl e" "db' = db" using assms(6) one c1
      by (auto simp: ensure_write_partitions_def split: if_splits option.splits)
    then show ?thesis using one c1 Inl by (auto split: if_splits option.splits)
  next
    case (Inr u)
    then have "(res, db') = create_partition srv m' db1"
      using assms(1,6) one by (simp add: ensure_write_partitions_def)
    then show ?thesis using one c1 [of srv db] c2 [of srv db1] Inr
      by (auto split: if_splits option.splits)
  qed
qed

lemma ensure_write_partitions_correct_witness:
  "partition_name (2026, 6) \<in> attached (snd (ensure_write_partitions (\<lambda>d. None) (2026, 5)
     \<lparr>tables = {''audit_log_2026_05''}, attached = {''audit_log_2026_05''}, archive = []\<rparr>))"
proof -
  let ?db = "\<lparr>tables = {''audit_log_2026_05''}, attached = {''audit_log_2026_05''}, archive = []\<rparr>"
  obtain res db' where e: "ensure_write_partitions (\<lambda>d. None) (2026, 5) ?db = (res, db')" by force
  have "{partition_name (2026, 5), partition_name (2026, 6)} \<subseteq> attached db'"
    using ensure_write_partitions_correct [OF _ _ _ _ _ e, of "(2026, 6)" "(2026, 7)"]
    by (cases res) (auto simp: next_month_def)
  then show ?thesis using e by simp
qed

text \<open>
  Retention never loses unarchived rows: a table that a pass of the archiver drops has a row in the
  archive state that was, before that pass, already detached, dumped and verified.
\<close>

theorem advance_partitions_drops_only_archived:
  assumes "advance_partitions srv now db = (res, db')" "name \<in> tables db" "name \<notin> tables db'"
  shows "\<exists>row\<in>set (archive db). ar_table row = name \<and> archived row \<and> ar_dropped row = None"
proof -
  obtain row where "row \<in> set (filter (\<lambda>r. ar_dropped r = None) (archive db))"
      "name = ar_table row" "archived row"
    using advance_rows_tables [OF assms(1) [unfolded advance_partitions_def] assms(2,3)] by auto
  then show ?thesis by auto
qed

definition demo_archive :: catalogue where
  "demo_archive = \<lparr>tables = {''audit_log_2026_01''}, attached = {},
     archive = [\<lparr>ar_table = ''audit_log_2026_01'', ar_month = (2026, 1), ar_detached = Some 1,
       ar_dumped = Some 2, ar_verified = Some 3, ar_dropped = None\<rparr>]\<rparr>"

lemma advance_partitions_drops_only_archived_witness:
  "\<exists>row. row \<in> set (archive demo_archive) \<and> archived row"
proof -
  let ?r = "advance_partitions (\<lambda>d. None) 9 demo_archive"
  have "''audit_log_2026_01'' \<notin> tables (snd ?r)" "''audit_log_2026_01'' \<in> tables demo_archive"
    by (simp_all add: advance_partitions_def demo_archive_def advance_row_def set_archive_def
        safe_partition_name_def partition_name_matches_def is_digit_def digit_value_def)
  from advance_partitions_drops_only_archived [OF prod.collapse [symmetric] this(2,1)]
  show ?thesis by blast
qed

text \<open>
  The server refuses \<open>DETACH PARTITION ... CONCURRENTLY\<close> inside a transaction, and the session always
  opens one: then no pass changes anything, and the partitions are kept for ever.
\<close>

lemma retention_never_archives:
  assumes "\<forall>n. srv (DetachPartition n) \<noteq> None" "list_all (\<lambda>r. ar_detached r = None) (archive db)"
  shows "snd (advance_partitions srv now db) = db"
  unfolding advance_partitions_def
  by (rule advance_rows_refused) (use assms in \<open>auto simp: list_all_iff\<close>)

end
