(* ===== verification/Entitlements.thy ===== *)
theory Entitlements imports Json begin

text \<open>
  The entitlements bundle (\<open>governance/app/entitlements.py\<close>): finding the assignment in the Rego
  source, matching its braces outside string literals, removing trailing commas, and packing the
  result. \<open>json.loads\<close>, NFC normalisation, SHA-256 and the tar and gzip writers are parameters.
\<close>

section \<open>The marker\<close>

text \<open>\<open>^\s*entitlements\s*:=\s*\<close>: the text after a match at the head of the argument.\<close>

definition marker_here :: "string \<Rightarrow> string option" where
  "marker_here s =
     (let a = dropWhile py_is_space s in
      if \<not> py_startswith a ''entitlements'' then None
      else (let b = dropWhile py_is_space (drop 12 a) in
        if \<not> py_startswith b '':='' then None else Some (dropWhile py_is_space (drop 2 b))))"

fun search_marker :: "bool \<Rightarrow> string \<Rightarrow> string option" where
  \<comment> \<open>the flag says that the position is at the start of a line\<close>
  "search_marker bol [] = None"
| "search_marker bol (c # cs) =
     (case (if bol then marker_here (c # cs) else None) of
        Some r \<Rightarrow> Some r
      | None \<Rightarrow> search_marker (c = CHR 10) cs)"

section \<open>Brace matching\<close>

text \<open>The loop state: nesting depth, inside a string, after a backslash.\<close>

type_synonym brace_state = "nat \<times> bool \<times> bool"

definition brace_char :: "char \<Rightarrow> brace_state \<Rightarrow> brace_state" where
  "brace_char ch st =
     (let (depth, in_string, escape) = st in
      if in_string then
        (if escape then (depth, True, False)
         else if ch = CHR 92 then (depth, True, True)
         else (depth, ch \<noteq> CHR 34, False))
      else if ch = CHR 34 then (depth, True, escape)
      else if ch = CHR ''{'' then (depth + 1, False, escape)
      else if ch = CHR ''}'' then (depth - 1, False, escape)
      else st)"

definition closes :: "char \<Rightarrow> brace_state \<Rightarrow> bool" where
  "closes ch st \<longleftrightarrow> \<not> fst (snd st) \<and> ch = CHR ''}'' \<and> fst st - 1 = 0"

fun match_braces :: "brace_state \<Rightarrow> string \<Rightarrow> string option" where
  \<comment> \<open>the characters up to the brace that closes the first one\<close>
  "match_braces st [] = None"
| "match_braces st (ch # cs) =
     (if closes ch st then Some [ch]
      else map_option ((#) ch) (match_braces (brace_char ch st) cs))"

section \<open>Trailing commas\<close>

function strip_trailing_commas :: "string \<Rightarrow> string" where
  "strip_trailing_commas [] = []"
| "strip_trailing_commas (c # cs) =
     (if c = CHR '',''
      then (case dropWhile py_is_space cs of
              d # ds \<Rightarrow> (if d \<in> {CHR ''}'', CHR '']''} then d # strip_trailing_commas ds
                        else c # strip_trailing_commas cs)
            | [] \<Rightarrow> c # strip_trailing_commas cs)
      else c # strip_trailing_commas cs)"
  by pat_completeness auto

lemma dropWhile_Cons_length: "dropWhile P cs = d # ds \<Longrightarrow> length ds < length cs"
  by (metis Suc_le_lessD length_Cons length_dropWhile_le)

termination strip_trailing_commas
  by (relation "measure length") (auto dest: dropWhile_Cons_length)

section \<open>Extraction and bundle\<close>

datatype entitlements_error =
    EntitlementsError string
  | EntitlementsRaised py_error

definition extract_entitlements :: "(string \<Rightarrow> json option) \<Rightarrow> string \<Rightarrow> entitlements_error + json" where
  "extract_entitlements loads rego_text =
     (case search_marker True rego_text of
        None \<Rightarrow> Inl (EntitlementsError ''no 'entitlements :=' assignment found in authz.rego'')
      | Some rest \<Rightarrow>
          (let from_brace = dropWhile (\<lambda>c. c \<noteq> CHR ''{'') rest in
           if from_brace = [] then Inl (EntitlementsError (''no opening '{' found after 'entitlements :='' @ [CHR 39]))
           else (case match_braces (0, False, False) from_brace of
              None \<Rightarrow> Inl (EntitlementsError ''unbalanced braces in entitlements value'')
            | Some snippet \<Rightarrow>
                (case loads (strip_trailing_commas snippet) of
                   None \<Rightarrow> Inl (EntitlementsError ''entitlements value is not valid JSON after cleanup'')
                 | Some v \<Rightarrow> Inr v))))"

fun normalize_nfc :: "(string \<Rightarrow> string) \<Rightarrow> json \<Rightarrow> json" where
  "normalize_nfc nfc (JStr s) = JStr (nfc s)"
| "normalize_nfc nfc (JObj d) = JObj (map (\<lambda>(k, v). (k, normalize_nfc nfc v)) d)"
| "normalize_nfc nfc (JList vs) = JList (map (normalize_nfc nfc) vs)"
| "normalize_nfc nfc v = v"

text \<open>What the bundle is built from; \<open>pack\<close> writes the named members with a fixed time stamp.\<close>

record bundle_lib =
  bl_loads :: "string \<Rightarrow> json option"
  bl_dumps_sorted :: "json \<Rightarrow> string"
  bl_nfc :: "string \<Rightarrow> string"
  bl_sha256 :: "nat list \<Rightarrow> string"
  bl_decode :: "nat list \<Rightarrow> string option"
  bl_pack :: "(string \<times> string) list \<Rightarrow> nat list"

definition build_bundle :: "bundle_lib \<Rightarrow> json \<Rightarrow> string \<Rightarrow> nat list" where
  "build_bundle lib entitlements revision =
     (let data = bl_dumps_sorted lib
            (JObj [(''mcp'', JObj [(''authz'', JObj [(''entitlements'', entitlements)])])]);
          manifest = bl_dumps_sorted lib
            (JObj [(''revision'', JStr revision), (''roots'', JList [JStr ''mcp/authz/entitlements''])])
      in bl_pack lib [(''.manifest'', manifest), (''data.json'', data)])"

definition read_and_build :: "bundle_lib \<Rightarrow> nat list option \<Rightarrow> entitlements_error + nat list" where
  \<comment> \<open>the file's bytes, \<open>None\<close> when it cannot be read\<close>
  "read_and_build lib file =
     (case file of
        None \<Rightarrow> Inl (EntitlementsError ''cannot read'')
      | Some raw \<Rightarrow>
          (case bl_decode lib raw of
             None \<Rightarrow> Inl (EntitlementsError ''not valid UTF-8'')
           | Some rego \<Rightarrow>
               (case extract_entitlements (bl_loads lib) rego of
                  Inl e \<Rightarrow> Inl e
                | Inr v \<Rightarrow> Inr (build_bundle lib (normalize_nfc (bl_nfc lib) v) (bl_sha256 lib raw)))))"

section \<open>Lemmas\<close>

text \<open>
  A reference definition: the characters outside string literals, read with two-character escapes,
  and the shortest prefix in which they hold as many closing as opening braces.
\<close>

fun unquoted :: "bool \<Rightarrow> string \<Rightarrow> string" where
  "unquoted q [] = []"
| "unquoted False (c # cs) = (if c = CHR 34 then unquoted True cs else c # unquoted False cs)"
| "unquoted True (c # cs) =
     (if c = CHR 92 then (case cs of [] \<Rightarrow> [] | d # ds \<Rightarrow> unquoted True ds)
      else unquoted (c \<noteq> CHR 34) cs)"

definition balanced_from :: "nat \<Rightarrow> bool \<Rightarrow> string \<Rightarrow> bool" where
  "balanced_from d q p \<longleftrightarrow>
     d + count_list (unquoted q p) (CHR ''{'') = count_list (unquoted q p) (CHR ''}'')"

definition balanced :: "string \<Rightarrow> bool" where
  "balanced p \<longleftrightarrow> balanced_from 0 False p"

lemma find_map: "find P (map f xs) = map_option f (find (\<lambda>x. P (f x)) xs)"
  by (induction xs) auto

lemma find_prefixes_Cons:
  "\<not> P [] \<Longrightarrow> find P (prefixes (c # cs)) = map_option ((#) c) (find (\<lambda>p. P (c # p)) (prefixes cs))"
  by (simp add: find_map)

lemma find_prefixes_Nil: "P [] \<Longrightarrow> find P (prefixes cs) = Some []"
  by (cases cs) auto

lemma match_braces_eq_find:
  "0 < d \<Longrightarrow> match_braces (d, q, False) cs = find (balanced_from d q) (prefixes cs)"
proof (induction q cs arbitrary: d rule: unquoted.induct)
  case (1 q)
  then show ?case by (simp add: balanced_from_def)
next
  case (2 c cs)
  have n: "\<not> balanced_from d False []" using 2(3) by (simp add: balanced_from_def)
  consider "c = CHR 34" | "c = CHR ''{''" | "c = CHR ''}''" "d = 1" | "c = CHR ''}''" "1 < d"
    | "c \<noteq> CHR 34" "c \<noteq> CHR ''{''" "c \<noteq> CHR ''}''"
    using 2(3) by linarith
  then show ?case
  proof cases
    case 1
    have "(\<lambda>p. balanced_from d False (c # p)) = balanced_from d True"
      using 1 by (simp add: balanced_from_def fun_eq_iff)
    then show ?thesis using 2(1) [OF 1 2(3)] 1 n
      by (subst find_prefixes_Cons [where P = "balanced_from d False", OF n]) (simp add: closes_def brace_char_def)
  next
    case 2
    have "(\<lambda>p. balanced_from d False (c # p)) = balanced_from (Suc d) False"
      using 2 by (simp add: balanced_from_def fun_eq_iff)
    then show ?thesis using "2.IH"(2) [of "Suc d"] 2 n
      by (subst find_prefixes_Cons [where P = "balanced_from d False", OF n]) (simp add: closes_def brace_char_def)
  next
    case 3
    have "balanced_from d False [c]" using 3 by (simp add: balanced_from_def)
    then show ?thesis using 3 n
      by (subst find_prefixes_Cons [where P = "balanced_from d False", OF n]) (simp add: find_prefixes_Nil closes_def)
  next
    case 4
    have "(\<lambda>p. balanced_from d False (c # p)) = balanced_from (d - 1) False"
      using 4 by (auto simp: balanced_from_def fun_eq_iff)
    then show ?thesis using "2.IH"(2) [of "d - 1"] 4 n
      by (subst find_prefixes_Cons [where P = "balanced_from d False", OF n]) (simp add: closes_def brace_char_def)
  next
    case 5
    have "(\<lambda>p. balanced_from d False (c # p)) = balanced_from d False"
      using 5 by (simp add: balanced_from_def fun_eq_iff)
    then show ?thesis using "2.IH"(2) [of d] 5 2(3) n
      by (subst find_prefixes_Cons [where P = "balanced_from d False", OF n]) (simp add: closes_def brace_char_def)
  qed
next
  case (3 c cs)
  have n: "\<not> balanced_from d True []" using 3(3) by (simp add: balanced_from_def)
  show ?case
  proof (cases "c = CHR 92")
    case True
    show ?thesis
    proof (cases cs)
      case Nil
      then show ?thesis using True n 3(3)
        by (simp add: find_prefixes_Cons closes_def balanced_from_def)
    next
      case (Cons x xs)
      have a: "\<not> balanced_from d True [c]" using True 3(3) by (simp add: balanced_from_def)
      have "(\<lambda>p. balanced_from d True (c # x # p)) = balanced_from d True"
        using True by (simp add: balanced_from_def fun_eq_iff)
      then have "find (\<lambda>p. balanced_from d True (c # p)) (prefixes (x # xs)) =
          map_option ((#) x) (find (balanced_from d True) (prefixes xs))"
        using a by (subst find_prefixes_Cons) simp_all
      then show ?thesis using "3.IH"(1) [OF True Cons 3(3)] True Cons n
        by (subst find_prefixes_Cons) (simp_all add: closes_def brace_char_def)
    qed
  next
    case False
    have "(\<lambda>p. balanced_from d True (c # p)) = balanced_from d (c \<noteq> CHR 34)"
      using False by (simp add: balanced_from_def fun_eq_iff)
    then show ?thesis using "3.IH"(2) [OF False 3(3)] False n
      by (subst find_prefixes_Cons [where P = "balanced_from d True", OF n]) (simp add: closes_def brace_char_def)
  qed
qed

section \<open>Properties\<close>

text \<open>
  The brace matcher agrees with the reference definition: from the opening brace on it
  returns the shortest prefix whose characters outside string literals hold as many closing as
  opening braces, and nothing exactly when no prefix does.
\<close>

theorem match_braces_shortest_balanced:
  "match_braces (0, False, False) (CHR ''{'' # cs) =
   find (\<lambda>p. p \<noteq> [] \<and> balanced p) (prefixes (CHR ''{'' # cs))"
proof -
  have "(\<lambda>p. CHR ''{'' # p \<noteq> [] \<and> balanced (CHR ''{'' # p)) = balanced_from 1 False"
    by (simp add: balanced_def balanced_from_def fun_eq_iff)
  then show ?thesis
    using match_braces_eq_find [of 1 False cs]
    by (subst find_prefixes_Cons) (simp_all add: closes_def brace_char_def)
qed

text \<open>The clean-up also rewrites text inside string literals.\<close>

lemma strip_inside_string: "strip_trailing_commas ''[\",]\"]'' = ''[\"]\"]''"
  by (simp add: py_is_space_def)

end
