(* ===== verification/GovApi.thy ===== *)
theory GovApi
  imports AuditDb GovCredentials Retention Entitlements "HOL-Library.Product_Lexorder"
begin

text \<open>
  The HTTP endpoints of the governance service (\<open>governance/app/main.py\<close>): the internal-token check,
  the credential gate, inspection with its background audit write, the PII-only scan, the MCP audit
  event, the entitlements bundle, health, and the two readers of the audit log. A reply is the value
  of the handler; a handler that writes also returns the tables.
\<close>

section \<open>Replies\<close>

datatype 'a gov_answer =
    GovOk 'a
  | GovHttp nat string "string dict"  \<comment> \<open>status, detail, headers\<close>
  | GovRaised py_error                \<comment> \<open>a 500 of the framework\<close>

definition pii_backend_unavailable :: "gov_settings \<Rightarrow> 'a gov_answer" where
  "pii_backend_unavailable s =
     GovHttp 503 ''PII inspection temporarily unavailable''
       [(''Retry-After'', py_str_int (int (google_adc_retry_after_seconds s)))]"

fun pii_failure :: "gov_settings \<Rightarrow> pii_error \<Rightarrow> 'a gov_answer" where
  "pii_failure s (PiiBackendError m) = pii_backend_unavailable s"
| "pii_failure s (PiiOther e) = GovRaised e"

definition with_token :: "gov_settings \<Rightarrow> string option \<Rightarrow> 'a gov_answer \<Rightarrow> 'a gov_answer" where
  "with_token s x_internal_token k =
     (case token_accepted x_internal_token (internal_token s) of
        Inl e \<Rightarrow> GovRaised e
      | Inr False \<Rightarrow> GovHttp 403 ''Invalid or missing X-Internal-Token'' []
      | Inr True \<Rightarrow> k)"

definition require_fresh_google_credentials :: "gov_settings \<Rightarrow> sentinel_env \<Rightarrow> pii_error + unit" where
  "require_fresh_google_credentials s env =
     (if pii_backend_setting s \<noteq> ''google'' then Inr ()
      else (case credentials_ready env (google_adc_status_path s) (google_adc_status_max_age_seconds s) of
         Inl e \<Rightarrow> Inl (PiiOther e)
       | Inr ok \<Rightarrow> (if ok then Inr () else Inl (PiiBackendError ''Google credentials unavailable''))))"

section \<open>Inspection\<close>

record inspect_body =
  ib_text :: utext
  ib_tenant_id :: string
  ib_user_id :: string
  ib_model_id :: string
  ib_routing_method :: string
  ib_phase :: string
  ib_roles :: "string list"

record inspection =
  ir_decision :: string
  ir_redacted_text :: utext
  ir_pii_findings :: "pii_finding list"
  ir_harm_score :: rat
  ir_violations :: "string list"
  ir_audit_id :: nat

definition inspect_context :: "inspect_body \<Rightarrow> pipeline_context" where
  "inspect_context req =
     new_context (ib_text req) (ib_tenant_id req) (ib_user_id req) (ib_model_id req)
       (ib_routing_method req) (ib_phase req) (ib_roles req)"

text \<open>\<open>ctx.redacted_text or ctx.text\<close>\<close>

definition redacted_or_text :: "pipeline_context \<Rightarrow> utext" where
  "redacted_or_text ctx =
     (case pc_redacted ctx of None \<Rightarrow> pc_text ctx | Some t \<Rightarrow> (if t = [] then pc_text ctx else t))"

text \<open>The response model only admits violations that are strings.\<close>

definition inspect_answer :: "pipeline_context \<Rightarrow> nat \<Rightarrow> py_error + inspection" where
  "inspect_answer ctx audit_id =
     ebind (emap (\<lambda>v. case as_str v of None \<Rightarrow> Inl (ValueError ''InspectResponse'') | Some s \<Rightarrow> Inr s)
         (pc_violations ctx)) (\<lambda>vs.
       Inr \<lparr>ir_decision = pc_decision ctx, ir_redacted_text = redacted_or_text ctx,
            ir_pii_findings = pc_findings ctx, ir_harm_score = pc_harm_score ctx,
            ir_violations = vs, ir_audit_id = audit_id\<rparr>)"

record gov_service =
  sv_settings :: gov_settings
  sv_sentinel :: sentinel_env
  sv_pipeline :: pipeline_env
  sv_backend :: pii_backend
  sv_hmac :: "string \<Rightarrow> string \<Rightarrow> string"
  sv_hmac_key :: string
  sv_bundle :: bundle_lib

text \<open>A task that runs after the response has been sent, at some later time.\<close>

type_synonym background_task = "rat \<Rightarrow> gov_db \<Rightarrow> gov_db"

definition inspect_endpoint ::
  "gov_service \<Rightarrow> string option \<Rightarrow> inspect_body \<Rightarrow> nat \<Rightarrow> rat \<Rightarrow>
   inspection gov_answer \<times> background_task list" where
  \<comment> \<open>the token sent, the request, the fresh id and the time of receipt\<close>
  "inspect_endpoint sv token req audit_id request_received_at =
     (let s = sv_settings sv;
          ctx = run_pipeline (sv_pipeline sv) (inspect_context req);
          do_audit = (\<lambda>now. write_audit (sv_hmac sv) (sv_hmac_key sv) ctx audit_id (Some request_received_at) now);
          reply = with_token s token
            (case require_fresh_google_credentials s (sv_sentinel sv) of
               Inl e \<Rightarrow> pii_failure s e
             | Inr _ \<Rightarrow> (case inspect_answer ctx audit_id of Inl e \<Rightarrow> GovRaised e | Inr r \<Rightarrow> GovOk r))
      in (reply, case reply of GovOk r \<Rightarrow> [do_audit] | _ \<Rightarrow> []))"

section \<open>PII-only scan\<close>

text \<open>\<open>None\<close> when the scan does not return (theory \<open>PiiScan\<close>).\<close>

definition pii_scan :: "gov_service \<Rightarrow> string option \<Rightarrow> utext \<Rightarrow> pii_result gov_answer option" where
  "pii_scan sv token t =
     (let s = sv_settings sv in
      case token_accepted token (internal_token s) of
        Inl e \<Rightarrow> Some (GovRaised e)
      | Inr False \<Rightarrow> Some (GovHttp 403 ''Invalid or missing X-Internal-Token'' [])
      | Inr True \<Rightarrow>
          (case require_fresh_google_credentials s (sv_sentinel sv) of
             Inl e \<Rightarrow> Some (pii_failure s e)
           | Inr _ \<Rightarrow>
               map_option (\<lambda>res. case res of Inl e \<Rightarrow> pii_failure s e | Inr r \<Rightarrow> GovOk r)
                 (run_pii (sv_backend sv) t)))"

section \<open>Entitlements bundle and MCP audit event\<close>

definition entitlements_bundle ::
  "gov_service \<Rightarrow> string option \<Rightarrow> bool \<Rightarrow> nat list option \<Rightarrow> nat list gov_answer" where
  \<comment> \<open>the flag says that reading the file took five seconds\<close>
  "entitlements_bundle sv token timed_out file =
     with_token (sv_settings sv) token
       (if timed_out then GovHttp 504 ''Entitlements bundle build timed out'' []
        else (case read_and_build (sv_bundle sv) file of
           Inl (EntitlementsError m) \<Rightarrow> GovHttp 500 m []
         | Inl (EntitlementsRaised e) \<Rightarrow> GovRaised e
         | Inr b \<Rightarrow> GovOk b))"

definition mcp_audit_event ::
  "gov_service \<Rightarrow> string option \<Rightarrow> string \<Rightarrow> string \<Rightarrow> string \<Rightarrow> string \<Rightarrow> nat \<Rightarrow> rat \<Rightarrow> gov_db \<Rightarrow>
   nat gov_answer \<times> gov_db" where
  "mcp_audit_event sv token tenant user event_type decision audit_id now db =
     (case token_accepted token (internal_token (sv_settings sv)) of
        Inl e \<Rightarrow> (GovRaised e, db)
      | Inr False \<Rightarrow> (GovHttp 403 ''Invalid or missing X-Internal-Token'' [], db)
      | Inr True \<Rightarrow>
          (case write_mcp_audit_event (sv_hmac sv) (sv_hmac_key sv) tenant user audit_id event_type decision now db of
             (Inl e, db') \<Rightarrow> (GovRaised e, db')
           | (Inr _, db') \<Rightarrow> (GovOk audit_id, db')))"

section \<open>Health\<close>

datatype health_reply =
    HealthStarting
  | HealthDegraded503 string "string dict"
  | HealthDegraded200 nat
  | HealthOk

definition health ::
  "bool \<Rightarrow> gov_settings \<Rightarrow> sentinel_env \<Rightarrow> server \<Rightarrow> month \<Rightarrow> catalogue \<Rightarrow>
   (py_error + health_reply) \<times> catalogue" where
  "health ready s env srv current_month db =
     (if \<not> ready then (Inr HealthStarting, db)
      else (case credentials_ready env (google_adc_status_path s) (google_adc_status_max_age_seconds s) of
         Inl e \<Rightarrow> (Inl e, db)
       | Inr False \<Rightarrow>
           (Inr (HealthDegraded503 ''google credentials unavailable''
              [(''Retry-After'', py_str_int (int (google_adc_retry_after_seconds s)))]), db)
       | Inr True \<Rightarrow>
           (case ensure_write_partitions srv current_month db of
              (Inl e, db') \<Rightarrow> (Inr (HealthDegraded503 ''database unreachable'' []), db')
            | (Inr _, db') \<Rightarrow>
                (let stuck = count_stuck_partitions (utc_now env) db' in
                 (Inr (if stuck > 0 then HealthDegraded200 stuck else HealthOk), db')))))"

section \<open>Reading the audit log\<close>

text \<open>
  Row-level security: a role that does not bypass it sees the rows of the tenant its session names,
  and the service never names one.
\<close>

definition visible :: "bool \<Rightarrow> gov_db \<Rightarrow> audit_row list" where
  "visible bypass db = (if bypass then audit_log db else [])"

type_synonym export_key = "rat \<times> nat"

definition row_key :: "audit_row \<Rightarrow> export_key" where
  "row_key r = (au_created r, au_id r)"

definition sql_limit :: "int \<Rightarrow> 'a list \<Rightarrow> py_error + 'a list" where
  "sql_limit limit rows =
     (if limit < 0 then Inl (OtherException ''LIMIT must not be negative'') else Inr (take (nat limit) rows))"

record export_query =
  eq_after_created_at :: "rat option"
  eq_after_audit_id :: "nat option"
  eq_until :: "rat option"
  eq_limit :: int

definition EXPORT_DEFAULT_LIMIT :: int where "EXPORT_DEFAULT_LIMIT = 500"

text \<open>The keyset of the next page, as the \<open>Link\<close> header carries it: no limit.\<close>

definition next_query :: "audit_row \<Rightarrow> rat \<Rightarrow> export_query" where
  "next_query row until_time =
     \<lparr>eq_after_created_at = Some (au_created row), eq_after_audit_id = Some (au_id row),
      eq_until = Some until_time, eq_limit = EXPORT_DEFAULT_LIMIT\<rparr>"

definition export_candidate :: "export_query \<Rightarrow> rat \<Rightarrow> audit_row \<Rightarrow> bool" where
  "export_candidate q until_time r \<longleftrightarrow>
     (case (eq_after_created_at q, eq_after_audit_id q) of
        (Some c, Some i) \<Rightarrow> (c, i) < row_key r
      | _ \<Rightarrow> True) \<and> au_created r \<le> until_time"

definition export_rows :: "export_query \<Rightarrow> rat \<Rightarrow> audit_row list \<Rightarrow> py_error + audit_row list" where
  "export_rows q until_time rows =
     sql_limit (eq_limit q) (sort_key row_key (filter (export_candidate q until_time) rows))"

definition audit_export ::
  "gov_settings \<Rightarrow> string option \<Rightarrow> export_query \<Rightarrow> rat \<Rightarrow> audit_row list \<Rightarrow>
   (audit_row list \<times> export_query option) gov_answer" where
  "audit_export s token q now rows =
     (if eq_limit q > 1000 then GovHttp 422 ''limit'' []
      else with_token s token
        (let until_time = (case eq_until q of None \<Rightarrow> now | Some u \<Rightarrow> u) in
         case export_rows q until_time rows of
           Inl e \<Rightarrow> GovRaised e
         | Inr page \<Rightarrow>
             (if int (length page) = eq_limit q
              then (if page = [] then GovRaised (OtherException ''IndexError'')
                    else GovOk (page, Some (next_query (last page) until_time)))
              else GovOk (page, None))))"

definition audit_list :: "gov_settings \<Rightarrow> string option \<Rightarrow> string option \<Rightarrow> int \<Rightarrow> audit_row list \<Rightarrow> audit_row list gov_answer" where
  \<comment> \<open>rows created at the same time come in some order of the server's; here the order of insertion\<close>
  "audit_list s token tenant limit rows =
     (if limit > 200 then GovHttp 422 ''limit'' []
      else with_token s token
        (case sql_limit limit (sort_key (\<lambda>r. - au_created r)
           (filter (\<lambda>r. tenant = None \<or> tenant = Some (au_tenant r)) rows)) of
           Inl e \<Rightarrow> GovRaised e
         | Inr page \<Rightarrow> GovOk page))"

text \<open>A client that follows the links; \<open>logs i\<close> is the log when the i-th page is read.\<close>

fun export_all ::
  "nat \<Rightarrow> gov_settings \<Rightarrow> string option \<Rightarrow> export_query \<Rightarrow> rat \<Rightarrow> (nat \<Rightarrow> audit_row list) \<Rightarrow> audit_row list option" where
  "export_all 0 s token q now logs = None"
| "export_all (Suc n) s token q now logs =
     (case audit_export s token q now (logs 0) of
        GovOk (page, None) \<Rightarrow> Some page
      | GovOk (page, Some q') \<Rightarrow>
          map_option ((@) page) (export_all n s token q' now (\<lambda>i. logs (Suc i)))
      | _ \<Rightarrow> None)"

section \<open>Lemmas\<close>

abbreviation key_sorted :: "audit_row list \<Rightarrow> bool" where
  "key_sorted \<equiv> sorted_wrt (\<lambda>a b. row_key a < row_key b)"

lemma sort_key_strict:
  assumes "distinct (map row_key rows)"
  shows "key_sorted (sort_key row_key rows)"
proof -
  have "distinct (map row_key (sort_key row_key rows))"
    using assms by (metis distinct_map distinct_sort set_sort)
  moreover have "sorted (map row_key (sort_key row_key rows))" by simp
  ultimately have "sorted_wrt (<) (map row_key (sort_key row_key rows))"
    by (simp add: strict_sorted_iff)
  then show ?thesis by (simp add: sorted_wrt_map)
qed

definition export_until :: "export_query \<Rightarrow> rat \<Rightarrow> rat" where
  "export_until q now = (case eq_until q of None \<Rightarrow> now | Some u \<Rightarrow> u)"

text \<open>One page: its rows precede the rest of the candidates, and a full page links to exactly the rest.\<close>

lemma audit_export_page:
  assumes tok: "token_accepted token (internal_token s) = Inr True"
    and l: "1 \<le> eq_limit q" "eq_limit q \<le> 1000" and d: "distinct (map row_key rows)"
  obtains (final) page where "audit_export s token q now rows = GovOk (page, None)"
      "key_sorted page" "set page = {r \<in> set rows. export_candidate q (export_until q now) r}"
  | (more) page x where "audit_export s token q now rows =
        GovOk (page, Some (next_query x (export_until q now)))"
      "key_sorted page" "x \<in> set page" "\<forall>r\<in>set page. row_key r \<le> row_key x"
      "set page \<subseteq> {r \<in> set rows. export_candidate q (export_until q now) r}"
      "\<And>r. r \<in> set rows \<Longrightarrow> export_candidate q (export_until q now) r \<Longrightarrow> r \<notin> set page \<Longrightarrow> row_key x < row_key r"
proof -
  let ?u = "export_until q now"
  define srt where "srt = sort_key row_key (filter (export_candidate q ?u) rows)"
  define n where "n = nat (eq_limit q)"
  have s: "key_sorted srt" "set srt = {r \<in> set rows. export_candidate q ?u r}"
    using sort_key_strict [OF distinct_map_filter [OF d]] by (simp_all add: srt_def)
  have e: "audit_export s token q now rows =
      (if length (take n srt) = n then GovOk (take n srt, Some (next_query (last (take n srt)) ?u))
       else GovOk (take n srt, None))"
  proof -
    have r: "export_rows q ?u rows = Inr (take n srt)"
      using l by (simp add: export_rows_def sql_limit_def srt_def n_def)
    have n: "int (length p) = eq_limit q \<longleftrightarrow> length p = n" for p :: "audit_row list"
      using l by (auto simp: n_def)
    have ne: "length p = n \<Longrightarrow> p \<noteq> []" for p :: "audit_row list" using l by (auto simp: n_def)
    show ?thesis
      using l(2) tok ne [of "take n srt"]
      unfolding audit_export_def with_token_def export_until_def [symmetric] Let_def r
      by (simp add: n del: length_take take_eq_Nil)
  qed
  have split: "srt = take n srt @ drop n srt" by simp
  have o1: "key_sorted (take n srt)" "\<forall>a\<in>set (take n srt). \<forall>b\<in>set (drop n srt). row_key a < row_key b"
    using s(1) sorted_wrt_append [of "\<lambda>a b. row_key a < row_key b" "take n srt" "drop n srt"] by simp_all
  show thesis
  proof (cases "length (take n srt) = n")
    case True
    let ?p = "take n srt"
    have ne: "?p \<noteq> []" using True l by (auto simp: n_def)
    then have x: "last ?p \<in> set ?p" by simp
    have "key_sorted (butlast ?p @ [last ?p])" using ne o1(1) by simp
    then have b: "\<forall>r\<in>set (butlast ?p). row_key r < row_key (last ?p)"
      by (simp only: sorted_wrt_append) simp
    have le: "\<forall>r\<in>set ?p. row_key r \<le> row_key (last ?p)"
    proof
      fix r assume "r \<in> set ?p"
      then have "r \<in> set (butlast ?p @ [last ?p])" using ne by simp
      then show "row_key r \<le> row_key (last ?p)" using b by (auto intro: less_imp_le)
    qed
    have "row_key (last ?p) < row_key r"
      if "r \<in> set rows" "export_candidate q ?u r" "r \<notin> set ?p" for r
    proof -
      have "r \<in> set (take n srt @ drop n srt)" using s(2) that by simp
      then have "r \<in> set (drop n srt)" using that(3) by (simp only: set_append Un_iff) simp
      then show ?thesis using o1(2) x by blast
    qed
    moreover have "set ?p \<subseteq> {r \<in> set rows. export_candidate q ?u r}"
      using set_take_subset [of n srt] s(2) by blast
    ultimately show ?thesis using more [OF _ o1(1) x le] e True by simp
  next
    case False
    then have "take n srt = srt" by simp
    then show ?thesis using final e False s by simp
  qed
qed

text \<open>Following the links over a log that only grows, from any query.\<close>

definition growing :: "(nat \<Rightarrow> audit_row list) \<Rightarrow> bool" where
  "growing logs \<longleftrightarrow> (\<forall>i. \<exists>new. logs (Suc i) = logs i @ new)"

lemma growing_subset: "growing logs \<Longrightarrow> set (logs 0) \<subseteq> set (logs i)"
proof (induction i)
  case (Suc i)
  then obtain new where "logs (Suc i) = logs i @ new" by (auto simp: growing_def)
  then show ?case using Suc by auto
qed simp

lemma card_candidates:
  "distinct (map row_key rows) \<Longrightarrow> card {r \<in> set rows. P r} = length (filter P rows)"
  using distinct_card [of "filter P rows"] by (simp add: distinct_map)

lemma export_candidate_next:
  "export_candidate (next_query x u) u r \<longleftrightarrow> row_key x < row_key r \<and> au_created r \<le> u"
  by (simp add: export_candidate_def next_query_def row_key_def)

lemma export_all_facts:
  assumes "token_accepted token (internal_token s) = Inr True"
  shows "1 \<le> eq_limit q \<Longrightarrow> eq_limit q \<le> 1000 \<Longrightarrow> growing logs \<Longrightarrow>
    (\<And>i. distinct (map row_key (logs i))) \<Longrightarrow> u = export_until q now \<Longrightarrow>
    (\<And>i. card {r \<in> set (logs i). export_candidate q u r} < n) \<Longrightarrow>
    \<exists>out. export_all n s token q now logs = Some out \<and> key_sorted out \<and>
      {r \<in> set (logs 0). export_candidate q u r} \<subseteq> set out \<and>
      set out \<subseteq> (\<Union>i. {r \<in> set (logs i). export_candidate q u r})"
proof (induction n arbitrary: q logs)
  case 0
  then show ?case by blast
next
  case (Suc n)
  show ?case
  proof (rule audit_export_page [OF assms Suc.prems(1,2) Suc.prems(4) [of 0], where now = now])
    fix page assume p: "audit_export s token q now (logs 0) = GovOk (page, None)" "key_sorted page"
      "set page = {r \<in> set (logs 0). export_candidate q (export_until q now) r}"
    then have "set page \<subseteq> (\<Union>i. {r \<in> set (logs i). export_candidate q u r})"
      using Suc.prems(5) by auto
    then show ?thesis using p Suc.prems(5) by auto
  next
    fix page x
    assume p: "audit_export s token q now (logs 0) = GovOk (page, Some (next_query x (export_until q now)))"
      "key_sorted page" "x \<in> set page" "\<forall>r\<in>set page. row_key r \<le> row_key x"
      "set page \<subseteq> {r \<in> set (logs 0). export_candidate q (export_until q now) r}"
      "\<And>r. r \<in> set (logs 0) \<Longrightarrow> export_candidate q (export_until q now) r \<Longrightarrow> r \<notin> set page \<Longrightarrow> row_key x < row_key r"
    let ?q = "next_query x u"
    let ?logs = "\<lambda>i. logs (Suc i)"
    have u: "export_until ?q now = u" by (simp add: export_until_def next_query_def)
    have xc: "x \<in> set (logs 0)" "export_candidate q u x" using p(3,5) Suc.prems(5) by auto
    have sub: "export_candidate q u r" if "export_candidate ?q u r" for r
      using that xc(2) unfolding export_candidate_next
      by (auto simp: export_candidate_def split: option.splits)
    have "card {r \<in> set (?logs i). export_candidate ?q u r} < n" for i
    proof -
      have "x \<in> {r \<in> set (?logs i). export_candidate q u r}"
        using growing_subset [OF Suc.prems(3), of "Suc i"] xc by blast
      moreover have "x \<notin> {r \<in> set (?logs i). export_candidate ?q u r}"
        by (simp add: export_candidate_next)
      ultimately have "{r \<in> set (?logs i). export_candidate ?q u r} \<subset> {r \<in> set (?logs i). export_candidate q u r}"
        using sub by blast
      then have "card {r \<in> set (?logs i). export_candidate ?q u r} < card {r \<in> set (?logs i). export_candidate q u r}"
        by (rule psubset_card_mono [rotated]) simp
      then show ?thesis using Suc.prems(6) [of "Suc i"] by simp
    qed
    moreover have "growing ?logs" using Suc.prems(3) by (simp add: growing_def)
    ultimately obtain out where out: "export_all n s token ?q now ?logs = Some out" "key_sorted out"
      "{r \<in> set (logs (Suc 0)). export_candidate ?q u r} \<subseteq> set out"
      "set out \<subseteq> (\<Union>i. {r \<in> set (?logs i). export_candidate ?q u r})"
      using Suc.IH [of ?q ?logs] Suc.prems(4) u by (auto simp: next_query_def EXPORT_DEFAULT_LIMIT_def)
    have run: "export_all (Suc n) s token q now logs = Some (page @ out)"
      using p(1) out(1) Suc.prems(5) by simp
    have "row_key a < row_key b" if "a \<in> set page" "b \<in> set out" for a b
    proof -
      have "export_candidate ?q u b" using that(2) out(4) by blast
      then show ?thesis using p(4) that(1) by (auto simp: export_candidate_next intro: le_less_trans)
    qed
    then have srt: "key_sorted (page @ out)"
      using p(2) out(2) by (simp add: sorted_wrt_append)
    have "r \<in> set (page @ out)" if r: "r \<in> set (logs 0)" "export_candidate q u r" for r
    proof (cases "r \<in> set page")
      case False
      then have "row_key x < row_key r" using p(6) r Suc.prems(5) by blast
      then have "export_candidate ?q u r"
        using r(2) by (simp add: export_candidate_next) (simp add: export_candidate_def)
      moreover have "r \<in> set (logs (Suc 0))" using growing_subset [OF Suc.prems(3)] r(1) by blast
      ultimately show ?thesis using out(3) by auto
    qed simp
    moreover have "set (page @ out) \<subseteq> (\<Union>i. {r \<in> set (logs i). export_candidate q u r})"
      using p(5) out(4) sub Suc.prems(5) by fastforce
    ultimately show ?thesis using run srt by blast
  qed
qed

lemma pipeline_identity:
  "pc_tenant_id (run_pipeline env c) = pc_tenant_id c" "pc_user_id (run_pipeline env c) = pc_user_id c"
  "pc_text (run_pipeline env c) = pc_text c" "pc_phase (run_pipeline env c) = pc_phase c"
  by (simp_all add: run_pipeline_def harm_opa_stage_def opa_part_def harm_part_def pii_stage_def Let_def
      split: sum.splits opa_exception.splits)

lemma with_token_GovOk:
  "with_token s token k = GovOk r \<longleftrightarrow> token_accepted token (internal_token s) = Inr True \<and> k = GovOk r"
  by (auto simp: with_token_def split: sum.splits bool.splits)

lemma pii_failure_not_ok [simp]: "pii_failure s e \<noteq> GovOk r"
  by (cases e) (simp_all add: pii_backend_unavailable_def)

lemma write_audit_writes:
  assumes "partition_at db (case created of None \<Rightarrow> now | Some t \<Rightarrow> t)"
    "(i, case created of None \<Rightarrow> now | Some t \<Rightarrow> t) \<notin> (\<lambda>r. (au_id r, au_created r)) ` set (audit_log db)"
    "p = compute_pseudonym hmac key (pc_tenant_id ctx) (pc_user_id ctx) ''0''"
    "(pc_user_id ctx, pc_tenant_id ctx, 0) \<in> triple ` set (pmap db) \<or> p \<notin> ps_pseudonym ` set (pmap db)"
  shows "audit_log (write_audit hmac key ctx i created now db) =
    audit_log db @ [llm_audit_row ctx p i (case created of None \<Rightarrow> now | Some t \<Rightarrow> t)]"
  using assms
  by (auto simp: write_audit_def Let_def get_or_create_def insert_pseudonym_def insert_audit_def
      triple_def llm_audit_row_def)

lemma inspect_answer_facts:
  assumes "inspect_answer ctx i = Inr r"
  shows "ir_decision r = pc_decision ctx" "map JStr (ir_violations r) = pc_violations ctx"
    "ir_audit_id r = i" "ir_redacted_text r = redacted_or_text ctx" "ir_pii_findings r = pc_findings ctx"
proof -
  obtain vs where vs: "map (\<lambda>v. case as_str v of None \<Rightarrow> Inl (ValueError ''InspectResponse'') | Some s \<Rightarrow> Inr s)
      (pc_violations ctx) = map Inr vs"
    and r: "ir_violations r = vs" "ir_decision r = pc_decision ctx" "ir_audit_id r = i"
      "ir_redacted_text r = redacted_or_text ctx" "ir_pii_findings r = pc_findings ctx"
    using assms by (auto simp: inspect_answer_def ebind_eq_Inr emap_Inr_iff)
  from vs have "map JStr vs = pc_violations ctx"
  proof (induction vs arbitrary: ctx rule: list.induct)
    case Nil
    then show ?case by simp
  next
    case (Cons s ss)
    show ?case
    proof (cases "pc_violations ctx")
      case (Cons v vs')
      then show ?thesis using Cons.prems Cons.IH [of "ctx\<lparr>pc_violations := vs'\<rparr>"]
        by (auto simp: as_str_iff split: option.splits)
    qed (use Cons.prems in simp)
  qed
  then show "map JStr (ir_violations r) = pc_violations ctx" using r by simp
qed (use assms in \<open>auto simp: inspect_answer_def ebind_eq_Inr\<close>)

section \<open>Properties\<close>

definition caller_pseudonym :: "gov_service \<Rightarrow> inspect_body \<Rightarrow> string" where
  "caller_pseudonym sv req =
     compute_pseudonym (sv_hmac sv) (sv_hmac_key sv) (ib_tenant_id req) (ib_user_id req) ''0''"

definition can_record :: "gov_service \<Rightarrow> inspect_body \<Rightarrow> nat \<Rightarrow> rat \<Rightarrow> gov_db \<Rightarrow> bool" where
  "can_record sv req i t db \<longleftrightarrow>
     partition_at db t \<and> (i, t) \<notin> (\<lambda>a. (au_id a, au_created a)) ` set (audit_log db) \<and>
     ((ib_user_id req, ib_tenant_id req, 0) \<in> triple ` set (pmap db) \<or>
      caller_pseudonym sv req \<notin> ps_pseudonym ` set (pmap db))"

definition records_answer :: "gov_service \<Rightarrow> inspect_body \<Rightarrow> inspection \<Rightarrow> rat \<Rightarrow> audit_row \<Rightarrow> bool" where
  "records_answer sv req r t row \<longleftrightarrow>
     au_id row = ir_audit_id r \<and> au_created row = t \<and> au_user row = caller_pseudonym sv req \<and>
     au_tenant row = ib_tenant_id req \<and> au_decision row = ir_decision r \<and>
     au_violations row = map JStr (ir_violations r) \<and> au_findings row = ir_pii_findings r"

text \<open>
  C25. Every inspection that is answered is recorded: the internal token was right, the Google
  credentials were fresh where that backend is used, and exactly one audit task is left behind, which
  at any later time appends one row with the answered decision, violations, findings and
  id under the pseudonym of the caller, given a partition for the time of receipt, an unused id and
  a pseudonym that is not held by an erased entry. A refused or failed inspection leaves no task.
\<close>

theorem inspection_recorded:
  assumes "inspect_endpoint sv token req i t = (reply, tasks)"
  shows "case reply of
      GovOk r \<Rightarrow>
        token = Some (internal_token (sv_settings sv)) \<and> internal_token (sv_settings sv) \<noteq> [] \<and>
        require_fresh_google_credentials (sv_settings sv) (sv_sentinel sv) = Inr () \<and>
        (\<exists>task. tasks = [task] \<and> (\<forall>now db. can_record sv req i t db \<longrightarrow>
          (\<exists>row. audit_log (task now db) = audit_log db @ [row] \<and> records_answer sv req r t row)))
    | _ \<Rightarrow> tasks = []"
proof (cases reply)
  case (GovOk r)
  let ?ctx = "run_pipeline (sv_pipeline sv) (inspect_context req)"
  let ?task = "\<lambda>now. write_audit (sv_hmac sv) (sv_hmac_key sv) ?ctx i (Some t) now"
  let ?k = "case require_fresh_google_credentials (sv_settings sv) (sv_sentinel sv) of
      Inl e \<Rightarrow> pii_failure (sv_settings sv) e
    | Inr _ \<Rightarrow> (case inspect_answer ?ctx i of Inl e \<Rightarrow> GovRaised e | Inr r \<Rightarrow> GovOk r)"
  have "with_token (sv_settings sv) token ?k = GovOk r"
    and tasks: "tasks = [?task]"
    using assms GovOk unfolding inspect_endpoint_def Let_def by auto
  then have g: "token_accepted token (internal_token (sv_settings sv)) = Inr True"
    "require_fresh_google_credentials (sv_settings sv) (sv_sentinel sv) = Inr ()"
    "inspect_answer ?ctx i = Inr r"
    by (auto simp: with_token_GovOk split: sum.splits)
  note a = inspect_answer_facts [OF g(3)]
  have c: "pc_tenant_id ?ctx = ib_tenant_id req" "pc_user_id ?ctx = ib_user_id req"
    by (simp_all add: pipeline_identity inspect_context_def new_context_def)
  have "\<exists>row. audit_log (?task now db) = audit_log db @ [row] \<and> records_answer sv req r t row"
    if "can_record sv req i t db" for now db
    using write_audit_writes [of db now "Some t" i "caller_pseudonym sv req" "sv_hmac sv" "sv_hmac_key sv" ?ctx]
      that a c
    by (simp add: llm_audit_row_def can_record_def records_answer_def caller_pseudonym_def)
  then show ?thesis using GovOk tasks g(1,2) by (simp add: token_accepted_iff)
qed (use assms in \<open>auto simp: inspect_endpoint_def Let_def\<close>)

definition demo_gov_settings :: gov_settings where
  "demo_gov_settings = \<lparr>pii_backend_setting = ''presidio'', google_cloud_project = None,
     google_dlp_location = ''global'', google_dlp_api_endpoint = None, google_dlp_info_types = [],
     google_adc_status_path = None, google_adc_status_max_age_seconds = 60,
     google_adc_retry_after_seconds = 30, internal_token = ''tok''\<rparr>"

definition demo_service :: gov_service where
  "demo_service = \<lparr>sv_settings = demo_gov_settings,
     sv_sentinel = \<lparr>status_file = (\<lambda>p. None), from_iso = (\<lambda>t. None), utc_now = 0\<rparr>,
     sv_pipeline = \<lparr>scan_pii = (\<lambda>t. Inl (PiiBackendError ''down'')),
       models = \<lparr>injection_pipe = (\<lambda>t. Inl TypeError), topics_pipe = (\<lambda>t ts. Inl TypeError)\<rparr>,
       opa_server = (\<lambda>r. OpaTimeout)\<rparr>,
     sv_backend = \<lparr>backend_name = ''presidio'', google_settings = None, google_client = None,
       presidio_engine = None\<rparr>, sv_hmac = (\<lambda>k m. m), sv_hmac_key = ''k'',
     sv_bundle = \<lparr>bl_loads = (\<lambda>t. None), bl_dumps_sorted = (\<lambda>v. []), bl_nfc = (\<lambda>t. t),
       bl_sha256 = (\<lambda>b. []), bl_decode = (\<lambda>b. None), bl_pack = (\<lambda>ms. [])\<rparr>\<rparr>"

definition demo_inspect_body :: inspect_body where
  "demo_inspect_body = \<lparr>ib_text = [104, 105], ib_tenant_id = ''t'', ib_user_id = ''ann'', ib_model_id = ''m'',
     ib_routing_method = ''openai'', ib_phase = ''pre_call'', ib_roles = []\<rparr>"

lemma inspection_recorded_witness:
  "\<exists>task row. snd (inspect_endpoint demo_service (Some ''tok'') demo_inspect_body 7 5) = [task] \<and>
     audit_log (task 6 empty_db) = [row] \<and> au_id row = 7 \<and> au_decision row = ''block''"
proof -
  obtain reply tasks where g: "inspect_endpoint demo_service (Some ''tok'') demo_inspect_body 7 5 = (reply, tasks)"
    by force
  have k: "token_accepted (Some ''tok'') ''tok'' = Inr True" by (simp add: token_accepted_iff is_ascii_def)
  have r: "reply = GovOk \<lparr>ir_decision = ''block'', ir_redacted_text = [104, 105], ir_pii_findings = [],
      ir_harm_score = 0, ir_violations = [''pii:scan_error'', ''opa:unavailable''], ir_audit_id = 7\<rparr>"
    using g k
    by (simp add: inspect_endpoint_def demo_service_def demo_gov_settings_def demo_inspect_body_def with_token_def Let_def
        require_fresh_google_credentials_def inspect_context_def new_context_def run_pipeline_def
        pii_stage_def harm_opa_stage_def opa_check_def harm_scan_def harm_part_def opa_part_def
        block_def inspect_answer_def redacted_or_text_def text_to_check_def)
  have "can_record demo_service demo_inspect_body 7 5 empty_db" by (simp add: can_record_def empty_db_def)
  then obtain task row where "tasks = [task]" "audit_log (task 6 empty_db) = audit_log empty_db @ [row]"
    "au_id row = 7" "au_decision row = ''block''"
    using inspection_recorded [OF g] unfolding r by (fastforce simp: records_answer_def)
  then show ?thesis using g by (simp add: empty_db_def)
qed

text \<open>
  C38. Following the \<open>Link\<close> headers exports the log completely: starting from any query with a limit
  from 1 to 1000, over a log that only grows and stays below some size, the client ends
  after finitely many pages, with every row that was there at the start and matches the query, each
  exactly once and in order of creation time and id, and with no row that does not match.
\<close>

theorem audit_export_complete:
  assumes "token_accepted token (internal_token s) = Inr True" "1 \<le> eq_limit q" "eq_limit q \<le> 1000"
    and "growing logs" "\<And>i. distinct (map row_key (logs i))" "\<And>i. length (logs i) < n"
  shows "\<exists>out. export_all n s token q now logs = Some out \<and> key_sorted out \<and>
    {r \<in> set (logs 0). export_candidate q (export_until q now) r} \<subseteq> set out \<and>
    set out \<subseteq> (\<Union>i. {r \<in> set (logs i). export_candidate q (export_until q now) r})"
proof (rule export_all_facts [OF assms(1-5) refl])
  fix i
  have "card {r \<in> set (logs i). export_candidate q (export_until q now) r} \<le> length (logs i)"
    unfolding card_candidates [OF assms(5)] by (rule length_filter_le)
  then show "card {r \<in> set (logs i). export_candidate q (export_until q now) r} < n"
    using assms(6) [of i] by simp
qed

definition demo_audit_row :: "nat \<Rightarrow> string \<Rightarrow> audit_row" where
  "demo_audit_row i tenant = \<lparr>au_id = i, au_created = of_nat i, au_user = ''p'', au_tenant = tenant,
     au_model = None, au_routing = ''mcp'', au_decision = ''allow'', au_findings = [], au_harm = 0,
     au_violations = [], au_phase = ''mcp_tool_call''\<rparr>"

definition demo_query :: export_query where
  "demo_query = \<lparr>eq_after_created_at = None, eq_after_audit_id = None, eq_until = Some 10, eq_limit = 1\<rparr>"

lemma audit_export_complete_witness:
  "\<exists>out. export_all 3 demo_gov_settings (Some ''tok'') demo_query 9
     (\<lambda>i. [demo_audit_row 1 ''a'', demo_audit_row 2 ''b'']) = Some out \<and>
     {demo_audit_row 1 ''a'', demo_audit_row 2 ''b''} \<subseteq> set out"
proof -
  let ?logs = "\<lambda>i::nat. [demo_audit_row 1 ''a'', demo_audit_row 2 ''b'']"
  have "\<exists>out. export_all 3 demo_gov_settings (Some ''tok'') demo_query 9 ?logs = Some out \<and> key_sorted out \<and>
    {r \<in> set (?logs 0). export_candidate demo_query (export_until demo_query 9) r} \<subseteq> set out \<and>
    set out \<subseteq> (\<Union>i. {r \<in> set (?logs i). export_candidate demo_query (export_until demo_query 9) r})"
    by (rule audit_export_complete)
      (auto simp: demo_gov_settings_def demo_query_def demo_audit_row_def growing_def row_key_def
        token_accepted_iff is_ascii_def)
  moreover have "{r \<in> set (?logs 0). export_candidate demo_query (export_until demo_query 9) r} =
      {demo_audit_row 1 ''a'', demo_audit_row 2 ''b''}"
    by (auto simp: export_candidate_def demo_query_def export_until_def demo_audit_row_def)
  ultimately show ?thesis by auto
qed

end
