(* ===== verification/GatewayApi.thy ===== *)
theory GatewayApi imports ClientCodecs GovApi begin

text \<open>
  The gateway's endpoints (\<open>proxy/app/main.py\<close>): authentication, decoding, the pipeline and encoding for the three
  inference protocols; token counting, model discovery, \<open>/v1/me\<close>; and the endpoints that pass a request on to the
  governance service or the tool-call proxy. FastAPI runs the authentication dependency before the handler.
\<close>

section \<open>Requests, services and state\<close>

record api_request =
  aq_authorization :: "string option"
  aq_x_api_key :: "string option"
  aq_headers :: "string dict"
  aq_query :: "string dict"
  aq_body :: bytes

record service_call =
  sc_method :: string
  sc_url :: string
  sc_params :: json_object
  sc_token :: string             \<comment> \<open>\<open>X-Internal-Token\<close>\<close>
  sc_json :: "json option"

record service_response =
  sv_status :: nat
  sv_content_type :: "string option"
  sv_content :: bytes
  sv_chunks :: "bytes list"      \<comment> \<open>\<open>aiter_bytes()\<close>\<close>

datatype service_reply =
    ServiceTimeout
  | ServiceRequestError
  | ServiceReply service_response

record api_env =
  ae_gateway :: gw_env
  ae_auth :: auth_lib
  ae_codec :: codec_env
  ae_body :: "bytes \<Rightarrow> json option"   \<comment> \<open>\<open>request.json()\<close>; \<open>None\<close>: invalid JSON or text\<close>
  ae_chat :: "json_object \<Rightarrow> chat_request validated"
  ae_responses :: "json_object \<Rightarrow> r_request validated"
  ae_messages :: "json_object \<Rightarrow> a_request validated"
  ae_count :: "json_object \<Rightarrow> count_tokens_request validated"
  ae_service :: "service_call \<Rightarrow> service_reply"
  ae_governance_url :: string
  ae_mcpproxy_url :: string
  ae_internal_token :: string
  ae_ready :: bool

record api_state =
  ps_auth :: auth_state
  ps_gateway :: gw_state
  ps_me :: "json \<times> json \<Rightarrow> json option"   \<comment> \<open>\<open>_me_cache\<close>\<close>
  ps_calls :: "service_call list"        \<comment> \<open>what the services were sent, in order\<close>

datatype api_reply = ApiResponse http_response | ApiJson json

section \<open>The payloads of the other protocols\<close>

definition responses_ops :: "r_payload payload_ops" where
  "responses_ops = \<lparr>po_protocol = OpenaiResponses, po_native_providers = r_native_providers,
     po_model = (\<lambda>p. rq_model (rp_request p)), po_stream = (\<lambda>p. rq_streams (rp_request p)),
     po_governance_text = r_governance_text, po_with_redacted_text = r_with_redacted_text,
     po_native_body = (\<lambda>p. Inr (r_native_body p)), po_to_chat_body = r_to_chat_body\<rparr>"

definition messages_ops :: "(json \<Rightarrow> string) \<Rightarrow> a_payload payload_ops" where
  "messages_ops dumps = \<lparr>po_protocol = AnthropicMessages, po_native_providers = a_native_providers,
     po_model = (\<lambda>p. arq_model (ap_request p)), po_stream = (\<lambda>p. arq_stream (ap_request p)),
     po_governance_text = a_governance_text, po_with_redacted_text = a_with_redacted_text,
     po_native_body = (\<lambda>p. Inr (a_native_body p)), po_to_chat_body = a_to_chat_body dumps\<rparr>"

section \<open>Inference\<close>

definition parse_json_body :: "(bytes \<Rightarrow> json option) \<Rightarrow> bytes \<Rightarrow> gateway_error + json_object" where
  "parse_json_body loads raw =
     (case loads raw of
        None \<Rightarrow> Inl (http_error 400 ''invalid_request'' ''Request body is not valid JSON'')
      | Some (JObj d) \<Rightarrow> Inr d
      | Some _ \<Rightarrow> Inl (http_error 422 ''invalid_request'' ''Request body must be a JSON object''))"

text \<open>What the three handlers share, after authentication.\<close>

definition inference ::
  "api_env \<Rightarrow> 'p payload_ops \<Rightarrow> (json_object \<Rightarrow> gateway_error + 'p) \<Rightarrow> (pipeline_result \<Rightarrow> gateway_error + http_response) \<Rightarrow>
   caller_context \<Rightarrow> api_request \<Rightarrow> gw_state \<Rightarrow> (gateway_error + api_reply) \<times> gw_state" where
  "inference env ops decode encode caller req s =
     (case ebind (parse_json_body (ae_body env) (aq_body req)) decode of
        Inl e \<Rightarrow> (Inl e, s)
      | Inr payload \<Rightarrow>
          (case run_gateway_pipeline (ae_gateway env) ops caller (aq_headers req) payload s of
             (Inl e, s') \<Rightarrow> (Inl e, s')
           | (Inr (response, extra, protocol), s') \<Rightarrow>
               (ebind (encode \<lparr>pl_response = response, pl_extra_headers = extra, pl_response_protocol = protocol,
                         pl_client_model = po_model ops payload\<rparr>) (\<lambda>r. Inr (ApiResponse r)), s')))"

definition authenticated ::
  "(auth_state \<Rightarrow> (gateway_error + caller_context) \<times> auth_state) \<Rightarrow>
   (caller_context \<Rightarrow> gw_state \<Rightarrow> (gateway_error + api_reply) \<times> gw_state) \<Rightarrow> api_state \<Rightarrow>
   (gateway_error + api_reply) \<times> api_state" where
  "authenticated auth handler s =
     (case auth (ps_auth s) of
        (Inl e, a) \<Rightarrow> (Inl e, s\<lparr>ps_auth := a\<rparr>)
      | (Inr caller, a) \<Rightarrow>
          (case handler caller (ps_gateway s) of (r, g) \<Rightarrow> (r, s\<lparr>ps_auth := a, ps_gateway := g\<rparr>)))"

definition chat_completions :: "api_env \<Rightarrow> api_request \<Rightarrow> api_state \<Rightarrow> (gateway_error + api_reply) \<times> api_state" where
  "chat_completions env req =
     authenticated (get_caller (ae_auth env) (aq_authorization req)) (\<lambda>caller.
       inference env chat_ops (chat_decode_payload (ae_chat env)) chat_encode_response caller req)"

definition responses_endpoint :: "api_env \<Rightarrow> api_request \<Rightarrow> api_state \<Rightarrow> (gateway_error + api_reply) \<times> api_state" where
  "responses_endpoint env req =
     authenticated (get_responses_caller (ae_auth env) (aq_authorization req)) (\<lambda>caller.
       inference env responses_ops (responses_decode_payload (ae_responses env))
         (responses_encode_response (ae_codec env)) caller req)"

definition messages_endpoint :: "api_env \<Rightarrow> api_request \<Rightarrow> api_state \<Rightarrow> (gateway_error + api_reply) \<times> api_state" where
  "messages_endpoint env req =
     authenticated (get_caller_compat (ae_auth env) (aq_authorization req) (aq_x_api_key req)) (\<lambda>caller.
       inference env (messages_ops (ad_dumps (ce_adapter (ae_codec env)))) (messages_decode_payload (ae_messages env))
         (messages_encode_response (ae_codec env)) caller req)"

section \<open>Tokens and models\<close>

definition gateway_health :: "api_env \<Rightarrow> api_reply" where
  "gateway_health env =
     (if \<not> ae_ready env then ApiResponse \<lparr>rs_status = 503, rs_headers = [], rs_body = [], rs_stream = None\<rparr>
      else ApiJson (JObj [(''status'', JStr ''ok'')]))"

definition count_tokens_checked ::
  "api_env \<Rightarrow> caller_context \<Rightarrow> api_request \<Rightarrow> count_tokens_request \<Rightarrow> tenant_info \<Rightarrow> gateway_error + api_reply" where
  "count_tokens_checked env caller req r tenant =
     ebind (enforce_allowed_model (ctr_model r) (ti_allowed_models tenant)) (\<lambda>_.
     ebind (raised (resolve_provider (ctr_model r) (lower_headers (aq_headers req)) (cc_roles caller)
              (ti_default_provider tenant) (ge_models_config (ae_gateway env)))) (\<lambda>(provider, routing_method).
       if routing_method = ''model_not_found'' \<or> routing_method = ''override_denied''
       then Inl (http_error 400 routing_method (''Cannot route model: '' @ ctr_model r))
       else ebind (count_tokens_encode_response (ad_dumps (ce_adapter (ae_codec env))) r) (\<lambda>v. Inr (ApiJson v))))"

definition count_tokens :: "api_env \<Rightarrow> api_request \<Rightarrow> api_state \<Rightarrow> (gateway_error + api_reply) \<times> api_state" where
  "count_tokens env req =
     authenticated (get_caller_compat (ae_auth env) (aq_authorization req) (aq_x_api_key req)) (\<lambda>caller g.
       case ebind (parse_json_body (ae_body env) (aq_body req)) (count_tokens_decode_request (ae_count env)) of
         Inl e \<Rightarrow> (Inl e, g)
       | Inr r \<Rightarrow>
           (case get_tenant_info (ae_gateway env) (cc_tenant_id caller) g of
              (ti, g') \<Rightarrow> (ebind ti (count_tokens_checked env caller req r), g')))"

text \<open>An entry of the catalogue; a missing \<open>id\<close> or \<open>provider\<close> is a \<open>KeyError\<close>, an unhashable id a \<open>TypeError\<close>.\<close>

definition model_listing :: "json list \<Rightarrow> json_object \<Rightarrow> py_error + json list" where
  "model_listing allowed m =
     (case map_of m ''id'' of
        None \<Rightarrow> Inl KeyError
      | Some i \<Rightarrow>
          (if allowed \<noteq> [] \<and> \<not> hashable i then Inl TypeError
           else if allowed \<noteq> [] \<and> i \<notin> set allowed then Inr []
           else (case map_of m ''provider'' of
                   None \<Rightarrow> Inl KeyError
                 | Some p \<Rightarrow> Inr [JObj [(''id'', i), (''object'', JStr ''model''), (''created'', JInt 0), (''owned_by'', p)]])))"

definition model_catalogue :: "json_object list \<Rightarrow> json list \<Rightarrow> string option \<Rightarrow> py_error + json" where
  "model_catalogue catalogue allowed client_version =
     (if \<not> list_all hashable allowed then Inl TypeError
      else ebind (emap (model_listing allowed) catalogue) (\<lambda>entries.
        Inr (if client_version \<noteq> None then JObj [(''models'', JList [])]
             else JObj [(''object'', JStr ''list''), (''data'', JList (concat entries))])))"

definition list_models :: "api_env \<Rightarrow> api_request \<Rightarrow> api_state \<Rightarrow> (gateway_error + api_reply) \<times> api_state" where
  "list_models env req =
     authenticated (get_caller_compat (ae_auth env) (aq_authorization req) (aq_x_api_key req)) (\<lambda>caller g.
       case get_tenant_info (ae_gateway env) (cc_tenant_id caller) g of
         (ti, g') \<Rightarrow>
           (ebind ti (\<lambda>tenant. ebind (raised (model_catalogue (ge_models_config (ae_gateway env)) (ti_allowed_models tenant)
              (map_of (rev (aq_query req)) ''client_version''))) (\<lambda>v. Inr (ApiJson v))), g'))"

section \<open>The caller\<close>

definition me_report :: "gw_env \<Rightarrow> caller_context \<Rightarrow> tenant_info \<Rightarrow> json" where
  "me_report env caller tenant =
     JObj [(''user_id'', cc_user_id caller), (''tenant_id'', cc_tenant_id caller), (''roles'', cc_roles caller),
       (''allowed_models'', JList (ti_allowed_models tenant)),
       (''rate_limit'', JObj [(''requests_per_minute'', JInt (ti_rate_limit tenant)), (''resets_at'', JStr (ge_reset_at env))]),
       (''pii_policy'', JObj [(''notification'', JStr (ti_notification tenant))])]"

definition me_for :: "api_env \<Rightarrow> caller_context \<Rightarrow> api_state \<Rightarrow> (gateway_error + api_reply) \<times> api_state" where
  "me_for env caller s =
     (let key = (cc_tenant_id caller, cc_user_id caller) in
      if \<not> hashable (fst key) \<or> \<not> hashable (snd key) then (Inl (Unhandled TypeError), s)
      else case ps_me s key of
        Some v \<Rightarrow> (Inr (ApiJson v), s)
      | None \<Rightarrow>
          (case get_tenant_info (ae_gateway env) (cc_tenant_id caller) (ps_gateway s) of
             (Inl e, g) \<Rightarrow> (Inl e, s\<lparr>ps_gateway := g\<rparr>)
           | (Inr tenant, g) \<Rightarrow>
               (let v = me_report (ae_gateway env) caller tenant in
                (Inr (ApiJson v), s\<lparr>ps_gateway := g, ps_me := (ps_me s)(key \<mapsto> v)\<rparr>))))"

definition me :: "api_env \<Rightarrow> api_request \<Rightarrow> api_state \<Rightarrow> (gateway_error + api_reply) \<times> api_state" where
  "me env req s =
     (case get_caller (ae_auth env) (aq_authorization req) (ps_auth s) of
        (Inl e, a) \<Rightarrow> (Inl e, s\<lparr>ps_auth := a\<rparr>)
      | (Inr caller, a) \<Rightarrow> me_for env caller (s\<lparr>ps_auth := a\<rparr>))"

section \<open>Administration and tools\<close>

definition require_admin :: "caller_context \<Rightarrow> gateway_error + unit" where
  "require_admin caller =
     ebind (raised (py_in ''admin'' (cc_roles caller))) (\<lambda>admin.
       if admin then Inr () else Inl (http_error 403 ''forbidden'' ''Admin role required''))"

definition with_caller ::
  "api_env \<Rightarrow> api_request \<Rightarrow> (caller_context \<Rightarrow> api_state \<Rightarrow> (gateway_error + api_reply) \<times> api_state) \<Rightarrow> api_state \<Rightarrow>
   (gateway_error + api_reply) \<times> api_state" where
  "with_caller env req handler s =
     (case get_caller (ae_auth env) (aq_authorization req) (ps_auth s) of
        (Inl e, a) \<Rightarrow> (Inl e, s\<lparr>ps_auth := a\<rparr>)
      | (Inr caller, a) \<Rightarrow> handler caller (s\<lparr>ps_auth := a\<rparr>))"

definition call_service :: "api_env \<Rightarrow> service_call \<Rightarrow> api_state \<Rightarrow> service_reply \<times> api_state" where
  "call_service env call s = (ae_service env call, s\<lparr>ps_calls := ps_calls s @ [call]\<rparr>)"

definition relayed :: "api_env \<Rightarrow> service_response \<Rightarrow> api_reply" where
  "relayed env r =
     ApiResponse (plain_response (ce_adapter (ae_codec env)) (sv_status r)
       (Some (case sv_content_type r of None \<Rightarrow> ''application/json'' | Some t \<Rightarrow> t)) [] (sv_content r))"

definition not_answered :: "service_reply \<Rightarrow> gateway_error" where
  "not_answered r = Unhandled (OtherException (case r of ServiceTimeout \<Rightarrow> ''httpx.TimeoutException'' | _ \<Rightarrow> ''httpx.RequestError''))"

text \<open>The tenant is the caller's; only \<open>limit\<close> passes through.\<close>

definition tenant_params :: "caller_context \<Rightarrow> api_request \<Rightarrow> json_object" where
  "tenant_params caller req =
     [(''tenant_id'', cc_tenant_id caller)] @
     (case map_of (rev (aq_query req)) ''limit'' of None \<Rightarrow> [] | Some l \<Rightarrow> [(''limit'', JStr l)])"

definition governance_call :: "api_env \<Rightarrow> string \<Rightarrow> string \<Rightarrow> json_object \<Rightarrow> service_call" where
  "governance_call env meth path params =
     \<lparr>sc_method = meth, sc_url = ae_governance_url env @ path, sc_params = params,
      sc_token = ae_internal_token env, sc_json = None\<rparr>"

definition relay_governance ::
  "api_env \<Rightarrow> caller_context \<Rightarrow> service_call \<Rightarrow> api_state \<Rightarrow> (gateway_error + api_reply) \<times> api_state" where
  "relay_governance env caller call s =
     (case require_admin caller of
        Inl e \<Rightarrow> (Inl e, s)
      | Inr _ \<Rightarrow>
          (case call_service env call s of
             (ServiceReply r, s') \<Rightarrow> (Inr (relayed env r), s')
           | (failure, s') \<Rightarrow> (Inl (not_answered failure), s')))"

definition delete_user :: "api_env \<Rightarrow> string \<Rightarrow> api_request \<Rightarrow> api_state \<Rightarrow> (gateway_error + api_reply) \<times> api_state" where
  "delete_user env user_id req =
     with_caller env req (\<lambda>caller. relay_governance env caller
       (governance_call env ''DELETE'' (''/v1/users/'' @ user_id) [(''tenant_id'', cc_tenant_id caller)]))"

definition audit :: "api_env \<Rightarrow> api_request \<Rightarrow> api_state \<Rightarrow> (gateway_error + api_reply) \<times> api_state" where
  "audit env req =
     with_caller env req (\<lambda>caller. relay_governance env caller
       (governance_call env ''GET'' ''/v1/audit'' (tenant_params caller req)))"

text \<open>
  The export is streamed: governance is asked when the body is read, its status is not looked at, and a failure
  breaks the body off.
\<close>

definition export_stream :: "api_env \<Rightarrow> api_request \<Rightarrow> api_state \<Rightarrow> (gateway_error + api_reply) \<times> api_state" where
  "export_stream env req =
     with_caller env req (\<lambda>caller s.
       case require_admin caller of
         Inl e \<Rightarrow> (Inl e, s)
       | Inr _ \<Rightarrow>
           (case call_service env (governance_call env ''GET'' ''/v1/audit/export'' (tenant_params caller req)) s of
              (reply, s') \<Rightarrow>
                (Inr (ApiResponse \<lparr>rs_status = 200,
                   rs_headers = ad_headers (ce_adapter (ae_codec env)) (Some ''application/octet-stream'') [], rs_body = [],
                   rs_stream = Some (case reply of ServiceReply r \<Rightarrow> map BytesChunk (sv_chunks r) | _ \<Rightarrow> [])\<rparr>), s')))"

definition tool_outbound :: "caller_context \<Rightarrow> string \<Rightarrow> json_object \<Rightarrow> json_object \<Rightarrow> json" where
  "tool_outbound caller server body tool =
     JObj [(''tool'', JObj (dict_set ''server'' (JStr server) tool)),
       (''context'', jget_or body ''context'' (JObj [])),
       (''principal'', JObj [(''user_id'', cc_user_id caller), (''tenant_id'', cc_tenant_id caller), (''roles'', cc_roles caller)])]"

definition tool_call :: "api_env \<Rightarrow> caller_context \<Rightarrow> string \<Rightarrow> api_request \<Rightarrow> gateway_error + service_call" where
  "tool_call env caller server req =
     ebind (enforce_mcp_scope caller server) (\<lambda>_.
     ebind (enforce_act_claim (ge_settings (ae_gateway env)) caller) (\<lambda>_.
     ebind (parse_json_body (ae_body env) (aq_body req)) (\<lambda>body.
       case jget_or body ''tool'' (JObj []) of
         JObj tool \<Rightarrow>
           Inr \<lparr>sc_method = ''POST'', sc_url = ae_mcpproxy_url env @ ''/v1/mcp/call'', sc_params = [],
             sc_token = ae_internal_token env, sc_json = Some (tool_outbound caller server body tool)\<rparr>
       | _ \<Rightarrow> Inl (http_error 400 ''invalid_request'' (''Request body'' @ [CHR 39] @ ''s '' @ [CHR 39] @ ''tool'' @ [CHR 39] @ '' must be a JSON object'')))))"

definition mcp_call_endpoint :: "api_env \<Rightarrow> string \<Rightarrow> api_request \<Rightarrow> api_state \<Rightarrow> (gateway_error + api_reply) \<times> api_state" where
  "mcp_call_endpoint env server req =
     with_caller env req (\<lambda>caller s.
       case tool_call env caller server req of
         Inl e \<Rightarrow> (Inl e, s)
       | Inr call \<Rightarrow>
           (case call_service env call s of
              (ServiceTimeout, s') \<Rightarrow> (Inl (http_error 504 ''mcpproxy_timeout'' ''MCP proxy service timed out''), s')
            | (ServiceRequestError, s') \<Rightarrow> (Inl (http_error 502 ''mcpproxy_unavailable'' ''MCP proxy service unavailable''), s')
            | (ServiceReply r, s') \<Rightarrow> (Inr (relayed env r), s')))"

end
