(* ===== verification/GatewayEdge.thy ===== *)
theory GatewayEdge imports GatewayApi begin

text \<open>
  What the endpoints guarantee: nothing is sent on without an authenticated caller and a valid body, administration is
  confined to the caller's tenant, a tool call to the scope it was authorised for; and where clients can tell that a
  provider speaks another protocol.
\<close>

section \<open>Inference\<close>

lemma parse_json_body_Inr: "parse_json_body loads raw = Inr d \<longleftrightarrow> loads raw = Some (JObj d)"
  by (auto simp: parse_json_body_def split: option.splits json.splits)

lemma inference_facts:
  assumes "authenticated auth (\<lambda>caller. inference env ops decode encode caller req) s = (res, s')"
    and "gs_effects (ps_gateway s') = gs_effects (ps_gateway s) @ sent" "EffProvider call \<in> set sent"
  obtains caller body payload meth provider ireq d where "fst (auth (ps_auth s)) = Inr caller"
    "ae_body env (aq_body req) = Some (JObj body)" "decode body = Inr payload"
    "governed_dispatch (ae_gateway env) ops caller (lower_headers (aq_headers req)) provider meth payload ireq d"
    "sent = [EffInspect ireq, EffProvider call]" "call = dr_call d"
proof (cases "auth (ps_auth s)")
  case (Pair r a)
  have ne: "gs_effects (ps_gateway s') \<noteq> gs_effects (ps_gateway s)" using assms(2,3) by auto
  then obtain caller where c: "r = Inr caller"
    using assms(1) Pair by (cases r) (auto simp: authenticated_def)
  obtain res' g where i: "inference env ops decode encode caller req (ps_gateway s) = (res', g)" by force
  then have g: "ps_gateway s' = g" using assms(1) Pair c by (auto simp: authenticated_def)
  then obtain body payload where b: "ae_body env (aq_body req) = Some (JObj body)" "decode body = Inr payload"
    using i ne by (auto simp: inference_def ebind_eq_Inr parse_json_body_Inr split: sum.splits)
  obtain r' g' where p: "run_gateway_pipeline (ae_gateway env) ops caller (aq_headers req) payload (ps_gateway s) = (r', g')" by force
  have "g' = g" using i b p by (auto simp: inference_def parse_json_body_def split: sum.splits)
  then show thesis
    using gateway_provider_facts [OF p, of sent call] assms(2,3) g Pair c b that by auto
qed

lemma governed_inspection:
  "governed_dispatch env ops caller lower provider meth payload ireq d \<Longrightarrow>
   iq_text ireq = po_governance_text ops payload \<and> iq_tenant_id ireq = cc_tenant_id caller \<and>
   iq_user_id ireq = cc_user_id caller \<and>
   (\<exists>resp. gov_inspect (ge_governance env ireq) = Inr resp \<and> gr_decision resp \<noteq> JStr ''block'')"
  by (auto simp: governed_dispatch_def inspection_request_def)

text \<open>What each protocol's valid body is inspected for.\<close>

definition inspected_text :: "api_env \<Rightarrow> json_object \<Rightarrow> string \<Rightarrow> bool" where
  "inspected_text env body t \<longleftrightarrow>
     (\<exists>r. ae_chat env body = Valid r \<and> t = chat_governance_text \<lparr>cp_request = r\<rparr>) \<or>
     (\<exists>r. ae_responses env body = Valid r \<and> t = r_governance_text \<lparr>rp_request = r\<rparr>) \<or>
     (\<exists>r. ae_messages env body = Valid r \<and> t = a_governance_text \<lparr>ap_request = r\<rparr>)"

definition inspected_for :: "api_env \<Rightarrow> api_request \<Rightarrow> caller_context \<Rightarrow> inspect_request \<Rightarrow> bool" where
  "inspected_for env req caller ireq \<longleftrightarrow>
     (\<exists>body. ae_body env (aq_body req) = Some (JObj body) \<and> inspected_text env body (iq_text ireq)) \<and>
     iq_tenant_id ireq = cc_tenant_id caller \<and> iq_user_id ireq = cc_user_id caller \<and>
     (\<exists>resp. gov_inspect (ge_governance (ae_gateway env) ireq) = Inr resp \<and> gr_decision resp \<noteq> JStr ''block'')"

lemma inference_inspected:
  assumes "authenticated auth (\<lambda>caller. inference env ops decode encode caller req) s = (res, s')"
    and "gs_effects (ps_gateway s') = gs_effects (ps_gateway s) @ sent" "EffProvider call \<in> set sent"
    and "\<And>body payload. decode body = Inr payload \<Longrightarrow> inspected_text env body (po_governance_text ops payload)"
  shows "\<exists>caller ireq. fst (auth (ps_auth s)) = Inr caller \<and> inspected_for env req caller ireq \<and>
    sent = [EffInspect ireq, EffProvider call]"
  using assms(1-3)
proof (cases rule: inference_facts)
  case (1 caller body payload meth provider ireq d)
  then show ?thesis using governed_inspection [OF 1(4)] assms(4) [OF 1(3)] by (auto simp: inspected_for_def)
qed

lemma decoded_texts:
  "chat_decode_payload (ae_chat env) body = Inr p \<Longrightarrow> inspected_text env body (chat_governance_text p)"
  "responses_decode_payload (ae_responses env) body = Inr q \<Longrightarrow> inspected_text env body (r_governance_text q)"
  "messages_decode_payload (ae_messages env) body = Inr r \<Longrightarrow> inspected_text env body (a_governance_text r)"
  by (auto simp: chat_decode_payload_def responses_decode_payload_def messages_decode_payload_def inspected_text_def
      http_error_with_def http_error_def split: validated.splits)

section \<open>The adapters behind the endpoints\<close>

definition adapters_of :: "adapter_env \<Rightarrow> url_lib \<Rightarrow> vertex_env \<Rightarrow> adapter_state \<Rightarrow> provider_call \<Rightarrow> gateway_error + http_response" where
  "adapters_of env lib ve st call = raised (fst (run_adapter env lib ve st call))"

lemma adapters_of_opaque:
  "same_but_opaque (ad_send aenv) g \<Longrightarrow> adapters_of (aenv\<lparr>ad_send := g\<rparr>) lib ve st = adapters_of aenv lib ve st"
  by (simp add: fun_eq_iff adapters_of_def run_adapter_opaque)

definition with_adapters :: "api_env \<Rightarrow> (provider_call \<Rightarrow> gateway_error + http_response) \<Rightarrow> api_env" where
  "with_adapters env adapters = env\<lparr>ae_gateway := (ae_gateway env)\<lparr>ge_adapter := adapters\<rparr>\<rparr>"

section \<open>Administration and tools\<close>

text \<open>A request made for an authenticated administrator, about the administrator's own tenant.\<close>

definition own_tenant_call :: "api_env \<Rightarrow> api_request \<Rightarrow> api_state \<Rightarrow> service_call \<Rightarrow> bool" where
  "own_tenant_call env req s call \<longleftrightarrow>
     (\<exists>caller. fst (get_caller (ae_auth env) (aq_authorization req) (ps_auth s)) = Inr caller \<and>
        py_in ''admin'' (cc_roles caller) = Inr True \<and> map_of (sc_params call) ''tenant_id'' = Some (cc_tenant_id caller))"

lemma require_admin_Inr: "require_admin caller = Inr u \<longleftrightarrow> py_in ''admin'' (cc_roles caller) = Inr True"
  by (auto simp: require_admin_def ebind_eq_Inr http_error_def split: if_splits)

lemma with_caller_cases:
  assumes "with_caller env req handler s = (res, s')" "ps_calls s' = ps_calls s @ sent" "sent \<noteq> []"
  obtains caller a where "get_caller (ae_auth env) (aq_authorization req) (ps_auth s) = (Inr caller, a)"
    "handler caller (s\<lparr>ps_auth := a\<rparr>) = (res, s')"
proof (cases "get_caller (ae_auth env) (aq_authorization req) (ps_auth s)")
  case (Pair r a)
  then show thesis using assms that by (cases r) (auto simp: with_caller_def)
qed

lemma relay_governance_sent:
  "relay_governance env caller call s = (res, s') \<Longrightarrow> ps_calls s' = ps_calls s @ sent \<Longrightarrow> sent \<noteq> [] \<Longrightarrow>
   sent = [call] \<and> py_in ''admin'' (cc_roles caller) = Inr True"
  by (auto simp: relay_governance_def call_service_def require_admin_Inr split: sum.splits service_reply.splits)

lemma tenant_params_tenant: "map_of (tenant_params caller req) ''tenant_id'' = Some (cc_tenant_id caller)"
  by (simp add: tenant_params_def)

lemma tenant_params_keys: "fst ` set (tenant_params caller req) \<subseteq> {''tenant_id'', ''limit''}"
  by (auto simp: tenant_params_def split: option.splits)

lemma export_stream_sent:
  assumes "export_stream env req s = (res, s')" "ps_calls s' = ps_calls s @ sent" "sent \<noteq> []"
  obtains caller a where "get_caller (ae_auth env) (aq_authorization req) (ps_auth s) = (Inr caller, a)"
    "py_in ''admin'' (cc_roles caller) = Inr True"
    "sent = [governance_call env ''GET'' ''/v1/audit/export'' (tenant_params caller req)]"
    "\<exists>r. res = Inr (ApiResponse r) \<and> rs_status r = 200"
  using assms(1,2,3) unfolding export_stream_def
proof (cases rule: with_caller_cases)
  case (1 caller a)
  then show thesis using that assms(2,3)
    by (auto simp: call_service_def require_admin_Inr split: sum.splits)
qed

text \<open>What a tool call may be sent for.\<close>

lemma tool_call_Inr:
  assumes "tool_call env caller server req = Inr call"
  obtains body tool where "JStr (''mcp:'' @ server @ '':invoke'') \<in> set (cc_scopes caller)"
    "enforce_act_claim (ge_settings (ae_gateway env)) caller = Inr ()"
    "ae_body env (aq_body req) = Some (JObj body)" "sc_json call = Some (tool_outbound caller server body tool)"
proof -
  have scope: "JStr (''mcp:'' @ server @ '':invoke'') \<in> set (cc_scopes caller)"
  proof (rule ccontr)
    assume "\<not> ?thesis"
    then show False using assms by (simp add: tool_call_def enforce_mcp_scope_def http_error_def ebind_def Let_def)
  qed
  then have m: "enforce_mcp_scope caller server = Inr ()" by (simp add: enforce_mcp_scope_def)
  then obtain body where b: "enforce_act_claim (ge_settings (ae_gateway env)) caller = Inr ()"
      "ae_body env (aq_body req) = Some (JObj body)"
    using assms by (auto simp: tool_call_def ebind_eq_Inr parse_json_body_Inr)
  then have p: "parse_json_body (ae_body env) (aq_body req) = Inr body" by (simp add: parse_json_body_Inr)
  show thesis
    using assms m b p scope that
    by (cases "jget_or body ''tool'' (JObj [])") (auto simp: tool_call_def ebind_def http_error_def)
qed

section \<open>Properties\<close>


text \<open>
  What providers say in opaque errors stays out of every client's sight: with the adapters as they are, two
  upstreams that differ only in the content of replies with such a status give the same answer at every inference
  endpoint, and leave the same state.
\<close>

theorem endpoint_errors_opaque:
  assumes "same_but_opaque (ad_send aenv) g"
    and "endpoint \<in> {chat_completions, responses_endpoint, messages_endpoint}"
  shows "endpoint (with_adapters env (adapters_of (aenv\<lparr>ad_send := g\<rparr>) lib ve st)) req s =
    endpoint (with_adapters env (adapters_of aenv lib ve st)) req s"
  unfolding adapters_of_opaque [OF assms(1)] by (rule refl)

text \<open>
  C29. Administration is confined: whatever the deletion of a user, the audit list and the audit export send to the
  governance service is one request, made for an authenticated caller with the role of an administrator, and about
  that caller's tenant, whatever the query says.
\<close>

theorem administration_confined:
  assumes "endpoint \<in> {delete_user env user_id req, audit env req, export_stream env req}"
    and "endpoint s = (res, s')" "ps_calls s' = ps_calls s @ sent" "sent \<noteq> []"
  shows "\<exists>call. sent = [call] \<and> own_tenant_call env req s call \<and> sc_token call = ae_internal_token env"
proof -
  have relay: "\<exists>call. sent = [call] \<and> own_tenant_call env req s call \<and> sc_token call = ae_internal_token env"
    if "with_caller env req (\<lambda>caller. relay_governance env caller (governance_call env meth path (params caller))) s = (res, s')"
      "\<And>caller. map_of (params caller) ''tenant_id'' = Some (cc_tenant_id caller)" for meth path params
    using that(1) assms(3,4)
  proof (cases rule: with_caller_cases)
    case (1 caller a)
    then show ?thesis using relay_governance_sent [OF 1(2)] assms(3,4) that(2) [of caller]
      by (auto simp: own_tenant_call_def governance_call_def)
  qed
  consider (d) "endpoint = delete_user env user_id req" | (a) "endpoint = audit env req" | (e) "endpoint = export_stream env req"
    using assms(1) by blast
  then show ?thesis
  proof cases
    case d
    then show ?thesis using relay [of "''DELETE''" "''/v1/users/'' @ user_id" "\<lambda>caller. [(''tenant_id'', cc_tenant_id caller)]"] assms(2)
      by (simp add: delete_user_def)
  next
    case a
    then show ?thesis using relay [of "''GET''" "''/v1/audit''" "\<lambda>caller. tenant_params caller req"] assms(2) tenant_params_tenant
      by (simp add: audit_def)
  next
    case e
    show ?thesis
      using assms(2)[unfolded e] assms(3,4)
    proof (cases rule: export_stream_sent)
      case (1 caller a)
      then show ?thesis using tenant_params_tenant by (auto simp: own_tenant_call_def governance_call_def)
    qed
  qed
qed

text \<open>
  C30. A tool call goes to the tool proxy only within the scope the caller was granted: the caller was authenticated, has
  the scope of the server in the path and a valid act claim; and whatever the body says, the server the proxy is told
  is that one and the principal is the caller.
\<close>

theorem tool_calls_scoped:
  assumes "mcp_call_endpoint env server req s = (res, s')" "ps_calls s' = ps_calls s @ sent" "call \<in> set sent"
  shows "\<exists>caller out. fst (get_caller (ae_auth env) (aq_authorization req) (ps_auth s)) = Inr caller \<and>
    JStr (''mcp:'' @ server @ '':invoke'') \<in> set (cc_scopes caller) \<and>
    enforce_act_claim (ge_settings (ae_gateway env)) caller = Inr () \<and> sent = [call] \<and> sc_json call = Some (JObj out) \<and>
    jget (as_obj (jget out ''tool'')) ''server'' = JStr server \<and>
    jget out ''principal'' = JObj [(''user_id'', cc_user_id caller), (''tenant_id'', cc_tenant_id caller), (''roles'', cc_roles caller)]"
proof -
  have "sent \<noteq> []" using assms(3) by auto
  with assms(1)[unfolded mcp_call_endpoint_def] assms(2) show ?thesis
  proof (cases rule: with_caller_cases)
    case (1 caller a)
    then obtain c where c: "tool_call env caller server req = Inr c" "sent = [c]"
      using assms(2) \<open>sent \<noteq> []\<close> by (auto simp: call_service_def split: sum.splits service_reply.splits)
    show ?thesis
      using c(1)
    proof (cases rule: tool_call_Inr)
      case (1 body tool)
      then show ?thesis using c(2) assms(3) \<open>get_caller (ae_auth env) (aq_authorization req) (ps_auth s) = (Inr caller, a)\<close>
        by (auto simp: tool_outbound_def map_of_dict_set)
    qed
  qed
qed

text \<open>
  Through the gateway the audit export cannot be followed beyond its first page: whatever the client's query, only the
  tenant and the limit are sent on, so that a cursor from a \<open>Link\<close> header never reaches the governance service; and
  the reply has status 200 whatever that service answers.
\<close>

theorem gateway_export_first_page:
  assumes "export_stream env req s = (res, s')" "ps_calls s' = ps_calls s @ sent" "call \<in> set sent"
  shows "fst ` set (sc_params call) \<subseteq> {''tenant_id'', ''limit''} \<and>
    (\<exists>r. res = Inr (ApiResponse r) \<and> rs_status r = 200)"
proof -
  have "sent \<noteq> []" using assms(3) by auto
  with assms(1,2) show ?thesis
    by (cases rule: export_stream_sent) (use assms(3) tenant_params_keys in \<open>fastforce simp: governance_call_def\<close>)+
qed

text \<open>
  The same broken reply of a Chat provider, with status 200: a Responses client is told with a 502, an Anthropic
  client gets the provider's body as it is.
\<close>

theorem broken_reply_by_protocol:
  assumes "rs_status (pl_response result) = 200" "rs_stream (pl_response result) = None"
    and "pl_response_protocol result = OpenaiChat"
    and "ad_loads_body (ce_adapter env) (rs_body (pl_response result)) = Some v" "ce_validate env v = None"
  shows "responses_encode_response env result =
      Inl (http_error 502 ''invalid_upstream_response'' ''Provider returned an unexpected response shape'') \<and>
    messages_encode_response env result = Inr (pl_response result)"
  by (simp add: responses_encode_response_def messages_encode_response_def assms translate_chat_response_def
      chat_response_to_anthropic_def)

text \<open>
  What \<open>/v1/me\<close> reports is what it computed for the first credential of the user: another credential of the same
  user, with other roles, is told the roles of the first until the entry expires.
\<close>

theorem me_reports_first_credential:
  assumes "me_for env caller s = (Inr r, s')"
    and "cc_tenant_id caller' = cc_tenant_id caller" "cc_user_id caller' = cc_user_id caller"
  shows "fst (me_for env caller' s') = Inr r"
  using assms by (auto simp: me_for_def Let_def split: if_splits option.splits prod.splits sum.splits)

section \<open>Witnesses\<close>

text \<open>An administrator with the API key \<open>p\<close>; services and providers that answer.\<close>

definition edge_codec :: codec_env where
  "edge_codec = \<lparr>ce_adapter = quiet_env\<lparr>ad_loads_body := \<lambda>b. Some JNull\<rparr>, ce_stream = demo_lib [], ce_ids = demo_ids, ce_validate = (\<lambda>v. None)\<rparr>"

definition edge_env :: api_env where
  "edge_env = \<lparr>ae_gateway = wit_env, ae_auth = wit_lib, ae_codec = edge_codec, ae_body = (\<lambda>b. Some (JObj [])),
     ae_chat = (\<lambda>d. Valid (cp_request wit_payload)), ae_responses = (\<lambda>d. Invalid []), ae_messages = (\<lambda>d. Invalid []),
     ae_count = (\<lambda>d. Invalid []), ae_service = (\<lambda>c. ServiceReply \<lparr>sv_status = 500, sv_content_type = None, sv_content = [], sv_chunks = []\<rparr>),
     ae_governance_url = ''g'', ae_mcpproxy_url = ''m'', ae_internal_token = ''tok'', ae_ready = True\<rparr>"

definition edge_req :: api_request where
  "edge_req = \<lparr>aq_authorization = Some ''p'', aq_x_api_key = None, aq_headers = [],
     aq_query = [(''limit'', ''10''), (''after_audit_id'', ''7'')], aq_body = []\<rparr>"

definition edge_state :: api_state where
  "edge_state = \<lparr>ps_auth = (auth_start [])\<lparr>api_keys := [''p'' \<mapsto> \<lparr>ak_hash = ''hp'', ak_user_id = ''root'', ak_tenant_id = ''t'', ak_roles = [''admin'']\<rparr>]\<rparr>,
     ps_gateway = wit_gs, ps_me = (\<lambda>k. None), ps_calls = []\<rparr>"

lemma edge_caller: "\<exists>a. get_caller (ae_auth edge_env) (aq_authorization edge_req) (ps_auth edge_state) = (Inr wit_admin, a)"
  by (simp add: get_caller_def authenticate_def edge_env_def edge_req_def edge_state_def auth_start_def validate_api_key_def
      wit_lib_def wit_admin_def key_caller_def as_caller_def startswith_Cons Let_def)


lemma administration_confined_witness:
  "\<exists>call. ps_calls (snd (audit edge_env edge_req edge_state)) = [call] \<and> own_tenant_call edge_env edge_req edge_state call"
proof -
  obtain a where a: "get_caller (ae_auth edge_env) (aq_authorization edge_req) (ps_auth edge_state) = (Inr wit_admin, a)"
    using edge_caller by blast
  obtain res s' where r: "audit edge_env edge_req edge_state = (res, s')" by force
  have adm: "require_admin wit_admin = Inr ()" by (simp add: require_admin_Inr wit_admin_def key_caller_def)
  obtain call where s: "ps_calls s' = ps_calls edge_state @ [call]"
    using r a adm by (auto simp: audit_def with_caller_def relay_governance_def call_service_def edge_env_def edge_state_def)
  have "audit edge_env edge_req \<in> {delete_user edge_env [] edge_req, audit edge_env edge_req, export_stream edge_env edge_req}" by simp
  from administration_confined [OF this r s] s r show ?thesis by (auto simp: edge_state_def)
qed

lemma gateway_export_first_page_witness:
  "\<exists>call r. ps_calls (snd (export_stream edge_env edge_req edge_state)) = [call] \<and> map_of (sc_params call) ''after_audit_id'' = None \<and>
     fst (export_stream edge_env edge_req edge_state) = Inr (ApiResponse r) \<and> rs_status r = 200"
proof -
  obtain a where a: "get_caller (ae_auth edge_env) (aq_authorization edge_req) (ps_auth edge_state) = (Inr wit_admin, a)"
    using edge_caller by blast
  obtain res s' where r: "export_stream edge_env edge_req edge_state = (res, s')" by force
  have adm: "require_admin wit_admin = Inr ()" by (simp add: require_admin_Inr wit_admin_def key_caller_def)
  obtain call where s: "ps_calls s' = ps_calls edge_state @ [call]"
    using r a adm by (auto simp: export_stream_def with_caller_def call_service_def edge_env_def edge_state_def)
  from gateway_export_first_page [OF r s, of call] have c: "fst ` set (sc_params call) \<subseteq> {''tenant_id'', ''limit''}"
    "\<exists>r. res = Inr (ApiResponse r) \<and> rs_status r = 200" by simp_all
  then have "map_of (sc_params call) ''after_audit_id'' = None" by (auto simp: map_of_eq_None_iff)
  then show ?thesis using c(2) r s by (auto simp: edge_state_def)
qed

lemma broken_reply_by_protocol_witness:
  "messages_encode_response edge_codec \<lparr>pl_response = \<lparr>rs_status = 200, rs_headers = [], rs_body = [], rs_stream = None\<rparr>,
     pl_extra_headers = [], pl_response_protocol = OpenaiChat, pl_client_model = ''m''\<rparr> =
   Inr \<lparr>rs_status = 200, rs_headers = [], rs_body = [], rs_stream = None\<rparr>"
  using broken_reply_by_protocol [of "\<lparr>pl_response = \<lparr>rs_status = 200, rs_headers = [], rs_body = [], rs_stream = None\<rparr>,
     pl_extra_headers = [], pl_response_protocol = OpenaiChat, pl_client_model = ''m''\<rparr>" edge_codec JNull]
  by (simp add: edge_codec_def)

lemma endpoint_errors_opaque_witness:
  "chat_completions (with_adapters edge_env (adapters_of (quiet_env\<lparr>ad_send := telling_send\<rparr>) no_url no_vertex adapters_start)) edge_req edge_state =
   chat_completions (with_adapters edge_env (adapters_of quiet_env no_url no_vertex adapters_start)) edge_req edge_state"
proof -
  have same: "same_but_opaque (ad_send quiet_env) telling_send"
    by (auto simp: same_but_opaque_def quiet_env_def telling_send_def OPAQUE_STATUSES_def)
  have "chat_completions \<in> {chat_completions, responses_endpoint, messages_endpoint}" by simp
  from endpoint_errors_opaque [OF same this] show ?thesis .
qed

text \<open>An agent's token with the scope of one server.\<close>

definition scoped_env :: api_env where
  "scoped_env = edge_env\<lparr>ae_auth := wit_lib\<lparr>jwt_decode := (\<lambda>t. Some [(''user_id'', JStr ''u''), (''tenant_id'', JStr ''t''),
     (''scope'', JStr ''mcp:files:invoke'')])\<rparr>\<rparr>"

definition scoped_req :: api_request where
  "scoped_req = edge_req\<lparr>aq_authorization := Some ''Bearer j''\<rparr>"

lemma tool_calls_scoped_witness:
  "\<exists>call out. ps_calls (snd (mcp_call_endpoint scoped_env ''files'' scoped_req edge_state)) = [call] \<and> sc_json call = Some (JObj out) \<and>
     jget (as_obj (jget out ''tool'')) ''server'' = JStr ''files''"
proof -
  obtain caller a where c: "get_caller (ae_auth scoped_env) (aq_authorization scoped_req) (ps_auth edge_state) = (Inr caller, a)"
    "cc_scopes caller = [JStr ''mcp:files:invoke'']" "cc_client_id caller = JNull"
    by (simp add: get_caller_def authenticate_def scoped_env_def scoped_req_def edge_env_def validate_jwt_def wit_lib_def
        as_caller_def startswith_Cons jget_or_def dict_get_or_def scope_list_def py_split_ws_def py_is_space_def Let_def)
  obtain res s' where r: "mcp_call_endpoint scoped_env ''files'' scoped_req edge_state = (res, s')" by force
  have "tool_call scoped_env caller ''files'' scoped_req = Inr \<lparr>sc_method = ''POST'', sc_url = ae_mcpproxy_url scoped_env @ ''/v1/mcp/call'',
      sc_params = [], sc_token = ae_internal_token scoped_env, sc_json = Some (tool_outbound caller ''files'' [] [])\<rparr>"
    using c(2,3) by (simp add: tool_call_def enforce_mcp_scope_def enforce_act_claim_def parse_json_body_def scoped_env_def
        edge_env_def wit_env_def ebind_def jget_or_def dict_get_or_def Let_def)
  then obtain call where s: "ps_calls s' = ps_calls edge_state @ [call]"
    using r c(1) by (auto simp: mcp_call_endpoint_def with_caller_def call_service_def scoped_env_def edge_env_def edge_state_def)
  from tool_calls_scoped [OF r s, of call] s r show ?thesis by (auto simp: edge_state_def)
qed

lemma me_reports_first_credential_witness:
  "\<exists>v. fst (me_for edge_env (wit_admin\<lparr>cc_roles := JList []\<rparr>) (snd (me_for edge_env wit_admin edge_state))) = Inr (ApiJson v) \<and>
     v = me_report wit_env wit_admin \<lparr>ti_default_provider = [], ti_allowed_models = [], ti_notification = ''header'', ti_rate_limit = 5\<rparr>"
proof -
  obtain s' where m: "me_for edge_env wit_admin edge_state = (Inr (ApiJson (me_report wit_env wit_admin
      \<lparr>ti_default_provider = [], ti_allowed_models = [], ti_notification = ''header'', ti_rate_limit = 5\<rparr>)), s')"
    using wit_tenant [where g = "ge_governance wit_env"]
    by (cases "get_tenant_info wit_env (cc_tenant_id wit_admin) wit_gs")
      (auto simp: me_for_def edge_env_def edge_state_def wit_admin_def key_caller_def Let_def)
  have "cc_tenant_id (wit_admin\<lparr>cc_roles := JList []\<rparr>) = cc_tenant_id wit_admin" "cc_user_id (wit_admin\<lparr>cc_roles := JList []\<rparr>) = cc_user_id wit_admin"
    by simp_all
  from me_reports_first_credential [OF m this] m show ?thesis by simp
qed

end
