(* ===== verification/EndToEnd.thy ===== *)
theory EndToEnd imports GatewayEdge PiiScan begin

text \<open>
  The gateway and the governance service together: the gateway's client posts to \<open>/inspect\<close>, the service's middleware and
  handler answer. How a text and an identifier are written in JSON is a parameter; the two bodies are otherwise the records'
  fields.
\<close>

section \<open>The body limit of the governance service\<close>

definition GOV_MAX_BODY_SIZE :: nat where
  "GOV_MAX_BODY_SIZE = 1 * 1024 * 1024"

definition gov_body_size_dispatch :: "string option \<Rightarrow> 'b list list \<Rightarrow> py_error + 'b body_verdict" where
  "gov_body_size_dispatch declared chunks =
     (if truthy_str declared
      then ebind (py_int (the declared)) (\<lambda>n.
        if n > int GOV_MAX_BODY_SIZE then Inr TooLarge else Inr (read_body GOV_MAX_BODY_SIZE [] chunks))
      else Inr (read_body GOV_MAX_BODY_SIZE [] chunks))"

section \<open>The exchange\<close>

record wire_lib =
  wl_text :: "string \<Rightarrow> utext"       \<comment> \<open>the text that the service reads\<close>
  wl_string :: "utext \<Rightarrow> string"     \<comment> \<open>the text that the gateway reads\<close>
  wl_uuid :: "nat \<Rightarrow> string"
  wl_dumps :: "inspect_request \<Rightarrow> bytes"

text \<open>The request model admits texts only, and lists of texts.\<close>

definition inspect_body_of :: "wire_lib \<Rightarrow> inspect_request \<Rightarrow> inspect_body option" where
  "inspect_body_of wl req =
     (case (iq_tenant_id req, iq_user_id req, iq_roles req) of
        (JStr tenant, JStr user, JList roles) \<Rightarrow>
          (if list_all (\<lambda>v. as_str v \<noteq> None) roles
           then Some \<lparr>ib_text = wl_text wl (iq_text req), ib_tenant_id = tenant, ib_user_id = user, ib_model_id = iq_model_id req,
             ib_routing_method = iq_routing_method req, ib_phase = iq_phase req, ib_roles = map (\<lambda>v. the (as_str v)) roles\<rparr>
           else None)
      | _ \<Rightarrow> None)"

definition finding_json :: "pii_finding \<Rightarrow> json" where
  "finding_json f = JObj [(''type'', JStr (pf_type f)), (''start'', JInt (int (pf_start f))), (''end'', JInt (int (pf_end f))),
     (''score'', JFloat (pf_score f))]"

definition inspection_json :: "wire_lib \<Rightarrow> inspection \<Rightarrow> json" where
  "inspection_json wl r =
     JObj [(''decision'', JStr (ir_decision r)), (''redacted_text'', JStr (wl_string wl (ir_redacted_text r))),
       (''pii_findings'', JList (map finding_json (ir_pii_findings r))), (''harm_score'', JFloat (ir_harm_score r)),
       (''violations'', JList (map JStr (ir_violations r))), (''audit_id'', JStr (wl_uuid wl (ir_audit_id r)))]"

definition gov_reply_of :: "wire_lib \<Rightarrow> inspection gov_answer \<Rightarrow> gov_reply" where
  "gov_reply_of wl a =
     (case a of
        GovOk r \<Rightarrow> GovData (inspection_json wl r)
      | GovHttp status detail headers \<Rightarrow> HttpStatus status (map_of headers ''Retry-After'')
      | GovRaised e \<Rightarrow> HttpStatus 500 None)"

text \<open>One request, answered with a fresh identifier at some time.\<close>

definition inspect_http ::
    "gov_service \<Rightarrow> wire_lib \<Rightarrow> string \<Rightarrow> inspect_request \<Rightarrow> nat \<times> rat \<Rightarrow> gov_reply \<times> background_task list" where
  "inspect_http sv wl token req drawn =
     (case gov_body_size_dispatch (Some (py_str_int (int (length (wl_dumps wl req))))) [wl_dumps wl req] of
        Inl e \<Rightarrow> (HttpStatus 500 None, [])
      | Inr TooLarge \<Rightarrow> (HttpStatus 413 None, [])
      | Inr (CallNext body) \<Rightarrow>
          (case inspect_body_of wl req of
             None \<Rightarrow> (HttpStatus 422 None, [])
           | Some ib \<Rightarrow> (let (a, tasks) = inspect_endpoint sv (Some token) ib (fst drawn) (snd drawn) in (gov_reply_of wl a, tasks))))"

text \<open>The gateway with that service behind its client; each attempt is answered by a handler run of its own.\<close>

definition connected ::
    "gov_service \<Rightarrow> wire_lib \<Rightarrow> string \<Rightarrow> (inspect_request \<Rightarrow> nat \<Rightarrow> nat \<times> rat) \<Rightarrow> gw_env \<Rightarrow> gw_env" where
  "connected sv wl token drawn env = env\<lparr>ge_governance := \<lambda>req n. fst (inspect_http sv wl token req (drawn req n))\<rparr>"

text \<open>The service's scanner is the backend that it was initialised with.\<close>

definition backed_by :: "pii_backend \<Rightarrow> gov_service \<Rightarrow> gov_service" where
  "backed_by be sv = sv\<lparr>sv_backend := be, sv_pipeline := (sv_pipeline sv)\<lparr>scan_pii := (\<lambda>t. the (run_pii be t))\<rparr>\<rparr>"

definition google_backend :: "google_config \<Rightarrow> dlp_service \<Rightarrow> pii_backend" where
  "google_backend cfg svc = \<lparr>backend_name = ''google'', google_settings = Some cfg, google_client = Some svc, presidio_engine = None\<rparr>"

section \<open>Lemmas\<close>

lemma backed_scan:
  assumes "scan_pii (sv_pipeline (backed_by (google_backend cfg svc) sv)) t = Inr r" "\<And>rq i. 0 \<le> fst (svc rq i)"
  shows "found_by cfg svc t (pr_findings r) \<and> pr_redacted r = redact_ref 0 t (pr_findings r)"
proof -
  have "run_pii (google_backend cfg svc) t \<noteq> None"
    by (rule run_pii_returns) (use assms(2) in \<open>auto simp: google_backend_def\<close>)
  then have "run_google cfg (Some svc) t = Some (Inr r)"
    using assms(1) by (auto simp: backed_by_def google_backend_def run_pii_def)
  then show ?thesis by (rule run_google_found)
qed

text \<open>What is released is then the one-pass redaction: a redaction is never empty, since a marker is not.\<close>

lemma redact_ref_Nil: "redact_ref 0 t found = [] \<Longrightarrow> found = [] \<and> t = []"
  by (cases found) (simp_all add: marker_def)

lemma inspect_endpoint_GovOk:
  assumes "inspect_endpoint sv token ib audit_id now = (GovOk r, tasks)"
  shows "token_accepted token (internal_token (sv_settings sv)) = Inr True \<and>
    require_fresh_google_credentials (sv_settings sv) (sv_sentinel sv) = Inr () \<and>
    inspect_answer (run_pipeline (sv_pipeline sv) (inspect_context ib)) audit_id = Inr r \<and>
    tasks = [\<lambda>t. write_audit (sv_hmac sv) (sv_hmac_key sv) (run_pipeline (sv_pipeline sv) (inspect_context ib)) audit_id (Some now) t]"
proof -
  let ?ctx = "run_pipeline (sv_pipeline sv) (inspect_context ib)"
  have w: "with_token (sv_settings sv) token
      (case require_fresh_google_credentials (sv_settings sv) (sv_sentinel sv) of Inl e \<Rightarrow> pii_failure (sv_settings sv) e
       | Inr _ \<Rightarrow> (case inspect_answer ?ctx audit_id of Inl e \<Rightarrow> GovRaised e | Inr r \<Rightarrow> GovOk r)) = GovOk r"
    and t: "tasks = [\<lambda>t. write_audit (sv_hmac sv) (sv_hmac_key sv) ?ctx audit_id (Some now) t]"
    using assms by (auto simp: inspect_endpoint_def Let_def)
  from w show ?thesis using t unfolding with_token_GovOk by (auto split: sum.splits)
qed

lemma inspect_http_GovData:
  assumes "fst (inspect_http sv wl token req drawn) = GovData d"
  obtains ib r where "inspect_body_of wl req = Some ib" "d = inspection_json wl r"
    "inspect_endpoint sv (Some token) ib (fst drawn) (snd drawn) = (GovOk r, snd (inspect_http sv wl token req drawn))"
proof -
  obtain body where b: "gov_body_size_dispatch (Some (py_str_int (int (length (wl_dumps wl req))))) [wl_dumps wl req] = Inr (CallNext body)"
    using assms by (auto simp: inspect_http_def split: sum.splits body_verdict.splits)
  obtain ib where ib: "inspect_body_of wl req = Some ib"
    using assms b by (auto simp: inspect_http_def split: option.splits)
  obtain a tasks where e: "inspect_endpoint sv (Some token) ib (fst drawn) (snd drawn) = (a, tasks)" by force
  then have h: "inspect_http sv wl token req drawn = (gov_reply_of wl a, tasks)" using b ib by (simp add: inspect_http_def)
  then obtain r where "a = GovOk r" "d = inspection_json wl r" using assms by (cases a) (auto simp: gov_reply_of_def)
  then show thesis using that ib e h by simp
qed

lemma read_inspection_json:
  "read_inspection (inspection_json wl r) = Inr
     \<lparr>gr_decision = JStr (ir_decision r), gr_redacted_text = JStr (wl_string wl (ir_redacted_text r)),
      gr_pii_findings = JList (map finding_json (ir_pii_findings r)), gr_harm_score = JFloat (ir_harm_score r),
      gr_violations = JList (map JStr (ir_violations r)), gr_audit_id = JStr (wl_uuid wl (ir_audit_id r))\<rparr>"
  by (simp add: read_inspection_def inspection_json_def jget_or_def dict_get_or_def)

text \<open>An inspection that the client returns was made, by a run of the handler, of the request's text.\<close>

lemma gov_inspect_connected:
  assumes "gov_inspect (ge_governance (connected sv wl token drawn env) req) = Inr resp"
  obtains n ib r where "inspect_body_of wl req = Some ib"
    "inspect_endpoint sv (Some token) ib (fst (drawn req n)) (snd (drawn req n)) = (GovOk r, snd (inspect_http sv wl token req (drawn req n)))"
    "resp = \<lparr>gr_decision = JStr (ir_decision r), gr_redacted_text = JStr (wl_string wl (ir_redacted_text r)),
      gr_pii_findings = JList (map finding_json (ir_pii_findings r)), gr_harm_score = JFloat (ir_harm_score r),
      gr_violations = JList (map JStr (ir_violations r)), gr_audit_id = JStr (wl_uuid wl (ir_audit_id r))\<rparr>"
proof -
  obtain n where "inspect_attempt (ge_governance (connected sv wl token drawn env) req n) = Inr resp"
    using assms by (auto simp: gov_inspect_def inspect_retry_Inr)
  then obtain d where d: "fst (inspect_http sv wl token req (drawn req n)) = GovData d" "read_inspection d = Inr resp"
    by (auto simp: inspect_attempt_Inr connected_def)
  from d(1) show thesis
    by (rule inspect_http_GovData) (use that d(2) in \<open>auto simp: read_inspection_json\<close>)
qed

text \<open>What the service lets through of a payload in which a scan found something.\<close>

definition released :: "'p payload_ops \<Rightarrow> wire_lib \<Rightarrow> pii_result \<Rightarrow> 'p \<Rightarrow> 'p" where
  "released ops wl r payload =
     (let t = wl_string wl (if pr_redacted r = [] then wl_text wl (po_governance_text ops payload) else pr_redacted r) in
      if pr_findings r = [] \<or> t = [] then payload else po_with_redacted_text ops payload t)"

text \<open>A request that the service cleared: its text was scanned, its tenant, user and findings were put to the policy, and an audit record is due.\<close>

definition cleared :: "gov_service \<Rightarrow> wire_lib \<Rightarrow> string \<Rightarrow> inspect_request \<Rightarrow> nat \<times> rat \<Rightarrow> pii_result \<Rightarrow> bool" where
  "cleared sv wl token req drawn r \<longleftrightarrow>
     token_accepted (Some token) (internal_token (sv_settings sv)) = Inr True \<and>
     require_fresh_google_credentials (sv_settings sv) (sv_sentinel sv) = Inr () \<and>
     scan_pii (sv_pipeline sv) (wl_text wl (iq_text req)) = Inr r \<and>
     (\<exists>ib. inspect_body_of wl req = Some ib \<and>
        (\<exists>res. opa_check (opa_server (sv_pipeline sv) (opa_input ((inspect_context ib)
             \<lparr>pc_findings := pr_findings r, pc_classification := pr_classification r\<rparr>))) = Inr res \<and> opa_allowed res) \<and>
        \<not> harm_blocks (harm_scan (models (sv_pipeline sv)) (pr_redacted r)) \<and>
        (\<exists>ctx. pc_decision ctx = ''allow'' \<and> pc_tenant_id ctx = ib_tenant_id ib \<and> pc_user_id ctx = ib_user_id ib \<and>
           snd (inspect_http sv wl token req drawn) =
             [\<lambda>now. write_audit (sv_hmac sv) (sv_hmac_key sv) ctx (fst drawn) (Some (snd drawn)) now]))"

lemma run_pipeline_who [simp]:
  "pc_tenant_id (run_pipeline env (inspect_context ib)) = ib_tenant_id ib"
  "pc_user_id (run_pipeline env (inspect_context ib)) = ib_user_id ib"
  by (auto simp: run_pipeline_def harm_opa_stage_def opa_part_def harm_part_def pii_stage_def inspect_context_def new_context_def
      block_def Let_def split: sum.splits opa_exception.splits)

lemma inspect_body_of_text: "inspect_body_of wl req = Some ib \<Longrightarrow> ib_text ib = wl_text wl (iq_text req)"
  by (auto simp: inspect_body_of_def split: json.splits if_splits)

text \<open>A decision other than \<open>block\<close> that reaches the gateway was cleared, and what the gateway approves was released.\<close>

lemma connected_cleared:
  assumes "gov_inspect (ge_governance (connected sv wl token drawn env) req) = Inr resp" "gr_decision resp \<noteq> JStr ''block''"
    and "iq_text req = po_governance_text ops payload"
  shows "\<exists>n r. cleared sv wl token req (drawn req n) r \<and> approved_payload ops resp payload = released ops wl r payload"
  using assms(1)
proof (rule gov_inspect_connected)
  fix n ib ir
  assume ib: "inspect_body_of wl req = Some ib"
    and e: "inspect_endpoint sv (Some token) ib (fst (drawn req n)) (snd (drawn req n)) = (GovOk ir, snd (inspect_http sv wl token req (drawn req n)))"
    and resp: "resp = \<lparr>gr_decision = JStr (ir_decision ir), gr_redacted_text = JStr (wl_string wl (ir_redacted_text ir)),
      gr_pii_findings = JList (map finding_json (ir_pii_findings ir)), gr_harm_score = JFloat (ir_harm_score ir),
      gr_violations = JList (map JStr (ir_violations ir)), gr_audit_id = JStr (wl_uuid wl (ir_audit_id ir))\<rparr>"
  let ?new = "new_context (ib_text ib) (ib_tenant_id ib) (ib_user_id ib) (ib_model_id ib) (ib_routing_method ib) (ib_phase ib) (ib_roles ib)"
  let ?ctx = "run_pipeline (sv_pipeline sv) ?new"
  have c: "inspect_context ib = ?new" by (simp add: inspect_context_def)
  note f = inspect_endpoint_GovOk [OF e]
  then have a: "ir_decision ir = pc_decision ?ctx" "ir_redacted_text ir = redacted_or_text ?ctx" "ir_pii_findings ir = pc_findings ?ctx"
    unfolding c by (auto simp: inspect_answer_def ebind_eq_Inr)
  have "pc_decision ?ctx = ''allow''" using run_pipeline_decision assms(2) a(1) by (fastforce simp: resp)
  then obtain r where r: "scan_pii (sv_pipeline sv) (ib_text ib) = Inr r"
      "\<exists>res. opa_check (opa_server (sv_pipeline sv) (opa_input (?new\<lparr>pc_findings := pr_findings r, pc_classification := pr_classification r\<rparr>))) = Inr res \<and> opa_allowed res"
      "\<not> harm_blocks (harm_scan (models (sv_pipeline sv)) (pr_redacted r))" and d: "pc_decision ?ctx = ''allow''"
    unfolding pipeline_allows_iff by blast
  note t = inspect_body_of_text [OF ib]
  have "cleared sv wl token req (drawn req n) r"
    unfolding cleared_def using f ib r d t run_pipeline_who [of "sv_pipeline sv" ib] c by auto
  moreover have "approved_payload ops resp payload = released ops wl r payload"
    using run_pipeline_scanned [OF r(1), of "ib_tenant_id ib" "ib_user_id ib" "ib_model_id ib" "ib_routing_method ib" "ib_phase ib" "ib_roles ib"]
      a(2,3) t assms(3) by (simp add: approved_payload_def released_def resp redacted_or_text_def)
  ultimately show ?thesis by blast
qed

lemma connected_dispatch:
  assumes "governed_dispatch (connected sv wl token drawn env) ops caller headers provider meth payload req d"
  shows "iq_text req = po_governance_text ops payload \<and> iq_tenant_id req = cc_tenant_id caller \<and> iq_user_id req = cc_user_id caller \<and>
    (\<exists>n r extra. cleared sv wl token req (drawn req n) r \<and>
       dispatch_provider (ge_fmt env) (ge_vertex env) (st_mock_mode (ge_settings env)) ops provider (released ops wl r payload)
         (model_entry_for (models_by_id (ge_models_config env)) (po_model ops payload)) headers extra = Inr d)"
proof -
  obtain resp extra where g: "req = inspection_request ops caller meth payload"
      "gov_inspect (ge_governance (connected sv wl token drawn env) req) = Inr resp" "gr_decision resp \<noteq> JStr ''block''"
      "dispatch_provider (ge_fmt env) (ge_vertex env) (st_mock_mode (ge_settings env)) ops provider (approved_payload ops resp payload)
        (model_entry_for (models_by_id (ge_models_config env)) (po_model ops payload)) headers extra = Inr d"
    using assms by (auto simp: governed_dispatch_def connected_def)
  have w: "iq_text req = po_governance_text ops payload" "iq_tenant_id req = cc_tenant_id caller" "iq_user_id req = cc_user_id caller"
    unfolding g(1) by (simp_all add: inspection_request_def)
  obtain n r where c: "cleared sv wl token req (drawn req n) r" "approved_payload ops resp payload = released ops wl r payload"
    using connected_cleared [where ops = ops and payload = payload, OF g(2,3) w(1)] by blast
  show ?thesis using w c(1) g(4) [unfolded c(2)] by blast
qed

section \<open>Properties\<close>

text \<open>
  C1. End to end: with the governance service behind its client, a provider is contacted only for a request that the service
  cleared, under the caller's tenant and user: the internal token and the credential were good, the PII scan of the very text
  succeeded, the policy answered an explicit allow on a document with the findings, no harm was found, and an audit record of
  the decision is due. What is dispatched is the payload with exactly the text that the scan released.
\<close>

theorem end_to_end_governed:
  assumes "run_gateway_pipeline (connected sv wl token drawn env) ops caller headers payload s = (res, s')"
    and "gs_effects s' = gs_effects s @ sent" "EffProvider call \<in> set sent"
  shows "\<exists>req n r provider extra d. sent = [EffInspect req, EffProvider call] \<and>
    iq_text req = po_governance_text ops payload \<and> iq_tenant_id req = cc_tenant_id caller \<and> iq_user_id req = cc_user_id caller \<and>
    cleared sv wl token req (drawn req n) r \<and>
    dispatch_provider (ge_fmt env) (ge_vertex env) (st_mock_mode (ge_settings env)) ops provider (released ops wl r payload)
      (model_entry_for (models_by_id (ge_models_config env)) (po_model ops payload)) (lower_headers headers) extra = Inr d \<and>
    call = dr_call d"
proof -
  obtain meth req d provider where f: "sent = [EffInspect req, EffProvider call]" "call = dr_call d"
    "governed_dispatch (connected sv wl token drawn env) ops caller (lower_headers headers) provider meth payload req d"
    using gateway_provider_facts [OF assms] by blast
  then show ?thesis using connected_dispatch [OF f(3)] by blast
qed

text \<open>
  C2. Nothing that was found is sent: with the Google backend behind the service, what is dispatched is the payload in which every
  finding that the DLP service reported for any chunk of the governed text, or a larger one, is replaced by its marker;
  only a payload in whose text nothing was reported is dispatched as it was.
\<close>

theorem end_to_end_redacted:
  assumes "run_gateway_pipeline (connected (backed_by (google_backend cfg svc) sv) wl token drawn env) ops caller headers payload s = (res, s')"
    and "gs_effects s' = gs_effects s @ sent" "EffProvider call \<in> set sent"
    and "\<And>rq i. 0 \<le> fst (svc rq i)" "\<And>t. wl_string wl t = [] \<Longrightarrow> t = []"
  shows "\<exists>found provider extra d. found_by cfg svc (wl_text wl (po_governance_text ops payload)) found \<and>
    dispatch_provider (ge_fmt env) (ge_vertex env) (st_mock_mode (ge_settings env)) ops provider
      (if found = [] then payload
       else po_with_redacted_text ops payload (wl_string wl (redact_ref 0 (wl_text wl (po_governance_text ops payload)) found)))
      (model_entry_for (models_by_id (ge_models_config env)) (po_model ops payload)) (lower_headers headers) extra = Inr d \<and>
    call = dr_call d"
proof -
  let ?sv = "backed_by (google_backend cfg svc) sv" and ?t = "wl_text wl (po_governance_text ops payload)"
  obtain meth req d provider where f: "sent = [EffInspect req, EffProvider call]" "call = dr_call d"
    "governed_dispatch (connected ?sv wl token drawn env) ops caller (lower_headers headers) provider meth payload req d"
    using gateway_provider_facts [OF assms(1,2,3)] by blast
  obtain n r extra where c: "cleared ?sv wl token req (drawn req n) r" "iq_text req = po_governance_text ops payload"
      "dispatch_provider (ge_fmt env) (ge_vertex env) (st_mock_mode (ge_settings env)) ops provider (released ops wl r payload)
        (model_entry_for (models_by_id (ge_models_config env)) (po_model ops payload)) (lower_headers headers) extra = Inr d"
    using connected_dispatch [OF f(3)] by blast
  have "scan_pii (sv_pipeline ?sv) ?t = Inr r" using c(1) unfolding cleared_def c(2) by blast
  then have "found_by cfg svc ?t (pr_findings r) \<and> pr_redacted r = redact_ref 0 ?t (pr_findings r)"
    by (rule backed_scan) (rule assms(4))
  moreover from this have "released ops wl r payload =
      (if pr_findings r = [] then payload else po_with_redacted_text ops payload (wl_string wl (redact_ref 0 ?t (pr_findings r))))"
    using redact_ref_Nil assms(5) by (auto simp: released_def Let_def)
  ultimately show ?thesis
    using c(3) f(2) by (intro exI [of _ "pr_findings r"] exI [of _ provider] exI [of _ extra] exI [of _ d]) simp
qed

section \<open>Witness\<close>

text \<open>A service whose scanner finds a name in \<open>hi\<close> and that allows.\<close>

definition hi_dlp :: dlp_service where
  "hi_dlp rq k = (1, InspectOk \<lparr>findings_truncated = False, result_findings =
     [\<lparr>df_location = \<lparr>loc_protobuf = True, loc_codepoint = None, loc_byte = Some (0, 2)\<rparr>, df_info_type = ''N'', df_likelihood = 5\<rparr>]\<rparr>)"

definition clearing_service :: gov_service where
  "clearing_service = backed_by (google_backend demo_google hi_dlp) (demo_service\<lparr>sv_pipeline :=
     \<lparr>scan_pii = (\<lambda>t. Inl (PiiBackendError ''down'')),
      models = \<lparr>injection_pipe = (\<lambda>t. Inl TypeError), topics_pipe = (\<lambda>t ts. Inl TypeError)\<rparr>,
      opa_server = (\<lambda>r. OpaBody (JObj [(''result'', JObj [(''allow'', JBool True)])]))\<rparr>\<rparr>)"

definition hi_finding :: pii_finding where
  "hi_finding = \<lparr>pf_type = ''N'', pf_start = 0, pf_end = 2, pf_score = 9/10\<rparr>"

definition hi_redacted :: utext where
  "hi_redacted = map of_char ''[N]''"

lemma hi_redacted_nonempty: "hi_redacted \<noteq> []"
  by (simp add: hi_redacted_def)

definition hi_reply :: inspect_response where
  "hi_reply = \<lparr>findings_truncated = False, result_findings =
     [\<lparr>df_location = \<lparr>loc_protobuf = True, loc_codepoint = None, loc_byte = Some (0, 2)\<rparr>, df_info_type = ''N'', df_likelihood = 5\<rparr>]\<rparr>"

lemma hi_utf8: "utf8_encode [104, 105 :: nat] = Some [104, 105]"
  by (simp add: utf8_encode_def scalar_value_def is_surrogate_def utf8_char_def)

lemma hi_chunks: "google_text_chunks [104, 105] = Some (Inr [(0, [104, 105])])"
  unfolding google_text_chunks_def hi_utf8 by (simp add: GOOGLE_MAX_CONTENT_BYTES_def)

lemma hi_inspected: "inspect_content_with_backoff 5 (hi_dlp rq) = Some (Inr hi_reply)"
proof -
  have fuel: "retry_fuel 5 = Suc 25" by (simp add: retry_fuel_def)
  show ?thesis
    unfolding inspect_content_with_backoff_def fuel by (simp only: inspect_loop.simps Let_def) (simp add: hi_dlp_def hi_reply_def)
qed

lemma hi_scan: "scan_pii (sv_pipeline clearing_service) [104, 105] = Inr \<lparr>pr_findings = [hi_finding], pr_classification = ''pii'', pr_redacted = hi_redacted\<rparr>"
proof -
  have "normalize_google_findings [104, 105] (result_findings hi_reply) = Inr [hi_finding]"
    by (simp add: normalize_google_findings_def normalize_finding_def finding_range_def range_is_set_def byte_to_codepoint_range_def
        hi_utf8 GOOGLE_TYPE_MAP_def dict_get_or_def LIKELIHOOD_SCORES_def deduplicate_findings_def hi_finding_def hi_reply_def)
  moreover have "\<not> findings_truncated hi_reply" by (simp add: hi_reply_def)
  ultimately have "run_google demo_google (Some hi_dlp) [104, 105] =
      Some (Inr \<lparr>pr_findings = [hi_finding], pr_classification = ''pii'', pr_redacted = hi_redacted\<rparr>)"
    by (simp add: run_google_def hi_chunks scan_chunk_def demo_google_def hi_inspected shift_finding_def deduplicate_findings_def
        redact_with_typed_markers_def redact_one_def marker_def hi_finding_def hi_redacted_def)
  then show ?thesis by (simp add: clearing_service_def backed_by_def google_backend_def run_pii_def)
qed

lemma hi_found: "found_by demo_google hi_dlp [104, 105] found \<Longrightarrow> found \<noteq> []"
  by (auto simp: found_by_def hi_chunks chunk_reported_def demo_google_def hi_inspected hi_reply_def)

definition clearing_wire :: wire_lib where
  "clearing_wire = \<lparr>wl_text = map of_char, wl_string = map char_of, wl_uuid = (\<lambda>n. ''i''), wl_dumps = (\<lambda>req. [0])\<rparr>"

definition clearing_drawn :: "inspect_request \<Rightarrow> nat \<Rightarrow> nat \<times> rat" where
  "clearing_drawn req n = (7, 5)"

definition clearing_replies :: "inspect_request \<Rightarrow> nat \<Rightarrow> gov_reply" where
  "clearing_replies req n = fst (inspect_http clearing_service clearing_wire ''tok'' req (clearing_drawn req n))"

lemma clearing_env: "connected clearing_service clearing_wire ''tok'' clearing_drawn wit_env = wit_with clearing_replies"
  by (simp add: connected_def clearing_replies_def [abs_def])

definition clearing_response :: gov_response where
  "clearing_response = \<lparr>gr_decision = JStr ''allow'', gr_redacted_text = JStr ''[N]'',
     gr_pii_findings = JList [finding_json hi_finding], gr_harm_score = JFloat 0,
     gr_violations = JList [], gr_audit_id = JStr ''i''\<rparr>"

lemma clearing_dispatch: "gov_body_size_dispatch (Some (py_str_int 1)) [[0 :: nat]] = Inr (CallNext [0])"
proof -
  have "py_str_int 1 = ''1''" "py_int ''1'' = Inr 1" by code_simp+
  then show ?thesis by (simp add: gov_body_size_dispatch_def GOV_MAX_BODY_SIZE_def truthy_str_def)
qed

lemma clearing_token: "token_accepted (Some ''tok'') ''tok'' = Inr True"
  by (simp add: token_accepted_iff is_ascii_def)

lemma clearing_settings:
  "internal_token (sv_settings clearing_service) = ''tok''" "pii_backend_setting (sv_settings clearing_service) = ''presidio''"
  by (simp_all add: clearing_service_def backed_by_def demo_service_def demo_gov_settings_def)

lemma clearing_models:
  "models (sv_pipeline clearing_service) = \<lparr>injection_pipe = (\<lambda>t. Inl TypeError), topics_pipe = (\<lambda>t ts. Inl TypeError)\<rparr>"
  "opa_server (sv_pipeline clearing_service) r = OpaBody (JObj [(''result'', JObj [(''allow'', JBool True)])])"
  by (simp_all add: clearing_service_def backed_by_def)

lemma clearing_endpoint: "ib_text ib = [104, 105] \<Longrightarrow> \<exists>tasks. inspect_endpoint clearing_service (Some ''tok'') ib 7 5 =
    (GovOk \<lparr>ir_decision = ''allow'', ir_redacted_text = hi_redacted, ir_pii_findings = [hi_finding],
      ir_harm_score = 0, ir_violations = [], ir_audit_id = 7\<rparr>, tasks)"
  using clearing_token hi_scan hi_redacted_nonempty
  by (simp add: inspect_endpoint_def clearing_settings clearing_models with_token_def Let_def
      require_fresh_google_credentials_def inspect_context_def new_context_def run_pipeline_def
      pii_stage_def harm_opa_stage_def opa_check_def opa_decision_def lift_opa_def jget_or_def dict_get_or_def harm_scan_def
      harm_part_def opa_part_def inspect_answer_def redacted_or_text_def text_to_check_def)

lemma clearing_text: "po_governance_text chat_ops wit_payload = ''hi''"
  by (simp add: chat_ops_def chat_governance_text_def wit_payload_def openai_chat_governed_leaves_def governed_leaves_Suc user_leaves_def)

lemma clearing_inspect: "gov_inspect (clearing_replies (inspection_request chat_ops wit_admin ''prefix_inference'' wit_payload)) = Inr clearing_response"
proof -
  let ?req = "inspection_request chat_ops wit_admin ''prefix_inference'' wit_payload"
  have "wl_text clearing_wire ''hi'' = [104, 105]" by (simp add: clearing_wire_def)
  then obtain ib where ib: "inspect_body_of clearing_wire ?req = Some ib" "ib_text ib = [104, 105]"
    by (simp add: inspect_body_of_def inspection_request_def wit_admin_def key_caller_def clearing_text)
  obtain tasks where e: "inspect_endpoint clearing_service (Some ''tok'') ib 7 5 =
    (GovOk \<lparr>ir_decision = ''allow'', ir_redacted_text = hi_redacted, ir_pii_findings = [hi_finding],
      ir_harm_score = 0, ir_violations = [], ir_audit_id = 7\<rparr>, tasks)" using clearing_endpoint [OF ib(2)] by blast
  have d: "wl_dumps clearing_wire ?req = [0]" "wl_string clearing_wire hi_redacted = ''[N]''" "wl_uuid clearing_wire 7 = ''i''"
    by (simp_all only: clearing_wire_def wire_lib.simps hi_redacted_def map_map comp_def char_of_char list.map_ident)
  have "fst (inspect_http clearing_service clearing_wire ''tok'' ?req (7, 5)) = GovData (inspection_json clearing_wire
      \<lparr>ir_decision = ''allow'', ir_redacted_text = hi_redacted, ir_pii_findings = [hi_finding],
       ir_harm_score = 0, ir_violations = [], ir_audit_id = 7\<rparr>)"
    using clearing_dispatch by (simp add: inspect_http_def d(1) ib(1) e gov_reply_of_def)
  then show ?thesis
    by (simp add: clearing_replies_def clearing_drawn_def gov_inspect_def GOV_ATTEMPTS_def numeral_3_eq_3 inspect_attempt_def read_inspection_json
        clearing_response_def d(2,3))
qed

lemma clearing_apply: "\<exists>extra. apply_inspection chat_ops ''header'' clearing_response h p = Inr (chat_with_redacted_text p ''[N]'', extra)"
  by (simp add: apply_inspection_def clearing_response_def finding_json_def hi_finding_def raised_def py_iter_def pii_headers_def join_strs_def
      jget_or_def dict_get_or_def chat_ops_def)

lemma end_to_end_governed_witness:
  "\<exists>req call r. gs_effects (snd (run_gateway_pipeline (wit_with clearing_replies) chat_ops wit_admin [] wit_payload wit_gs)) = [EffInspect req, EffProvider call] \<and>
     iq_text req = ''hi'' \<and> cleared clearing_service clearing_wire ''tok'' req (7, 5) r"
proof -
  obtain res s' req call where w: "run_gateway_pipeline (wit_with clearing_replies) chat_ops wit_admin [] wit_payload wit_gs = (res, s')"
    "gs_effects s' = gs_effects wit_gs @ [EffInspect req, EffProvider call]"
    using wit_effects [where g = clearing_replies, OF clearing_inspect clearing_apply] by blast
  obtain req' n r where "[EffInspect req, EffProvider call] = [EffInspect req', EffProvider call]" "iq_text req' = ''hi''"
      "cleared clearing_service clearing_wire ''tok'' req' (clearing_drawn req' n) r"
    using end_to_end_governed [OF w(1) [folded clearing_env] w(2)] unfolding clearing_text by auto
  then show ?thesis using w by (auto simp: wit_gs_def clearing_drawn_def)
qed

lemma end_to_end_redacted_witness:
  "\<exists>found provider extra d. found_by demo_google hi_dlp [104, 105] found \<and> found \<noteq> [] \<and>
     dispatch_provider (ge_fmt wit_env) (ge_vertex wit_env) True chat_ops provider
       (chat_with_redacted_text wit_payload (map char_of (redact_ref 0 [104, 105] found)))
       (model_entry_for (models_by_id (ge_models_config wit_env)) (po_model chat_ops wit_payload)) (lower_headers []) extra = Inr d"
proof -
  obtain res s' req call where w: "run_gateway_pipeline (wit_with clearing_replies) chat_ops wit_admin [] wit_payload wit_gs = (res, s')"
    "gs_effects s' = gs_effects wit_gs @ [EffInspect req, EffProvider call]"
    using wit_effects [where g = clearing_replies, OF clearing_inspect clearing_apply] by blast
  have m: "st_mock_mode (ge_settings wit_env) = True" "wl_text clearing_wire = map of_char" "wl_string clearing_wire = map char_of"
      "po_with_redacted_text chat_ops = chat_with_redacted_text"
    by (simp_all add: wit_env_def clearing_wire_def chat_ops_def)
  have p: "0 \<le> fst (hi_dlp rq i)" for rq i by (simp add: hi_dlp_def)
  have z: "wl_string clearing_wire t = [] \<Longrightarrow> t = []" for t by (simp add: clearing_wire_def)
  have h: "map of_char ''hi'' = [104, 105 :: nat]" by simp
  have c: "EffProvider call \<in> set [EffInspect req, EffProvider call]" by simp
  from end_to_end_redacted [OF w(1) [folded clearing_env, unfolded clearing_service_def] w(2) c p z, unfolded m clearing_text h]
  obtain found provider extra d where "found_by demo_google hi_dlp [104, 105] found"
      "dispatch_provider (ge_fmt wit_env) (ge_vertex wit_env) True chat_ops provider
        (if found = [] then wit_payload else chat_with_redacted_text wit_payload (map char_of (redact_ref 0 [104, 105] found)))
        (model_entry_for (models_by_id (ge_models_config wit_env)) (po_model chat_ops wit_payload)) (lower_headers []) extra = Inr d"
    by blast
  moreover from this(1) have "found \<noteq> []" by (rule hi_found)
  ultimately show ?thesis by auto
qed

end
