(* ===== verification/ToolsEndToEnd.thy ===== *)
theory ToolsEndToEnd imports EndToEnd McpCall begin

text \<open>
  A tool call through the three services: the gateway's endpoint posts to the tool proxy, which asks the policy, calls the
  tool and has the governance service scan the answer. The policy's answer and the tool's are fields of the proxy's
  environment; how a text is written in JSON is a parameter.
\<close>

section \<open>The scan on the wire\<close>

definition pii_scan_json :: "wire_lib \<Rightarrow> pii_result \<Rightarrow> json" where
  "pii_scan_json wl r =
     JObj [(''pii_findings'', JList (map finding_json (pr_findings r))), (''data_classification'', JStr (pr_classification r)),
       (''redacted_text'', JStr (wl_string wl (pr_redacted r)))]"

text \<open>The request's body is \<open>dumps t\<close>. A scan that does not return within the client's timeout is an error like any other.\<close>

definition dlp_http :: "gov_service \<Rightarrow> wire_lib \<Rightarrow> (utext \<Rightarrow> bytes) \<Rightarrow> string \<Rightarrow> utext \<Rightarrow> dlp_reply" where
  "dlp_http sv wl dumps token t =
     (case gov_body_size_dispatch (Some (py_str_int (int (length (dumps t))))) [dumps t] of
        Inl e \<Rightarrow> DlpTransport
      | Inr TooLarge \<Rightarrow> DlpTransport
      | Inr (CallNext body) \<Rightarrow>
          (case pii_scan sv (Some token) t of
             Some (GovOk r) \<Rightarrow> DlpData (pii_scan_json wl r)
           | _ \<Rightarrow> DlpTransport))"

text \<open>The only text that the proxy has scanned is the tool's answer; the scan is answered by the service, or fails.\<close>

definition scanned_by :: "gov_service \<Rightarrow> wire_lib \<Rightarrow> (utext \<Rightarrow> bytes) \<Rightarrow> string \<Rightarrow> mcp_env \<Rightarrow> bool" where
  "scanned_by sv wl dumps token menv \<longleftrightarrow>
     (case downstream menv of
        DownstreamRaises e \<Rightarrow> True
      | DownstreamStream strm ct \<Rightarrow>
          (case utf8_decode (stream_bytes strm) of
             None \<Rightarrow> True
           | Some t \<Rightarrow> dlp menv = DlpTransport \<or> dlp menv = dlp_http sv wl dumps token t))"

section \<open>The proxy's answer on the wire\<close>

text \<open>Bodies of errors are a parameter; a handler that raises is answered 500.\<close>

definition tool_response :: "(py_error + mcp_response \<Rightarrow> bytes) \<Rightarrow> py_error + mcp_response \<Rightarrow> service_response" where
  "tool_response page res =
     (case res of
        Inl e \<Rightarrow> \<lparr>sv_status = 500, sv_content_type = Some ''text/plain; charset=utf-8'', sv_content = page res, sv_chunks = [page res]\<rparr>
      | Inr (Forbidden m) \<Rightarrow> \<lparr>sv_status = 403, sv_content_type = Some ''application/json'', sv_content = page res, sv_chunks = [page res]\<rparr>
      | Inr PolicyViolation \<Rightarrow> \<lparr>sv_status = 403, sv_content_type = Some ''application/json'', sv_content = page res, sv_chunks = [page res]\<rparr>
      | Inr BadGateway \<Rightarrow> \<lparr>sv_status = 502, sv_content_type = None, sv_content = [], sv_chunks = []\<rparr>
      | Inr (ToolResult bs ct) \<Rightarrow> \<lparr>sv_status = 200, sv_content_type = Some ct, sv_content = bs, sv_chunks = [bs]\<rparr>)"

text \<open>The run of the proxy that answers a call of the gateway.\<close>

definition tool_run ::
    "mcp_settings \<Rightarrow> mcp_env \<Rightarrow> breaker \<Rightarrow> service_call \<Rightarrow> (py_error + mcp_response) \<times> breaker \<times> mcp_effect list" where
  "tool_run cfg menv b call =
     mcp_call cfg menv b (Some (sc_token call)) (case sc_json call of None \<Rightarrow> JNull | Some v \<Rightarrow> v)"

definition tools_behind ::
    "mcp_settings \<Rightarrow> mcp_env \<Rightarrow> breaker \<Rightarrow> (py_error + mcp_response \<Rightarrow> bytes) \<Rightarrow> api_env \<Rightarrow> bool" where
  "tools_behind cfg menv b page env \<longleftrightarrow>
     (\<forall>call r. ae_service env call = ServiceReply r \<longrightarrow> r = tool_response page (fst (tool_run cfg menv b call)))"

section \<open>Lemmas\<close>

lemma tool_response_200: "sv_status (tool_response page res) = 200 \<longleftrightarrow> (\<exists>bs ct. res = Inr (ToolResult bs ct))"
  by (auto simp: tool_response_def split: sum.splits mcp_response.splits)

lemma pii_scan_GovOk:
  assumes "pii_scan sv token t = Some (GovOk r)"
  shows "run_pii (sv_backend sv) t = Some (Inr r)"
proof (cases "run_pii (sv_backend sv) t")
  case (Some z)
  then show ?thesis using assms by (cases z) (auto simp: pii_scan_def Let_def split: sum.splits bool.splits)
qed (use assms in \<open>auto simp: pii_scan_def Let_def split: sum.splits bool.splits\<close>)

text \<open>A clean answer of the scan is a scan without findings.\<close>

lemma dlp_http_clean:
  assumes "scan_for_pii (dlp_http sv wl dumps token t) = Inr r" "\<not> json_truthy (pii_findings r)"
  shows "\<exists>res. run_pii (sv_backend sv) t = Some (Inr res) \<and> pr_findings res = []"
proof -
  obtain res where res: "pii_scan sv (Some token) t = Some (GovOk res)" "dlp_http sv wl dumps token t = DlpData (pii_scan_json wl res)"
    using assms(1) by (auto simp: dlp_http_def scan_for_pii_def split: sum.splits body_verdict.splits option.splits gov_answer.splits)
  have "pii_findings r = JList (map finding_json (pr_findings res))"
    using assms(1) by (auto simp: res(2) scan_for_pii_def pii_scan_json_def jget_or_def dict_get_or_def)
  then have "pr_findings res = []" using assms(2) by simp
  then show ?thesis using pii_scan_GovOk [OF res(1)] by blast
qed

lemma parse_outbound:
  assumes "parse_body nf (tool_outbound caller server body d) = Inr rq"
  shows "rq_body rq = tool_outbound caller server body d" "tenant_id rq = cc_tenant_id caller" "user_id rq = cc_user_id caller"
    "principal rq = JObj [(''user_id'', cc_user_id caller), (''tenant_id'', cc_tenant_id caller), (''roles'', cc_roles caller)]"
    "actor rq = JObj []" "tool rq = JObj (dict_set ''server'' (JStr server) d)"
  using assms by (auto simp: parse_body_def tool_outbound_def ebind_eq_Inr jget_or_def dict_get_or_def)

lemma mcp_call_tool_result:
  assumes "mcp_call cfg menv b tok body = (Inr (ToolResult bs ct), b', effs)"
  obtains rq v pre strm t r where "tok = Some (governance_internal_token cfg)" "parse_body (nfc menv) body = Inr rq"
    "decide cfg menv b rq = (Inr v, b', pre)" "allowed v" "downstream menv = DownstreamStream strm ct"
    "bs = stream_bytes strm" "completes_before TOOL_RESPONSE_TIMEOUT_SECONDS strm" "utf8_decode bs = Some t" "scan_for_pii (dlp menv) = Inr r" "\<not> json_truthy (pii_findings r)"
    "effs = pre @ [EffDownstream (rq_body rq), EffDlpScan t,
       EffAudit (tenant_id rq) (user_id rq) (if used_breakglass v then ''breakglass_tool_call'' else ''mcp_tool_call'') Allow]"
  using assms
proof (cases rule: mcp_call_cases)
  case (forwarded rq v pre post)
  from forwarded(5) show thesis
  proof (cases rule: forward_cases)
    case (sent s ct' bs' t r)
    then show thesis using that [OF forwarded(1,2,3,4)] forwarded(6) by (auto simp: buffer_tool_response_iff)
  qed simp_all
qed simp_all

text \<open>Which effects a decision has, and what it rests on.\<close>

lemma decide_checked:
  assumes "decide cfg menv b rq = (Inr v, b', pre)" "allowed v"
  shows "pre = [EffOpaCheck (principal rq) (actor rq) (tool rq) (rq_context rq)] \<and> check_tool_call (opa menv) = Inr True \<or>
    \<not> is_closed b \<and> breakglass_allowed cfg (fmt menv) (tool rq) = Inr True"
proof (cases "used_breakglass v")
  case True
  then show ?thesis using decide_allowed [OF assms] by blast
next
  case False
  have "pre \<noteq> []"
    using assms False by (auto simp: decide_def Let_def by_breakglass_def ebind_eq_Inr split: sum.splits admission.splits opa_error.splits)
  then show ?thesis using decide_effects [OF assms(1)] decide_allowed [OF assms] False by blast
qed

lemma endpoint_replied:
  assumes "mcp_call_endpoint env server req s = (Inr (ApiResponse r), s')"
  obtains caller call body d reply where "fst (get_caller (ae_auth env) (aq_authorization req) (ps_auth s)) = Inr caller"
    "JStr (''mcp:'' @ server @ '':invoke'') \<in> set (cc_scopes caller)" "ae_service env call = ServiceReply reply"
    "sc_json call = Some (tool_outbound caller server body d)" "ps_calls s' = ps_calls s @ [call]"
    "rs_status r = sv_status reply" "rs_body r = sv_content reply"
proof -
  obtain g a where g: "get_caller (ae_auth env) (aq_authorization req) (ps_auth s) = (g, a)" by force
  then obtain caller where c: "g = Inr caller" using assms by (cases g) (auto simp: mcp_call_endpoint_def with_caller_def)
  then obtain call where call: "tool_call env caller server req = Inr call"
    using assms g by (auto simp: mcp_call_endpoint_def with_caller_def split: sum.splits)
  then obtain reply where r: "ae_service env call = ServiceReply reply" "relayed env reply = ApiResponse r"
      "ps_calls s' = ps_calls s @ [call]"
    using assms g c by (cases "ae_service env call") (auto simp: mcp_call_endpoint_def with_caller_def call_service_def)
  from call show thesis
    by (rule tool_call_Inr) (use that g c r in \<open>auto simp: relayed_def plain_response_def\<close>)
qed

section \<open>Properties\<close>

text \<open>
  C3. A tool's answer that the gateway returns with status 200 is the complete answer of the tool, received in time, and scanned by the DLP service chunk
  by chunk without one reported finding, to an authenticated caller with the scope of the server in the path; the policy
  allowed the call for that caller and server, or the breaker was not closed and the tool on the break-glass list; and the last
  thing the proxy did was to record the allow under the caller's tenant and user. The policy is never told of an actor.
\<close>

theorem tool_result_governed:
  assumes "mcp_call_endpoint env server req s = (Inr (ApiResponse r), s')" "rs_status r = 200"
    and "tools_behind cfg menv b page env" "scanned_by sv wl dumps token menv" "sv_backend sv = google_backend gcfg svc"
  shows "\<exists>caller call toolj context b' effs strm ct t ty.
    fst (get_caller (ae_auth env) (aq_authorization req) (ps_auth s)) = Inr caller \<and>
    JStr (''mcp:'' @ server @ '':invoke'') \<in> set (cc_scopes caller) \<and> jget (as_obj toolj) ''server'' = JStr server \<and>
    ps_calls s' = ps_calls s @ [call] \<and> tool_run cfg menv b call = (Inr (ToolResult (rs_body r) ct), b', effs) \<and>
    (check_tool_call (opa menv) = Inr True \<and>
       hd effs = EffOpaCheck (JObj [(''user_id'', cc_user_id caller), (''tenant_id'', cc_tenant_id caller), (''roles'', cc_roles caller)])
         (JObj []) toolj context \<or>
     \<not> is_closed b \<and> breakglass_allowed cfg (fmt menv) toolj = Inr True) \<and>
    downstream menv = DownstreamStream strm ct \<and> rs_body r = stream_bytes strm \<and>
    completes_before TOOL_RESPONSE_TIMEOUT_SECONDS strm \<and> utf8_encode t = Some (rs_body r) \<and>
    found_by gcfg svc t [] \<and> last effs = EffAudit (cc_tenant_id caller) (cc_user_id caller) ty Allow"
proof -
  obtain caller call body d reply where c: "fst (get_caller (ae_auth env) (aq_authorization req) (ps_auth s)) = Inr caller"
    "JStr (''mcp:'' @ server @ '':invoke'') \<in> set (cc_scopes caller)" "ae_service env call = ServiceReply reply"
    "sc_json call = Some (tool_outbound caller server body d)" "ps_calls s' = ps_calls s @ [call]"
    "rs_status r = sv_status reply" "rs_body r = sv_content reply"
    by (rule endpoint_replied [OF assms(1)])
  then have reply: "reply = tool_response page (fst (tool_run cfg menv b call))" using assms(3) by (auto simp: tools_behind_def)
  then obtain ct b' effs where run: "tool_run cfg menv b call = (Inr (ToolResult (rs_body r) ct), b', effs)"
    using c(6,7) assms(2) tool_response_200 [of page "fst (tool_run cfg menv b call)"]
    by (cases "tool_run cfg menv b call") (auto simp: tool_response_def)
  then have m: "mcp_call cfg menv b (Some (sc_token call)) (tool_outbound caller server body d) = (Inr (ToolResult (rs_body r) ct), b', effs)"
    using c(4) by (simp add: tool_run_def)
  then obtain rq v pre strm t res where w: "parse_body (nfc menv) (tool_outbound caller server body d) = Inr rq"
    "decide cfg menv b rq = (Inr v, b', pre)" "allowed v" "downstream menv = DownstreamStream strm ct"
    "rs_body r = stream_bytes strm" "completes_before TOOL_RESPONSE_TIMEOUT_SECONDS strm" "utf8_decode (rs_body r) = Some t" "scan_for_pii (dlp menv) = Inr res" "\<not> json_truthy (pii_findings res)"
    "effs = pre @ [EffDownstream (rq_body rq), EffDlpScan t,
       EffAudit (tenant_id rq) (user_id rq) (if used_breakglass v then ''breakglass_tool_call'' else ''mcp_tool_call'') Allow]"
    by (rule mcp_call_tool_result)
  note o = parse_outbound [OF w(1)]
  have "dlp menv \<noteq> DlpTransport" using w(8) by (auto simp: scan_for_pii_def)
  then have "dlp menv = dlp_http sv wl dumps token t" using assms(4) w(4,5,7) by (simp add: scanned_by_def)
  then obtain clean where "run_pii (google_backend gcfg svc) t = Some (Inr clean)" "pr_findings clean = []"
    using dlp_http_clean w(8,9) assms(5) by metis
  then have "found_by gcfg svc t []" using run_google_found [of gcfg svc t clean] by (simp add: google_backend_def run_pii_def)
  moreover have "utf8_encode t = Some (rs_body r)" using w(7) by (simp add: utf8_encode_decode)
  moreover have "jget (as_obj (tool rq)) ''server'' = JStr server" unfolding o(6) by (simp add: jget_def dict_get_or_def map_of_dict_set)
  moreover have "check_tool_call (opa menv) = Inr True \<and> hd effs = EffOpaCheck (principal rq) (actor rq) (tool rq) (rq_context rq) \<or>
      \<not> is_closed b \<and> breakglass_allowed cfg (fmt menv) (tool rq) = Inr True"
    using decide_checked [OF w(2,3)] w(10) by auto
  moreover have "last effs = EffAudit (cc_tenant_id caller) (cc_user_id caller) (if used_breakglass v then ''breakglass_tool_call'' else ''mcp_tool_call'') Allow"
    using w(10) o(2,3) by simp
  ultimately show ?thesis using c(1,2,5) run w(4,5,6) unfolding o(4,5)
    by (intro exI [of _ caller] exI [of _ call] exI [of _ "tool rq"] exI [of _ "rq_context rq"] exI [of _ b'] exI [of _ effs]
        exI [of _ strm] exI [of _ ct] exI [of _ t] exI [of _ "if used_breakglass v then ''breakglass_tool_call'' else ''mcp_tool_call''"]
        conjI) assumption+
qed

text \<open>
  The cap on a tool's answer is the scan's limit on a request, but the request wraps the answer in a JSON object: an answer
  within the cap that leaves no room for the wrapping is never returned.
\<close>

theorem large_result_never_returned:
  assumes "mcp_call cfg menv b tok body = (Inr (ToolResult bs ct), b', effs)" "scanned_by sv wl dumps token menv"
    and "\<And>t u. utf8_encode t = Some u \<Longrightarrow> length u + 11 \<le> length (dumps t)"
  shows "length bs + 11 \<le> MAX_TOOL_RESPONSE_BYTES"
  using assms(1)
proof (rule mcp_call_tool_result)
  fix strm t r
  assume d: "downstream menv = DownstreamStream strm ct" "bs = stream_bytes strm" "utf8_decode bs = Some t" "scan_for_pii (dlp menv) = Inr r"
  have "dlp menv \<noteq> DlpTransport" using d(4) by (auto simp: scan_for_pii_def)
  then have "dlp menv = dlp_http sv wl dumps token t" using assms(2) d(1,2,3) by (simp add: scanned_by_def)
  then have "gov_body_size_dispatch (Some (py_str_int (int (length (dumps t))))) [dumps t] \<noteq> Inr TooLarge"
    using \<open>dlp menv \<noteq> DlpTransport\<close> by (auto simp: dlp_http_def)
  moreover obtain v where "gov_body_size_dispatch (Some (py_str_int (int (length (dumps t))))) [dumps t] = Inr v"
    using \<open>dlp menv \<noteq> DlpTransport\<close> \<open>dlp menv = _\<close> by (auto simp: dlp_http_def split: sum.splits)
  ultimately have "length (dumps t) \<le> GOV_MAX_BODY_SIZE"
    by (auto simp: gov_body_size_dispatch_def ebind_eq_Inr split: if_splits)
  then show ?thesis using assms(3) [of t bs] d(3) by (simp add: utf8_encode_decode GOV_MAX_BODY_SIZE_def MAX_TOOL_RESPONSE_BYTES_def)
qed

section \<open>Witnesses\<close>

definition quiet_dlp :: dlp_service where
  "quiet_dlp rq k = (1, InspectOk \<lparr>findings_truncated = False, result_findings = []\<rparr>)"

definition tool_gov :: gov_service where
  "tool_gov = backed_by (google_backend demo_google quiet_dlp) demo_service"

definition tool_env :: mcp_env where
  "tool_env = (demo_env (OpaData (JObj [(''result'', JBool True)])))\<lparr>dlp := dlp_http tool_gov clearing_wire (\<lambda>t. [0]) ''tok'' [104, 105]\<rparr>"

definition tool_world :: api_env where
  "tool_world = scoped_env\<lparr>ae_service := (\<lambda>call. ServiceReply (tool_response (\<lambda>_. []) (fst (tool_run demo_settings tool_env new_breaker call))))\<rparr>"

lemma tool_clean: "run_pii (google_backend demo_google quiet_dlp) [104, 105] =
    Some (Inr \<lparr>pr_findings = [], pr_classification = ''none'', pr_redacted = [104, 105]\<rparr>)"
proof -
  have fuel: "retry_fuel 5 = Suc 25" by (simp add: retry_fuel_def)
  have insp: "inspect_content_with_backoff 5 (quiet_dlp rq) = Some (Inr \<lparr>findings_truncated = False, result_findings = []\<rparr>)" for rq
    unfolding inspect_content_with_backoff_def fuel by (simp only: inspect_loop.simps Let_def) (simp add: quiet_dlp_def)
  show ?thesis
    by (simp add: run_pii_def google_backend_def run_google_def hi_chunks scan_chunk_def demo_google_def insp
        normalize_google_findings_def deduplicate_findings_def redact_with_typed_markers_def)
qed

lemma tool_dlp: "dlp tool_env = DlpData (JObj [(''pii_findings'', JList []), (''data_classification'', JStr ''none''),
    (''redacted_text'', JStr (wl_string clearing_wire [104, 105]))])"
proof -
  have "sv_backend tool_gov = google_backend demo_google quiet_dlp" by (simp add: tool_gov_def backed_by_def)
  moreover have "internal_token (sv_settings tool_gov) = ''tok''" "pii_backend_setting (sv_settings tool_gov) = ''presidio''"
    by (simp_all add: tool_gov_def backed_by_def demo_service_def demo_gov_settings_def)
  ultimately have "pii_scan tool_gov (Some ''tok'') [104, 105] = Some (GovOk \<lparr>pr_findings = [], pr_classification = ''none'', pr_redacted = [104, 105]\<rparr>)"
    using clearing_token tool_clean by (simp add: pii_scan_def require_fresh_google_credentials_def)
  then show ?thesis using clearing_dispatch by (simp add: tool_env_def dlp_http_def pii_scan_json_def)
qed

lemma tool_called: "\<exists>effs. mcp_call demo_settings tool_env new_breaker (Some ''tok'') (tool_outbound caller ''files'' [] []) =
    (Inr (ToolResult [104, 105] ''text''), new_breaker, effs)"
proof -
  have e: "nfc tool_env = id" "admit_time tool_env = 100" "settle_time tool_env = 101" "opa tool_env = OpaData (JObj [(''result'', JBool True)])"
    "downstream tool_env = DownstreamStream (Chunk 1 [104] (Chunk 2 [105] (StreamEnd 3))) ''text''"
    by (simp_all add: tool_env_def demo_env_def)
  show ?thesis
    by (simp add: mcp_call_def demo_settings_def tool_outbound_def token_accepted_def truthy_str_def
      compare_digest_def is_ascii_def parse_body_def jget_or_def dict_get_or_def
      normalize_context_def decide_def admit_def is_closed_def new_breaker_def settle_def
      record_success_def check_tool_call_def forward_def buffer_tool_response_def
      MAX_TOOL_RESPONSE_BYTES_def TOOL_RESPONSE_TIMEOUT_SECONDS_def scan_and_answer_def
      scan_for_pii_def send_audit_event_def e tool_dlp)
qed

lemma tool_result_governed_witness:
  "\<exists>r t. fst (mcp_call_endpoint tool_world ''files'' scoped_req edge_state) = Inr (ApiResponse r) \<and> rs_body r = [104, 105] \<and>
     utf8_encode t = Some [104, 105] \<and> found_by demo_google quiet_dlp t []"
proof -
  obtain caller a where c: "get_caller (ae_auth tool_world) (aq_authorization scoped_req) (ps_auth edge_state) = (Inr caller, a)"
    "cc_scopes caller = [JStr ''mcp:files:invoke'']" "cc_client_id caller = JNull"
    by (simp add: get_caller_def authenticate_def tool_world_def scoped_env_def scoped_req_def edge_env_def validate_jwt_def wit_lib_def
        as_caller_def startswith_Cons jget_or_def dict_get_or_def scope_list_def py_split_ws_def py_is_space_def Let_def)
  let ?call = "\<lparr>sc_method = ''POST'', sc_url = ae_mcpproxy_url tool_world @ ''/v1/mcp/call'', sc_params = [], sc_token = ''tok'',
      sc_json = Some (tool_outbound caller ''files'' [] [])\<rparr>"
  have t: "tool_call tool_world caller ''files'' scoped_req = Inr ?call"
    using c(2,3) by (simp add: tool_call_def enforce_mcp_scope_def enforce_act_claim_def parse_json_body_def tool_world_def scoped_env_def
        edge_env_def wit_env_def ebind_def jget_or_def dict_get_or_def Let_def)
  have run: "fst (tool_run demo_settings tool_env new_breaker ?call) = Inr (ToolResult [104, 105] ''text'')"
    using tool_called [of caller] by (auto simp: tool_run_def)
  have "ae_service tool_world ?call = ServiceReply (tool_response (\<lambda>_. []) (Inr (ToolResult [104, 105] ''text'')))"
    unfolding run [symmetric] by (simp add: tool_world_def)
  then obtain r s' where r: "mcp_call_endpoint tool_world ''files'' scoped_req edge_state = (Inr (ApiResponse r), s')" "rs_status r = 200"
      "rs_body r = [104, 105]"
    using c(1) t by (simp add: mcp_call_endpoint_def with_caller_def call_service_def relayed_def plain_response_def tool_response_def)
  have b: "tools_behind demo_settings tool_env new_breaker (\<lambda>_. []) tool_world"
    by (simp add: tools_behind_def tool_world_def)
  have "utf8_decode [104, 105] = Some [104, 105 :: nat]"
    using hi_utf8 by (simp add: utf8_encode_decode)
  then have sc: "scanned_by tool_gov clearing_wire (\<lambda>t. [0]) ''tok'' tool_env" by (simp add: scanned_by_def tool_env_def demo_env_def)
  have g: "sv_backend tool_gov = google_backend demo_google quiet_dlp" by (simp add: tool_gov_def backed_by_def)
  from tool_result_governed [OF r(1,2) b sc g] r show ?thesis by (metis fst_conv)
qed

end
