(* ===== verification/Dashboard.thy ===== *)
theory Dashboard imports Gateway begin

text \<open>
  The usage dashboard (\<open>proxy/app/dashboard.py\<close>): who may see which rows of the usage log, the time window, and the
  three grouped queries. The table is a list of rows with their time; the clock, the parsing of ISO dates and the
  database's collation are parameters; rendering the template is left out.
\<close>

section \<open>Scope and window\<close>

record logged_row = usage_row +
  lr_created_at :: rat            \<comment> \<open>seconds since the epoch, UTC\<close>

record dash_env =
  de_now :: rat
  de_iso :: "string \<Rightarrow> int option"   \<comment> \<open>\<open>date.fromisoformat\<close>, in days since the epoch\<close>
  de_order :: "string list \<Rightarrow> string list"  \<comment> \<open>\<open>ORDER BY\<close> of distinct texts\<close>

definition get_dashboard_caller ::
    "auth_lib \<Rightarrow> string option \<Rightarrow> auth_state \<Rightarrow> (gateway_error + caller_context) \<times> auth_state" where
  "get_dashboard_caller lib authorization s =
     (let (r, s') = authenticate lib authorization True s in (as_caller r, s'))"

record dashboard_scope =
  ds_tenant_id :: json
  ds_api_key_prefix :: "string option"

definition resolve_scope :: "caller_context \<Rightarrow> py_error + dashboard_scope option" where
  "resolve_scope caller =
     ebind (py_in ''admin'' (cc_roles caller)) (\<lambda>admin.
       Inr (if admin then Some \<lparr>ds_tenant_id = cc_tenant_id caller, ds_api_key_prefix = None\<rparr>
            else if \<not> truthy_str (cc_api_key_prefix caller) then None
            else Some \<lparr>ds_tenant_id = cc_tenant_id caller, ds_api_key_prefix = cc_api_key_prefix caller\<rparr>))"

definition VALID_RANGES :: "string list" where
  "VALID_RANGES = [''today'', ''7d'', ''30d'', ''all'', ''custom'']"

definition EPOCH :: rat where
  "EPOCH = 0"

definition day_seconds :: rat where
  "day_seconds = 86400"

definition day_start :: "int \<Rightarrow> rat" where
  "day_start d = of_int d * day_seconds"

text \<open>\<open>time.max\<close> is one microsecond before midnight.\<close>

definition day_end :: "int \<Rightarrow> rat" where
  "day_end d = day_start (d + 1) - 1 / 1000000"

definition bad_range :: "string \<Rightarrow> gateway_error" where
  "bad_range message = http_error 400 ''invalid_range'' message"

definition custom_range :: "dash_env \<Rightarrow> string option \<Rightarrow> string option \<Rightarrow> gateway_error + rat \<times> rat" where
  "custom_range env start_param end_param =
     (if \<not> truthy_str start_param \<or> \<not> truthy_str end_param
      then Inl (bad_range ''Custom range requires both start and end dates'')
      else (case (de_iso env (the start_param), de_iso env (the end_param)) of
              (Some a, Some b) \<Rightarrow>
                (if a > b then Inl (bad_range ''start date must not be after end date'')
                 else Inr (day_start a, day_end b))
            | _ \<Rightarrow> Inl (bad_range ''start and end must be ISO dates (YYYY-MM-DD)'')))"

definition resolve_range ::
    "dash_env \<Rightarrow> string \<Rightarrow> string option \<Rightarrow> string option \<Rightarrow> gateway_error + rat \<times> rat" where
  "resolve_range env range_param start_param end_param =
     (if range_param \<notin> set VALID_RANGES then Inl (bad_range (''Unknown range: '' @ range_param))
      else if range_param = ''today'' then Inr (day_start \<lfloor>de_now env / day_seconds\<rfloor>, de_now env)
      else if range_param = ''7d'' then Inr (de_now env - 7 * day_seconds, de_now env)
      else if range_param = ''30d'' then Inr (de_now env - 30 * day_seconds, de_now env)
      else if range_param = ''all'' then Inr (EPOCH, de_now env)
      else custom_range env start_param end_param)"

section \<open>Queries\<close>

definition scope_where :: "dashboard_scope \<Rightarrow> rat \<Rightarrow> rat \<Rightarrow> logged_row \<Rightarrow> bool" where
  "scope_where sc start end_time r \<longleftrightarrow>
     ur_tenant_id r = ds_tenant_id sc \<and> lr_created_at r \<ge> start \<and> lr_created_at r \<le> end_time \<and>
     (case ds_api_key_prefix sc of None \<Rightarrow> True | Some p \<Rightarrow> ur_api_key_prefix r = p)"

record usage_group =
  ug_key :: string
  ug_request_count :: nat
  ug_prompt_tokens :: int
  ug_completion_tokens :: int
  ug_total_tokens :: int
  ug_cost_usd :: "rat option"

text \<open>\<open>SUM\<close> leaves nulls out and is null when nothing is left.\<close>

definition sql_sum :: "rat option list \<Rightarrow> rat option" where
  "sql_sum xs = (case List.map_filter id xs of [] \<Rightarrow> None | ys \<Rightarrow> Some (sum_list ys))"

definition group_keys :: "dash_env \<Rightarrow> (logged_row \<Rightarrow> string) \<Rightarrow> logged_row list \<Rightarrow> string list" where
  "group_keys env key rows = de_order env (remdups (map key rows))"

definition usage_group_of :: "string \<Rightarrow> logged_row list \<Rightarrow> usage_group" where
  "usage_group_of k rows =
     \<lparr>ug_key = k, ug_request_count = length rows,
      ug_prompt_tokens = sum_list (map (\<lambda>r. prompt_tokens (ur_usage r)) rows),
      ug_completion_tokens = sum_list (map (\<lambda>r. completion_tokens (ur_usage r)) rows),
      ug_total_tokens = sum_list (map (\<lambda>r. total_tokens (ur_usage r)) rows),
      ug_cost_usd = sql_sum (map ur_cost_usd rows)\<rparr>"

definition grouped :: "dash_env \<Rightarrow> (logged_row \<Rightarrow> string) \<Rightarrow> logged_row list \<Rightarrow> usage_group list" where
  "grouped env key rows =
     map (\<lambda>k. usage_group_of k (filter (\<lambda>r. key r = k) rows)) (group_keys env key rows)"

definition fetch_by_model :: "dash_env \<Rightarrow> logged_row list \<Rightarrow> dashboard_scope \<Rightarrow> rat \<Rightarrow> rat \<Rightarrow> usage_group list" where
  "fetch_by_model env rows sc start end_time = grouped env ur_model_id (filter (scope_where sc start end_time) rows)"

definition fetch_by_api_key :: "dash_env \<Rightarrow> logged_row list \<Rightarrow> dashboard_scope \<Rightarrow> rat \<Rightarrow> rat \<Rightarrow> usage_group list" where
  "fetch_by_api_key env rows sc start end_time = grouped env ur_api_key_prefix (filter (scope_where sc start end_time) rows)"

definition fetch_status_breakdown ::
    "dash_env \<Rightarrow> logged_row list \<Rightarrow> dashboard_scope \<Rightarrow> rat \<Rightarrow> rat \<Rightarrow> (string \<times> nat) list" where
  "fetch_status_breakdown env rows sc start end_time =
     (let hits = filter (scope_where sc start end_time) rows in
      map (\<lambda>k. (k, length (filter (\<lambda>r. ur_status r = k) hits))) (group_keys env ur_status hits))"

section \<open>The page\<close>

record dash_query =
  dq_range :: string
  dq_start :: "string option"
  dq_end :: "string option"
  dq_api_key_prefix :: "string option"

record dash_data =
  dd_by_model :: "usage_group list"
  dd_by_api_key :: "usage_group list"
  dd_status_breakdown :: "(string \<times> nat) list"
  dd_has_usage :: bool

text \<open>An administrator may narrow the view to one key; anybody else's parameter is ignored.\<close>

definition narrowed :: "bool \<Rightarrow> dash_query \<Rightarrow> dashboard_scope \<Rightarrow> dashboard_scope" where
  "narrowed admin q sc =
     (if admin \<and> truthy_str (dq_api_key_prefix q) then sc\<lparr>ds_api_key_prefix := dq_api_key_prefix q\<rparr> else sc)"

definition dash_of :: "usage_group list \<Rightarrow> usage_group list \<Rightarrow> (string \<times> nat) list \<Rightarrow> dash_data" where
  "dash_of models keys statuses =
     \<lparr>dd_by_model = models, dd_by_api_key = keys, dd_status_breakdown = statuses,
      dd_has_usage = (models \<noteq> [] \<or> keys \<noteq> [] \<or> statuses \<noteq> [])\<rparr>"

text \<open>A tenant id that is no text is refused by the database driver.\<close>

definition dashboard_data ::
    "dash_env \<Rightarrow> caller_context \<Rightarrow> dash_query \<Rightarrow> logged_row list \<Rightarrow> gateway_error + dash_data" where
  "dashboard_data env caller q rows =
     ebind (resolve_range env (dq_range q) (dq_start q) (dq_end q)) (\<lambda>(start, end_time).
     ebind (raised (resolve_scope caller)) (\<lambda>scope.
       case scope of
         None \<Rightarrow> Inr (dash_of [] [] [])
       | Some sc0 \<Rightarrow>
           ebind (raised (py_in ''admin'' (cc_roles caller))) (\<lambda>admin.
             let sc = narrowed admin q sc0 in
             if as_str (ds_tenant_id sc) = None then Inl (Unhandled TypeError)
             else Inr (dash_of (fetch_by_model env rows sc start end_time) (fetch_by_api_key env rows sc start end_time)
                         (fetch_status_breakdown env rows sc start end_time)))))"

section \<open>Lemmas\<close>

text \<open>The rows a caller may see.\<close>

definition may_see :: "caller_context \<Rightarrow> logged_row \<Rightarrow> bool" where
  "may_see caller r \<longleftrightarrow>
     ur_tenant_id r = cc_tenant_id caller \<and>
     (py_in ''admin'' (cc_roles caller) = Inr True \<or> ur_api_key_prefix r \<noteq> [] \<and> cc_api_key_prefix caller = Some (ur_api_key_prefix r))"

text \<open>The rows a page covers: an administrator's parameter narrows them, anybody else's does not.\<close>

definition shown :: "caller_context \<Rightarrow> dash_query \<Rightarrow> rat \<Rightarrow> rat \<Rightarrow> logged_row \<Rightarrow> bool" where
  "shown caller q start end_time r \<longleftrightarrow>
     may_see caller r \<and> start \<le> lr_created_at r \<and> lr_created_at r \<le> end_time \<and>
     (py_in ''admin'' (cc_roles caller) = Inr True \<longrightarrow> truthy_str (dq_api_key_prefix q) \<longrightarrow>
        dq_api_key_prefix q = Some (ur_api_key_prefix r))"

lemma shown_nothing: "resolve_scope caller = Inr None \<Longrightarrow> \<not> shown caller q start end_time r"
  by (auto simp: resolve_scope_def ebind_eq_Inr shown_def may_see_def truthy_str_def split: if_splits)

lemma dashboard_data_Inr:
  assumes "dashboard_data env caller q rows = Inr d"
  obtains (unseen) start end_time where "resolve_scope caller = Inr None"
      "resolve_range env (dq_range q) (dq_start q) (dq_end q) = Inr (start, end_time)"
      "\<And>rows'. dashboard_data env caller q rows' = Inr (dash_of [] [] [])"
  | (seen) sc start end_time where "resolve_range env (dq_range q) (dq_start q) (dq_end q) = Inr (start, end_time)"
      "\<And>r. scope_where sc start end_time r \<longleftrightarrow> shown caller q start end_time r"
      "\<And>rows'. dashboard_data env caller q rows' = Inr (dash_of (fetch_by_model env rows' sc start end_time)
         (fetch_by_api_key env rows' sc start end_time) (fetch_status_breakdown env rows' sc start end_time))"
proof -
  obtain start end_time where r: "resolve_range env (dq_range q) (dq_start q) (dq_end q) = Inr (start, end_time)"
    using assms by (auto simp: dashboard_data_def ebind_eq_Inr)
  obtain scope where s: "resolve_scope caller = Inr scope"
    using assms by (auto simp: dashboard_data_def ebind_eq_Inr)
  then obtain admin where a: "py_in ''admin'' (cc_roles caller) = Inr admin"
    by (auto simp: resolve_scope_def ebind_eq_Inr)
  show thesis
  proof (cases scope)
    case None
    show thesis by (rule unseen) (use None r s in \<open>simp_all add: dashboard_data_def raised_def\<close>)
  next
    case (Some sc0)
    let ?sc = "narrowed admin q sc0"
    have "as_str (ds_tenant_id ?sc) \<noteq> None"
      using assms r s a Some by (auto simp: dashboard_data_def raised_def Let_def split: if_splits)
    moreover have "scope_where ?sc start end_time x \<longleftrightarrow> shown caller q start end_time x" for x
      using s a Some
      by (auto simp: resolve_scope_def scope_where_def shown_def may_see_def narrowed_def truthy_str_def split: if_splits option.splits)
    ultimately show thesis using seen [OF r, of ?sc] r s a Some
      by (auto simp: dashboard_data_def raised_def Let_def)
  qed
qed

lemma filter_implied: "(\<And>x. P x \<Longrightarrow> Q x) \<Longrightarrow> filter P (filter Q xs) = filter P xs"
  by (induction xs) auto

lemma dashboard_data_Inl: "dashboard_data env caller q rows = Inl e \<Longrightarrow> dashboard_data env caller q rows' = Inl e"
  by (auto simp: dashboard_data_def ebind_def Let_def split: option.splits if_splits sum.splits)

text \<open>\<open>ORDER BY\<close> only orders.\<close>

definition collation_ok :: "dash_env \<Rightarrow> bool" where
  "collation_ok env \<longleftrightarrow> (\<forall>xs. distinct xs \<longrightarrow> distinct (de_order env xs) \<and> set (de_order env xs) = set xs)"

lemma sum_over_keys:
  assumes "collation_ok env"
  shows "sum_list (map (\<lambda>k. sum_list (map f (filter (\<lambda>r. key r = k) rows))) (group_keys env key rows)) = (sum_list (map f rows) :: 'a::comm_monoid_add)"
proof -
  have d: "distinct (group_keys env key rows)" "set (group_keys env key rows) = key ` set rows"
    using assms by (simp_all add: collation_ok_def group_keys_def)
  have "sum_list (map (\<lambda>k. sum_list (map f (filter (\<lambda>r. key r = k) rows))) ks) = sum_list (map f (filter (\<lambda>r. key r \<in> set ks) rows))"
    if "distinct ks" for ks
    using that
  proof (induction ks)
    case (Cons k ks)
    have "sum_list (map f (filter (\<lambda>r. key r = k) rows)) + sum_list (map f (filter (\<lambda>r. key r \<in> set ks) rows)) =
        sum_list (map f (filter (\<lambda>r. key r = k \<or> key r \<in> set ks) rows))"
      using Cons.prems by (induction rows) (auto simp: ac_simps)
    then show ?case using Cons by simp
  qed simp
  then show ?thesis using d by simp
qed

lemma grouped_counts:
  assumes "collation_ok env"
  shows "sum_list (map ug_request_count (grouped env key hits)) = length hits"
    "sum_list (map (\<lambda>k. length (filter (\<lambda>r. key r = k) hits)) (group_keys env key hits)) = length hits"
  using sum_over_keys [OF assms, of "\<lambda>x. 1 :: nat" key hits]
  by (simp_all add: grouped_def usage_group_of_def comp_def sum_list_triv)

lemma grouped_tokens:
  assumes "collation_ok env"
  shows "sum_list (map ug_total_tokens (grouped env key hits)) = sum_list (map (\<lambda>r. total_tokens (ur_usage r)) hits)"
  using sum_over_keys [OF assms, of "\<lambda>r. total_tokens (ur_usage r)" key hits]
  by (simp add: grouped_def usage_group_of_def comp_def)

lemma grouped_empty:
  assumes "collation_ok env"
  shows "group_keys env key hits = [] \<longleftrightarrow> hits = []" "grouped env key hits = [] \<longleftrightarrow> hits = []"
proof -
  have "set (group_keys env key hits) = key ` set hits" using assms by (simp add: collation_ok_def group_keys_def)
  then show "group_keys env key hits = [] \<longleftrightarrow> hits = []" by (metis image_is_empty set_empty)
  then show "grouped env key hits = [] \<longleftrightarrow> hits = []" by (simp add: grouped_def)
qed

section \<open>Properties\<close>

text \<open>
  C31. The dashboard shows nobody another's usage: two logs that agree on the rows of the caller's tenant (for callers who are
  no administrators: made with the caller's own API key) give the caller the same page, whatever the query asks for.
\<close>

theorem dashboard_isolated:
  assumes "filter (may_see caller) rows = filter (may_see caller) rows'"
  shows "dashboard_data env caller q rows = dashboard_data env caller q rows'"
proof (cases "dashboard_data env caller q rows")
  case (Inl e)
  then show ?thesis using dashboard_data_Inl by metis
next
  case (Inr d)
  then show ?thesis
  proof (cases rule: dashboard_data_Inr)
    case (seen sc start end_time)
    have v: "scope_where sc start end_time r \<Longrightarrow> may_see caller r" for r using seen(2) by (simp add: shown_def)
    have "filter (scope_where sc start end_time) rows = filter (scope_where sc start end_time) rows'"
      by (subst (1 2) filter_implied [OF v, symmetric], assumption, assumption) (simp add: assms)
    then show ?thesis
      unfolding seen(3) by (simp add: fetch_by_model_def fetch_by_api_key_def fetch_status_breakdown_def)
  qed simp
qed

text \<open>
  A page covers exactly the rows it should, and its three tables count the same requests: the rows are those the caller may
  see that lie in the window the query resolves to, narrowed to a key when an administrator names one; the counts by model,
  by API key and by status each add up to their number, and so do the tokens.
\<close>

theorem dashboard_adds_up:
  assumes "dashboard_data env caller q rows = Inr d" "collation_ok env"
  shows "\<exists>start end_time. resolve_range env (dq_range q) (dq_start q) (dq_end q) = Inr (start, end_time) \<and>
    (let hits = filter (shown caller q start end_time) rows in
      sum_list (map ug_request_count (dd_by_model d)) = length hits \<and>
      sum_list (map ug_request_count (dd_by_api_key d)) = length hits \<and>
      sum_list (map snd (dd_status_breakdown d)) = length hits \<and>
      sum_list (map ug_total_tokens (dd_by_model d)) = sum_list (map (\<lambda>r. total_tokens (ur_usage r)) hits) \<and>
      sum_list (map ug_total_tokens (dd_by_api_key d)) = sum_list (map (\<lambda>r. total_tokens (ur_usage r)) hits) \<and>
      (dd_has_usage d \<longleftrightarrow> hits \<noteq> []))"
  using assms(1)
proof (cases rule: dashboard_data_Inr)
  case (unseen start end_time)
  have "filter (shown caller q start end_time) rows = []" using shown_nothing [OF unseen(1)] by simp
  then show ?thesis using unseen(2,3) assms(1) by (auto simp: dash_of_def)
next
  case (seen sc start end_time)
  have d: "d = dash_of (fetch_by_model env rows sc start end_time) (fetch_by_api_key env rows sc start end_time)
      (fetch_status_breakdown env rows sc start end_time)" using seen(3) [of rows] assms(1) by simp
  have f: "scope_where sc start end_time = shown caller q start end_time" using seen(2) by blast
  show ?thesis
    by (rule exI [where x = start], rule exI [where x = end_time])
      (simp add: seen(1) d dash_of_def fetch_by_model_def fetch_by_api_key_def fetch_status_breakdown_def f
        grouped_counts [OF assms(2)] grouped_tokens [OF assms(2)] grouped_empty [OF assms(2)] comp_def Let_def del: filter_filter)
qed

section \<open>Witnesses\<close>

definition dash_demo :: dash_env where
  "dash_demo = \<lparr>de_now = 100, de_iso = (\<lambda>s. None), de_order = (\<lambda>xs. xs)\<rparr>"

definition dash_row :: "string \<Rightarrow> string \<Rightarrow> logged_row" where
  "dash_row tenant model = \<lparr>ur_day = 0, ur_tenant_id = JStr tenant, ur_api_key_prefix = ''p'', ur_user_id = JStr ''u'', ur_model_id = model,
     ur_status = ''allowed'', ur_usage = \<lparr>prompt_tokens = 1, completion_tokens = 2, total_tokens = 3\<rparr>, ur_cost_usd = None,
     ur_latency_ms = 1, lr_created_at = 50\<rparr>"

definition all_time :: dash_query where
  "all_time = \<lparr>dq_range = ''all'', dq_start = None, dq_end = None, dq_api_key_prefix = None\<rparr>"

lemma dash_demo_page: "dashboard_data dash_demo wit_admin all_time [dash_row ''t'' ''m''] =
    Inr \<lparr>dd_by_model = [usage_group_of ''m'' [dash_row ''t'' ''m'']], dd_by_api_key = [usage_group_of ''p'' [dash_row ''t'' ''m'']],
       dd_status_breakdown = [(''allowed'', 1)], dd_has_usage = True\<rparr>"
  by (simp add: dashboard_data_def resolve_range_def VALID_RANGES_def all_time_def resolve_scope_def wit_admin_def key_caller_def
      raised_def narrowed_def truthy_str_def dash_of_def fetch_by_model_def fetch_by_api_key_def fetch_status_breakdown_def
      grouped_def group_keys_def scope_where_def dash_demo_def EPOCH_def Let_def) (simp add: dash_row_def)

lemma dashboard_isolated_witness:
  "dashboard_data dash_demo wit_admin all_time [dash_row ''t'' ''m'', dash_row ''other'' ''secret''] =
   Inr \<lparr>dd_by_model = [usage_group_of ''m'' [dash_row ''t'' ''m'']], dd_by_api_key = [usage_group_of ''p'' [dash_row ''t'' ''m'']],
      dd_status_breakdown = [(''allowed'', 1)], dd_has_usage = True\<rparr>"
proof -
  have "filter (may_see wit_admin) [dash_row ''t'' ''m'', dash_row ''other'' ''secret''] = filter (may_see wit_admin) [dash_row ''t'' ''m'']"
    by (simp add: may_see_def dash_row_def wit_admin_def key_caller_def)
  from dashboard_isolated [OF this, of dash_demo all_time] show ?thesis unfolding dash_demo_page .
qed

lemma dashboard_adds_up_witness:
  "\<exists>start end_time. shown wit_admin all_time start end_time (dash_row ''t'' ''m'')"
proof -
  have "collation_ok dash_demo" by (simp add: collation_ok_def dash_demo_def)
  from dashboard_adds_up [OF dash_demo_page this] obtain start end_time where
    "length (filter (shown wit_admin all_time start end_time) [dash_row ''t'' ''m'']) = 1"
    by (auto simp: usage_group_of_def Let_def simp del: filter.simps)
  then have "shown wit_admin all_time start end_time (dash_row ''t'' ''m'')" by (simp split: if_splits)
  then show ?thesis by blast
qed

end
