(* ===== verification/StripEntitlements.thy ===== *)
theory StripEntitlements imports Entitlements begin

text \<open>
  The build step of the policy sidecar's image (\<open>opa-sidecar/strip_entitlements.py\<close>): it cuts the entitlements out of
  the Rego source and imports them instead, so that the bundle the governance service builds from the same source can
  supply them. The two programs have each their own scanner; the development shows that they cut and read the same text.
\<close>

section \<open>Cutting\<close>

text \<open>
  \<open>ENTITLEMENTS_MARKER.search\<close>: the text before the match, and the text after it. The match may begin with white space
  of earlier lines.
\<close>

fun find_marker :: "bool \<Rightarrow> string \<Rightarrow> (string \<times> string) option" where
  "find_marker bol [] = None"
| "find_marker bol (c # cs) =
     (case (if bol then marker_here (c # cs) else None) of
        Some after \<Rightarrow> Some ([], after)
      | None \<Rightarrow> map_option (\<lambda>(before, after). (c # before, after)) (find_marker (c = CHR 10) cs))"

text \<open>\<open>_find_block_end\<close>: how many characters the block has.\<close>

fun find_block_end :: "nat \<Rightarrow> bool \<Rightarrow> bool \<Rightarrow> string \<Rightarrow> nat option" where
  "find_block_end depth in_string escape [] = None"
| "find_block_end depth in_string escape (ch # cs) =
     map_option Suc
       (if in_string then
          (if escape then find_block_end depth True False cs
           else if ch = CHR 92 then find_block_end depth True True cs
           else find_block_end depth (ch \<noteq> CHR 34) False cs)
        else if ch = CHR 34 then find_block_end depth True escape cs
        else if ch = CHR ''{'' then find_block_end (depth + 1) False escape cs
        else if ch = CHR ''}'' then
          (if depth - 1 = 0 then Some 0 else find_block_end (depth - 1) False escape cs)
        else find_block_end depth False escape cs)"

section \<open>Importing\<close>

definition IMPORT_STATEMENT :: string where
  "IMPORT_STATEMENT = ''import data.mcp.authz.entitlements'' @ [CHR 10]"

definition import_line :: string where
  "import_line = rev (dropWhile (\<lambda>c. c = CHR 10) (rev IMPORT_STATEMENT))"

definition text_lines :: "string \<Rightarrow> string list" where
  "text_lines s = py_split_on (CHR 10) s"

definition join_lines :: "string list \<Rightarrow> string" where
  "join_lines ls = py_join [CHR 10] ls"

text \<open>
  The two patterns match whole lines, from \<open>^\<close> to \<open>$\<close>: the insertion goes after the last line with an import, else after
  the first one with the package.
\<close>

fun insert_after_last :: "(string \<Rightarrow> bool) \<Rightarrow> string list \<Rightarrow> string list \<Rightarrow> string list option" where
  "insert_after_last P new [] = None"
| "insert_after_last P new (l # ls) =
     (case insert_after_last P new ls of
        Some r \<Rightarrow> Some (l # r)
      | None \<Rightarrow> if P l then Some (l # new @ ls) else None)"

fun insert_after_first :: "(string \<Rightarrow> bool) \<Rightarrow> string list \<Rightarrow> string list \<Rightarrow> string list option" where
  "insert_after_first P new [] = None"
| "insert_after_first P new (l # ls) = (if P l then Some (l # new @ ls) else map_option ((#) l) (insert_after_first P new ls))"

definition inject_entitlements_import :: "string \<Rightarrow> py_error + string" where
  "inject_entitlements_import rego_text =
     (case insert_after_last (\<lambda>l. py_startswith l ''import '') [import_line] (text_lines rego_text) of
        Some ls \<Rightarrow> Inr (join_lines ls)
      | None \<Rightarrow>
          (case insert_after_first (\<lambda>l. py_startswith l ''package '') [[], import_line] (text_lines rego_text) of
             Some ls \<Rightarrow> Inr (join_lines ls)
           | None \<Rightarrow> Inl (ValueError (''no '' @ [CHR 39] @ ''package'' @ [CHR 39] @ '' declaration found''))))"

definition strip_entitlements :: "string \<Rightarrow> py_error + string" where
  "strip_entitlements rego_text =
     (case find_marker True rego_text of
        None \<Rightarrow> Inl (ValueError (''no '' @ [CHR 39] @ ''entitlements :='' @ [CHR 39] @ '' assignment found''))
      | Some (before, after) \<Rightarrow>
          (let from_brace = dropWhile (\<lambda>c. c \<noteq> CHR ''{'') after in
           if from_brace = [] then Inl (ValueError (''no opening '' @ [CHR 39] @ ''{'' @ [CHR 39] @ '' found after '' @ [CHR 39] @ ''entitlements :='' @ [CHR 39]))
           else (case find_block_end 0 False False from_brace of
                   None \<Rightarrow> Inl (ValueError ''unbalanced braces in entitlements value'')
                 | Some n \<Rightarrow> inject_entitlements_import (before @ drop n from_brace))))"

section \<open>Lemmas\<close>

lemma find_marker_search: "search_marker bol s = map_option snd (find_marker bol s)"
proof (induction bol s rule: find_marker.induct)
  case (2 bol c cs)
  show ?case
  proof (cases "if bol then marker_here (c # cs) else None")
    case None
    then show ?thesis using 2 [OF None]
      by (simp add: option.map_comp comp_def case_prod_unfold del: not_None_eq split del: if_split)
  next
    case (Some r)
    then show ?thesis by (simp split del: if_split)
  qed
qed simp

text \<open>What follows the marker is a suffix of what it was found in.\<close>

lemma marker_here_suffix: "marker_here s = Some r \<Longrightarrow> \<exists>m. s = m @ r"
proof -
  have d: "\<exists>m. s = m @ dropWhile P s" for P and s :: string by (metis takeWhile_dropWhile_id)
  have e: "\<exists>m. s = m @ drop n s" for n and s :: string by (metis append_take_drop_id)
  assume "marker_here s = Some r"
  then have "r = dropWhile py_is_space (drop 2 (dropWhile py_is_space (drop 12 (dropWhile py_is_space s))))"
    by (auto simp: marker_here_def Let_def split: if_splits)
  then show ?thesis by (metis d e append.assoc)
qed

lemma find_marker_parts:
  "find_marker bol s = Some (before, after) \<Longrightarrow> \<exists>marker. s = before @ marker @ after"
proof (induction bol s arbitrary: before rule: find_marker.induct)
  case (2 bol c cs)
  then show ?case by (auto split: option.splits if_splits dest: marker_here_suffix)
qed simp

lemma find_block_end_eq:
  "find_block_end d q e s = map_option length (match_braces (d, q, e) s)"
  by (induction d q e s rule: find_block_end.induct)
    (auto simp: closes_def brace_char_def option.map_comp comp_def)

lemma match_braces_take: "match_braces st s = Some b \<Longrightarrow> s = b @ drop (length b) s"
proof (induction st s arbitrary: b rule: match_braces.induct)
  case (2 st ch cs)
  then show ?case by (auto split: if_splits)
qed simp

lemma py_split_on_ne: "py_split_on c s \<noteq> []"
  by (induction s) (simp_all split: list.split)

lemma py_join_Cons: "xs \<noteq> [] \<Longrightarrow> py_join sep (x # xs) = x @ sep @ py_join sep xs"
  by (cases xs) simp_all

lemma join_split: "py_join [c] (py_split_on c s) = s"
proof (induction s)
  case (Cons x s)
  obtain p ps where p: "py_split_on c s = p # ps" using py_split_on_ne [of c s] by (cases "py_split_on c s") auto
  have "py_join [c] ((x # p) # ps) = x # py_join [c] (p # ps)" by (cases ps) simp_all
  then show ?case using Cons p by (simp add: py_join_Cons)
qed simp

lemma join_split_lines: "join_lines (text_lines s) = s"
  by (simp add: join_lines_def text_lines_def join_split)

text \<open>The insertion adds lines after one that has the pattern and changes no other.\<close>

lemma insert_after_last_parts:
  "insert_after_last P new ls = Some r \<Longrightarrow> \<exists>xs l ys. ls = xs @ l # ys \<and> P l \<and> r = xs @ l # new @ ys \<and> (\<forall>y\<in>set ys. \<not> P y)"
proof (induction ls arbitrary: r)
  case (Cons l ls)
  have none: "insert_after_last P new ls = None \<Longrightarrow> \<forall>y\<in>set ls. \<not> P y" for ls
    by (induction ls) (auto split: option.splits if_splits)
  show ?case
  proof (cases "insert_after_last P new ls")
    case None
    then have "P l" "r = l # new @ ls" using Cons.prems by (simp_all split: if_splits)
    then show ?thesis using none [OF None] by (metis append_Nil)
  next
    case (Some r')
    then obtain xs m ys where "ls = xs @ m # ys" "P m" "r' = xs @ m # new @ ys" "\<forall>y\<in>set ys. \<not> P y"
      using Cons.IH by blast
    moreover have "r = l # r'" using Cons.prems Some by simp
    ultimately show ?thesis by (metis append_Cons)
  qed
qed simp

lemma insert_after_first_parts:
  "insert_after_first P new ls = Some r \<Longrightarrow> \<exists>xs l ys. ls = xs @ l # ys \<and> P l \<and> r = xs @ l # new @ ys"
proof (induction ls arbitrary: r)
  case (Cons l ls)
  show ?case
  proof (cases "P l")
    case True
    then show ?thesis using Cons.prems by (metis append_Nil insert_after_first.simps(2) option.inject)
  next
    case False
    then obtain r' where "insert_after_first P new ls = Some r'" "r = l # r'" using Cons.prems by auto
    then show ?thesis using Cons.IH by (metis append_Cons)
  qed
qed simp

text \<open>Only whole lines are added, and they hold nothing but the import.\<close>

lemma inject_adds_import:
  assumes "inject_entitlements_import t = Inr out"
  shows "\<exists>xs l ys gap. text_lines t = xs @ l # ys \<and> out = join_lines (xs @ l # gap @ import_line # ys) \<and> concat gap = []"
proof (cases "insert_after_last (\<lambda>l. py_startswith l ''import '') [import_line] (text_lines t)")
  case (Some ls)
  then have o: "out = join_lines ls" using assms by (simp add: inject_entitlements_import_def)
  obtain xs l ys where "text_lines t = xs @ l # ys" "ls = xs @ l # [import_line] @ ys"
    using insert_after_last_parts [OF Some] by blast
  then show ?thesis using o by (intro exI [of _ xs] exI [of _ l] exI [of _ ys] exI [of _ "[]"]) simp
next
  case None
  note n = None
  show ?thesis
  proof (cases "insert_after_first (\<lambda>l. py_startswith l ''package '') [[], import_line] (text_lines t)")
    case (Some ls)
    then have o: "out = join_lines ls" using assms n by (simp add: inject_entitlements_import_def)
    obtain xs l ys where "text_lines t = xs @ l # ys" "ls = xs @ l # [[], import_line] @ ys"
      using insert_after_first_parts [OF Some] by blast
    then show ?thesis using o by (intro exI [of _ xs] exI [of _ l] exI [of _ ys] exI [of _ "[[]]"]) simp
  qed (use assms n in \<open>simp add: inject_entitlements_import_def\<close>)
qed

section \<open>Properties\<close>

text \<open>
  C39. The image build and the bundle agree on the source. When the cut succeeds, the text is some part before, the marker, a
  gap, the matched literal and a rest, such that the new source is the part before and the rest with one import added, and
  the bundle of the governance service is read from the literal that was cut, whatever the JSON reader: no entitlement is in
  both places, none in neither.
\<close>

theorem strip_cuts_what_the_bundle_reads:
  assumes "strip_entitlements t = Inr out"
  shows "\<exists>before marker gap snippet rest.
    t = before @ marker @ gap @ snippet @ rest \<and>
    find_marker True t = Some (before, gap @ snippet @ rest) \<and>
    match_braces (0, False, False) (snippet @ rest) = Some snippet \<and>
    CHR ''{'' \<notin> set gap \<and>
    inject_entitlements_import (before @ rest) = Inr out \<and>
    extract_entitlements loads t =
      (case loads (strip_trailing_commas snippet) of
         None \<Rightarrow> Inl (EntitlementsError ''entitlements value is not valid JSON after cleanup'')
       | Some v \<Rightarrow> Inr v)"
proof -
  obtain before after where f: "find_marker True t = Some (before, after)"
    using assms by (auto simp: strip_entitlements_def split: option.splits)
  define from_brace where "from_brace = dropWhile (\<lambda>c. c \<noteq> CHR ''{'') after"
  obtain n where n: "from_brace \<noteq> []" "find_block_end 0 False False from_brace = Some n"
      "inject_entitlements_import (before @ drop n from_brace) = Inr out"
    using assms f by (auto simp: strip_entitlements_def Let_def from_brace_def split: option.splits if_splits)
  obtain snippet where sn: "match_braces (0, False, False) from_brace = Some snippet" "n = length snippet"
    using n(2) by (auto simp: find_block_end_eq)
  obtain marker where m: "t = before @ marker @ after" using find_marker_parts [OF f] by blast
  define gap where "gap = takeWhile (\<lambda>c. c \<noteq> CHR ''{'') after"
  have a: "after = gap @ from_brace" by (simp add: gap_def from_brace_def)
  have b: "from_brace = snippet @ drop n from_brace" using match_braces_take [OF sn(1)] sn(2) by simp
  have g: "CHR ''{'' \<notin> set gap" by (auto simp: gap_def dest: set_takeWhileD)
  have e: "extract_entitlements loads t = (case loads (strip_trailing_commas snippet) of
         None \<Rightarrow> Inl (EntitlementsError ''entitlements value is not valid JSON after cleanup'')
       | Some v \<Rightarrow> Inr v)"
    using f n(1) sn(1) unfolding extract_entitlements_def Let_def from_brace_def
    by (simp add: find_marker_search del: dropWhile_eq_Nil_conv)
  have "t = before @ marker @ gap @ snippet @ drop n from_brace" using m a b by simp
  moreover have "match_braces (0, False, False) (snippet @ drop n from_brace) = Some snippet" using sn(1) b by simp
  moreover have "find_marker True t = Some (before, gap @ snippet @ drop n from_brace)" using f a b by simp
  ultimately show ?thesis using g n(3) e by blast
qed

definition demo_rego :: string where
  "demo_rego = ''package mcp.authz'' @ [CHR 10] @ ''entitlements := {[]}'' @ [CHR 10] @ ''allow''"

lemma strip_cuts_what_the_bundle_reads_witness:
  "strip_entitlements demo_rego =
     Inr (''package mcp.authz'' @ [CHR 10, CHR 10] @ ''import data.mcp.authz.entitlements'' @ [CHR 10, CHR 10] @ ''allow'') \<and>
   (\<exists>before marker gap snippet rest. demo_rego = before @ marker @ gap @ snippet @ rest \<and> CHR ''{'' \<notin> set gap)"
proof -
  have s: "strip_entitlements demo_rego =
     Inr (''package mcp.authz'' @ [CHR 10, CHR 10] @ ''import data.mcp.authz.entitlements'' @ [CHR 10, CHR 10] @ ''allow'')"
    by code_simp
  show ?thesis using s strip_cuts_what_the_bundle_reads [OF s] by metis
qed

end
