(* ===== verification/Provision.thy ===== *)
theory Provision imports Gateway begin

text \<open>
  The provisioner (\<open>scripts/provision.py\<close>) and the onboarding helper that writes its input (\<open>scripts/onboard.py\<close>): they
  fill the tables from which the gateway authenticates, routes and prices. The YAML reader, SHA-256, the conversions of the
  database driver, bcrypt and the random numbers are parameters; a transaction that fails leaves nothing.
\<close>

section \<open>State and parameters\<close>

record tenant_stored =
  tt_name :: string
  tt_allowed_models :: json
  tt_rate_limit :: int
  tt_pii_action :: string
  tt_notification :: string
  tt_default_provider :: string
  tt_contact_email :: "string option"

record user_stored =
  us_tenant_id :: string
  us_roles :: json

record provision_db =
  pd_tenants :: "tenant_stored dict"
  pd_users :: "user_stored dict"
  pd_keys :: "api_key_row dict"
  pd_pricing :: "pricing_row list"
  pd_config_hash :: "string option"

record provision_files =
  pf_tenants :: string
  pf_users :: string
  pf_models :: string
  pf_pricing :: "string option"   \<comment> \<open>\<open>None\<close>: there is no such file\<close>

record provision_lib =
  pv_yaml :: "string \<Rightarrow> json option"            \<comment> \<open>\<open>yaml.safe_load\<close>, \<open>None\<close> when it raises\<close>
  pv_sha256 :: "string \<Rightarrow> string"
  pv_repr :: "json \<Rightarrow> string"
  pv_type_name :: "json \<Rightarrow> string"
  pv_text :: "json \<Rightarrow> string option"            \<comment> \<open>as stored in a text column, \<open>None\<close> when refused\<close>
  pv_int :: "json \<Rightarrow> int option"
  pv_rate :: "json \<Rightarrow> rat option"
  pv_date :: "json \<Rightarrow> int option"
  pv_text_array :: "json \<Rightarrow> string list option"
  pv_random :: "nat \<Rightarrow> string"                  \<comment> \<open>the base64 text of the random bytes, by draw\<close>

datatype provision_failure =
    ScriptRaised py_error
  | ScriptExit string
  | ScriptDatabase

definition script :: "py_error + 'a \<Rightarrow> provision_failure + 'a" where
  "script m = (case m of Inl e \<Rightarrow> Inl (ScriptRaised e) | Inr a \<Rightarrow> Inr a)"

text \<open>A value bound to a \<open>NOT NULL\<close> column.\<close>

definition stored :: "(json \<Rightarrow> 'a option) \<Rightarrow> json \<Rightarrow> provision_failure + 'a" where
  "stored convert v =
     (if v = JNull then Inl ScriptDatabase else (case convert v of None \<Rightarrow> Inl ScriptDatabase | Some x \<Rightarrow> Inr x))"

section \<open>Reading the configuration\<close>

definition KNOWN_DEFAULT_PROVIDERS :: "string list" where
  "KNOWN_DEFAULT_PROVIDERS = [''anthropic'', ''gemini'', ''gemini-vertex'', ''ollama'', ''openai'']"

definition yaml_key :: "provision_lib \<Rightarrow> string \<Rightarrow> string \<Rightarrow> provision_failure + json" where
  "yaml_key lib contents key =
     (case pv_yaml lib contents of
        None \<Rightarrow> Inl (ScriptRaised (OtherException ''YAMLError''))
      | Some v \<Rightarrow> script (py_subscript v key))"

definition of_tenant :: "provision_lib \<Rightarrow> json_object \<Rightarrow> string \<Rightarrow> json \<Rightarrow> string" where
  "of_tenant lib t what v = ''tenants.yaml: tenant '' @ pv_repr lib (jget t ''id'') @ '' has '' @ what @ ''='' @ pv_repr lib v"

definition quoted :: "string \<Rightarrow> string" where
  "quoted s = [CHR 39] @ s @ [CHR 39]"

definition check_tenant :: "provision_lib \<Rightarrow> json \<Rightarrow> provision_failure + json_object" where
  "check_tenant lib v =
     (case v of
        JObj t \<Rightarrow>
          (let notification = jget t ''pii_redaction_notification''; default_provider = jget t ''default_provider'' in
           if notification \<noteq> JNull \<and> as_str notification = None
           then Inl (ScriptExit (of_tenant lib t ''pii_redaction_notification'' notification @ '' ('' @
             pv_type_name lib notification @ ''); must be a string such as '' @ quoted ''header'' @ '' or '' @ quoted ''silent''))
           else (case default_provider of
               JList _ \<Rightarrow> Inl (ScriptRaised TypeError)
             | JObj _ \<Rightarrow> Inl (ScriptRaised TypeError)
             | _ \<Rightarrow>
                (if default_provider \<in> JStr ` set KNOWN_DEFAULT_PROVIDERS then Inr t
                 else Inl (ScriptExit (of_tenant lib t ''default_provider'' default_provider @ ''; must be one of '' @
                   pv_repr lib (JList (map JStr KNOWN_DEFAULT_PROVIDERS)))))))
      | _ \<Rightarrow> Inl (ScriptRaised AttributeError))"

text \<open>The validated tenants, and the users as they are; the models are only read.\<close>

definition load_config :: "provision_lib \<Rightarrow> provision_files \<Rightarrow> provision_failure + (json_object list \<times> json)" where
  "load_config lib files =
     ebind (yaml_key lib (pf_tenants files) ''tenants'') (\<lambda>tenants.
     ebind (yaml_key lib (pf_users files) ''users'') (\<lambda>users.
     ebind (yaml_key lib (pf_models files) ''models'') (\<lambda>models.
     ebind (script (py_iter tenants)) (\<lambda>ts.
     ebind (emap (check_tenant lib) ts) (\<lambda>checked. Inr (checked, users))))))"

definition config_hash :: "provision_lib \<Rightarrow> provision_files \<Rightarrow> string" where
  "config_hash lib files = pv_sha256 lib (pf_tenants files @ pf_users files @ pf_models files)"

definition load_pricing :: "provision_lib \<Rightarrow> provision_files \<Rightarrow> provision_failure + json" where
  "load_pricing lib files =
     (case pf_pricing files of
        None \<Rightarrow> Inr (JList [])
      | Some contents \<Rightarrow>
          (case pv_yaml lib contents of
             None \<Rightarrow> Inl (ScriptRaised (OtherException ''YAMLError''))
           | Some v \<Rightarrow> ebind (script (py_dot_get v ''rates'' (JList []))) (\<lambda>rates.
               Inr (if json_truthy rates then rates else JList []))))"

definition generate_key :: "provision_lib \<Rightarrow> nat \<Rightarrow> string" where
  "generate_key lib n = ''gw_'' @ rev (dropWhile (\<lambda>c. c = CHR ''='') (rev (pv_random lib n)))"

section \<open>Prices\<close>

definition price_row :: "provision_lib \<Rightarrow> json \<Rightarrow> provision_failure + pricing_row" where
  "price_row lib r =
     ebind (script (py_subscript r ''model_id'')) (\<lambda>m.
     ebind (script (py_subscript r ''input_rate_usd_per_token'')) (\<lambda>i.
     ebind (script (py_subscript r ''output_rate_usd_per_token'')) (\<lambda>out.
     ebind (script (py_subscript r ''effective_from'')) (\<lambda>d.
     ebind (stored (pv_text lib) m) (\<lambda>model.
     ebind (stored (pv_rate lib) i) (\<lambda>input.
     ebind (stored (pv_rate lib) out) (\<lambda>output.
     ebind (stored (pv_date lib) d) (\<lambda>day.
       Inr \<lparr>pr_model_id = model, pr_input_rate = input, pr_output_rate = output, pr_effective_from = day\<rparr>))))))))"

definition price_key :: "pricing_row \<Rightarrow> string \<times> int" where
  "price_key p = (pr_model_id p, pr_effective_from p)"

text \<open>\<open>ON CONFLICT (model_id, effective_from) DO NOTHING\<close>.\<close>

definition insert_price :: "pricing_row list \<Rightarrow> pricing_row \<Rightarrow> pricing_row list" where
  "insert_price ps p = (if price_key p \<in> price_key ` set ps then ps else ps @ [p])"

definition upsert_pricing :: "provision_lib \<Rightarrow> provision_files \<Rightarrow> provision_db \<Rightarrow> provision_failure + provision_db" where
  "upsert_pricing lib files db =
     ebind (load_pricing lib files) (\<lambda>rates.
     ebind (script (py_iter rates)) (\<lambda>rs.
     ebind (emap (price_row lib) rs) (\<lambda>ps. Inr (db\<lparr>pd_pricing := foldl insert_price (pd_pricing db) ps\<rparr>))))"

section \<open>Tenants\<close>

definition tenant_of :: "provision_lib \<Rightarrow> json_object \<Rightarrow> provision_failure + (string \<times> tenant_stored)" where
  "tenant_of lib t =
     ebind (script (py_subscript (JObj t) ''id'')) (\<lambda>i.
     ebind (script (py_subscript (JObj t) ''name'')) (\<lambda>n.
     ebind (script (py_subscript (JObj t) ''default_provider'')) (\<lambda>p.
     ebind (stored (pv_text lib) i) (\<lambda>tenant_id.
     ebind (stored (pv_text lib) n) (\<lambda>name.
     ebind (stored (pv_int lib) (jget_or t ''rate_limit'' (JInt 1000))) (\<lambda>rate.
     ebind (stored (pv_text lib) (jget_or t ''pii_action'' (JStr ''redact''))) (\<lambda>pii_action.
     ebind (stored (pv_text lib) (jget_or t ''pii_redaction_notification'' (JStr ''header''))) (\<lambda>notification.
     ebind (stored (pv_text lib) p) (\<lambda>default_provider.
     ebind (if jget t ''contact_email'' = JNull then Inr None
            else ebind (stored (pv_text lib) (jget t ''contact_email'')) (\<lambda>e. Inr (Some e))) (\<lambda>email.
       Inr (tenant_id, \<lparr>tt_name = name, tt_allowed_models = jget_or t ''allowed_models'' (JList []), tt_rate_limit = rate,
         tt_pii_action = pii_action, tt_notification = notification, tt_default_provider = default_provider,
         tt_contact_email = email\<rparr>)))))))))))"

definition upsert_tenants :: "provision_lib \<Rightarrow> json_object list \<Rightarrow> provision_db \<Rightarrow> provision_failure + provision_db" where
  "upsert_tenants lib ts db =
     ebind (emap (tenant_of lib) ts) (\<lambda>rows. Inr (db\<lparr>pd_tenants := dict_update (pd_tenants db) rows\<rparr>))"

section \<open>Users and keys\<close>

definition users_with_keys :: "provision_db \<Rightarrow> string list" where
  "users_with_keys db = map (\<lambda>(pre, row). ak_user_id row) (pd_keys db)"

definition lacks_key :: "provision_db \<Rightarrow> json \<Rightarrow> provision_failure + bool" where
  "lacks_key db u =
     ebind (script (py_subscript u ''id'')) (\<lambda>i.
       case i of JList _ \<Rightarrow> Inl (ScriptRaised TypeError)
       | JObj _ \<Rightarrow> Inl (ScriptRaised TypeError)
       | _ \<Rightarrow> Inr (i \<notin> JStr ` set (users_with_keys db)))"

definition KEY_ATTEMPTS :: nat where
  "KEY_ATTEMPTS = 5"

text \<open>\<open>ON CONFLICT (prefix) DO NOTHING\<close>, tried again with a fresh key until a row lands.\<close>

fun issue_key ::
    "provision_lib \<Rightarrow> auth_lib \<Rightarrow> (string \<Rightarrow> api_key_row) \<Rightarrow> nat \<Rightarrow> nat \<Rightarrow> api_key_row dict \<Rightarrow> (string \<times> api_key_row dict \<times> nat) option" where
  "issue_key lib alib row_of 0 n keys = None"
| "issue_key lib alib row_of (Suc k) n keys =
     (let plaintext = generate_key lib n; pre = take 8 plaintext in
      if pre \<in> fst ` set keys then issue_key lib alib row_of k (Suc n) keys
      else Some (plaintext, keys @ [(pre, row_of (hashpw alib plaintext))], Suc n))"

type_synonym issued = "provision_db \<times> nat \<times> (string \<times> string) list"

text \<open>
  One user: the row, and a key unless there is one. A tenant that is not stored violates the foreign key; an identifier that
  is no text cannot be compared with the column.
\<close>

definition provision_user :: "provision_lib \<Rightarrow> auth_lib \<Rightarrow> json \<Rightarrow> issued \<Rightarrow> provision_failure + issued" where
  "provision_user lib alib u st =
     (let (db, n, generated) = st in
      ebind (script (py_subscript u ''id'')) (\<lambda>i.
      ebind (script (py_subscript u ''tenant_id'')) (\<lambda>t.
      ebind (stored (pv_text lib) t) (\<lambda>tenant_id.
        case i of
          JStr user_id \<Rightarrow>
            (let roles = jget_or (as_obj u) ''roles'' (JList []);
                 db1 = db\<lparr>pd_users := dict_set user_id \<lparr>us_tenant_id = tenant_id, us_roles = roles\<rparr> (pd_users db)\<rparr> in
             if tenant_id \<notin> fst ` set (pd_tenants db) then Inl ScriptDatabase
             else if user_id \<in> set (users_with_keys db) then Inr (db1, n, generated)
             else
               ebind (stored (pv_text_array lib) roles) (\<lambda>rs.
                 case issue_key lib alib (\<lambda>h. \<lparr>ak_hash = h, ak_user_id = user_id, ak_tenant_id = tenant_id, ak_roles = rs\<rparr>)
                     KEY_ATTEMPTS n (pd_keys db) of
                   None \<Rightarrow> Inl (ScriptExit (''ERROR: could not generate a unique key prefix for '' @ user_id @ '' after 5 attempts''))
                 | Some (plaintext, keys, n') \<Rightarrow> Inr (db1\<lparr>pd_keys := keys\<rparr>, n', generated @ [(user_id, plaintext)])))
        | _ \<Rightarrow> Inl ScriptDatabase))))"

fun provision_users :: "provision_lib \<Rightarrow> auth_lib \<Rightarrow> json list \<Rightarrow> issued \<Rightarrow> provision_failure + issued" where
  "provision_users lib alib [] st = Inr st"
| "provision_users lib alib (u # us) st = ebind (provision_user lib alib u st) (provision_users lib alib us)"

section \<open>The run\<close>

definition users_doc :: "json list \<Rightarrow> json" where
  "users_doc us =
     JObj [(''users'', JObj (dict_update [] (map (\<lambda>u.
       (the (as_str (jget (as_obj u) ''id'')),
        JObj [(''tenant_id'', jget (as_obj u) ''tenant_id''), (''roles'', jget_or (as_obj u) ''roles'' (JList []))])) us)))]"

definition tenants_doc :: "provision_lib \<Rightarrow> json_object list \<Rightarrow> json" where
  "tenants_doc lib ts =
     JObj [(''tenants'', JObj (dict_update [] (map (\<lambda>t.
       (the (pv_text lib (jget t ''id'')),
        JObj [(''allowed_models'', jget_or t ''allowed_models'' (JList [])), (''rate_limit'', jget_or t ''rate_limit'' (JInt 1000)),
              (''pii_action'', jget_or t ''pii_action'' (JStr ''redact''))])) ts)))]"

datatype provision_report =
    NoChange
  | Provisioned "(string \<times> string) list" json json  \<comment> \<open>new keys, \<open>users.json\<close>, \<open>tenants.json\<close>\<close>

definition apply_config ::
    "provision_lib \<Rightarrow> auth_lib \<Rightarrow> json_object list \<Rightarrow> json list \<Rightarrow> string \<Rightarrow> provision_db \<Rightarrow> provision_failure + (provision_report \<times> provision_db)" where
  "apply_config lib alib tenants users current_hash db =
     ebind (upsert_tenants lib tenants db) (\<lambda>db1.
     ebind (provision_users lib alib users (db1, 0, [])) (\<lambda>(db2, n, generated).
       Inr (Provisioned generated (users_doc users) (tenants_doc lib tenants), db2\<lparr>pd_config_hash := Some current_hash\<rparr>)))"

text \<open>\<open>main\<close>, with the tables there: the prices are committed before the configuration is read.\<close>

definition provision :: "provision_lib \<Rightarrow> auth_lib \<Rightarrow> provision_files \<Rightarrow> provision_db \<Rightarrow> (provision_failure + provision_report) \<times> provision_db" where
  "provision lib alib files db =
     (case upsert_pricing lib files db of
        Inl e \<Rightarrow> (Inl e, db)
      | Inr db1 \<Rightarrow>
          (case ebind (load_config lib files) (\<lambda>(tenants, users).
             ebind (script (py_iter users)) (\<lambda>us.
             ebind (emap (lacks_key db1) us) (\<lambda>missing.
               if pd_config_hash db1 = Some (config_hash lib files) \<and> True \<notin> set missing then Inr (NoChange, db1)
               else apply_config lib alib tenants us (config_hash lib files) db1))) of
             Inl e \<Rightarrow> (Inl e, db1)
           | Inr (report, db2) \<Rightarrow> (Inr report, db2)))"

section \<open>Lemmas\<close>

text \<open>The key table only grows, under prefixes that were free.\<close>

definition keys_grow :: "api_key_row dict \<Rightarrow> api_key_row dict \<Rightarrow> bool" where
  "keys_grow ks ks' \<longleftrightarrow> (\<exists>new. ks' = ks @ new \<and> fst ` set new \<inter> fst ` set ks = {})"

lemma keys_grow_refl [simp]: "keys_grow ks ks"
  by (simp add: keys_grow_def)

lemma keys_grow_trans: "keys_grow a b \<Longrightarrow> keys_grow b c \<Longrightarrow> keys_grow a c"
proof -
  assume "keys_grow a b" "keys_grow b c"
  then obtain m n where "b = a @ m" "fst ` set m \<inter> fst ` set a = {}" "c = b @ n" "fst ` set n \<inter> fst ` set b = {}"
    by (auto simp: keys_grow_def)
  then have "c = a @ (m @ n)" "fst ` set (m @ n) \<inter> fst ` set a = {}" by auto
  then show ?thesis unfolding keys_grow_def by blast
qed

lemma keys_grow_lookup: "keys_grow ks ks' \<Longrightarrow> map_of ks pre = Some row \<Longrightarrow> map_of ks' pre = Some row"
  by (auto simp: keys_grow_def)

lemma keys_grow_users: "keys_grow (pd_keys db) (pd_keys db') \<Longrightarrow> set (users_with_keys db) \<subseteq> set (users_with_keys db')"
  by (auto simp: keys_grow_def users_with_keys_def)

lemma keys_grow_snoc: "pre \<notin> fst ` set ks \<Longrightarrow> keys_grow ks (ks @ [(pre, row)])"
  by (auto simp: keys_grow_def)

lemma map_of_snoc: "pre \<notin> fst ` set ks \<Longrightarrow> map_of (ks @ [(pre, row)]) pre = Some row"
  by (simp add: map_of_eq_None_iff [symmetric] map_add_def)

lemma issue_key_Some:
  "issue_key lib alib row_of k n keys = Some (key, keys', n') \<Longrightarrow>
     take 8 key \<notin> fst ` set keys \<and> keys' = keys @ [(take 8 key, row_of (hashpw alib key))]"
  by (induction k arbitrary: n) (auto simp: Let_def split: if_splits)

text \<open>What the configuration says of a user, as a row of the key table.\<close>

definition configured :: "provision_lib \<Rightarrow> json \<Rightarrow> string \<Rightarrow> api_key_row \<Rightarrow> bool" where
  "configured lib u user_id row \<longleftrightarrow>
     py_subscript u ''id'' = Inr (JStr user_id) \<and> ak_user_id row = user_id \<and>
     pv_text lib (jget (as_obj u) ''tenant_id'') = Some (ak_tenant_id row) \<and>
     pv_text_array lib (jget_or (as_obj u) ''roles'' (JList [])) = Some (ak_roles row)"

lemma stored_Inr: "stored f v = Inr x \<longleftrightarrow> v \<noteq> JNull \<and> f v = Some x"
  by (auto simp: stored_def split: option.splits)

lemma script_Inr: "script m = Inr x \<longleftrightarrow> m = Inr x"
  by (auto simp: script_def split: sum.splits)

lemma py_subscript_Inr: "py_subscript u k = Inr v \<longleftrightarrow> (\<exists>d. u = JObj d \<and> map_of d k = Some v)"
  by (cases u) (auto split: option.splits)

lemma provision_user_Inr:
  assumes "provision_user lib alib u (db, n, g) = Inr (db', n', g')"
  obtains (kept) user_id where "py_subscript u ''id'' = Inr (JStr user_id)" "user_id \<in> set (users_with_keys db)"
      "g' = g" "pd_keys db' = pd_keys db" "pd_tenants db' = pd_tenants db" "pd_pricing db' = pd_pricing db"
  | (issued) user_id key row where "py_subscript u ''id'' = Inr (JStr user_id)" "configured lib u user_id row"
      "ak_hash row = hashpw alib key" "take 8 key \<notin> fst ` set (pd_keys db)" "pd_keys db' = pd_keys db @ [(take 8 key, row)]"
      "g' = g @ [(user_id, key)]" "pd_tenants db' = pd_tenants db" "pd_pricing db' = pd_pricing db"
proof -
  obtain i t tenant_id where i: "py_subscript u ''id'' = Inr i" "py_subscript u ''tenant_id'' = Inr t"
      "t \<noteq> JNull" "pv_text lib t = Some tenant_id"
    using assms by (auto simp: provision_user_def ebind_eq_Inr script_Inr stored_Inr)
  then have t: "jget (as_obj u) ''tenant_id'' = t" by (auto simp: py_subscript_Inr)
  obtain user_id where u: "i = JStr user_id"
    using assms i by (cases i) (simp_all add: provision_user_def script_def stored_def)
  let ?roles = "jget_or (as_obj u) ''roles'' (JList [])"
  let ?row = "\<lambda>rs h. \<lparr>ak_hash = h, ak_user_id = user_id, ak_tenant_id = tenant_id, ak_roles = rs\<rparr>"
  have step: "provision_user lib alib u (db, n, g) =
      (if tenant_id \<notin> fst ` set (pd_tenants db) then Inl ScriptDatabase
       else let db1 = db\<lparr>pd_users := dict_set user_id \<lparr>us_tenant_id = tenant_id, us_roles = ?roles\<rparr> (pd_users db)\<rparr> in
         if user_id \<in> set (users_with_keys db) then Inr (db1, n, g)
         else ebind (stored (pv_text_array lib) ?roles) (\<lambda>rs.
           case issue_key lib alib (?row rs) KEY_ATTEMPTS n (pd_keys db) of
             None \<Rightarrow> Inl (ScriptExit (''ERROR: could not generate a unique key prefix for '' @ user_id @ '' after 5 attempts''))
           | Some (plaintext, keys, n') \<Rightarrow> Inr (db1\<lparr>pd_keys := keys\<rparr>, n', g @ [(user_id, plaintext)])))"
    using i u by (simp add: provision_user_def script_def stored_def Let_def)
  show thesis
  proof (cases "user_id \<in> set (users_with_keys db)")
    case True
    then show thesis using kept [of user_id] assms i(1) u unfolding step by (auto simp: Let_def split: if_splits)
  next
    case False
    let ?gave_up = "ScriptExit (''ERROR: could not generate a unique key prefix for '' @ user_id @ '' after 5 attempts'')"
    let ?db1 = "db\<lparr>pd_users := dict_set user_id \<lparr>us_tenant_id = tenant_id, us_roles = ?roles\<rparr> (pd_users db)\<rparr>"
    have "tenant_id \<in> fst ` set (pd_tenants db)" using assms unfolding step by (metis Inl_Inr_False)
    then obtain rs where rs: "pv_text_array lib ?roles = Some rs"
        "(case issue_key lib alib (?row rs) KEY_ATTEMPTS n (pd_keys db) of None \<Rightarrow> Inl ?gave_up
          | Some (plaintext, keys, n') \<Rightarrow> Inr (?db1\<lparr>pd_keys := keys\<rparr>, n', g @ [(user_id, plaintext)])) = Inr (db', n', g')"
      using assms False unfolding step by (simp only: if_not_P if_False Let_def ebind_eq_Inr stored_Inr not_not) blast
    obtain key keys m where k: "issue_key lib alib (?row rs) KEY_ATTEMPTS n (pd_keys db) = Some (key, keys, m)"
      using rs(2) by (cases "issue_key lib alib (?row rs) KEY_ATTEMPTS n (pd_keys db)") auto
    then have "db' = ?db1\<lparr>pd_keys := keys\<rparr>" and g: "g' = g @ [(user_id, key)]" using rs(2) by simp_all
    then have d: "pd_keys db' = keys" "pd_tenants db' = pd_tenants db" "pd_pricing db' = pd_pricing db" by simp_all
    have "configured lib u user_id (?row rs (hashpw alib key))"
      using i u t rs(1) by (simp add: configured_def)
    then show thesis using issued [of user_id "?row rs (hashpw alib key)" key] issue_key_Some [OF k] g d i(1) u
      by simp
  qed
qed

text \<open>The keys handed out are in the table, for the users of the configuration.\<close>

definition handed_out :: "provision_lib \<Rightarrow> auth_lib \<Rightarrow> json list \<Rightarrow> provision_db \<Rightarrow> (string \<times> string) list \<Rightarrow> bool" where
  "handed_out lib alib us db generated \<longleftrightarrow>
     (\<forall>(user_id, key) \<in> set generated. \<exists>u \<in> set us. \<exists>row. configured lib u user_id row \<and>
        ak_hash row = hashpw alib key \<and> map_of (pd_keys db) (take 8 key) = Some row)"

lemma handed_out_mono:
  "handed_out lib alib us db g \<Longrightarrow> keys_grow (pd_keys db) (pd_keys db') \<Longrightarrow> set us \<subseteq> set us' \<Longrightarrow> handed_out lib alib us' db' g"
  unfolding handed_out_def by (fastforce dest: keys_grow_lookup)

lemma handed_out_snoc:
  "handed_out lib alib us db g \<Longrightarrow> u \<in> set us \<Longrightarrow> configured lib u user_id row \<Longrightarrow> ak_hash row = hashpw alib key \<Longrightarrow>
     map_of (pd_keys db) (take 8 key) = Some row \<Longrightarrow> handed_out lib alib us db (g @ [(user_id, key)])"
  by (fastforce simp: handed_out_def)

lemma provision_users_Inr:
  assumes "provision_users lib alib us (db, n, g) = Inr (db', n', g')"
  shows "keys_grow (pd_keys db) (pd_keys db') \<and> pd_tenants db' = pd_tenants db \<and> pd_pricing db' = pd_pricing db \<and>
    (\<forall>u\<in>set us. \<exists>user_id. py_subscript u ''id'' = Inr (JStr user_id) \<and> user_id \<in> set (users_with_keys db')) \<and>
    (\<forall>us0. handed_out lib alib us0 db g \<longrightarrow> handed_out lib alib (us0 @ us) db' g')"
  using assms
proof (induction us arbitrary: db n g)
  case (Cons u us)
  obtain db1 n1 g1 where s: "provision_user lib alib u (db, n, g) = Inr (db1, n1, g1)"
      "provision_users lib alib us (db1, n1, g1) = Inr (db', n', g')"
    using Cons.prems by (auto simp: ebind_eq_Inr)
  note IH = Cons.IH [OF s(2)]
  have "keys_grow (pd_keys db) (pd_keys db1) \<and> pd_tenants db1 = pd_tenants db \<and> pd_pricing db1 = pd_pricing db \<and>
      (\<exists>user_id. py_subscript u ''id'' = Inr (JStr user_id) \<and> user_id \<in> set (users_with_keys db1)) \<and>
      (\<forall>us0. handed_out lib alib us0 db g \<longrightarrow> handed_out lib alib (us0 @ [u]) db1 g1)"
    using s(1)
  proof (cases rule: provision_user_Inr)
    case (kept user_id)
    then show ?thesis by (auto simp: users_with_keys_def intro: handed_out_mono)
  next
    case (issued user_id key row)
    have gr: "keys_grow (pd_keys db) (pd_keys db1)" using issued(4,5) keys_grow_snoc by simp
    have "handed_out lib alib (us0 @ [u]) db1 g1" if h: "handed_out lib alib us0 db g" for us0
      unfolding issued(6)
    proof (rule handed_out_snoc [where u = u and row = row])
      show "handed_out lib alib (us0 @ [u]) db1 g" by (rule handed_out_mono [OF h gr]) auto
      show "map_of (pd_keys db1) (take 8 key) = Some row" unfolding issued(5) by (rule map_of_snoc [OF issued(4)])
    qed (simp_all add: issued(2,3))
    then show ?thesis using issued gr by (auto simp: users_with_keys_def configured_def)
  qed
  then show ?case using IH keys_grow_users [of db1 db'] keys_grow_trans by fastforce
qed (simp add: handed_out_def)

text \<open>Prices are only added, one per model and day.\<close>

lemma foldl_insert_price:
  "\<exists>new. foldl insert_price ps qs = ps @ new \<and> price_key ` set qs \<subseteq> price_key ` set (foldl insert_price ps qs) \<and>
     (distinct (map price_key ps) \<longrightarrow> distinct (map price_key (foldl insert_price ps qs)))"
proof (induction qs arbitrary: ps)
  case (Cons q qs)
  obtain m where m: "insert_price ps q = ps @ m" "price_key q \<in> price_key ` set (insert_price ps q)"
      "distinct (map price_key ps) \<longrightarrow> distinct (map price_key (insert_price ps q))"
    by (cases "price_key q \<in> price_key ` set ps") (simp_all add: insert_price_def)
  obtain n where n: "foldl insert_price (insert_price ps q) qs = insert_price ps q @ n"
      "price_key ` set qs \<subseteq> price_key ` set (foldl insert_price (insert_price ps q) qs)"
      "distinct (map price_key (insert_price ps q)) \<longrightarrow> distinct (map price_key (foldl insert_price (insert_price ps q) qs))"
    using Cons.IH [of "insert_price ps q"] by blast
  have "price_key q \<in> price_key ` set (foldl insert_price (insert_price ps q) qs)" using m(2) n(1) by auto
  then show ?case using m n by auto
qed simp

lemma foldl_insert_price_again: "price_key ` set qs \<subseteq> price_key ` set ps \<Longrightarrow> foldl insert_price ps qs = ps"
  by (induction qs) (auto simp: insert_price_def)

lemma upsert_pricing_Inr:
  assumes "upsert_pricing lib files db = Inr db1"
  shows "(\<exists>new. db1 = db\<lparr>pd_pricing := pd_pricing db @ new\<rparr>) \<and>
    (distinct (map price_key (pd_pricing db)) \<longrightarrow> distinct (map price_key (pd_pricing db1))) \<and>
    (\<forall>db2. pd_pricing db2 = pd_pricing db1 \<longrightarrow> upsert_pricing lib files db2 = Inr db2)"
proof -
  obtain rates rs ps where l: "load_pricing lib files = Inr rates" "script (py_iter rates) = Inr rs" "emap (price_row lib) rs = Inr ps"
      and d: "db1 = db\<lparr>pd_pricing := foldl insert_price (pd_pricing db) ps\<rparr>"
    using assms by (auto simp: upsert_pricing_def ebind_eq_Inr)
  have again: "upsert_pricing lib files db2 = Inr db2" if "pd_pricing db2 = pd_pricing db1" for db2
  proof -
    have "foldl insert_price (pd_pricing db2) ps = pd_pricing db2"
      using foldl_insert_price [of "pd_pricing db" ps] that d by (intro foldl_insert_price_again) auto
    then show ?thesis using l by (simp add: upsert_pricing_def)
  qed
  then show ?thesis using foldl_insert_price [of "pd_pricing db" ps] d by auto
qed

lemma provision_cases:
  assumes "provision lib alib files db = (res, db')"
  obtains (no_prices) e where "res = Inl e" "db' = db"
  | (failed) e where "upsert_pricing lib files db = Inr db'" "res = Inl e"
  | (unchanged) tenants users us missing where "upsert_pricing lib files db = Inr db'" "load_config lib files = Inr (tenants, users)"
      "script (py_iter users) = Inr us" "emap (lacks_key db') us = Inr missing" "pd_config_hash db' = Some (config_hash lib files)"
      "True \<notin> set missing" "res = Inr NoChange"
  | (applied) db1 tenants users us n db2 db3 generated where "upsert_pricing lib files db = Inr db1" "load_config lib files = Inr (tenants, users)"
      "script (py_iter users) = Inr us" "upsert_tenants lib tenants db1 = Inr db2"
      "provision_users lib alib us (db2, 0, []) = Inr (db3, n, generated)" "db' = db3\<lparr>pd_config_hash := Some (config_hash lib files)\<rparr>"
      "res = Inr (Provisioned generated (users_doc us) (tenants_doc lib tenants))"
proof (cases "upsert_pricing lib files db")
  case (Inl e)
  then show thesis using no_prices [of e] assms by (auto simp: provision_def)
next
  case (Inr db1)
  note up = Inr
  show thesis
  proof (cases "ebind (load_config lib files) (\<lambda>(tenants, users).
             ebind (script (py_iter users)) (\<lambda>us.
             ebind (emap (lacks_key db1) us) (\<lambda>missing.
               if pd_config_hash db1 = Some (config_hash lib files) \<and> True \<notin> set missing then Inr (NoChange, db1)
               else apply_config lib alib tenants us (config_hash lib files) db1)))")
    case (Inl e)
    then show thesis using failed [of e] assms up by (simp add: provision_def)
  next
    case (Inr r)
    then have r: "r = (case res of Inr report \<Rightarrow> report, db')" "\<exists>report. res = Inr report"
      using assms up by (cases r, simp add: provision_def, auto simp: provision_def split: prod.splits)
    obtain tenants users us missing where c: "load_config lib files = Inr (tenants, users)" "script (py_iter users) = Inr us"
        "emap (lacks_key db1) us = Inr missing"
        "(if pd_config_hash db1 = Some (config_hash lib files) \<and> True \<notin> set missing then Inr (NoChange, db1)
          else apply_config lib alib tenants us (config_hash lib files) db1) = Inr r"
      using Inr by (auto simp: ebind_eq_Inr)
    show thesis
    proof (cases "pd_config_hash db1 = Some (config_hash lib files) \<and> True \<notin> set missing")
      case True
      then have "res = Inr NoChange" "db' = db1" using c(4) r by auto
      then show thesis using unchanged up c(1-3) True by auto
    next
      case False
      then show thesis using c r up by (auto simp: apply_config_def ebind_eq_Inr intro: applied)
    qed
  qed
qed

lemma upsert_tenants_Inr:
  "upsert_tenants lib ts db = Inr db' \<Longrightarrow> pd_keys db' = pd_keys db \<and> pd_pricing db' = pd_pricing db"
  by (auto simp: upsert_tenants_def ebind_eq_Inr)

lemma provision_keys_grow:
  assumes "provision lib alib files db = (res, db')"
  shows "keys_grow (pd_keys db) (pd_keys db') \<and> (\<exists>new. pd_pricing db' = pd_pricing db @ new) \<and>
    (distinct (map price_key (pd_pricing db)) \<longrightarrow> distinct (map price_key (pd_pricing db')))"
  using assms
proof (cases rule: provision_cases)
  case (applied db1 tenants users us n db2 db3 generated)
  then show ?thesis
    using upsert_pricing_Inr [OF applied(1)] upsert_tenants_Inr [OF applied(4)] provision_users_Inr [OF applied(5)] by auto
qed (auto dest: upsert_pricing_Inr)

text \<open>A second run draws other random numbers, and salts its hashes anew.\<close>

lemma redrawn:
  "upsert_pricing (lib\<lparr>pv_random := rnd\<rparr>) = upsert_pricing lib" "load_config (lib\<lparr>pv_random := rnd\<rparr>) = load_config lib"
  "config_hash (lib\<lparr>pv_random := rnd\<rparr>) = config_hash lib"
proof -
  have p: "price_row (lib\<lparr>pv_random := rnd\<rparr>) = price_row lib" by (simp add: price_row_def fun_eq_iff)
  have l: "load_pricing (lib\<lparr>pv_random := rnd\<rparr>) = load_pricing lib" by (simp add: load_pricing_def fun_eq_iff cong: option.case_cong)
  show "upsert_pricing (lib\<lparr>pv_random := rnd\<rparr>) = upsert_pricing lib" by (simp add: upsert_pricing_def fun_eq_iff p l)
  have r: "pv_repr (lib\<lparr>pv_random := rnd\<rparr>) = pv_repr lib" "pv_type_name (lib\<lparr>pv_random := rnd\<rparr>) = pv_type_name lib" by simp_all
  have c: "check_tenant (lib\<lparr>pv_random := rnd\<rparr>) = check_tenant lib"
    unfolding check_tenant_def of_tenant_def r by (rule refl)
  have y: "yaml_key (lib\<lparr>pv_random := rnd\<rparr>) = yaml_key lib" by (simp add: yaml_key_def fun_eq_iff)
  show "load_config (lib\<lparr>pv_random := rnd\<rparr>) = load_config lib" by (simp add: load_config_def fun_eq_iff c y)
  show "config_hash (lib\<lparr>pv_random := rnd\<rparr>) = config_hash lib" by (simp add: config_hash_def fun_eq_iff)
qed

lemma lacks_key_False:
  "py_subscript u ''id'' = Inr (JStr i) \<Longrightarrow> i \<in> set (users_with_keys db) \<Longrightarrow> lacks_key db u = Inr False"
  by (simp add: lacks_key_def script_def)

lemma nothing_missing:
  "\<forall>u\<in>set us. \<exists>i. py_subscript u ''id'' = Inr (JStr i) \<and> i \<in> set (users_with_keys db) \<Longrightarrow>
     \<exists>missing. emap (lacks_key db) us = Inr missing \<and> True \<notin> set missing"
  by (induction us) (auto dest: lacks_key_False)

lemma provisioned_keys_found:
  assumes "provision lib alib files db = (Inr (Provisioned generated users_json tenants_json), db')"
    and "(user_id, key) \<in> set generated" "checkpw alib key (hashpw alib key)"
    and "cache_consistent s" "api_keys s = map_of (pd_keys db')"
  shows "\<exists>tenants users us u row. load_config lib files = Inr (tenants, users) \<and> py_iter users = Inr us \<and> u \<in> set us \<and>
    configured lib u user_id row \<and> fst (validate_api_key alib key s) = Inr (key_caller row (take 8 key))"
  using assms(1)
proof (cases rule: provision_cases)
  case (applied db1 tenants users us n db2 db3 g)
  have "handed_out lib alib ([] @ us) db3 g" using provision_users_Inr [OF applied(5)] by (metis handed_out_def empty_iff list.set(1))
  then have "handed_out lib alib us db' generated" using applied(6,7) by (simp add: handed_out_def)
  then obtain u row where "u \<in> set us" "configured lib u user_id row" "ak_hash row = hashpw alib key" "map_of (pd_keys db') (take 8 key) = Some row"
    using assms(2) unfolding handed_out_def by fast
  then show ?thesis using assms(3-5) applied(2,3) by (auto simp: validate_api_key_reference api_key_reference_def script_Inr)
qed simp_all

section \<open>Properties\<close>

text \<open>
  C35. Provisioning is idempotent: a second run over the same files, right after one that ended without an error, finds nothing
  to do and leaves every table as it is, whatever its random numbers.
\<close>

theorem provision_idempotent:
  assumes "provision lib alib files db = (Inr report, db')"
  shows "provision (lib\<lparr>pv_random := rnd\<rparr>) alib' files db' = (Inr NoChange, db')"
  using assms
proof (cases rule: provision_cases)
  case (unchanged tenants users us missing)
  then show ?thesis using upsert_pricing_Inr [OF unchanged(1)] by (simp add: provision_def redrawn)
next
  case (applied db1 tenants users us n db2 db3 generated)
  have up: "upsert_pricing lib files db' = Inr db'"
    using upsert_pricing_Inr [OF applied(1)] upsert_tenants_Inr [OF applied(4)] provision_users_Inr [OF applied(5)] applied(6) by simp
  have "\<forall>u\<in>set us. \<exists>i. py_subscript u ''id'' = Inr (JStr i) \<and> i \<in> set (users_with_keys db')"
    using provision_users_Inr [OF applied(5)] applied(6) by (simp add: users_with_keys_def)
  from nothing_missing [OF this] obtain missing where "emap (lacks_key db') us = Inr missing" "True \<notin> set missing" by blast
  then show ?thesis using up applied(2,3,6) by (simp add: provision_def redrawn)
qed simp_all

text \<open>
  The keys that a run hands out authenticate: each belongs to a user of the configuration, and a gateway over the
  provisioned table accepts it as that user, with the tenant and the roles of the configuration.
\<close>

theorem provisioned_keys_authenticate:
  assumes "provision lib alib files db = (Inr (Provisioned generated users_json tenants_json), db')"
    and "(user_id, key) \<in> set generated" "checkpw alib key (hashpw alib key)"
    and "cache_consistent s" "api_keys s = map_of (pd_keys db')"
  shows "\<exists>tenants users us u row. load_config lib files = Inr (tenants, users) \<and> py_iter users = Inr us \<and> u \<in> set us \<and>
    configured lib u user_id row \<and> fst (validate_api_key alib key s) = Inr (key_caller row (take 8 key))"
  by (rule provisioned_keys_found [OF assms])

text \<open>
  A run that fails, at whatever point, leaves tenants, users and keys as they were; and no run ever changes a price that is
  stored, or adds a second one for the same model and day.
\<close>

theorem failed_provision_keeps_tables:
  assumes "provision lib alib files db = (res, db')"
  shows "(case res of Inl e \<Rightarrow> db' = db\<lparr>pd_pricing := pd_pricing db'\<rparr> | Inr report \<Rightarrow> True) \<and>
    (\<exists>new. pd_pricing db' = pd_pricing db @ new) \<and>
    (distinct (map price_key (pd_pricing db)) \<longrightarrow> distinct (map price_key (pd_pricing db')))"
proof (rule conjI)
  show "case res of Inl e \<Rightarrow> db' = db\<lparr>pd_pricing := pd_pricing db'\<rparr> | Inr report \<Rightarrow> True"
    using assms by (cases rule: provision_cases) (auto dest!: upsert_pricing_Inr)
  show "(\<exists>new. pd_pricing db' = pd_pricing db @ new) \<and>
      (distinct (map price_key (pd_pricing db)) \<longrightarrow> distinct (map price_key (pd_pricing db')))"
    using provision_keys_grow [OF assms] by simp
qed

text \<open>
  Provisioning revokes nothing: whoever authenticates with a key before a run does so after it, as the same user with the same
  roles, whatever the configuration now says of him. The roles of an issued key are never brought up to date.
\<close>

theorem provision_revokes_nothing:
  assumes "provision lib alib files db = (res, db')" "api_key_reference alib (map_of (pd_keys db)) key = Inr caller"
  shows "api_key_reference alib (map_of (pd_keys db')) key = Inr caller"
  using assms(2) provision_keys_grow [OF assms(1)]
  by (auto simp: api_key_reference_def split: option.splits if_splits dest: keys_grow_lookup)

section \<open>Witnesses\<close>

definition demo_yaml :: "string \<Rightarrow> json option" where
  "demo_yaml s = Some (JObj
     [(''tenants'', JList [JObj [(''id'', JStr ''t''), (''name'', JStr ''T''), (''default_provider'', JStr ''openai'')]]),
      (''users'', JList [JObj [(''id'', JStr ''u''), (''tenant_id'', JStr ''t''), (''roles'', JList [JStr s])]]),
      (''models'', JList []), (''rates'', JList [])])"

definition demo_prov :: provision_lib where
  "demo_prov = \<lparr>pv_yaml = demo_yaml, pv_sha256 = (\<lambda>s. s), pv_repr = (\<lambda>v. []), pv_type_name = (\<lambda>v. []), pv_text = as_str,
     pv_int = as_int, pv_rate = (\<lambda>v. None), pv_date = (\<lambda>v. None),
     pv_text_array = (\<lambda>v. case v of JList [JStr s] \<Rightarrow> Some [s] | _ \<Rightarrow> None), pv_random = (\<lambda>n. ''abcdefgh='')\<rparr>"

definition demo_auth :: auth_lib where
  "demo_auth = \<lparr>checkpw = (\<lambda>k h. k = h), hashpw = (\<lambda>k. k), jwt_decode = (\<lambda>t. None)\<rparr>"

definition role_files :: "string \<Rightarrow> provision_files" where
  "role_files role = \<lparr>pf_tenants = role, pf_users = role, pf_models = role, pf_pricing = None\<rparr>"

definition empty_tables :: provision_db where
  "empty_tables = \<lparr>pd_tenants = [], pd_users = [], pd_keys = [], pd_pricing = [], pd_config_hash = None\<rparr>"

definition first_tables :: provision_db where
  "first_tables = snd (provision demo_prov demo_auth (role_files ''admin'') empty_tables)"

definition demo_tenants_json :: json where
  "demo_tenants_json = JObj [(''tenants'', JObj [(''t'', JObj [(''allowed_models'', JList []), (''rate_limit'', JInt 1000),
     (''pii_action'', JStr ''redact'')])])]"

definition demo_users_json :: "string \<Rightarrow> json" where
  "demo_users_json role = JObj [(''users'', JObj [(''u'', JObj [(''tenant_id'', JStr ''t''), (''roles'', JList [JStr role])])])]"

lemma first_run: "provision demo_prov demo_auth (role_files ''admin'') empty_tables =
    (Inr (Provisioned [(''u'', ''gw_abcdefgh'')] (demo_users_json ''admin'') demo_tenants_json), first_tables)"
proof -
  have "fst (provision demo_prov demo_auth (role_files ''admin'') empty_tables) =
      Inr (Provisioned [(''u'', ''gw_abcdefgh'')] (demo_users_json ''admin'') demo_tenants_json)" by code_simp
  then show ?thesis unfolding first_tables_def by (metis prod.collapse)
qed

lemma first_key: "pd_keys first_tables = [(''gw_abcde'', \<lparr>ak_hash = ''gw_abcdefgh'', ak_user_id = ''u'', ak_tenant_id = ''t'', ak_roles = [''admin'']\<rparr>)]"
  by code_simp

lemma provision_idempotent_witness:
  "provision demo_prov demo_auth (role_files ''admin'') first_tables = (Inr NoChange, first_tables)"
  using provision_idempotent [OF first_run, of "pv_random demo_prov" demo_auth] by simp

lemma provisioned_keys_authenticate_witness:
  "\<exists>u row. configured demo_prov u ''u'' row \<and>
     fst (validate_api_key demo_auth ''gw_abcdefgh'' ((auth_start [])\<lparr>api_keys := map_of (pd_keys first_tables)\<rparr>)) = Inr (key_caller row ''gw_abcde'')"
proof -
  have "cache_consistent ((auth_start [])\<lparr>api_keys := map_of (pd_keys first_tables)\<rparr>)" by (simp add: cache_consistent_def auth_start_def)
  from provisioned_keys_authenticate [OF first_run _ _ this, of "''u''" "''gw_abcdefgh''"] show ?thesis
    by (auto simp: demo_auth_def)
qed

text \<open>A configuration that the provisioner refuses.\<close>

lemma refused_run: "provision (demo_prov\<lparr>pv_yaml := \<lambda>s. None\<rparr>) demo_auth (role_files ''admin'') first_tables =
    (Inl (ScriptRaised (OtherException ''YAMLError'')), first_tables)"
proof -
  have "first_tables\<lparr>pd_pricing := pd_pricing first_tables\<rparr> = first_tables" by simp
  then show ?thesis
    by (simp add: provision_def upsert_pricing_def load_pricing_def load_config_def yaml_key_def role_files_def script_def py_iter_def)
qed

lemma failed_provision_keeps_tables_witness:
  "first_tables = first_tables\<lparr>pd_pricing := pd_pricing first_tables\<rparr> \<and> pd_keys first_tables \<noteq> []"
  using failed_provision_keeps_tables [OF refused_run] first_key by simp

text \<open>A demoted administrator: the documents for the policy engine say otherwise, the key still makes an administrator.\<close>

lemma provision_revokes_nothing_witness:
  "fst (provision demo_prov demo_auth (role_files ''tier1'') first_tables) = Inr (Provisioned [] (demo_users_json ''tier1'') demo_tenants_json) \<and>
   (\<exists>row. api_key_reference demo_auth (map_of (pd_keys (snd (provision demo_prov demo_auth (role_files ''tier1'') first_tables)))) ''gw_abcdefgh'' =
      Inr (key_caller row ''gw_abcde'') \<and> ak_roles row = [''admin''])"
proof -
  have a: "api_key_reference demo_auth (map_of (pd_keys first_tables)) ''gw_abcdefgh'' =
      Inr (key_caller \<lparr>ak_hash = ''gw_abcdefgh'', ak_user_id = ''u'', ak_tenant_id = ''t'', ak_roles = [''admin'']\<rparr> ''gw_abcde'')"
    unfolding first_key by (simp add: api_key_reference_def demo_auth_def)
  have p: "fst (provision demo_prov demo_auth (role_files ''tier1'') first_tables) = Inr (Provisioned [] (demo_users_json ''tier1'') demo_tenants_json)"
    by code_simp
  obtain db' where d: "provision demo_prov demo_auth (role_files ''tier1'') first_tables =
      (Inr (Provisioned [] (demo_users_json ''tier1'') demo_tenants_json), db')" using p by (metis prod.collapse)
  from provision_revokes_nothing [OF d a] p show ?thesis unfolding d by auto
qed

end
