(* ===== verification/Publish.thy ===== *)
theory Publish imports Transition begin

text \<open>
  Replacing a file in one step, as \<open>write_status\<close> of \<open>google_credential_sentinel.py\<close>, \<open>materialize_adc\<close> of
  \<open>google_adc_keychain.py\<close> and \<open>_write_yaml\<close> of \<open>onboard.py\<close> do: a temporary file in the same directory is created,
  written piece by piece and renamed; after an exception it is removed. The process may be killed between any two calls.
\<close>

section \<open>The calls\<close>

type_synonym 'a files = "string \<Rightarrow> 'a list option"

datatype 'a publishing =
    Resting
  | Writing string "'a list"   \<comment> \<open>the temporary file and what is still to be written\<close>
  | Replaced string
  | Abandoned string

record 'a publisher =
  pb_files :: "'a files"
  pb_pc :: "'a publishing"

text \<open>One call, on the way to replacing \<open>path\<close> by \<open>contents\<close>; a killed process leaves its temporary file.\<close>

inductive publish_step :: "string \<Rightarrow> 'a list \<Rightarrow> 'a publisher \<Rightarrow> 'a publisher \<Rightarrow> bool" for path contents where
  mkstemp: "publish_step path contents \<lparr>pb_files = fs, pb_pc = Resting\<rparr>
      \<lparr>pb_files = fs(tmp \<mapsto> []), pb_pc = Writing tmp contents\<rparr>" if "fs tmp = None" "tmp \<noteq> path"
| write_some: "publish_step path contents \<lparr>pb_files = fs, pb_pc = Writing tmp (piece @ rest)\<rparr>
      \<lparr>pb_files = fs(tmp \<mapsto> w @ piece), pb_pc = Writing tmp rest\<rparr>" if "fs tmp = Some w"
| replace_target: "publish_step path contents \<lparr>pb_files = fs, pb_pc = Writing tmp []\<rparr>
      \<lparr>pb_files = (fs(path := fs tmp))(tmp := None), pb_pc = Replaced tmp\<rparr>"
| raise_error: "publish_step path contents \<lparr>pb_files = fs, pb_pc = Writing tmp rest\<rparr> \<lparr>pb_files = fs, pb_pc = Abandoned tmp\<rparr>"
| unlink_done: "publish_step path contents \<lparr>pb_files = fs, pb_pc = Replaced tmp\<rparr> \<lparr>pb_files = fs(tmp := None), pb_pc = Resting\<rparr>"
| unlink_error: "publish_step path contents \<lparr>pb_files = fs, pb_pc = Abandoned tmp\<rparr> \<lparr>pb_files = fs(tmp := None), pb_pc = Resting\<rparr>"
| killed: "publish_step path contents \<lparr>pb_files = fs, pb_pc = pc\<rparr> \<lparr>pb_files = fs, pb_pc = Resting\<rparr>"

text \<open>A publisher of any contents with a property.\<close>

definition publishes :: "string \<Rightarrow> ('a list \<Rightarrow> bool) \<Rightarrow> 'a publisher \<Rightarrow> 'a publisher \<Rightarrow> bool" where
  "publishes path good p p' \<longleftrightarrow> (\<exists>contents. good contents \<and> publish_step path contents p p')"

section \<open>The reader's view\<close>

definition publishing_ok :: "string \<Rightarrow> ('a list \<Rightarrow> bool) \<Rightarrow> 'a files \<Rightarrow> 'a publishing \<Rightarrow> bool" where
  "publishing_ok path good fs pc =
     (case pc of
        Resting \<Rightarrow> True
      | Writing tmp rest \<Rightarrow> tmp \<noteq> path \<and> (\<exists>w. fs tmp = Some w \<and> good (w @ rest))
      | Replaced tmp \<Rightarrow> tmp \<noteq> path
      | Abandoned tmp \<Rightarrow> tmp \<noteq> path)"

definition publisher_inv :: "string \<Rightarrow> ('a list \<Rightarrow> bool) \<Rightarrow> 'a publisher \<Rightarrow> bool" where
  "publisher_inv path good p \<longleftrightarrow>
     (\<forall>c. pb_files p path = Some c \<longrightarrow> good c) \<and> publishing_ok path good (pb_files p) (pb_pc p)"

lemma publish_step_inv:
  assumes "publish_step path contents p p'" "publisher_inv path good p" "good contents"
  shows "publisher_inv path good p'"
  using assms by (induction rule: publish_step.induct) (auto simp: publisher_inv_def publishing_ok_def)

text \<open>The target is never half written: a step leaves it, or replaces it as a whole.\<close>

lemma publish_step_target:
  assumes "publish_step path contents p p'" "publisher_inv path good p"
  shows "pb_files p' path = pb_files p path \<or> (\<exists>c. good c \<and> pb_files p' path = Some c)"
  using assms by (induction rule: publish_step.induct) (auto simp: publisher_inv_def publishing_ok_def)

lemma publisher_inv_mono: "publisher_inv path good p \<Longrightarrow> (\<And>c. good c \<Longrightarrow> good' c) \<Longrightarrow> publisher_inv path good' p"
  by (cases "pb_pc p") (auto simp: publisher_inv_def publishing_ok_def)

interpretation publishing: step_invariant "publishes path good" "publisher_inv path good" for path good
  by unfold_locales (auto simp: publishes_def intro: publish_step_inv)

text \<open>Left alone, the calls end with the contents in place and no temporary file.\<close>

lemma publish_completes:
  assumes "fs tmp = None" "tmp \<noteq> path"
  shows "(publish_step path contents)\<^sup>*\<^sup>* \<lparr>pb_files = fs, pb_pc = Resting\<rparr> \<lparr>pb_files = fs(path \<mapsto> contents), pb_pc = Resting\<rparr>"
proof -
  let ?fs = "fs(tmp \<mapsto> contents)"
  have t: "((?fs(path := ?fs tmp))(tmp := None))(tmp := None) = fs(path \<mapsto> contents)" using assms by auto
  have s: "publish_step path contents \<lparr>pb_files = fs, pb_pc = Resting\<rparr> \<lparr>pb_files = fs(tmp \<mapsto> []), pb_pc = Writing tmp contents\<rparr>"
    using assms by (rule publish_step.mkstemp)
  have w: "publish_step path contents \<lparr>pb_files = fs(tmp \<mapsto> []), pb_pc = Writing tmp contents\<rparr> \<lparr>pb_files = ?fs, pb_pc = Writing tmp []\<rparr>"
    using publish_step.write_some [of "fs(tmp \<mapsto> [])" tmp "[]" path contents contents "[]"] by simp
  have r: "publish_step path contents \<lparr>pb_files = ?fs, pb_pc = Writing tmp []\<rparr> \<lparr>pb_files = (?fs(path := ?fs tmp))(tmp := None), pb_pc = Replaced tmp\<rparr>"
    by (rule publish_step.replace_target)
  have u: "publish_step path contents \<lparr>pb_files = (?fs(path := ?fs tmp))(tmp := None), pb_pc = Replaced tmp\<rparr> \<lparr>pb_files = fs(path \<mapsto> contents), pb_pc = Resting\<rparr>"
    using publish_step.unlink_done [of path contents "(?fs(path := ?fs tmp))(tmp := None)" tmp] unfolding t .
  show ?thesis using s w r u by (meson converse_rtranclp_into_rtranclp rtranclp.rtrancl_refl)
qed

end
