(* ===== verification/Onboard.thy ===== *)
theory Onboard imports Provision Publish begin

text \<open>
  The onboarding helper (\<open>scripts/onboard.py\<close>), which edits the files that the provisioner reads, and the two together. The
  YAML reader and writer and \<open>urlparse\<close> are parameters; the snippets for the agents are fixed text around the two URLs.
\<close>

section \<open>Files\<close>

record onboard_files =
  ob_tenants :: "string option"   \<comment> \<open>\<open>None\<close>: there is no such file\<close>
  ob_users :: "string option"

definition load_yaml :: "provision_lib \<Rightarrow> string \<Rightarrow> string option \<Rightarrow> string \<Rightarrow> provision_failure + json_object" where
  "load_yaml lib path file top_key =
     (case file of
        None \<Rightarrow> Inr [(top_key, JList [])]
      | Some contents \<Rightarrow>
          (case pv_yaml lib contents of
             None \<Rightarrow> Inl (ScriptRaised (OtherException ''YAMLError''))
           | Some v \<Rightarrow>
               (case (if json_truthy v then v else JObj []) of
                  JObj d \<Rightarrow>
                    (let data = (if jget d top_key = JNull then dict_set top_key (JList []) d else d) in
                     case jget data top_key of
                       JList _ \<Rightarrow> Inr data
                     | _ \<Rightarrow> Inl (ScriptExit (path @ '' must contain a top-level '' @ top_key @ '': list'')))
                | _ \<Rightarrow> Inl (ScriptRaised TypeError))))"

definition list_at :: "json_object \<Rightarrow> string \<Rightarrow> json list" where
  "list_at data key = (case jget data key of JList xs \<Rightarrow> xs | _ \<Rightarrow> [])"

definition has_id :: "json list \<Rightarrow> string \<Rightarrow> bool" where
  \<comment> \<open>\<open>any(isinstance(x, dict) and x.get("id") == id for x in xs)\<close>\<close>
  "has_id xs i = list_ex (\<lambda>x. is_obj x \<and> jget (as_obj x) ''id'' = JStr i) xs"

definition users_path :: "string \<Rightarrow> string" where
  "users_path dir = dir @ ''/users.yaml''"

definition tenants_path :: "string \<Rightarrow> string" where
  "tenants_path dir = dir @ ''/tenants.yaml''"

definition tenant_exists :: "provision_lib \<Rightarrow> string \<Rightarrow> onboard_files \<Rightarrow> string \<Rightarrow> provision_failure + bool" where
  "tenant_exists lib dir files tenant_id =
     ebind (load_yaml lib (tenants_path dir) (ob_tenants files) ''tenants'') (\<lambda>data. Inr (has_id (list_at data ''tenants'') tenant_id))"

section \<open>Identities\<close>

definition normal_roles :: "string list \<Rightarrow> bool \<Rightarrow> string list" where
  "normal_roles roles service_account =
     fold (\<lambda>role result. if role \<in> set result then result else result @ [role])
       (if roles = [] then [''tier1''] else roles) (if service_account then [''service_account''] else [])"

definition PLACEHOLDER_KEY :: string where
  "PLACEHOLDER_KEY = ''REPLACE_IN_PROVISIONER''"

record identity =
  id_name :: string
  id_tenant :: string
  id_roles :: "string list"
  id_service :: bool

definition identity_entry :: "identity \<Rightarrow> json" where
  "identity_entry i =
     JObj [(''id'', JStr (id_name i)), (''tenant_id'', JStr (id_tenant i)),
       (''roles'', JList (map JStr (normal_roles (id_roles i) (id_service i)))), (''initial_key'', JStr PLACEHOLDER_KEY)]"

definition add_identity ::
    "provision_lib \<Rightarrow> (json \<Rightarrow> string) \<Rightarrow> string \<Rightarrow> identity \<Rightarrow> onboard_files \<Rightarrow> provision_failure + (string \<times> onboard_files)" where
  "add_identity lib dump dir i files =
     ebind (tenant_exists lib dir files (id_tenant i)) (\<lambda>known.
       if \<not> known
       then Inl (ScriptExit (''Unknown tenant_id '' @ pv_repr lib (JStr (id_tenant i)) @ ''; add it to '' @ tenants_path dir @ '' first''))
       else ebind (load_yaml lib (users_path dir) (ob_users files) ''users'') (\<lambda>data.
         let users = list_at data ''users'' in
         if has_id users (id_name i)
         then Inr (id_name i @ '' already exists in '' @ users_path dir @ ''; no changes made.'', files)
         else Inr (''Added '' @ (if id_service i then ''service account'' else ''user'') @ '' '' @ id_name i @ '' to tenant '' @ id_tenant i @
             ''. Run `make provision` to create the database row and initial API key.'',
           files\<lparr>ob_users := Some (dump (JObj (dict_set ''users'' (JList (users @ [identity_entry i])) data)))\<rparr>)))"

section \<open>The command line\<close>

definition gateway_v1_url :: "(string \<Rightarrow> string \<times> string) \<Rightarrow> string \<Rightarrow> provision_failure + string" where
  \<comment> \<open>the parameter: scheme and network location by \<open>urlparse\<close>\<close>
  "gateway_v1_url parse gateway_url =
     (let normalized = rev (dropWhile (\<lambda>c. c = CHR ''/'') (rev gateway_url)); (scheme, netloc) = parse normalized in
      if scheme \<notin> {''http'', ''https''} \<or> netloc = [] then Inl (ScriptExit ''--gateway-url must be an absolute http(s) URL'')
      else if suffix ''/v1'' normalized then Inr normalized
      else Inr (normalized @ ''/v1''))"

datatype onboard_command =
    AddUser string string "string list"             \<comment> \<open>tenant, user, roles\<close>
  | AddServiceAccount string string "string list"

definition onboard_identity :: "onboard_command \<Rightarrow> identity" where
  "onboard_identity command =
     (case command of
        AddUser tenant user roles \<Rightarrow> \<lparr>id_name = user, id_tenant = tenant, id_roles = roles, id_service = False\<rparr>
      | AddServiceAccount tenant account roles \<Rightarrow>
          \<lparr>id_name = (if py_startswith account ''svc-'' then account else ''svc-'' @ account), id_tenant = tenant, id_roles = roles,
           id_service = True\<rparr>)"

definition onboard_main ::
    "provision_lib \<Rightarrow> (json \<Rightarrow> string) \<Rightarrow> string \<Rightarrow> onboard_command \<Rightarrow> onboard_files \<Rightarrow> provision_failure + (string \<times> onboard_files)" where
  "onboard_main lib dump dir command files = add_identity lib dump dir (onboard_identity command) files"

section \<open>Lemmas\<close>

lemma normal_roles_fold:
  "set (fold (\<lambda>role result. if role \<in> set result then result else result @ [role]) roles start) = set start \<union> set roles \<and>
   (distinct start \<longrightarrow> distinct (fold (\<lambda>role result. if role \<in> set result then result else result @ [role]) roles start))"
  by (induction roles arbitrary: start) auto

lemma normal_roles_set:
  "set (normal_roles roles service) = (if service then {''service_account''} else {}) \<union> set (if roles = [] then [''tier1''] else roles)"
  "distinct (normal_roles roles service)"
  using normal_roles_fold [of "if roles = [] then [''tier1''] else roles" "if service then [''service_account''] else []"]
  by (auto simp: normal_roles_def)

lemma load_yaml_Inr: "load_yaml lib path file key = Inr data \<Longrightarrow> jget data key = JList (list_at data key)"
  by (cases "jget data key") (auto simp: load_yaml_def list_at_def Let_def jget_def dict_get_or_def split: option.splits json.splits if_splits)

lemma add_identity_Inr:
  assumes "add_identity lib dump dir i files = Inr (message, files')"
  obtains (there) data where "load_yaml lib (users_path dir) (ob_users files) ''users'' = Inr data"
      "has_id (list_at data ''users'') (id_name i)" "files' = files"
  | (added) data where "load_yaml lib (users_path dir) (ob_users files) ''users'' = Inr data"
      "\<not> has_id (list_at data ''users'') (id_name i)" "tenant_exists lib dir files (id_tenant i) = Inr True"
      "files' = files\<lparr>ob_users := Some (dump (JObj (dict_set ''users'' (JList (list_at data ''users'' @ [identity_entry i])) data)))\<rparr>"
  using assms by (auto simp: add_identity_def ebind_eq_Inr Let_def split: if_splits)

lemma has_id_snoc: "has_id (xs @ [identity_entry i]) (id_name i)"
  by (simp add: has_id_def identity_entry_def jget_def dict_get_or_def)

text \<open>Who has a key after a run had one before, or is handed one.\<close>

lemma provision_users_issued:
  "provision_users lib alib us (db, n, g) = Inr (db', n', g') \<Longrightarrow>
     set (users_with_keys db') \<subseteq> set (users_with_keys db) \<union> fst ` set g' \<and> set g \<subseteq> set g'"
proof (induction us arbitrary: db n g)
  case (Cons u us)
  obtain db1 n1 g1 where s: "provision_user lib alib u (db, n, g) = Inr (db1, n1, g1)"
      "provision_users lib alib us (db1, n1, g1) = Inr (db', n', g')"
    using Cons.prems by (auto simp: ebind_eq_Inr)
  have IH: "set (users_with_keys db') \<subseteq> set (users_with_keys db1) \<union> fst ` set g'" "set g1 \<subseteq> set g'"
    using Cons.IH [OF s(2)] by auto
  from s(1) show ?case
  proof (cases rule: provision_user_Inr)
    case (kept user_id)
    then have "users_with_keys db1 = users_with_keys db" by (simp add: users_with_keys_def)
    then show ?thesis using IH kept(3) by simp
  next
    case (issued user_id key row)
    have "set (users_with_keys db1) = insert user_id (set (users_with_keys db))"
      using issued(2,5) by (auto simp: users_with_keys_def configured_def)
    moreover have "user_id \<in> fst ` set g'" using IH(2) issued(6) by force
    ultimately show ?thesis using IH issued(6) by auto
  qed
qed simp

section \<open>Properties\<close>

text \<open>
  Adding an identity is idempotent: once it has been added, adding it again, with whatever tenant, roles or kind, changes
  nothing (when the reader reads back what the writer wrote).
\<close>

lemma add_identity_again:
  assumes "add_identity lib dump dir i files = Inr (message, files')" "id_name j = id_name i"
    and "\<And>v. ob_users files' = Some (dump v) \<Longrightarrow> pv_yaml lib (dump v) = Some v"
    and "add_identity lib dump dir j files' = Inr (message', files'')"
  shows "files'' = files'"
  using assms(1)
proof (cases rule: add_identity_Inr)
  case (there data)
  from assms(4) show ?thesis
    by (cases rule: add_identity_Inr) (use there assms(2) in auto)
next
  case (added data)
  let ?doc = "dict_set ''users'' (JList (list_at data ''users'' @ [identity_entry i])) data"
  have u: "ob_users files' = Some (dump (JObj ?doc))" using added(4) by simp
  have "?doc \<noteq> []" by (cases data) (auto split: if_splits)
  then have "load_yaml lib (users_path dir) (ob_users files') ''users'' = Inr ?doc"
    using assms(3) [OF u] unfolding u by (simp add: load_yaml_def Let_def)
  moreover have "has_id (list_at ?doc ''users'') (id_name j)" using has_id_snoc assms(2) by (simp add: list_at_def)
  ultimately show ?thesis using assms(4) by (auto elim!: add_identity_Inr)
qed

text \<open>
  C34. From onboarding to authentication: when a new identity is added and the provisioner then runs over the edited files without an
  error, the identity, if it had no key, is handed one, and the gateway accepts it as that identity, with the tenant and the
  normalised roles that it was added with.
\<close>

theorem onboarded_identity_authenticates:
  assumes "add_identity lib dump dir i files = Inr (message, files')"
    and "load_yaml lib (users_path dir) (ob_users files) ''users'' = Inr data" "\<not> has_id (list_at data ''users'') (id_name i)"
    and "\<And>v. ob_users files' = Some (dump v) \<Longrightarrow> pv_yaml lib (dump v) = Some v"
    and "provision lib alib \<lparr>pf_tenants = tenants_text, pf_users = the (ob_users files'), pf_models = models_text, pf_pricing = prices_text\<rparr> db = (Inr report, db')"
    and "id_name i \<notin> set (users_with_keys db)" "\<And>k. checkpw alib k (hashpw alib k)"
    and "cache_consistent s" "api_keys s = map_of (pd_keys db')"
  shows "\<exists>generated users_json tenants_json key row. report = Provisioned generated users_json tenants_json \<and>
    (id_name i, key) \<in> set generated \<and> fst (validate_api_key alib key s) = Inr (key_caller row (take 8 key)) \<and>
    ak_user_id row = id_name i \<and> pv_text lib (JStr (id_tenant i)) = Some (ak_tenant_id row) \<and>
    pv_text_array lib (JList (map JStr (normal_roles (id_roles i) (id_service i)))) = Some (ak_roles row)"
proof -
  let ?files = "\<lparr>pf_tenants = tenants_text, pf_users = the (ob_users files'), pf_models = models_text, pf_pricing = prices_text\<rparr>"
  let ?users = "list_at data ''users'' @ [identity_entry i]"
  let ?doc = "JObj (dict_set ''users'' (JList ?users) data)"
  have "ob_users files' = Some (dump ?doc)"
    using assms(1) by (cases rule: add_identity_Inr) (use assms(2,3) in auto)
  then have y: "yaml_key lib (pf_users ?files) ''users'' = Inr (JList ?users)"
    using assms(4) by (simp add: yaml_key_def script_def)
  have us: "us = ?users" if "load_config lib ?files = Inr (tenants, users)" "script (py_iter users) = Inr us" for tenants users us
    using that y by (auto simp: load_config_def ebind_eq_Inr py_iter_def script_def)
  have e: "py_subscript (identity_entry i) ''id'' = Inr (JStr (id_name i))" by (simp add: identity_entry_def)
  from assms(5) show ?thesis
  proof (cases rule: provision_cases)
    case (unchanged tenants users us missing)
    have "lacks_key db' (identity_entry i) = Inr True"
      using e assms(6) upsert_pricing_Inr [OF unchanged(1)] by (auto simp: lacks_key_def script_def users_with_keys_def)
    moreover have "map (lacks_key db') ?users = map Inr missing" using unchanged(4) us [OF unchanged(2,3)] by (simp add: emap_Inr_iff)
    ultimately have "True \<in> set missing" by (metis (no_types, lifting) Inr_inject in_set_conv_decomp list.set_map map_append list.simps(9) imageE imageI)
    then show ?thesis using unchanged(6) by simp
  next
    case (applied db1 tenants users us n db2 db3 generated)
    note us = us [OF applied(2,3)]
    have "users_with_keys db2 = users_with_keys db"
      using upsert_pricing_Inr [OF applied(1)] upsert_tenants_Inr [OF applied(4)] by (auto simp: users_with_keys_def)
    moreover have "id_name i \<in> set (users_with_keys db3)"
      using provision_users_Inr [OF applied(5)] e us by (metis Inr_inject in_set_conv_decomp json.inject(4))
    ultimately obtain key where k: "(id_name i, key) \<in> set generated"
      using provision_users_issued [OF applied(5)] assms(6) by force
    have res: "provision lib alib ?files db = (Inr (Provisioned generated (users_doc us) (tenants_doc lib tenants)), db')"
      using assms(5) applied(7) by simp
    from provisioned_keys_found [OF res k assms(7) assms(8,9)] obtain tenants' users' us' u row where
      c: "load_config lib ?files = Inr (tenants', users')" "py_iter users' = Inr us'" "u \<in> set us'" "configured lib u (id_name i) row"
        "fst (validate_api_key alib key s) = Inr (key_caller row (take 8 key))" by blast
    have "u \<in> set ?users" using c applied(2) us applied(3) by (simp add: script_Inr)
    moreover have "u \<notin> set (list_at data ''users'')"
      using assms(3) c(4) by (auto simp: has_id_def list_ex_iff configured_def py_subscript_Inr jget_def dict_get_or_def)
    ultimately have "u = identity_entry i" by simp
    then show ?thesis using k c(4,5) applied(7) by (auto simp: configured_def identity_entry_def jget_def jget_or_def dict_get_or_def)
  qed simp_all
qed

section \<open>Witness\<close>

definition new_user :: identity where
  "new_user = \<lparr>id_name = ''u'', id_tenant = ''t'', id_roles = [], id_service = False\<rparr>"

definition new_document :: json where
  "new_document = JObj [(''users'', JList [identity_entry new_user])]"

definition onboard_dump :: "json \<Rightarrow> string" where
  "onboard_dump v = (if v = new_document then ''D'' else ''X'')"

definition onboard_lib :: provision_lib where
  "onboard_lib = demo_prov\<lparr>pv_yaml := \<lambda>s. Some
     (if s = ''D'' then new_document
      else JObj [(''tenants'', JList [JObj [(''id'', JStr ''t''), (''name'', JStr ''T''), (''default_provider'', JStr ''openai'')]]),
        (''models'', JList [])])\<rparr>"

definition onboard_demo :: onboard_files where
  "onboard_demo = \<lparr>ob_tenants = Some ''T'', ob_users = None\<rparr>"

definition onboard_config :: provision_files where
  "onboard_config = \<lparr>pf_tenants = ''T'', pf_users = ''D'', pf_models = ''M'', pf_pricing = None\<rparr>"

definition onboard_tables :: provision_db where
  "onboard_tables = snd (provision onboard_lib demo_auth onboard_config empty_tables)"

definition onboard_gateway :: auth_state where
  "onboard_gateway = (auth_start [])\<lparr>api_keys := map_of (pd_keys onboard_tables)\<rparr>"

lemma onboard_adds: "snd (the (case add_identity onboard_lib onboard_dump ''c'' new_user onboard_demo of Inr r \<Rightarrow> Some r | Inl e \<Rightarrow> None)) =
    onboard_demo\<lparr>ob_users := Some ''D''\<rparr>"
  by code_simp

lemma onboard_ok: "\<exists>m. add_identity onboard_lib onboard_dump ''c'' new_user onboard_demo = Inr (m, onboard_demo\<lparr>ob_users := Some ''D''\<rparr>)"
proof -
  have "(case add_identity onboard_lib onboard_dump ''c'' new_user onboard_demo of Inr r \<Rightarrow> True | Inl e \<Rightarrow> False)" by code_simp
  then show ?thesis using onboard_adds
    by (cases "add_identity onboard_lib onboard_dump ''c'' new_user onboard_demo") auto
qed

lemma onboarded_identity_authenticates_witness:
  "\<exists>key row. fst (validate_api_key demo_auth key onboard_gateway) = Inr (key_caller row (take 8 key)) \<and>
     ak_user_id row = ''u'' \<and> ak_tenant_id row = ''t'' \<and> ak_roles row = [''tier1'']"
proof -
  obtain m where m: "add_identity onboard_lib onboard_dump ''c'' new_user onboard_demo = Inr (m, onboard_demo\<lparr>ob_users := Some ''D''\<rparr>)"
    using onboard_ok by blast
  have l: "load_yaml onboard_lib (users_path ''c'') (ob_users onboard_demo) ''users'' = Inr [(''users'', JList [])]" by code_simp
  have h: "\<not> has_id (list_at [(''users'', JList [])] ''users'') (id_name new_user)" by code_simp
  have y: "ob_users (onboard_demo\<lparr>ob_users := Some ''D''\<rparr>) = Some (onboard_dump v) \<Longrightarrow> pv_yaml onboard_lib (onboard_dump v) = Some v" for v
    by (simp add: onboard_dump_def onboard_lib_def split: if_splits)
  have "fst (provision onboard_lib demo_auth onboard_config empty_tables) =
      Inr (Provisioned [(''u'', ''gw_abcdefgh'')] (demo_users_json ''tier1'') demo_tenants_json)" by code_simp
  then have p: "provision onboard_lib demo_auth \<lparr>pf_tenants = ''T'', pf_users = the (ob_users (onboard_demo\<lparr>ob_users := Some ''D''\<rparr>)),
      pf_models = ''M'', pf_pricing = None\<rparr> empty_tables =
      (Inr (Provisioned [(''u'', ''gw_abcdefgh'')] (demo_users_json ''tier1'') demo_tenants_json), onboard_tables)"
    unfolding onboard_tables_def by (simp add: prod_eq_iff onboard_config_def)
  have n: "id_name new_user \<notin> set (users_with_keys empty_tables)" by (simp add: users_with_keys_def empty_tables_def)
  have c: "cache_consistent onboard_gateway" "api_keys onboard_gateway = map_of (pd_keys onboard_tables)"
    by (simp_all add: cache_consistent_def onboard_gateway_def auth_start_def)
  have k: "checkpw demo_auth key (hashpw demo_auth key)" for key by (simp add: demo_auth_def)
  obtain key row where "fst (validate_api_key demo_auth key onboard_gateway) = Inr (key_caller row (take 8 key))"
      "ak_user_id row = id_name new_user" "pv_text onboard_lib (JStr (id_tenant new_user)) = Some (ak_tenant_id row)"
      "pv_text_array onboard_lib (JList (map JStr (normal_roles (id_roles new_user) (id_service new_user)))) = Some (ak_roles row)"
    using onboarded_identity_authenticates [OF m l h y p n k c] by blast
  then show ?thesis
    by (intro exI [of _ key] exI [of _ row]) (auto simp: new_user_def onboard_lib_def demo_prov_def normal_roles_def)
qed

end
