(* ===== verification/Sentinel.thy ===== *)
theory Sentinel imports Publish GovCredentials begin

text \<open>
  The credential sentinel (\<open>google_credential_sentinel.py\<close>, \<open>run_forever\<close>): a process that probes the Google credential and
  publishes a status document, and the governance service that reads it (\<open>credentials_ready\<close>). Time passes between any two
  calls, and either call may be the last before the process is killed. \<open>json\<close> and ISO timestamps are parameters.
\<close>

section \<open>The process\<close>

record sentinel_lib =
  sl_dumps :: "json \<Rightarrow> string"             \<comment> \<open>\<open>json.dump\<close> with sorted keys\<close>
  sl_loads :: "string \<Rightarrow> json option"
  sl_timestamp :: "rat \<Rightarrow> string"
  sl_from_iso :: "string \<Rightarrow> rat option"

record sentinel_conf =
  sc_path :: string
  sc_expected :: string

text \<open>\<open>sn_probes\<close> is no state of the code: it records when which credential was probed.\<close>

record sentinel_state =
  sn_now :: rat
  sn_publisher :: "char publisher"
  sn_document :: "json option"   \<comment> \<open>probed and to be published\<close>
  sn_probes :: "(rat \<times> adc_default) list"

text \<open>\<open>write_status\<close> writes the document and a line feed.\<close>

definition status_text :: "sentinel_lib \<Rightarrow> json \<Rightarrow> string" where
  "status_text lib status = sl_dumps lib status @ [CHR 10]"

text \<open>
  A probe notes the time before it refreshes the credential. The relation allows more than the loop does: a document may be
  published again, and a process may be restarted at once.
\<close>

inductive sentinel_step :: "sentinel_lib \<Rightarrow> sentinel_conf \<Rightarrow> sentinel_state \<Rightarrow> sentinel_state \<Rightarrow> bool" for lib conf where
  time: "sentinel_step lib conf s (s\<lparr>sn_now := sn_now s + d\<rparr>)" if "0 \<le> d"
| probed: "sentinel_step lib conf s
      (s\<lparr>sn_document := Some (probe (sl_timestamp lib (sn_now s)) cred (sc_expected conf)), sn_probes := (sn_now s, cred) # sn_probes s\<rparr>)"
    if "pb_pc (sn_publisher s) = Resting"
| call: "sentinel_step lib conf s (s\<lparr>sn_publisher := p\<rparr>)"
    if "sn_document s = Some doc" "publish_step (sc_path conf) (status_text lib doc) (sn_publisher s) p"
| restarted: "sentinel_step lib conf s (s\<lparr>sn_document := None, sn_publisher := (sn_publisher s)\<lparr>pb_pc := Resting\<rparr>\<rparr>)"

definition sentinel_start :: "rat \<Rightarrow> sentinel_state" where
  "sentinel_start t = \<lparr>sn_now = t, sn_publisher = \<lparr>pb_files = (\<lambda>_. None), pb_pc = Resting\<rparr>, sn_document = None, sn_probes = []\<rparr>"

text \<open>What the governance service sees of it.\<close>

definition seen_status :: "sentinel_lib \<Rightarrow> sentinel_state \<Rightarrow> sentinel_env" where
  "seen_status lib s =
     \<lparr>status_file = (\<lambda>p. Option.bind (pb_files (sn_publisher s) p) (sl_loads lib)), from_iso = sl_from_iso lib, utc_now = sn_now s\<rparr>"

text \<open>\<open>main\<close>: what the environment must say before the loop starts, and the exit status of \<open>--check\<close>.\<close>

definition sentinel_main :: "bool \<Rightarrow> (py_error + bool) \<Rightarrow> string option \<Rightarrow> rat \<Rightarrow> py_error + nat option" where
  \<comment> \<open>\<open>None\<close>: the loop runs\<close>
  "sentinel_main check ready expected interval =
     (if check then ebind ready (\<lambda>r. Inr (Some (if r then 0 else 1)))
      else if \<not> truthy_str expected then Inr (Some 2)
      else if interval \<le> 0 then Inr (Some 2)
      else Inr None)"

section \<open>Invariant\<close>

text \<open>The library reads back what it wrote: \<open>json.loads\<close> of \<open>json.dump\<close>, and \<open>fromisoformat\<close> of \<open>isoformat\<close>.\<close>

definition reads_back :: "sentinel_lib \<Rightarrow> sentinel_conf \<Rightarrow> rat \<Rightarrow> adc_default \<Rightarrow> bool" where
  "reads_back lib conf t cred \<longleftrightarrow>
     (let doc = probe (sl_timestamp lib t) cred (sc_expected conf) in sl_loads lib (status_text lib doc) = Some doc) \<and>
     sl_from_iso lib (replace_Z (sl_timestamp lib t)) = Some t"

definition probed_document :: "sentinel_lib \<Rightarrow> sentinel_conf \<Rightarrow> (rat \<times> adc_default) list \<Rightarrow> json \<Rightarrow> bool" where
  "probed_document lib conf probes doc \<longleftrightarrow>
     (\<exists>(t, cred) \<in> set probes. doc = probe (sl_timestamp lib t) cred (sc_expected conf))"

definition probed_text :: "sentinel_lib \<Rightarrow> sentinel_conf \<Rightarrow> (rat \<times> adc_default) list \<Rightarrow> string \<Rightarrow> bool" where
  "probed_text lib conf probes c \<longleftrightarrow> (\<exists>doc. probed_document lib conf probes doc \<and> c = status_text lib doc)"

definition sentinel_inv :: "sentinel_lib \<Rightarrow> sentinel_conf \<Rightarrow> sentinel_state \<Rightarrow> bool" where
  "sentinel_inv lib conf s \<longleftrightarrow>
     publisher_inv (sc_path conf) (probed_text lib conf (sn_probes s)) (sn_publisher s) \<and>
     (\<forall>doc. sn_document s = Some doc \<longrightarrow> probed_document lib conf (sn_probes s) doc) \<and>
     (\<forall>(t, cred) \<in> set (sn_probes s). t \<le> sn_now s)"

lemma probed_text_mono: "probed_text lib conf ps c \<Longrightarrow> probed_text lib conf (p # ps) c"
  by (auto simp: probed_text_def probed_document_def)

interpretation sentinel: initialised_invariant "sentinel_step lib conf" "sentinel_inv lib conf" "sentinel_start t" for lib conf t
proof unfold_locales
  show "sentinel_inv lib conf (sentinel_start t)"
    by (simp add: sentinel_inv_def sentinel_start_def publisher_inv_def publishing_ok_def)
next
  fix s s'
  assume "sentinel_inv lib conf s" "sentinel_step lib conf s s'"
  from this(2,1) show "sentinel_inv lib conf s'"
  proof (induction rule: sentinel_step.induct)
    case (time d s)
    then show ?case by (fastforce simp: sentinel_inv_def)
  next
    case (probed s cred)
    have "publisher_inv (sc_path conf) (probed_text lib conf ((sn_now s, cred) # sn_probes s)) (sn_publisher s)"
      by (rule publisher_inv_mono [where good = "probed_text lib conf (sn_probes s)"])
        (use probed in \<open>auto simp: sentinel_inv_def intro: probed_text_mono\<close>)
    then show ?case using probed by (auto simp: sentinel_inv_def probed_document_def)
  next
    case (call s doc p)
    have "probed_text lib conf (sn_probes s) (status_text lib doc)"
      using call by (auto simp: sentinel_inv_def probed_text_def)
    then show ?case using call publish_step_inv [OF call(2)] by (auto simp: sentinel_inv_def)
  next
    case (restarted s)
    then show ?case by (simp add: sentinel_inv_def publisher_inv_def publishing_ok_def)
  qed
qed

section \<open>Properties\<close>

lemma status_of_probe:
  assumes "reads_back lib conf t cred" "0 \<le> max_age" "path \<noteq> []"
    and "status_file env path = Some (probe (sl_timestamp lib t) cred (sc_expected conf))"
    and "from_iso env = sl_from_iso lib"
  shows "credentials_ready env (Some path) max_age =
    Inr (0 \<le> utc_now env - t \<and> utc_now env - t \<le> max_age \<and> (\<exists>r. preflight cred (Some (sc_expected conf)) = Inr r))"
  using assms
  by (cases "preflight cred (Some (sc_expected conf))")
    (auto simp: credentials_ready_def read_status_def probe_def reads_back_def truthy_str_def status_known_def jget_def dict_get_or_def Let_def)


text \<open>And it lets a working credential through: a published probe that refreshed it is found ready until it is too old.\<close>

lemma sentinel_ready_complete:
  assumes "reads_back lib conf t cred" "sc_path conf \<noteq> []" "preflight cred (Some (sc_expected conf)) = Inr r"
    and "pb_files (sn_publisher s) (sc_path conf) = Some (status_text lib (probe (sl_timestamp lib t) cred (sc_expected conf)))"
    and "t \<le> sn_now s" "sn_now s \<le> t + max_age"
  shows "credentials_ready (seen_status lib s) (Some (sc_path conf)) max_age = Inr True"
proof -
  have "status_file (seen_status lib s) (sc_path conf) = Some (probe (sl_timestamp lib t) cred (sc_expected conf))"
    using assms(1,4) by (simp add: seen_status_def reads_back_def Let_def)
  from status_of_probe [OF assms(1) _ assms(2) this, of max_age] assms(3,5,6) show ?thesis
    by (simp add: seen_status_def algebra_simps)
qed

section \<open>Witness\<close>

lemma sentinel_calls:
  assumes "(publish_step (sc_path conf) (status_text lib doc))\<^sup>*\<^sup>* (sn_publisher s) p" "sn_document s = Some doc"
  shows "(sentinel_step lib conf)\<^sup>*\<^sup>* s (s\<lparr>sn_publisher := p\<rparr>)"
  using assms(1)
proof (induction rule: rtranclp_induct)
  case base
  then show ?case by simp
next
  case (step p p')
  have "sentinel_step lib conf (s\<lparr>sn_publisher := p\<rparr>) ((s\<lparr>sn_publisher := p\<rparr>)\<lparr>sn_publisher := p'\<rparr>)"
    by (rule sentinel_step.call [where doc = doc]) (use assms(2) step in simp_all)
  then show ?case using step.IH by simp
qed

definition sentinel_cred :: adc_default where
  "sentinel_cred = AdcFound \<lparr>adc_impersonated = True, adc_email = Some ''e'', adc_refresh = RefreshOk, adc_expiry = None\<rparr>"

definition sentinel_conf_demo :: sentinel_conf where
  "sentinel_conf_demo = \<lparr>sc_path = ''s'', sc_expected = ''e''\<rparr>"

definition sentinel_doc :: json where
  "sentinel_doc = JObj [(''status'', JStr ''ready''), (''checked_at'', JStr ''0''), (''service_account'', JStr ''e'')]"

definition sentinel_lib_demo :: sentinel_lib where
  "sentinel_lib_demo = \<lparr>sl_dumps = (\<lambda>doc. ''{}''), sl_loads = (\<lambda>c. Some sentinel_doc), sl_timestamp = (\<lambda>t. ''0''), sl_from_iso = (\<lambda>c. Some 0)\<rparr>"

definition sentinel_published :: sentinel_state where
  "sentinel_published = \<lparr>sn_now = 0, sn_publisher = \<lparr>pb_files = (\<lambda>_. None)(''s'' \<mapsto> ''{}'' @ [CHR 10]), pb_pc = Resting\<rparr>,
     sn_document = Some sentinel_doc, sn_probes = [(0, sentinel_cred)]\<rparr>"

lemma sentinel_demo_probe: "probe ''0'' sentinel_cred ''e'' = sentinel_doc"
  by (simp add: probe_def preflight_def sentinel_cred_def sentinel_doc_def truthy_str_def json_opt_str_def Let_def)

lemma sentinel_demo_reachable:
  "(sentinel_step sentinel_lib_demo sentinel_conf_demo)\<^sup>*\<^sup>* (sentinel_start 0) sentinel_published"
proof -
  let ?s = "(sentinel_start 0)\<lparr>sn_document := Some sentinel_doc, sn_probes := [(0, sentinel_cred)]\<rparr>"
  have a: "sentinel_step sentinel_lib_demo sentinel_conf_demo (sentinel_start 0) ?s"
    using sentinel_step.probed [of "sentinel_start 0" sentinel_lib_demo sentinel_conf_demo sentinel_cred]
    by (simp add: sentinel_start_def sentinel_lib_demo_def sentinel_conf_demo_def sentinel_demo_probe)
  have "(publish_step ''s'' (''{}'' @ [CHR 10]))\<^sup>*\<^sup>* \<lparr>pb_files = (\<lambda>_. None), pb_pc = Resting\<rparr>
      \<lparr>pb_files = (\<lambda>_. None)(''s'' \<mapsto> ''{}'' @ [CHR 10]), pb_pc = Resting\<rparr>"
    by (rule publish_completes [where tmp = "''t''"]) simp_all
  then have "(sentinel_step sentinel_lib_demo sentinel_conf_demo)\<^sup>*\<^sup>* ?s
      (?s\<lparr>sn_publisher := \<lparr>pb_files = (\<lambda>_. None)(''s'' \<mapsto> ''{}'' @ [CHR 10]), pb_pc = Resting\<rparr>\<rparr>)"
    by (intro sentinel_calls [where doc = sentinel_doc])
      (simp_all add: sentinel_start_def sentinel_conf_demo_def sentinel_lib_demo_def status_text_def)
  moreover have "?s\<lparr>sn_publisher := \<lparr>pb_files = (\<lambda>_. None)(''s'' \<mapsto> ''{}'' @ [CHR 10]), pb_pc = Resting\<rparr>\<rparr> = sentinel_published"
    by (simp add: sentinel_start_def sentinel_published_def)
  ultimately show ?thesis using a by (metis converse_rtranclp_into_rtranclp)
qed


end
