(* ===== verification/AdcKeychain.thy ===== *)
theory AdcKeychain imports Json Publish begin

text \<open>
  The operator's tool that keeps the Google credential in the macOS keychain (\<open>scripts/google_adc_keychain.py\<close>): which
  credentials it accepts, storing with read-back, and materialising the file that the containers mount. The keychain is a map
  with the status codes of its calls; \<open>json\<close>, \<open>urlparse\<close> and \<open>unquote\<close> are parameters.
\<close>

section \<open>Which credentials are accepted\<close>

record split_url =
  su_scheme :: string
  su_netloc :: string
  su_path :: string
  su_params :: string
  su_query :: string
  su_fragment :: string

record adc_lib =
  al_loads :: "nat list \<Rightarrow> json option"       \<comment> \<open>\<open>None\<close>: not UTF-8 or not JSON\<close>
  al_urlparse :: "string \<Rightarrow> split_url option"  \<comment> \<open>\<open>None\<close>: a \<open>ValueError\<close>\<close>
  al_unquote :: "string \<Rightarrow> string"

definition ACCOUNT_PREFIX :: string where
  "ACCOUNT_PREFIX = ''/v1/projects/-/serviceAccounts/''"

definition ACCOUNT_SUFFIX :: string where
  "ACCOUNT_SUFFIX = '':generateAccessToken''"

definition trusted_url :: "split_url \<Rightarrow> bool" where
  "trusted_url u \<longleftrightarrow>
     \<not> (su_scheme u \<noteq> ''https'' \<or> su_netloc u \<noteq> ''iamcredentials.googleapis.com'' \<or>
        \<not> py_startswith (su_path u) ACCOUNT_PREFIX \<or> \<not> suffix ACCOUNT_SUFFIX (su_path u) \<or>
        su_params u \<noteq> [] \<or> su_query u \<noteq> [] \<or> su_fragment u \<noteq> [])"

definition source_type_ok :: "json \<Rightarrow> py_error + bool" where
  "source_type_ok v =
     (case v of JList _ \<Rightarrow> Inl TypeError | JObj _ \<Rightarrow> Inl TypeError
      | _ \<Rightarrow> Inr (v = JStr ''authorized_user'' \<or> v = JStr ''external_account''))"

definition impersonated :: "adc_lib \<Rightarrow> string \<Rightarrow> py_error + string" where
  "impersonated lib url =
     (case al_urlparse lib url of
        None \<Rightarrow> Inl (ValueError ''invalid URL'')
      | Some u \<Rightarrow>
          (if \<not> trusted_url u then Inl (ValueError ''ADC uses an untrusted service-account impersonation URL'')
           else (let account = al_unquote lib (slice (length ACCOUNT_PREFIX) (length (su_path u) - length ACCOUNT_SUFFIX) (su_path u)) in
             if suffix ''.iam.gserviceaccount.com'' account then Inr account
             else Inl (ValueError ''ADC impersonation target is not a service-account email''))))"

definition adc_service_account :: "adc_lib \<Rightarrow> nat list \<Rightarrow> py_error + string" where
  "adc_service_account lib data =
     (case al_loads lib data of
        None \<Rightarrow> Inl (ValueError ''ADC content is not valid JSON'')
      | Some (JObj payload) \<Rightarrow>
          (if jget payload ''type'' \<noteq> JStr ''impersonated_service_account''
           then Inl (ValueError ''ADC must use type=impersonated_service_account'')
           else (case jget payload ''source_credentials'' of
               JObj src \<Rightarrow>
                 ebind (source_type_ok (jget src ''type'')) (\<lambda>ok.
                   if \<not> ok then Inl (ValueError ''ADC source must be user or federated credentials, never a service-account key'')
                   else if ''private_key'' \<in> fst ` set src \<or> ''private_key_id'' \<in> fst ` set src
                   then Inl (ValueError ''ADC source contains forbidden private-key material'')
                   else (case jget payload ''service_account_impersonation_url'' of
                       JStr url \<Rightarrow> impersonated lib url
                     | _ \<Rightarrow> Inl TypeError))
             | _ \<Rightarrow> Inl (ValueError ''ADC source must be user or federated credentials, never a service-account key'')))
      | Some _ \<Rightarrow> Inl (ValueError ''ADC must use type=impersonated_service_account''))"

definition validate_adc :: "adc_lib \<Rightarrow> nat list \<Rightarrow> string option \<Rightarrow> py_error + string" where
  "validate_adc lib data expected =
     ebind (adc_service_account lib data) (\<lambda>account.
       if truthy_str expected \<and> Some account \<noteq> expected
       then Inl (ValueError ''ADC impersonation target does not match the expected service account'') else Inr account)"

section \<open>The keychain\<close>

type_synonym keychain = "string \<times> string \<Rightarrow> nat list option"

definition ERR_SEC_ITEM_NOT_FOUND :: int where
  "ERR_SEC_ITEM_NOT_FOUND = -25300"

datatype adc_failure =
    KeychainError string
  | AdcOSError
  | AdcRaised py_error

text \<open>The status of a lookup, or of a write, is the system's; \<open>0\<close> is success.\<close>

record kc_faults =
  kf_find :: "nat \<Rightarrow> int option"   \<comment> \<open>by call; \<open>None\<close>: the lookup works\<close>
  kf_write :: int

definition kc_find :: "int option \<Rightarrow> keychain \<Rightarrow> string \<times> string \<Rightarrow> int \<times> nat list option" where
  "kc_find fault kc k =
     (case fault of Some status \<Rightarrow> (status, None)
      | None \<Rightarrow> (case kc k of None \<Rightarrow> (ERR_SEC_ITEM_NOT_FOUND, None) | Some v \<Rightarrow> (0, Some v)))"

definition kc_get :: "int option \<Rightarrow> keychain \<Rightarrow> string \<times> string \<Rightarrow> adc_failure + nat list" where
  "kc_get fault kc k =
     (let (status, v) = kc_find fault kc k in
      if status = ERR_SEC_ITEM_NOT_FOUND then Inl (KeychainError ''was not found'')
      else if status \<noteq> 0 \<or> v = None then Inl (KeychainError ''Keychain read failed'')
      else Inr (the v))"

definition kc_set :: "kc_faults \<Rightarrow> keychain \<Rightarrow> string \<times> string \<Rightarrow> nat list \<Rightarrow> adc_failure + keychain" where
  "kc_set faults kc k v =
     (let (status, _) = kc_find (kf_find faults 0) kc k in
      if status = 0 \<or> status = ERR_SEC_ITEM_NOT_FOUND
      then (if kf_write faults \<noteq> 0 then Inl (KeychainError ''Keychain write failed'') else Inr (kc(k \<mapsto> v)))
      else Inl (KeychainError ''Keychain lookup failed''))"

section \<open>Materialising\<close>

record adc_dir =
  dir_symlink :: bool
  dir_mode :: "nat option"   \<comment> \<open>\<open>None\<close>: there is no such directory yet\<close>

definition group_or_other :: "nat \<Rightarrow> bool" where
  \<comment> \<open>\<open>mode & 0o077\<close>\<close>
  "group_or_other mode \<longleftrightarrow> mode mod 64 \<noteq> 0"

text \<open>A created directory has mode 0700, less what the umask takes; the file has mode 0600.\<close>

definition materialize_adc :: "adc_dir \<Rightarrow> nat list \<Rightarrow> adc_failure + (nat list \<times> nat)" where
  "materialize_adc dir data =
     (if dir_symlink dir then Inl (AdcRaised (ValueError ''ADC destination directory must not be a symlink''))
      else if group_or_other (case dir_mode dir of None \<Rightarrow> 448 | Some mode \<Rightarrow> mode)
      then Inl (AdcRaised (ValueError ''ADC destination directory must have mode 0700 or stricter''))
      else Inr (data, 384))"

section \<open>The commands\<close>

datatype adc_command =
    Store "string option" bool      \<comment> \<open>expected account, \<open>--remove-source\<close>\<close>
  | Materialize "string option"
  | AdcStatus "string option"

record adc_state =
  av_items :: keychain
  av_source :: "nat list option"            \<comment> \<open>the file named by \<open>--source\<close>\<close>
  av_destination :: "(nat list \<times> nat) option"  \<comment> \<open>contents and mode\<close>

definition adc_try :: "py_error + 'a \<Rightarrow> adc_failure + 'a" where
  "adc_try m = (case m of Inl e \<Rightarrow> Inl (AdcRaised e) | Inr a \<Rightarrow> Inr a)"

definition store_source ::
    "adc_lib \<Rightarrow> kc_faults \<Rightarrow> string \<times> string \<Rightarrow> string option \<Rightarrow> bool \<Rightarrow> adc_state \<Rightarrow> (adc_failure + unit) \<times> adc_state" where
  "store_source lib faults k expected remove_source s =
     (case av_source s of
        None \<Rightarrow> (Inl AdcOSError, s)
      | Some data \<Rightarrow>
          (case ebind (adc_try (validate_adc lib data expected)) (\<lambda>account. kc_set faults (av_items s) k data) of
             Inl e \<Rightarrow> (Inl e, s)
           | Inr items \<Rightarrow>
               (let s1 = s\<lparr>av_items := items\<rparr> in
                case kc_get (kf_find faults 1) items k of
                  Inl e \<Rightarrow> (Inl e, s1)
                | Inr v \<Rightarrow>
                    (if v \<noteq> data then (Inl (KeychainError ''Keychain verification failed; source was preserved''), s1)
                     else (Inr (), if remove_source then s1\<lparr>av_source := None\<rparr> else s1)))))"

definition stored_adc :: "adc_lib \<Rightarrow> kc_faults \<Rightarrow> string \<times> string \<Rightarrow> string option \<Rightarrow> adc_state \<Rightarrow> adc_failure + nat list" where
  "stored_adc lib faults k expected s =
     ebind (kc_get (kf_find faults 0) (av_items s) k) (\<lambda>data.
     ebind (adc_try (validate_adc lib data expected)) (\<lambda>account. Inr data))"

definition run_command ::
    "adc_lib \<Rightarrow> kc_faults \<Rightarrow> adc_dir \<Rightarrow> string \<times> string \<Rightarrow> adc_command \<Rightarrow> adc_state \<Rightarrow> (adc_failure + unit) \<times> adc_state" where
  "run_command lib faults dir k command s =
     (case command of
        Store expected remove_source \<Rightarrow> store_source lib faults k expected remove_source s
      | AdcStatus expected \<Rightarrow> (ebind (stored_adc lib faults k expected s) (\<lambda>data. Inr ()), s)
      | Materialize expected \<Rightarrow>
          (case ebind (stored_adc lib faults k expected s) (materialize_adc dir) of
             Inl e \<Rightarrow> (Inl e, s)
           | Inr written \<Rightarrow> (Inr (), s\<lparr>av_destination := Some written\<rparr>)))"

text \<open>\<open>main\<close> catches \<open>KeychainError\<close>, \<open>OSError\<close> and \<open>ValueError\<close>; anything else escapes.\<close>

definition exit_status :: "adc_failure + unit \<Rightarrow> py_error + nat" where
  "exit_status r =
     (case r of
        Inr u \<Rightarrow> Inr 0
      | Inl (AdcRaised (ValueError m)) \<Rightarrow> Inr 2
      | Inl (AdcRaised UnicodeDecodeError) \<Rightarrow> Inr 2
      | Inl (AdcRaised UnicodeEncodeError) \<Rightarrow> Inr 2
      | Inl (AdcRaised e) \<Rightarrow> Inl e
      | Inl e \<Rightarrow> Inr 2)"

definition adc_main ::
    "adc_lib \<Rightarrow> kc_faults \<Rightarrow> adc_dir \<Rightarrow> string \<times> string \<Rightarrow> adc_command \<Rightarrow> adc_state \<Rightarrow> (py_error + nat) \<times> adc_state" where
  "adc_main lib faults dir k command s = (let (r, s') = run_command lib faults dir k command s in (exit_status r, s'))"

section \<open>Lemmas\<close>

text \<open>The operator runs commands and changes the source file at will.\<close>

inductive adc_step :: "adc_lib \<Rightarrow> adc_state \<Rightarrow> adc_state \<Rightarrow> bool" for lib where
  command: "adc_step lib s (snd (adc_main lib faults dir k command s))"
| edited: "adc_step lib s (s\<lparr>av_source := src\<rparr>)"

definition adc_start :: adc_state where
  "adc_start = \<lparr>av_items = (\<lambda>_. None), av_source = None, av_destination = None\<rparr>"

text \<open>A credential without key material: it impersonates an account at Google, from a user's or a federated login.\<close>

definition keyless :: "adc_lib \<Rightarrow> nat list \<Rightarrow> bool" where
  "keyless lib data \<longleftrightarrow>
     (\<exists>payload src url u. al_loads lib data = Some (JObj payload) \<and> jget payload ''source_credentials'' = JObj src \<and>
        jget src ''private_key'' = JNull \<and> jget src ''private_key_id'' = JNull \<and>
        jget payload ''service_account_impersonation_url'' = JStr url \<and> al_urlparse lib url = Some u \<and>
        su_scheme u = ''https'' \<and> su_netloc u = ''iamcredentials.googleapis.com'')"

lemma jget_absent: "k \<notin> fst ` set d \<Longrightarrow> jget d k = JNull"
  by (simp add: jget_def dict_get_or_def map_of_eq_None_iff [symmetric])

lemma validate_adc_keyless:
  assumes "validate_adc lib data expected = Inr account"
  shows "keyless lib data \<and> (truthy_str expected \<longrightarrow> expected = Some account)"
proof -
  have a: "adc_service_account lib data = Inr account" "truthy_str expected \<longrightarrow> expected = Some account"
    using assms by (auto simp: validate_adc_def ebind_eq_Inr split: if_splits)
  obtain v where v: "al_loads lib data = Some v" using a(1) by (cases "al_loads lib data") (auto simp: adc_service_account_def)
  obtain payload where p: "v = JObj payload" using a(1) v by (cases v) (auto simp: adc_service_account_def)
  note a1 = a(1) [unfolded adc_service_account_def v p option.case json.case]
  obtain src where src: "jget payload ''source_credentials'' = JObj src"
    using a1 by (cases "jget payload ''source_credentials''") (auto split: if_splits)
  have n: "''private_key'' \<notin> fst ` set src" "''private_key_id'' \<notin> fst ` set src"
    using a1 unfolding src by (auto simp: ebind_eq_Inr split: if_splits)
  obtain url where url: "jget payload ''service_account_impersonation_url'' = JStr url" "impersonated lib url = Inr account"
    using a1 unfolding src by (cases "jget payload ''service_account_impersonation_url''") (auto simp: ebind_eq_Inr split: if_splits)
  obtain u where u: "al_urlparse lib url = Some u" "trusted_url u"
    using url(2) by (cases "al_urlparse lib url") (auto simp: impersonated_def split: if_splits)
  have "keyless lib data"
    unfolding keyless_def using v p src jget_absent [OF n(1)] jget_absent [OF n(2)] url(1) u by (auto simp: trusted_url_def)
  then show ?thesis using a(2) by simp
qed

lemma kc_set_Inr: "kc_set faults kc k v = Inr kc' \<Longrightarrow> kc' = kc(k \<mapsto> v)"
  by (auto simp: kc_set_def Let_def split: prod.splits if_splits)

lemma kc_get_Inr: "kc_get fault kc k = Inr v \<Longrightarrow> kc k = Some v"
  by (auto simp: kc_get_def kc_find_def ERR_SEC_ITEM_NOT_FOUND_def split: option.splits if_splits)

lemma adc_try_Inr: "adc_try m = Inr a \<longleftrightarrow> m = Inr a"
  by (auto simp: adc_try_def split: sum.splits)

lemma store_source_cases:
  assumes "store_source lib faults k expected remove_source s = (r, s')"
  obtains (refused) e where "r = Inl e" "s' = s"
  | (unverified) e data account where "r = Inl e" "av_source s = Some data" "validate_adc lib data expected = Inr account"
      "s' = s\<lparr>av_items := (av_items s)(k \<mapsto> data)\<rparr>"
  | (stored) data account where "r = Inr ()" "av_source s = Some data" "validate_adc lib data expected = Inr account"
      "s' = s\<lparr>av_items := (av_items s)(k \<mapsto> data), av_source := (if remove_source then None else av_source s)\<rparr>"
proof (cases "av_source s")
  case None
  then show thesis using refused assms by (auto simp: store_source_def)
next
  case (Some data)
  note src = Some
  show thesis
  proof (cases "ebind (adc_try (validate_adc lib data expected)) (\<lambda>account. kc_set faults (av_items s) k data)")
    case (Inl e)
    then show thesis using refused src assms by (auto simp: store_source_def)
  next
    case (Inr items)
    then obtain account where v: "validate_adc lib data expected = Inr account" "items = (av_items s)(k \<mapsto> data)"
      by (auto simp: ebind_eq_Inr adc_try_Inr dest: kc_set_Inr)
    show thesis
    proof (cases "kc_get (kf_find faults 1) items k")
      case (Inl e)
      then show thesis using unverified [OF _ src v(1)] src Inr v(2) assms by (auto simp: store_source_def Let_def)
    next
      case (Inr w)
      then have "w = data" using kc_get_Inr [OF Inr] v(2) by simp
      then show thesis using stored [OF _ src v(1)] src \<open>ebind _ _ = Inr items\<close> Inr v(2) assms
        by (cases remove_source) (auto simp: store_source_def Let_def)
    qed
  qed
qed

lemma stored_adc_Inr:
  "stored_adc lib faults k expected s = Inr data \<Longrightarrow>
     av_items s k = Some data \<and> (\<exists>account. validate_adc lib data expected = Inr account)"
  by (auto simp: stored_adc_def ebind_eq_Inr adc_try_Inr dest: kc_get_Inr)

definition adc_inv :: "adc_lib \<Rightarrow> adc_state \<Rightarrow> bool" where
  "adc_inv lib s \<longleftrightarrow>
     (\<forall>k data. av_items s k = Some data \<longrightarrow> keyless lib data) \<and>
     (\<forall>data mode. av_destination s = Some (data, mode) \<longrightarrow> keyless lib data \<and> mode = 384)"

lemma run_command_inv:
  assumes "adc_inv lib s"
  shows "adc_inv lib (snd (run_command lib faults dir k command s))"
proof (cases command)
  case (Store expected remove_source)
  obtain r s' where s: "store_source lib faults k expected remove_source s = (r, s')" by force
  then have "adc_inv lib s'"
    using assms by (cases rule: store_source_cases) (auto simp: adc_inv_def dest: validate_adc_keyless)
  then show ?thesis using s Store by (simp add: run_command_def)
next
  case (Materialize expected)
  show ?thesis
  proof (cases "ebind (stored_adc lib faults k expected s) (materialize_adc dir)")
    case (Inr w)
    then obtain data where "stored_adc lib faults k expected s = Inr data" "materialize_adc dir data = Inr w"
      by (auto simp: ebind_eq_Inr)
    then have "w = (data, 384)" by (simp add: materialize_adc_def split: if_splits)
    moreover obtain account where "validate_adc lib data expected = Inr account"
      using stored_adc_Inr [OF \<open>stored_adc lib faults k expected s = Inr data\<close>] by blast
    ultimately have "w = (data, 384)" "keyless lib data" using validate_adc_keyless by simp_all
    then show ?thesis using assms Inr Materialize by (simp add: run_command_def adc_inv_def)
  qed (use assms Materialize in \<open>simp add: run_command_def\<close>)
qed (use assms in \<open>simp add: run_command_def\<close>)

interpretation adc: initialised_invariant "adc_step lib" "adc_inv lib" adc_start for lib
proof unfold_locales
  fix s s'
  assume "adc_inv lib s" "adc_step lib s s'"
  from this(2,1) show "adc_inv lib s'"
  proof (induction rule: adc_step.induct)
    case (command s faults dir k command)
    then show ?case using run_command_inv [OF command, of faults dir k] by (simp add: adc_main_def case_prod_beta Let_def)
  qed (simp add: adc_inv_def)
qed (simp add: adc_inv_def adc_start_def)

text \<open>A process killed while it materialises leaves the old file or the whole new one.\<close>

lemma materialized_whole:
  assumes "(publishes path (keyless lib))\<^sup>*\<^sup>* p p'" "publisher_inv path (keyless lib) p" "pb_files p' path = Some data"
  shows "keyless lib data"
  using publishing.inv_steps [OF assms(1,2)] assms(3) by (simp add: publisher_inv_def)

section \<open>Properties\<close>


text \<open>
  Storing never loses the credential: afterwards the source file is as it was, or the command succeeded and the keychain holds
  exactly its contents; and a success says that the keychain holds them and that they name the expected account.
\<close>

theorem store_keeps_credential:
  assumes "adc_main lib faults dir k (Store expected remove_source) s = (res, s')"
  shows "(av_source s' = av_source s \<or> res = Inr 0) \<and>
    (res = Inr 0 \<longrightarrow> (\<exists>data account. av_source s = Some data \<and> av_items s' k = Some data \<and>
       validate_adc lib data expected = Inr account)) \<and>
    (\<forall>k'. k' \<noteq> k \<longrightarrow> av_items s' k' = av_items s k')"
proof -
  obtain r where r: "store_source lib faults k expected remove_source s = (r, s')" "res = exit_status r"
    using assms by (auto simp: adc_main_def run_command_def split: prod.splits)
  have z: "exit_status (Inl e) \<noteq> Inr 0" for e
    by (auto simp: exit_status_def split: adc_failure.splits py_error.splits)
  from r(1) show ?thesis
    by (cases rule: store_source_cases) (use r(2) z in \<open>auto simp: exit_status_def\<close>)
qed

text \<open>
  A credential that names no account to impersonate is refused by a \<open>TypeError\<close>, which \<open>main\<close> does not catch: the command
  ends with a traceback instead of its error message and status 2.
\<close>

lemma adc_main_escapes:
  assumes "al_loads lib data = Some (JObj [(''type'', JStr ''impersonated_service_account''),
      (''source_credentials'', JObj [(''type'', JStr ''authorized_user'')])])" "av_source s = Some data"
  shows "fst (adc_main lib faults dir k (Store expected remove_source) s) = Inl TypeError"
  using assms
  by (simp add: adc_main_def run_command_def store_source_def validate_adc_def adc_service_account_def source_type_ok_def
      adc_try_def exit_status_def jget_def dict_get_or_def)

section \<open>Witnesses\<close>

definition adc_demo_lib :: adc_lib where
  "adc_demo_lib = \<lparr>al_loads = (\<lambda>d. Some (JObj [(''type'', JStr ''impersonated_service_account''),
       (''source_credentials'', JObj [(''type'', JStr ''authorized_user'')]), (''service_account_impersonation_url'', JStr ''u'')])),
     al_urlparse = (\<lambda>u. Some \<lparr>su_scheme = ''https'', su_netloc = ''iamcredentials.googleapis.com'',
       su_path = ''/v1/projects/-/serviceAccounts/x.iam.gserviceaccount.com:generateAccessToken'', su_params = [], su_query = [], su_fragment = []\<rparr>),
     al_unquote = (\<lambda>s. s)\<rparr>"

definition no_faults :: kc_faults where
  "no_faults = \<lparr>kf_find = (\<lambda>_. None), kf_write = 0\<rparr>"

definition demo_source :: adc_state where
  "demo_source = adc_start\<lparr>av_source := Some [7]\<rparr>"

lemma adc_demo_valid: "validate_adc adc_demo_lib [7] None = Inr ''x.iam.gserviceaccount.com''"
proof -
  have "impersonated adc_demo_lib ''u'' = Inr ''x.iam.gserviceaccount.com''" by code_simp
  then show ?thesis
    by (simp add: validate_adc_def adc_service_account_def truthy_str_def source_type_ok_def jget_def dict_get_or_def)
      (simp add: adc_demo_lib_def jget_def dict_get_or_def source_type_ok_def)
qed

lemma demo_store: "adc_main adc_demo_lib no_faults \<lparr>dir_symlink = False, dir_mode = None\<rparr> (''s'', ''a'') (Store None True) demo_source =
    (Inr 0, \<lparr>av_items = (\<lambda>_. None)((''s'', ''a'') \<mapsto> [7]), av_source = None, av_destination = None\<rparr>)"
  by (simp add: adc_main_def run_command_def store_source_def demo_source_def adc_start_def adc_demo_valid adc_try_def kc_set_def
      kc_find_def kc_get_def no_faults_def ERR_SEC_ITEM_NOT_FOUND_def exit_status_def)


lemma store_keeps_credential_witness: "\<exists>data. av_source demo_source = Some data \<and> data = [7]"
  using store_keeps_credential [OF demo_store] by auto

end
