(* ===== verification/Spec2Isabelle.thy ===== *)
theory Spec2Isabelle imports McpCall PiiPools WireRedaction ToolsEndToEnd Dashboard StripEntitlements Onboard Sentinel AdcKeychain begin

text \<open>
  A verification development for the LLM governance gateway: a public proxy (\<open>proxy/app\<close>) that
  authenticates callers, limits their rate, has every prompt inspected by an internal governance service
  (\<open>governance/app\<close>) and passes the approved text to a provider; a reverse proxy for MCP tool calls
  (\<open>mcpproxy/app\<close>) that asks a policy sidecar before a call and scans the tool's answer after it; and the
  operator's tools that set them up (\<open>scripts\<close>, \<open>opa-sidecar\<close>).

  Conventions. A handler is a function of its request, of the replies of the services it calls and of the
  state it changes, and returns the reply, the new state and what it sent, in order. An exception is the
  left side of a sum; the code's early returns are its branches. A dictionary is an association list in
  insertion order, a JSON value a \<open>json\<close>, a Python integer an \<open>int\<close>. A generator is the list of what it
  yields. What is not under \<open>src/\<close> (pydantic validation, \<open>json\<close>, YAML, Unicode decoding of streams, bcrypt, JWT,
  Redis' and PostgreSQL's transport, httpx, the DLP service, the classifiers, OPA, the providers, the macOS
  keychain) is a parameter; difflib, semaphores, Redis sorted sets, file replacement and the SQL the code
  sends are modelled, since the code relies on what they do.

  Shared theories. \<open>Prelude\<close>: Python strings, dictionaries, exceptions. \<open>Transition\<close>: the locales
  \<open>step_invariant\<close> and its extensions in which the state machines state their invariants.
  \<open>Json\<close>, \<open>Utf8\<close>, \<open>Difflib\<close>, \<open>Dto\<close> (dumping of typed models), \<open>Publish\<close> (replacing a file in one step, by calls
  between which the process may be killed).

  The governance service. \<open>PiiFindings\<close>, \<open>GoogleDlp\<close>, \<open>PiiScan\<close> (\<open>pii.py\<close>: validation, merging and
  redaction of findings; chunking of long texts, with fuel the length of the encoding plus one, which the lemmas
  show to be enough, since a chunk always moves forward; the retry loop, with fuel the number of attempts the
  deadline admits, so that a scan always returns). \<open>PiiPools\<close>: the two semaphores of \<open>pii.py\<close> with their queues, as a step
  relation. \<open>GovPipeline\<close> (\<open>pipeline.py\<close>, \<open>harm.py\<close>, \<open>opa.py\<close>). \<open>Uuid7\<close> and \<open>AuditDb\<close> (\<open>audit.py\<close>,
  \<open>pseudonym.py\<close>, erasure). \<open>GovCredentials\<close> (credentials, settings, start-up of the PII module) and \<open>Sentinel\<close> (the
  process of \<open>google_credential_sentinel.py\<close> that probes the credential, with time, kills and restarts).
  \<open>Retention\<close> (\<open>retention.py\<close>: monthly partitions). \<open>Entitlements\<close> (\<open>entitlements.py\<close>). \<open>GovApi\<close>: the HTTP
  endpoints of \<open>main.py\<close> over the former; paging through the export carries fuel, the number of rows plus one.

  The tool-call proxy. \<open>CircuitBreaker\<close> (\<open>circuit_breaker.py\<close>: the class, and the breaker shared by
  concurrent requests as a step relation), \<open>ToolTransport\<close> (\<open>transport.py\<close>), \<open>McpCall\<close> (\<open>main.py\<close>,
  \<open>opa_client.py\<close>, \<open>governance_client.py\<close>: the tool-call endpoint, its effects in order).

  The gateway: requests. \<open>Redistribute\<close> (\<open>redistribute_redacted_text\<close>). \<open>GatewayPayload\<close>: the interface of a payload
  as a locale, with governed leaves, governance text, redaction and the frame that redaction keeps; it is
  interpreted on the three wire protocols: \<open>ChatTypes\<close> (\<open>protocol_types.py\<close>), \<open>AnthropicTypes\<close>
  (\<open>anthropic_compat.py\<close>) and \<open>ResponsesCompat\<close> (\<open>responses_compat.py\<close>). \<open>RateLimit\<close> (\<open>rate_limit.py\<close> with
  its Lua script), \<open>Auth\<close> (\<open>auth.py\<close>, \<open>bootstrap.py\<close>), \<open>GatewayHttp\<close> (headers, errors, body limit,
  routing), \<open>Usage\<close> (usage capture and pricing), \<open>ProviderDispatch\<close> (\<open>provider_capabilities.py\<close>,
  \<open>provider_dispatch.py\<close>), \<open>GovClient\<close> (\<open>governance_client.py\<close>), and \<open>Gateway\<close>: \<open>_run_gateway_pipeline\<close> and
  what surrounds it in \<open>main.py\<close>. \<open>ClientCodecs\<close> (\<open>client_codecs.py\<close>), \<open>GatewayApi\<close> (the endpoints of \<open>main.py\<close>) and
  \<open>GatewayEdge\<close> (what they let through), \<open>Dashboard\<close> (\<open>dashboard.py\<close>).

  The gateway: providers. \<open>ChatStream\<close>, \<open>AnthropicCompat\<close>, \<open>StreamEvents\<close>, \<open>ResponsesCompat\<close> and
  \<open>ResponsesStream\<close>: decoding of provider streams and the translations between the client protocols. \<open>GeminiCommon\<close> with
  \<open>GeminiFacts\<close> and \<open>AnthropicProvider\<close>: the translations to the two foreign provider protocols. \<open>UpstreamHttp\<close>
  (\<open>errors.py\<close>, \<open>native.py\<close>) and \<open>ProviderAdapters\<close> (the other files of \<open>providers/\<close>), each adapter a function of the call,
  of the upstream's answer and of the state it keeps; \<open>AdapterFacts\<close> and \<open>UpstreamOpaque\<close> hold their invariant and what they
  hide; \<open>WireRedaction\<close> follows a redaction through them.

  The services together. \<open>EndToEnd\<close> puts the governance service of \<open>GovApi\<close>, with the scanner of \<open>PiiScan\<close>, behind the
  gateway's client of \<open>GovClient\<close>: body limit, request and reply on the wire, each of the client's attempts a run of the
  handler. \<open>ToolsEndToEnd\<close> does the same for a tool call: the gateway's endpoint, the tool proxy of \<open>McpCall\<close>, and the
  governance service that scans the answer.

  The operator's tools. \<open>Provision\<close> (\<open>provision.py\<close>: configuration to tables, keys and policy documents), \<open>Onboard\<close>
  (\<open>onboard.py\<close>, and onboarding followed by provisioning and authentication), \<open>AdcKeychain\<close>
  (\<open>google_adc_keychain.py\<close>), \<open>StripEntitlements\<close> (\<open>strip_entitlements.py\<close>).

  What the lemmas show. Fail-closed behaviour of both proxies and of the pipeline (nothing is contacted
  without an explicit allow; an error of a service is a refusal), also across the two services; redaction replaces exactly
  the governed text, in each protocol, after each translation and on the wire, and nothing that was found is sent; translated
  streams are well formed and keep their text; no upstream error text leaks; tenants see their own data only;
  the limiter, the breaker, the scan slots, the client pool, the status file, the keychain and the audit tables keep their
  invariants under every interleaving; keys, caches, pages, the provisioner and the image build behave like their
  references. Some theorems state what the code does against its intention (a crashed probe, a second erasure, keys that
  keep their roles, streams the gateway cannot read back).

  Not modelled. Database migrations (the keys, the append-only trigger and the row-level policy they install are part of
  the models of the tables); application start-up, the construction of clients and pools, metrics, logging and CORS
  (framework configuration); the dashboard's templates and the snippets that \<open>onboard.py\<close> prints for agents (fixed text); the
  live checks and the demonstration under \<open>scripts\<close>, which drive a running deployment, and two command lines around modelled
  functions. Cancellation of a scan by asyncio, and the parsing of JSON into typed requests, which pydantic does, are left out.
\<close>

end
